(* ===== verification/PyText.thy ===== *)
theory PyText
  imports Prelude "HOL-Library.Char_ord" "HOL-Library.List_Lexorder" "HOL-Library.Product_Lexorder"
begin

text \<open>
  The string operations of Python's standard library that the program uses. A Python \<open>str\<close> is a
  \<open>string\<close>; a character is a code point below 256, so the predicates below are those of the
  Latin-1 range. \<open>shlex.split\<close> is modelled as the state machine of the standard library
  (\<open>posix=True\<close>, \<open>whitespace_split=True\<close>, no comments, no punctuation characters).
\<close>

section \<open>Characters and trimming\<close>

definition code_point :: "char \<Rightarrow> nat" where
  "code_point c = of_char c"

definition is_space :: "char \<Rightarrow> bool" where
  "is_space c = (let n = code_point c in
     (9 \<le> n \<and> n \<le> 13) \<or> (28 \<le> n \<and> n \<le> 32) \<or> n = 133 \<or> n = 160)"

definition is_decimal :: "char \<Rightarrow> bool" where
  "is_decimal c = (48 \<le> code_point c \<and> code_point c \<le> 57)"

definition is_lower_alpha :: "char \<Rightarrow> bool" where
  "is_lower_alpha c = (97 \<le> code_point c \<and> code_point c \<le> 122)"

definition strip :: "string \<Rightarrow> string" where
  "strip s = rev (dropWhile is_space (rev (dropWhile is_space s)))"

text \<open>\<open>str.lower\<close>: ASCII and Latin-1 capitals move by 32; the multiplication sign (215) does not.\<close>

definition lower_char :: "char \<Rightarrow> char" where
  "lower_char c = (let n = code_point c in
     if (65 \<le> n \<and> n \<le> 90) \<or> (192 \<le> n \<and> n \<le> 222 \<and> n \<noteq> 215) then char_of (n + 32) else c)"

definition lower :: "string \<Rightarrow> string" where
  "lower s = map lower_char s"

definition replace_char :: "char \<Rightarrow> char \<Rightarrow> string \<Rightarrow> string" where
  "replace_char a b s = map (\<lambda>c. if c = a then b else c) s"

definition startswith :: "string \<Rightarrow> string \<Rightarrow> bool" where
  "startswith s p = (take (length p) s = p)"

text \<open>\<open>sep.join(parts)\<close>.\<close>

fun join :: "string \<Rightarrow> string list \<Rightarrow> string" where
  "join sep [] = ''''"
| "join sep [x] = x"
| "join sep (x # y # xs) = x @ sep @ join sep (y # xs)"

text \<open>\<open>s.split(sep, 1)[1]\<close> for a one-character separator that occurs in \<open>s\<close>.\<close>

definition after_first :: "char \<Rightarrow> string \<Rightarrow> string" where
  "after_first c s = tl (dropWhile (\<lambda>x. x \<noteq> c) s)"

definition is_blank :: "string \<Rightarrow> bool" where
  "is_blank s = (strip s = '''')"

lemma strip_Nil [simp]: "strip '''' = ''''"
  by (simp add: strip_def)

lemma is_blank_iff: "is_blank s \<longleftrightarrow> (\<forall>c \<in> set s. is_space c)"
proof
  assume "is_blank s"
  then have "\<forall>c \<in> set (dropWhile is_space s). is_space c"
    by (simp add: is_blank_def strip_def)
  then have "dropWhile is_space s = []"
    using hd_dropWhile hd_in_set by blast
  then show "\<forall>c \<in> set s. is_space c" by (simp add: dropWhile_eq_Nil_conv)
next
  assume "\<forall>c \<in> set s. is_space c"
  then have "\<forall>c \<in> set (dropWhile is_space s). is_space c" by (meson set_dropWhileD)
  then show "is_blank s" by (simp add: is_blank_def strip_def)
qed

lemma strip_shape: "strip s = '''' \<or> \<not> is_space (hd (strip s))"
proof (cases "dropWhile is_space s")
  case (Cons c u)
  then have c: "\<not> is_space c" by (simp add: dropWhile_eq_Cons_conv)
  with Cons have "strip s = rev (dropWhile is_space (rev u @ [c]))" by (simp add: strip_def)
  with c show ?thesis by (simp add: dropWhile_append hd_rev)
next
  case Nil
  then show ?thesis unfolding strip_def by (simp only: rev.simps dropWhile.simps simp_thms)
qed

lemma strip_idem [simp]: "strip (strip s) = strip s"
proof -
  have "dropWhile is_space (strip s) = strip s" using strip_shape[of s] by (cases "strip s") auto
  moreover have "dropWhile is_space (rev (strip s)) = rev (strip s)"
    by (simp add: strip_def dropWhile_idem)
  ultimately show ?thesis by (simp add: strip_def[of "strip s"])
qed

lemma is_blank_Nil [simp]: "is_blank ''''"
  by (simp add: is_blank_def)

lemma lower_char_space [simp]: "is_space (lower_char c) = is_space c"
  by (auto simp: lower_char_def is_space_def code_point_def Let_def)

lemma lower_char_idem [simp]: "lower_char (lower_char c) = lower_char c"
  by (auto simp: lower_char_def code_point_def Let_def)

lemma lower_idem [simp]: "lower (lower s) = lower s"
  by (simp add: lower_def)
lemma strip_map: "(\<And>c. is_space (f c) = is_space c) \<Longrightarrow> strip (map f s) = map f (strip s)"
  by (simp add: strip_def dropWhile_map comp_def rev_map)
lemma strip_lower [simp]: "strip (lower s) = lower (strip s)"
  by (simp add: lower_def strip_map)
section \<open>Decimal numerals\<close>

definition digit_char :: "nat \<Rightarrow> char" where
  "digit_char d = char_of (48 + d)"

definition char_digit :: "char \<Rightarrow> nat" where
  "char_digit c = code_point c - 48"

fun nat_str :: "nat \<Rightarrow> string" where
  "nat_str n = (if n < 10 then [digit_char n] else nat_str (n div 10) @ [digit_char (n mod 10)])"

declare nat_str.simps [simp del]

text \<open>\<open>str(i)\<close> of an integer.\<close>

definition int_str :: "int \<Rightarrow> string" where
  "int_str i = (if i < 0 then ''-'' @ nat_str (nat (- i)) else nat_str (nat i))"

text \<open>\<open>int(text)\<close> of a string of decimal digits.\<close>

definition decimal_value :: "string \<Rightarrow> nat" where
  "decimal_value s = foldl (\<lambda>n c. 10 * n + char_digit c) 0 s"

definition isdecimal :: "string \<Rightarrow> bool" where
  "isdecimal s = (s \<noteq> '''' \<and> (\<forall>c \<in> set s. is_decimal c))"

lemma code_point_digit: "d < 10 \<Longrightarrow> code_point (digit_char d) = 48 + d"
  by (simp add: code_point_def digit_char_def)

lemma is_decimal_digit [simp]: "d < 10 \<Longrightarrow> is_decimal (digit_char d)"
  by (simp add: is_decimal_def code_point_digit)

lemma char_digit_digit [simp]: "d < 10 \<Longrightarrow> char_digit (digit_char d) = d"
  by (simp add: char_digit_def code_point_digit)

lemma nat_str_nonempty [simp]: "nat_str n \<noteq> ''''"
  by (subst nat_str.simps) simp

lemma nat_str_decimal: "\<forall>c \<in> set (nat_str n). is_decimal c"
proof (induction n rule: nat_str.induct)
  case (1 n)
  show ?case
  proof (cases "n < 10")
    case True
    then show ?thesis by (subst nat_str.simps) simp
  next
    case False
    with 1 show ?thesis by (subst nat_str.simps) auto
  qed
qed

lemma isdecimal_nat_str [simp]: "isdecimal (nat_str n)"
  by (simp add: isdecimal_def nat_str_decimal)

lemma decimal_value_snoc: "decimal_value (s @ [c]) = 10 * decimal_value s + char_digit c"
  by (simp add: decimal_value_def)

lemma decimal_value_nat_str [simp]: "decimal_value (nat_str n) = n"
proof (induction n rule: nat_str.induct)
  case (1 n)
  show ?case
  proof (cases "n < 10")
    case True
    then show ?thesis by (subst nat_str.simps) (simp add: decimal_value_def)
  next
    case False
    with 1 show ?thesis by (subst nat_str.simps) (simp add: decimal_value_snoc)
  qed
qed

lemma length_nat_str: "n < 10 ^ k \<Longrightarrow> 0 < k \<Longrightarrow> length (nat_str n) \<le> k"
proof (induction k arbitrary: n)
  case (Suc k)
  show ?case
  proof (cases "n < 10")
    case True
    then show ?thesis by (subst nat_str.simps) simp
  next
    case False
    with Suc.prems have "0 < k" by (cases k) auto
    have "n div 10 < 10 ^ k" using Suc.prems by auto
    with Suc.IH \<open>0 < k\<close> have "length (nat_str (n div 10)) \<le> k" by blast
    with False show ?thesis by (subst nat_str.simps) simp
  qed
qed simp

section \<open>\<open>shlex.split\<close>\<close>

datatype shlex_error = NoClosingQuotation | NoEscapedCharacter

text \<open>
  The lexer state: between tokens, inside an unquoted word, inside a quote, or after a backslash
  (which remembers whether it was met inside a double quote).
\<close>

datatype shlex_state = LexSpace | LexWord | LexQuote char | LexEscape "char option"

definition shlex_white :: "char \<Rightarrow> bool" where
  "shlex_white c = (code_point c \<in> {32, 9, 13, 10})"

definition shlex_quote :: "char \<Rightarrow> bool" where
  "shlex_quote c = (code_point c \<in> {34, 39})"

definition shlex_escape :: "char \<Rightarrow> bool" where
  "shlex_escape c = (code_point c = 92)"

definition shlex_plain :: "char \<Rightarrow> bool" where
  "shlex_plain c = (\<not> shlex_white c \<and> \<not> shlex_quote c \<and> \<not> shlex_escape c)"

text \<open>
  \<open>shlex_go st tok s\<close> reads \<open>s\<close> with the token read so far; it returns the tokens still to come.
\<close>

fun shlex_go :: "shlex_state \<Rightarrow> string \<Rightarrow> string \<Rightarrow> (shlex_error, string list) result" where
  "shlex_go LexSpace tok [] = Inr []"
| "shlex_go LexSpace tok (c # cs) =
     (if shlex_white c then shlex_go LexSpace '''' cs
      else if shlex_escape c then shlex_go (LexEscape None) '''' cs
      else if shlex_quote c then shlex_go (LexQuote c) '''' cs
      else shlex_go LexWord [c] cs)"
| "shlex_go LexWord tok [] = Inr [tok]"
| "shlex_go LexWord tok (c # cs) =
     (if shlex_white c then rbind (shlex_go LexSpace '''' cs) (\<lambda>ts. Inr (tok # ts))
      else if shlex_quote c then shlex_go (LexQuote c) tok cs
      else if shlex_escape c then shlex_go (LexEscape None) tok cs
      else shlex_go LexWord (tok @ [c]) cs)"
| "shlex_go (LexQuote q) tok [] = Inl NoClosingQuotation"
| "shlex_go (LexQuote q) tok (c # cs) =
     (if c = q then shlex_go LexWord tok cs
      else if shlex_escape c \<and> code_point q = 34 then shlex_go (LexEscape (Some q)) tok cs
      else shlex_go (LexQuote q) (tok @ [c]) cs)"
| "shlex_go (LexEscape e) tok [] = Inl NoEscapedCharacter"
| "shlex_go (LexEscape None) tok (c # cs) = shlex_go LexWord (tok @ [c]) cs"
| "shlex_go (LexEscape (Some q)) tok (c # cs) =
     (if \<not> shlex_escape c \<and> c \<noteq> q then shlex_go (LexQuote q) (tok @ [CHR 0x5C, c]) cs
      else shlex_go (LexQuote q) (tok @ [c]) cs)"

definition shlex_split :: "string \<Rightarrow> (shlex_error, string list) result" where
  "shlex_split s = shlex_go LexSpace '''' s"

definition plain_word :: "string \<Rightarrow> bool" where
  "plain_word w = (w \<noteq> '''' \<and> (\<forall>c \<in> set w. shlex_plain c))"

lemma shlex_go_plain:
  "\<forall>c \<in> set w. shlex_plain c \<Longrightarrow>
   shlex_go LexWord tok (w @ rest) = shlex_go LexWord (tok @ w) rest"
  by (induction w arbitrary: tok) (auto simp: shlex_plain_def)

lemma shlex_go_word:
  "plain_word w \<Longrightarrow> shlex_go LexSpace '''' (w @ rest) = shlex_go LexWord w rest"
proof (cases w)
  case (Cons c cs)
  assume "plain_word w"
  with Cons show ?thesis
    by (auto simp: plain_word_def shlex_plain_def[of c] shlex_go_plain)
qed (simp add: plain_word_def)

text \<open>Plain words separated by single blanks are split back into those words.\<close>

lemma shlex_split_join:
  "\<forall>w \<in> set ws. plain_word w \<Longrightarrow> shlex_split (join '' '' ws) = Inr ws"
proof (induction ws rule: induct_list012)
  case (2 x)
  then show ?case using shlex_go_word[of x "[]"] by (simp add: shlex_split_def)
next
  case (3 x y xs)
  have "shlex_white CHR '' ''" by (simp add: shlex_white_def code_point_def)
  with 3 shlex_go_word[of x "'' '' @ join '' '' (y # xs)"] show ?case
    by (simp add: shlex_split_def)
qed (simp add: shlex_split_def)

lemma is_decimal_plain: "is_decimal c \<Longrightarrow> shlex_plain c"
  by (auto simp: is_decimal_def shlex_plain_def shlex_white_def shlex_quote_def shlex_escape_def)

end
