(* ===== verification/PyFloat.thy ===== *)
theory PyFloat
  imports PyText Complex_Main
begin

text \<open>
  Python \<open>float\<close> values as IEEE 754 binary64: a finite value is the rational it denotes, and each
  arithmetic operation rounds the exact rational result to nearest, ties to even. Zero has one
  sign here; the program never prints or divides by a zero whose sign matters. \<open>fsum\<close> is the
  built-in \<open>sum\<close> of Python 3.12 and later (the project runs on 3.13), which compensates with
  Neumaier's algorithm.
\<close>

section \<open>Rounding to binary64\<close>

datatype pyfloat = FFin rat | FPInf | FNInf | FNaN

function ilog2 :: "int \<Rightarrow> int" where
  "ilog2 n = (if n < 2 then 0 else 1 + ilog2 (n div 2))"
  by pat_completeness auto
termination
  by (relation "measure nat") auto

declare ilog2.simps [simp del]

definition round_half_even :: "rat \<Rightarrow> int" where
  "round_half_even x =
     (let f = \<lfloor>x\<rfloor>; d = x - of_int f
      in if d < 1 / 2 then f else if 1 / 2 < d then f + 1 else if even f then f else f + 1)"

definition pow2 :: "int \<Rightarrow> rat" where
  "pow2 e = (if 0 \<le> e then 2 ^ nat e else 1 / 2 ^ nat (- e))"

text \<open>The exponent \<open>e\<close> with \<open>2^e \<le> x < 2^(e+1)\<close>, for a positive \<open>x\<close>.\<close>

definition binary_exponent :: "rat \<Rightarrow> int" where
  "binary_exponent x =
     (if 1 \<le> x then ilog2 \<lfloor>x\<rfloor>
      else (let n = \<lceil>1 / x\<rceil> in if n \<le> 1 then 0 else - (1 + ilog2 (n - 1))))"

definition float_limit :: rat where
  "float_limit = 2 ^ 1024"

definition round64 :: "rat \<Rightarrow> pyfloat" where
  "round64 x =
     (if x = 0 then FFin 0
      else let e = max (binary_exponent \<bar>x\<bar>) (- 1022);
               u = pow2 (e - 52);
               v = of_int (round_half_even (\<bar>x\<bar> / u)) * u
           in if float_limit \<le> v then (if 0 < x then FPInf else FNInf)
              else FFin (if 0 < x then v else - v))"

section \<open>Arithmetic and comparison\<close>

fun is_finite :: "pyfloat \<Rightarrow> bool" where
  "is_finite (FFin x) = True"
| "is_finite _ = False"

fun fneg :: "pyfloat \<Rightarrow> pyfloat" where
  "fneg (FFin x) = FFin (- x)"
| "fneg FPInf = FNInf"
| "fneg FNInf = FPInf"
| "fneg FNaN = FNaN"

fun fabs :: "pyfloat \<Rightarrow> pyfloat" where
  "fabs (FFin x) = FFin \<bar>x\<bar>"
| "fabs FNInf = FPInf"
| "fabs x = x"

fun fadd :: "pyfloat \<Rightarrow> pyfloat \<Rightarrow> pyfloat" where
  "fadd (FFin x) (FFin y) = round64 (x + y)"
| "fadd FNaN y = FNaN"
| "fadd x FNaN = FNaN"
| "fadd FPInf FNInf = FNaN"
| "fadd FNInf FPInf = FNaN"
| "fadd FPInf y = FPInf"
| "fadd x FPInf = FPInf"
| "fadd FNInf y = FNInf"
| "fadd x FNInf = FNInf"

definition fsub :: "pyfloat \<Rightarrow> pyfloat \<Rightarrow> pyfloat" where
  "fsub x y = fadd x (fneg y)"

text \<open>Multiplication and division.\<close>

fun fmul :: "pyfloat \<Rightarrow> pyfloat \<Rightarrow> pyfloat" where
  "fmul (FFin x) (FFin y) = round64 (x * y)"
| "fmul FNaN y = FNaN"
| "fmul x FNaN = FNaN"
| "fmul (FFin x) y = (if x = 0 then FNaN else if 0 < x then y else fneg y)"
| "fmul x (FFin y) = (if y = 0 then FNaN else if 0 < y then x else fneg x)"
| "fmul x y = (if x = y then FPInf else FNInf)"

text \<open>\<open>x / y\<close>: \<open>None\<close> is \<open>ZeroDivisionError\<close>.\<close>

fun fdiv :: "pyfloat \<Rightarrow> pyfloat \<Rightarrow> pyfloat option" where
  "fdiv x (FFin y) =
     (if y = 0 then None
      else Some (case x of FFin a \<Rightarrow> round64 (a / y) | FNaN \<Rightarrow> FNaN
                 | _ \<Rightarrow> if 0 < y then x else fneg x))"
| "fdiv x FNaN = Some FNaN"
| "fdiv x y = Some (case x of FFin a \<Rightarrow> FFin 0 | _ \<Rightarrow> FNaN)"

fun fle :: "pyfloat \<Rightarrow> pyfloat \<Rightarrow> bool" where
  "fle (FFin x) (FFin y) = (x \<le> y)"
| "fle FNaN y = False"
| "fle x FNaN = False"
| "fle FNInf y = True"
| "fle x FPInf = True"
| "fle x y = False"

fun flt :: "pyfloat \<Rightarrow> pyfloat \<Rightarrow> bool" where
  "flt (FFin x) (FFin y) = (x < y)"
| "flt FNaN y = False"
| "flt x FNaN = False"
| "flt FNInf y = (y \<noteq> FNInf)"
| "flt x FPInf = (x \<noteq> FPInf)"
| "flt x y = False"

definition feq :: "pyfloat \<Rightarrow> pyfloat \<Rightarrow> bool" where
  "feq x y = (x \<noteq> FNaN \<and> x = y)"

text \<open>\<open>max(a, b)\<close> and \<open>min(a, b)\<close>: the first argument stays unless the second is strictly better.\<close>

definition fmax :: "pyfloat \<Rightarrow> pyfloat \<Rightarrow> pyfloat" where
  "fmax a b = (if flt a b then b else a)"

definition fmin :: "pyfloat \<Rightarrow> pyfloat \<Rightarrow> pyfloat" where
  "fmin a b = (if flt b a then b else a)"

text \<open>
  \<open>a / b\<close> of two integers: the exact quotient, rounded once. \<open>None\<close> is \<open>ZeroDivisionError\<close>, or the
  \<open>OverflowError\<close> of a quotient beyond binary64.
\<close>

definition int_div :: "int \<Rightarrow> int \<Rightarrow> pyfloat option" where
  "int_div a b = (if b = 0 then None
     else (let q = round64 (of_int a / of_int b) in if is_finite q then Some q else None))"

text \<open>\<open>round(x, n)\<close>: the decimal value nearest to the exact \<open>x\<close>, then to binary64.\<close>

fun fround :: "nat \<Rightarrow> pyfloat \<Rightarrow> pyfloat" where
  "fround n (FFin x) = round64 (of_int (round_half_even (x * 10 ^ n)) / 10 ^ n)"
| "fround n x = x"

text \<open>The built-in \<open>sum\<close> over floats: \<open>None\<close> is the integer 0 of an empty sequence.\<close>

fun fsum_go :: "pyfloat \<Rightarrow> pyfloat \<Rightarrow> pyfloat list \<Rightarrow> pyfloat" where
  "fsum_go hi lo [] = (if lo \<noteq> FFin 0 \<and> is_finite lo then fadd hi lo else hi)"
| "fsum_go hi lo (x # xs) =
     (let t = fadd hi x;
          c = (if fle (fabs x) (fabs hi) then fadd (fsub hi t) x else fadd (fsub x t) hi)
      in fsum_go t (fadd lo c) xs)"

definition fsum :: "pyfloat list \<Rightarrow> pyfloat option" where
  "fsum xs = (case xs of [] \<Rightarrow> None | x # ys \<Rightarrow> Some (fsum_go x (FFin 0) ys))"

text \<open>\<open>f"{x:.nf}"\<close>: fixed notation with \<open>n\<close> decimals of the exact value.\<close>

definition pad_left :: "nat \<Rightarrow> string \<Rightarrow> string" where
  "pad_left n s = replicate (n - length s) CHR ''0'' @ s"

fun fmt_fixed :: "nat \<Rightarrow> pyfloat \<Rightarrow> string" where
  "fmt_fixed n (FFin x) =
     (let m = nat (round_half_even (\<bar>x\<bar> * 10 ^ n))
      in (if x < 0 then ''-'' else '''') @ nat_str (m div 10 ^ n) @
         (if n = 0 then '''' else ''.'' @ pad_left n (nat_str (m mod 10 ^ n))))"
| "fmt_fixed n FPInf = ''inf''"
| "fmt_fixed n FNInf = ''-inf''"
| "fmt_fixed n FNaN = ''nan''"

section \<open>Facts\<close>

lemma pow2_pos [simp]: "0 < pow2 e"
  by (simp add: pow2_def)

lemma pow2_nonzero [simp]: "pow2 e \<noteq> 0"
  using pow2_pos[of e] by linarith

lemma round_half_even_of_int [simp]: "round_half_even (of_int n) = n"
  by (simp add: round_half_even_def)

lemma round_half_even_numerals [simp]:
  "round_half_even 0 = 0" "round_half_even 1 = 1" "round_half_even (numeral k) = numeral k"
  using round_half_even_of_int[of 0] round_half_even_of_int[of 1]
    round_half_even_of_int[of "numeral k"] by simp_all

lemma round_half_even_nonneg: "0 \<le> x \<Longrightarrow> 0 \<le> round_half_even x"
  by (auto simp: round_half_even_def Let_def)

lemma round64_0 [simp]: "round64 0 = FFin 0"
  by (simp add: round64_def)

lemma ilog2_1: "ilog2 1 = 0"
  by (simp add: ilog2.simps)

lemma float_limit_gt_1: "1 < float_limit"
  by (simp add: float_limit_def)

lemma round64_exact:
  assumes "0 < x" and e: "e = max (binary_exponent x) (- 1022)"
    and x: "x = of_int m * pow2 (e - 52)" and "x < float_limit"
  shows "round64 x = FFin x"
proof -
  have q: "x / pow2 (e - 52) = of_int m"
    unfolding x by simp
  have "of_int (round_half_even (\<bar>x\<bar> / pow2 (e - 52))) * pow2 (e - 52) = x"
    using \<open>0 < x\<close> by (simp add: q) (rule x[symmetric])
  with \<open>0 < x\<close> \<open>x < float_limit\<close> show ?thesis
    by (simp add: round64_def Let_def e)
qed

lemma round64_1 [simp]: "round64 1 = FFin 1"
  by (rule round64_exact[where e = 0 and m = "2 ^ 52"])
    (simp_all add: binary_exponent_def ilog2_1 pow2_def float_limit_gt_1)

lemma round64_nonneg:
  assumes "0 \<le> x" and "round64 x = FFin y"
  shows "0 \<le> y"
proof (cases "x = 0")
  case False
  let ?u = "pow2 (max (binary_exponent x) (- 1022) - 52)"
  have "0 \<le> x / ?u" using assms(1) pow2_pos by (simp add: less_imp_le)
  then have "0 \<le> round_half_even (x / ?u)" by (rule round_half_even_nonneg)
  then have "0 \<le> of_int (round_half_even (x / ?u)) * ?u"
    by (simp add: less_imp_le[OF pow2_pos])
  with assms False show ?thesis by (simp add: round64_def Let_def split: if_splits)
qed (use assms in simp)

lemma round64_nonneg_cases: "0 \<le> x \<Longrightarrow> round64 x = FPInf \<or> (\<exists>y\<ge>0. round64 x = FFin y)"
  using round64_nonneg[of x] by (cases "round64 x") (auto simp: round64_def Let_def split: if_splits)

lemma fdiv_self: "is_finite x \<Longrightarrow> x \<noteq> FFin 0 \<Longrightarrow> fdiv x x = Some (FFin 1)"
  by (cases x) auto

lemma fle_refl [simp]: "fle x x \<longleftrightarrow> x \<noteq> FNaN"
  by (cases x) auto

lemma fle_trans: "fle x y \<Longrightarrow> fle y z \<Longrightarrow> fle x z"
  by (cases x; cases y; cases z) auto

lemma flt_iff_fle: "flt x y \<longleftrightarrow> fle x y \<and> \<not> fle y x"
  by (cases x; cases y) auto

lemma fmin_le_right: "b \<noteq> FNaN \<Longrightarrow> a \<noteq> FNaN \<Longrightarrow> fle (fmin a b) b"
  by (cases a; cases b) (auto simp: fmin_def)

lemma fmax_ge_right: "b \<noteq> FNaN \<Longrightarrow> a \<noteq> FNaN \<Longrightarrow> fle b (fmax a b)"
  by (cases a; cases b) (auto simp: fmax_def)

lemma ilog2_nonneg: "0 \<le> ilog2 n"
proof (induction n rule: ilog2.induct)
  case (1 n)
  then show ?case by (subst ilog2.simps) (auto simp del: ilog2.simps)
qed

lemma binary_exponent_le_0: "0 < x \<Longrightarrow> x \<le> 1 \<Longrightarrow> binary_exponent x \<le> 0"
  using ilog2_nonneg[of "\<lceil>1 / x\<rceil> - 1"]
  by (cases "x = 1") (auto simp: binary_exponent_def ilog2_1 Let_def)

lemma round_half_even_le: "x \<le> of_int n \<Longrightarrow> round_half_even x \<le> n"
proof (cases "\<lfloor>x\<rfloor> = n")
  case True
  assume "x \<le> of_int n"
  with True have "x = of_int n" by linarith
  then show ?thesis by simp
next
  case False
  assume "x \<le> of_int n"
  with False have "\<lfloor>x\<rfloor> + 1 \<le> n" by linarith
  then show ?thesis by (auto simp: round_half_even_def Let_def)
qed

text \<open>Rounding keeps the unit interval.\<close>

lemma round64_unit:
  assumes "0 \<le> x" and "x \<le> 1"
  shows "\<exists>y. round64 x = FFin y \<and> 0 \<le> y \<and> y \<le> 1"
proof (cases "x = 0")
  case False
  define e where "e = max (binary_exponent x) (- 1022)"
  define u where "u = pow2 (e - 52)"
  define v where "v = of_int (round_half_even (x / u)) * u"
  have "e \<le> 0" using binary_exponent_le_0[of x] False assms by (simp add: e_def)
  then have u: "u = 1 / 2 ^ nat (52 - e)" by (simp add: u_def pow2_def)
  have "x / u \<le> of_int (2 ^ nat (52 - e))" using assms by (simp add: u divide_right_mono)
  from round_half_even_le[OF this] have "round_half_even (x / u) \<le> 2 ^ nat (52 - e)" .
  then have "(of_int (round_half_even (x / u)) :: rat) \<le> 2 ^ nat (52 - e)"
    by (metis of_int_le_iff of_int_numeral of_int_power)
  then have v: "v \<le> 1" by (simp add: v_def u)
  have "v < float_limit" using v float_limit_gt_1 by linarith
  then have r: "round64 x = FFin v"
    using False assms by (simp add: round64_def Let_def v_def u_def e_def)
  from round64_nonneg[OF assms(1) this] v r show ?thesis by blast
qed simp

lemma fround_unit:
  assumes "0 \<le> x" and "x \<le> 1"
  shows "\<exists>y. fround n (FFin x) = FFin y \<and> 0 \<le> y \<and> y \<le> 1"
proof -
  have "x * 10 ^ n \<le> of_int (10 ^ n)" using assms by (simp add: mult_le_cancel_right1)
  from round_half_even_le[OF this] have "(of_int (round_half_even (x * 10 ^ n)) :: rat) \<le> 10 ^ n"
    by (metis of_int_le_iff of_int_numeral of_int_power)
  then have "of_int (round_half_even (x * 10 ^ n)) / 10 ^ n \<le> (1 :: rat)" by simp
  moreover have "0 \<le> of_int (round_half_even (x * 10 ^ n)) / (10 :: rat) ^ n"
    using round_half_even_nonneg[of "x * 10 ^ n"] assms(1) by simp
  ultimately show ?thesis using round64_unit by simp
qed

lemma clamp_unit:
  "a \<noteq> FNaN \<Longrightarrow> \<exists>x. fmin (fmax a (FFin 0)) (FFin 1) = FFin x \<and> 0 \<le> x \<and> x \<le> 1"
  by (cases a) (auto simp: fmin_def fmax_def)

end
