(* ===== verification/Models.thy ===== *)
theory Models
  imports PyFloat
begin

text \<open>
  The data of the recovery side: \<open>models.py\<close>, \<open>mutual_supervision_models.py\<close> and the snapshot of
  \<open>evidence.py\<close>. Values that cross a trust boundary (adapter outputs, parsed configuration) are
  Python values of type \<open>pyval\<close>; once a check has established their type they are the records
  below. A field that the code never checks keeps the type \<open>pyval\<close>.
\<close>

section \<open>Enumerations\<close>

datatype RecoveryActionKind = OBSERVE_ONLY | ROLLOUT_RESTART | SCALE_OUT

datatype ReviewVerdict = APPROVE | REVISE | VETO | ABSTAIN

datatype ExecutionMode = MOCK | DRY_RUN | REAL

datatype ExecutionBackend = PYTHON | GO

fun kind_value :: "RecoveryActionKind \<Rightarrow> string" where
  "kind_value OBSERVE_ONLY = ''observe_only''"
| "kind_value ROLLOUT_RESTART = ''rollout_restart''"
| "kind_value SCALE_OUT = ''scale_out''"

fun verdict_value :: "ReviewVerdict \<Rightarrow> string" where
  "verdict_value APPROVE = ''approve''"
| "verdict_value REVISE = ''revise''"
| "verdict_value VETO = ''veto''"
| "verdict_value ABSTAIN = ''abstain''"

fun mode_value :: "ExecutionMode \<Rightarrow> string" where
  "mode_value MOCK = ''mock''"
| "mode_value DRY_RUN = ''dry-run''"
| "mode_value REAL = ''real''"

fun backend_value :: "ExecutionBackend \<Rightarrow> string" where
  "backend_value PYTHON = ''python''"
| "backend_value GO = ''go''"

text \<open>\<open>RecoveryActionKind(text)\<close>: \<open>None\<close> is \<open>ValueError\<close>.\<close>

definition kind_of_value :: "string \<Rightarrow> RecoveryActionKind option" where
  "kind_of_value s =
     (if s = ''observe_only'' then Some OBSERVE_ONLY
      else if s = ''rollout_restart'' then Some ROLLOUT_RESTART
      else if s = ''scale_out'' then Some SCALE_OUT else None)"

lemma kind_of_value_kind_value [simp]: "kind_of_value (kind_value k) = Some k"
  by (cases k) (simp_all add: kind_of_value_def)

lemma kind_of_value_Some: "kind_of_value s = Some k \<Longrightarrow> s = kind_value k"
  by (auto simp: kind_of_value_def split: if_splits)

section \<open>Python values\<close>

text \<open>
  The values a Python expression of type \<open>Any\<close> may hold here: the JSON values, tuples, the two
  enumerations, and the dataclass objects the adapters exchange, whose fields may hold anything.
\<close>

datatype pyval =
    VNone
  | VBool bool
  | VInt int
  | VFloat pyfloat
  | VStr string
  | VList "pyval list"
  | VTuple "pyval list"
  | VDict "(string \<times> pyval) list"
  | VKind RecoveryActionKind
  | VVerdict ReviewVerdict
  | VRecoveryAction (v_namespace: pyval) (v_deployment: pyval) (v_kind: pyval)
      (v_replicas: pyval) (v_reason: pyval)
  | VDiagnosis (v_service: pyval) (v_cause: pyval) (v_severity: pyval)
      (v_diag_confidence: pyval) (v_evidence: pyval)
  | VSupervisionDecision (v_decision_id: pyval) (v_decision_run: pyval) (v_decision_round: pyval)
      (v_agent: pyval) (v_decision_type: pyval) (v_proposed_action: pyval) (v_approved: pyval)
      (v_decision_reason: pyval) (v_decision_confidence: pyval) (v_decision_refs: pyval)
      (v_reward: pyval) (v_decision_policy: pyval)
  | VPeerReview (v_review_id: pyval) (v_review_run: pyval) (v_review_round: pyval)
      (v_reviewer: pyval) (v_target_agent: pyval) (v_target_decision_id: pyval)
      (v_verdict: pyval) (v_review_reason: pyval) (v_suggested_action: pyval)
      (v_review_confidence: pyval) (v_review_refs: pyval) (v_review_policy: pyval)
  | VPostExecutionReview (v_post_id: pyval) (v_post_run: pyval) (v_post_agent: pyval)
      (v_post_action_id: pyval) (v_post_approved: pyval) (v_post_reason: pyval)
      (v_post_confidence: pyval) (v_post_refs: pyval) (v_post_policy: pyval)

text \<open>\<open>d.get(key)\<close> of a mapping: the value, or \<open>None\<close> when the key is absent.\<close>

definition vget :: "(string \<times> pyval) list \<Rightarrow> string \<Rightarrow> pyval" where
  "vget d k = (case map_of d k of None \<Rightarrow> VNone | Some v \<Rightarrow> v)"

text \<open>
  The members of the two enumerations are strings too (\<open>class ReviewVerdict(str, Enum)\<close>): \<open>isinstance
  (v, str)\<close> holds of them, and they compare and strip as their value.
\<close>

fun as_text :: "pyval \<Rightarrow> string option" where
  "as_text (VStr s) = Some s"
| "as_text (VKind k) = Some (kind_value k)"
| "as_text (VVerdict v) = Some (verdict_value v)"
| "as_text _ = None"

text \<open>\<open>isinstance(v, str) and v.strip()\<close>.\<close>

definition nonblank_text :: "pyval \<Rightarrow> bool" where
  "nonblank_text v = (case as_text v of None \<Rightarrow> False | Some s \<Rightarrow> \<not> is_blank s)"

definition text_of :: "pyval \<Rightarrow> string" where
  "text_of v = (case as_text v of None \<Rightarrow> [] | Some s \<Rightarrow> s)"

lemma nonblank_VStr [simp]: "nonblank_text (VStr s) = (\<not> is_blank s)"
  by (simp add: nonblank_text_def)

lemma text_of_VStr [simp]: "text_of (VStr s) = s"
  by (simp add: text_of_def)

text \<open>A number that is not a \<open>bool\<close>, as the exact value \<open>float(v)\<close>; large integers overflow.\<close>

fun number_of :: "pyval \<Rightarrow> pyfloat option" where
  "number_of (VInt i) = Some (round64 (of_int i))"
| "number_of (VFloat x) = Some x"
| "number_of _ = None"

section \<open>\<open>models.py\<close>\<close>

record ScaleAction =
  sa_namespace :: string
  sa_deployment :: string
  sa_replicas :: int
  sa_reason :: string

record RecoveryAction =
  ra_namespace :: string
  ra_deployment :: string
  ra_kind :: RecoveryActionKind
  ra_replicas :: "int option"
  ra_reason :: string

record RecoveryActionCandidate =
  rc_action :: RecoveryAction
  rc_reason :: string
  rc_expected_effect :: string
  rc_risk_level :: string
  rc_estimated_cost :: pyfloat
  rc_confidence :: pyval
  rc_priority :: pyfloat

record Diagnosis =
  dg_service :: pyval
  dg_cause :: string
  dg_severity :: string
  dg_confidence :: pyval
  dg_evidence :: "(string \<times> pyval) list"

record CommandResult =
  cr_command :: string
  cr_mode :: string
  cr_valid :: bool
  cr_stdout :: string
  cr_stderr :: string
  cr_metadata :: "(string \<times> string) list"

section \<open>\<open>evidence.py\<close>: the snapshot\<close>

record EvidenceSnapshot =
  ev_namespace :: string
  ev_deployment :: string
  ev_metric_values :: "(string \<times> pyfloat) list"
  ev_desired_replicas :: int
  ev_available_replicas :: int
  ev_restart_count :: int
  ev_pod_statuses :: "string list"
  ev_pod_identities :: "string list"
  ev_events :: "string list"
  ev_latency_ms :: "pyfloat option"
  ev_error_rate :: "pyfloat option"
  ev_log_summary :: string
  ev_source :: string

definition primary_metric_value :: "EvidenceSnapshot \<Rightarrow> string \<Rightarrow> pyfloat option" where
  "primary_metric_value e metric =
     dict_get (ev_metric_values e) (replace_char CHR ''-'' CHR ''_'' (lower (strip metric)))"

section \<open>\<open>mutual_supervision_models.py\<close>\<close>

record SupervisionDecision =
  sd_decision_id :: string
  sd_run_id :: string
  sd_round_index :: int
  sd_agent :: string
  sd_decision_type :: string
  sd_proposed_action :: "RecoveryAction option"
  sd_approved :: bool
  sd_reason :: string
  sd_confidence :: pyval
  sd_evidence_refs :: "string list"
  sd_reward :: pyval
  sd_policy_version :: string

record PeerReview =
  pr_review_id :: string
  pr_run_id :: string
  pr_round_index :: int
  pr_reviewer :: string
  pr_target_agent :: string
  pr_target_decision_id :: string
  pr_verdict :: ReviewVerdict
  pr_reason :: string
  pr_suggested_action :: "RecoveryAction option"
  pr_confidence :: pyval
  pr_evidence_refs :: pyval
  pr_policy_version :: string

record NegotiationRound =
  nr_run_id :: string
  nr_round_index :: int
  nr_input_decision_ids :: "string list"
  nr_review_ids :: "string list"
  nr_revisions :: "string list"
  nr_remaining_vetoes :: "string list"
  nr_remaining_abstentions :: "string list"
  nr_consensus_status :: string
  nr_selected_action_id :: "string option"
  nr_decision_scopes :: "string list"
  nr_consensus_strategy :: string
  nr_non_blocking_objections :: "string list"
  nr_consensus_reason :: string

record PostExecutionReview =
  po_review_id :: string
  po_run_id :: string
  po_agent :: string
  po_action_id :: string
  po_approved :: bool
  po_reason :: string
  po_confidence :: pyval
  po_evidence_refs :: pyval
  po_policy_version :: string

section \<open>\<open>recovery_monitor.py\<close>: the assessment\<close>

record RecoveryAssessment =
  as_recovery_success :: bool
  as_metric_improvement :: pyfloat
  as_remaining_problem :: string
  as_recovery_confidence :: pyfloat
  as_replanning_required :: bool

section \<open>Contributions of the agents\<close>

record AgentContribution =
  ct_decisions :: nat
  ct_approvals :: nat
  ct_revisions :: nat
  ct_vetoes :: nat
  ct_post_reviews :: nat
  ct_reward :: pyfloat

end
