(* ===== verification/PyRepr.thy ===== *)
theory PyRepr
  imports Models
begin

text \<open>
  \<open>str(v)\<close> and \<open>bool(v)\<close> for the values a JSON document decodes to. \<open>str\<close> of a string is the string
  itself; inside a list or an object strings are quoted as \<open>repr\<close> does.
\<close>

definition decimal_exponent :: "rat \<Rightarrow> int" where
  "decimal_exponent x =
     (if 1 \<le> x then int (length (nat_str (nat \<lfloor>x\<rfloor>))) - 1
      else - int (length (nat_str (nat (\<lceil>1 / x\<rceil> - 1)))))"

definition pow10 :: "int \<Rightarrow> rat" where
  "pow10 e = (if 0 \<le> e then 10 ^ nat e else 1 / 10 ^ nat (- e))"

text \<open>The shortest correctly rounded digit string that reads back as \<open>x\<close>, of at most 17 digits.\<close>

fun shortest_digits :: "nat \<Rightarrow> rat \<Rightarrow> nat \<Rightarrow> int \<times> nat" where
  "shortest_digits 0 x n = (round_half_even (x / pow10 (decimal_exponent x - int n + 1)), n)"
| "shortest_digits (Suc fuel) x n =
     (let p = pow10 (decimal_exponent x - int n + 1);
          d = round_half_even (x / p)
      in if round64 (of_int d * p) = FFin x then (d, n) else shortest_digits fuel x (Suc n))"

fun strip_zeros :: "string \<Rightarrow> string" where
  "strip_zeros s = rev (dropWhile (\<lambda>c. c = CHR ''0'') (rev s))"

definition float_digits :: "string \<Rightarrow> int \<Rightarrow> string" where
  "float_digits ds e =
     (if - 4 \<le> e \<and> e < 16 then
        (if e < 0 then ''0.'' @ replicate (nat (- e - 1)) CHR ''0'' @ ds
         else (let ip = take (nat e + 1) ds @ replicate (nat e + 1 - length ds) CHR ''0'';
                   fp = drop (nat e + 1) ds
               in ip @ ''.'' @ (if fp = '''' then ''0'' else fp)))
      else take 1 ds @ (if tl ds = '''' then '''' else ''.'' @ tl ds) @ ''e'' @
           (if e < 0 then ''-'' else ''+'') @ pad_left 2 (nat_str (nat \<bar>e\<bar>)))"

fun float_repr :: "pyfloat \<Rightarrow> string" where
  "float_repr (FFin x) =
     (if x = 0 then ''0.0''
      else (let (d, n) = shortest_digits 16 \<bar>x\<bar> 1;
                s = nat_str (nat d)
            in (if x < 0 then ''-'' else '''') @
               float_digits (strip_zeros s)
                 (decimal_exponent \<bar>x\<bar> + int (length s) - int n)))"
| "float_repr FPInf = ''inf''"
| "float_repr FNInf = ''-inf''"
| "float_repr FNaN = ''nan''"

definition hex_digit :: "nat \<Rightarrow> char" where
  "hex_digit d = (if d < 10 then char_of (48 + d) else char_of (87 + d))"

definition repr_char :: "char \<Rightarrow> char \<Rightarrow> string" where
  "repr_char q c = (let n = code_point c in
     if c = q \<or> n = 92 then [CHR 0x5C, c]
     else if n = 10 then [CHR 0x5C, CHR ''n'']
     else if n = 13 then [CHR 0x5C, CHR ''r'']
     else if n = 9 then [CHR 0x5C, CHR ''t'']
     else if n < 32 \<or> (127 \<le> n \<and> n \<le> 160) \<or> n = 173
       then [CHR 0x5C, CHR ''x'', hex_digit (n div 16), hex_digit (n mod 16)]
     else [c])"

definition str_repr :: "string \<Rightarrow> string" where
  "str_repr s =
     (let q = (if CHR 0x27 \<in> set s \<and> CHR 0x22 \<notin> set s then CHR 0x22 else CHR 0x27)
      in q # concat (map (repr_char q) s) @ [q])"

fun json_repr :: "pyval \<Rightarrow> string" where
  "json_repr VNone = ''None''"
| "json_repr (VBool b) = (if b then ''True'' else ''False'')"
| "json_repr (VInt i) = int_str i"
| "json_repr (VFloat x) = float_repr x"
| "json_repr (VStr s) = str_repr s"
| "json_repr (VList vs) = ''['' @ join '', '' (map json_repr vs) @ '']''"
| "json_repr (VDict kvs) =
     ''{'' @ join '', '' (map (\<lambda>(k, v). str_repr k @ '': '' @ json_repr v) kvs) @ ''}''"
| "json_repr _ = ''''"

fun json_str :: "pyval \<Rightarrow> string" where
  "json_str (VStr s) = s"
| "json_str v = json_repr v"

fun truthy :: "pyval \<Rightarrow> bool" where
  "truthy VNone = False"
| "truthy (VBool b) = b"
| "truthy (VInt i) = (i \<noteq> 0)"
| "truthy (VFloat x) = (x \<noteq> FFin 0)"
| "truthy (VStr s) = (s \<noteq> '''')"
| "truthy (VList vs) = (vs \<noteq> [])"
| "truthy (VTuple vs) = (vs \<noteq> [])"
| "truthy (VDict kvs) = (kvs \<noteq> [])"
| "truthy _ = True"

text \<open>\<open>d.get(key, default)\<close>.\<close>

definition vget_default :: "(string \<times> pyval) list \<Rightarrow> string \<Rightarrow> pyval \<Rightarrow> pyval" where
  "vget_default d k dv = (case map_of d k of None \<Rightarrow> dv | Some v \<Rightarrow> v)"

end
