(* ===== verification/Effects.thy ===== *)
theory Effects
  imports PyRepr
begin

text \<open>
  Effectful code of the recovery side. A program runs on the state of its environment (whatever the
  adapters, providers, clocks and files are; type \<open>'w\<close>) and on the trace of the effects it has
  performed, newest first: what it recorded, which commands it handed to the process runner, which
  locks it took. It returns a value or raises one of the program's exceptions.
\<close>

section \<open>Exceptions\<close>

datatype exn =
    CommandValidationError string
  | ValueError string
  | AdapterOutputError string
  | ReviewCollectionFailure string "PeerReview list"
  | NegotiationFailure string "SupervisionDecision list" "PeerReview list" "NegotiationRound list"
  | PostReviewFailure string "PostExecutionReview list"
  | OperationLockError string
  | RuntimeCancelled string
  | TimeoutError string
  | InterruptedError string
  | BlockedRequest string
  | RuntimeExecutionError string
  | PartitionContractError string string
  | OSError string
  | TypeError string
  | KeyError string
  | OtherError string

fun exn_str :: "exn \<Rightarrow> string" where
  "exn_str (CommandValidationError m) = m"
| "exn_str (ValueError m) = m"
| "exn_str (AdapterOutputError m) = m"
| "exn_str (ReviewCollectionFailure m _) = m"
| "exn_str (NegotiationFailure m _ _ _) = m"
| "exn_str (PostReviewFailure m _) = m"
| "exn_str (OperationLockError m) = m"
| "exn_str (RuntimeCancelled m) = m"
| "exn_str (TimeoutError m) = m"
| "exn_str (InterruptedError m) = m"
| "exn_str (BlockedRequest m) = m"
| "exn_str (RuntimeExecutionError m) = m"
| "exn_str (PartitionContractError code m) = code @ '': '' @ m"
| "exn_str (OSError m) = m"
| "exn_str (TypeError m) = m"
| "exn_str (KeyError k) = str_repr k"
| "exn_str (OtherError m) = m"

text \<open>The exceptions \<open>except OSError\<close> and \<open>except ValueError\<close> catch, with their subclasses.\<close>

fun is_os_error :: "exn \<Rightarrow> bool" where
  "is_os_error (OSError _) = True"
| "is_os_error (TimeoutError _) = True"
| "is_os_error (InterruptedError _) = True"
| "is_os_error _ = False"

fun is_value_error :: "exn \<Rightarrow> bool" where
  "is_value_error (CommandValidationError _) = True"
| "is_value_error (ValueError _) = True"
| "is_value_error (AdapterOutputError _) = True"
| "is_value_error (ReviewCollectionFailure _ _) = True"
| "is_value_error (NegotiationFailure _ _ _ _) = True"
| "is_value_error (PostReviewFailure _ _) = True"
| "is_value_error (BlockedRequest _) = True"
| "is_value_error (PartitionContractError _ _) = True"
| "is_value_error _ = False"

section \<open>Effects\<close>

record GoGuardRequest =
  gg_mode :: string
  gg_namespace :: string
  gg_deployment :: string
  gg_action :: string
  gg_replicas :: "int option"
  gg_allowed_namespaces :: "string list"
  gg_allowed_deployments :: "string list"
  gg_min_replicas :: int
  gg_max_replicas :: int

datatype event =
    EvProtocol string
  | EvEvidence EvidenceSnapshot
  | EvDecision SupervisionDecision
  | EvPeerReview PeerReview
  | EvRound NegotiationRound
  | EvValidation bool string string
  | EvExecution string RecoveryAction string "CommandResult option"
  | EvPostReview PostExecutionReview
  | EvContribution string AgentContribution

datatype effect =
    Recorded string event
  | Ran "string list"
  | AskedGoGuard GoGuardRequest
  | LockEntered string string
  | LockExited string string
  | InjectedFault string
  | CleanedFault
  | Emitted string string

record 'w sys =
  sys_world :: 'w
  sys_trace :: "effect list"

type_synonym ('w, 'a) prog = "'w sys \<Rightarrow> (exn, 'a) result \<times> 'w sys"

definition preturn :: "'a \<Rightarrow> ('w, 'a) prog" where
  "preturn x s = (Inr x, s)"

definition pthrow :: "exn \<Rightarrow> ('w, 'a) prog" where
  "pthrow e s = (Inl e, s)"

definition pbind :: "('w, 'a) prog \<Rightarrow> ('a \<Rightarrow> ('w, 'b) prog) \<Rightarrow> ('w, 'b) prog" where
  "pbind m f s = (case m s of (Inl e, s') \<Rightarrow> (Inl e, s') | (Inr x, s') \<Rightarrow> f x s')"

text \<open>\<open>try: m except E as e: h e\<close>, where \<open>h e\<close> re-raises what it does not catch.\<close>

definition ptry :: "('w, 'a) prog \<Rightarrow> (exn \<Rightarrow> ('w, 'a) prog) \<Rightarrow> ('w, 'a) prog" where
  "ptry m h s = (case m s of (Inl e, s') \<Rightarrow> h e s' | (Inr x, s') \<Rightarrow> (Inr x, s'))"

text \<open>Pure code that may raise, an effect, and a call into the environment.\<close>

definition plift :: "(exn, 'a) result \<Rightarrow> ('w, 'a) prog" where
  "plift r s = (r, s)"

definition emit :: "effect \<Rightarrow> ('w, unit) prog" where
  "emit e s = (Inr (), s\<lparr>sys_trace := e # sys_trace s\<rparr>)"

definition pcall :: "('w \<Rightarrow> (exn, 'a) result \<times> 'w) \<Rightarrow> ('w, 'a) prog" where
  "pcall f s = (case f (sys_world s) of (r, w) \<Rightarrow> (r, s\<lparr>sys_world := w\<rparr>))"

definition pgets :: "('w \<Rightarrow> 'a \<times> 'w) \<Rightarrow> ('w, 'a) prog" where
  "pgets f s = (case f (sys_world s) of (x, w) \<Rightarrow> (Inr x, s\<lparr>sys_world := w\<rparr>))"

text \<open>\<open>with ctx: m\<close>: the exit runs on every way out of the body.\<close>

definition pfinally :: "('w, 'a) prog \<Rightarrow> ('w, unit) prog \<Rightarrow> ('w, 'a) prog" where
  "pfinally m fin s =
     (case m s of (r, s') \<Rightarrow>
       (case fin s' of (Inl e, s'') \<Rightarrow> (Inl e, s'') | (Inr u, s'') \<Rightarrow> (r, s'')))"

section \<open>What a program may do\<close>

text \<open>\<open>emits P m\<close>: whatever happens, \<open>m\<close> only adds effects that satisfy \<open>P\<close> to the trace.\<close>

definition emits :: "(effect \<Rightarrow> bool) \<Rightarrow> ('w, 'a) prog \<Rightarrow> bool" where
  "emits P m \<longleftrightarrow>
     (\<forall>s. \<exists>new. sys_trace (snd (m s)) = new @ sys_trace s \<and> (\<forall>e \<in> set new. P e))"

text \<open>\<open>returns Q m\<close>: if \<open>m\<close> returns, its value satisfies \<open>Q\<close>; \<open>raises Q m\<close> for its exceptions.\<close>

definition returns :: "('a \<Rightarrow> bool) \<Rightarrow> ('w, 'a) prog \<Rightarrow> bool" where
  "returns Q m \<longleftrightarrow> (\<forall>s x s'. m s = (Inr x, s') \<longrightarrow> Q x)"

definition raises :: "(exn \<Rightarrow> bool) \<Rightarrow> ('w, 'a) prog \<Rightarrow> bool" where
  "raises Q m \<longleftrightarrow> (\<forall>s e s'. m s = (Inl e, s') \<longrightarrow> Q e)"

named_theorems prog_rules \<open>composition rules for emits, returns and raises\<close>

lemma emitsI:
  "(\<And>s r s'. m s = (r, s') \<Longrightarrow> \<exists>new. sys_trace s' = new @ sys_trace s \<and> (\<forall>e \<in> set new. P e)) \<Longrightarrow>
   emits P m"
  unfolding emits_def by (metis prod.collapse)

lemma emitsD:
  "emits P m \<Longrightarrow> m s = (r, s') \<Longrightarrow> \<exists>new. sys_trace s' = new @ sys_trace s \<and> (\<forall>e \<in> set new. P e)"
  unfolding emits_def by (metis snd_conv)

lemma emits_mono: "emits P m \<Longrightarrow> (\<And>e. P e \<Longrightarrow> Q e) \<Longrightarrow> emits Q m"
  unfolding emits_def by meson

lemma emits_preturn [prog_rules]: "emits P (preturn x)"
  by (simp add: emits_def preturn_def)

lemma emits_pthrow [prog_rules]: "emits P (pthrow e)"
  by (simp add: emits_def pthrow_def)

lemma emits_plift [prog_rules]: "emits P (plift r)"
  by (simp add: emits_def plift_def)

lemma emits_pcall [prog_rules]: "emits P (pcall f)"
  by (simp add: emits_def pcall_def split: prod.split)

lemma emits_pgets [prog_rules]: "emits P (pgets f)"
  by (simp add: emits_def pgets_def split: prod.split)

lemma emits_emit [prog_rules]: "P e \<Longrightarrow> emits P (emit e)"
  by (simp add: emits_def emit_def)

lemma emits_seq:
  assumes "\<exists>new. sys_trace s' = new @ sys_trace s \<and> (\<forall>e \<in> set new. P e)"
    and "\<exists>new. sys_trace s'' = new @ sys_trace s' \<and> (\<forall>e \<in> set new. P e)"
  shows "\<exists>new. sys_trace s'' = new @ sys_trace s \<and> (\<forall>e \<in> set new. P e)"
proof -
  from assms obtain n1 n2 where
    "sys_trace s' = n1 @ sys_trace s" "\<forall>e \<in> set n1. P e"
    "sys_trace s'' = n2 @ sys_trace s'" "\<forall>e \<in> set n2. P e" by blast
  then have "sys_trace s'' = (n2 @ n1) @ sys_trace s \<and> (\<forall>e \<in> set (n2 @ n1). P e)" by auto
  then show ?thesis by blast
qed

lemma emits_pbind [prog_rules]:
  assumes "emits P m" and "\<And>x. emits P (f x)"
  shows "emits P (pbind m f)"
proof (rule emitsI)
  fix s r s'
  assume run: "pbind m f s = (r, s')"
  obtain rm sm where m: "m s = (rm, sm)" by (cases "m s")
  note first = emitsD[OF assms(1) m]
  show "\<exists>new. sys_trace s' = new @ sys_trace s \<and> (\<forall>e \<in> set new. P e)"
  proof (cases rm)
    case (Inl e)
    with run m first show ?thesis by (simp add: pbind_def)
  next
    case (Inr x)
    with run m have "f x sm = (r, s')" by (simp add: pbind_def)
    from emits_seq[OF first emitsD[OF assms(2) this]] show ?thesis .
  qed
qed

lemma emits_ptry [prog_rules]:
  assumes "emits P m" and "\<And>e. emits P (h e)"
  shows "emits P (ptry m h)"
proof (rule emitsI)
  fix s r s'
  assume run: "ptry m h s = (r, s')"
  obtain rm sm where m: "m s = (rm, sm)" by (cases "m s")
  note first = emitsD[OF assms(1) m]
  show "\<exists>new. sys_trace s' = new @ sys_trace s \<and> (\<forall>e \<in> set new. P e)"
  proof (cases rm)
    case (Inr x)
    with run m first show ?thesis by (simp add: ptry_def)
  next
    case (Inl e)
    with run m have "h e sm = (r, s')" by (simp add: ptry_def)
    from emits_seq[OF first emitsD[OF assms(2) this]] show ?thesis .
  qed
qed

lemma emits_pfinally [prog_rules]:
  assumes "emits P m" and "emits P fin"
  shows "emits P (pfinally m fin)"
proof (rule emitsI)
  fix s r s'
  assume run: "pfinally m fin s = (r, s')"
  obtain rm sm where m: "m s = (rm, sm)" by (cases "m s")
  obtain rf sf where f: "fin sm = (rf, sf)" by (cases "fin sm")
  from run m f have "s' = sf" by (simp add: pfinally_def split: sum.splits)
  with emits_seq[OF emitsD[OF assms(1) m] emitsD[OF assms(2) f]]
  show "\<exists>new. sys_trace s' = new @ sys_trace s \<and> (\<forall>e \<in> set new. P e)" by simp
qed

lemma emits_if [prog_rules]: "(c \<Longrightarrow> emits P a) \<Longrightarrow> (\<not> c \<Longrightarrow> emits P b) \<Longrightarrow> emits P (if c then a else b)"
  by simp

lemma emits_option [prog_rules]:
  "(x = None \<Longrightarrow> emits P a) \<Longrightarrow> (\<And>y. x = Some y \<Longrightarrow> emits P (f y)) \<Longrightarrow>
   emits P (case x of None \<Rightarrow> a | Some y \<Rightarrow> f y)"
  by (cases x) auto

lemma emits_sum [prog_rules]:
  "(\<And>e. x = Inl e \<Longrightarrow> emits P (f e)) \<Longrightarrow> (\<And>y. x = Inr y \<Longrightarrow> emits P (g y)) \<Longrightarrow>
   emits P (case x of Inl e \<Rightarrow> f e | Inr y \<Rightarrow> g y)"
  by (cases x) auto

lemma emits_prod [prog_rules]:
  "(\<And>a b. x = (a, b) \<Longrightarrow> emits P (f a b)) \<Longrightarrow> emits P (case x of (a, b) \<Rightarrow> f a b)"
  by (cases x) auto

lemma returnsD: "returns Q m \<Longrightarrow> m s = (Inr x, s') \<Longrightarrow> Q x"
  by (auto simp: returns_def)

lemma raisesD: "raises Q m \<Longrightarrow> m s = (Inl e, s') \<Longrightarrow> Q e"
  by (auto simp: raises_def)

lemma pbind_Inr:
  "pbind m f s = (Inr y, s') \<longleftrightarrow> (\<exists>x t. m s = (Inr x, t) \<and> f x t = (Inr y, s'))"
  by (auto simp: pbind_def split: prod.splits sum.splits)

lemma pbind_Inl:
  "pbind m f s = (Inl e, s') \<longleftrightarrow>
   m s = (Inl e, s') \<or> (\<exists>x t. m s = (Inr x, t) \<and> f x t = (Inl e, s'))"
  by (auto simp: pbind_def split: prod.splits sum.splits)

lemma ptry_Inr:
  "ptry m h s = (Inr y, s') \<longleftrightarrow>
   m s = (Inr y, s') \<or> (\<exists>e t. m s = (Inl e, t) \<and> h e t = (Inr y, s'))"
  by (auto simp: ptry_def split: prod.splits sum.splits)

lemma ptry_Inl:
  "ptry m h s = (Inl e', s') \<longleftrightarrow> (\<exists>e t. m s = (Inl e, t) \<and> h e t = (Inl e', s'))"
  by (auto simp: ptry_def split: prod.splits sum.splits)

lemma preturn_eq [simp]: "preturn x s = (r, s') \<longleftrightarrow> r = Inr x \<and> s' = s"
  by (auto simp: preturn_def)

lemma pthrow_eq [simp]: "pthrow e s = (r, s') \<longleftrightarrow> r = Inl e \<and> s' = s"
  by (auto simp: pthrow_def)

lemma plift_eq [simp]: "plift r s = (r', s') \<longleftrightarrow> r = r' \<and> s' = s"
  by (auto simp: plift_def)

lemma returns_preturn [prog_rules]: "Q x \<Longrightarrow> returns Q (preturn x)"
  by (simp add: returns_def)

lemma returns_pthrow [prog_rules]: "returns Q (pthrow e)"
  by (simp add: returns_def)

lemma returns_pbind:
  assumes "returns R m" and "\<And>x. R x \<Longrightarrow> returns Q (f x)"
  shows "returns Q (pbind m f)"
  using assms unfolding returns_def pbind_Inr by blast

lemma returns_pbind_any: "(\<And>x. returns Q (f x)) \<Longrightarrow> returns Q (pbind m f)"
  unfolding returns_def pbind_Inr by blast

lemma returns_ptry:
  assumes "returns Q m" and "\<And>e. returns Q (h e)"
  shows "returns Q (ptry m h)"
  using assms unfolding returns_def ptry_Inr by blast

lemma returns_if [prog_rules]:
  "(c \<Longrightarrow> returns Q a) \<Longrightarrow> (\<not> c \<Longrightarrow> returns Q b) \<Longrightarrow> returns Q (if c then a else b)"
  by simp

lemma plift_Inr_bind [simp]: "pbind (plift (Inr x)) f = f x"
  by (rule ext) (simp add: pbind_def plift_def)

lemma plift_Inl_bind [simp]: "pbind (plift (Inl e)) f = pthrow e"
  by (rule ext) (simp add: pbind_def plift_def pthrow_def)

lemma returns_mono: "returns Q m \<Longrightarrow> (\<And>x. Q x \<Longrightarrow> R x) \<Longrightarrow> returns R m"
  unfolding returns_def by blast

lemma returns_plift_bind: "(\<And>x. r = Inr x \<Longrightarrow> returns Q (f x)) \<Longrightarrow> returns Q (pbind (plift r) f)"
  by (cases r) (auto simp: returns_pthrow)

lemma emits_plift_bind:
  "(\<And>x. r = Inr x \<Longrightarrow> emits P (f x)) \<Longrightarrow> emits P (pbind (plift r) f)"
  by (cases r) (auto simp: emits_def pthrow_def)

section \<open>What a program delivers\<close>

text \<open>\<open>delivers m Q\<close>: from every state \<open>m\<close> returns, without an exception, a value that satisfies \<open>Q\<close>.\<close>

definition delivers :: "('w, 'a) prog \<Rightarrow> ('a \<Rightarrow> bool) \<Rightarrow> bool" where
  "delivers m Q \<longleftrightarrow> (\<forall>s. \<exists>x s'. m s = (Inr x, s') \<and> Q x)"

lemma delivers_bind: "delivers m P \<Longrightarrow> (\<And>x. P x \<Longrightarrow> delivers (f x) Q) \<Longrightarrow> delivers (pbind m f) Q"
  unfolding delivers_def pbind_def by (metis (mono_tags, lifting) case_prod_conv old.sum.simps(6))

lemma delivers_eq: "(\<And>s. \<exists>s'. m s = (Inr x, s')) \<Longrightarrow> Q x \<Longrightarrow> delivers m Q"
  unfolding delivers_def by metis

lemma delivers_preturn [simp]: "delivers (preturn x) Q = Q x"
  by (simp add: delivers_def preturn_def)

lemma delivers_pcall: "(\<And>w. g w = (Inr x, w)) \<Longrightarrow> Q x \<Longrightarrow> delivers (pcall g) Q"
  by (simp add: delivers_def pcall_def)

lemma delivers_emit: "Q () \<Longrightarrow> delivers (emit e) Q"
  by (simp add: delivers_def emit_def)

lemma delivers_ptry: "delivers m Q \<Longrightarrow> delivers (ptry m h) Q"
  unfolding delivers_def ptry_def by (metis (mono_tags, lifting) case_prod_conv old.sum.simps(6))

lemma delivers_pfinally: "delivers m Q \<Longrightarrow> delivers fin (\<lambda>_. True) \<Longrightarrow> delivers (pfinally m fin) Q"
  unfolding delivers_def pfinally_def by (metis (mono_tags, lifting) case_prod_conv old.sum.simps(6))

section \<open>Properties of the world\<close>

text \<open>\<open>keeps I m\<close>: the program preserves a property of the world of its environment.\<close>

definition keeps :: "('w \<Rightarrow> bool) \<Rightarrow> ('w, 'a) prog \<Rightarrow> bool" where
  "keeps I m \<longleftrightarrow> (\<forall>s. I (sys_world s) \<longrightarrow> I (sys_world (snd (m s))))"

definition call_keeps :: "('w \<Rightarrow> bool) \<Rightarrow> ('w \<Rightarrow> 'a \<times> 'w) \<Rightarrow> bool" where
  "call_keeps I f \<longleftrightarrow> (\<forall>w. I w \<longrightarrow> I (snd (f w)))"

named_theorems keep_rules \<open>composition rules for keeps\<close>

lemma keeps_preturn [keep_rules]: "keeps I (preturn x)"
  by (simp add: keeps_def preturn_def)

lemma keeps_pthrow [keep_rules]: "keeps I (pthrow e)"
  by (simp add: keeps_def pthrow_def)

lemma keeps_plift [keep_rules]: "keeps I (plift r)"
  by (simp add: keeps_def plift_def)

lemma keeps_emit [keep_rules]: "keeps I (emit e)"
  by (simp add: keeps_def emit_def)

lemma keeps_pcall [keep_rules]: "call_keeps I f \<Longrightarrow> keeps I (pcall f)"
  by (auto simp: keeps_def call_keeps_def pcall_def split: prod.splits)

lemma keeps_pgets [keep_rules]: "call_keeps I f \<Longrightarrow> keeps I (pgets f)"
  by (auto simp: keeps_def call_keeps_def pgets_def split: prod.splits)

lemma keeps_pbind [keep_rules]: "keeps I m \<Longrightarrow> (\<And>x. keeps I (f x)) \<Longrightarrow> keeps I (pbind m f)"
  unfolding keeps_def pbind_def by (auto split: prod.splits sum.splits)

lemma keeps_ptry [keep_rules]: "keeps I m \<Longrightarrow> (\<And>e. keeps I (h e)) \<Longrightarrow> keeps I (ptry m h)"
  unfolding keeps_def ptry_def by (auto split: prod.splits sum.splits)

lemma keeps_if [keep_rules]: "(c \<Longrightarrow> keeps I a) \<Longrightarrow> (\<not> c \<Longrightarrow> keeps I b) \<Longrightarrow> keeps I (if c then a else b)"
  by simp

lemma keeps_option [keep_rules]:
  "(x = None \<Longrightarrow> keeps I a) \<Longrightarrow> (\<And>y. x = Some y \<Longrightarrow> keeps I (f y)) \<Longrightarrow>
   keeps I (case x of None \<Rightarrow> a | Some y \<Rightarrow> f y)"
  by (cases x) auto

lemma keeps_sum [keep_rules]:
  "(\<And>e. x = Inl e \<Longrightarrow> keeps I (f e)) \<Longrightarrow> (\<And>y. x = Inr y \<Longrightarrow> keeps I (g y)) \<Longrightarrow>
   keeps I (case x of Inl e \<Rightarrow> f e | Inr y \<Rightarrow> g y)"
  by (cases x) auto

lemma keeps_prod [keep_rules]:
  "(\<And>a b. x = (a, b) \<Longrightarrow> keeps I (f a b)) \<Longrightarrow> keeps I (case x of (a, b) \<Rightarrow> f a b)"
  by (cases x) auto

text \<open>
  \<open>ensures I m Q\<close>: from a world that satisfies \<open>I\<close>, \<open>m\<close> leaves such a world, and a value it returns
  satisfies \<open>Q\<close>. \<open>attains I m Q\<close>: moreover it does return.
\<close>

definition ensures :: "('w \<Rightarrow> bool) \<Rightarrow> ('w, 'a) prog \<Rightarrow> ('a \<Rightarrow> bool) \<Rightarrow> bool" where
  "ensures I m Q \<longleftrightarrow> keeps I m \<and> (\<forall>s x s'. I (sys_world s) \<longrightarrow> m s = (Inr x, s') \<longrightarrow> Q x)"

definition attains :: "('w \<Rightarrow> bool) \<Rightarrow> ('w, 'a) prog \<Rightarrow> ('a \<Rightarrow> bool) \<Rightarrow> bool" where
  "attains I m Q \<longleftrightarrow>
     (\<forall>s. I (sys_world s) \<longrightarrow> (\<exists>x s'. m s = (Inr x, s') \<and> Q x \<and> I (sys_world s')))"

lemma ensuresI: "keeps I m \<Longrightarrow> returns Q m \<Longrightarrow> ensures I m Q"
  by (auto simp: ensures_def returns_def)

lemma ensures_keeps: "ensures I m Q \<Longrightarrow> keeps I m"
  by (simp add: ensures_def)

lemma ensures_any: "keeps I m \<Longrightarrow> ensures I m (\<lambda>_. True)"
  by (simp add: ensures_def)

lemma ensures_bind:
  assumes "ensures I m P" and "\<And>x. P x \<Longrightarrow> ensures I (f x) Q"
  shows "ensures I (pbind m f) Q"
  unfolding ensures_def keeps_def
proof (intro conjI allI impI)
  fix s :: "'a sys" assume I: "I (sys_world s)"
  obtain r t where m: "m s = (r, t)" by (cases "m s")
  with assms(1) I have t: "I (sys_world t)" by (auto simp: ensures_def keeps_def dest!: spec[of _ s])
  show "I (sys_world (snd (pbind m f s)))"
  proof (cases r)
    case (Inr x)
    with assms I m t show ?thesis by (auto simp: ensures_def keeps_def pbind_def)
  qed (use m t in \<open>simp add: pbind_def\<close>)
  fix y s' assume "pbind m f s = (Inr y, s')"
  with m obtain x where "r = Inr x" "f x t = (Inr y, s')" by (auto simp: pbind_def split: sum.splits)
  with assms I m t show "Q y" by (auto simp: ensures_def)
qed

lemma ensures_preturn [simp]: "Q x \<Longrightarrow> ensures I (preturn x) Q"
  by (simp add: ensures_def keeps_preturn)

lemma ensures_pthrow [simp]: "ensures I (pthrow e) Q"
  by (simp add: ensures_def keeps_pthrow)

lemma ensures_plift: "(\<And>x. r = Inr x \<Longrightarrow> Q x) \<Longrightarrow> ensures I (plift r) Q"
  by (simp add: ensures_def keeps_plift)

lemma attains_bind: "attains I m P \<Longrightarrow> (\<And>x. P x \<Longrightarrow> attains I (f x) Q) \<Longrightarrow> attains I (pbind m f) Q"
  unfolding attains_def pbind_def by (metis (mono_tags, lifting) case_prod_conv old.sum.simps(6))

lemma attains_preturn [simp]: "Q x \<Longrightarrow> attains I (preturn x) Q"
  by (simp add: attains_def)

lemma attains_plift [simp]: "r = Inr x \<Longrightarrow> Q x \<Longrightarrow> attains I (plift r) Q"
  by (simp add: attains_def)

lemma attains_mono: "attains I m P \<Longrightarrow> (\<And>x. P x \<Longrightarrow> Q x) \<Longrightarrow> attains I m Q"
  unfolding attains_def by blast

lemma attains_pgets: "call_keeps I f \<Longrightarrow> attains I (pgets f) (\<lambda>_. True)"
  by (auto simp: attains_def call_keeps_def pgets_def split: prod.splits)

lemma attains_ptry:
  assumes "ensures I m Q" and "\<And>e. attains I (h e) Q"
  shows "attains I (ptry m h) Q"
  unfolding attains_def
proof (intro allI impI)
  fix s :: "'a sys" assume I: "I (sys_world s)"
  obtain r t where m: "m s = (r, t)" by (cases "m s")
  with assms(1) I have t: "I (sys_world t)" by (auto simp: ensures_def keeps_def dest!: spec[of _ s])
  show "\<exists>x s'. ptry m h s = (Inr x, s') \<and> Q x \<and> I (sys_world s')"
  proof (cases r)
    case (Inl e)
    with assms(2)[of e] t m show ?thesis by (auto simp: attains_def ptry_def)
  next
    case (Inr x)
    with assms(1) I m t show ?thesis by (auto simp: ensures_def ptry_def)
  qed
qed

lemma attains_if: "(c \<Longrightarrow> attains I a Q) \<Longrightarrow> (\<not> c \<Longrightarrow> attains I b Q) \<Longrightarrow> attains I (if c then a else b) Q"
  by simp

lemma keeps_pfinally [keep_rules]: "keeps I m \<Longrightarrow> keeps I fin \<Longrightarrow> keeps I (pfinally m fin)"
  unfolding keeps_def pfinally_def by (auto split: prod.splits sum.splits)

lemma keepsD: "keeps I m \<Longrightarrow> I (sys_world s) \<Longrightarrow> m s = (r, s') \<Longrightarrow> I (sys_world s')"
  unfolding keeps_def by (metis snd_conv)

end
