(* ===== verification/Protocol.thy ===== *)
theory Protocol
  imports PyRepr Effects
begin

text \<open>
  \<open>research_protocol.py\<close>: the negotiation protocol profile, its parsing from configuration data, its
  semantic checks, its canonical form and configuration hash, and the profile directory. The hash
  function over the canonical JSON text is a parameter. \<open>profile_valid\<close> is the abstract contract
  of a profile that passes \<open>validate_semantics\<close>.
\<close>

section \<open>Data\<close>

datatype ConsensusStrategy = ROLE_BASED_VETO | UNANIMOUS_VETO | WEIGHTED_MAJORITY

fun strategy_value :: "ConsensusStrategy \<Rightarrow> string" where
  "strategy_value ROLE_BASED_VETO = ''role_based_veto''"
| "strategy_value UNANIMOUS_VETO = ''unanimous_veto''"
| "strategy_value WEIGHTED_MAJORITY = ''weighted_majority''"

definition strategy_of_value :: "string \<Rightarrow> ConsensusStrategy option" where
  "strategy_of_value s =
     (if s = ''role_based_veto'' then Some ROLE_BASED_VETO
      else if s = ''unanimous_veto'' then Some UNANIMOUS_VETO
      else if s = ''weighted_majority'' then Some WEIGHTED_MAJORITY else None)"

lemma strategy_of_value_value [simp]: "strategy_of_value (strategy_value s) = Some s"
  by (cases s) (simp_all add: strategy_of_value_def)

text \<open>
  The two fields that \<open>from_dict\<close> stores unchecked, \<open>enabled\<close> and \<open>human_review_on_failure\<close>, hold
  any value until \<open>validate_semantics\<close> has looked at them. The other fields have the type that
  \<open>from_dict\<close> establishes, so the repeated \<open>isinstance\<close> checks on them always pass.
\<close>

record ProtocolAgentBinding =
  pb_name :: string
  pb_implementation_id :: string
  pb_runtime :: string
  pb_enabled :: pyval
  pb_veto_scopes :: "string list"
  pb_consensus_weight :: pyfloat
  pb_capabilities :: "string list"

record ResearchProtocolProfile =
  pf_profile_id :: string
  pf_version :: string
  pf_agents :: "ProtocolAgentBinding list"
  pf_review_matrix :: "(string, string list) dict"
  pf_consensus_strategy :: ConsensusStrategy
  pf_max_negotiation_rounds :: int
  pf_max_replan_attempts :: int
  pf_fallback_action :: RecoveryActionKind
  pf_human_review_on_failure :: pyval
  pf_action_space :: "RecoveryActionKind list"
  pf_reward_weights :: "(string, pyfloat) dict"
  pf_experiment_tags :: "string list"
  pf_config_hash :: string

definition binding_enabled :: "ProtocolAgentBinding \<Rightarrow> bool" where
  "binding_enabled b = truthy (pb_enabled b)"

definition enabled_agents :: "ResearchProtocolProfile \<Rightarrow> ProtocolAgentBinding list" where
  "enabled_agents p = filter binding_enabled (pf_agents p)"

definition BINDING_KEYS :: "string list" where
  "BINDING_KEYS = [''name'', ''implementation_id'', ''runtime'', ''enabled'', ''veto_scopes'',
     ''consensus_weight'', ''capabilities'']"

definition PROFILE_KEYS :: "string list" where
  "PROFILE_KEYS = [''profile_id'', ''version'', ''agents'', ''review_matrix'', ''consensus_strategy'',
     ''max_negotiation_rounds'', ''max_replan_attempts'', ''fallback_action'',
     ''human_review_on_failure'', ''action_space'', ''reward_weights'', ''experiment_tags'',
     ''config_hash'']"

section \<open>Reading typed values\<close>

fun require_mapping :: "pyval \<Rightarrow> string \<Rightarrow> (exn, (string, pyval) dict) result" where
  "require_mapping (VDict d) label = Inr d"
| "require_mapping v label = Inl (ValueError (label @ '' must be an object''))"

definition required_text :: "(string, pyval) dict \<Rightarrow> string \<Rightarrow> string \<Rightarrow> (exn, string) result" where
  "required_text d key label =
     (if nonblank_text (vget d key) then Inr (strip (text_of (vget d key)))
      else Inl (ValueError (label @ '' must not be empty'')))"

text \<open>\<open>_required_text({"value": item}, "value", label)\<close>.\<close>

abbreviation item_text :: "string \<Rightarrow> pyval \<Rightarrow> (exn, string) result" where
  "item_text label v \<equiv> required_text [(''value'', v)] ''value'' label"

fun list_value :: "pyval \<Rightarrow> string \<Rightarrow> (exn, pyval list) result" where
  "list_value (VList vs) label = Inr vs"
| "list_value v label = Inl (ValueError (label @ '' must be a list''))"

text \<open>\<open>float(value)\<close> of an integer beyond the range of binary64 raises \<open>OverflowError\<close>.\<close>

fun number_value :: "pyval \<Rightarrow> string \<Rightarrow> (exn, pyfloat) result" where
  "number_value (VInt i) label =
     (if is_finite (round64 (of_int i)) then Inr (round64 (of_int i))
      else Inl (OtherError ''int too large to convert to float''))"
| "number_value (VFloat x) label = Inr x"
| "number_value v label = Inl (ValueError (label @ '' must be a number''))"

fun integer_value :: "pyval \<Rightarrow> string \<Rightarrow> (exn, int) result" where
  "integer_value (VInt i) label = Inr i"
| "integer_value v label = Inl (ValueError (label @ '' must be an integer''))"

section \<open>Semantic checks\<close>

definition semantic_text :: "string \<Rightarrow> string \<Rightarrow> (exn, unit) result" where
  "semantic_text v label = raise_if (is_blank v) (ValueError (label @ '' must not be empty''))"

definition semantic_weight :: "pyfloat \<Rightarrow> string \<Rightarrow> (exn, unit) result" where
  "semantic_weight v label =
     raise_if (\<not> is_finite v \<or> flt v (FFin 0)) (ValueError (label @ '' must not be negative''))"

definition semantic_round_count :: "int \<Rightarrow> string \<Rightarrow> int \<Rightarrow> (exn, unit) result" where
  "semantic_round_count v label minimum =
     raise_if (v < minimum) (ValueError (label @ '' must be at least '' @ int_str minimum))"

fun is_bool :: "pyval \<Rightarrow> bool" where
  "is_bool (VBool b) = True"
| "is_bool _ = False"

definition validate_binding_semantics :: "ProtocolAgentBinding \<Rightarrow> (exn, unit) result" where
  "validate_binding_semantics b =
     rbind (semantic_text (pb_name b) ''agent name'') (\<lambda>_.
     rbind (semantic_text (pb_implementation_id b) ''implementation_id'') (\<lambda>_.
     rbind (semantic_text (pb_runtime b) ''runtime'') (\<lambda>_.
     rbind (raise_if (\<not> is_bool (pb_enabled b)) (ValueError ''enabled must be a boolean'')) (\<lambda>_.
     rbind (raise_if (pb_veto_scopes b = [])
       (ValueError ''veto_scopes must be a non-empty tuple'')) (\<lambda>_.
     rbind (rcheck (\<lambda>s. semantic_text s ''veto scope'') (pb_veto_scopes b)) (\<lambda>_.
     rbind (raise_if (\<not> distinct (pb_veto_scopes b))
       (ValueError ''veto_scopes must not contain duplicates'')) (\<lambda>_.
     rbind (semantic_weight (pb_consensus_weight b) ''consensus_weight'') (\<lambda>_.
     rbind (raise_if (pb_capabilities b = [])
       (ValueError ''capabilities must be a non-empty tuple'')) (\<lambda>_.
     rbind (rcheck (\<lambda>s. semantic_text s ''capability'') (pb_capabilities b)) (\<lambda>_.
     raise_if (\<not> distinct (pb_capabilities b))
       (ValueError ''capabilities must not contain duplicates'')))))))))))"

text \<open>\<open>sorted(xs - ys)\<close> over sets of strings.\<close>

definition sorted_minus :: "string list \<Rightarrow> string list \<Rightarrow> string list" where
  "sorted_minus xs ys = sort (remdups (filter (\<lambda>x. x \<notin> set ys) xs))"

definition matrix_mismatch :: "string list \<Rightarrow> string list \<Rightarrow> string" where
  "matrix_mismatch known targets =
     ''review_matrix does not match agents ('' @
     join ''; ''
       ((if sorted_minus known targets = [] then []
         else [''missing targets: '' @ join '', '' (sorted_minus known targets)]) @
        (if sorted_minus targets known = [] then []
         else [''unknown targets: '' @ join '', '' (sorted_minus targets known)])) @ '')''"

definition validate_reviewers ::
  "string list \<Rightarrow> string \<times> string list \<Rightarrow> (exn, unit) result" where
  "validate_reviewers known = (\<lambda>(target, reviewers).
     rbind (semantic_text target ''review_matrix target'') (\<lambda>_.
     rbind (raise_if (reviewers = [])
       (ValueError (''reviewers for '' @ target @ '' must be a non-empty tuple''))) (\<lambda>_.
     rbind (rcheck (\<lambda>r. semantic_text r ''review participant'') reviewers) (\<lambda>_.
     rbind (raise_if (sorted_minus reviewers known \<noteq> [])
       (ValueError (''unknown review participant: '' @ join '', '' (sorted_minus reviewers known)))) (\<lambda>_.
     rbind (raise_if (target \<in> set reviewers)
       (ValueError (''agent cannot self-review: '' @ target))) (\<lambda>_.
     raise_if (\<not> distinct reviewers)
       (ValueError (''reviewers for '' @ target @ '' must not contain duplicates''))))))))"

definition validate_agents :: "ResearchProtocolProfile \<Rightarrow> (exn, unit) result" where
  "validate_agents p =
     (let agent_names = map pb_name (pf_agents p) in
     rbind (semantic_text (pf_profile_id p) ''profile_id'') (\<lambda>_.
     rbind (semantic_text (pf_version p) ''version'') (\<lambda>_.
     rbind (raise_if (pf_agents p = [])
       (ValueError ''profile must contain at least one agent'')) (\<lambda>_.
     rbind (rcheck validate_binding_semantics (pf_agents p)) (\<lambda>_.
     rbind (raise_if (\<not> distinct agent_names)
       (ValueError ''duplicate agent name in profile'')) (\<lambda>_.
     raise_if (enabled_agents p = [])
       (ValueError ''profile must contain at least one enabled agent'')))))))"

definition validate_matrix :: "ResearchProtocolProfile \<Rightarrow> (exn, unit) result" where
  "validate_matrix p =
     (let agent_names = map pb_name (pf_agents p); targets = dict_keys (pf_review_matrix p) in
     rbind (raise_if (set targets \<noteq> set agent_names)
       (ValueError (matrix_mismatch agent_names targets))) (\<lambda>_.
     rcheck (validate_reviewers agent_names) (pf_review_matrix p)))"

definition validate_limits :: "ResearchProtocolProfile \<Rightarrow> (exn, unit) result" where
  "validate_limits p =
     rbind (semantic_round_count (pf_max_negotiation_rounds p) ''max_negotiation_rounds'' 1) (\<lambda>_.
     rbind (semantic_round_count (pf_max_replan_attempts p) ''max_replan_attempts'' 0) (\<lambda>_.
     rbind (raise_if (pf_fallback_action p \<noteq> OBSERVE_ONLY)
       (ValueError ''fallback_action must be observe_only'')) (\<lambda>_.
     raise_if (pf_human_review_on_failure p \<noteq> VBool True)
       (ValueError ''human_review_on_failure must be true''))))"

definition validate_tail :: "ResearchProtocolProfile \<Rightarrow> (exn, unit) result" where
  "validate_tail p =
     rbind (raise_if (pf_action_space p = [])
       (ValueError ''action_space must be a non-empty tuple'')) (\<lambda>_.
     rbind (raise_if (\<not> distinct (pf_action_space p))
       (ValueError ''action_space must not contain duplicates'')) (\<lambda>_.
     rbind (raise_if (pf_fallback_action p \<notin> set (pf_action_space p))
       (ValueError ''fallback_action must be included in action_space'')) (\<lambda>_.
     rbind (raise_if (pf_reward_weights p = [])
       (ValueError ''reward_weights must be a non-empty object'')) (\<lambda>_.
     rbind (rcheck (\<lambda>(name, weight).
         rbind (semantic_text name ''reward weight name'') (\<lambda>_.
         semantic_weight weight (''reward_weights['' @ name @ '']'')))
       (pf_reward_weights p)) (\<lambda>_.
     rbind (raise_if (pf_experiment_tags p = [])
       (ValueError ''experiment_tags must be a non-empty tuple'')) (\<lambda>_.
     rbind (rcheck (\<lambda>t. semantic_text t ''experiment tag'') (pf_experiment_tags p)) (\<lambda>_.
     raise_if (\<not> distinct (pf_experiment_tags p))
       (ValueError ''experiment_tags must not contain duplicates''))))))))"

definition validate_semantics :: "ResearchProtocolProfile \<Rightarrow> (exn, unit) result" where
  "validate_semantics p =
     rbind (validate_agents p) (\<lambda>_. rbind (validate_matrix p) (\<lambda>_.
     rbind (validate_limits p) (\<lambda>_. validate_tail p)))"

section \<open>Canonical form and hash\<close>

abbreviation texts :: "string list \<Rightarrow> pyval" where
  "texts xs \<equiv> VList (map VStr xs)"

definition canonical_binding :: "ProtocolAgentBinding \<Rightarrow> pyval" where
  "canonical_binding b = VDict
     [(''name'', VStr (pb_name b)), (''implementation_id'', VStr (pb_implementation_id b)),
      (''runtime'', VStr (pb_runtime b)), (''enabled'', pb_enabled b),
      (''veto_scopes'', texts (pb_veto_scopes b)),
      (''consensus_weight'', VFloat (pb_consensus_weight b)),
      (''capabilities'', texts (pb_capabilities b))]"

definition canonical_profile_payload :: "ResearchProtocolProfile \<Rightarrow> (string, pyval) dict" where
  "canonical_profile_payload p =
     [(''profile_id'', VStr (pf_profile_id p)), (''version'', VStr (pf_version p)),
      (''agents'', VList (map canonical_binding (pf_agents p))),
      (''review_matrix'', VDict (map (\<lambda>(t, rs). (t, texts rs)) (pf_review_matrix p))),
      (''consensus_strategy'', VStr (strategy_value (pf_consensus_strategy p))),
      (''max_negotiation_rounds'', VInt (pf_max_negotiation_rounds p)),
      (''max_replan_attempts'', VInt (pf_max_replan_attempts p)),
      (''fallback_action'', VStr (kind_value (pf_fallback_action p))),
      (''human_review_on_failure'', pf_human_review_on_failure p),
      (''action_space'', texts (map kind_value (pf_action_space p))),
      (''reward_weights'', VDict (map (\<lambda>(n, w). (n, VFloat w)) (pf_reward_weights p))),
      (''experiment_tags'', texts (pf_experiment_tags p))]"

definition to_canonical_dict :: "ResearchProtocolProfile \<Rightarrow> pyval" where
  "to_canonical_dict p =
     VDict (canonical_profile_payload p @ [(''config_hash'', VStr (pf_config_hash p))])"

text \<open>
  \<open>json.dumps(payload, ensure_ascii=False, sort_keys=True, separators=(",", ":"), allow_nan=False)\<close>;
  \<open>None\<close> is the \<open>TypeError\<close> or \<open>ValueError\<close> of a value that has no such text.
\<close>

definition json_char :: "char \<Rightarrow> string" where
  "json_char c = (let n = code_point c in
     if n = 34 \<or> n = 92 then [CHR 0x5C, c]
     else if n = 10 then [CHR 0x5C, CHR ''n'']
     else if n = 13 then [CHR 0x5C, CHR ''r'']
     else if n = 9 then [CHR 0x5C, CHR ''t'']
     else if n = 8 then [CHR 0x5C, CHR ''b'']
     else if n = 12 then [CHR 0x5C, CHR ''f'']
     else if n < 32 then [CHR 0x5C] @ ''u00'' @ [hex_digit (n div 16), hex_digit (n mod 16)]
     else [c])"

definition json_string :: "string \<Rightarrow> string" where
  "json_string s = [CHR 0x22] @ concat (map json_char s) @ [CHR 0x22]"

fun opt_all :: "'a option list \<Rightarrow> 'a list option" where
  "opt_all [] = Some []"
| "opt_all (None # xs) = None"
| "opt_all (Some x # xs) = map_option ((#) x) (opt_all xs)"

fun canonical_json :: "pyval \<Rightarrow> string option" where
  "canonical_json VNone = Some ''null''"
| "canonical_json (VBool b) = Some (if b then ''true'' else ''false'')"
| "canonical_json (VInt i) = Some (int_str i)"
| "canonical_json (VFloat x) = (if is_finite x then Some (float_repr x) else None)"
| "canonical_json (VStr s) = Some (json_string s)"
| "canonical_json (VList vs) =
     map_option (\<lambda>ts. ''['' @ join '','' ts @ '']'') (opt_all (map canonical_json vs))"
| "canonical_json (VTuple vs) =
     map_option (\<lambda>ts. ''['' @ join '','' ts @ '']'') (opt_all (map canonical_json vs))"
| "canonical_json (VDict kvs) =
     map_option (\<lambda>ts. ''{'' @ join '','' ts @ ''}'')
       (opt_all (map snd (sort_key fst
         (map (\<lambda>(k, v). (k, map_option (\<lambda>t. json_string k @ '':'' @ t) (canonical_json v))) kvs))))"
| "canonical_json _ = None"

definition config_hash_of :: "(string \<Rightarrow> string) \<Rightarrow> (string, pyval) dict \<Rightarrow> (exn, string) result" where
  "config_hash_of sha256 source =
     (case canonical_json (VDict (filter (\<lambda>(k, v). k \<noteq> ''config_hash'') source)) of
        None \<Rightarrow> Inl (ValueError ''protocol profile must contain JSON-compatible values'')
      | Some text \<Rightarrow> Inr (sha256 text))"

definition recomputed_config_hash ::
  "(string \<Rightarrow> string) \<Rightarrow> ResearchProtocolProfile \<Rightarrow> (exn, string) result" where
  "recomputed_config_hash sha256 p = config_hash_of sha256 (canonical_profile_payload p)"

definition validate_integrity ::
  "(string \<Rightarrow> string) \<Rightarrow> ResearchProtocolProfile \<Rightarrow> (exn, unit) result" where
  "validate_integrity sha256 p =
     rbind (validate_semantics p) (\<lambda>_.
     rbind (recomputed_config_hash sha256 p) (\<lambda>expected.
     raise_if (pf_config_hash p \<noteq> expected)
       (ValueError ''config_hash does not match current profile contents'')))"

section \<open>Parsing\<close>

definition unknown_fields :: "string \<Rightarrow> string list \<Rightarrow> (string, pyval) dict \<Rightarrow> (exn, unit) result" where
  "unknown_fields label allowed source =
     raise_if (sorted_minus (dict_keys source) allowed \<noteq> [])
       (ValueError (label @ '' contains unknown fields: '' @
          join '', '' (sorted_minus (dict_keys source) allowed)))"

definition binding_from_dict :: "pyval \<Rightarrow> (exn, ProtocolAgentBinding) result" where
  "binding_from_dict data =
     rbind (require_mapping data ''agent binding'') (\<lambda>source.
     rbind (unknown_fields ''agent binding'' BINDING_KEYS source) (\<lambda>_.
     rbind (list_value (vget source ''veto_scopes'') ''veto_scopes'') (\<lambda>raw_scopes.
     rbind (rmap (item_text ''veto scope'') raw_scopes) (\<lambda>scopes.
     rbind (list_value (vget source ''capabilities'') ''capabilities'') (\<lambda>raw_capabilities.
     rbind (rmap (item_text ''capability'') raw_capabilities) (\<lambda>capabilities.
     rbind (required_text source ''name'' ''agent name'') (\<lambda>name.
     rbind (required_text source ''implementation_id'' ''implementation_id'') (\<lambda>implementation_id.
     rbind (required_text source ''runtime'' ''runtime'') (\<lambda>runtime.
     rbind (number_value (vget source ''consensus_weight'') ''consensus_weight'') (\<lambda>weight.
     Inr \<lparr>pb_name = name, pb_implementation_id = implementation_id, pb_runtime = runtime,
          pb_enabled = vget source ''enabled'', pb_veto_scopes = scopes,
          pb_consensus_weight = weight, pb_capabilities = capabilities\<rparr>))))))))))"

text \<open>One entry of the review matrix, with its target and reviewers trimmed.\<close>

definition matrix_entry :: "string \<times> pyval \<Rightarrow> (exn, string \<times> string list) result" where
  "matrix_entry = (\<lambda>(target, raw_reviewers).
     rbind (item_text ''review_matrix target'' (VStr target)) (\<lambda>normalized_target.
     rbind (list_value raw_reviewers (''reviewers for '' @ normalized_target)) (\<lambda>reviewers.
     rbind (rmap (item_text ''reviewer'') reviewers) (\<lambda>normalized_reviewers.
     Inr (normalized_target, normalized_reviewers)))))"

definition strategy_from_dict :: "(string, pyval) dict \<Rightarrow> (exn, ConsensusStrategy) result" where
  "strategy_from_dict source =
     (let err = Inl (ValueError (''unknown consensus_strategy: '' @
            json_str (vget_default source ''consensus_strategy'' (VStr ''''))))
      in case required_text source ''consensus_strategy'' ''consensus_strategy'' of
           Inl e \<Rightarrow> err
         | Inr s \<Rightarrow> (case strategy_of_value s of None \<Rightarrow> err | Some c \<Rightarrow> Inr c))"

definition fallback_from_dict :: "(string, pyval) dict \<Rightarrow> (exn, RecoveryActionKind) result" where
  "fallback_from_dict source =
     rbind (required_text source ''fallback_action'' ''fallback_action'') (\<lambda>raw.
     case kind_of_value raw of
       None \<Rightarrow> Inl (ValueError (''unknown fallback_action: '' @ raw))
     | Some k \<Rightarrow> Inr k)"

definition action_of_value :: "pyval \<Rightarrow> (exn, RecoveryActionKind) result" where
  "action_of_value v = (case kind_of_value (json_str v) of
       None \<Rightarrow> Inl (ValueError ''action_space contains an unknown recovery action'')
     | Some k \<Rightarrow> Inr k)"

definition reward_weight :: "string \<times> pyval \<Rightarrow> (exn, string \<times> pyfloat) result" where
  "reward_weight = (\<lambda>(key, v).
     rbind (item_text ''reward weight name'' (VStr key)) (\<lambda>name.
     rbind (number_value v (''reward_weights['' @ key @ '']'')) (\<lambda>w. Inr (name, w))))"

text \<open>The unhashed profile that \<open>from_dict\<close> builds before it checks the semantics.\<close>

definition profile_fields :: "(string, pyval) dict \<Rightarrow> (exn, ResearchProtocolProfile) result" where
  "profile_fields source =
     rbind (case vget source ''agents'' of VList vs \<Rightarrow> Inr vs
            | _ \<Rightarrow> Inl (ValueError ''agents must be a list'')) (\<lambda>raw_agents.
     rbind (rmap binding_from_dict raw_agents) (\<lambda>agents.
     rbind (require_mapping (vget source ''review_matrix'') ''review_matrix'') (\<lambda>matrix_source.
     rbind (rmap matrix_entry matrix_source) (\<lambda>entries.
     rbind (strategy_from_dict source) (\<lambda>strategy.
     rbind (fallback_from_dict source) (\<lambda>fallback.
     rbind (list_value (vget source ''action_space'') ''action_space'') (\<lambda>raw_actions.
     rbind (rmap action_of_value raw_actions) (\<lambda>action_space.
     rbind (require_mapping (vget source ''reward_weights'') ''reward_weights'') (\<lambda>reward_source.
     rbind (rmap reward_weight reward_source) (\<lambda>weights.
     rbind (list_value (vget source ''experiment_tags'') ''experiment_tags'') (\<lambda>raw_tags.
     rbind (rmap (item_text ''experiment tag'') raw_tags) (\<lambda>tags.
     rbind (required_text source ''profile_id'' ''profile_id'') (\<lambda>profile_id.
     rbind (required_text source ''version'' ''version'') (\<lambda>version.
     rbind (integer_value (vget source ''max_negotiation_rounds'') ''max_negotiation_rounds'') (\<lambda>rounds.
     rbind (integer_value (vget source ''max_replan_attempts'') ''max_replan_attempts'') (\<lambda>attempts.
     Inr \<lparr>pf_profile_id = profile_id, pf_version = version, pf_agents = agents,
          pf_review_matrix = dict_of entries, pf_consensus_strategy = strategy,
          pf_max_negotiation_rounds = rounds, pf_max_replan_attempts = attempts,
          pf_fallback_action = fallback,
          pf_human_review_on_failure = vget source ''human_review_on_failure'',
          pf_action_space = action_space, pf_reward_weights = dict_of weights,
          pf_experiment_tags = tags, pf_config_hash = ''''\<rparr>))))))))))))))))"

definition profile_from_dict ::
  "(string \<Rightarrow> string) \<Rightarrow> pyval \<Rightarrow> (exn, ResearchProtocolProfile) result" where
  "profile_from_dict sha256 data =
     rbind (require_mapping data ''protocol profile'') (\<lambda>source.
     rbind (unknown_fields ''protocol profile'' PROFILE_KEYS source) (\<lambda>_.
     rbind (profile_fields source) (\<lambda>p.
     rbind (validate_semantics p) (\<lambda>_.
     rbind (recomputed_config_hash sha256 p) (\<lambda>hash.
     rbind (raise_if (vget source ''config_hash'' \<noteq> VNone \<and> vget source ''config_hash'' \<noteq> VStr hash)
       (ValueError ''config_hash does not match profile contents'')) (\<lambda>_.
     Inr (p\<lparr>pf_config_hash := hash\<rparr>)))))))"

section \<open>The profile directory\<close>

text \<open>
  A directory is the list of its \<open>*.json\<close> paths with what decoding the file gives; \<open>None\<close> is a
  file that cannot be read or is not JSON.
\<close>

definition load_research_protocol ::
  "(string \<Rightarrow> string) \<Rightarrow> string \<times> pyval option \<Rightarrow> (exn, ResearchProtocolProfile) result" where
  "load_research_protocol sha256 = (\<lambda>(path, data). case data of
       None \<Rightarrow> Inl (ValueError (''could not load protocol profile: '' @ path))
     | Some d \<Rightarrow> profile_from_dict sha256 d)"

fun collect_profiles ::
  "(string \<Rightarrow> string) \<Rightarrow> (string, ResearchProtocolProfile) dict \<Rightarrow> (string \<times> pyval option) list
   \<Rightarrow> (exn, (string, ResearchProtocolProfile) dict) result" where
  "collect_profiles sha256 profiles [] = Inr profiles"
| "collect_profiles sha256 profiles (path # paths) =
     rbind (load_research_protocol sha256 path) (\<lambda>p.
     rbind (raise_if (pf_profile_id p \<in> set (dict_keys profiles))
       (ValueError (''duplicate profile_id: '' @ pf_profile_id p))) (\<lambda>_.
     collect_profiles sha256 (dict_set (pf_profile_id p) p profiles) paths))"

datatype directory = Missing | NotADirectory | Files "(string \<times> pyval option) list"

definition load_protocol_profiles ::
  "(string \<Rightarrow> string) \<Rightarrow> string \<Rightarrow> directory \<Rightarrow> (exn, (string, ResearchProtocolProfile) dict) result" where
  "load_protocol_profiles sha256 name dir = (case dir of
       Missing \<Rightarrow> Inl (ValueError (''protocol profile directory does not exist: '' @ name))
     | NotADirectory \<Rightarrow> Inl (ValueError (''protocol profile path is not a directory: '' @ name))
     | Files files \<Rightarrow>
         (if files = [] then
            Inl (ValueError (''protocol profile directory contains no JSON profiles: '' @ name))
          else collect_profiles sha256 [] (sort_key fst files)))"

definition DEFAULT_PROTOCOL_PROFILE_ID :: string where
  "DEFAULT_PROTOCOL_PROFILE_ID = ''four-agent-role-veto-v1''"

definition select_default_protocol_profile ::
  "(string \<Rightarrow> string) \<Rightarrow> (string, ResearchProtocolProfile) dict \<Rightarrow> (exn, ResearchProtocolProfile) result" where
  "select_default_protocol_profile sha256 profiles =
     (case dict_get profiles DEFAULT_PROTOCOL_PROFILE_ID of
        None \<Rightarrow> Inl (ValueError (''default protocol profile is missing: '' @ DEFAULT_PROTOCOL_PROFILE_ID))
      | Some p \<Rightarrow>
          rbind (raise_if (pf_max_negotiation_rounds p \<noteq> 2)
            (ValueError (''default protocol profile max_negotiation_rounds must be 2; got '' @
               int_str (pf_max_negotiation_rounds p)))) (\<lambda>_.
          rbind (raise_if (pf_max_replan_attempts p \<noteq> 1)
            (ValueError (''default protocol profile max_replan_attempts must be 1; got '' @
               int_str (pf_max_replan_attempts p)))) (\<lambda>_.
          rbind (validate_integrity sha256 p) (\<lambda>_. Inr p))))"

section \<open>The contract of a valid profile\<close>

definition binding_valid :: "ProtocolAgentBinding \<Rightarrow> bool" where
  "binding_valid b \<longleftrightarrow>
     \<not> is_blank (pb_name b) \<and> \<not> is_blank (pb_implementation_id b) \<and> \<not> is_blank (pb_runtime b) \<and>
     is_bool (pb_enabled b) \<and>
     pb_veto_scopes b \<noteq> [] \<and> (\<forall>s \<in> set (pb_veto_scopes b). \<not> is_blank s) \<and> distinct (pb_veto_scopes b) \<and>
     (\<exists>w. pb_consensus_weight b = FFin w \<and> 0 \<le> w) \<and>
     pb_capabilities b \<noteq> [] \<and> (\<forall>s \<in> set (pb_capabilities b). \<not> is_blank s) \<and> distinct (pb_capabilities b)"

definition matrix_valid :: "string list \<Rightarrow> (string, string list) dict \<Rightarrow> bool" where
  "matrix_valid names m \<longleftrightarrow>
     set (dict_keys m) = set names \<and>
     (\<forall>(target, reviewers) \<in> set m. \<not> is_blank target \<and> reviewers \<noteq> [] \<and> distinct reviewers \<and>
        set reviewers \<subseteq> set names - {target} \<and> (\<forall>r \<in> set reviewers. \<not> is_blank r))"

definition profile_valid :: "ResearchProtocolProfile \<Rightarrow> bool" where
  "profile_valid p \<longleftrightarrow>
     \<not> is_blank (pf_profile_id p) \<and> \<not> is_blank (pf_version p) \<and>
     (\<forall>b \<in> set (pf_agents p). binding_valid b) \<and> distinct (map pb_name (pf_agents p)) \<and>
     (\<exists>b \<in> set (pf_agents p). pb_enabled b = VBool True) \<and>
     matrix_valid (map pb_name (pf_agents p)) (pf_review_matrix p) \<and>
     1 \<le> pf_max_negotiation_rounds p \<and> 0 \<le> pf_max_replan_attempts p \<and>
     pf_fallback_action p = OBSERVE_ONLY \<and> pf_human_review_on_failure p = VBool True \<and>
     OBSERVE_ONLY \<in> set (pf_action_space p) \<and> distinct (pf_action_space p) \<and>
     pf_reward_weights p \<noteq> [] \<and>
     (\<forall>(n, w) \<in> set (pf_reward_weights p). \<not> is_blank n \<and> (\<exists>x. w = FFin x \<and> 0 \<le> x)) \<and>
     pf_experiment_tags p \<noteq> [] \<and> (\<forall>t \<in> set (pf_experiment_tags p). \<not> is_blank t) \<and>
     distinct (pf_experiment_tags p)"

lemma semantic_text_Inr [simp]: "semantic_text v label = Inr u \<longleftrightarrow> \<not> is_blank v"
  by (simp add: semantic_text_def)

lemma semantic_weight_Inr [simp]:
  "semantic_weight v label = Inr u \<longleftrightarrow> (\<exists>w. v = FFin w \<and> 0 \<le> w)"
  by (cases v) (auto simp: semantic_weight_def)

lemma validate_binding_iff: "validate_binding_semantics b = Inr u \<longleftrightarrow> binding_valid b"
  by (auto simp: validate_binding_semantics_def binding_valid_def)

lemma sorted_minus_Nil [simp]: "sorted_minus xs ys = [] \<longleftrightarrow> set xs \<subseteq> set ys"
proof -
  have "sorted_minus xs ys = [] \<longleftrightarrow> set (sorted_minus xs ys) = {}" by (simp only: set_empty)
  also have "\<dots> \<longleftrightarrow> set xs \<subseteq> set ys" by (auto simp: sorted_minus_def)
  finally show ?thesis .
qed

lemma validate_reviewers_iff:
  "validate_reviewers names entry = Inr u \<longleftrightarrow> (case entry of (target, reviewers) \<Rightarrow>
     \<not> is_blank target \<and> reviewers \<noteq> [] \<and> distinct reviewers \<and>
     set reviewers \<subseteq> set names - {target} \<and> (\<forall>r \<in> set reviewers. \<not> is_blank r))"
  by (cases entry) (auto simp: validate_reviewers_def)

lemma validate_matrix_iff:
  "validate_matrix p = Inr u \<longleftrightarrow> matrix_valid (map pb_name (pf_agents p)) (pf_review_matrix p)"
  unfolding validate_matrix_def matrix_valid_def Let_def rbind_Inr_iff raise_if_Inr rcheck_Inr
    validate_reviewers_iff
  by simp

lemma is_bool_truthy: "is_bool v \<Longrightarrow> truthy v \<longleftrightarrow> v = VBool True"
  by (cases v) auto

lemma validate_agents_iff:
  "validate_agents p = Inr u \<longleftrightarrow>
     \<not> is_blank (pf_profile_id p) \<and> \<not> is_blank (pf_version p) \<and>
     (\<forall>b \<in> set (pf_agents p). binding_valid b) \<and> distinct (map pb_name (pf_agents p)) \<and>
     (\<exists>b \<in> set (pf_agents p). pb_enabled b = VBool True)"
proof -
  have "binding_valid b \<Longrightarrow> binding_enabled b \<longleftrightarrow> pb_enabled b = VBool True" for b
    by (auto simp: binding_valid_def binding_enabled_def is_bool_truthy)
  then show ?thesis
    by (auto simp: validate_agents_def Let_def validate_binding_iff enabled_agents_def filter_empty_conv)
qed

lemma validate_semantics_iff: "validate_semantics p = Inr u \<longleftrightarrow> profile_valid p"
  by (auto simp: validate_semantics_def validate_agents_iff validate_matrix_iff validate_limits_def
      validate_tail_def profile_valid_def semantic_round_count_def)

text \<open>
  C9. A profile passes \<open>validate_semantics\<close> exactly when it meets the contract: named and enabled
  agents with non-negative weights, a review matrix over exactly the agents in which nobody reviews
  itself, at least one negotiation round, \<open>observe_only\<close> as the fallback and in the action space.
  Every other profile raises \<open>ValueError\<close>.
\<close>

theorem validate_semantics_decides:
  "(validate_semantics p = Inr ()) = profile_valid p \<and>
   (\<exists>m. validate_semantics p = Inl (ValueError m)) = (\<not> profile_valid p)"
proof -
  have bind: "\<exists>m. e = ValueError m" if "validate_binding_semantics b = Inl e" for b e
    using that by (auto simp: validate_binding_semantics_def semantic_text_def semantic_weight_def
        rbind_Inl_iff dest: rcheck_Inl)
  have rev: "\<exists>m. e = ValueError m" if "validate_reviewers names x = Inl e" for names x e
    using that by (cases x) (auto simp: validate_reviewers_def semantic_text_def rbind_Inl_iff
        dest: rcheck_Inl)
  have "\<exists>m. e = ValueError m" if "validate_semantics p = Inl e" for e
    using that bind rev
    by (auto simp: validate_semantics_def validate_agents_def validate_matrix_def validate_limits_def
        validate_tail_def semantic_text_def semantic_weight_def semantic_round_count_def Let_def
        rbind_Inl_iff dest!: rcheck_Inl)
  then show ?thesis
    using validate_semantics_iff[of p] by (cases "validate_semantics p"; cases "profile_valid p") auto
qed

lemma from_dict_Inr:
  "profile_from_dict sha256 d = Inr p \<longleftrightarrow>
     (\<exists>source q hash. d = VDict source \<and> unknown_fields ''protocol profile'' PROFILE_KEYS source = Inr () \<and>
        profile_fields source = Inr q \<and> profile_valid q \<and>
        recomputed_config_hash sha256 q = Inr hash \<and>
        (vget source ''config_hash'' = VNone \<or> vget source ''config_hash'' = VStr hash) \<and>
        p = q\<lparr>pf_config_hash := hash\<rparr>)"
  by (cases d) (auto simp: profile_from_dict_def validate_semantics_iff)

lemma profile_valid_hash [simp]: "profile_valid (p\<lparr>pf_config_hash := h\<rparr>) = profile_valid p"
  by (simp add: profile_valid_def)

lemma payload_hash [simp]:
  "canonical_profile_payload (p\<lparr>pf_config_hash := h\<rparr>) = canonical_profile_payload p"
  by (simp add: canonical_profile_payload_def)

lemma recomputed_hash_hash [simp]:
  "recomputed_config_hash sha256 (p\<lparr>pf_config_hash := h\<rparr>) = recomputed_config_hash sha256 p"
  by (simp add: recomputed_config_hash_def)

lemma integrity_iff:
  "validate_integrity sha256 p = Inr u \<longleftrightarrow>
     profile_valid p \<and> recomputed_config_hash sha256 p = Inr (pf_config_hash p)"
  by (auto simp: validate_integrity_def validate_semantics_iff)

lemma from_dict_integrity: "profile_from_dict sha256 d = Inr p \<Longrightarrow> validate_integrity sha256 p = Inr ()"
  by (auto simp: from_dict_Inr integrity_iff)

section \<open>Reloading the canonical form\<close>

text \<open>Texts as \<open>_required_text\<close> leaves them.\<close>

definition clean :: "string \<Rightarrow> bool" where
  "clean s \<longleftrightarrow> strip s = s \<and> \<not> is_blank s"

lemma item_text_clean [simp]: "clean s \<Longrightarrow> item_text label (VStr s) = Inr s"
  by (simp add: required_text_def vget_def clean_def)

lemma required_text_clean: "required_text d k label = Inr s \<Longrightarrow> clean s"
  by (auto simp: required_text_def clean_def is_blank_def nonblank_text_def text_of_def
      split: if_splits option.splits)

lemma rmap_texts_clean: "rmap (item_text label) vs = Inr xs \<Longrightarrow> \<forall>x \<in> set xs. clean x"
  using rmap_Inr_set required_text_clean by fast

lemma rmap_item_texts [simp]:
  "\<forall>x \<in> set xs. clean x \<Longrightarrow> rmap (item_text label) (map VStr xs) = Inr xs"
  by (induction xs) auto

definition binding_clean :: "ProtocolAgentBinding \<Rightarrow> bool" where
  "binding_clean b \<longleftrightarrow> clean (pb_name b) \<and> clean (pb_implementation_id b) \<and> clean (pb_runtime b) \<and>
     (\<forall>s \<in> set (pb_veto_scopes b). clean s) \<and> (\<forall>s \<in> set (pb_capabilities b). clean s)"

lemma binding_from_dict_clean: "binding_from_dict d = Inr b \<Longrightarrow> binding_clean b"
  by (auto simp: binding_from_dict_def binding_clean_def dest: required_text_clean rmap_texts_clean)

lemma required_text_VStr: "vget d k = VStr s \<Longrightarrow> clean s \<Longrightarrow> required_text d k label = Inr s"
  by (simp add: required_text_def clean_def)

lemma binding_reload: "binding_clean b \<Longrightarrow> binding_from_dict (canonical_binding b) = Inr b"
  by (cases b) (simp add: binding_from_dict_def canonical_binding_def unknown_fields_def
      BINDING_KEYS_def binding_clean_def vget_def required_text_VStr)

lemma clean_strategy [simp]: "clean (strategy_value s)"
  by (rule ConsensusStrategy.induct) code_simp+

lemma clean_kind [simp]: "clean (kind_value k)"
  by (rule RecoveryActionKind.induct) code_simp+

definition profile_clean :: "ResearchProtocolProfile \<Rightarrow> bool" where
  "profile_clean p \<longleftrightarrow> clean (pf_profile_id p) \<and> clean (pf_version p) \<and>
     (\<forall>b \<in> set (pf_agents p). binding_clean b) \<and>
     dict_ok (pf_review_matrix p) \<and>
     (\<forall>(t, rs) \<in> set (pf_review_matrix p). clean t \<and> (\<forall>r \<in> set rs. clean r)) \<and>
     dict_ok (pf_reward_weights p) \<and> (\<forall>(n, w) \<in> set (pf_reward_weights p). clean n) \<and>
     (\<forall>t \<in> set (pf_experiment_tags p). clean t)"

lemma matrix_entry_clean: "matrix_entry e = Inr (t, rs) \<Longrightarrow> clean t \<and> (\<forall>r \<in> set rs. clean r)"
  by (cases e) (auto simp: matrix_entry_def dest: required_text_clean rmap_texts_clean)

lemma reward_weight_clean: "reward_weight e = Inr (n, w) \<Longrightarrow> clean n"
  by (cases e) (auto simp: reward_weight_def dest: required_text_clean)

lemma entries_clean:
  assumes "rmap matrix_entry es = Inr entries" and "(t, rs) \<in> set (dict_of entries)"
  shows "clean t \<and> (\<forall>r \<in> set rs. clean r)"
  using assms set_dict_of[of entries] by (blast dest: rmap_Inr_set matrix_entry_clean)

lemma weights_clean:
  assumes "rmap reward_weight es = Inr weights" and "(n, w) \<in> set (dict_of weights)"
  shows "clean n"
  using assms set_dict_of[of weights] by (blast dest: rmap_Inr_set reward_weight_clean)

lemma profile_fields_clean:
  assumes "profile_fields source = Inr p"
  shows "profile_clean p \<and> pf_config_hash p = ''''"
  using assms unfolding profile_fields_def rbind_Inr_iff
  by (auto simp: profile_clean_def
      dest: binding_from_dict_clean rmap_Inr_set required_text_clean rmap_texts_clean
        entries_clean weights_clean)

lemma rmap_bindings_reload:
  "\<forall>b \<in> set bs. binding_clean b \<Longrightarrow> rmap binding_from_dict (map canonical_binding bs) = Inr bs"
  by (induction bs) (auto simp: binding_reload)

lemma rmap_matrix_reload:
  "\<forall>(t, rs) \<in> set m. clean t \<and> (\<forall>r \<in> set rs. clean r) \<Longrightarrow>
   rmap matrix_entry (map (\<lambda>(t, rs). (t, texts rs)) m) = Inr m"
  by (induction m) (auto simp: matrix_entry_def)

lemma rmap_weights_reload:
  "\<forall>(n, w) \<in> set ws. clean n \<Longrightarrow> rmap reward_weight (map (\<lambda>(n, w). (n, VFloat w)) ws) = Inr ws"
  by (induction ws) (auto simp: reward_weight_def)

lemma rmap_actions_reload:
  "rmap action_of_value (map VStr (map kind_value ks)) = Inr ks"
  by (induction ks) (auto simp: action_of_value_def)

lemma profile_fields_reload:
  assumes "profile_clean p"
  shows "profile_fields (canonical_profile_payload p @ extra) = Inr (p\<lparr>pf_config_hash := ''''\<rparr>)"
proof -
  let ?d = "canonical_profile_payload p @ extra"
  have v: "vget ?d ''agents'' = VList (map canonical_binding (pf_agents p))"
    "vget ?d ''review_matrix'' = VDict (map (\<lambda>(t, rs). (t, texts rs)) (pf_review_matrix p))"
    "vget ?d ''consensus_strategy'' = VStr (strategy_value (pf_consensus_strategy p))"
    "vget ?d ''fallback_action'' = VStr (kind_value (pf_fallback_action p))"
    "vget ?d ''action_space'' = texts (map kind_value (pf_action_space p))"
    "vget ?d ''reward_weights'' = VDict (map (\<lambda>(n, w). (n, VFloat w)) (pf_reward_weights p))"
    "vget ?d ''experiment_tags'' = texts (pf_experiment_tags p)"
    "vget ?d ''profile_id'' = VStr (pf_profile_id p)" "vget ?d ''version'' = VStr (pf_version p)"
    "vget ?d ''max_negotiation_rounds'' = VInt (pf_max_negotiation_rounds p)"
    "vget ?d ''max_replan_attempts'' = VInt (pf_max_replan_attempts p)"
    "vget ?d ''human_review_on_failure'' = pf_human_review_on_failure p"
    by (simp_all add: vget_def canonical_profile_payload_def)
  show ?thesis
    using assms
    by (simp add: profile_fields_def v required_text_VStr strategy_from_dict_def
        fallback_from_dict_def rmap_bindings_reload rmap_matrix_reload rmap_weights_reload
        rmap_actions_reload profile_clean_def dict_of_distinct del: map_map)
qed

lemma canonical_dict_known:
  "unknown_fields ''protocol profile'' PROFILE_KEYS
     (canonical_profile_payload p @ [(''config_hash'', VStr h)]) = Inr ()"
  by (simp add: unknown_fields_def canonical_profile_payload_def PROFILE_KEYS_def)

text \<open>
  C10. Loading is stable: a profile that was loaded from any configuration data passes the integrity
  check, and loading its canonical form again gives the same profile with the same hash, whatever
  the hash function. Parsing, trimming and canonicalisation lose nothing.
\<close>

theorem from_dict_reload:
  assumes "profile_from_dict sha256 data = Inr p"
  shows "validate_integrity sha256 p = Inr () \<and>
         profile_from_dict sha256 (to_canonical_dict p) = Inr p"
proof
  show "validate_integrity sha256 p = Inr ()" by (rule from_dict_integrity[OF assms])
  from assms obtain source q hash where
    q: "profile_fields source = Inr q" "profile_valid q" "recomputed_config_hash sha256 q = Inr hash"
    and p: "p = q\<lparr>pf_config_hash := hash\<rparr>"
    by (auto simp: from_dict_Inr)
  from profile_fields_clean[OF q(1)] have "profile_clean p" and h: "pf_config_hash q = ''''"
    by (auto simp: p profile_clean_def)
  from profile_fields_reload[OF this(1)] have
    "profile_fields (canonical_profile_payload p @ [(''config_hash'', VStr (pf_config_hash p))]) =
       Inr q" using h by (simp add: p)
  moreover have "vget (canonical_profile_payload p @ [(''config_hash'', VStr (pf_config_hash p))])
      ''config_hash'' = VStr hash"
    by (simp add: vget_def canonical_profile_payload_def p)
  ultimately show "profile_from_dict sha256 (to_canonical_dict p) = Inr p"
    using q(2,3) by (simp add: from_dict_Inr to_canonical_dict_def canonical_dict_known p)
qed

definition demo_binding :: "string \<Rightarrow> string \<Rightarrow> rat \<Rightarrow> ProtocolAgentBinding" where
  "demo_binding name scope weight =
     \<lparr>pb_name = name, pb_implementation_id = ''rule'', pb_runtime = ''rule'',
      pb_enabled = VBool True, pb_veto_scopes = [scope], pb_consensus_weight = FFin weight,
      pb_capabilities = [''review'']\<rparr>"

definition demo_sha256 :: "string \<Rightarrow> string" where
  "demo_sha256 s = ''h''"

definition demo_profile :: ResearchProtocolProfile where
  "demo_profile =
     \<lparr>pf_profile_id = ''p1'', pf_version = ''1'',
      pf_agents = [demo_binding ''ha'' ''availability'' 1, demo_binding ''cost'' ''budget'' 0],
      pf_review_matrix = [(''ha'', [''cost'']), (''cost'', [''ha''])],
      pf_consensus_strategy = ROLE_BASED_VETO, pf_max_negotiation_rounds = 2,
      pf_max_replan_attempts = 1, pf_fallback_action = OBSERVE_ONLY,
      pf_human_review_on_failure = VBool True, pf_action_space = [OBSERVE_ONLY, SCALE_OUT],
      pf_reward_weights = [(''recovery'', FFin 0)], pf_experiment_tags = [''t''],
      pf_config_hash = ''h''\<rparr>"

lemma opt_all_Some: "\<forall>x \<in> set xs. \<exists>y. x = Some y \<Longrightarrow> \<exists>ys. opt_all xs = Some ys"
  by (induction xs) auto

lemma json_list_Some:
  "\<forall>v \<in> set vs. \<exists>t. canonical_json v = Some t \<Longrightarrow> \<exists>t. canonical_json (VList vs) = Some t"
  using opt_all_Some[of "map canonical_json vs"] by auto

lemma json_dict_Some:
  assumes "\<forall>(k, v) \<in> set kvs. \<exists>t. canonical_json v = Some t"
  shows "\<exists>t. canonical_json (VDict kvs) = Some t"
proof -
  let ?xs = "map snd (sort_key fst
         (map (\<lambda>(k, v). (k, map_option (\<lambda>t. json_string k @ '':'' @ t) (canonical_json v))) kvs))"
  have "\<forall>x \<in> set ?xs. \<exists>y. x = Some y" using assms by fastforce
  from opt_all_Some[OF this] show ?thesis by auto
qed

lemma json_texts_Some: "\<exists>t. canonical_json (texts xs) = Some t"
  by (rule json_list_Some) simp

lemma is_bool_json: "is_bool v \<Longrightarrow> \<exists>t. canonical_json v = Some t"
  by (cases v) auto

lemma binding_json: "binding_valid b \<Longrightarrow> \<exists>t. canonical_json (canonical_binding b) = Some t"
  unfolding canonical_binding_def
  by (rule json_dict_Some)
    (auto simp: binding_valid_def is_bool_json json_texts_Some simp del: canonical_json.simps(6))

text \<open>The hash of a valid profile exists: \<open>json.dumps\<close> cannot fail after the semantic checks.\<close>

lemma valid_profile_hash:
  assumes "profile_valid p"
  shows "\<exists>text. canonical_json (VDict (canonical_profile_payload p)) = Some text \<and>
           recomputed_config_hash sha256 p = Inr (sha256 text)"
proof -
  have agents: "\<exists>t. canonical_json (VList (map canonical_binding (pf_agents p))) = Some t"
    by (rule json_list_Some) (use assms binding_json in \<open>auto simp: profile_valid_def\<close>)
  have matrix: "\<exists>t. canonical_json (VDict (map (\<lambda>(t, rs). (t, texts rs)) m)) = Some t" for m
    by (rule json_dict_Some) (auto simp: json_texts_Some simp del: canonical_json.simps(6))
  have weights: "\<exists>t. canonical_json (VDict (map (\<lambda>(n, w). (n, VFloat w)) (pf_reward_weights p))) = Some t"
    by (rule json_dict_Some) (use assms in \<open>auto simp: profile_valid_def\<close>)
  have human: "\<exists>t. canonical_json (pf_human_review_on_failure p) = Some t"
    using assms by (simp add: profile_valid_def)
  have "\<exists>t. canonical_json (VDict (canonical_profile_payload p)) = Some t"
    by (rule json_dict_Some)
      (use agents matrix weights human json_texts_Some in
        \<open>auto simp: canonical_profile_payload_def simp del: canonical_json.simps(6,8) map_map\<close>)
  then obtain t where t: "canonical_json (VDict (canonical_profile_payload p)) = Some t" ..
  have "filter (\<lambda>(k, v). k \<noteq> ''config_hash'') (canonical_profile_payload p) = canonical_profile_payload p"
    by (simp add: canonical_profile_payload_def)
  with t show ?thesis by (simp add: recomputed_config_hash_def config_hash_of_def del: canonical_json.simps)
qed

lemma demo_profile_valid: "profile_valid demo_profile"
  using validate_semantics_iff[of demo_profile] by (rule iffD1) code_simp

lemma demo_profile_integrity: "validate_integrity demo_sha256 demo_profile = Inr ()"
  using valid_profile_hash[OF demo_profile_valid, of demo_sha256] demo_profile_valid
  by (auto simp: integrity_iff demo_sha256_def demo_profile_def)

text \<open>Whatever passes the integrity check and has trimmed texts is what \<open>from_dict\<close> builds from it.\<close>

lemma clean_integrity_loads:
  assumes "validate_integrity sha256 p = Inr ()" and "profile_clean p"
  shows "profile_from_dict sha256 (to_canonical_dict p) = Inr p"
proof -
  have "vget (canonical_profile_payload p @ [(''config_hash'', VStr (pf_config_hash p))])
      ''config_hash'' = VStr (pf_config_hash p)"
    by (simp add: vget_def canonical_profile_payload_def)
  with assms profile_fields_reload[OF assms(2)] show ?thesis
    by (simp add: from_dict_Inr to_canonical_dict_def canonical_dict_known integrity_iff)
qed

lemma from_dict_reload_witness:
  "validate_integrity demo_sha256 demo_profile = Inr () \<and>
   profile_from_dict demo_sha256 (to_canonical_dict demo_profile) = Inr demo_profile"
proof (rule from_dict_reload)
  have "profile_clean demo_profile" by code_simp
  from clean_integrity_loads[OF demo_profile_integrity this]
  show "profile_from_dict demo_sha256 (to_canonical_dict demo_profile) = Inr demo_profile" .
qed

lemma collect_profiles_sound:
  assumes "collect_profiles sha256 profiles files = Inr result"
    and "dict_ok profiles"
    and "\<forall>(k, p) \<in> set profiles. pf_profile_id p = k \<and> validate_integrity sha256 p = Inr ()"
  shows "dict_ok result \<and> length result = length profiles + length files \<and>
    (\<forall>(k, p) \<in> set result. pf_profile_id p = k \<and> validate_integrity sha256 p = Inr ())"
  using assms
proof (induction files arbitrary: profiles)
  case (Cons f files)
  then obtain p where p: "load_research_protocol sha256 f = Inr p"
    and new: "pf_profile_id p \<notin> fst ` set profiles"
    and rest: "collect_profiles sha256 (dict_set (pf_profile_id p) p profiles) files = Inr result"
    by (cases f) auto
  have "validate_integrity sha256 p = Inr ()"
    using p by (cases f) (auto simp: load_research_protocol_def from_dict_integrity split: option.splits)
  with Cons.IH[OF rest] Cons.prems new show ?case
    by (auto simp: update_notin)
qed simp

text \<open>
  Loading a profile directory gives one entry per file, keyed by distinct profile ids, every
  profile under its own id and with its integrity intact; a duplicate id, an unreadable file or an
  invalid profile raises instead. Selecting the default gives the profile of the fixed id with
  exactly two negotiation rounds and one replan attempt.
\<close>

theorem load_protocol_profiles_sound:
  assumes "load_protocol_profiles sha256 name dir = Inr profiles"
  shows "dict_ok profiles \<and> (\<exists>files. dir = Files files \<and> length profiles = length files) \<and>
    (\<forall>(k, p) \<in> set profiles. pf_profile_id p = k \<and> profile_valid p \<and>
       recomputed_config_hash sha256 p = Inr (pf_config_hash p)) \<and>
    (\<forall>p. select_default_protocol_profile sha256 profiles = Inr p \<longleftrightarrow>
       dict_get profiles DEFAULT_PROTOCOL_PROFILE_ID = Some p \<and>
       pf_max_negotiation_rounds p = 2 \<and> pf_max_replan_attempts p = 1)"
proof -
  obtain files where dir: "dir = Files files"
    and run: "collect_profiles sha256 [] (sort_key fst files) = Inr profiles"
    using assms by (cases dir) (auto simp: load_protocol_profiles_def split: if_splits)
  from collect_profiles_sound[OF run] have r: "dict_ok profiles" "length profiles = length files"
    "\<forall>(k, p) \<in> set profiles. pf_profile_id p = k \<and> validate_integrity sha256 p = Inr ()"
    by auto
  have "select_default_protocol_profile sha256 profiles = Inr p \<longleftrightarrow>
       dict_get profiles DEFAULT_PROTOCOL_PROFILE_ID = Some p \<and>
       pf_max_negotiation_rounds p = 2 \<and> pf_max_replan_attempts p = 1" for p
    using r(3) by (auto simp: select_default_protocol_profile_def split: option.splits dest!: map_of_SomeD)
  moreover have "\<forall>(k, p) \<in> set profiles. pf_profile_id p = k \<and> profile_valid p \<and>
       recomputed_config_hash sha256 p = Inr (pf_config_hash p)"
    using r(3) by (auto simp: integrity_iff)
  ultimately show ?thesis using r(1,2) dir by simp
qed

lemma demo_directory_loads:
  "load_protocol_profiles demo_sha256 ''profiles'' (Files [(''p1.json'', Some (to_canonical_dict demo_profile))]) =
     Inr [(''p1'', demo_profile)]"
proof -
  have "profile_clean demo_profile" by code_simp
  from clean_integrity_loads[OF demo_profile_integrity this] show ?thesis
    by (simp add: load_protocol_profiles_def load_research_protocol_def) (simp add: demo_profile_def)
qed

lemma load_protocol_profiles_sound_witness:
  "dict_ok [(''p1'', demo_profile)] \<and> pf_profile_id demo_profile = ''p1'' \<and> profile_valid demo_profile"
  using load_protocol_profiles_sound[OF demo_directory_loads] by simp

end
