(* ===== verification/AdapterOutput.thy ===== *)
theory AdapterOutput
  imports Protocol
begin

text \<open>
  The trust boundary of \<open>mutual_supervision.py\<close>: every value an agent adapter returns is checked and
  rebuilt before the coordinator uses it. An adapter result is any Python value; what passes is one
  of the records of \<open>Models\<close>, with identity, target and policy version set by the coordinator.
\<close>

section \<open>Elementary checks\<close>

definition require_output_text :: "pyval \<Rightarrow> string \<Rightarrow> (exn, string) result" where
  "require_output_text v label =
     (if nonblank_text v then Inr (text_of v)
      else Inl (AdapterOutputError (label @ '' must not be empty'')))"

definition in_unit :: "pyfloat \<Rightarrow> bool" where
  "in_unit x = (is_finite x \<and> fle (FFin 0) x \<and> fle x (FFin 1))"

text \<open>\<open>float(value)\<close> of an integer beyond binary64 raises before the range is checked.\<close>

fun require_output_confidence :: "pyval \<Rightarrow> string \<Rightarrow> (exn, unit) result" where
  "require_output_confidence (VInt i) label =
     (if \<not> is_finite (round64 (of_int i)) then Inl (OtherError ''int too large to convert to float'')
      else raise_if (\<not> in_unit (round64 (of_int i)))
             (AdapterOutputError (label @ '' must be between 0 and 1'')))"
| "require_output_confidence (VFloat x) label =
     raise_if (\<not> in_unit x) (AdapterOutputError (label @ '' must be between 0 and 1''))"
| "require_output_confidence v label =
     Inl (AdapterOutputError (label @ '' must be between 0 and 1''))"

fun require_finite_reward :: "pyval \<Rightarrow> string \<Rightarrow> (exn, unit) result" where
  "require_finite_reward (VInt i) name =
     (if \<not> is_finite (round64 (of_int i)) then Inl (OtherError ''int too large to convert to float'')
      else Inr ())"
| "require_finite_reward (VFloat x) name =
     raise_if (\<not> is_finite x) (AdapterOutputError (name @ '' decision reward must be finite''))"
| "require_finite_reward v name =
     Inl (AdapterOutputError (name @ '' decision reward must be finite''))"

fun output_int :: "pyval \<Rightarrow> int option" where
  "output_int (VInt i) = Some i"
| "output_int _ = None"

fun output_kind :: "pyval \<Rightarrow> RecoveryActionKind option" where
  "output_kind (VKind k) = Some k"
| "output_kind _ = None"

fun output_bool :: "pyval \<Rightarrow> bool option" where
  "output_bool (VBool b) = Some b"
| "output_bool _ = None"

fun output_verdict :: "pyval \<Rightarrow> ReviewVerdict option" where
  "output_verdict (VVerdict v) = Some v"
| "output_verdict _ = None"

text \<open>\<open>x is not None\<close> as an error branch, for the \<open>isinstance\<close> tests above.\<close>

definition required :: "'a option \<Rightarrow> string \<Rightarrow> (exn, 'a) result" where
  "required x message = (case x of None \<Rightarrow> Inl (AdapterOutputError message) | Some y \<Rightarrow> Inr y)"

lemma required_Inr [simp]: "required x m = Inr y \<longleftrightarrow> x = Some y"
  by (cases x) (auto simp: required_def)

section \<open>Recovery actions\<close>

fun validate_recovery_action_output :: "string \<Rightarrow> pyval \<Rightarrow> (exn, RecoveryAction) result" where
  "validate_recovery_action_output name (VRecoveryAction namespace deployment kind replicas reason) =
     rbind (require_output_text namespace (name @ '' action namespace'')) (\<lambda>ns.
     rbind (require_output_text deployment (name @ '' action deployment'')) (\<lambda>dep.
     rbind (required (output_kind kind) (name @ '' action kind must be a RecoveryActionKind'')) (\<lambda>k.
     rbind (raise_if (replicas \<noteq> VNone \<and> output_int replicas = None)
       (AdapterOutputError (name @ '' action replicas must be an integer or null''))) (\<lambda>_.
     rbind (required (as_text reason) (name @ '' action reason must be text'')) (\<lambda>why.
     Inr \<lparr>ra_namespace = ns, ra_deployment = dep, ra_kind = k, ra_replicas = output_int replicas,
          ra_reason = why\<rparr>)))))"
| "validate_recovery_action_output name v =
     Inl (AdapterOutputError (name @ '' proposal output contains a non-RecoveryAction''))"

fun is_recovery_action :: "pyval \<Rightarrow> bool" where
  "is_recovery_action (VRecoveryAction _ _ _ _ _) = True"
| "is_recovery_action _ = False"

text \<open>The sequence is checked for foreign elements first, then each action in order.\<close>

definition normalize_proposal_output :: "string \<Rightarrow> pyval \<Rightarrow> (exn, RecoveryAction list) result" where
  "normalize_proposal_output name v =
     (let check = (\<lambda>vs. if list_ex (\<lambda>a. \<not> is_recovery_action a) vs then
            Inl (AdapterOutputError (name @ '' proposal output contains a non-RecoveryAction''))
          else rmap (validate_recovery_action_output name) vs)
      in case v of
           VNone \<Rightarrow> Inr []
         | VList vs \<Rightarrow> check vs
         | VTuple vs \<Rightarrow> check vs
         | _ \<Rightarrow> Inl (AdapterOutputError
                   (name @ '' proposal output must be a recovery action sequence'')))"

section \<open>Diagnoses\<close>

text \<open>
  The check of \<open>_normalize_diagnosis_output\<close>; the caller then sets the fresh decision id.
\<close>

definition check_diagnosis :: "string \<Rightarrow> string \<Rightarrow> pyval \<Rightarrow> (exn, Diagnosis) result" where
  "check_diagnosis name expected_service d = (case d of
       VDiagnosis service cause severity confidence evidence \<Rightarrow>
         rbind (raise_if (as_text service \<noteq> Some expected_service)
           (AdapterOutputError (name @ '' diagnosis service does not match the run target''))) (\<lambda>_.
         rbind (require_output_text cause (name @ '' diagnosis cause'')) (\<lambda>c.
         rbind (require_output_text severity (name @ '' diagnosis severity'')) (\<lambda>sev.
         rbind (require_output_confidence confidence (name @ '' diagnosis confidence'')) (\<lambda>_.
         (case evidence of
            VDict ev \<Rightarrow> Inr \<lparr>dg_service = service, dg_cause = c, dg_severity = sev,
              dg_confidence = confidence, dg_evidence = ev\<rparr>
          | _ \<Rightarrow> Inl (AdapterOutputError (name @ '' diagnosis evidence must be a dictionary'')))))))
     | _ \<Rightarrow> Inl (AdapterOutputError
         (name @ '' diagnosis output must be (Diagnosis, SupervisionDecision)'')))"

fun check_decision ::
  "string \<Rightarrow> string \<Rightarrow> int \<Rightarrow> string \<Rightarrow> string list \<Rightarrow> pyval \<Rightarrow> (exn, SupervisionDecision) result" where
  "check_decision name run_id round_index policy_version refs
     (VSupervisionDecision i r n agent dtype proposed approved reason confidence old_refs reward pol) =
     rbind (raise_if (as_text agent \<noteq> Some name)
       (AdapterOutputError (name @ '' decision agent does not match adapter identity''))) (\<lambda>_.
     rbind (required (output_bool approved) (name @ '' decision approved must be a boolean'')) (\<lambda>ok.
     rbind (require_output_text dtype (name @ '' decision type'')) (\<lambda>dt.
     rbind (require_output_text reason (name @ '' decision reason'')) (\<lambda>why.
     rbind (require_output_confidence confidence (name @ '' decision confidence'')) (\<lambda>_.
     rbind (require_finite_reward reward name) (\<lambda>_.
     rbind (raise_if (proposed \<noteq> VNone)
       (AdapterOutputError (name @ '' diagnosis decision must not contain an action''))) (\<lambda>_.
     Inr \<lparr>sd_decision_id = '''', sd_run_id = run_id, sd_round_index = round_index, sd_agent = name,
          sd_decision_type = dt, sd_proposed_action = None, sd_approved = ok, sd_reason = why,
          sd_confidence = confidence, sd_evidence_refs = refs, sd_reward = reward,
          sd_policy_version = policy_version\<rparr>)))))))"
| "check_decision name run_id round_index policy_version refs v =
     Inl (AdapterOutputError (name @ '' diagnosis output must be (Diagnosis, SupervisionDecision)''))"

fun is_diagnosis_pair :: "pyval \<Rightarrow> bool" where
  "is_diagnosis_pair (VTuple [VDiagnosis _ _ _ _ _, VSupervisionDecision _ _ _ _ _ _ _ _ _ _ _ _]) = True"
| "is_diagnosis_pair _ = False"

definition check_diagnosis_output ::
  "string \<Rightarrow> string \<Rightarrow> int \<Rightarrow> string \<Rightarrow> string list \<Rightarrow> string \<Rightarrow> pyval
   \<Rightarrow> (exn, Diagnosis \<times> SupervisionDecision) result" where
  "check_diagnosis_output name run_id round_index policy_version refs expected_service v =
     rbind (raise_if (\<not> is_diagnosis_pair v) (AdapterOutputError
       (name @ '' diagnosis output must be (Diagnosis, SupervisionDecision)''))) (\<lambda>_.
     case v of
       VTuple [d, s] \<Rightarrow>
         rbind (check_diagnosis name expected_service d) (\<lambda>diagnosis.
         rbind (check_decision name run_id round_index policy_version refs s) (\<lambda>decision.
         Inr (diagnosis, decision)))
     | _ \<Rightarrow> Inl (AdapterOutputError
         (name @ '' diagnosis output must be (Diagnosis, SupervisionDecision)'')))"

section \<open>Reviews\<close>

text \<open>\<open>_normalize_peer_review_output\<close>, before the fresh review id is set.\<close>

fun check_peer_review ::
  "string \<Rightarrow> SupervisionDecision \<Rightarrow> string \<Rightarrow> int \<Rightarrow> string \<Rightarrow> pyval \<Rightarrow> (exn, PeerReview) result" where
  "check_peer_review name decision run_id round_index policy_version
     (VPeerReview i r n reviewer target_agent target_id verdict reason suggested confidence refs pol) =
     rbind (raise_if (as_text reviewer \<noteq> Some name)
       (AdapterOutputError (name @ '' review reviewer does not match adapter identity''))) (\<lambda>_.
     rbind (raise_if (as_text target_agent \<noteq> Some (sd_agent decision) \<or>
                      as_text target_id \<noteq> Some (sd_decision_id decision))
       (AdapterOutputError (name @ '' review target does not match the proposal decision''))) (\<lambda>_.
     rbind (raise_if (suggested \<noteq> VNone \<and> \<not> is_recovery_action suggested)
       (AdapterOutputError (name @ '' review suggestion must be a RecoveryAction''))) (\<lambda>_.
     rbind (if suggested = VNone then Inr None
            else rbind (validate_recovery_action_output name suggested) (\<lambda>a. Inr (Some a))) (\<lambda>action.
     rbind (required (output_verdict verdict) (name @ '' review verdict must be a ReviewVerdict'')) (\<lambda>v.
     rbind (require_output_text reason (name @ '' review reason'')) (\<lambda>why.
     rbind (require_output_confidence confidence (name @ '' review confidence'')) (\<lambda>_.
     Inr \<lparr>pr_review_id = '''', pr_run_id = run_id, pr_round_index = round_index, pr_reviewer = name,
          pr_target_agent = sd_agent decision, pr_target_decision_id = sd_decision_id decision,
          pr_verdict = v, pr_reason = why, pr_suggested_action = action,
          pr_confidence = confidence, pr_evidence_refs = refs,
          pr_policy_version = policy_version\<rparr>)))))))"
| "check_peer_review name decision run_id round_index policy_version v =
     Inl (AdapterOutputError (name @ '' review output must be a PeerReview''))"

text \<open>\<open>_normalize_post_review_output\<close>, before the fresh review id is set.\<close>

fun check_post_review ::
  "string \<Rightarrow> string \<Rightarrow> string \<Rightarrow> string \<Rightarrow> pyval \<Rightarrow> (exn, PostExecutionReview) result" where
  "check_post_review name run_id action_id policy_version
     (VPostExecutionReview i r agent a approved reason confidence refs pol) =
     rbind (raise_if (as_text agent \<noteq> Some name)
       (AdapterOutputError (name @ '' post-review agent does not match adapter identity''))) (\<lambda>_.
     rbind (required (output_bool approved) (name @ '' post-review approved must be a boolean'')) (\<lambda>ok.
     rbind (require_output_text reason (name @ '' post-review reason'')) (\<lambda>why.
     rbind (require_output_confidence confidence (name @ '' post-review confidence'')) (\<lambda>_.
     Inr \<lparr>po_review_id = '''', po_run_id = run_id, po_agent = name, po_action_id = action_id,
          po_approved = ok, po_reason = why, po_confidence = confidence, po_evidence_refs = refs,
          po_policy_version = policy_version\<rparr>))))"
| "check_post_review name run_id action_id policy_version v =
     Inl (AdapterOutputError (name @ '' post-review output must be a PostExecutionReview''))"

end
