(* ===== verification/Consensus.thy ===== *)
theory Consensus
  imports Protocol "HOL-Library.Multiset"
begin

text \<open>
  \<open>consensus.py\<close>: ordering the reviews of a negotiation round and resolving them under one of the
  three strategies. The reviewer order is part of the result (the reviewer lists of an outcome), so
  it is modelled with Python's stable sort on (agent position, reviewer, review id).
\<close>

record ConsensusOutcome =
  co_approved :: bool
  co_strategy :: string
  co_score :: pyfloat
  co_blocking_vetoes :: "string list"
  co_non_blocking_objections :: "string list"
  co_revisions :: "PeerReview list"
  co_reason :: string

type_synonym bindings = "(string, ProtocolAgentBinding) dict"

text \<open>\<open>{binding.name: binding for binding in profile.agents}\<close>.\<close>

definition bindings_of :: "ResearchProtocolProfile \<Rightarrow> bindings" where
  "bindings_of p = dict_of (map (\<lambda>b. (pb_name b, b)) (pf_agents p))"

definition is_enabled_reviewer :: "PeerReview \<Rightarrow> bindings \<Rightarrow> bool" where
  "is_enabled_reviewer r bs =
     (case dict_get bs (pr_reviewer r) of None \<Rightarrow> False | Some b \<Rightarrow> binding_enabled b)"

text \<open>\<open>binding_order.get(name, len(binding_order))\<close>.\<close>

fun position :: "string list \<Rightarrow> string \<Rightarrow> nat" where
  "position [] x = 0"
| "position (y # ys) x = (if x = y then 0 else Suc (position ys x))"

definition review_key :: "bindings \<Rightarrow> PeerReview \<Rightarrow> nat \<times> string \<times> string" where
  "review_key bs r = (position (dict_keys bs) (pr_reviewer r), pr_reviewer r, pr_review_id r)"

definition order_reviews :: "PeerReview list \<Rightarrow> bindings \<Rightarrow> PeerReview list" where
  "order_reviews reviews bs = sort_key (review_key bs) reviews"

text \<open>A decision scope is one scope or a sequence of them; only lists reach the resolver.\<close>

datatype scope_argument = OneScope string | Scopes "string list"

fun normalize_decision_scopes :: "scope_argument \<Rightarrow> string list" where
  "normalize_decision_scopes (OneScope s) = [s]"
| "normalize_decision_scopes (Scopes ss) = ss"

text \<open>
  \<open>bindings[review.reviewer]\<close>: the resolver only looks up enabled reviewers, who are all bound; the
  default stands for the \<open>KeyError\<close> that cannot happen.
\<close>

definition binding_for :: "bindings \<Rightarrow> PeerReview \<Rightarrow> ProtocolAgentBinding" where
  "binding_for bs r = (case dict_get bs (pr_reviewer r) of Some b \<Rightarrow> b
     | None \<Rightarrow> \<lparr>pb_name = '''', pb_implementation_id = '''', pb_runtime = '''', pb_enabled = VNone,
                pb_veto_scopes = [], pb_consensus_weight = FNaN, pb_capabilities = []\<rparr>)"

definition scope_matches :: "bindings \<Rightarrow> string list \<Rightarrow> PeerReview \<Rightarrow> bool" where
  "scope_matches bs scopes r = list_ex (\<lambda>s. s \<in> set (pb_veto_scopes (binding_for bs r))) scopes"

definition resolve_role_based_veto ::
  "PeerReview list \<Rightarrow> PeerReview list \<Rightarrow> bindings \<Rightarrow> string list \<Rightarrow> ConsensusOutcome" where
  "resolve_role_based_veto reviews revisions bs scopes =
     (let blocking = map pr_reviewer
            (filter (\<lambda>r. pr_verdict r = VETO \<and> scope_matches bs scopes r) reviews);
          non_blocking = map pr_reviewer
            (filter (\<lambda>r. pr_verdict r = VETO \<and> \<not> scope_matches bs scopes r) reviews);
          approved = (blocking = [])
      in \<lparr>co_approved = approved, co_strategy = strategy_value ROLE_BASED_VETO,
          co_score = (if approved then FFin 1 else FFin 0), co_blocking_vetoes = blocking,
          co_non_blocking_objections = non_blocking, co_revisions = revisions,
          co_reason = (if blocking \<noteq> [] then ''matching role vetoes: '' @ join '', '' blocking
                       else ''no matching role vetoes'')\<rparr>)"

definition resolve_unanimous_veto :: "PeerReview list \<Rightarrow> PeerReview list \<Rightarrow> ConsensusOutcome" where
  "resolve_unanimous_veto reviews revisions =
     (let blocking = map pr_reviewer (filter (\<lambda>r. pr_verdict r = VETO) reviews);
          approved = (blocking = [])
      in \<lparr>co_approved = approved, co_strategy = strategy_value UNANIMOUS_VETO,
          co_score = (if approved then FFin 1 else FFin 0), co_blocking_vetoes = blocking,
          co_non_blocking_objections = [], co_revisions = revisions,
          co_reason = (if blocking \<noteq> [] then ''vetoes: '' @ join '', '' blocking else ''no vetoes'')\<rparr>)"

text \<open>
  The weights are summed with the built-in \<open>sum\<close>; a sum that is zero (or the integer 0 of no
  review) counts as no participation.
\<close>

definition weight_of :: "bindings \<Rightarrow> PeerReview \<Rightarrow> pyfloat" where
  "weight_of bs r = pb_consensus_weight (binding_for bs r)"

definition majority_score :: "bindings \<Rightarrow> PeerReview list \<Rightarrow> pyfloat" where
  "majority_score bs reviews =
     (case fsum (map (weight_of bs) reviews) of
        None \<Rightarrow> FFin 0
      | Some participating \<Rightarrow>
          (let approving = (case fsum (map (weight_of bs) (filter (\<lambda>r. pr_verdict r = APPROVE) reviews))
                            of None \<Rightarrow> FFin 0 | Some w \<Rightarrow> w)
           in case fdiv approving participating of None \<Rightarrow> FFin 0 | Some s \<Rightarrow> s))"

definition resolve_weighted_majority ::
  "PeerReview list \<Rightarrow> PeerReview list \<Rightarrow> bindings \<Rightarrow> ConsensusOutcome" where
  "resolve_weighted_majority reviews revisions bs =
     (let score = majority_score bs reviews;
          approved = fle (FFin (1 / 2)) score
      in \<lparr>co_approved = approved, co_strategy = strategy_value WEIGHTED_MAJORITY, co_score = score,
          co_blocking_vetoes = [],
          co_non_blocking_objections = map pr_reviewer (filter (\<lambda>r. pr_verdict r = VETO) reviews),
          co_revisions = revisions,
          co_reason = (if approved then ''weighted approval threshold met''
                       else ''weighted approval threshold not met'')\<rparr>)"

definition consensus_resolve ::
  "(string \<Rightarrow> string) \<Rightarrow> PeerReview list \<Rightarrow> ResearchProtocolProfile \<Rightarrow> scope_argument
   \<Rightarrow> (exn, ConsensusOutcome) result" where
  "consensus_resolve sha256 reviews p scope =
     rbind (validate_integrity sha256 p) (\<lambda>_.
     let bs = bindings_of p;
         enabled_reviews = filter (\<lambda>r. is_enabled_reviewer r bs) (order_reviews reviews bs);
         revisions = filter (\<lambda>r. pr_verdict r = REVISE) enabled_reviews
     in Inr (case pf_consensus_strategy p of
          ROLE_BASED_VETO \<Rightarrow>
            resolve_role_based_veto enabled_reviews revisions bs (normalize_decision_scopes scope)
        | UNANIMOUS_VETO \<Rightarrow> resolve_unanimous_veto enabled_reviews revisions
        | WEIGHTED_MAJORITY \<Rightarrow> resolve_weighted_majority enabled_reviews revisions bs))"

section \<open>Abstract specification\<close>

text \<open>The binding of an agent by name, and the vetoes that count, over the profile itself.\<close>

definition enabled_in :: "ResearchProtocolProfile \<Rightarrow> string \<Rightarrow> bool" where
  "enabled_in p name \<longleftrightarrow> (\<exists>b \<in> set (pf_agents p). pb_name b = name \<and> pb_enabled b = VBool True)"

definition may_veto :: "ResearchProtocolProfile \<Rightarrow> string \<Rightarrow> string list \<Rightarrow> bool" where
  "may_veto p name scopes \<longleftrightarrow> (\<exists>b \<in> set (pf_agents p). pb_name b = name \<and>
     pb_enabled b = VBool True \<and> set (pb_veto_scopes b) \<inter> set scopes \<noteq> {})"

lemma bindings_of_valid:
  assumes "profile_valid p"
  shows "bindings_of p = map (\<lambda>b. (pb_name b, b)) (pf_agents p)"
  using assms by (simp add: bindings_of_def dict_of_distinct profile_valid_def comp_def)

lemma bindings_get:
  assumes "profile_valid p"
  shows "dict_get (bindings_of p) name = Some b \<longleftrightarrow> b \<in> set (pf_agents p) \<and> pb_name b = name"
proof -
  have "dict_ok (map (\<lambda>b. (pb_name b, b)) (pf_agents p))"
    using assms by (simp add: profile_valid_def comp_def)
  from map_of_eq_Some_iff[OF this] show ?thesis
    unfolding bindings_of_valid[OF assms] by auto
qed

lemma binding_enabled_valid:
  "profile_valid p \<Longrightarrow> b \<in> set (pf_agents p) \<Longrightarrow> binding_enabled b \<longleftrightarrow> pb_enabled b = VBool True"
  by (auto simp: profile_valid_def binding_valid_def binding_enabled_def is_bool_truthy)

lemma binding_unique:
  assumes "profile_valid p" and "b \<in> set (pf_agents p)" and "b' \<in> set (pf_agents p)"
    and "pb_name b' = pb_name b"
  shows "b' = b"
  using assms by (auto simp: profile_valid_def distinct_map dest: inj_onD)

lemma enabled_reviewer_iff:
  assumes "profile_valid p"
  shows "is_enabled_reviewer r (bindings_of p) \<longleftrightarrow> enabled_in p (pr_reviewer r)"
proof (cases "dict_get (bindings_of p) (pr_reviewer r)")
  case None
  then have "\<not> (\<exists>b \<in> set (pf_agents p). pb_name b = pr_reviewer r)"
    using bindings_get[OF assms] by (metis option.distinct(1))
  with None show ?thesis by (auto simp: is_enabled_reviewer_def enabled_in_def)
next
  case (Some b)
  then have b: "b \<in> set (pf_agents p)" "pb_name b = pr_reviewer r"
    by (simp_all add: bindings_get[OF assms])
  from b binding_unique[OF assms b(1)] have "enabled_in p (pr_reviewer r) \<longleftrightarrow> pb_enabled b = VBool True"
    unfolding enabled_in_def by metis
  with Some binding_enabled_valid[OF assms b(1)] show ?thesis
    by (simp add: is_enabled_reviewer_def)
qed

lemma enabled_scope_iff:
  assumes "profile_valid p" and "enabled_in p (pr_reviewer r)"
  shows "scope_matches (bindings_of p) scopes r \<longleftrightarrow> may_veto p (pr_reviewer r) scopes"
proof -
  from assms(2) obtain b where b: "b \<in> set (pf_agents p)" "pb_name b = pr_reviewer r"
    "pb_enabled b = VBool True" by (auto simp: enabled_in_def)
  then have get: "dict_get (bindings_of p) (pr_reviewer r) = Some b"
    by (simp add: bindings_get[OF assms(1)])
  from b binding_unique[OF assms(1) b(1)]
  have "may_veto p (pr_reviewer r) scopes \<longleftrightarrow> set (pb_veto_scopes b) \<inter> set scopes \<noteq> {}"
    unfolding may_veto_def by metis
  with get show ?thesis by (auto simp: scope_matches_def binding_for_def list_ex_iff)
qed

lemma set_order_reviews [simp]: "set (order_reviews rs bs) = set rs"
  by (simp add: order_reviews_def)

lemma resolve_Inr:
  "consensus_resolve sha256 reviews p scope = Inr out \<Longrightarrow>
   profile_valid p \<and> out = (let bs = bindings_of p;
     enabled_reviews = filter (\<lambda>r. is_enabled_reviewer r bs) (order_reviews reviews bs);
     revisions = filter (\<lambda>r. pr_verdict r = REVISE) enabled_reviews
     in case pf_consensus_strategy p of
          ROLE_BASED_VETO \<Rightarrow>
            resolve_role_based_veto enabled_reviews revisions bs (normalize_decision_scopes scope)
        | UNANIMOUS_VETO \<Rightarrow> resolve_unanimous_veto enabled_reviews revisions
        | WEIGHTED_MAJORITY \<Rightarrow> resolve_weighted_majority enabled_reviews revisions bs)"
  by (simp add: consensus_resolve_def integrity_iff Let_def)

lemma resolve_total:
  "validate_integrity sha256 p = Inr () \<Longrightarrow> \<exists>out. consensus_resolve sha256 reviews p scope = Inr out"
  by (simp add: consensus_resolve_def Let_def)

lemma role_based_out:
  assumes "consensus_resolve sha256 reviews p scope = Inr out"
    and "pf_consensus_strategy p = ROLE_BASED_VETO"
  shows "co_approved out \<longleftrightarrow> co_blocking_vetoes out = []"
    and "co_blocking_vetoes out = map pr_reviewer
       (filter (\<lambda>x. pr_verdict x = VETO \<and> may_veto p (pr_reviewer x) (normalize_decision_scopes scope))
         (order_reviews reviews (bindings_of p)))"
    and "co_non_blocking_objections out = map pr_reviewer
       (filter (\<lambda>x. pr_verdict x = VETO \<and> enabled_in p (pr_reviewer x) \<and>
         \<not> may_veto p (pr_reviewer x) (normalize_decision_scopes scope))
         (order_reviews reviews (bindings_of p)))"
proof -
  note r = resolve_Inr[OF assms(1)]
  then have valid: "profile_valid p" by simp
  have enabled: "may_veto p name scopes \<Longrightarrow> enabled_in p name" for name scopes
    by (auto simp: may_veto_def enabled_in_def)
  let ?scopes = "normalize_decision_scopes scope"
  let ?rs = "order_reviews reviews (bindings_of p)"
  have match: "filter (\<lambda>x. pr_verdict x = VETO \<and> scope_matches (bindings_of p) ?scopes x)
      (filter (\<lambda>x. is_enabled_reviewer x (bindings_of p)) ?rs) =
      filter (\<lambda>x. pr_verdict x = VETO \<and> may_veto p (pr_reviewer x) ?scopes) ?rs"
    using enabled_reviewer_iff[OF valid] enabled_scope_iff[OF valid] enabled
    unfolding filter_filter by (metis (no_types, lifting))
  have nonmatch: "filter (\<lambda>x. pr_verdict x = VETO \<and> \<not> scope_matches (bindings_of p) ?scopes x)
      (filter (\<lambda>x. is_enabled_reviewer x (bindings_of p)) ?rs) =
      filter (\<lambda>x. pr_verdict x = VETO \<and> enabled_in p (pr_reviewer x) \<and>
         \<not> may_veto p (pr_reviewer x) ?scopes) ?rs"
    using enabled_reviewer_iff[OF valid] enabled_scope_iff[OF valid]
    unfolding filter_filter by (metis (no_types, lifting))
  from r assms(2) show "co_approved out \<longleftrightarrow> co_blocking_vetoes out = []"
    "co_blocking_vetoes out = map pr_reviewer
       (filter (\<lambda>x. pr_verdict x = VETO \<and> may_veto p (pr_reviewer x) ?scopes) ?rs)"
    "co_non_blocking_objections out = map pr_reviewer
       (filter (\<lambda>x. pr_verdict x = VETO \<and> enabled_in p (pr_reviewer x) \<and>
         \<not> may_veto p (pr_reviewer x) ?scopes) ?rs)"
    by (simp_all add: Let_def resolve_role_based_veto_def match nonmatch del: filter_filter)
qed

text \<open>
  C11. Under role-based veto a round is approved exactly when no enabled agent vetoes within a scope
  it holds; the agents reported as blocking are exactly those, and a veto of an enabled agent
  outside its scopes is reported but blocks nothing. Disabled and unknown reviewers have no say.
\<close>

theorem role_based_veto_spec:
  assumes "consensus_resolve sha256 reviews p scope = Inr out"
    and "pf_consensus_strategy p = ROLE_BASED_VETO"
  shows "co_approved out =
      (\<not> (\<exists>r \<in> set reviews. pr_verdict r = VETO \<and>
            may_veto p (pr_reviewer r) (normalize_decision_scopes scope))) \<and>
    set (co_blocking_vetoes out) = {pr_reviewer r | r. r \<in> set reviews \<and> pr_verdict r = VETO \<and>
        may_veto p (pr_reviewer r) (normalize_decision_scopes scope)} \<and>
    set (co_non_blocking_objections out) = {pr_reviewer r | r. r \<in> set reviews \<and> pr_verdict r = VETO \<and>
        enabled_in p (pr_reviewer r) \<and> \<not> may_veto p (pr_reviewer r) (normalize_decision_scopes scope)}"
  using role_based_out[OF assms] by (auto simp: filter_empty_conv)

lemma unanimous_out:
  assumes "consensus_resolve sha256 reviews p scope = Inr out"
    and "pf_consensus_strategy p = UNANIMOUS_VETO"
  shows "co_approved out \<longleftrightarrow> co_blocking_vetoes out = []"
    and "co_blocking_vetoes out = map pr_reviewer (filter (\<lambda>r. enabled_in p (pr_reviewer r) \<and>
           pr_verdict r = VETO) (order_reviews reviews (bindings_of p)))"
  using resolve_Inr[OF assms(1)] assms(2)
  by (simp_all add: Let_def resolve_unanimous_veto_def enabled_reviewer_iff)

text \<open>
  Under unanimous veto a round is approved exactly when no enabled agent vetoes, whatever the
  scopes. Role-based veto is the weaker rule: with the same agents, whatever unanimous veto approves
  role-based veto approves.
\<close>

theorem unanimous_veto_spec:
  assumes "consensus_resolve sha256 reviews p scope = Inr out"
    and "pf_consensus_strategy p = UNANIMOUS_VETO"
  shows "co_approved out = (\<not> (\<exists>r \<in> set reviews. pr_verdict r = VETO \<and> enabled_in p (pr_reviewer r))) \<and>
    (\<forall>q out'. consensus_resolve sha256 reviews q scope = Inr out' \<and> pf_agents q = pf_agents p \<and>
       pf_consensus_strategy q = ROLE_BASED_VETO \<and> co_approved out \<longrightarrow> co_approved out')"
proof (intro conjI allI impI)
  show approved: "co_approved out = (\<not> (\<exists>r \<in> set reviews. pr_verdict r = VETO \<and> enabled_in p (pr_reviewer r)))"
    using unanimous_out[OF assms] by (auto simp: filter_empty_conv)
  fix q out'
  assume q: "consensus_resolve sha256 reviews q scope = Inr out' \<and> pf_agents q = pf_agents p \<and>
    pf_consensus_strategy q = ROLE_BASED_VETO \<and> co_approved out"
  then have "may_veto q name scopes \<Longrightarrow> enabled_in p name" for name scopes
    by (auto simp: may_veto_def enabled_in_def)
  with q approved show "co_approved out'"
    using role_based_out[of sha256 reviews q scope out'] by (auto simp: filter_empty_conv)
qed

section \<open>The order in which reviews arrive\<close>

lemma sort_key_mset_inj:
  assumes "mset xs = mset ys" and "inj_on f (set xs)"
  shows "sort_key f xs = sort_key f ys"
proof (rule properties_for_sort_key)
  show "mset (sort_key f ys) = mset xs" using assms(1) by simp
  show "sorted (map f (sort_key f ys))" by simp
  fix k
  assume "k \<in> set (sort_key f ys)"
  then have k: "k \<in> set xs" using mset_eq_setD[OF assms(1)] by simp
  have single: "filter (\<lambda>x. f k = f x) zs = replicate (count (mset zs) k) k"
    if "set zs = set xs" for zs
  proof -
    have "filter (\<lambda>x. f k = f x) zs = filter (\<lambda>x. k = x) zs"
      using that k assms(2) by (intro filter_cong) (auto dest: inj_onD)
    also have "\<dots> = replicate (count (mset zs) k) k" by (induction zs) auto
    finally show ?thesis .
  qed
  show "filter (\<lambda>x. f k = f x) (sort_key f ys) = filter (\<lambda>x. f k = f x) xs"
    using single[of "sort_key f ys"] single[of xs] mset_eq_setD[OF assms(1)] assms(1) by simp
qed

text \<open>
  C12. The outcome does not depend on the order in which the reviews arrived, as long as no
  reviewer uses one review id for two different reviews: score, reviewer lists, revisions and
  verdict are all the same.
\<close>

theorem consensus_order_independent:
  assumes "mset reviews = mset reviews'"
    and "\<forall>r \<in> set reviews. \<forall>s \<in> set reviews.
           pr_reviewer r = pr_reviewer s \<and> pr_review_id r = pr_review_id s \<longrightarrow> r = s"
  shows "consensus_resolve sha256 reviews p scope = consensus_resolve sha256 reviews' p scope"
proof -
  have "inj_on (review_key (bindings_of p)) (set reviews)"
    using assms(2) by (auto simp: inj_on_def review_key_def)
  from sort_key_mset_inj[OF assms(1) this] show ?thesis
    by (simp add: consensus_resolve_def order_reviews_def)
qed

section \<open>Weighted majority\<close>

lemma fdiv_zero: "fdiv (FFin 0) x = Some y \<Longrightarrow> y = FFin 0 \<or> y = FNaN"
  by (cases x) (auto split: if_splits)

lemma majority_out:
  assumes "consensus_resolve sha256 reviews p scope = Inr out"
    and "pf_consensus_strategy p = WEIGHTED_MAJORITY"
  shows "co_score out = majority_score (bindings_of p)
      (filter (\<lambda>r. enabled_in p (pr_reviewer r)) (order_reviews reviews (bindings_of p)))"
    and "co_approved out \<longleftrightarrow> fle (FFin (1 / 2)) (co_score out)"
    and "co_blocking_vetoes out = []"
  using resolve_Inr[OF assms(1)] assms(2)
  by (simp_all add: Let_def resolve_weighted_majority_def enabled_reviewer_iff)

lemma score_none_approves:
  assumes "\<forall>r \<in> set rs. pr_verdict r \<noteq> APPROVE"
  shows "\<not> fle (FFin (1 / 2)) (majority_score bs rs)"
proof -
  have none: "filter (\<lambda>r. pr_verdict r = APPROVE) rs = []" using assms by (simp add: filter_empty_conv)
  have "majority_score bs rs = FFin 0 \<or> majority_score bs rs = FNaN"
    unfolding majority_score_def none
    by (auto simp: fsum_def Let_def split: option.splits dest: fdiv_zero)
  then show ?thesis by auto
qed

lemma score_all_approve:
  assumes "\<forall>r \<in> set rs. pr_verdict r = APPROVE" and "fsum (map (weight_of bs) rs) = Some w"
    and "is_finite w" and "w \<noteq> FFin 0"
  shows "majority_score bs rs = FFin 1"
proof -
  have "filter (\<lambda>r. pr_verdict r = APPROVE) rs = rs" using assms(1) by simp
  then show ?thesis using assms(2) fdiv_self[OF assms(3,4)] by (simp add: majority_score_def Let_def)
qed

text \<open>
  Under weighted majority nobody blocks. A round that no enabled agent approves is rejected,
  in particular one without enabled reviews; a round that every enabled reviewer approves is
  approved with score 1 when their summed weight is finite and not zero.
\<close>

theorem weighted_majority_limits:
  assumes "consensus_resolve sha256 reviews p scope = Inr out"
    and "pf_consensus_strategy p = WEIGHTED_MAJORITY"
  shows "co_blocking_vetoes out = [] \<and>
    ((\<forall>r \<in> set reviews. enabled_in p (pr_reviewer r) \<longrightarrow> pr_verdict r \<noteq> APPROVE) \<longrightarrow> \<not> co_approved out) \<and>
    ((\<forall>r \<in> set reviews. enabled_in p (pr_reviewer r) \<longrightarrow> pr_verdict r = APPROVE) \<and>
     (\<exists>w. fsum (map (weight_of (bindings_of p)) (filter (\<lambda>r. enabled_in p (pr_reviewer r))
            (order_reviews reviews (bindings_of p)))) = Some w \<and> is_finite w \<and> w \<noteq> FFin 0) \<longrightarrow>
     co_approved out \<and> co_score out = FFin 1)"
proof (intro conjI impI)
  note out = majority_out[OF assms]
  let ?rs = "filter (\<lambda>r. enabled_in p (pr_reviewer r)) (order_reviews reviews (bindings_of p))"
  show "co_blocking_vetoes out = []" by (rule out(3))
  show "\<not> co_approved out"
    if "\<forall>r \<in> set reviews. enabled_in p (pr_reviewer r) \<longrightarrow> pr_verdict r \<noteq> APPROVE"
    unfolding out(2) out(1) by (rule score_none_approves) (use that in auto)
  assume all: "(\<forall>r \<in> set reviews. enabled_in p (pr_reviewer r) \<longrightarrow> pr_verdict r = APPROVE) \<and>
     (\<exists>w. fsum (map (weight_of (bindings_of p)) ?rs) = Some w \<and> is_finite w \<and> w \<noteq> FFin 0)"
  then obtain w where w: "fsum (map (weight_of (bindings_of p)) ?rs) = Some w" "is_finite w" "w \<noteq> FFin 0"
    by blast
  have score: "majority_score (bindings_of p) ?rs = FFin 1"
    by (rule score_all_approve[OF _ w]) (use all in auto)
  then show "co_approved out" and "co_score out = FFin 1" by (simp_all add: out)
qed

section \<open>Worked rounds\<close>

definition demo_review :: "string \<Rightarrow> ReviewVerdict \<Rightarrow> PeerReview" where
  "demo_review reviewer verdict =
     \<lparr>pr_review_id = ''r-'' @ reviewer, pr_run_id = ''run'', pr_round_index = 1,
      pr_reviewer = reviewer, pr_target_agent = ''x'', pr_target_decision_id = ''d'',
      pr_verdict = verdict, pr_reason = ''because'', pr_suggested_action = None,
      pr_confidence = VInt 1, pr_evidence_refs = VTuple [], pr_policy_version = ''v''\<rparr>"

lemma integrity_strategy:
  "validate_integrity demo_sha256 (demo_profile\<lparr>pf_consensus_strategy := s\<rparr>) = Inr ()"
proof -
  have valid: "profile_valid (demo_profile\<lparr>pf_consensus_strategy := s\<rparr>)"
    using demo_profile_valid by (simp add: profile_valid_def)
  then show ?thesis
    using valid_profile_hash[OF valid, of demo_sha256]
    by (auto simp: integrity_iff demo_sha256_def demo_profile_def)
qed

lemmas demo_resolves = resolve_total[OF demo_profile_integrity] resolve_total[OF integrity_strategy]

lemma role_based_veto_spec_witness:
  "\<exists>out. consensus_resolve demo_sha256 [demo_review ''cost'' VETO, demo_review ''ha'' APPROVE]
       demo_profile (OneScope ''budget'') = Inr out \<and> \<not> co_approved out"
proof -
  obtain out where out: "consensus_resolve demo_sha256 [demo_review ''cost'' VETO, demo_review ''ha'' APPROVE]
       demo_profile (OneScope ''budget'') = Inr out" using demo_resolves(1) by blast
  have "pf_consensus_strategy demo_profile = ROLE_BASED_VETO" by (simp add: demo_profile_def)
  moreover have "may_veto demo_profile ''cost'' [''budget'']" by code_simp
  ultimately have "\<not> co_approved out"
    using role_based_veto_spec[OF out] by (simp add: demo_review_def)
  with out show ?thesis by blast
qed

lemma unanimous_veto_spec_witness:
  "\<exists>out. consensus_resolve demo_sha256 [demo_review ''cost'' VETO]
       (demo_profile\<lparr>pf_consensus_strategy := UNANIMOUS_VETO\<rparr>) (OneScope ''availability'') = Inr out \<and>
     \<not> co_approved out"
proof -
  obtain out where out: "consensus_resolve demo_sha256 [demo_review ''cost'' VETO]
       (demo_profile\<lparr>pf_consensus_strategy := UNANIMOUS_VETO\<rparr>) (OneScope ''availability'') = Inr out"
    using demo_resolves(2) by blast
  have "enabled_in (demo_profile\<lparr>pf_consensus_strategy := UNANIMOUS_VETO\<rparr>) ''cost''" by code_simp
  then have "\<not> co_approved out"
    using unanimous_veto_spec[OF out] by (simp add: demo_review_def)
  with out show ?thesis by blast
qed

lemma consensus_order_independent_witness:
  "consensus_resolve demo_sha256 [demo_review ''cost'' VETO, demo_review ''ha'' APPROVE]
     demo_profile (OneScope ''budget'') =
   consensus_resolve demo_sha256 [demo_review ''ha'' APPROVE, demo_review ''cost'' VETO]
     demo_profile (OneScope ''budget'')"
  by (rule consensus_order_independent) (auto simp: demo_review_def)

lemma weighted_majority_limits_witness:
  "\<exists>out. consensus_resolve demo_sha256 [demo_review ''ha'' APPROVE]
       (demo_profile\<lparr>pf_consensus_strategy := WEIGHTED_MAJORITY\<rparr>) (OneScope ''availability'') = Inr out \<and>
     co_approved out \<and> co_score out = FFin 1"
proof -
  let ?p = "demo_profile\<lparr>pf_consensus_strategy := WEIGHTED_MAJORITY\<rparr>"
  obtain out where out: "consensus_resolve demo_sha256 [demo_review ''ha'' APPROVE] ?p
      (OneScope ''availability'') = Inr out"
    using demo_resolves(2) by blast
  have "filter (\<lambda>r. enabled_in ?p (pr_reviewer r))
      (order_reviews [demo_review ''ha'' APPROVE] (bindings_of ?p)) = [demo_review ''ha'' APPROVE]"
    by code_simp
  moreover have "weight_of (bindings_of ?p) (demo_review ''ha'' APPROVE) = FFin 1" by code_simp
  ultimately have "fsum (map (weight_of (bindings_of ?p)) (filter (\<lambda>r. enabled_in ?p (pr_reviewer r))
      (order_reviews [demo_review ''ha'' APPROVE] (bindings_of ?p)))) = Some (FFin 1)"
    by (simp add: fsum_def)
  then have "co_approved out \<and> co_score out = FFin 1"
    using weighted_majority_limits[OF out] by (simp add: demo_review_def)
  with out show ?thesis by blast
qed

end
