(* ===== verification/RecoveryMonitor.thy ===== *)
theory RecoveryMonitor
  imports Effects
begin

text \<open>
  \<open>recovery_monitor.py\<close>: the monitor that decides from Kubernetes snapshots whether an executed
  action recovered the deployment, and the deterministic monitor of the mock scenarios. Collecting a
  snapshot and sleeping are parameters.
\<close>

section \<open>The state transition an action must show\<close>

definition pod_ready :: "string \<Rightarrow> bool" where
  "pod_ready status = (status = ''Running'' \<or> status = ''Succeeded'')"

definition snapshot_transition_ready ::
  "RecoveryAction \<Rightarrow> EvidenceSnapshot \<Rightarrow> EvidenceSnapshot \<Rightarrow> bool \<times> string" where
  "snapshot_transition_ready action before after =
     (let desired = ev_desired_replicas after; available = ev_available_replicas after in
      if desired < 1 then (False, ''deployment has no desired replicas'')
      else if available < desired then
        (False, ''available replicas '' @ int_str available @
                '' remain below desired replicas '' @ int_str desired)
      else if list_ex (\<lambda>s. \<not> pod_ready s) (ev_pod_statuses after) then
        (False, ''one or more pods are not in a ready running state'')
      else if ra_kind action = SCALE_OUT then
        (if ra_replicas action = None \<or> ra_replicas action \<noteq> Some desired then
           (False, ''deployment did not reach the validated scale target'')
         else if desired \<le> ev_desired_replicas before then
           (False, ''scale_out did not increase desired replicas'')
         else (True, ''''))
      else
        (let before_ids = set (ev_pod_identities before); after_ids = set (ev_pod_identities after);
             workload_changed = (after_ids \<noteq> {} \<and> before_ids \<noteq> after_ids);
             availability_improved = (ev_available_replicas before < available) in
         if ra_kind action = ROLLOUT_RESTART then
           (if \<not> workload_changed then
              (False, ''rollout restart has not produced a new pod identity'')
            else (True, ''''))
         else if \<not> (workload_changed \<or> availability_improved) then
           (False, ''observation found no verifiable recovery state change'')
         else (True, '''')))"

text \<open>The two quotients can only raise on a count beyond the range of binary64.\<close>

definition availability_improvement ::
  "EvidenceSnapshot \<Rightarrow> EvidenceSnapshot \<Rightarrow> (exn, pyfloat) result" where
  "availability_improvement before after =
     (let overflow = Inl (OtherError ''integer division result too large for a float'') in
      case int_div (ev_available_replicas before) (max (ev_desired_replicas before) 1) of
        None \<Rightarrow> overflow
      | Some before_ratio \<Rightarrow>
     (case int_div (ev_available_replicas after) (max (ev_desired_replicas after) 1) of
        None \<Rightarrow> overflow
      | Some after_ratio \<Rightarrow>
     (case int_div (max (ev_available_replicas after - ev_available_replicas before) 0)
             (max (ev_desired_replicas after) 1) of
        None \<Rightarrow> overflow
      | Some replica_gain \<Rightarrow>
          Inr (fround 6 (fmin (fmax (fmax (fsub after_ratio before_ratio) replica_gain) (FFin 0))
            (FFin 1))))))"

section \<open>Assessment\<close>

definition failed_assessment :: "string \<Rightarrow> RecoveryAssessment" where
  "failed_assessment reason =
     \<lparr>as_recovery_success = False, as_metric_improvement = FFin 0, as_remaining_problem = reason,
      as_recovery_confidence = round64 (20 / 100), as_replanning_required = True\<rparr>"

record 'w monitor_env =
  rm_collect :: "string \<Rightarrow> string \<Rightarrow> 'w \<Rightarrow> (exn, EvidenceSnapshot) result \<times> 'w"
  rm_sleep :: "pyfloat \<Rightarrow> 'w \<Rightarrow> (exn, unit) result \<times> 'w"

record KubernetesSnapshotRecoveryMonitor =
  km_max_attempts :: int
  km_interval_seconds :: pyfloat

definition make_monitor :: "int \<Rightarrow> pyfloat \<Rightarrow> (exn, KubernetesSnapshotRecoveryMonitor) result" where
  "make_monitor attempts interval =
     rbind (raise_if (attempts < 1) (ValueError ''max_attempts must be at least 1'')) (\<lambda>_.
     rbind (raise_if (flt interval (FFin 0)) (ValueError ''interval_seconds must be non-negative'')) (\<lambda>_.
     Inr \<lparr>km_max_attempts = attempts, km_interval_seconds = interval\<rparr>))"

text \<open>
  The polling loop, over the number of attempts left. The last attempt neither sleeps nor collects.
\<close>

fun assess_attempts ::
  "'w monitor_env \<Rightarrow> pyfloat \<Rightarrow> RecoveryAction \<Rightarrow> EvidenceSnapshot \<Rightarrow> nat \<Rightarrow> EvidenceSnapshot
   \<Rightarrow> string \<Rightarrow> pyfloat \<Rightarrow> ('w, RecoveryAssessment) prog" where
  "assess_attempts env interval action before 0 current last_reason improvement =
     preturn \<lparr>as_recovery_success = False, as_metric_improvement = improvement,
       as_remaining_problem = last_reason, as_recovery_confidence = round64 (35 / 100),
       as_replanning_required = True\<rparr>"
| "assess_attempts env interval action before (Suc left) current last_reason improvement =
     (case snapshot_transition_ready action before current of (ready, reason) \<Rightarrow>
        pbind (plift (availability_improvement before current)) (\<lambda>improved.
        if ready then preturn \<lparr>as_recovery_success = True, as_metric_improvement = improved,
            as_remaining_problem = '''', as_recovery_confidence = round64 (85 / 100),
            as_replanning_required = False\<rparr>
        else if 0 < left then
          pbind (pcall (rm_sleep env interval)) (\<lambda>_.
          pbind (pcall (rm_collect env (ra_namespace action) (ra_deployment action))) (\<lambda>current'.
          assess_attempts env interval action before left current' reason improved))
        else assess_attempts env interval action before left current reason improved))"

definition assess ::
  "'w monitor_env \<Rightarrow> KubernetesSnapshotRecoveryMonitor \<Rightarrow> RecoveryAction \<Rightarrow> EvidenceSnapshot
   \<Rightarrow> EvidenceSnapshot \<Rightarrow> CommandResult \<Rightarrow> ('w, RecoveryAssessment) prog" where
  "assess env m action before after execution_result =
     (if \<not> cr_valid execution_result then
        preturn (failed_assessment (if cr_stderr execution_result \<noteq> ''''
          then cr_stderr execution_result else ''Kubernetes action failed''))
      else assess_attempts env (km_interval_seconds m) action before (nat (km_max_attempts m)) after
             ''Kubernetes state transition was not observed'' (FFin 0))"

text \<open>The monitor of the mock scenarios.\<close>

definition fake_assess ::
  "bool \<Rightarrow> (RecoveryActionKind, bool) dict option \<Rightarrow> RecoveryAction \<Rightarrow> CommandResult \<Rightarrow> RecoveryAssessment" where
  "fake_assess default_success action_success action execution_result =
     (let table = (case action_success of None \<Rightarrow> [] | Some d \<Rightarrow> d);
          chosen = (case dict_get table (ra_kind action) of None \<Rightarrow> default_success | Some b \<Rightarrow> b);
          success = (chosen \<and> cr_valid execution_result)
      in \<lparr>as_recovery_success = success,
          as_metric_improvement = (if success then round64 (85 / 100) else round64 (15 / 100)),
          as_remaining_problem =
            (if success then '''' else kind_value (ra_kind action) @ '' did not recover service''),
          as_recovery_confidence = (if success then round64 (90 / 100) else round64 (35 / 100)),
          as_replanning_required = (\<not> success)\<rparr>)"

section \<open>What an assessment of success promises\<close>

definition recovered_state :: "RecoveryAction \<Rightarrow> EvidenceSnapshot \<Rightarrow> EvidenceSnapshot \<Rightarrow> bool" where
  "recovered_state action before after \<longleftrightarrow>
     1 \<le> ev_desired_replicas after \<and> ev_desired_replicas after \<le> ev_available_replicas after \<and>
     (\<forall>s \<in> set (ev_pod_statuses after). s = ''Running'' \<or> s = ''Succeeded'') \<and>
     (case ra_kind action of
        SCALE_OUT \<Rightarrow> ra_replicas action = Some (ev_desired_replicas after) \<and>
          ev_desired_replicas before < ev_desired_replicas after
      | ROLLOUT_RESTART \<Rightarrow> ev_pod_identities after \<noteq> [] \<and>
          set (ev_pod_identities before) \<noteq> set (ev_pod_identities after)
      | OBSERVE_ONLY \<Rightarrow> ev_available_replicas before < ev_available_replicas after \<or>
          ev_pod_identities after \<noteq> [] \<and>
          set (ev_pod_identities before) \<noteq> set (ev_pod_identities after))"

lemma transition_ready_iff:
  "fst (snapshot_transition_ready action before after) = recovered_state action before after"
  by (cases "ra_kind action")
    (auto simp: snapshot_transition_ready_def recovered_state_def Let_def pod_ready_def list_ex_iff)

text \<open>The snapshots a monitor can look at: the one it was given and those it collects.\<close>

definition observable ::
  "'w monitor_env \<Rightarrow> RecoveryAction \<Rightarrow> EvidenceSnapshot \<Rightarrow> EvidenceSnapshot \<Rightarrow> bool" where
  "observable env action after seen \<longleftrightarrow> seen = after \<or>
     (\<exists>w w'. rm_collect env (ra_namespace action) (ra_deployment action) w = (Inr seen, w'))"

lemma pcall_Inr_iff:
  "pcall f s = (Inr x, s') \<longleftrightarrow> (\<exists>w. f (sys_world s) = (Inr x, w) \<and> s' = s\<lparr>sys_world := w\<rparr>)"
  by (auto simp: pcall_def split: prod.splits)

lemma assess_attempts_success:
  assumes "assess_attempts env interval action before left current reason improvement s = (Inr a, s')"
    and "as_recovery_success a" and "observable env action after current"
  shows "\<exists>seen. observable env action after seen \<and> recovered_state action before seen \<and>
    availability_improvement before seen = Inr (as_metric_improvement a)"
  using assms
proof (induction left arbitrary: current reason improvement s)
  case (Suc left)
  show ?case
  proof (cases "recovered_state action before current")
    case True
    with Suc.prems show ?thesis
      by (auto simp: pbind_Inr transition_ready_iff[symmetric] split: prod.splits intro!: exI[of _ current])
  next
    case False
    have collected: "observable env action after x"
      if "rm_collect env (ra_namespace action) (ra_deployment action) w = (Inr x, w')" for x w w'
      using that by (auto simp: observable_def)
    from Suc.prems False Suc.IH collected show ?thesis
      by (auto simp: pbind_Inr transition_ready_iff[symmetric] pcall_Inr_iff
          split: prod.splits if_splits)
  qed
qed simp

lemma assess_attempts_flags:
  "assess_attempts env interval action before left current reason improvement s = (Inr a, s') \<Longrightarrow>
   as_replanning_required a = (\<not> as_recovery_success a)"
  by (induction left arbitrary: current reason improvement s)
    (auto simp: pbind_Inr split: prod.splits if_splits)

text \<open>
  C13. The Kubernetes monitor reports success only for a valid execution after which it was given, or
  collected from the target, a snapshot that is fully available, has only ready pods and shows the change the action is for: the
  requested replica count above the previous one for a scale-out, new pod identities for a restart,
  a visible improvement for an observation. Replanning is required exactly when it reports failure.
\<close>

theorem assess_success_sound:
  assumes "assess env m action before after result s = (Inr a, s')"
  shows "as_replanning_required a = (\<not> as_recovery_success a) \<and>
    (as_recovery_success a \<longrightarrow> cr_valid result \<and> (\<exists>seen. observable env action after seen \<and>
       recovered_state action before seen \<and> availability_improvement before seen = Inr (as_metric_improvement a)))"
  using assms assess_attempts_flags assess_attempts_success
  by (fastforce simp: assess_def failed_assessment_def observable_def split: if_splits)

lemma int_div_Some: "int_div a b = Some q \<Longrightarrow> \<exists>x. q = FFin x"
  by (cases q) (auto simp: int_div_def Let_def split: if_splits)

lemma fsub_finite: "fsub (FFin x) (FFin y) \<noteq> FNaN"
  by (simp add: fsub_def round64_def Let_def)

lemma fmax_not_nan: "a \<noteq> FNaN \<Longrightarrow> b \<noteq> FNaN \<Longrightarrow> fmax a b \<noteq> FNaN"
  by (simp add: fmax_def)

lemma availability_improvement_unit:
  assumes "availability_improvement before after = Inr x"
  shows "\<exists>y. x = FFin y \<and> 0 \<le> y \<and> y \<le> 1"
proof -
  obtain p q r where
    p: "int_div (ev_available_replicas before) (max (ev_desired_replicas before) 1) = Some p" and
    q: "int_div (ev_available_replicas after) (max (ev_desired_replicas after) 1) = Some q" and
    r: "int_div (max (ev_available_replicas after - ev_available_replicas before) 0)
          (max (ev_desired_replicas after) 1) = Some r" and
    x: "x = fround 6 (fmin (fmax (fmax (fsub q p) r) (FFin 0)) (FFin 1))"
    using assms by (auto simp: availability_improvement_def Let_def split: option.splits)
  obtain a b c where "p = FFin a" "q = FFin b" "r = FFin c" using p q r int_div_Some by meson
  then have "fmax (fsub q p) r \<noteq> FNaN" using fsub_finite fmax_not_nan by simp
  from clamp_unit[OF this] obtain y where
    "fmin (fmax (fmax (fsub q p) r) (FFin 0)) (FFin 1) = FFin y" "0 \<le> y" "y \<le> 1" by blast
  with fround_unit[of y 6] show ?thesis by (simp add: x)
qed

lemma assess_attempts_unit:
  assumes "assess_attempts env interval action before left current reason improvement s = (Inr a, s')"
    and "\<exists>y. improvement = FFin y \<and> 0 \<le> y \<and> y \<le> 1"
  shows "\<exists>y. as_metric_improvement a = FFin y \<and> 0 \<le> y \<and> y \<le> 1"
  using assms
proof (induction left arbitrary: current reason improvement s)
  case (Suc left)
  obtain ready why where ready: "snapshot_transition_ready action before current = (ready, why)"
    by (cases "snapshot_transition_ready action before current")
  from Suc.prems ready obtain improved where
    improved: "availability_improvement before current = Inr improved" by (auto simp: pbind_Inr)
  note unit = availability_improvement_unit[OF this]
  from Suc.prems(1) ready improved unit Suc.IH[OF _ unit] show ?case
    by (auto simp: pbind_Inr split: if_splits)
qed simp

text \<open>
  The improvement an assessment reports is a finite number between 0 and 1, whatever the
  replica counts of the snapshots: the two ratios, their difference and the rounding to six decimals
  never leave the unit interval.
\<close>

theorem assess_improvement_bounds:
  assumes "assess env m action before after result s = (Inr a, s')"
  shows "\<exists>y. as_metric_improvement a = FFin y \<and> 0 \<le> y \<and> y \<le> 1"
  using assms assess_attempts_unit
  by (fastforce simp: assess_def failed_assessment_def split: if_splits)

section \<open>A recovered scale-out\<close>

definition demo_snapshot :: "int \<Rightarrow> int \<Rightarrow> EvidenceSnapshot" where
  "demo_snapshot desired available =
     \<lparr>ev_namespace = ''shop'', ev_deployment = ''web'', ev_metric_values = [],
      ev_desired_replicas = desired, ev_available_replicas = available, ev_restart_count = 0,
      ev_pod_statuses = [''Running''], ev_pod_identities = [''p1''], ev_events = [],
      ev_latency_ms = None, ev_error_rate = None, ev_log_summary = '''', ev_source = ''fake''\<rparr>"

definition demo_scale :: RecoveryAction where
  "demo_scale = \<lparr>ra_namespace = ''shop'', ra_deployment = ''web'', ra_kind = SCALE_OUT,
     ra_replicas = Some 1, ra_reason = ''load''\<rparr>"

definition demo_result :: CommandResult where
  "demo_result = \<lparr>cr_command = ''k'', cr_mode = ''real'', cr_valid = True, cr_stdout = '''',
     cr_stderr = '''', cr_metadata = []\<rparr>"

definition demo_monitor_env :: "unit monitor_env" where
  "demo_monitor_env = \<lparr>rm_collect = (\<lambda>n d w. (Inr (demo_snapshot 1 1), w)), rm_sleep = (\<lambda>x w. (Inr (), w))\<rparr>"

definition demo_assessment :: RecoveryAssessment where
  "demo_assessment = \<lparr>as_recovery_success = True, as_metric_improvement = FFin 1,
     as_remaining_problem = '''', as_recovery_confidence = round64 (85 / 100),
     as_replanning_required = False\<rparr>"

lemma demo_improvement: "availability_improvement (demo_snapshot 0 0) (demo_snapshot 1 1) = Inr (FFin 1)"
  by (simp add: availability_improvement_def demo_snapshot_def int_div_def Let_def fmin_def fmax_def
      fsub_def)

text \<open>The first snapshot is not ready, the collected one is.\<close>

lemma demo_assess:
  "assess demo_monitor_env \<lparr>km_max_attempts = 2, km_interval_seconds = FFin 5\<rparr> demo_scale
     (demo_snapshot 0 0) (demo_snapshot 0 0) demo_result \<lparr>sys_world = (), sys_trace = []\<rparr> =
   (Inr demo_assessment, \<lparr>sys_world = (), sys_trace = []\<rparr>)"
proof -
  have first: "snapshot_transition_ready demo_scale (demo_snapshot 0 0) (demo_snapshot 0 0) =
      (False, ''deployment has no desired replicas'')" by code_simp
  have second: "snapshot_transition_ready demo_scale (demo_snapshot 0 0) (demo_snapshot 1 1) =
      (True, '''')" by code_simp
  have zero: "availability_improvement (demo_snapshot 0 0) (demo_snapshot 0 0) = Inr (FFin 0)"
    by (simp add: availability_improvement_def demo_snapshot_def int_div_def Let_def fmin_def fmax_def
        fsub_def)
  show ?thesis
    by (simp add: assess_def demo_result_def numeral_2_eq_2 first second zero demo_improvement)
      (simp add: pbind_def pcall_def preturn_def demo_monitor_env_def first second zero
        demo_improvement demo_assessment_def)
qed

lemma assess_success_sound_witness:
  "cr_valid demo_result \<and> (\<exists>seen. recovered_state demo_scale (demo_snapshot 0 0) seen \<and>
     availability_improvement (demo_snapshot 0 0) seen = Inr (FFin 1))"
  using assess_success_sound[OF demo_assess] by (auto simp: demo_assessment_def)

lemma assess_improvement_bounds_witness:
  "\<exists>y. as_metric_improvement demo_assessment = FFin y \<and> 0 \<le> y \<and> y \<le> 1"
  by (rule assess_improvement_bounds[OF demo_assess])

end
