(* ===== verification/Validator.thy ===== *)
theory Validator
  imports Effects
begin

text \<open>
  \<open>validator.py\<close>: structural validation of recovery actions, rendering of the approved command
  templates, and the parser that accepts only those templates. \<open>safe_action\<close> is the abstract
  contract: what an accepted action promises, independently of the order of the checks.
\<close>

section \<open>The validator and its checks\<close>

text \<open>The two Python sets are lists here; only membership (and sorting) is observed.\<close>

record CommandValidator =
  allowed_namespaces :: "string list"
  allowed_deployments :: "string list"
  min_replicas :: int
  max_replicas :: int

definition k8s_alnum :: "char \<Rightarrow> bool" where
  "k8s_alnum c = (is_lower_alpha c \<or> is_decimal c)"

text \<open>\<open>K8S_NAME_PATTERN.fullmatch\<close>: 1 to 63 of \<open>[-a-z0-9]\<close>, the first and last without a dash.\<close>

definition k8s_name :: "string \<Rightarrow> bool" where
  "k8s_name s = (s \<noteq> '''' \<and> k8s_alnum (hd s) \<and>
     (tl s = '''' \<or> length (tl s) \<le> 62 \<and> k8s_alnum (last s) \<and>
        (\<forall>c \<in> set (butlast (tl s)). k8s_alnum c \<or> c = CHR ''-'')))"

definition validate_k8s_name :: "string \<Rightarrow> string \<Rightarrow> (exn, unit) result" where
  "validate_k8s_name field v =
     raise_if (\<not> k8s_name v)
       (CommandValidationError (field @ '' is not a valid Kubernetes name: '' @ v))"

definition validate_target :: "CommandValidator \<Rightarrow> string \<Rightarrow> string \<Rightarrow> (exn, unit) result" where
  "validate_target v namespace deployment =
     rbind (validate_k8s_name ''namespace'' namespace) (\<lambda>_.
     rbind (validate_k8s_name ''deployment'' deployment) (\<lambda>_.
     rbind (raise_if (namespace \<notin> set (allowed_namespaces v))
        (CommandValidationError (''namespace is not allowlisted: '' @ namespace))) (\<lambda>_.
     raise_if (deployment \<notin> set (allowed_deployments v))
        (CommandValidationError (''deployment is not allowlisted: '' @ deployment)))))"

definition validate_replicas :: "CommandValidator \<Rightarrow> int \<Rightarrow> (exn, unit) result" where
  "validate_replicas v n =
     raise_if (n < min_replicas v \<or> max_replicas v < n)
       (CommandValidationError (''replicas must be between '' @ int_str (min_replicas v) @
          '' and '' @ int_str (max_replicas v)))"

definition validate_scale_action :: "CommandValidator \<Rightarrow> ScaleAction \<Rightarrow> (exn, ScaleAction) result" where
  "validate_scale_action v a =
     rbind (validate_target v (sa_namespace a) (sa_deployment a)) (\<lambda>_.
     rbind (validate_replicas v (sa_replicas a)) (\<lambda>_. Inr a))"

definition validate_recovery_action ::
  "CommandValidator \<Rightarrow> RecoveryAction \<Rightarrow> (exn, RecoveryAction) result" where
  "validate_recovery_action v a =
     rbind (validate_target v (ra_namespace a) (ra_deployment a)) (\<lambda>_.
       if ra_kind a = SCALE_OUT then
         (case ra_replicas a of
            None \<Rightarrow> Inl (CommandValidationError ''scale_out requires replicas'')
          | Some n \<Rightarrow> rbind (validate_replicas v n) (\<lambda>_. Inr a))
       else if ra_replicas a \<noteq> None
         then Inl (CommandValidationError ''only scale_out accepts replicas'')
       else Inr a)"

section \<open>Command templates\<close>

definition render_scale_command :: "ScaleAction \<Rightarrow> string" where
  "render_scale_command a =
     ''kubectl scale deployment '' @ sa_deployment a @
     '' --replicas='' @ int_str (sa_replicas a) @ '' -n '' @ sa_namespace a"

definition render_recovery_command :: "RecoveryAction \<Rightarrow> (exn, string) result" where
  "render_recovery_command a =
     (if ra_kind a = OBSERVE_ONLY then
        Inr (''kubectl get deployment '' @ ra_deployment a @
             '' -n '' @ ra_namespace a @ '' -o json'')
      else if ra_kind a = ROLLOUT_RESTART then
        Inr (''kubectl rollout restart deployment '' @ ra_deployment a @
             '' -n '' @ ra_namespace a)
      else (case ra_replicas a of
          Some n \<Rightarrow> Inr (render_scale_command
             \<lparr>sa_namespace = ra_namespace a, sa_deployment = ra_deployment a,
              sa_replicas = n, sa_reason = ra_reason a\<rparr>)
        | None \<Rightarrow> Inl (CommandValidationError ''unsupported recovery action'')))"

section \<open>Parsing the templates back\<close>

definition shlex_error_str :: "shlex_error \<Rightarrow> string" where
  "shlex_error_str e = (case e of NoClosingQuotation \<Rightarrow> ''No closing quotation''
     | NoEscapedCharacter \<Rightarrow> ''No escaped character'')"

definition command_parts :: "string \<Rightarrow> (exn, string list) result" where
  "command_parts command = (case shlex_split command of
       Inl e \<Rightarrow> Inl (CommandValidationError (shlex_error_str e))
     | Inr parts \<Rightarrow> Inr parts)"

text \<open>\<open>int(text)\<close>: the interpreter refuses more than 4300 digits with \<open>ValueError\<close>.\<close>

definition int_digit_limit :: nat where
  "int_digit_limit = 4300"

definition parse_int :: "string \<Rightarrow> (exn, int) result" where
  "parse_int s =
     (if int_digit_limit < length s then Inl (ValueError ''Exceeds the limit for integer string conversion'')
      else Inr (int (decimal_value s)))"

definition validate_command :: "CommandValidator \<Rightarrow> string \<Rightarrow> (exn, ScaleAction) result" where
  "validate_command v command =
     rbind (command_parts command) (\<lambda>parts.
     rbind (raise_if (length parts \<notin> {7, 8})
       (CommandValidationError ''command must match the approved scale template'')) (\<lambda>_.
     rbind (raise_if (take 3 parts \<noteq> [''kubectl'', ''scale'', ''deployment''])
       (CommandValidationError ''only kubectl scale deployment is allowed'')) (\<lambda>_.
     rbind (raise_if (\<not> startswith (parts ! 4) ''--replicas='')
       (CommandValidationError ''replicas must use --replicas=<N>'')) (\<lambda>_.
     rbind (raise_if (parts ! 5 \<noteq> ''-n'')
       (CommandValidationError ''namespace must use -n <namespace>'')) (\<lambda>_.
     rbind (raise_if (length parts = 8 \<and> parts ! 7 \<noteq> ''--dry-run=server'')
       (CommandValidationError ''dry-run must use --dry-run=server'')) (\<lambda>_.
     let replicas_text = after_first CHR ''='' (parts ! 4) in
     rbind (raise_if (\<not> isdecimal replicas_text)
       (CommandValidationError ''replicas must be a positive integer'')) (\<lambda>_.
     rbind (parse_int replicas_text) (\<lambda>n.
     validate_scale_action v
       \<lparr>sa_namespace = parts ! 6, sa_deployment = parts ! 3, sa_replicas = n,
        sa_reason = ''validated from an approved command template''\<rparr>))))))))"

definition is_observe_command :: "string list \<Rightarrow> bool" where
  "is_observe_command parts =
     (length parts = 8 \<and> take 3 parts = [''kubectl'', ''get'', ''deployment''] \<and>
      parts ! 4 = ''-n'' \<and> drop 6 parts = [''-o'', ''json''])"

definition is_rollout_restart_command :: "string list \<Rightarrow> bool" where
  "is_rollout_restart_command parts =
     (if length parts \<notin> {7, 8} then False
      else if take 4 parts \<noteq> [''kubectl'', ''rollout'', ''restart'', ''deployment''] then False
      else if parts ! 5 \<noteq> ''-n'' then False
      else length parts = 7 \<or> parts ! 7 = ''--dry-run=server'')"

definition is_scale_command :: "string list \<Rightarrow> bool" where
  "is_scale_command parts =
     (length parts \<in> {7, 8} \<and> take 3 parts = [''kubectl'', ''scale'', ''deployment''] \<and>
      startswith (parts ! 4) ''--replicas='' \<and> parts ! 5 = ''-n'' \<and>
      (length parts = 7 \<or> parts ! 7 = ''--dry-run=server''))"

definition validate_recovery_command ::
  "string \<Rightarrow> CommandValidator \<Rightarrow> (exn, RecoveryAction) result" where
  "validate_recovery_command command v =
     rbind (command_parts command) (\<lambda>parts.
       if is_observe_command parts then
         validate_recovery_action v
           \<lparr>ra_namespace = parts ! 5, ra_deployment = parts ! 3, ra_kind = OBSERVE_ONLY,
            ra_replicas = None,
            ra_reason = ''validated from an approved observe command template''\<rparr>
       else if is_rollout_restart_command parts then
         validate_recovery_action v
           \<lparr>ra_namespace = parts ! 6, ra_deployment = parts ! 4, ra_kind = ROLLOUT_RESTART,
            ra_replicas = None,
            ra_reason = ''validated from an approved rollout restart command template''\<rparr>
       else if is_scale_command parts then
         rbind (validate_command v command) (\<lambda>sa.
           Inr \<lparr>ra_namespace = sa_namespace sa, ra_deployment = sa_deployment sa,
                ra_kind = SCALE_OUT, ra_replicas = Some (sa_replicas sa),
                ra_reason = ''validated from an approved scale command template''\<rparr>)
       else Inl (CommandValidationError ''command must match an approved recovery template''))"

section \<open>The contract of an accepted action\<close>

definition safe_target :: "CommandValidator \<Rightarrow> string \<Rightarrow> string \<Rightarrow> bool" where
  "safe_target v ns dep \<longleftrightarrow> k8s_name ns \<and> k8s_name dep \<and>
     ns \<in> set (allowed_namespaces v) \<and> dep \<in> set (allowed_deployments v)"

definition safe_action :: "CommandValidator \<Rightarrow> RecoveryAction \<Rightarrow> bool" where
  "safe_action v a \<longleftrightarrow> safe_target v (ra_namespace a) (ra_deployment a) \<and>
     (case ra_kind a of
        SCALE_OUT \<Rightarrow> (\<exists>n. ra_replicas a = Some n \<and> min_replicas v \<le> n \<and> n \<le> max_replicas v)
      | _ \<Rightarrow> ra_replicas a = None)"

lemma validate_target_Inr: "validate_target v ns dep = Inr u \<longleftrightarrow> safe_target v ns dep"
  by (auto simp: validate_target_def validate_k8s_name_def safe_target_def)

lemma validates_iff: "validate_recovery_action v a = Inr b \<longleftrightarrow> b = a \<and> safe_action v a"
  by (cases "ra_kind a"; cases "ra_replicas a")
    (auto simp: validate_recovery_action_def safe_action_def validate_target_Inr
      validate_replicas_def)

lemmas validated_safe = validates_iff[THEN iffD1, THEN conjunct2]

text \<open>
  C7. The validator accepts exactly the safe actions: target names well formed and allowlisted, a
  scale-out with its replica count inside the configured bounds, and no replica count on the other
  kinds. An accepted action is returned unchanged; any other action raises.
\<close>

theorem validate_recovery_action_iff:
  "(validate_recovery_action v a = Inr b) = (b = a \<and> safe_action v a) \<and>
   (\<exists>m. validate_recovery_action v a = Inl (CommandValidationError m)) = (\<not> safe_action v a)"
proof
  show "(validate_recovery_action v a = Inr b) = (b = a \<and> safe_action v a)"
    by (rule validates_iff)
  have "validate_recovery_action v a = Inl e \<Longrightarrow> \<exists>m. e = CommandValidationError m" for e
    by (auto simp: validate_recovery_action_def validate_target_def validate_k8s_name_def
        validate_replicas_def rbind_Inl_iff split: if_splits option.splits)
  then show "(\<exists>m. validate_recovery_action v a = Inl (CommandValidationError m)) = (\<not> safe_action v a)"
    using validates_iff[of v a] by (cases "validate_recovery_action v a"; cases "safe_action v a") fastforce+
qed

lemma validate_scale_action_Inr:
  "validate_scale_action v a = Inr b \<longleftrightarrow> b = a \<and> safe_target v (sa_namespace a) (sa_deployment a) \<and>
     min_replicas v \<le> sa_replicas a \<and> sa_replicas a \<le> max_replicas v"
  by (auto simp: validate_scale_action_def validate_target_Inr validate_replicas_def)

lemma validate_recovery_command_sound:
  assumes "validate_recovery_command command v = Inr a"
  shows "safe_action v a"
  using assms
  by (auto simp: validate_recovery_command_def validate_command_def Let_def
      validate_scale_action_Inr safe_action_def safe_target_def validates_iff split: if_splits)

text \<open>
  The words that ask for an action, written out. A replica count is a non-empty run of decimal
  digits, no longer than the interpreter reads, after \<open>--replicas=\<close>; a restart and a scale may
  end with \<open>--dry-run=server\<close>, which the action does not record.
\<close>

definition template_reason :: "RecoveryActionKind \<Rightarrow> string" where
  "template_reason k = (case k of
       OBSERVE_ONLY \<Rightarrow> ''validated from an approved observe command template''
     | ROLLOUT_RESTART \<Rightarrow> ''validated from an approved rollout restart command template''
     | SCALE_OUT \<Rightarrow> ''validated from an approved scale command template'')"

definition with_dry_run :: "string list \<Rightarrow> string list set" where
  "with_dry_run words = {words, words @ [''--dry-run=server'']}"

definition words_ask_for :: "string list \<Rightarrow> RecoveryAction \<Rightarrow> bool" where
  "words_ask_for words a \<longleftrightarrow> ra_reason a = template_reason (ra_kind a) \<and>
     (case ra_kind a of
        OBSERVE_ONLY \<Rightarrow> ra_replicas a = None \<and>
          words = [''kubectl'', ''get'', ''deployment'', ra_deployment a, ''-n'', ra_namespace a, ''-o'', ''json'']
      | ROLLOUT_RESTART \<Rightarrow> ra_replicas a = None \<and>
          words \<in> with_dry_run [''kubectl'', ''rollout'', ''restart'', ''deployment'', ra_deployment a,
            ''-n'', ra_namespace a]
      | SCALE_OUT \<Rightarrow> (\<exists>digits. isdecimal digits \<and> length digits \<le> 4300 \<and>
          ra_replicas a = Some (int (decimal_value digits)) \<and>
          words \<in> with_dry_run [''kubectl'', ''scale'', ''deployment'', ra_deployment a,
            ''--replicas='' @ digits, ''-n'', ra_namespace a]))"

lemma list_of_7: "length xs = 7 \<longleftrightarrow> (\<exists>a b c d e f g. xs = [a, b, c, d, e, f, g])"
  by (auto simp: numeral_eq_Suc length_Suc_conv)

lemma list_of_8: "length xs = 8 \<longleftrightarrow> (\<exists>a b c d e f g h. xs = [a, b, c, d, e, f, g, h])"
  by (auto simp: numeral_eq_Suc length_Suc_conv)

lemma observe_words: "is_observe_command ws \<longleftrightarrow>
  (\<exists>dep ns. ws = [''kubectl'', ''get'', ''deployment'', dep, ''-n'', ns, ''-o'', ''json''])"
  by (auto simp: is_observe_command_def list_of_8)

lemma restart_words: "is_rollout_restart_command ws \<longleftrightarrow>
  (\<exists>dep ns. ws \<in> with_dry_run [''kubectl'', ''rollout'', ''restart'', ''deployment'', dep, ''-n'', ns])"
  by (auto simp: is_rollout_restart_command_def with_dry_run_def list_of_7 list_of_8)

lemma take_prefix: "take n s = p \<Longrightarrow> \<exists>r. s = p @ r"
  by (metis append_take_drop_id)

lemma scale_words: "is_scale_command ws \<longleftrightarrow>
  (\<exists>dep digits ns. ws \<in> with_dry_run [''kubectl'', ''scale'', ''deployment'', dep, ''--replicas='' @ digits, ''-n'', ns])"
  by (auto simp: is_scale_command_def with_dry_run_def list_of_7 list_of_8 startswith_def dest: take_prefix)

lemma validate_command_words:
  assumes "command_parts command = Inr ws"
    and "ws \<in> with_dry_run [''kubectl'', ''scale'', ''deployment'', dep, ''--replicas='' @ digits, ''-n'', ns]"
  shows "validate_command v command = Inr sa \<longleftrightarrow>
    isdecimal digits \<and> length digits \<le> 4300 \<and> safe_target v ns dep \<and>
    min_replicas v \<le> int (decimal_value digits) \<and> int (decimal_value digits) \<le> max_replicas v \<and>
    sa = \<lparr>sa_namespace = ns, sa_deployment = dep, sa_replicas = int (decimal_value digits),
      sa_reason = ''validated from an approved command template''\<rparr>"
  using assms
  by (auto simp: validate_command_def with_dry_run_def startswith_def after_first_def Let_def parse_int_def
      int_digit_limit_def validate_scale_action_Inr)

text \<open>The branch that a list of words takes.\<close>

lemma words_exclusive:
  "is_observe_command ws \<Longrightarrow> \<not> is_rollout_restart_command ws \<and> \<not> is_scale_command ws"
  "is_rollout_restart_command ws \<Longrightarrow> \<not> is_scale_command ws"
  by (auto simp: observe_words restart_words scale_words with_dry_run_def)

lemma accepted_words:
  assumes "command_parts command = Inr ws"
  shows "validate_recovery_command command v = Inr a \<longleftrightarrow> safe_action v a \<and> words_ask_for ws a"
proof (cases "is_observe_command ws")
  case True
  then show ?thesis
    using assms words_exclusive(1)[OF True]
    by (cases a; cases "ra_kind a") (auto simp: validate_recovery_command_def observe_words validates_iff
        words_ask_for_def template_reason_def restart_words scale_words)
next
  case observe: False
  show ?thesis
  proof (cases "is_rollout_restart_command ws")
    case True
    then obtain dep ns where ws:
      "ws \<in> with_dry_run [''kubectl'', ''rollout'', ''restart'', ''deployment'', dep, ''-n'', ns]"
      by (auto simp: restart_words)
    then have "validate_recovery_command command v = validate_recovery_action v
        \<lparr>ra_namespace = ns, ra_deployment = dep, ra_kind = ROLLOUT_RESTART, ra_replicas = None,
         ra_reason = template_reason ROLLOUT_RESTART\<rparr>"
      using assms True observe
      by (auto simp: validate_recovery_command_def with_dry_run_def template_reason_def)
    with ws show ?thesis
      by (cases a; cases "ra_kind a") (auto simp: validates_iff words_ask_for_def with_dry_run_def)
  next
    case restart: False
    show ?thesis
    proof (cases "is_scale_command ws")
      case True
      then obtain dep digits ns where ws: "ws \<in> with_dry_run
          [''kubectl'', ''scale'', ''deployment'', dep, ''--replicas='' @ digits, ''-n'', ns]"
        by (auto simp: scale_words)
      have "validate_recovery_command command v = Inr a \<longleftrightarrow>
          (\<exists>sa. validate_command v command = Inr sa \<and>
            a = \<lparr>ra_namespace = sa_namespace sa, ra_deployment = sa_deployment sa, ra_kind = SCALE_OUT,
              ra_replicas = Some (sa_replicas sa), ra_reason = template_reason SCALE_OUT\<rparr>)"
        using assms True observe restart
        by (auto simp: validate_recovery_command_def template_reason_def)
      with ws show ?thesis
        unfolding validate_command_words[OF assms ws]
        by (cases a; cases "ra_kind a") (auto simp: words_ask_for_def with_dry_run_def safe_action_def)
    next
      case False
      with assms observe restart have "validate_recovery_command command v \<noteq> Inr a"
        by (simp add: validate_recovery_command_def)
      moreover have "\<not> words_ask_for ws a"
        using False observe restart
        by (cases "ra_kind a") (auto simp: words_ask_for_def observe_words restart_words scale_words)
      ultimately show ?thesis by simp
    qed
  qed
qed

text \<open>
  C6. The command parser accepts exactly the texts that ask for a safe action: a text is accepted as
  the action \<open>a\<close> if and only if \<open>a\<close> meets the contract of actions and the shell lexer splits the
  text into the words of \<open>a\<close>, with the deployment and the namespace of \<open>a\<close> in their places, the
  replica count of \<open>a\<close> in decimal digits, and nothing else but a final \<open>--dry-run=server\<close> on a
  restart or a scale. No quoting trick, extra argument, other flag or foreign verb is accepted.
\<close>

theorem validate_recovery_command_decides:
  "validate_recovery_command command v = Inr a \<longleftrightarrow>
     safe_action v a \<and> (\<exists>words. shlex_split command = Inr words \<and> words_ask_for words a)"
proof (cases "shlex_split command")
  case (Inl e)
  then show ?thesis by (simp add: validate_recovery_command_def command_parts_def)
next
  case (Inr ws)
  then have "command_parts command = Inr ws" by (simp add: command_parts_def)
  from accepted_words[OF this] Inr show ?thesis by simp
qed

definition demo_validator :: CommandValidator where
  "demo_validator = \<lparr>allowed_namespaces = [''shop''], allowed_deployments = [''web''],
     min_replicas = 1, max_replicas = 5\<rparr>"

section \<open>Round trip\<close>

lemma k8s_name_chars: "k8s_name s \<Longrightarrow> c \<in> set s \<Longrightarrow> k8s_alnum c \<or> c = CHR ''-''"
  unfolding k8s_name_def
  by (cases s; cases "tl s" rule: rev_cases) auto

lemma k8s_alnum_plain: "k8s_alnum c \<Longrightarrow> shlex_plain c"
  by (auto simp: k8s_alnum_def is_lower_alpha_def shlex_plain_def shlex_white_def
      shlex_quote_def shlex_escape_def is_decimal_def)

lemma k8s_name_plain: "k8s_name s \<Longrightarrow> plain_word s"
proof -
  assume s: "k8s_name s"
  have "shlex_plain CHR ''-''"
    by (simp add: shlex_plain_def shlex_white_def shlex_quote_def shlex_escape_def code_point_def)
  with s show ?thesis
    by (auto simp: plain_word_def k8s_name_def dest: k8s_name_chars[OF s] k8s_alnum_plain)
qed

lemma plain_word_code: "plain_word w \<longleftrightarrow> w \<noteq> '''' \<and> list_all shlex_plain w"
  by (simp add: plain_word_def list_all_iff)

lemmas plain_literal = plain_word_code shlex_plain_def shlex_white_def shlex_quote_def
  shlex_escape_def code_point_def

lemma plain_replicas: "0 \<le> n \<Longrightarrow> plain_word (''--replicas='' @ int_str n)"
  using nat_str_decimal is_decimal_plain
  by (auto simp: plain_word_def int_str_def plain_literal)

lemma safe_target_plain: "safe_target v ns dep \<Longrightarrow> plain_word ns \<and> plain_word dep"
  by (simp add: safe_target_def k8s_name_plain)

definition recovery_words :: "RecoveryAction \<Rightarrow> string list" where
  "recovery_words a = (case ra_kind a of
       OBSERVE_ONLY \<Rightarrow> [''kubectl'', ''get'', ''deployment'', ra_deployment a, ''-n'',
                        ra_namespace a, ''-o'', ''json'']
     | ROLLOUT_RESTART \<Rightarrow> [''kubectl'', ''rollout'', ''restart'', ''deployment'', ra_deployment a,
                        ''-n'', ra_namespace a]
     | SCALE_OUT \<Rightarrow> [''kubectl'', ''scale'', ''deployment'', ra_deployment a,
                        ''--replicas='' @ int_str (the (ra_replicas a)), ''-n'', ra_namespace a])"

lemma render_is_join:
  "safe_action v a \<Longrightarrow> render_recovery_command a = Inr (join '' '' (recovery_words a))"
  by (cases "ra_kind a")
    (auto simp: render_recovery_command_def render_scale_command_def recovery_words_def safe_action_def)

lemma recovery_words_plain:
  assumes "safe_action v a" and "0 \<le> min_replicas v"
  shows "\<forall>w \<in> set (recovery_words a). plain_word w"
proof -
  from assms(1) have "plain_word (ra_namespace a) \<and> plain_word (ra_deployment a)"
    by (auto simp: safe_action_def dest: safe_target_plain)
  with assms plain_replicas show ?thesis
    by (cases "ra_kind a") (auto simp: recovery_words_def safe_action_def plain_literal)
qed

lemma rendered_parts:
  assumes "safe_action v a" and "0 \<le> min_replicas v" and "render_recovery_command a = Inr command"
  shows "command_parts command = Inr (recovery_words a)"
proof -
  have "command = join '' '' (recovery_words a)"
    using assms(3) render_is_join[OF assms(1)] by simp
  then show ?thesis
    using recovery_words_plain[OF assms(1,2)] by (simp add: command_parts_def shlex_split_join)
qed

lemma int_str_nonneg: "0 \<le> n \<Longrightarrow> int_str n = nat_str (nat n)"
  by (simp add: int_str_def)

lemma parse_int_int_str:
  assumes "0 \<le> n" and "n < 10 ^ int_digit_limit"
  shows "parse_int (int_str n) = Inr n"
proof -
  have "nat n < 10 ^ int_digit_limit" using assms by (simp add: nat_less_iff)
  then have "length (nat_str (nat n)) \<le> int_digit_limit"
    by (rule length_nat_str) (simp add: int_digit_limit_def)
  with assms(1) show ?thesis by (simp add: parse_int_def int_str_nonneg)
qed

lemma parse_rendered:
  assumes safe: "safe_action v a" and min: "0 \<le> min_replicas v"
    and max: "max_replicas v < 10 ^ int_digit_limit" and cmd: "render_recovery_command a = Inr command"
  shows "validate_recovery_command command v = Inr (a\<lparr>ra_reason := template_reason (ra_kind a)\<rparr>)"
proof (cases "ra_kind a")
  case SCALE_OUT
  with safe obtain n where n: "ra_replicas a = Some n" "min_replicas v \<le> n" "n \<le> max_replicas v"
    and tgt: "safe_target v (ra_namespace a) (ra_deployment a)"
    by (auto simp: safe_action_def)
  have "0 \<le> n" "n < 10 ^ int_digit_limit" using n min max by linarith+
  note parse = parse_int_int_str[OF this]
  from rendered_parts[OF safe min cmd] SCALE_OUT n \<open>0 \<le> n\<close> tgt parse show ?thesis
    by (cases a) (simp add: validate_recovery_command_def validate_command_def recovery_words_def
        is_observe_command_def is_rollout_restart_command_def is_scale_command_def
        startswith_def after_first_def int_str_nonneg validate_scale_action_Inr Let_def
        template_reason_def)
qed (use rendered_parts[OF safe min cmd] safe in
    \<open>cases a, auto simp: validate_recovery_command_def recovery_words_def is_observe_command_def
      is_rollout_restart_command_def template_reason_def safe_action_def
      simp: validates_iff\<close>)+

text \<open>
  C8. Print then parse: the command rendered for a safe action is split by the shell lexer into
  exactly the words of its template and parsed back to the same namespace, deployment, kind and
  replica count (the reason is the template's). Non-negative lower bound and the interpreter's
  4300-digit limit are the only conditions on the bounds.
\<close>

theorem render_parse_roundtrip:
  assumes "validate_recovery_action v a = Inr a" and "0 \<le> min_replicas v"
    and "max_replicas v < 10 ^ int_digit_limit"
  shows "\<exists>command. render_recovery_command a = Inr command \<and>
           command_parts command = Inr (recovery_words a) \<and>
           validate_recovery_command command v =
             Inr (a\<lparr>ra_reason := template_reason (ra_kind a)\<rparr>)"
proof -
  have safe: "safe_action v a" using assms(1) by (simp add: validates_iff)
  note cmd = render_is_join[OF safe]
  from rendered_parts[OF safe assms(2) cmd] parse_rendered[OF safe assms(2,3) cmd] cmd
  show ?thesis by blast
qed

lemma small_below_limit: "n < 10 \<Longrightarrow> (n :: int) < 10 ^ int_digit_limit"
  using power_increasing[of 1 int_digit_limit "10 :: int"] by (simp add: int_digit_limit_def del: power_numeral)

lemma render_parse_roundtrip_witness:
  "\<exists>command. render_recovery_command \<lparr>ra_namespace = ''shop'', ra_deployment = ''web'',
       ra_kind = SCALE_OUT, ra_replicas = Some 3, ra_reason = ''load''\<rparr> = Inr command \<and>
     validate_recovery_command command demo_validator = Inr \<lparr>ra_namespace = ''shop'',
       ra_deployment = ''web'', ra_kind = SCALE_OUT, ra_replicas = Some 3,
       ra_reason = template_reason SCALE_OUT\<rparr>"
proof -
  have "validate_recovery_action demo_validator \<lparr>ra_namespace = ''shop'', ra_deployment = ''web'',
       ra_kind = SCALE_OUT, ra_replicas = Some 3, ra_reason = ''load''\<rparr> =
     Inr \<lparr>ra_namespace = ''shop'', ra_deployment = ''web'', ra_kind = SCALE_OUT,
       ra_replicas = Some 3, ra_reason = ''load''\<rparr>" by code_simp
  from render_parse_roundtrip[OF this] small_below_limit[of 5] show ?thesis
    by (auto simp: demo_validator_def)
qed

section \<open>The interface its clients rely on\<close>

text \<open>
  A client of the guard needs only these laws: an accepted action is returned unchanged and meets
  the contract, a contractual action has an argument list, and every parsed command denotes a
  contractual action.
\<close>

locale command_guard =
  fixes check :: "'a \<Rightarrow> (exn, 'a) result"
    and contract :: "'a \<Rightarrow> bool"
    and render :: "'a \<Rightarrow> (exn, string) result"
    and wordlist :: "'a \<Rightarrow> string list"
    and parse :: "string \<Rightarrow> (exn, 'a) result"
  assumes check_sound: "check a = Inr b \<Longrightarrow> b = a \<and> contract a"
    and check_complete: "contract a \<Longrightarrow> check a = Inr a"
    and render_words: "contract a \<Longrightarrow> render a = Inr (join '' '' (wordlist a))"
    and parse_sound: "parse command = Inr a \<Longrightarrow> contract a"
begin

lemma guarded_emits:
  assumes "contract a \<Longrightarrow> emits P (f a)"
  shows "emits P (pbind (plift (check a)) f)"
proof (cases "check a")
  case (Inl e)
  then show ?thesis by (simp add: emits_pthrow)
next
  case (Inr b)
  with check_sound[OF Inr] assms show ?thesis by simp
qed

lemma guarded_returns:
  assumes "contract a \<Longrightarrow> returns Q (f a)"
  shows "returns Q (pbind (plift (check a)) f)"
  using assms check_sound unfolding returns_def pbind_Inr by (metis plift_eq)

lemma rejected_raises: "\<not> contract a \<Longrightarrow> \<exists>e. check a = Inl e"
  using check_sound by (cases "check a") auto

lemma parsed_accepted: "parse command = Inr a \<Longrightarrow> check a = Inr a"
  using parse_sound check_complete by blast

end

interpretation guard: command_guard "validate_recovery_action v" "safe_action v"
    render_recovery_command recovery_words "\<lambda>c. validate_recovery_command c v" for v
  by unfold_locales (simp_all add: validates_iff render_is_join validate_recovery_command_sound)

end
