(* ===== verification/Executor.thy ===== *)
theory Executor
  imports Validator PyRepr
begin

text \<open>
  \<open>executor.py\<close>: the Kubernetes executor in its three modes and two backends. The process runner,
  the Go guard process and the JSON decoder are parameters; every command line handed to the
  runner, and every request handed to the guard, is an effect of the trace.
\<close>

section \<open>The executor\<close>

record 'w executor_env =
  ex_runner :: "string list \<Rightarrow> 'w \<Rightarrow> (exn, int \<times> string \<times> string) result \<times> 'w"
  ex_go_guard_runner :: "GoGuardRequest \<Rightarrow> 'w \<Rightarrow> (exn, int \<times> string \<times> string) result \<times> 'w"
  ex_json_loads :: "string \<Rightarrow> pyval option"

record KubernetesExecutor =
  ke_validator :: CommandValidator
  ke_mode :: ExecutionMode
  ke_backend :: ExecutionBackend

text \<open>The Korean sentence of the mock result, as its UTF-8 bytes.\<close>

definition mock_stdout :: string where
  "mock_stdout = ''mock: '' @ map char_of ([
     235,170,133,235,160,185,236,150,180,235,165,188,32,234,178,128,236,166,157,237,150,136,236,156,
     188,235,169,176,32,236,139,164,236,160,156,32,236,139,164,237,150,137,237,149,152,236,167,128,
     32,236,149,138,236,149,152,236,138,181,235,139,136,235,139,164] :: nat list)"

definition mock_result :: "KubernetesExecutor \<Rightarrow> string \<Rightarrow> CommandResult" where
  "mock_result k command =
     \<lparr>cr_command = command, cr_mode = mode_value (ke_mode k), cr_valid = True,
      cr_stdout = mock_stdout, cr_stderr = '''', cr_metadata = []\<rparr>"

text \<open>\<open>_run\<close>: hand the arguments to the runner and read its exit code.\<close>

definition run_command ::
  "'w executor_env \<Rightarrow> KubernetesExecutor \<Rightarrow> string \<Rightarrow> string list \<Rightarrow> ('w, CommandResult) prog" where
  "run_command env k command argv =
     pbind (emit (Ran argv)) (\<lambda>_.
     pbind (pcall (ex_runner env argv)) (\<lambda>(return_code, stdout, stderr).
     preturn \<lparr>cr_command = command, cr_mode = mode_value (ke_mode k),
              cr_valid = (return_code = 0), cr_stdout = stdout, cr_stderr = stderr,
              cr_metadata = []\<rparr>))"

definition scale_argv :: "ScaleAction \<Rightarrow> string list" where
  "scale_argv a = [''kubectl'', ''scale'', ''deployment'', sa_deployment a,
     ''--replicas='' @ int_str (sa_replicas a), ''-n'', sa_namespace a]"

definition recovery_argv :: "RecoveryAction \<Rightarrow> (exn, string list) result" where
  "recovery_argv a =
     (if ra_kind a = OBSERVE_ONLY then
        Inr [''kubectl'', ''get'', ''deployment'', ra_deployment a, ''-n'', ra_namespace a,
             ''-o'', ''json'']
      else if ra_kind a = ROLLOUT_RESTART then
        Inr [''kubectl'', ''rollout'', ''restart'', ''deployment'', ra_deployment a, ''-n'',
             ra_namespace a]
      else (case ra_replicas a of
          Some n \<Rightarrow> Inr (scale_argv
            \<lparr>sa_namespace = ra_namespace a, sa_deployment = ra_deployment a,
             sa_replicas = n, sa_reason = ra_reason a\<rparr>)
        | None \<Rightarrow> Inl (ValueError ''unsupported recovery action'')))"

section \<open>The Go guard backend\<close>

definition guard_metadata :: "(string \<times> string) list" where
  "guard_metadata = [(''guard_backend'', ''go''), (''go_guard'', ''aiops-guard'')]"

text \<open>
  \<open>_parse_go_guard_result\<close>. A document that is not an object has no \<open>get\<close>, which raises.
\<close>

definition parse_go_guard_result ::
  "'w executor_env \<Rightarrow> KubernetesExecutor \<Rightarrow> int \<Rightarrow> string \<Rightarrow> string \<Rightarrow> string
   \<Rightarrow> (exn, CommandResult) result" where
  "parse_go_guard_result env k return_code stdout stderr fallback_command =
     (if stdout \<noteq> '''' then
        (case ex_json_loads env stdout of
           None \<Rightarrow> Inr
             \<lparr>cr_command = fallback_command, cr_mode = mode_value (ke_mode k), cr_valid = False,
              cr_stdout = '''', cr_stderr = ''Go guard returned invalid JSON: '' @ stdout,
              cr_metadata = guard_metadata\<rparr>
         | Some (VDict data) \<Rightarrow> Inr
             \<lparr>cr_command = json_str (vget_default data ''command'' (VStr '''')),
              cr_mode = json_str (vget_default data ''mode'' (VStr (mode_value (ke_mode k)))),
              cr_valid = (truthy (vget_default data ''valid'' (VBool False)) \<and> return_code = 0),
              cr_stdout = json_str (vget_default data ''stdout'' (VStr '''')),
              cr_stderr = json_str (vget_default data ''stderr'' (VStr stderr)),
              cr_metadata = guard_metadata\<rparr>
         | Some _ \<Rightarrow> Inl (OtherError ''Go guard result has no attribute get''))
      else Inr
        \<lparr>cr_command = fallback_command, cr_mode = mode_value (ke_mode k), cr_valid = False,
         cr_stdout = '''',
         cr_stderr = (if stderr \<noteq> '''' then stderr
                      else ''Go guard exited with code '' @ int_str return_code),
         cr_metadata = guard_metadata\<rparr>)"

text \<open>
  \<open>_cross_validate_go_guard_result\<close>: a valid guard result must parse as an approved template.
  Only \<open>CommandValidationError\<close> is caught.
\<close>

definition cross_validate_go_guard_result ::
  "KubernetesExecutor \<Rightarrow> CommandResult \<Rightarrow> (exn, CommandResult) result" where
  "cross_validate_go_guard_result k result =
     (if \<not> cr_valid result then Inr result
      else (case validate_recovery_command (cr_command result) (ke_validator k) of
          Inr a \<Rightarrow> Inr result
        | Inl (CommandValidationError m) \<Rightarrow> Inr
            \<lparr>cr_command = cr_command result, cr_mode = cr_mode result, cr_valid = False,
             cr_stdout = cr_stdout result, cr_stderr = ''Python-Go cross-check failed: '' @ m,
             cr_metadata = cr_metadata result\<rparr>
        | Inl e \<Rightarrow> Inl e))"

definition execute_with_go_guard ::
  "'w executor_env \<Rightarrow> KubernetesExecutor \<Rightarrow> string \<Rightarrow> string \<Rightarrow> RecoveryActionKind \<Rightarrow> int option
   \<Rightarrow> string \<Rightarrow> ('w, CommandResult) prog" where
  "execute_with_go_guard env k namespace deployment kind replicas fallback_command =
     (let v = ke_validator k;
          request = \<lparr>gg_mode = mode_value (ke_mode k), gg_namespace = namespace,
            gg_deployment = deployment, gg_action = kind_value kind, gg_replicas = replicas,
            gg_allowed_namespaces = sort (allowed_namespaces v),
            gg_allowed_deployments = sort (allowed_deployments v),
            gg_min_replicas = min_replicas v, gg_max_replicas = max_replicas v\<rparr>
      in pbind (emit (AskedGoGuard request)) (\<lambda>_.
         pbind (pcall (ex_go_guard_runner env request)) (\<lambda>(return_code, stdout, stderr).
         pbind (plift (parse_go_guard_result env k return_code stdout stderr fallback_command)) (\<lambda>result.
         plift (cross_validate_go_guard_result k result)))))"

section \<open>Execution\<close>

definition execute_scale ::
  "'w executor_env \<Rightarrow> KubernetesExecutor \<Rightarrow> ScaleAction \<Rightarrow> ('w, CommandResult) prog" where
  "execute_scale env k action =
     pbind (plift (validate_scale_action (ke_validator k) action)) (\<lambda>validated.
     let command = render_scale_command validated in
     if ke_backend k = GO then
       execute_with_go_guard env k (sa_namespace validated) (sa_deployment validated) SCALE_OUT
         (Some (sa_replicas validated)) command
     else if ke_mode k = MOCK then preturn (mock_result k command)
     else run_command env k command
            (scale_argv validated @ (if ke_mode k = DRY_RUN then [''--dry-run=server''] else [])))"

definition execute_recovery ::
  "'w executor_env \<Rightarrow> KubernetesExecutor \<Rightarrow> RecoveryAction \<Rightarrow> ('w, CommandResult) prog" where
  "execute_recovery env k action =
     pbind (plift (validate_recovery_action (ke_validator k) action)) (\<lambda>validated.
     pbind (plift (render_recovery_command validated)) (\<lambda>command.
     if ke_backend k = GO then
       execute_with_go_guard env k (ra_namespace validated) (ra_deployment validated)
         (ra_kind validated) (ra_replicas validated) command
     else if ke_mode k = MOCK then preturn (mock_result k command)
     else pbind (plift (recovery_argv validated)) (\<lambda>argv.
       run_command env k command
         (argv @ (if ke_mode k = DRY_RUN \<and> ra_kind validated \<noteq> OBSERVE_ONLY
                  then [''--dry-run=server''] else [])))))"

section \<open>What the executor may do to the cluster\<close>

text \<open>
  The contract of one effect: the command lines of an executor are those of a safe action, on the
  Python backend outside mock mode only, with the server-side dry-run flag on every mutating
  command in dry-run mode; the guard is asked only about safe actions, on the Go backend only.
\<close>

definition mutating :: "RecoveryAction \<Rightarrow> bool" where
  "mutating a = (ra_kind a \<noteq> OBSERVE_ONLY)"

definition executor_effect_ok :: "KubernetesExecutor \<Rightarrow> RecoveryAction \<Rightarrow> effect \<Rightarrow> bool" where
  "executor_effect_ok k a e \<longleftrightarrow> (case e of
       Ran argv \<Rightarrow> safe_action (ke_validator k) a \<and> ke_backend k = PYTHON \<and> ke_mode k \<noteq> MOCK \<and>
         argv = recovery_words a @
           (if ke_mode k = DRY_RUN \<and> mutating a then [''--dry-run=server''] else [])
     | AskedGoGuard r \<Rightarrow> safe_action (ke_validator k) a \<and> ke_backend k = GO \<and>
         gg_mode r = mode_value (ke_mode k) \<and> gg_namespace r = ra_namespace a \<and>
         gg_deployment r = ra_deployment a \<and> gg_action r = kind_value (ra_kind a) \<and>
         gg_replicas r = ra_replicas a
     | _ \<Rightarrow> False)"

lemma recovery_argv_words:
  "safe_action v a \<Longrightarrow> recovery_argv a = Inr (recovery_words a)"
  by (cases "ra_kind a")
    (auto simp: recovery_argv_def scale_argv_def recovery_words_def safe_action_def)

lemma run_command_emits [prog_rules]: "P (Ran argv) \<Longrightarrow> emits P (run_command env k command argv)"
  unfolding run_command_def by (intro prog_rules)

lemma go_guard_emits [prog_rules]:
  assumes "P (AskedGoGuard \<lparr>gg_mode = mode_value (ke_mode k), gg_namespace = ns,
            gg_deployment = dep, gg_action = kind_value kind, gg_replicas = replicas,
            gg_allowed_namespaces = sort (allowed_namespaces (ke_validator k)),
            gg_allowed_deployments = sort (allowed_deployments (ke_validator k)),
            gg_min_replicas = min_replicas (ke_validator k),
            gg_max_replicas = max_replicas (ke_validator k)\<rparr>)"
  shows "emits P (execute_with_go_guard env k ns dep kind replicas command)"
  unfolding execute_with_go_guard_def Let_def using assms by (intro prog_rules) auto

lemma execute_recovery_contract:
  "emits (executor_effect_ok k action) (execute_recovery env k action)"
  unfolding execute_recovery_def
proof (rule guard.guarded_emits)
  assume safe: "safe_action (ke_validator k) action"
  show "emits (executor_effect_ok k action)
     (pbind (plift (render_recovery_command action)) (\<lambda>command.
      if ke_backend k = GO then
        execute_with_go_guard env k (ra_namespace action) (ra_deployment action)
          (ra_kind action) (ra_replicas action) command
      else if ke_mode k = MOCK then preturn (mock_result k command)
      else pbind (plift (recovery_argv action)) (\<lambda>argv.
        run_command env k command
          (argv @ (if ke_mode k = DRY_RUN \<and> ra_kind action \<noteq> OBSERVE_ONLY
                  then [''--dry-run=server''] else [])))))"
    using safe recovery_argv_words[OF safe]
    by (intro emits_plift_bind emits_if emits_preturn run_command_emits go_guard_emits)
      (cases "ke_backend k"; auto simp: executor_effect_ok_def mutating_def)+
qed

text \<open>
  C5. Executor safety. Whatever action it is handed and whatever the environment answers, the
  executor performs no effect except running the exact argument list of an action that satisfies
  the validator's contract (with \<open>--dry-run=server\<close> on a mutating command in dry-run mode, never
  in mock mode), or asking the Go guard about such an action.
\<close>

theorem execute_recovery_effects:
  "\<exists>new. sys_trace (snd (execute_recovery env k action s)) = new @ sys_trace s \<and>
     list_all (executor_effect_ok k action) new"
  using execute_recovery_contract[of k action env] by (simp add: emits_def list_all_iff)

lemma cross_validate_valid:
  assumes "cross_validate_go_guard_result k r = Inr r'" and "cr_valid r'"
  shows "r' = r \<and> (\<exists>a. validate_recovery_command (cr_command r) (ke_validator k) = Inr a)"
  using assms
  by (auto simp: cross_validate_go_guard_result_def split: if_splits sum.splits exn.splits)

text \<open>
  A result of the Go backend that is reported valid names a command which the Python parser
  accepts, so it denotes a safe action; the guard process cannot get another command reported as
  validated.
\<close>

theorem go_backend_result_safe:
  assumes "execute_recovery env k action s = (Inr result, s')" and "ke_backend k = GO"
    and "cr_valid result"
  shows "\<exists>a. validate_recovery_command (cr_command result) (ke_validator k) = Inr a \<and>
           safe_action (ke_validator k) a"
proof -
  obtain r where "cross_validate_go_guard_result k r = Inr result"
    using assms(1,2)
    by (auto simp: execute_recovery_def pbind_Inr execute_with_go_guard_def Let_def split: prod.splits)
  with cross_validate_valid[OF this assms(3)] show ?thesis
    using validate_recovery_command_sound by blast
qed

definition demo_guard_env :: "'w executor_env" where
  "demo_guard_env =
     \<lparr>ex_runner = (\<lambda>argv w. (Inr (0, ''scaled'', ''''), w)),
      ex_go_guard_runner = (\<lambda>r w. (Inr (0, ''{}'', ''''), w)),
      ex_json_loads = (\<lambda>s. Some (VDict [(''valid'', VBool True),
        (''command'', VStr ''kubectl rollout restart deployment web -n shop'')]))\<rparr>"

definition demo_go_executor :: KubernetesExecutor where
  "demo_go_executor = \<lparr>ke_validator = demo_validator, ke_mode = DRY_RUN, ke_backend = GO\<rparr>"

definition demo_restart :: RecoveryAction where
  "demo_restart = \<lparr>ra_namespace = ''shop'', ra_deployment = ''web'', ra_kind = ROLLOUT_RESTART,
     ra_replicas = None, ra_reason = ''stuck''\<rparr>"

definition demo_go_result :: CommandResult where
  "demo_go_result = \<lparr>cr_command = ''kubectl rollout restart deployment web -n shop'',
     cr_mode = ''dry-run'', cr_valid = True, cr_stdout = '''', cr_stderr = '''',
     cr_metadata = guard_metadata\<rparr>"

lemma go_backend_result_safe_witness:
  "\<exists>a. validate_recovery_command ''kubectl rollout restart deployment web -n shop'' demo_validator = Inr a \<and>
     safe_action demo_validator a"
proof -
  have "fst (execute_recovery demo_guard_env demo_go_executor demo_restart
          \<lparr>sys_world = (), sys_trace = []\<rparr>) = Inr demo_go_result" by code_simp
  then have "execute_recovery demo_guard_env demo_go_executor demo_restart
      \<lparr>sys_world = (), sys_trace = []\<rparr> = (Inr demo_go_result,
      snd (execute_recovery demo_guard_env demo_go_executor demo_restart
          \<lparr>sys_world = (), sys_trace = []\<rparr>))" by (metis prod.collapse)
  from go_backend_result_safe[OF this] show ?thesis
    by (simp add: demo_go_executor_def demo_go_result_def)
qed

section \<open>Scale requests are recovery requests\<close>

definition recovery_of_scale :: "ScaleAction \<Rightarrow> RecoveryAction" where
  "recovery_of_scale a = \<lparr>ra_namespace = sa_namespace a, ra_deployment = sa_deployment a,
     ra_kind = SCALE_OUT, ra_replicas = Some (sa_replicas a), ra_reason = sa_reason a\<rparr>"

lemma validate_scale_as_recovery:
  "validate_recovery_action v (recovery_of_scale a) =
   rbind (validate_scale_action v a) (\<lambda>_. Inr (recovery_of_scale a))"
  by (simp add: recovery_of_scale_def validate_recovery_action_def validate_scale_action_def rbind_assoc)

text \<open>
  \<open>execute\<close> on a scale request behaves exactly as \<open>execute_recovery\<close> on the scale-out action
  with the same target and replica count: same result or exception, same effects, same environment
  calls, in every mode and on both backends.
\<close>

theorem execute_scale_is_recovery:
  "execute_scale env k a = execute_recovery env k (recovery_of_scale a)"
proof (cases "validate_scale_action (ke_validator k) a")
  case (Inl e)
  then show ?thesis
    by (simp add: execute_scale_def execute_recovery_def validate_scale_as_recovery)
next
  case (Inr b)
  then have "b = a" by (simp add: validate_scale_action_Inr)
  moreover have "render_recovery_command (recovery_of_scale a) = Inr (render_scale_command a)"
    and "recovery_argv (recovery_of_scale a) = Inr (scale_argv a)"
    by (simp_all add: recovery_of_scale_def render_recovery_command_def recovery_argv_def
        render_scale_command_def scale_argv_def)
  ultimately show ?thesis using Inr
    by (simp add: execute_scale_def execute_recovery_def validate_scale_as_recovery Let_def)
      (simp add: recovery_of_scale_def)
qed

end
