(* ===== verification/Report.thy ===== *)
theory Report
  imports Effects
begin

text \<open>
  The report of one mutual supervision run: the dictionary that \<open>MutualSupervisionCoordinator.run\<close>
  returns, as a record. \<open>None\<close> stands for the empty dictionaries of a part that was not reached.
\<close>

datatype Monitoring = NoMonitoring | NotMeasured | Monitored RecoveryAssessment

record ReplanNote =
  rt_failed_action :: string
  rt_reason :: string
  rt_next_step :: string

record SafetyValidation =
  sv_valid :: bool
  sv_command :: string
  sv_stderr :: string

record Report =
  rp_valid :: bool
  rp_mode :: string
  rp_final_status :: string
  rp_run_id :: string
  rp_policy_version :: string
  rp_profile_id :: string
  rp_config_hash :: string
  rp_active_agents :: "string list"
  rp_agent_runtimes :: "string list"
  rp_agent_contributions :: "(string, AgentContribution) dict"
  rp_fallback_action :: string
  rp_configuration_errors :: "string list"
  rp_evidence :: "EvidenceSnapshot option"
  rp_diagnosis :: "Diagnosis option"
  rp_initial_decisions :: "SupervisionDecision list"
  rp_peer_reviews :: "PeerReview list"
  rp_rounds :: "NegotiationRound list"
  rp_consensus :: string
  rp_strategy :: string
  rp_selected_action :: "RecoveryAction option"
  rp_safety_validation :: SafetyValidation
  rp_execution_result :: CommandResult
  rp_recovery_monitoring :: Monitoring
  rp_validated_actions :: "RecoveryAction list"
  rp_executed_actions :: "RecoveryAction list"
  rp_post_execution_reviews :: "PostExecutionReview list"
  rp_replanning_attempts :: "ReplanNote list"
  rp_human_review_required :: bool
  rp_controller :: string
  rp_guard_backend :: string

definition empty_result :: "string \<Rightarrow> string \<Rightarrow> CommandResult" where
  "empty_result mode stderr =
     \<lparr>cr_command = '''', cr_mode = mode, cr_valid = False, cr_stdout = '''', cr_stderr = stderr,
      cr_metadata = []\<rparr>"

section \<open>Contributions\<close>

text \<open>\<open>float(v)\<close> of a number that an output check has already accepted.\<close>

definition sample :: "pyval \<Rightarrow> pyfloat" where
  "sample v = (case number_of v of Some x \<Rightarrow> x | None \<Rightarrow> FNaN)"

definition reward_samples ::
  "SupervisionDecision list \<Rightarrow> PeerReview list \<Rightarrow> PostExecutionReview list \<Rightarrow> string \<Rightarrow> pyfloat list" where
  "reward_samples decisions reviews posts agent =
     map (sample \<circ> sd_reward) (filter (\<lambda>d. sd_agent d = agent) decisions) @
     map (sample \<circ> pr_confidence) (filter (\<lambda>r. pr_reviewer r = agent) reviews) @
     map (sample \<circ> po_confidence) (filter (\<lambda>p. po_agent p = agent) posts)"

definition mean_reward :: "pyfloat list \<Rightarrow> pyfloat" where
  "mean_reward samples =
     (case fsum samples of
        None \<Rightarrow> FFin 0
      | Some s \<Rightarrow> (case fdiv s (round64 (of_nat (length samples))) of
            None \<Rightarrow> FFin 0 | Some m \<Rightarrow> fround 6 m))"

definition agent_contribution ::
  "SupervisionDecision list \<Rightarrow> PeerReview list \<Rightarrow> PostExecutionReview list \<Rightarrow> string \<Rightarrow> AgentContribution" where
  "agent_contribution decisions reviews posts agent =
     (let mine = filter (\<lambda>r. pr_reviewer r = agent) reviews;
          given = (\<lambda>v. length (filter (\<lambda>r. pr_verdict r = v) mine))
      in \<lparr>ct_decisions = length (filter (\<lambda>d. sd_agent d = agent) decisions),
          ct_approvals = given APPROVE, ct_revisions = given REVISE, ct_vetoes = given VETO,
          ct_post_reviews = length (filter (\<lambda>p. po_agent p = agent) posts),
          ct_reward = mean_reward (reward_samples decisions reviews posts agent)\<rparr>)"

definition agent_contributions :: "Report \<Rightarrow> string list \<Rightarrow> (string, AgentContribution) dict" where
  "agent_contributions report agents =
     map (\<lambda>a. (a, agent_contribution (rp_initial_decisions report) (rp_peer_reviews report)
            (rp_post_execution_reviews report) a)) agents"

lemma agent_contributions_keys [simp]: "map fst (agent_contributions report agents) = agents"
  by (simp add: agent_contributions_def comp_def)

end
