(* ===== verification/Negotiation.thy ===== *)
theory Negotiation
  imports AdapterOutput Consensus RecoveryMonitor Executor Report
begin

text \<open>
  The negotiation of \<open>mutual_supervision.py\<close>: one recovery action is proposed, reviewed by the peers
  the protocol names, resolved by the consensus rule, revised and put to review again, for at most
  the protocol's number of rounds. The adapters, the event store, the clocks and identifiers are
  parameters; what is recorded is part of the trace.
\<close>

section \<open>The coordinator and its environment\<close>

record AgentAdapter =
  ad_name :: string
  ad_runtime :: string
  ad_capabilities :: "string list"

record ReviewContext =
  rx_run_id :: string
  rx_round_index :: int
  rx_policy_version :: string
  rx_diagnosis :: Diagnosis

record 'w coordinator_env =
  ce_executor :: "'w executor_env"
  ce_sha256 :: "string \<Rightarrow> string"
  ce_uuid :: "'w \<Rightarrow> string \<times> 'w"
  ce_runtime_check :: "'w \<Rightarrow> (exn, unit) result \<times> 'w"
  ce_begin_run :: "string \<Rightarrow> string \<Rightarrow> 'w \<Rightarrow> (exn, unit) result \<times> 'w"
  ce_collect :: "string \<Rightarrow> string \<Rightarrow> 'w \<Rightarrow> (exn, EvidenceSnapshot) result \<times> 'w"
  ce_diagnose :: "string \<Rightarrow> EvidenceSnapshot \<Rightarrow> string \<Rightarrow> pyfloat \<Rightarrow> 'w \<Rightarrow> (exn, pyval) result \<times> 'w"
  ce_propose :: "string \<Rightarrow> Diagnosis \<Rightarrow> EvidenceSnapshot \<Rightarrow> 'w \<Rightarrow> (exn, pyval) result \<times> 'w"
  ce_review :: "string \<Rightarrow> SupervisionDecision \<Rightarrow> EvidenceSnapshot \<Rightarrow> ReviewContext \<Rightarrow> 'w
    \<Rightarrow> (exn, pyval) result \<times> 'w"
  ce_post_review :: "string \<Rightarrow> RecoveryAction \<Rightarrow> RecoveryAssessment \<Rightarrow> EvidenceSnapshot \<Rightarrow> 'w
    \<Rightarrow> (exn, pyval) result \<times> 'w"
  ce_assess :: "RecoveryAction \<Rightarrow> EvidenceSnapshot \<Rightarrow> EvidenceSnapshot \<Rightarrow> CommandResult \<Rightarrow> 'w
    \<Rightarrow> (exn, RecoveryAssessment) result \<times> 'w"
  ce_finalize :: "Report \<Rightarrow> 'w \<Rightarrow> (exn, unit) result \<times> 'w"
  ce_append :: "string \<Rightarrow> event \<Rightarrow> 'w \<Rightarrow> (exn, unit) result \<times> 'w"
  ce_lock_enter :: "string \<Rightarrow> string \<Rightarrow> 'w \<Rightarrow> (exn, unit) result \<times> 'w"
  ce_lock_exit :: "string \<Rightarrow> string \<Rightarrow> 'w \<Rightarrow> (exn, unit) result \<times> 'w"

record MutualSupervisionCoordinator =
  mc_validator :: CommandValidator
  mc_mode :: ExecutionMode
  mc_backend :: ExecutionBackend
  mc_has_event_store :: bool
  mc_defer_finalization :: bool
  mc_has_runtime_control :: bool
  mc_lock_owned_externally :: bool
  mc_protocol :: ResearchProtocolProfile
  mc_adapters :: "(string, AgentAdapter) dict"

definition has_capability :: "string \<Rightarrow> AgentAdapter \<Rightarrow> bool" where
  "has_capability c a = (c \<in> set (ad_capabilities a))"

definition adapters_of :: "MutualSupervisionCoordinator \<Rightarrow> AgentAdapter list" where
  "adapters_of c = map snd (mc_adapters c)"

text \<open>\<open>_protocol_identity\<close> and \<open>_protocol_snapshot\<close> check the profile's integrity on every use.\<close>

definition protocol_check ::
  "'w coordinator_env \<Rightarrow> MutualSupervisionCoordinator \<Rightarrow> ('w, unit) prog" where
  "protocol_check env c = plift (validate_integrity (ce_sha256 env) (mc_protocol c))"

definition record_event ::
  "'w coordinator_env \<Rightarrow> MutualSupervisionCoordinator \<Rightarrow> string \<Rightarrow> event \<Rightarrow> ('w, unit) prog" where
  "record_event env c stream ev =
     (if mc_has_event_store c then
        pbind (protocol_check env c) (\<lambda>_.
        pbind (pcall (ce_append env stream ev)) (\<lambda>_.
        emit (Recorded stream ev)))
      else preturn ())"

definition check_runtime_control ::
  "'w coordinator_env \<Rightarrow> MutualSupervisionCoordinator \<Rightarrow> ('w, unit) prog" where
  "check_runtime_control env c =
     (if mc_has_runtime_control c then pcall (ce_runtime_check env) else preturn ())"

definition new_trace_id :: "'w coordinator_env \<Rightarrow> string \<Rightarrow> ('w, string) prog" where
  "new_trace_id env prefix =
     (let normalized = replace_char CHR ''_'' CHR ''-'' (lower (strip prefix)) in
      if normalized = '''' then pthrow (ValueError ''trace id prefix must not be empty'')
      else pbind (pgets (ce_uuid env)) (\<lambda>hex. preturn (normalized @ ''-'' @ hex)))"

section \<open>Actions: semantic checks, scopes and revisions\<close>

definition target_alignment_error :: "RecoveryAction \<Rightarrow> string \<Rightarrow> string \<Rightarrow> string" where
  "target_alignment_error a namespace deployment =
     (if ra_namespace a = namespace \<and> ra_deployment a = deployment then ''''
      else ''target mismatch: expected '' @ namespace @ ''/'' @ deployment @ '', got '' @
           ra_namespace a @ ''/'' @ ra_deployment a)"

definition action_semantic_error ::
  "RecoveryAction \<Rightarrow> ResearchProtocolProfile \<Rightarrow> EvidenceSnapshot \<Rightarrow> string \<Rightarrow> string \<Rightarrow> string" where
  "action_semantic_error a protocol evidence namespace deployment =
     (if target_alignment_error a namespace deployment \<noteq> '''' then
        target_alignment_error a namespace deployment
      else if ra_kind a \<notin> set (pf_action_space protocol) then
        kind_value (ra_kind a) @ '' action is outside the protocol action space''
      else if ra_kind a = SCALE_OUT then
        (case ra_replicas a of
           None \<Rightarrow> ''scale_out replicas must be an integer''
         | Some n \<Rightarrow> if n \<le> ev_desired_replicas evidence then
             ''scale_out replicas must be strictly greater than observed desired replicas ('' @
             int_str (ev_desired_replicas evidence) @ '')''
           else '''')
      else '''')"

definition decision_scopes :: "RecoveryAction \<Rightarrow> string list" where
  "decision_scopes a = (case ra_kind a of
       OBSERVE_ONLY \<Rightarrow> [''action_validity'', ''target_alignment'', ''availability'']
     | ROLLOUT_RESTART \<Rightarrow> [''action_validity'', ''target_alignment'', ''availability'', ''recovery'',
         ''executability'']
     | SCALE_OUT \<Rightarrow> [''action_validity'', ''target_alignment'', ''capacity'', ''resource_safety'',
         ''budget'', ''cost_efficiency''])"

text \<open>
  \<open>_apply_revisions\<close>: all suggestions must be of the action's own kind; a scale-out takes the
  smallest suggested count and the first reason, another kind takes the first suggestion whole.
\<close>

definition apply_revisions ::
  "RecoveryAction \<Rightarrow> PeerReview list \<Rightarrow> (exn, RecoveryAction \<times> string list) result" where
  "apply_revisions action reviews =
     (let suggestions = List.map_filter pr_suggested_action reviews in
      if suggestions = [] then Inr (action, [])
      else case filter (\<lambda>s. ra_kind s \<noteq> ra_kind action) suggestions of
        other # others \<Rightarrow> Inl (AdapterOutputError (''cross-kind revision is not allowed: '' @
          kind_value (ra_kind action) @ ''->'' @ kind_value (ra_kind other)))
      | [] \<Rightarrow>
          if ra_kind action = SCALE_OUT then
            (if list_ex (\<lambda>s. ra_replicas s = None) suggestions then
               Inl (AdapterOutputError ''scale_out revision replicas must be integers'')
             else
               (let replicas = Min (set (List.map_filter ra_replicas suggestions)) in
                Inr (action\<lparr>ra_replicas := Some replicas, ra_reason := ra_reason (hd suggestions)\<rparr>,
                     [''replicas:'' @ (case ra_replicas action of None \<Rightarrow> ''None'' | Some n \<Rightarrow> int_str n) @
                      ''->'' @ int_str replicas])))
          else Inr (hd suggestions, [kind_value (ra_kind action) @ '':reviewer_revision'']))"

definition candidate_confidence :: "RecoveryActionCandidate list \<Rightarrow> RecoveryAction \<Rightarrow> pyval" where
  "candidate_confidence cs action =
     (case filter (\<lambda>c. ra_kind (rc_action c) = ra_kind action) cs of
        c # _ \<Rightarrow> rc_confidence c | [] \<Rightarrow> VFloat (FFin (1 / 2)))"

definition candidate_reward :: "RecoveryActionCandidate list \<Rightarrow> RecoveryAction \<Rightarrow> pyval" where
  "candidate_reward cs action =
     (case filter (\<lambda>c. ra_kind (rc_action c) = ra_kind action) cs of
        c # _ \<Rightarrow> VFloat (rc_priority c) | [] \<Rightarrow> VFloat (FFin 0))"

definition evidence_refs :: "EvidenceSnapshot \<Rightarrow> string \<Rightarrow> string list" where
  "evidence_refs e signal =
     [''evidence_source:'' @ ev_source e, ''signal:'' @ signal,
      ''desired_replicas:'' @ int_str (ev_desired_replicas e),
      ''available_replicas:'' @ int_str (ev_available_replicas e)]"

section \<open>Collecting reviews\<close>

text \<open>
  \<open>_single_adapter_for\<close>: the first adapter with the capability; the coordinator only asks after it
  has checked that there is exactly one (\<open>StopIteration\<close> otherwise).
\<close>

definition single_adapter_for ::
  "MutualSupervisionCoordinator \<Rightarrow> string \<Rightarrow> (exn, AgentAdapter) result" where
  "single_adapter_for c capability =
     (case filter (has_capability capability) (adapters_of c) of
        a # _ \<Rightarrow> Inr a | [] \<Rightarrow> Inl (OtherError ''StopIteration''))"

text \<open>One reviewer: ask, check, and give the review a fresh id; \<open>None\<close> is no review.\<close>

definition ask_reviewer ::
  "'w coordinator_env \<Rightarrow> MutualSupervisionCoordinator \<Rightarrow> string \<Rightarrow> int \<Rightarrow> SupervisionDecision
   \<Rightarrow> Diagnosis \<Rightarrow> EvidenceSnapshot \<Rightarrow> AgentAdapter \<Rightarrow> ('w, PeerReview option) prog" where
  "ask_reviewer env c run_id round_index decision diagnosis evidence adapter =
     (let version = pf_version (mc_protocol c);
          context = \<lparr>rx_run_id = run_id, rx_round_index = round_index,
            rx_policy_version = version, rx_diagnosis = diagnosis\<rparr>
      in pbind (pcall (ce_review env (ad_name adapter) decision evidence context)) (\<lambda>v.
         if v = VNone then preturn None
         else
           pbind (plift (check_peer_review (ad_name adapter) decision run_id round_index version v)) (\<lambda>r.
           pbind (new_trace_id env ''review'') (\<lambda>review_id.
           preturn (Some (r\<lparr>pr_review_id := review_id\<rparr>))))))"

fun collect_reviews ::
  "'w coordinator_env \<Rightarrow> MutualSupervisionCoordinator \<Rightarrow> string \<Rightarrow> int \<Rightarrow> SupervisionDecision
   \<Rightarrow> Diagnosis \<Rightarrow> EvidenceSnapshot \<Rightarrow> string list \<Rightarrow> PeerReview list \<Rightarrow> ('w, PeerReview list) prog" where
  "collect_reviews env c run_id round_index decision diagnosis evidence [] reviews = preturn reviews"
| "collect_reviews env c run_id round_index decision diagnosis evidence (reviewer # rest) reviews =
     (case dict_get (mc_adapters c) reviewer of
        None \<Rightarrow> collect_reviews env c run_id round_index decision diagnosis evidence rest reviews
      | Some adapter \<Rightarrow>
          if \<not> has_capability ''review'' adapter then
            collect_reviews env c run_id round_index decision diagnosis evidence rest reviews
          else
            pbind (ptry (ask_reviewer env c run_id round_index decision diagnosis evidence adapter)
              (\<lambda>e. pthrow (ReviewCollectionFailure
                 (ad_name adapter @ '' review failed: '' @ exn_str e) reviews))) (\<lambda>answer.
            case answer of
              None \<Rightarrow> collect_reviews env c run_id round_index decision diagnosis evidence rest reviews
            | Some r \<Rightarrow>
                pbind (record_event env c ''peer_reviews'' (EvPeerReview r)) (\<lambda>_.
                collect_reviews env c run_id round_index decision diagnosis evidence rest
                  (reviews @ [r]))))"

definition review_application_action ::
  "'w coordinator_env \<Rightarrow> MutualSupervisionCoordinator \<Rightarrow> string \<Rightarrow> int \<Rightarrow> SupervisionDecision
   \<Rightarrow> Diagnosis \<Rightarrow> EvidenceSnapshot \<Rightarrow> ('w, PeerReview list) prog" where
  "review_application_action env c run_id round_index decision diagnosis evidence =
     (if sd_proposed_action decision = None then preturn []
      else collect_reviews env c run_id round_index decision diagnosis evidence
        (case dict_get (pf_review_matrix (mc_protocol c)) (sd_agent decision) of
           None \<Rightarrow> [] | Some reviewers \<Rightarrow> reviewers) [])"

section \<open>Rounds\<close>

text \<open>What a negotiation has gathered so far.\<close>

record negotiation =
  ng_decisions :: "SupervisionDecision list"
  ng_reviews :: "PeerReview list"
  ng_rounds :: "NegotiationRound list"

definition negotiation_failure :: "string \<Rightarrow> negotiation \<Rightarrow> exn" where
  "negotiation_failure m g = NegotiationFailure m (ng_decisions g) (ng_reviews g) (ng_rounds g)"

text \<open>The round record; the five outcomes of a round differ in four of its fields.\<close>

definition make_round ::
  "string \<Rightarrow> int \<Rightarrow> SupervisionDecision \<Rightarrow> PeerReview list \<Rightarrow> RecoveryAction \<Rightarrow> ConsensusOutcome
   \<Rightarrow> string list \<Rightarrow> string \<Rightarrow> string option \<Rightarrow> string \<Rightarrow> NegotiationRound" where
  "make_round run_id round_index decision reviews action outcome revisions status action_id reason =
     \<lparr>nr_run_id = run_id, nr_round_index = round_index,
      nr_input_decision_ids = [sd_decision_id decision],
      nr_review_ids = map pr_review_id reviews, nr_revisions = revisions,
      nr_remaining_vetoes = co_blocking_vetoes outcome,
      nr_remaining_abstentions =
        map pr_reviewer (filter (\<lambda>r. pr_verdict r = ABSTAIN) reviews),
      nr_consensus_status = status, nr_selected_action_id = action_id,
      nr_decision_scopes = decision_scopes action, nr_consensus_strategy = co_strategy outcome,
      nr_non_blocking_objections = co_non_blocking_objections outcome,
      nr_consensus_reason = reason\<rparr>"

definition push_round ::
  "'w coordinator_env \<Rightarrow> MutualSupervisionCoordinator \<Rightarrow> negotiation \<Rightarrow> NegotiationRound
   \<Rightarrow> ('w, negotiation) prog" where
  "push_round env c g r =
     pbind (record_event env c ''negotiation_rounds'' (EvRound r)) (\<lambda>_.
     preturn (g\<lparr>ng_rounds := ng_rounds g @ [r]\<rparr>))"

definition proposal_decision ::
  "MutualSupervisionCoordinator \<Rightarrow> string \<Rightarrow> int \<Rightarrow> string \<Rightarrow> Diagnosis \<Rightarrow> EvidenceSnapshot
   \<Rightarrow> RecoveryActionCandidate list \<Rightarrow> RecoveryAction \<Rightarrow> string \<Rightarrow> SupervisionDecision" where
  "proposal_decision c run_id round_index agent diagnosis evidence candidates action decision_id =
     \<lparr>sd_decision_id = decision_id, sd_run_id = run_id, sd_round_index = round_index,
      sd_agent = agent, sd_decision_type = ''recovery_action_proposal'',
      sd_proposed_action = Some action, sd_approved = True, sd_reason = ra_reason action,
      sd_confidence = candidate_confidence candidates action,
      sd_evidence_refs = evidence_refs evidence (dg_cause diagnosis),
      sd_reward = candidate_reward candidates action,
      sd_policy_version = pf_version (mc_protocol c)\<rparr>"

text \<open>The revision of an approved round, with the semantic check of the revised action.\<close>

definition revise_action ::
  "MutualSupervisionCoordinator \<Rightarrow> EvidenceSnapshot \<Rightarrow> RecoveryAction \<Rightarrow> PeerReview list
   \<Rightarrow> (exn, RecoveryAction \<times> string list) result" where
  "revise_action c evidence action revisions =
     rbind (apply_revisions action revisions) (\<lambda>(revised, notes).
     let err = action_semantic_error revised (mc_protocol c) evidence (ev_namespace evidence)
                 (ev_deployment evidence)
     in if err \<noteq> '''' then Inl (AdapterOutputError (''revised action rejected: '' @ err))
        else Inr (revised, notes))"

datatype round_result = Rejected | Revised RecoveryAction | Approved

definition conclude_round ::
  "'w coordinator_env \<Rightarrow> MutualSupervisionCoordinator \<Rightarrow> string \<Rightarrow> int \<Rightarrow> EvidenceSnapshot
   \<Rightarrow> RecoveryAction \<Rightarrow> SupervisionDecision \<Rightarrow> PeerReview list \<Rightarrow> ConsensusOutcome \<Rightarrow> negotiation
   \<Rightarrow> ('w, round_result \<times> negotiation) prog" where
  "conclude_round env c run_id round_index evidence action decision reviews outcome g =
     (let round_of = make_round run_id round_index decision reviews action outcome in
      if \<not> co_approved outcome then
        pbind (push_round env c g (round_of [] ''rejected'' None (co_reason outcome))) (\<lambda>g'.
        preturn (Rejected, g'))
      else if co_revisions outcome \<noteq> [] then
        (case revise_action c evidence action (co_revisions outcome) of
           Inl e \<Rightarrow>
             pbind (push_round env c g
               (round_of [''rejected:'' @ exn_str e] ''revision_rejected'' None (exn_str e))) (\<lambda>g'.
             pthrow (negotiation_failure (exn_str e) g'))
         | Inr (revised, notes) \<Rightarrow>
             pbind (push_round env c g
               (round_of notes ''revision_required'' None (co_reason outcome))) (\<lambda>g'.
             preturn (Revised revised, g')))
      else
        pbind (new_trace_id env ''action'') (\<lambda>action_id.
        pbind (push_round env c g
          (round_of [] ''approved'' (Some action_id) (co_reason outcome))) (\<lambda>g'.
        preturn (Approved, g'))))"

text \<open>\<open>except ReviewCollectionFailure\<close>; any other exception passes through.\<close>

definition review_failure :: "negotiation \<Rightarrow> exn \<Rightarrow> exn" where
  "review_failure g e = (case e of
       ReviewCollectionFailure m partial \<Rightarrow>
         negotiation_failure m (g\<lparr>ng_reviews := ng_reviews g @ partial\<rparr>)
     | _ \<Rightarrow> e)"

definition negotiate_round ::
  "'w coordinator_env \<Rightarrow> MutualSupervisionCoordinator \<Rightarrow> string \<Rightarrow> Diagnosis \<Rightarrow> EvidenceSnapshot
   \<Rightarrow> RecoveryActionCandidate list \<Rightarrow> string \<Rightarrow> int \<Rightarrow> RecoveryAction \<Rightarrow> negotiation
   \<Rightarrow> ('w, round_result \<times> negotiation) prog" where
  "negotiate_round env c run_id diagnosis evidence candidates agent round_index action g =
     pbind (new_trace_id env ''decision'') (\<lambda>decision_id.
     let decision = proposal_decision c run_id round_index agent diagnosis evidence candidates
           action decision_id;
         g1 = g\<lparr>ng_decisions := ng_decisions g @ [decision]\<rparr>
     in pbind (record_event env c ''initial_decisions'' (EvDecision decision)) (\<lambda>_.
        pbind (ptry (review_application_action env c run_id round_index decision diagnosis evidence)
          (\<lambda>e. pthrow (review_failure g1 e))) (\<lambda>reviews.
        pbind (plift (consensus_resolve (ce_sha256 env) reviews (mc_protocol c)
          (Scopes (decision_scopes action)))) (\<lambda>outcome.
        conclude_round env c run_id round_index evidence action decision reviews outcome
          (g1\<lparr>ng_reviews := ng_reviews g1 @ reviews\<rparr>)))))"

text \<open>\<open>for local_round in range(1, max_negotiation_rounds + 1)\<close>, over the rounds left.\<close>

fun negotiate_rounds ::
  "'w coordinator_env \<Rightarrow> MutualSupervisionCoordinator \<Rightarrow> string \<Rightarrow> Diagnosis \<Rightarrow> EvidenceSnapshot
   \<Rightarrow> RecoveryActionCandidate list \<Rightarrow> string \<Rightarrow> nat \<Rightarrow> int \<Rightarrow> RecoveryAction \<Rightarrow> negotiation
   \<Rightarrow> ('w, RecoveryAction option \<times> negotiation) prog" where
  "negotiate_rounds env c run_id diagnosis evidence candidates agent 0 round_index action g =
     preturn (None, g)"
| "negotiate_rounds env c run_id diagnosis evidence candidates agent (Suc left) round_index action g =
     pbind (negotiate_round env c run_id diagnosis evidence candidates agent round_index action g)
       (\<lambda>(result, g'). case result of
          Rejected \<Rightarrow> preturn (None, g')
        | Approved \<Rightarrow> preturn (Some action, g')
        | Revised revised \<Rightarrow> negotiate_rounds env c run_id diagnosis evidence candidates agent left
            (round_index + 1) revised g')"

definition empty_negotiation :: negotiation where
  "empty_negotiation = \<lparr>ng_decisions = [], ng_reviews = [], ng_rounds = []\<rparr>"

definition negotiate ::
  "'w coordinator_env \<Rightarrow> MutualSupervisionCoordinator \<Rightarrow> string \<Rightarrow> Diagnosis \<Rightarrow> EvidenceSnapshot
   \<Rightarrow> RecoveryActionCandidate list \<Rightarrow> int \<Rightarrow> ('w, RecoveryAction option \<times> negotiation) prog" where
  "negotiate env c run_id diagnosis evidence candidates round_offset =
     (case candidates of
        [] \<Rightarrow> preturn (None, empty_negotiation)
      | candidate # _ \<Rightarrow>
          pbind (plift (single_adapter_for c ''propose'')) (\<lambda>proposer.
          negotiate_rounds env c run_id diagnosis evidence candidates (ad_name proposer)
            (nat (pf_max_negotiation_rounds (mc_protocol c))) (round_offset + 1)
            (rc_action candidate) empty_negotiation))"

section \<open>Reviews after the execution\<close>

definition ask_post_reviewer ::
  "'w coordinator_env \<Rightarrow> MutualSupervisionCoordinator \<Rightarrow> string \<Rightarrow> string \<Rightarrow> RecoveryAction
   \<Rightarrow> EvidenceSnapshot \<Rightarrow> RecoveryAssessment \<Rightarrow> AgentAdapter \<Rightarrow> ('w, PostExecutionReview option) prog" where
  "ask_post_reviewer env c run_id action_id action after assessment adapter =
     pbind (pcall (ce_post_review env (ad_name adapter) action assessment after)) (\<lambda>v.
     if v = VNone then preturn None
     else pbind (plift (check_post_review (ad_name adapter) run_id action_id
            (pf_version (mc_protocol c)) v)) (\<lambda>r.
          pbind (new_trace_id env ''post-review'') (\<lambda>review_id.
          preturn (Some (r\<lparr>po_review_id := review_id\<rparr>)))))"

fun post_execution_reviews ::
  "'w coordinator_env \<Rightarrow> MutualSupervisionCoordinator \<Rightarrow> string \<Rightarrow> string \<Rightarrow> RecoveryAction
   \<Rightarrow> EvidenceSnapshot \<Rightarrow> RecoveryAssessment \<Rightarrow> AgentAdapter list \<Rightarrow> PostExecutionReview list
   \<Rightarrow> ('w, PostExecutionReview list) prog" where
  "post_execution_reviews env c run_id action_id action after assessment [] reviews = preturn reviews"
| "post_execution_reviews env c run_id action_id action after assessment (adapter # rest) reviews =
     (if \<not> has_capability ''post_review'' adapter then
        post_execution_reviews env c run_id action_id action after assessment rest reviews
      else
        pbind (ptry (ask_post_reviewer env c run_id action_id action after assessment adapter)
          (\<lambda>e. pthrow (PostReviewFailure
             (ad_name adapter @ '' post_review failed: '' @ exn_str e) reviews))) (\<lambda>answer.
        case answer of
          None \<Rightarrow> post_execution_reviews env c run_id action_id action after assessment rest reviews
        | Some r \<Rightarrow>
            pbind (record_event env c ''post_execution_reviews'' (EvPostReview r)) (\<lambda>_.
            post_execution_reviews env c run_id action_id action after assessment rest
              (reviews @ [r]))))"

section \<open>Negotiation only records\<close>

text \<open>Nothing in a negotiation reaches the cluster: its only effects are event records.\<close>

definition recording :: "effect \<Rightarrow> bool" where
  "recording e = (case e of Recorded stream ev \<Rightarrow> True | _ \<Rightarrow> False)"

lemma recording_Recorded [simp]: "recording (Recorded s e)"
  by (simp add: recording_def)

lemma record_event_recording [prog_rules]: "emits recording (record_event env c stream ev)"
  unfolding record_event_def protocol_check_def by (intro prog_rules recording_Recorded)

lemma check_runtime_recording [prog_rules]: "emits recording (check_runtime_control env c)"
  unfolding check_runtime_control_def by (intro prog_rules)

lemma new_trace_id_recording [prog_rules]: "emits recording (new_trace_id env prefix)"
  unfolding new_trace_id_def Let_def by (intro prog_rules)

lemma ask_reviewer_recording [prog_rules]:
  "emits recording (ask_reviewer env c run_id i d diagnosis evidence adapter)"
  unfolding ask_reviewer_def Let_def by (intro prog_rules)

lemma collect_reviews_recording [prog_rules]:
  "emits recording (collect_reviews env c run_id i d diagnosis evidence rs reviews)"
  by (induction rs arbitrary: reviews)
    (auto intro!: prog_rules simp del: recording_def split: option.split)

lemma push_round_recording [prog_rules]: "emits recording (push_round env c g r)"
  unfolding push_round_def by (intro prog_rules)

lemma review_action_recording [prog_rules]:
  "emits recording (review_application_action env c run_id i d diagnosis evidence)"
  unfolding review_application_action_def by (intro prog_rules)

lemma conclude_round_recording [prog_rules]:
  "emits recording (conclude_round env c run_id i evidence action d reviews outcome g)"
  unfolding conclude_round_def Let_def by (intro prog_rules)

lemma negotiate_round_recording [prog_rules]:
  "emits recording (negotiate_round env c run_id diagnosis evidence cs agent i action g)"
  unfolding negotiate_round_def Let_def by (intro prog_rules)

lemma negotiate_rounds_recording [prog_rules]:
  "emits recording (negotiate_rounds env c run_id diagnosis evidence cs agent left i action g)"
  by (induction left arbitrary: i action g)
    (auto intro!: prog_rules split: round_result.split)

lemma negotiate_recording [prog_rules]:
  "emits recording (negotiate env c run_id diagnosis evidence cs offset)"
  unfolding negotiate_def by (cases cs) (auto intro!: prog_rules)

lemma post_reviews_recording [prog_rules]:
  "emits recording (post_execution_reviews env c run_id aid action after assessment adapters reviews)"
  by (induction adapters arbitrary: reviews)
    (auto simp: ask_post_reviewer_def intro!: prog_rules split: option.split)

section \<open>What a negotiation guarantees\<close>

text \<open>A review that answers a decision, from an adapter the coordinator has for that reviewer.\<close>

definition review_for ::
  "MutualSupervisionCoordinator \<Rightarrow> string list \<Rightarrow> SupervisionDecision \<Rightarrow> PeerReview \<Rightarrow> bool" where
  "review_for c reviewers d r \<longleftrightarrow>
     (\<exists>reviewer \<in> set reviewers. \<exists>adapter. dict_get (mc_adapters c) reviewer = Some adapter \<and>
        has_capability ''review'' adapter \<and> pr_reviewer r = ad_name adapter) \<and>
     pr_target_agent r = sd_agent d \<and> pr_target_decision_id r = sd_decision_id d \<and>
     pr_run_id r = sd_run_id d \<and> pr_round_index r = sd_round_index d \<and>
     pr_policy_version r = pf_version (mc_protocol c)"

lemma check_peer_review_Inr:
  assumes "check_peer_review name d run_id i version v = Inr r"
  shows "pr_reviewer r = name \<and> pr_target_agent r = sd_agent d \<and>
    pr_target_decision_id r = sd_decision_id d \<and> pr_run_id r = run_id \<and> pr_round_index r = i \<and>
    pr_policy_version r = version"
  using assms by (cases v) auto

lemma ask_reviewer_Inr:
  assumes "ask_reviewer env c run_id i d diagnosis evidence adapter s = (Inr (Some r), s')"
  shows "pr_reviewer r = ad_name adapter \<and> pr_target_agent r = sd_agent d \<and>
    pr_target_decision_id r = sd_decision_id d \<and> pr_run_id r = run_id \<and> pr_round_index r = i \<and>
    pr_policy_version r = pf_version (mc_protocol c)"
  using assms by (auto simp: ask_reviewer_def Let_def pbind_Inr split: if_splits dest: check_peer_review_Inr)

lemma collect_reviews_Inr:
  assumes "collect_reviews env c (sd_run_id d) (sd_round_index d) d diagnosis evidence rs reviews s = (Inr out, s')"
  shows "\<exists>new. out = reviews @ new \<and> (\<forall>r \<in> set new. review_for c rs d r)"
  using assms
proof (induction rs arbitrary: reviews s)
  case (Cons reviewer rest)
  have weaken: "review_for c rest d r \<Longrightarrow> review_for c (reviewer # rest) d r" for r
    by (auto simp: review_for_def)
  have skip: "\<exists>new. out = reviews @ new \<and> (\<forall>r \<in> set new. review_for c (reviewer # rest) d r)"
    if "collect_reviews env c (sd_run_id d) (sd_round_index d) d diagnosis evidence rest reviews s1 = (Inr out, s')" for s1
    using Cons.IH[OF that] weaken by blast
  show ?case
  proof (cases "dict_get (mc_adapters c) reviewer")
    case None
    with Cons.prems skip show ?thesis by auto
  next
    case (Some adapter)
    show ?thesis
    proof (cases "has_capability ''review'' adapter")
      case False
      with Some Cons.prems skip show ?thesis by auto
    next
      case True
      with Some Cons.prems obtain answer s1 where
        asked: "ask_reviewer env c (sd_run_id d) (sd_round_index d) d diagnosis evidence adapter s = (Inr answer, s1)" and
        rest: "(case answer of
              None \<Rightarrow> collect_reviews env c (sd_run_id d) (sd_round_index d) d diagnosis evidence rest reviews
            | Some r \<Rightarrow>
                pbind (record_event env c ''peer_reviews'' (EvPeerReview r)) (\<lambda>_.
                collect_reviews env c (sd_run_id d) (sd_round_index d) d diagnosis evidence rest
                  (reviews @ [r]))) s1 = (Inr out, s')"
        by (auto simp: pbind_Inr ptry_Inr)
      show ?thesis
      proof (cases answer)
        case None
        with rest skip show ?thesis by auto
      next
        case (Some r)
        with rest obtain s2 where
          "collect_reviews env c (sd_run_id d) (sd_round_index d) d diagnosis evidence rest (reviews @ [r]) s2 = (Inr out, s')"
          by (auto simp: pbind_Inr)
        from Cons.IH[OF this] obtain new where
          new: "out = reviews @ r # new" "\<forall>x \<in> set new. review_for c rest d x" by auto
        have "review_for c (reviewer # rest) d r"
          using ask_reviewer_Inr[of env c _ _ d] asked Some True \<open>dict_get (mc_adapters c) reviewer = Some adapter\<close>
          by (auto simp: review_for_def)
        with new weaken show ?thesis by (intro exI[of _ "r # new"]) auto
      qed
    qed
  qed
qed simp

definition matrix_reviewers :: "MutualSupervisionCoordinator \<Rightarrow> string \<Rightarrow> string list" where
  "matrix_reviewers c agent =
     (case dict_get (pf_review_matrix (mc_protocol c)) agent of None \<Rightarrow> [] | Some rs \<Rightarrow> rs)"

lemma review_action_Inr:
  assumes "review_application_action env c (sd_run_id d) (sd_round_index d) d diagnosis evidence s = (Inr out, s')"
  shows "\<forall>r \<in> set out. review_for c (matrix_reviewers c (sd_agent d)) d r"
  using assms
  by (auto simp: review_application_action_def matrix_reviewers_def split: if_splits
      dest!: collect_reviews_Inr)

text \<open>The facts about one finished round.\<close>

definition round_done ::
  "'w coordinator_env \<Rightarrow> MutualSupervisionCoordinator \<Rightarrow> EvidenceSnapshot \<Rightarrow> string \<Rightarrow> RecoveryAction
   \<Rightarrow> negotiation \<Rightarrow> round_result \<Rightarrow> negotiation \<Rightarrow> bool" where
  "round_done env c evidence agent action g result g' \<longleftrightarrow> (\<exists>d reviews outcome r.
     g' = g\<lparr>ng_decisions := ng_decisions g @ [d], ng_reviews := ng_reviews g @ reviews,
            ng_rounds := ng_rounds g @ [r]\<rparr> \<and>
     sd_agent d = agent \<and> sd_proposed_action d = Some action \<and>
     (\<forall>x \<in> set reviews. review_for c (matrix_reviewers c agent) d x) \<and>
     consensus_resolve (ce_sha256 env) reviews (mc_protocol c) (Scopes (decision_scopes action)) = Inr outcome \<and>
     nr_input_decision_ids r = [sd_decision_id d] \<and> nr_review_ids r = map pr_review_id reviews \<and>
     (case result of
        Rejected \<Rightarrow> \<not> co_approved outcome \<and> nr_consensus_status r = ''rejected'' \<and> nr_selected_action_id r = None
      | Revised a \<Rightarrow> co_approved outcome \<and> nr_consensus_status r = ''revision_required'' \<and>
          nr_selected_action_id r = None \<and>
          (\<exists>notes. revise_action c evidence action (co_revisions outcome) = Inr (a, notes))
      | Approved \<Rightarrow> co_approved outcome \<and> co_revisions outcome = [] \<and>
          nr_consensus_status r = ''approved'' \<and> nr_selected_action_id r \<noteq> None))"

lemma push_round_Inr:
  "push_round env c g r s = (Inr g', s') \<Longrightarrow> g' = g\<lparr>ng_rounds := ng_rounds g @ [r]\<rparr>"
  by (auto simp: push_round_def pbind_Inr)

lemma conclude_round_Inr:
  assumes "conclude_round env c run_id i evidence action d reviews outcome g s = (Inr (result, g'), s')"
  shows "\<exists>r. g' = g\<lparr>ng_rounds := ng_rounds g @ [r]\<rparr> \<and>
     nr_input_decision_ids r = [sd_decision_id d] \<and> nr_review_ids r = map pr_review_id reviews \<and>
     (case result of
        Rejected \<Rightarrow> \<not> co_approved outcome \<and> nr_consensus_status r = ''rejected'' \<and> nr_selected_action_id r = None
      | Revised a \<Rightarrow> co_approved outcome \<and> nr_consensus_status r = ''revision_required'' \<and>
          nr_selected_action_id r = None \<and>
          (\<exists>notes. revise_action c evidence action (co_revisions outcome) = Inr (a, notes))
      | Approved \<Rightarrow> co_approved outcome \<and> co_revisions outcome = [] \<and>
          nr_consensus_status r = ''approved'' \<and> nr_selected_action_id r \<noteq> None)"
proof (cases "co_approved outcome")
  case False
  then show ?thesis using assms
    by (intro exI[of _ "make_round run_id i d reviews action outcome [] ''rejected'' None (co_reason outcome)"])
      (auto simp: conclude_round_def Let_def pbind_Inr make_round_def dest!: push_round_Inr)
next
  case approved: True
  show ?thesis
  proof (cases "co_revisions outcome = []")
    case True
    with approved assms obtain aid where
      "g' = g\<lparr>ng_rounds := ng_rounds g @ [make_round run_id i d reviews action outcome [] ''approved''
         (Some aid) (co_reason outcome)]\<rparr>" "result = Approved"
      by (auto simp: conclude_round_def Let_def pbind_Inr dest!: push_round_Inr)
    with approved True show ?thesis
      by (intro exI[of _ "make_round run_id i d reviews action outcome [] ''approved'' (Some aid) (co_reason outcome)"])
        (auto simp: make_round_def)
  next
    case False
    with approved assms obtain a ns where
      "g' = g\<lparr>ng_rounds := ng_rounds g @ [make_round run_id i d reviews action outcome ns
         ''revision_required'' None (co_reason outcome)]\<rparr>" "result = Revised a"
      "revise_action c evidence action (co_revisions outcome) = Inr (a, ns)"
      by (auto simp: conclude_round_def Let_def pbind_Inr split: sum.splits dest!: push_round_Inr)
    with approved show ?thesis
      by (intro exI[of _ "make_round run_id i d reviews action outcome ns ''revision_required'' None (co_reason outcome)"])
        (auto simp: make_round_def)
  qed
qed

lemma negotiate_round_done:
  assumes "negotiate_round env c run_id diagnosis evidence cs agent i action g s = (Inr (result, g'), s')"
  shows "round_done env c evidence agent action g result g'"
proof -
  from assms obtain did s1 s2 reviews s3 outcome where
    d: "review_application_action env c run_id i
          (proposal_decision c run_id i agent diagnosis evidence cs action did) diagnosis evidence s2
          = (Inr reviews, s3)" and
    out: "consensus_resolve (ce_sha256 env) reviews (mc_protocol c) (Scopes (decision_scopes action)) = Inr outcome" and
    fin: "conclude_round env c run_id i evidence action
          (proposal_decision c run_id i agent diagnosis evidence cs action did) reviews outcome
          (g\<lparr>ng_decisions := ng_decisions g @ [proposal_decision c run_id i agent diagnosis evidence cs action did],
             ng_reviews := ng_reviews g @ reviews\<rparr>) s3 = (Inr (result, g'), s')"
    unfolding negotiate_round_def Let_def pbind_Inr ptry_Inr by auto
  let ?d = "proposal_decision c run_id i agent diagnosis evidence cs action did"
  have id: "sd_run_id ?d = run_id" "sd_round_index ?d = i" "sd_agent ?d = agent"
    "sd_proposed_action ?d = Some action" by (simp_all add: proposal_decision_def)
  have "\<forall>x \<in> set reviews. review_for c (matrix_reviewers c agent) ?d x"
    using review_action_Inr[of env c ?d] d id by auto
  with conclude_round_Inr[OF fin] out id show ?thesis
    unfolding round_done_def
    by (intro exI[of _ ?d] exI[of _ reviews] exI[of _ outcome]) auto
qed

text \<open>
  The abstract negotiation: a chain of finished rounds, each on the action the previous one
  revised, that ends with a rejection, an approval or the round limit.
\<close>

inductive negotiates ::
  "'w coordinator_env \<Rightarrow> MutualSupervisionCoordinator \<Rightarrow> EvidenceSnapshot \<Rightarrow> string \<Rightarrow> nat
   \<Rightarrow> RecoveryAction \<Rightarrow> negotiation \<Rightarrow> RecoveryAction option \<Rightarrow> negotiation \<Rightarrow> bool"
  for env c evidence agent where
  exhausted: "negotiates env c evidence agent 0 a g None g"
| rejected: "round_done env c evidence agent a g Rejected g' \<Longrightarrow>
    negotiates env c evidence agent (Suc n) a g None g'"
| approved: "round_done env c evidence agent a g Approved g' \<Longrightarrow>
    negotiates env c evidence agent (Suc n) a g (Some a) g'"
| revised: "round_done env c evidence agent a g (Revised b) g' \<Longrightarrow>
    negotiates env c evidence agent n b g' result g'' \<Longrightarrow>
    negotiates env c evidence agent (Suc n) a g result g''"

inductive_cases negotiates_SucE: "negotiates env c evidence agent (Suc n) a g result g'"

text \<open>The code refines the chain.\<close>

lemma negotiate_rounds_refines:
  "negotiate_rounds env c run_id diagnosis evidence cs agent left i action g s = (Inr (result, g'), s') \<Longrightarrow>
   negotiates env c evidence agent left action g result g'"
proof (induction left arbitrary: i action g s)
  case 0
  then show ?case by (simp add: negotiates.exhausted)
next
  case (Suc left)
  then obtain r g1 s1 where
    one: "negotiate_round env c run_id diagnosis evidence cs agent i action g s = (Inr (r, g1), s1)" and
    rest: "(case r of Rejected \<Rightarrow> preturn (None, g1) | Approved \<Rightarrow> preturn (Some action, g1)
      | Revised b \<Rightarrow> negotiate_rounds env c run_id diagnosis evidence cs agent left (i + 1) b g1) s1
        = (Inr (result, g'), s')"
    by (auto simp: pbind_Inr)
  note finished = negotiate_round_done[OF one]
  show ?case
  proof (cases r)
    case Rejected
    with rest finished show ?thesis by (auto intro: negotiates.rejected)
  next
    case (Revised b)
    with rest finished Suc.IH show ?thesis by (auto intro: negotiates.revised)
  next
    case Approved
    with rest finished show ?thesis by (auto intro: negotiates.approved)
  qed
qed

definition approved_by ::
  "'w coordinator_env \<Rightarrow> MutualSupervisionCoordinator \<Rightarrow> RecoveryAction \<Rightarrow> negotiation \<Rightarrow> bool" where
  "approved_by env c a g \<longleftrightarrow> ng_decisions g \<noteq> [] \<and> ng_rounds g \<noteq> [] \<and>
     (let d = last (ng_decisions g); r = last (ng_rounds g) in
      sd_proposed_action d = Some a \<and> nr_input_decision_ids r = [sd_decision_id d] \<and>
      nr_consensus_status r = ''approved'' \<and> nr_selected_action_id r \<noteq> None \<and>
      (\<exists>before reviews outcome. ng_reviews g = before @ reviews \<and>
         nr_review_ids r = map pr_review_id reviews \<and>
         (\<forall>x \<in> set reviews. review_for c (matrix_reviewers c (sd_agent d)) d x) \<and>
         consensus_resolve (ce_sha256 env) reviews (mc_protocol c) (Scopes (decision_scopes a)) = Inr outcome \<and>
         co_approved outcome \<and> co_revisions outcome = []))"

lemma round_done_approved: "round_done env c evidence agent a g Approved g' \<Longrightarrow> approved_by env c a g'"
  unfolding round_done_def approved_by_def Let_def by fastforce

lemma round_done_rounds:
  "round_done env c evidence agent a g result g' \<Longrightarrow>
   \<exists>r. ng_rounds g' = ng_rounds g @ [r] \<and> (result \<noteq> Approved \<longrightarrow> nr_selected_action_id r = None)"
  by (cases result) (auto simp: round_done_def)

lemma apply_revisions_kind:
  assumes "apply_revisions action reviews = Inr (b, ns)"
  shows "ra_kind b = ra_kind action"
proof -
  let ?s = "List.map_filter pr_suggested_action reviews"
  consider "?s = []" | x xs where "?s = x # xs" by (cases ?s) auto
  then show ?thesis
  proof cases
    case (2 x xs)
    show ?thesis
    proof (cases "filter (\<lambda>s. ra_kind s \<noteq> ra_kind action) ?s")
      case Nil
      then have "ra_kind x = ra_kind action" using 2 by (auto split: if_splits)
      with assms 2 Nil show ?thesis
        by (auto simp: apply_revisions_def Let_def split: if_splits)
    qed (use assms 2 in \<open>simp add: apply_revisions_def Let_def\<close>)
  qed (use assms in \<open>simp add: apply_revisions_def Let_def\<close>)
qed

lemma revise_action_keeps:
  assumes "revise_action c evidence action revs = Inr (b, ns)"
  shows "ra_kind b = ra_kind action \<and>
    action_semantic_error b (mc_protocol c) evidence (ev_namespace evidence) (ev_deployment evidence) = ''''"
  using assms by (auto simp: revise_action_def Let_def dest: apply_revisions_kind split: if_splits)

definition action_follows ::
  "MutualSupervisionCoordinator \<Rightarrow> EvidenceSnapshot \<Rightarrow> RecoveryAction \<Rightarrow> RecoveryAction \<Rightarrow> bool" where
  "action_follows c evidence a b \<longleftrightarrow> b = a \<or> ra_kind b = ra_kind a \<and>
     action_semantic_error b (mc_protocol c) evidence (ev_namespace evidence) (ev_deployment evidence) = ''''"

lemma negotiates_sound:
  assumes "negotiates env c evidence agent n a g result g'"
  shows "\<exists>new. ng_rounds g' = ng_rounds g @ new \<and> length new \<le> n \<and>
    (case result of None \<Rightarrow> \<forall>r \<in> set new. nr_selected_action_id r = None
     | Some b \<Rightarrow> approved_by env c b g' \<and> action_follows c evidence a b \<and>
         (\<forall>r \<in> set (butlast new). nr_selected_action_id r = None))"
  using assms
proof (induction rule: negotiates.induct)
  case (exhausted a g)
  then show ?case by auto
next
  case (rejected a g g' n)
  with round_done_rounds[OF rejected] show ?case by auto
next
  case (approved a g g' n)
  with round_done_rounds[OF approved] round_done_approved[OF approved] show ?case
    by (auto simp: action_follows_def)
next
  case (revised a g b g1 n result g2)
  from round_done_rounds[OF revised.hyps(1)] obtain r where
    r: "ng_rounds g1 = ng_rounds g @ [r]" "nr_selected_action_id r = None" by auto
  from revised.hyps(1) obtain revs ns where "revise_action c evidence a revs = Inr (b, ns)"
    by (auto simp: round_done_def)
  from revise_action_keeps[OF this] have b: "action_follows c evidence b x \<Longrightarrow> action_follows c evidence a x" for x
    by (auto simp: action_follows_def)
  from revised.IH obtain new where
    new: "ng_rounds g2 = ng_rounds g1 @ new" "length new \<le> n"
    "case result of None \<Rightarrow> \<forall>r \<in> set new. nr_selected_action_id r = None
     | Some b' \<Rightarrow> approved_by env c b' g2 \<and> action_follows c evidence b b' \<and>
         (\<forall>r \<in> set (butlast new). nr_selected_action_id r = None)" by blast
  show ?case
    by (intro exI[of _ "r # new"]) (use r b new in \<open>auto split: option.splits if_splits\<close>)
qed

text \<open>
  C4. A negotiation is bounded and its verdict is earned: it uses at most the protocol's number of
  rounds, and it selects an action only if the last round's decision proposes exactly that action
  and the consensus rule, applied to the reviews of that round (each from an active reviewer the
  matrix assigns to the proposer, for this decision), approves it with no revision pending. The
  action is the candidate or a revision of it of the same kind that passed the semantic check.
  Otherwise no round carries a selected action.
\<close>

theorem negotiate_sound:
  assumes "negotiate env c run_id diagnosis evidence (candidate # cs) offset s = (Inr (result, g), s')"
  shows "length (ng_rounds g) \<le> nat (pf_max_negotiation_rounds (mc_protocol c)) \<and>
    (case result of None \<Rightarrow> \<forall>r \<in> set (ng_rounds g). nr_selected_action_id r = None
     | Some a \<Rightarrow> approved_by env c a g \<and> action_follows c evidence (rc_action candidate) a)"
proof -
  from assms obtain proposer :: AgentAdapter where
    "negotiate_rounds env c run_id diagnosis evidence (candidate # cs) (ad_name proposer)
       (nat (pf_max_negotiation_rounds (mc_protocol c))) (offset + 1) (rc_action candidate)
       empty_negotiation s = (Inr (result, g), s')"
    by (auto simp: negotiate_def pbind_Inr)
  from negotiates_sound[OF negotiate_rounds_refines[OF this]] show ?thesis
    by (auto simp: empty_negotiation_def split: option.splits)
qed

text \<open>
  Negotiating never touches the cluster: whatever the adapters answer and however it ends, a
  negotiation only adds event records to the trace.
\<close>

theorem negotiate_only_records:
  "\<exists>new. sys_trace (snd (negotiate env c run_id diagnosis evidence cs offset s)) = new @ sys_trace s \<and>
     list_all (\<lambda>e. \<exists>stream ev. e = Recorded stream ev) new"
proof -
  from negotiate_recording[of env c run_id diagnosis evidence cs offset]
  obtain new where "sys_trace (snd (negotiate env c run_id diagnosis evidence cs offset s)) = new @ sys_trace s"
    "\<forall>e \<in> set new. recording e" unfolding emits_def by blast
  moreover have "recording e \<Longrightarrow> \<exists>stream ev. e = Recorded stream ev" for e
    by (cases e) (auto simp: recording_def)
  ultimately show ?thesis unfolding list_all_iff by blast
qed

section \<open>A worked negotiation\<close>

definition demo_adapter :: "string \<Rightarrow> string list \<Rightarrow> AgentAdapter" where
  "demo_adapter name caps = \<lparr>ad_name = name, ad_runtime = ''deterministic'', ad_capabilities = caps\<rparr>"

definition demo_coordinator :: MutualSupervisionCoordinator where
  "demo_coordinator =
     \<lparr>mc_validator = demo_validator, mc_mode = REAL, mc_backend = PYTHON, mc_has_event_store = True,
      mc_defer_finalization = False, mc_has_runtime_control = True, mc_lock_owned_externally = False, mc_protocol = demo_profile,
      mc_adapters = [(''ha'', demo_adapter ''ha'' [''diagnose'', ''propose'', ''post_review'']),
                     (''cost'', demo_adapter ''cost'' [''review''])]\<rparr>"

definition demo_diagnosis :: Diagnosis where
  "demo_diagnosis = \<lparr>dg_service = VStr ''web'', dg_cause = ''load'', dg_severity = ''high'',
     dg_confidence = VInt 1, dg_evidence = []\<rparr>"

definition demo_command_result :: CommandResult where
  "demo_command_result = \<lparr>cr_command = '''', cr_mode = ''real'', cr_valid = True,
     cr_stdout = ''scaled'', cr_stderr = '''', cr_metadata = []\<rparr>"

text \<open>
  An environment whose reviewer has nothing to say, whose proposer wants one replica and whose
  deployment has none.
\<close>

definition demo_env :: "'w coordinator_env" where
  "demo_env =
     \<lparr>ce_executor = demo_guard_env, ce_sha256 = demo_sha256, ce_uuid = (\<lambda>w. (''0'', w)),
      ce_runtime_check = (\<lambda>w. (Inr (), w)), ce_begin_run = (\<lambda>n r w. (Inr (), w)),
      ce_collect = (\<lambda>n d w. (Inr (demo_snapshot 0 0), w)),
      ce_diagnose = (\<lambda>n e m t w. (Inr (VTuple
        [VDiagnosis (VStr ''web'') (VStr ''load'') (VStr ''high'') (VFloat (FFin 1)) (VDict []),
         VSupervisionDecision VNone VNone VNone (VStr ''ha'') (VStr ''diagnosis'') VNone
           (VBool True) (VStr ''down'') (VFloat (FFin 1)) VNone (VFloat (FFin 0)) VNone]), w)),
      ce_propose = (\<lambda>n d e w. (Inr (VList [VRecoveryAction (VStr ''shop'') (VStr ''web'')
        (VKind SCALE_OUT) (VInt 1) (VStr ''load'')]), w)),
      ce_review = (\<lambda>n d e x w. (Inr VNone, w)),
      ce_post_review = (\<lambda>n a q e w. (Inr VNone, w)),
      ce_assess = (\<lambda>a b e r w. (Inr demo_assessment, w)),
      ce_finalize = (\<lambda>r w. (Inr (), w)), ce_append = (\<lambda>s e w. (Inr (), w)),
      ce_lock_enter = (\<lambda>n d w. (Inr (), w)), ce_lock_exit = (\<lambda>n d w. (Inr (), w))\<rparr>"

definition demo_candidate :: RecoveryActionCandidate where
  "demo_candidate = \<lparr>rc_action = demo_scale, rc_reason = ''load'', rc_expected_effect = ''load'',
     rc_risk_level = ''bounded'', rc_estimated_cost = FFin 0, rc_confidence = VInt 1,
     rc_priority = FFin 1\<rparr>"

lemma demo_env_fields [simp]:
  "ce_executor demo_env = demo_guard_env" "ce_sha256 demo_env = demo_sha256"
  "ce_uuid demo_env = (\<lambda>w. (''0'', w))" "ce_runtime_check demo_env = (\<lambda>w. (Inr (), w))"
  "ce_begin_run demo_env = (\<lambda>n r w. (Inr (), w))"
  "ce_collect demo_env = (\<lambda>n d w. (Inr (demo_snapshot 0 0), w))"
  "ce_diagnose demo_env = (\<lambda>n e m t w. (Inr (VTuple
     [VDiagnosis (VStr ''web'') (VStr ''load'') (VStr ''high'') (VFloat (FFin 1)) (VDict []),
      VSupervisionDecision VNone VNone VNone (VStr ''ha'') (VStr ''diagnosis'') VNone
        (VBool True) (VStr ''down'') (VFloat (FFin 1)) VNone (VFloat (FFin 0)) VNone]), w))"
  "ce_propose demo_env = (\<lambda>n d e w. (Inr (VList [VRecoveryAction (VStr ''shop'') (VStr ''web'')
     (VKind SCALE_OUT) (VInt 1) (VStr ''load'')]), w))"
  "ce_review demo_env = (\<lambda>n d e x w. (Inr VNone, w))"
  "ce_post_review demo_env = (\<lambda>n a q e w. (Inr VNone, w))"
  "ce_assess demo_env = (\<lambda>a b e r w. (Inr demo_assessment, w))"
  "ce_append demo_env = (\<lambda>s e w. (Inr (), w))" "ce_finalize demo_env = (\<lambda>r w. (Inr (), w))"
  "ce_lock_enter demo_env = (\<lambda>n d w. (Inr (), w))" "ce_lock_exit demo_env = (\<lambda>n d w. (Inr (), w))"
  by (simp_all add: demo_env_def)

lemma demo_coordinator_fields [simp]:
  "mc_validator demo_coordinator = demo_validator" "mc_mode demo_coordinator = REAL"
  "mc_backend demo_coordinator = PYTHON" "mc_has_event_store demo_coordinator"
  "\<not> mc_defer_finalization demo_coordinator" "mc_has_runtime_control demo_coordinator" "\<not> mc_lock_owned_externally demo_coordinator"
  "mc_protocol demo_coordinator = demo_profile"
  "mc_adapters demo_coordinator =
     [(''ha'', demo_adapter ''ha'' [''diagnose'', ''propose'', ''post_review'']),
      (''cost'', demo_adapter ''cost'' [''review''])]"
  by (simp_all add: demo_coordinator_def)

lemma demo_adapter_fields [simp]:
  "ad_name (demo_adapter n cs) = n" "ad_capabilities (demo_adapter n cs) = cs"
  "ad_runtime (demo_adapter n cs) = ''deterministic''"
  by (simp_all add: demo_adapter_def)

lemma demo_consensus_empty:
  "consensus_resolve demo_sha256 [] demo_profile (Scopes ss) = Inr
     \<lparr>co_approved = True, co_strategy = ''role_based_veto'', co_score = FFin 1,
      co_blocking_vetoes = [], co_non_blocking_objections = [], co_revisions = [],
      co_reason = ''no matching role vetoes''\<rparr>"
proof -
  have "pf_consensus_strategy demo_profile = ROLE_BASED_VETO" by code_simp
  then show ?thesis
    by (simp add: consensus_resolve_def demo_profile_integrity Let_def order_reviews_def
        resolve_role_based_veto_def)
qed

lemmas prog_eval = pbind_def preturn_def pthrow_def ptry_def plift_def pcall_def pgets_def emit_def
  pfinally_def

lemma demo_record [simp]:
  "record_event demo_env demo_coordinator stream ev s =
     (Inr (), s\<lparr>sys_trace := Recorded stream ev # sys_trace s\<rparr>)"
  by (simp add: record_event_def protocol_check_def demo_profile_integrity prog_eval)

lemma demo_review [simp]:
  "sd_agent d = ''ha'' \<Longrightarrow>
   review_application_action demo_env demo_coordinator run i d diagnosis evidence s = (Inr [], s)"
proof -
  assume d: "sd_agent d = ''ha''"
  have "dict_get (pf_review_matrix demo_profile) ''ha'' = Some [''cost'']" by code_simp
  with d show ?thesis
    by (simp add: review_application_action_def ask_reviewer_def has_capability_def prog_eval Let_def)
qed

lemma demo_trace_id [simp]:
  "new_trace_id demo_env ''decision'' s = (Inr ''decision-0'', s)"
  "new_trace_id demo_env ''action'' s = (Inr ''action-0'', s)"
  "new_trace_id demo_env ''post-review'' s = (Inr ''post-review-0'', s)"
  "new_trace_id demo_env ''run'' s = (Inr ''run-0'', s)"
proof -
  have n: "replace_char CHR ''_'' CHR ''-'' (lower (strip ''decision'')) = ''decision''"
    "replace_char CHR ''_'' CHR ''-'' (lower (strip ''action'')) = ''action''"
    "replace_char CHR ''_'' CHR ''-'' (lower (strip ''post-review'')) = ''post-review''"
    "replace_char CHR ''_'' CHR ''-'' (lower (strip ''run'')) = ''run''" by code_simp+
  show "new_trace_id demo_env ''decision'' s = (Inr ''decision-0'', s)"
    "new_trace_id demo_env ''action'' s = (Inr ''action-0'', s)"
    "new_trace_id demo_env ''post-review'' s = (Inr ''post-review-0'', s)"
    "new_trace_id demo_env ''run'' s = (Inr ''run-0'', s)"
    by (simp_all add: new_trace_id_def n prog_eval)
qed

lemma demo_single [simp]:
  "single_adapter_for demo_coordinator ''propose'' =
     Inr (demo_adapter ''ha'' [''diagnose'', ''propose'', ''post_review''])"
  "single_adapter_for demo_coordinator ''diagnose'' =
     Inr (demo_adapter ''ha'' [''diagnose'', ''propose'', ''post_review''])"
  by (simp_all add: single_adapter_for_def adapters_of_def has_capability_def)

definition demo_negotiation :: "Diagnosis \<Rightarrow> RecoveryActionCandidate \<Rightarrow> negotiation" where
  "demo_negotiation diagnosis candidate =
     (let d = proposal_decision demo_coordinator ''run-0'' 1 ''ha'' diagnosis (demo_snapshot 0 0)
            [candidate] (rc_action candidate) ''decision-0''
      in \<lparr>ng_decisions = [d], ng_reviews = [],
          ng_rounds = [make_round ''run-0'' 1 d [] (rc_action candidate)
            \<lparr>co_approved = True, co_strategy = ''role_based_veto'', co_score = FFin 1,
             co_blocking_vetoes = [], co_non_blocking_objections = [], co_revisions = [],
             co_reason = ''no matching role vetoes''\<rparr> [] ''approved'' (Some ''action-0'')
            ''no matching role vetoes'']\<rparr>)"

lemma proposal_agent [simp]:
  "sd_agent (proposal_decision c run i agent diagnosis evidence cs action did) = agent"
  by (simp add: proposal_decision_def)

lemma demo_negotiate:
  "negotiate demo_env demo_coordinator ''run-0'' diagnosis (demo_snapshot 0 0) [candidate] 0 s =
     (Inr (Some (rc_action candidate), demo_negotiation diagnosis candidate),
      s\<lparr>sys_trace := Recorded ''negotiation_rounds'' (EvRound (hd (ng_rounds (demo_negotiation diagnosis candidate))))
        # Recorded ''initial_decisions'' (EvDecision (hd (ng_decisions (demo_negotiation diagnosis candidate))))
        # sys_trace s\<rparr>)"
proof -
  have "nat (pf_max_negotiation_rounds demo_profile) = Suc (Suc 0)" by code_simp
  then show ?thesis
    by (simp add: negotiate_def negotiate_round_def conclude_round_def push_round_def Let_def
        prog_eval demo_consensus_empty demo_negotiation_def empty_negotiation_def)
qed

lemma negotiate_sound_witness:
  "approved_by (demo_env :: unit coordinator_env) demo_coordinator demo_scale (demo_negotiation demo_diagnosis demo_candidate) \<and>
   length (ng_rounds (demo_negotiation demo_diagnosis demo_candidate)) \<le> 2"
proof -
  have "nat (pf_max_negotiation_rounds (mc_protocol demo_coordinator)) = 2" by code_simp
  with negotiate_sound[OF demo_negotiate[of demo_diagnosis demo_candidate "\<lparr>sys_world = (), sys_trace = []\<rparr>"]]
  show ?thesis by (simp add: demo_candidate_def)
qed

end
