(* ===== verification/Coordinator.thy ===== *)
theory Coordinator
  imports Negotiation
begin

text \<open>
  \<open>MutualSupervisionCoordinator.run\<close>: evidence, diagnosis, proposals, then for each candidate
  negotiation, safety validation, execution under the operation lock, assessment and post-execution
  review, until one recovers or the attempts are used up. The whole run is one program over the
  environment of \<open>Negotiation\<close>.
\<close>

section \<open>Context and running state\<close>

text \<open>What is fixed once the diagnosis is accepted, and what the loop over candidates updates.\<close>

record run_context =
  rk_run_id :: string
  rk_namespace :: string
  rk_deployment :: string
  rk_evidence :: EvidenceSnapshot
  rk_diagnosis :: Diagnosis

record run_state =
  rs_decisions :: "SupervisionDecision list"
  rs_reviews :: "PeerReview list"
  rs_rounds :: "NegotiationRound list"
  rs_post_reviews :: "PostExecutionReview list"
  rs_executed :: "RecoveryAction list"
  rs_replans :: "ReplanNote list"
  rs_last_validation :: SafetyValidation
  rs_last_execution :: CommandResult
  rs_last_assessment :: "RecoveryAssessment option"
  rs_last_action :: "RecoveryAction option"

section \<open>Reports\<close>

definition controller_name :: "string list \<Rightarrow> string" where
  "controller_name runtimes =
     (let active = set runtimes in
      if active = {} \<or> active = {''deterministic''} then ''mutual_supervision_deterministic''
      else if active = {''autogen-round-robin''} then ''mutual_supervision_autogen''
      else ''mutual_supervision_hybrid'')"

definition no_validation :: "string \<Rightarrow> SafetyValidation" where
  "no_validation reason = \<lparr>sv_valid = False, sv_command = '''', sv_stderr = reason\<rparr>"

definition zero_contributions :: "MutualSupervisionCoordinator \<Rightarrow> (string, AgentContribution) dict" where
  "zero_contributions c = map (\<lambda>(name, _). (name,
     \<lparr>ct_decisions = 0, ct_approvals = 0, ct_revisions = 0, ct_vetoes = 0, ct_post_reviews = 0,
      ct_reward = FFin 0\<rparr>)) (mc_adapters c)"

definition human_on_failure :: "MutualSupervisionCoordinator \<Rightarrow> bool" where
  "human_on_failure c = truthy (pf_human_review_on_failure (mc_protocol c))"

text \<open>The fields both report constructors share.\<close>

definition blank_report :: "MutualSupervisionCoordinator \<Rightarrow> string \<Rightarrow> string \<Rightarrow> bool \<Rightarrow> Report" where
  "blank_report c run_id status human =
     \<lparr>rp_valid = False, rp_mode = mode_value (mc_mode c), rp_final_status = status,
      rp_run_id = run_id, rp_policy_version = pf_version (mc_protocol c),
      rp_profile_id = pf_profile_id (mc_protocol c), rp_config_hash = pf_config_hash (mc_protocol c),
      rp_active_agents = dict_keys (mc_adapters c),
      rp_agent_runtimes = map ad_runtime (adapters_of c),
      rp_agent_contributions = zero_contributions c,
      rp_fallback_action = kind_value (pf_fallback_action (mc_protocol c)),
      rp_configuration_errors = [], rp_evidence = None, rp_diagnosis = None,
      rp_initial_decisions = [], rp_peer_reviews = [], rp_rounds = [], rp_consensus = ''not_required'',
      rp_strategy = strategy_value (pf_consensus_strategy (mc_protocol c)),
      rp_selected_action = None, rp_safety_validation = no_validation ''no action validated'',
      rp_execution_result = empty_result (mode_value (mc_mode c)) ''no action executed'',
      rp_recovery_monitoring = NoMonitoring, rp_validated_actions = [], rp_executed_actions = [],
      rp_post_execution_reviews = [], rp_replanning_attempts = [],
      rp_human_review_required = human,
      rp_controller = controller_name (map ad_runtime (adapters_of c)),
      rp_guard_backend = backend_value (mc_backend c)\<rparr>"

definition base_report ::
  "'w coordinator_env \<Rightarrow> MutualSupervisionCoordinator \<Rightarrow> run_context \<Rightarrow> SupervisionDecision list
   \<Rightarrow> PeerReview list \<Rightarrow> NegotiationRound list \<Rightarrow> string \<Rightarrow> bool \<Rightarrow> ('w, Report) prog" where
  "base_report env c k decisions reviews rounds status human =
     pbind (protocol_check env c) (\<lambda>_.
     preturn ((blank_report c (rk_run_id k) status human)
       \<lparr>rp_evidence := Some (rk_evidence k), rp_diagnosis := Some (rk_diagnosis k),
        rp_initial_decisions := decisions, rp_peer_reviews := reviews, rp_rounds := rounds,
        rp_consensus := (if rounds = [] then ''not_required'' else nr_consensus_status (last rounds))\<rparr>))"

definition configuration_failure_report ::
  "'w coordinator_env \<Rightarrow> MutualSupervisionCoordinator \<Rightarrow> string \<Rightarrow> string list \<Rightarrow> ('w, Report) prog" where
  "configuration_failure_report env c run_id errors =
     pbind (protocol_check env c) (\<lambda>_.
     preturn ((blank_report c run_id ''safe_stopped'' (human_on_failure c))
       \<lparr>rp_configuration_errors := errors, rp_consensus := ''configuration_rejected'',
        rp_safety_validation := no_validation ''required coordinator capability is unavailable'',
        rp_execution_result := empty_result (mode_value (mc_mode c))
          ''required coordinator capability is unavailable''\<rparr>))"

fun record_contributions ::
  "'w coordinator_env \<Rightarrow> MutualSupervisionCoordinator \<Rightarrow> (string, AgentContribution) dict
   \<Rightarrow> ('w, unit) prog" where
  "record_contributions env c [] = preturn ()"
| "record_contributions env c ((agent, k) # rest) =
     pbind (record_event env c ''agent_contributions'' (EvContribution agent k)) (\<lambda>_.
     record_contributions env c rest)"

definition finalize_report ::
  "'w coordinator_env \<Rightarrow> MutualSupervisionCoordinator \<Rightarrow> Report \<Rightarrow> ('w, Report) prog" where
  "finalize_report env c report =
     (let final = report\<lparr>rp_agent_contributions :=
            agent_contributions report (dict_keys (mc_adapters c))\<rparr>
      in if \<not> mc_has_event_store c then preturn final
         else pbind (record_contributions env c (rp_agent_contributions final)) (\<lambda>_.
              if mc_defer_finalization c then preturn final
              else pbind (pcall (ce_finalize env final)) (\<lambda>_. preturn final)))"

section \<open>The parts of an attempt\<close>

datatype 'a step = Finished Report | Next 'a

text \<open>Finish with a base report that \<open>update\<close> completes.\<close>

definition finish_with ::
  "'w coordinator_env \<Rightarrow> MutualSupervisionCoordinator \<Rightarrow> run_context \<Rightarrow> run_state \<Rightarrow> string \<Rightarrow> bool
   \<Rightarrow> (Report \<Rightarrow> Report) \<Rightarrow> ('w, 'a step) prog" where
  "finish_with env c k st status human update =
     pbind (base_report env c k (rs_decisions st) (rs_reviews st) (rs_rounds st) status human) (\<lambda>r.
     pbind (finalize_report env c (update r)) (\<lambda>final. preturn (Finished final)))"

definition absorb :: "run_state \<Rightarrow> negotiation \<Rightarrow> run_state" where
  "absorb st g = st\<lparr>rs_decisions := rs_decisions st @ ng_decisions g,
     rs_reviews := rs_reviews st @ ng_reviews g, rs_rounds := rs_rounds st @ ng_rounds g\<rparr>"

definition negotiate_candidate ::
  "'w coordinator_env \<Rightarrow> MutualSupervisionCoordinator \<Rightarrow> run_context \<Rightarrow> RecoveryActionCandidate
   \<Rightarrow> run_state \<Rightarrow> ('w, (RecoveryAction option \<times> run_state) step) prog" where
  "negotiate_candidate env c k candidate st =
     ptry
       (pbind (negotiate env c (rk_run_id k) (rk_diagnosis k) (rk_evidence k) [candidate]
          (int (length (rs_rounds st)))) (\<lambda>(selected, g).
        pbind (check_runtime_control env c) (\<lambda>_.
        preturn (Next (selected, absorb st g)))))
       (\<lambda>e. case e of
          NegotiationFailure m decisions reviews rounds \<Rightarrow>
            finish_with env c k
              (absorb st \<lparr>ng_decisions = decisions, ng_reviews = reviews, ng_rounds = rounds\<rparr>)
              ''safe_stopped'' (human_on_failure c)
              (\<lambda>r. r\<lparr>rp_configuration_errors := [m], rp_replanning_attempts := rs_replans st\<rparr>)
        | _ \<Rightarrow> pthrow e)"

definition next_step :: "bool \<Rightarrow> string" where
  "next_step more_left = (if more_left then ''try_next_candidate'' else ''human_review_required'')"

definition note_replan :: "run_state \<Rightarrow> RecoveryAction \<Rightarrow> string \<Rightarrow> bool \<Rightarrow> run_state" where
  "note_replan st action reason more_left = st\<lparr>rs_replans := rs_replans st @
     [\<lparr>rt_failed_action = kind_value (ra_kind action), rt_reason = reason,
       rt_next_step = next_step more_left\<rparr>]\<rparr>"

text \<open>\<open>_validate_action\<close>: only \<open>CommandValidationError\<close> and \<open>ValueError\<close> become a verdict.\<close>

definition validate_action :: "MutualSupervisionCoordinator \<Rightarrow> RecoveryAction \<Rightarrow> (exn, SafetyValidation) result" where
  "validate_action c action =
     (case rbind (validate_recovery_action (mc_validator c) action) render_recovery_command of
        Inr command \<Rightarrow> Inr \<lparr>sv_valid = True, sv_command = command, sv_stderr = ''''\<rparr>
      | Inl (CommandValidationError m) \<Rightarrow> Inr (no_validation m)
      | Inl (ValueError m) \<Rightarrow> Inr (no_validation m)
      | Inl e \<Rightarrow> Inl e)"

definition record_validation ::
  "'w coordinator_env \<Rightarrow> MutualSupervisionCoordinator \<Rightarrow> SafetyValidation \<Rightarrow> ('w, unit) prog" where
  "record_validation env c v = record_event env c ''safety_validations''
     (EvValidation (sv_valid v) (sv_command v) (sv_stderr v))"

definition executor_of :: "MutualSupervisionCoordinator \<Rightarrow> KubernetesExecutor" where
  "executor_of c = \<lparr>ke_validator = mc_validator c, ke_mode = mc_mode c, ke_backend = mc_backend c\<rparr>"

text \<open>\<open>with self._operation_context(namespace, deployment): body\<close>.\<close>

definition uses_lock :: "MutualSupervisionCoordinator \<Rightarrow> bool" where
  "uses_lock c = (mc_mode c = REAL \<and> \<not> mc_lock_owned_externally c)"

definition with_operation_context ::
  "'w coordinator_env \<Rightarrow> MutualSupervisionCoordinator \<Rightarrow> string \<Rightarrow> string \<Rightarrow> ('w, 'a) prog \<Rightarrow> ('w, 'a) prog" where
  "with_operation_context env c ns dep body =
     (if uses_lock c then
        pbind (pcall (ce_lock_enter env ns dep)) (\<lambda>_.
        pbind (emit (LockEntered ns dep)) (\<lambda>_.
        pfinally body
          (pbind (pcall (ce_lock_exit env ns dep)) (\<lambda>_. emit (LockExited ns dep)))))
      else body)"

text \<open>How the protected section of an attempt ends when no exception leaves it.\<close>

datatype outcome =
    OutReport Report
  | OutContinue run_state
  | OutPostFailure string "PostExecutionReview list" CommandResult RecoveryAssessment run_state
  | OutDone CommandResult RecoveryAssessment "PostExecutionReview list" run_state

definition execution_event_type :: "MutualSupervisionCoordinator \<Rightarrow> string \<Rightarrow> string" where
  "execution_event_type c suffix =
     (if mc_mode c = DRY_RUN then ''validation_'' @ suffix else ''execution_'' @ suffix)"

text \<open>The dry-run end of the section: a failed dry run moves on, a valid one finishes the run.\<close>

definition conclude_dry_run ::
  "'w coordinator_env \<Rightarrow> MutualSupervisionCoordinator \<Rightarrow> run_context \<Rightarrow> RecoveryAction
   \<Rightarrow> SafetyValidation \<Rightarrow> bool \<Rightarrow> CommandResult \<Rightarrow> run_state \<Rightarrow> ('w, outcome) prog" where
  "conclude_dry_run env c k action validation more_left execution st =
     (if \<not> cr_valid execution then
        preturn (OutContinue (note_replan st action
          (if cr_stderr execution \<noteq> '''' then cr_stderr execution else ''dry-run validation failed'')
          more_left))
      else
        pbind (base_report env c k (rs_decisions st) (rs_reviews st) (rs_rounds st)
          ''dry_run_validated'' False) (\<lambda>r.
        pbind (finalize_report env c (r\<lparr>rp_valid := True, rp_selected_action := Some action,
          rp_safety_validation := validation, rp_execution_result := execution,
          rp_recovery_monitoring := NotMeasured, rp_validated_actions := [action],
          rp_executed_actions := [], rp_post_execution_reviews := [],
          rp_replanning_attempts := rs_replans st\<rparr>)) (\<lambda>final.
        preturn (OutReport final))))"

text \<open>Assessment and post-execution reviews of an action that was sent to the cluster.\<close>

definition assess_execution ::
  "'w coordinator_env \<Rightarrow> MutualSupervisionCoordinator \<Rightarrow> run_context \<Rightarrow> string \<Rightarrow> RecoveryAction
   \<Rightarrow> CommandResult \<Rightarrow> run_state \<Rightarrow> ('w, outcome) prog" where
  "assess_execution env c k action_id action execution st =
     (let st1 = (if cr_valid execution then st\<lparr>rs_executed := rs_executed st @ [action]\<rparr> else st)
      in pbind (pcall (ce_collect env (rk_namespace k) (rk_deployment k))) (\<lambda>after.
         pbind (pcall (ce_assess env action (rk_evidence k) after execution)) (\<lambda>assessment.
         let st2 = st1\<lparr>rs_last_assessment := Some assessment\<rparr> in
         ptry
           (pbind (post_execution_reviews env c (rk_run_id k) action_id action after assessment
              (adapters_of c) []) (\<lambda>posts.
            preturn (OutDone execution assessment posts st2)))
           (\<lambda>e. case e of
              PostReviewFailure m posts \<Rightarrow>
                preturn (OutPostFailure m posts execution assessment st2)
            | _ \<Rightarrow> pthrow e))))"

definition protected_section ::
  "'w coordinator_env \<Rightarrow> MutualSupervisionCoordinator \<Rightarrow> run_context \<Rightarrow> string \<Rightarrow> RecoveryAction
   \<Rightarrow> SafetyValidation \<Rightarrow> bool \<Rightarrow> run_state \<Rightarrow> ('w, outcome) prog" where
  "protected_section env c k action_id action validation more_left st =
     pbind (record_event env c ''executed_actions'' (EvExecution action_id action
       (execution_event_type c ''dispatched'') None)) (\<lambda>_.
     pbind (execute_recovery (ce_executor env) (executor_of c) action) (\<lambda>execution.
     pbind (check_runtime_control env c) (\<lambda>_.
     let st1 = st\<lparr>rs_last_execution := execution\<rparr> in
     pbind (record_event env c ''executed_actions'' (EvExecution action_id action
       (execution_event_type c ''completed'') (Some execution))) (\<lambda>_.
     if mc_mode c = DRY_RUN then
       conclude_dry_run env c k action validation more_left execution st1
     else assess_execution env c k action_id action execution st1))))"

definition lock_failure_report ::
  "'w coordinator_env \<Rightarrow> MutualSupervisionCoordinator \<Rightarrow> run_context \<Rightarrow> RecoveryAction
   \<Rightarrow> SafetyValidation \<Rightarrow> run_state \<Rightarrow> string \<Rightarrow> ('w, outcome) prog" where
  "lock_failure_report env c k action validation st message =
     pbind (base_report env c k (rs_decisions st) (rs_reviews st) (rs_rounds st) ''safe_stopped'' True) (\<lambda>r.
     pbind (finalize_report env c (r\<lparr>rp_selected_action := Some action,
       rp_safety_validation := validation,
       rp_execution_result := empty_result (mode_value (mc_mode c)) message\<rparr>)) (\<lambda>final.
     preturn (OutReport final)))"

text \<open>The \<open>try\<close> around the operation context; only \<open>OperationLockError\<close> is handled here.\<close>

definition execute_attempt ::
  "'w coordinator_env \<Rightarrow> MutualSupervisionCoordinator \<Rightarrow> run_context \<Rightarrow> string \<Rightarrow> RecoveryAction
   \<Rightarrow> SafetyValidation \<Rightarrow> bool \<Rightarrow> run_state \<Rightarrow> ('w, outcome) prog" where
  "execute_attempt env c k action_id action validation more_left st =
     ptry
       (pbind (check_runtime_control env c) (\<lambda>_.
        with_operation_context env c (rk_namespace k) (rk_deployment k)
          (protected_section env c k action_id action validation more_left st)))
       (\<lambda>e. case e of
          OperationLockError m \<Rightarrow> lock_failure_report env c k action validation st m
        | _ \<Rightarrow> pthrow e)"

text \<open>What the report of an executed attempt carries.\<close>

definition executed_report ::
  "run_state \<Rightarrow> RecoveryAction \<Rightarrow> SafetyValidation \<Rightarrow> CommandResult \<Rightarrow> RecoveryAssessment
   \<Rightarrow> PostExecutionReview list \<Rightarrow> Report \<Rightarrow> Report" where
  "executed_report st action validation execution assessment posts r =
     r\<lparr>rp_selected_action := Some action, rp_safety_validation := validation,
       rp_execution_result := execution, rp_recovery_monitoring := Monitored assessment,
       rp_executed_actions := rs_executed st, rp_post_execution_reviews := posts,
       rp_replanning_attempts := rs_replans st\<rparr>"

definition failure_reason :: "RecoveryAssessment \<Rightarrow> CommandResult \<Rightarrow> string" where
  "failure_reason assessment execution =
     (if as_remaining_problem assessment \<noteq> '''' then as_remaining_problem assessment
      else if cr_stderr execution \<noteq> '''' then cr_stderr execution
      else ''post-execution review rejected recovery'')"

definition conclude_attempt ::
  "'w coordinator_env \<Rightarrow> MutualSupervisionCoordinator \<Rightarrow> run_context \<Rightarrow> bool \<Rightarrow> RecoveryAction
   \<Rightarrow> SafetyValidation \<Rightarrow> bool \<Rightarrow> outcome \<Rightarrow> ('w, run_state step) prog" where
  "conclude_attempt env c k first action validation more_left out = (case out of
       OutReport report \<Rightarrow> preturn (Finished report)
     | OutContinue st \<Rightarrow> preturn (Next st)
     | OutPostFailure m partial execution assessment st \<Rightarrow>
         (let posts = rs_post_reviews st @ partial in
          finish_with env c k st ''safe_failure'' (human_on_failure c)
            (\<lambda>r. (executed_report st action validation execution assessment posts r)
              \<lparr>rp_configuration_errors := [m]\<rparr>))
     | OutDone execution assessment reviews st0 \<Rightarrow>
         (let st = st0\<lparr>rs_post_reviews := rs_post_reviews st0 @ reviews\<rparr> in
          if cr_valid execution \<and> as_recovery_success assessment \<and> list_all po_approved reviews then
            finish_with env c k st (if first then ''recovered'' else ''recovered_after_replan'') False
              (\<lambda>r. (executed_report st action validation execution assessment (rs_post_reviews st) r)
                \<lparr>rp_valid := True\<rparr>)
          else preturn (Next (note_replan st action (failure_reason assessment execution) more_left))))"

text \<open>One candidate: \<open>first\<close> is \<open>candidate_index == 0\<close>, \<open>more_left\<close> is \<open>candidate_index + 1 < max_attempts\<close>.\<close>

definition attempt_action ::
  "'w coordinator_env \<Rightarrow> MutualSupervisionCoordinator \<Rightarrow> run_context \<Rightarrow> bool \<Rightarrow> bool \<Rightarrow> RecoveryAction
   \<Rightarrow> run_state \<Rightarrow> ('w, run_state step) prog" where
  "attempt_action env c k first more_left action st0 =
     (let st = st0\<lparr>rs_last_action := Some action\<rparr>;
          err = action_semantic_error action (mc_protocol c) (rk_evidence k) (rk_namespace k)
                  (rk_deployment k)
      in if err \<noteq> '''' then
           pbind (record_validation env c (no_validation err)) (\<lambda>_.
           preturn (Next (note_replan (st\<lparr>rs_last_validation := no_validation err\<rparr>) action err more_left)))
         else
           pbind (plift (validate_action c action)) (\<lambda>validation.
           pbind (record_validation env c validation) (\<lambda>_.
           pbind (check_runtime_control env c) (\<lambda>_.
           let st1 = st\<lparr>rs_last_validation := validation\<rparr> in
           if \<not> sv_valid validation then
             finish_with env c k st1 ''safe_stopped'' True
               (\<lambda>r. r\<lparr>rp_selected_action := Some action, rp_safety_validation := validation\<rparr>)
           else
             pbind (case nr_selected_action_id (last (rs_rounds st1)) of
                 Some i \<Rightarrow> if i \<noteq> '''' then preturn i else new_trace_id env ''action''
               | None \<Rightarrow> new_trace_id env ''action'') (\<lambda>action_id.
             pbind (execute_attempt env c k action_id action validation more_left st1) (\<lambda>out.
             conclude_attempt env c k first action validation more_left out))))))"

definition attempt_candidate ::
  "'w coordinator_env \<Rightarrow> MutualSupervisionCoordinator \<Rightarrow> run_context \<Rightarrow> bool \<Rightarrow> bool
   \<Rightarrow> RecoveryActionCandidate \<Rightarrow> run_state \<Rightarrow> ('w, run_state step) prog" where
  "attempt_candidate env c k first more_left candidate st =
     pbind (negotiate_candidate env c k candidate st) (\<lambda>negotiated. case negotiated of
       Finished report \<Rightarrow> preturn (Finished report)
     | Next (None, st1) \<Rightarrow>
         finish_with env c k st1 ''safe_stopped'' True
           (\<lambda>r. r\<lparr>rp_replanning_attempts := rs_replans st1\<rparr>)
     | Next (Some action, st1) \<Rightarrow> attempt_action env c k first more_left action st1)"

fun attempt_candidates ::
  "'w coordinator_env \<Rightarrow> MutualSupervisionCoordinator \<Rightarrow> run_context \<Rightarrow> bool
   \<Rightarrow> RecoveryActionCandidate list \<Rightarrow> run_state \<Rightarrow> ('w, run_state step) prog" where
  "attempt_candidates env c k first [] st = preturn (Next st)"
| "attempt_candidates env c k first (candidate # rest) st =
     pbind (attempt_candidate env c k first (rest \<noteq> []) candidate st) (\<lambda>result. case result of
       Finished report \<Rightarrow> preturn (Finished report)
     | Next st' \<Rightarrow> attempt_candidates env c k False rest st')"

text \<open>The report of a run whose attempts are used up.\<close>

definition exhausted_report ::
  "'w coordinator_env \<Rightarrow> MutualSupervisionCoordinator \<Rightarrow> run_context \<Rightarrow> run_state \<Rightarrow> ('w, Report) prog" where
  "exhausted_report env c k st =
     pbind (base_report env c k (rs_decisions st) (rs_reviews st) (rs_rounds st) ''safe_failure'' True) (\<lambda>r.
     finalize_report env c (r\<lparr>rp_selected_action := rs_last_action st,
       rp_safety_validation := rs_last_validation st, rp_execution_result := rs_last_execution st,
       rp_recovery_monitoring :=
         (case rs_last_assessment st of None \<Rightarrow> NoMonitoring | Some a \<Rightarrow> Monitored a),
       rp_executed_actions := rs_executed st, rp_post_execution_reviews := rs_post_reviews st,
       rp_replanning_attempts := rs_replans st\<rparr>))"

section \<open>From proposals to candidates\<close>

text \<open>\<open>max(1.0 - (index * 0.1), 0.0)\<close>.\<close>

definition candidate_priority :: "nat \<Rightarrow> pyfloat" where
  "candidate_priority index =
     fmax (fsub (FFin 1) (fmul (round64 (of_nat index)) (round64 (1 / 10)))) (FFin 0)"

fun build_candidates ::
  "ResearchProtocolProfile \<Rightarrow> EvidenceSnapshot \<Rightarrow> string \<Rightarrow> string \<Rightarrow> pyval \<Rightarrow> nat \<Rightarrow> RecoveryAction list
   \<Rightarrow> RecoveryActionCandidate list \<times> (RecoveryAction \<times> string) list" where
  "build_candidates protocol evidence ns dep confidence index [] = ([], [])"
| "build_candidates protocol evidence ns dep confidence index (action # rest) =
     (let err = action_semantic_error action protocol evidence ns dep;
          (cs, rejects) = build_candidates protocol evidence ns dep confidence (Suc index) rest
      in if err \<noteq> '''' then (cs, (action, err) # rejects)
         else (\<lparr>rc_action = action, rc_reason = ra_reason action,
                rc_expected_effect = ra_reason action, rc_risk_level = ''bounded'',
                rc_estimated_cost = FFin 0, rc_confidence = confidence,
                rc_priority = candidate_priority index\<rparr> # cs, rejects))"

definition initial_state ::
  "MutualSupervisionCoordinator \<Rightarrow> SupervisionDecision list \<Rightarrow> bool \<Rightarrow> (RecoveryAction \<times> string) list \<Rightarrow> run_state" where
  "initial_state c decisions any_candidate rejects =
     \<lparr>rs_decisions = decisions, rs_reviews = [], rs_rounds = [], rs_post_reviews = [],
      rs_executed = [],
      rs_replans = map (\<lambda>(a, err). \<lparr>rt_failed_action = kind_value (ra_kind a), rt_reason = err,
        rt_next_step = next_step any_candidate\<rparr>) rejects,
      rs_last_validation = no_validation ''no action validated'',
      rs_last_execution = empty_result (mode_value (mc_mode c)) ''no action executed'',
      rs_last_assessment = None, rs_last_action = None\<rparr>"

text \<open>The loop over the first \<open>max_replan_attempts + 1\<close> candidates and its end.\<close>

definition run_candidates ::
  "'w coordinator_env \<Rightarrow> MutualSupervisionCoordinator \<Rightarrow> run_context \<Rightarrow> SupervisionDecision list
   \<Rightarrow> RecoveryAction list \<Rightarrow> ('w, Report) prog" where
  "run_candidates env c k decisions actions =
     (let (candidates, rejects) = build_candidates (mc_protocol c) (rk_evidence k) (rk_namespace k)
            (rk_deployment k) (dg_confidence (rk_diagnosis k)) 0 actions;
          tried = take (nat (pf_max_replan_attempts (mc_protocol c) + 1)) candidates
      in pbind (attempt_candidates env c k True tried
            (initial_state c decisions (candidates \<noteq> []) rejects)) (\<lambda>result. case result of
           Finished report \<Rightarrow> preturn report
         | Next st \<Rightarrow> exhausted_report env c k st))"

section \<open>The run\<close>

definition required_capability_errors :: "MutualSupervisionCoordinator \<Rightarrow> string list" where
  "required_capability_errors c =
     concat (map (\<lambda>capability.
       let n = length (filter (has_capability capability) (adapters_of c)) in
       if n \<noteq> 1 then [''expected exactly one active '' @ capability @ '' adapter; found '' @
                        nat_str n]
       else []) [''diagnose'', ''propose''])"

fun begin_adapter_runs :: "'w coordinator_env \<Rightarrow> string \<Rightarrow> AgentAdapter list \<Rightarrow> ('w, unit) prog" where
  "begin_adapter_runs env run_id [] = preturn ()"
| "begin_adapter_runs env run_id (a # rest) =
     pbind (pcall (ce_begin_run env (ad_name a) run_id)) (\<lambda>_. begin_adapter_runs env run_id rest)"

text \<open>The diagnosis inside its \<open>try\<close>: the adapter, the output check and the runtime check.\<close>

definition diagnose ::
  "'w coordinator_env \<Rightarrow> MutualSupervisionCoordinator \<Rightarrow> string \<Rightarrow> AgentAdapter \<Rightarrow> EvidenceSnapshot
   \<Rightarrow> string \<Rightarrow> pyfloat \<Rightarrow> string \<Rightarrow> ('w, Diagnosis \<times> SupervisionDecision) prog" where
  "diagnose env c run_id adapter evidence metric threshold deployment =
     pbind (pcall (ce_diagnose env (ad_name adapter) evidence metric threshold)) (\<lambda>v.
     pbind (plift (check_diagnosis_output (ad_name adapter) run_id 0 (pf_version (mc_protocol c))
       (evidence_refs evidence metric) deployment v)) (\<lambda>(diagnosis, decision).
     pbind (new_trace_id env ''decision'') (\<lambda>decision_id.
     pbind (check_runtime_control env c) (\<lambda>_.
     preturn (diagnosis, decision\<lparr>sd_decision_id := decision_id\<rparr>)))))"

definition missing_requested_metric :: "Diagnosis \<Rightarrow> bool" where
  "missing_requested_metric d =
     (dg_cause d = ''unknown_metric'' \<and> truthy (vget (dg_evidence d) ''missing_evidence''))"

text \<open>After an accepted diagnosis: stop when it asks for no action, else propose and try.\<close>

definition run_proposals ::
  "'w coordinator_env \<Rightarrow> MutualSupervisionCoordinator \<Rightarrow> run_context \<Rightarrow> SupervisionDecision
   \<Rightarrow> ('w, Report) prog" where
  "run_proposals env c k decision =
     pbind (plift (single_adapter_for c ''propose'')) (\<lambda>adapter.
     pbind (ptry
       (pbind (pcall (ce_propose env (ad_name adapter) (rk_diagnosis k) (rk_evidence k))) (\<lambda>v.
        pbind (plift (normalize_proposal_output (ad_name adapter) v)) (\<lambda>actions.
        pbind (check_runtime_control env c) (\<lambda>_. preturn (Next actions)))))
       (\<lambda>e. pbind (base_report env c k [decision] [] [] ''safe_stopped'' (human_on_failure c)) (\<lambda>r.
            pbind (finalize_report env c (r\<lparr>rp_configuration_errors :=
              [ad_name adapter @ '' propose failed: '' @ exn_str e]\<rparr>)) (\<lambda>final.
            preturn (Finished final))))) (\<lambda>proposed. case proposed of
       Finished report \<Rightarrow> preturn report
     | Next actions \<Rightarrow> run_candidates env c k [decision] actions))"

definition run_diagnosed ::
  "'w coordinator_env \<Rightarrow> MutualSupervisionCoordinator \<Rightarrow> run_context \<Rightarrow> SupervisionDecision
   \<Rightarrow> ('w, Report) prog" where
  "run_diagnosed env c k decision =
     pbind (record_event env c ''initial_decisions'' (EvDecision decision)) (\<lambda>_.
     pbind (check_runtime_control env c) (\<lambda>_.
     if \<not> sd_approved decision then
       (let missing = missing_requested_metric (rk_diagnosis k) in
        pbind (base_report env c k [decision] [] []
          (if missing then ''safe_stopped'' else ''no_action_required'')
          (if missing then human_on_failure c else False)) (finalize_report env c))
     else run_proposals env c k decision))"

definition run_with_evidence ::
  "'w coordinator_env \<Rightarrow> MutualSupervisionCoordinator \<Rightarrow> string \<Rightarrow> string \<Rightarrow> string \<Rightarrow> string \<Rightarrow> pyfloat
   \<Rightarrow> EvidenceSnapshot \<Rightarrow> ('w, Report) prog" where
  "run_with_evidence env c run_id namespace deployment metric threshold evidence =
     pbind (record_event env c ''evidence'' (EvEvidence evidence)) (\<lambda>_.
     pbind (plift (single_adapter_for c ''diagnose'')) (\<lambda>adapter.
     pbind (ptry
       (pbind (diagnose env c run_id adapter evidence metric threshold deployment) (\<lambda>d.
        preturn (Next d)))
       (\<lambda>e. pbind (configuration_failure_report env c run_id
              [ad_name adapter @ '' diagnose failed: '' @ exn_str e]) (\<lambda>r.
            pbind (finalize_report env c (r\<lparr>rp_evidence := Some evidence\<rparr>)) (\<lambda>final.
            preturn (Finished final))))) (\<lambda>diagnosed. case diagnosed of
       Finished report \<Rightarrow> preturn report
     | Next (diagnosis, decision) \<Rightarrow>
         run_diagnosed env c \<lparr>rk_run_id = run_id, rk_namespace = namespace,
           rk_deployment = deployment, rk_evidence = evidence, rk_diagnosis = diagnosis\<rparr> decision)))"

definition run ::
  "'w coordinator_env \<Rightarrow> MutualSupervisionCoordinator \<Rightarrow> string \<Rightarrow> string \<Rightarrow> string \<Rightarrow> pyfloat
   \<Rightarrow> ('w, Report) prog" where
  "run env c namespace deployment metric threshold =
     pbind (check_runtime_control env c) (\<lambda>_.
     pbind (new_trace_id env ''run'') (\<lambda>run_id.
     pbind (protocol_check env c) (\<lambda>_.
     pbind (begin_adapter_runs env run_id (adapters_of c)) (\<lambda>_.
     pbind (protocol_check env c) (\<lambda>_.
     pbind (record_event env c ''protocol_profiles''
       (EvProtocol (strategy_value (pf_consensus_strategy (mc_protocol c))))) (\<lambda>_.
     if required_capability_errors c \<noteq> [] then
       pbind (configuration_failure_report env c run_id (required_capability_errors c))
         (finalize_report env c)
     else
       pbind (check_runtime_control env c) (\<lambda>_.
       pbind (pcall (ce_collect env namespace deployment)) (\<lambda>evidence.
       pbind (check_runtime_control env c) (\<lambda>_.
       run_with_evidence env c run_id namespace deployment metric threshold evidence)))))))))"

end
