(* ===== verification/TraceLogic.thy ===== *)
theory TraceLogic
  imports Effects
begin

text \<open>
  Reasoning about the order of effects. A monitor is a deterministic automaton over effects that
  has no successor for an effect it forbids. \<open>guided delta q m Q\<close> says that from monitor state \<open>q\<close> the
  program \<open>m\<close> only performs effects the monitor allows, and ends, normally or by exception, with a
  result and a monitor state that satisfy \<open>Q\<close>. The rules below follow the structure of programs.
\<close>

type_synonym 'q monitor_step = "'q \<Rightarrow> effect \<Rightarrow> 'q option"

text \<open>Effects in the order they happened.\<close>

fun follow :: "'q monitor_step \<Rightarrow> 'q \<Rightarrow> effect list \<Rightarrow> 'q option" where
  "follow delta q [] = Some q"
| "follow delta q (e # es) = (case delta q e of None \<Rightarrow> None | Some q' \<Rightarrow> follow delta q' es)"

lemma follow_append:
  "follow delta q (xs @ ys) = (case follow delta q xs of None \<Rightarrow> None | Some q' \<Rightarrow> follow delta q' ys)"
  by (induction xs arbitrary: q) (auto split: option.split)

definition reaches :: "'q monitor_step \<Rightarrow> 'q \<Rightarrow> 'w sys \<Rightarrow> 'w sys \<Rightarrow> ('q \<Rightarrow> bool) \<Rightarrow> bool" where
  "reaches delta q s s' P \<longleftrightarrow>
     (\<exists>new q'. sys_trace s' = new @ sys_trace s \<and> follow delta q (rev new) = Some q' \<and> P q')"

definition guided ::
  "'q monitor_step \<Rightarrow> 'q \<Rightarrow> ('w, 'a) prog \<Rightarrow> ((exn, 'a) result \<Rightarrow> 'q \<Rightarrow> bool) \<Rightarrow> bool" where
  "guided delta q m Q \<longleftrightarrow> (\<forall>s r s'. m s = (r, s') \<longrightarrow> reaches delta q s s' (Q r))"

named_theorems guided_rules \<open>structural rules of the trace logic\<close>

lemma guidedI: "(\<And>s r s'. m s = (r, s') \<Longrightarrow> reaches delta q s s' (Q r)) \<Longrightarrow> guided delta q m Q"
  by (simp add: guided_def)

lemma guidedD: "guided delta q m Q \<Longrightarrow> m s = (r, s') \<Longrightarrow> reaches delta q s s' (Q r)"
  by (simp add: guided_def)

lemma reaches_mono: "reaches delta q s s' P \<Longrightarrow> (\<And>q'. P q' \<Longrightarrow> P' q') \<Longrightarrow> reaches delta q s s' P'"
  unfolding reaches_def by blast

lemma reaches_same: "sys_trace s' = sys_trace s \<Longrightarrow> P q \<Longrightarrow> reaches delta q s s' P"
  unfolding reaches_def by (intro exI[of _ "[]"]) simp

lemma reaches_one: "sys_trace s' = e # sys_trace s \<Longrightarrow> delta q e = Some q' \<Longrightarrow> P q' \<Longrightarrow> reaches delta q s s' P"
  unfolding reaches_def by (intro exI[of _ "[e]"]) simp

lemma guided_mono:
  assumes "guided delta q m R" and "\<And>r q'. R r q' \<Longrightarrow> Q r q'"
  shows "guided delta q m Q"
  using assms reaches_mono unfolding guided_def by metis

lemma reaches_seq:
  assumes "reaches delta q s s1 P" and "\<And>q1. P q1 \<Longrightarrow> reaches delta q1 s1 s2 P'"
  shows "reaches delta q s s2 P'"
proof -
  from assms(1) obtain n1 q1 where
    n1: "sys_trace s1 = n1 @ sys_trace s" "follow delta q (rev n1) = Some q1" "P q1"
    unfolding reaches_def by blast
  from assms(2)[OF n1(3)] obtain n2 q' where
    n2: "sys_trace s2 = n2 @ sys_trace s1" "follow delta q1 (rev n2) = Some q'" "P' q'"
    unfolding reaches_def by blast
  with n1 have "sys_trace s2 = (n2 @ n1) @ sys_trace s \<and>
      follow delta q (rev (n2 @ n1)) = Some q' \<and> P' q'"
    by (simp add: follow_append)
  then show ?thesis unfolding reaches_def by blast
qed

text \<open>Programs without effects.\<close>

definition silent :: "('w, 'a) prog \<Rightarrow> bool" where
  "silent m \<longleftrightarrow> (\<forall>s. sys_trace (snd (m s)) = sys_trace s)"

lemma silent_basic [simp]:
  "silent (preturn x)" "silent (pthrow e)" "silent (plift r)" "silent (pcall f)" "silent (pgets g)"
  by (simp_all add: silent_def preturn_def pthrow_def plift_def pcall_def pgets_def split: prod.split)

lemma silent_pbind [simp]: "silent m \<Longrightarrow> (\<And>x. silent (f x)) \<Longrightarrow> silent (pbind m f)"
  unfolding silent_def pbind_def by (auto split: prod.split sum.split) (metis snd_conv)+

lemma silent_if [simp]: "(c \<Longrightarrow> silent a) \<Longrightarrow> (\<not> c \<Longrightarrow> silent b) \<Longrightarrow> silent (if c then a else b)"
  by simp

lemma guided_silent:
  assumes "silent m" and "\<And>r. Q r q"
  shows "guided delta q m Q"
proof (rule guidedI)
  fix s r s'
  assume "m s = (r, s')"
  then have "sys_trace s' = sys_trace s" using assms(1) by (metis silent_def snd_conv)
  then show "reaches delta q s s' (Q r)" using assms(2) by (rule reaches_same)
qed

lemma guided_preturn [guided_rules]: "Q (Inr x) q \<Longrightarrow> guided delta q (preturn x) Q"
  by (rule guidedI) (auto intro: reaches_same)

lemma guided_pthrow [guided_rules]: "Q (Inl e) q \<Longrightarrow> guided delta q (pthrow e) Q"
  by (rule guidedI) (auto intro: reaches_same)

lemma guided_emit: "delta q e = Some q' \<Longrightarrow> Q (Inr ()) q' \<Longrightarrow> guided delta q (emit e) Q"
  by (rule guidedI) (auto simp: emit_def intro: reaches_one)

lemma guided_pbind:
  assumes "guided delta q m R" and "\<And>e q'. R (Inl e) q' \<Longrightarrow> Q (Inl e) q'"
    and "\<And>x q'. R (Inr x) q' \<Longrightarrow> guided delta q' (f x) Q"
  shows "guided delta q (pbind m f) Q"
proof (rule guidedI)
  fix s r s'
  assume run: "pbind m f s = (r, s')"
  obtain rm sm where m: "m s = (rm, sm)" by (cases "m s")
  note first = guidedD[OF assms(1) m]
  show "reaches delta q s s' (Q r)"
  proof (cases rm)
    case (Inl e)
    with run m have "r = Inl e" "s' = sm" by (simp_all add: pbind_def)
    with first Inl assms(2) show ?thesis by (auto elim: reaches_mono)
  next
    case (Inr x)
    with run m have next_run: "f x sm = (r, s')" by (simp add: pbind_def)
    show ?thesis
    proof (rule reaches_seq[OF first])
      fix q1
      assume "R rm q1"
      then have "guided delta q1 (f x) Q" using Inr assms(3) by simp
      from guidedD[OF this next_run] show "reaches delta q1 sm s' (Q r)" .
    qed
  qed
qed

lemma guided_ptry:
  assumes "guided delta q m R" and "\<And>x q'. R (Inr x) q' \<Longrightarrow> Q (Inr x) q'"
    and "\<And>e q'. R (Inl e) q' \<Longrightarrow> guided delta q' (h e) Q"
  shows "guided delta q (ptry m h) Q"
proof (rule guidedI)
  fix s r s'
  assume run: "ptry m h s = (r, s')"
  obtain rm sm where m: "m s = (rm, sm)" by (cases "m s")
  note first = guidedD[OF assms(1) m]
  show "reaches delta q s s' (Q r)"
  proof (cases rm)
    case (Inr x)
    with run m have "r = Inr x" "s' = sm" by (simp_all add: ptry_def)
    with first Inr assms(2) show ?thesis by (auto elim: reaches_mono)
  next
    case (Inl e)
    with run m have next_run: "h e sm = (r, s')" by (simp add: ptry_def)
    show ?thesis
    proof (rule reaches_seq[OF first])
      fix q1
      assume "R rm q1"
      then have "guided delta q1 (h e) Q" using Inl assms(3) by simp
      from guidedD[OF this next_run] show "reaches delta q1 sm s' (Q r)" .
    qed
  qed
qed

text \<open>After \<open>pfinally\<close> the body's result stands unless the exit itself raised.\<close>

lemma guided_pfinally:
  assumes "guided delta q m R"
    and "\<And>r q'. R r q' \<Longrightarrow> guided delta q' fin (\<lambda>f q''. case f of Inl e \<Rightarrow> Q (Inl e) q'' | Inr u \<Rightarrow> Q r q'')"
  shows "guided delta q (pfinally m fin) Q"
proof (rule guidedI)
  fix s r s'
  assume run: "pfinally m fin s = (r, s')"
  obtain rm sm where m: "m s = (rm, sm)" by (cases "m s")
  obtain rf sf where f: "fin sm = (rf, sf)" by (cases "fin sm")
  have r: "s' = sf" "r = (case rf of Inl e \<Rightarrow> Inl e | Inr u \<Rightarrow> rm)"
    using run m f by (auto simp: pfinally_def split: sum.splits)
  show "reaches delta q s s' (Q r)"
  proof (rule reaches_seq[OF guidedD[OF assms(1) m]])
    fix q1
    assume "R rm q1"
    from guidedD[OF assms(2)[OF this] f] show "reaches delta q1 sm s' (Q r)"
      unfolding r by (cases rf) simp_all
  qed
qed

lemma guided_pcall_bind:
  assumes "\<And>e. Q (Inl e) q" and "\<And>x w w'. f w = (Inr x, w') \<Longrightarrow> guided delta q (g x) Q"
  shows "guided delta q (pbind (pcall f) g) Q"
proof (rule guidedI)
  fix s r s'
  assume run: "pbind (pcall f) g s = (r, s')"
  obtain res w where f: "f (sys_world s) = (res, w)" by (cases "f (sys_world s)")
  show "reaches delta q s s' (Q r)"
  proof (cases res)
    case (Inl e)
    with run f assms(1) show ?thesis by (auto simp: pbind_def pcall_def intro: reaches_same)
  next
    case (Inr x)
    with run f have "g x (s\<lparr>sys_world := w\<rparr>) = (r, s')" by (simp add: pbind_def pcall_def)
    from guidedD[OF assms(2)[OF f[unfolded Inr]] this] show ?thesis by (simp add: reaches_def)
  qed
qed

lemma guided_plift_bind:
  assumes "\<And>e. r = Inl e \<Longrightarrow> Q (Inl e) q" and "\<And>x. r = Inr x \<Longrightarrow> guided delta q (g x) Q"
  shows "guided delta q (pbind (plift r) g) Q"
  using assms by (cases r) (auto intro: guided_pthrow)

lemma guided_if:
  "(b \<Longrightarrow> guided delta q m Q) \<Longrightarrow> (\<not> b \<Longrightarrow> guided delta q n Q) \<Longrightarrow> guided delta q (if b then m else n) Q"
  by simp

text \<open>A program whose effects all keep the monitor in the states of \<open>I\<close>.\<close>

lemma follow_invariant:
  assumes "\<And>q e. I q \<Longrightarrow> P e \<Longrightarrow> \<exists>q'. delta q e = Some q' \<and> I q'"
  shows "\<forall>e \<in> set es. P e \<Longrightarrow> I q \<Longrightarrow> \<exists>q'. follow delta q es = Some q' \<and> I q'"
proof (induction es arbitrary: q)
  case (Cons e es)
  from assms[OF Cons.prems(2)] Cons.prems(1) obtain q1 where "delta q e = Some q1" "I q1" by auto
  with Cons show ?case by auto
qed simp

lemma guided_emits:
  assumes "emits P m" and "I q" and "\<And>q e. I q \<Longrightarrow> P e \<Longrightarrow> \<exists>q'. delta q e = Some q' \<and> I q'"
  shows "guided delta q m (\<lambda>r. I)"
proof (rule guidedI)
  fix s r s'
  assume "m s = (r, s')"
  from emitsD[OF assms(1) this] obtain new where
    new: "sys_trace s' = new @ sys_trace s" "\<forall>e \<in> set new. P e" by blast
  from follow_invariant[of I P delta, OF assms(3)] new(2) assms(2)
  obtain q' where "follow delta q (rev new) = Some q'" "I q'" by (metis set_rev)
  with new(1) show "reaches delta q s s' I" unfolding reaches_def by blast
qed

end
