(* ===== verification/RunSafety.thy ===== *)
theory RunSafety
  imports Coordinator TraceLogic
begin

text \<open>
  What a whole mutual supervision run may do, as a monitor over its effects: which commands may
  reach the cluster, that they run under the operation lock, that each one is preceded by the
  recorded proposal, approval, validation and dispatch of exactly that action, and how many there
  can be. \<open>run_audited\<close> proves that every run, in every environment, is accepted by the monitor.
\<close>

section \<open>The monitor\<close>

definition observed :: "'w coordinator_env \<Rightarrow> string \<Rightarrow> string \<Rightarrow> EvidenceSnapshot \<Rightarrow> bool" where
  "observed env ns dep ev \<longleftrightarrow> (\<exists>w w'. ce_collect env ns dep w = (Inr ev, w'))"

text \<open>
  An action the run may send: on the run's own target, of a kind the protocol allows, and a
  scale-out only to more replicas than some snapshot of the target shows.
\<close>

definition admissible ::
  "'w coordinator_env \<Rightarrow> MutualSupervisionCoordinator \<Rightarrow> string \<Rightarrow> string \<Rightarrow> RecoveryAction \<Rightarrow> bool" where
  "admissible env c ns dep a \<longleftrightarrow> ra_namespace a = ns \<and> ra_deployment a = dep \<and>
     ra_kind a \<in> set (pf_action_space (mc_protocol c)) \<and>
     (ra_kind a = SCALE_OUT \<longrightarrow> (\<exists>ev n. observed env ns dep ev \<and> ra_replicas a = Some n \<and>
        ev_desired_replicas ev < n))"

record audit =
  au_locked :: bool
  au_budget :: nat
  au_proposed :: "RecoveryAction option"
  au_approved :: bool
  au_validated :: bool
  au_dispatched :: "RecoveryAction option"

text \<open>What an event record tells the monitor.\<close>

definition audit_record :: "event \<Rightarrow> audit \<Rightarrow> audit" where
  "audit_record ev q = (case ev of
       EvDecision d \<Rightarrow> q\<lparr>au_proposed := sd_proposed_action d, au_approved := False,
         au_validated := False, au_dispatched := None\<rparr>
     | EvRound r \<Rightarrow> q\<lparr>au_approved := (nr_consensus_status r = ''approved''), au_validated := False,
         au_dispatched := None\<rparr>
     | EvValidation ok command stderr \<Rightarrow> q\<lparr>au_validated := ok, au_dispatched := None\<rparr>
     | EvExecution i a t result \<Rightarrow> q\<lparr>au_dispatched := (if result = None then Some a else None)\<rparr>
     | _ \<Rightarrow> q)"

definition cleared :: "MutualSupervisionCoordinator \<Rightarrow> audit \<Rightarrow> RecoveryAction \<Rightarrow> bool" where
  "cleared c q a \<longleftrightarrow> (mc_has_event_store c \<longrightarrow> au_proposed q = Some a \<and> au_approved q \<and>
     au_validated q \<and> au_dispatched q = Some a)"

definition may_execute ::
  "'w coordinator_env \<Rightarrow> MutualSupervisionCoordinator \<Rightarrow> string \<Rightarrow> string \<Rightarrow> audit \<Rightarrow> effect \<Rightarrow> bool" where
  "may_execute env c ns dep q e \<longleftrightarrow> 0 < au_budget q \<and> (uses_lock c \<longrightarrow> au_locked q) \<and>
     (\<exists>a. admissible env c ns dep a \<and> executor_effect_ok (executor_of c) a e \<and> cleared c q a)"

definition is_command :: "effect \<Rightarrow> bool" where
  "is_command e = (case e of Ran argv \<Rightarrow> True | AskedGoGuard r \<Rightarrow> True | _ \<Rightarrow> False)"

lemma is_command_simps [simp]: "is_command (Ran argv)" "is_command (AskedGoGuard r)"
  by (simp_all add: is_command_def)

definition audit_step ::
  "'w coordinator_env \<Rightarrow> MutualSupervisionCoordinator \<Rightarrow> string \<Rightarrow> string \<Rightarrow> audit monitor_step" where
  "audit_step env c ns dep q e = (case e of
       Recorded stream ev \<Rightarrow> if mc_has_event_store c then Some (audit_record ev q) else None
     | LockEntered n d \<Rightarrow>
         if uses_lock c \<and> \<not> au_locked q \<and> n = ns \<and> d = dep then Some (q\<lparr>au_locked := True\<rparr>) else None
     | LockExited n d \<Rightarrow>
         if uses_lock c \<and> au_locked q \<and> n = ns \<and> d = dep then Some (q\<lparr>au_locked := False\<rparr>) else None
     | _ \<Rightarrow> if is_command e \<and> may_execute env c ns dep q e
            then Some (q\<lparr>au_budget := au_budget q - 1, au_dispatched := None\<rparr>) else None)"

definition audit_start :: "nat \<Rightarrow> audit" where
  "audit_start n = \<lparr>au_locked = False, au_budget = n, au_proposed = None, au_approved = False,
     au_validated = False, au_dispatched = None\<rparr>"

section \<open>Records\<close>

text \<open>Records change neither the lock nor the budget.\<close>

definition same_guard :: "audit \<Rightarrow> audit \<Rightarrow> bool" where
  "same_guard q q' \<longleftrightarrow> au_locked q' = au_locked q \<and> au_budget q' = au_budget q"

lemma same_guard_refl [simp]: "same_guard q q"
  by (simp add: same_guard_def)

lemma same_guard_record [simp]: "same_guard q (audit_record ev q') = same_guard q q'"
  by (cases ev) (auto simp: audit_record_def same_guard_def)

lemma same_guard_trans: "same_guard q q' \<Longrightarrow> same_guard q' q'' \<Longrightarrow> same_guard q q''"
  by (simp add: same_guard_def)

lemma guided_record:
  assumes "\<And>e. Q (Inl e) q" and "Q (Inr ()) (if mc_has_event_store c then audit_record ev q else q)"
  shows "guided (audit_step env c ns dep) q (record_event env c stream ev) Q"
proof (cases "mc_has_event_store c")
  case True
  show ?thesis
    unfolding record_event_def protocol_check_def using True assms
    by (auto intro!: guided_plift_bind guided_pcall_bind guided_emit simp: audit_step_def)
next
  case False
  with assms show ?thesis by (auto simp: record_event_def intro: guided_preturn)
qed

definition stored :: "MutualSupervisionCoordinator \<Rightarrow> effect \<Rightarrow> bool" where
  "stored c e \<longleftrightarrow> mc_has_event_store c \<and> recording e"

definition neutral :: "MutualSupervisionCoordinator \<Rightarrow> effect \<Rightarrow> bool" where
  "neutral c e \<longleftrightarrow> mc_has_event_store c \<and> (\<exists>stream ev. e = Recorded stream ev \<and> (\<forall>q. audit_record ev q = q))"

lemma emits_record: "P (Recorded stream ev) \<Longrightarrow> emits P (record_event env c stream ev)"
  unfolding record_event_def protocol_check_def by (intro prog_rules)

lemma emits_record_stored:
  "(mc_has_event_store c \<Longrightarrow> P (Recorded stream ev)) \<Longrightarrow> emits P (record_event env c stream ev)"
  unfolding record_event_def protocol_check_def by (intro prog_rules)

lemma guided_stored:
  assumes "emits (stored c) m"
  shows "guided (audit_step env c ns dep) q m (\<lambda>r q'. same_guard q q')"
proof (rule guided_emits[OF assms])
  fix q' e
  assume "same_guard q q'" "stored c e"
  then show "\<exists>q''. audit_step env c ns dep q' e = Some q'' \<and> same_guard q q''"
    by (cases e) (auto simp: stored_def recording_def audit_step_def)
qed simp

lemma guided_neutral:
  assumes "emits (neutral c) m"
  shows "guided (audit_step env c ns dep) q m (\<lambda>r q'. q' = q)"
proof (rule guided_emits[OF assms])
  fix q' e
  assume "q' = q" "neutral c e"
  then show "\<exists>q''. audit_step env c ns dep q' e = Some q'' \<and> q'' = q"
    by (auto simp: neutral_def audit_step_def)
qed simp

lemma neutral_events [simp]:
  "neutral c (Recorded s (EvPeerReview r)) = mc_has_event_store c"
  "neutral c (Recorded s (EvPostReview p)) = mc_has_event_store c"
  "neutral c (Recorded s (EvProtocol x)) = mc_has_event_store c"
  "neutral c (Recorded s (EvEvidence y)) = mc_has_event_store c"
  "neutral c (Recorded s (EvContribution a k)) = mc_has_event_store c"
  by (simp_all add: neutral_def audit_record_def)

lemma stored_Recorded [simp]: "stored c (Recorded s ev) = mc_has_event_store c"
  by (simp add: stored_def)

lemma neutral_stored: "neutral c e \<Longrightarrow> stored c e"
  by (auto simp: neutral_def)

section \<open>Negotiation under the monitor\<close>

lemma silent_emits: "silent m \<Longrightarrow> emits P m"
  unfolding silent_def emits_def by (metis append_Nil empty_iff list.set(1))

lemma silent_trace_check [simp]:
  "silent (new_trace_id env prefix)" "silent (check_runtime_control env c)"
  by (simp_all add: new_trace_id_def Let_def check_runtime_control_def)

lemma ask_reviewer_silent [simp]: "silent (ask_reviewer env c run_id i d diagnosis evidence adapter)"
  by (simp add: ask_reviewer_def Let_def)

lemma collect_reviews_neutral:
  "emits (neutral c) (collect_reviews env c run_id i d diagnosis evidence rs reviews)"
proof (induction rs arbitrary: reviews)
  case (Cons r rs)
  then show ?case
    by (auto intro!: emits_pbind emits_ptry emits_pthrow emits_record_stored simp: silent_emits
        split: option.split)
qed (simp add: emits_preturn)

lemma review_action_neutral:
  "emits (neutral c) (review_application_action env c run_id i d diagnosis evidence)"
  unfolding review_application_action_def
  by (intro emits_if emits_preturn collect_reviews_neutral)

text \<open>Sequencing after the common first statements.\<close>

lemma guided_silent_bind:
  assumes "silent m" and "\<And>e. Q (Inl e) q" and "\<And>x. guided delta q (f x) Q"
  shows "guided delta q (pbind m f) Q"
  by (rule guided_pbind[OF guided_silent[OF assms(1), of "\<lambda>r q'. q' = q"]]) (use assms in auto)

lemmas guided_trace_bind = guided_silent_bind[OF silent_trace_check(1)]
lemmas guided_check_bind = guided_silent_bind[OF silent_trace_check(2)]

lemma guided_neutral_bind:
  assumes "emits (neutral c) m" and "\<And>e. Q (Inl e) q"
    and "\<And>x. guided (audit_step env c ns dep) q (f x) Q"
  shows "guided (audit_step env c ns dep) q (pbind m f) Q"
  by (rule guided_pbind[OF guided_neutral[OF assms(1)]]) (use assms in auto)

lemma guided_stored_bind:
  assumes "emits (stored c) m" and "\<And>e q'. same_guard q q' \<Longrightarrow> Q (Inl e) q'"
    and "\<And>x q'. same_guard q q' \<Longrightarrow> guided (audit_step env c ns dep) q' (f x) Q"
  shows "guided (audit_step env c ns dep) q (pbind m f) Q"
  by (rule guided_pbind[OF guided_stored[OF assms(1)]]) (use assms in auto)

definition recorded :: "MutualSupervisionCoordinator \<Rightarrow> event \<Rightarrow> audit \<Rightarrow> audit" where
  "recorded c ev q = (if mc_has_event_store c then audit_record ev q else q)"

lemma same_guard_recorded [simp]: "same_guard q (recorded c ev q') = same_guard q q'"
  by (simp add: recorded_def)

lemma guided_record_bind:
  assumes "\<And>e. Q (Inl e) q" and "guided (audit_step env c ns dep) (recorded c ev q) (f ()) Q"
  shows "guided (audit_step env c ns dep) q (pbind (record_event env c stream ev) f) Q"
  by (rule guided_pbind[OF guided_record[of "\<lambda>r q'. case r of Inl e \<Rightarrow> q' = q | Inr u \<Rightarrow> q' = recorded c ev q"]])
    (use assms in \<open>auto simp: recorded_def\<close>)

lemma guided_push_bind:
  assumes "\<And>e. Q (Inl e) q"
    and "guided (audit_step env c ns dep) (recorded c (EvRound r) q) (f (g\<lparr>ng_rounds := ng_rounds g @ [r]\<rparr>)) Q"
  shows "guided (audit_step env c ns dep) q (pbind (push_round env c g r) f) Q"
proof -
  have "pbind (push_round env c g r) f = pbind (record_event env c ''negotiation_rounds'' (EvRound r))
      (\<lambda>_. f (g\<lparr>ng_rounds := ng_rounds g @ [r]\<rparr>))"
    by (rule ext) (auto simp: push_round_def pbind_def preturn_def split: prod.split sum.split)
  moreover have "guided (audit_step env c ns dep) q
      (pbind (record_event env c ''negotiation_rounds'' (EvRound r))
        (\<lambda>_. f (g\<lparr>ng_rounds := ng_rounds g @ [r]\<rparr>))) Q"
    by (rule guided_record_bind) (use assms in auto)
  ultimately show ?thesis by simp
qed

text \<open>After an approved round the monitor knows the approved action.\<close>

definition proposed_state :: "MutualSupervisionCoordinator \<Rightarrow> RecoveryAction \<Rightarrow> audit \<Rightarrow> bool" where
  "proposed_state c a q \<longleftrightarrow> (mc_has_event_store c \<longrightarrow> au_proposed q = Some a)"

definition approved_state :: "MutualSupervisionCoordinator \<Rightarrow> RecoveryAction \<Rightarrow> audit \<Rightarrow> bool" where
  "approved_state c a q \<longleftrightarrow> (mc_has_event_store c \<longrightarrow> au_proposed q = Some a \<and> au_approved q)"

lemma approved_recorded:
  "proposed_state c a q \<Longrightarrow> nr_consensus_status r = ''approved'' \<Longrightarrow>
   approved_state c a (recorded c (EvRound r) q)"
  by (simp add: approved_state_def proposed_state_def recorded_def audit_record_def)

definition round_post ::
  "MutualSupervisionCoordinator \<Rightarrow> audit \<Rightarrow> RecoveryAction \<Rightarrow> (exn, round_result \<times> negotiation) result
   \<Rightarrow> audit \<Rightarrow> bool" where
  "round_post c q action r q' \<longleftrightarrow> same_guard q q' \<and>
     (\<forall>g. r = Inr (Approved, g) \<longrightarrow> approved_state c action q')"

lemma round_post_other: "same_guard q q' \<Longrightarrow> (\<And>g. r \<noteq> Inr (Approved, g)) \<Longrightarrow> round_post c q action r q'"
  by (simp add: round_post_def)

lemma guided_conclude_round:
  assumes "proposed_state c action q" and "same_guard q0 q"
  shows "guided (audit_step env c ns dep) q
    (conclude_round env c run_id i evidence action d reviews outcome g) (round_post c q0 action)"
proof (cases "co_approved outcome \<and> co_revisions outcome = []")
  case True
  have "guided (audit_step env c ns dep) q (pbind (new_trace_id env ''action'') (\<lambda>aid.
      pbind (push_round env c g (make_round run_id i d reviews action outcome [] ''approved'' (Some aid)
        (co_reason outcome))) (\<lambda>g'. preturn (Approved, g')))) (round_post c q0 action)"
    using assms by (intro guided_trace_bind guided_push_bind guided_preturn)
      (auto simp: round_post_def approved_recorded make_round_def)
  with True show ?thesis by (simp add: conclude_round_def Let_def)
next
  case False
  then show ?thesis
    using assms by (cases "co_approved outcome")
      (auto simp: conclude_round_def Let_def split: sum.split
        intro!: guided_push_bind guided_preturn guided_pthrow round_post_other)
qed

lemma guided_reviewed_round:
  assumes "proposed_state c action q" and "same_guard q0 q"
  shows "guided (audit_step env c ns dep) q
    (pbind (ptry (review_application_action env c run_id i d diagnosis evidence)
       (\<lambda>e. pthrow (review_failure g1 e))) (\<lambda>reviews.
     pbind (plift (consensus_resolve (ce_sha256 env) reviews (mc_protocol c)
       (Scopes (decision_scopes action)))) (\<lambda>outcome.
     conclude_round env c run_id i evidence action d reviews outcome (g2 reviews))))
    (round_post c q0 action)"
proof -
  have "emits (neutral c) (ptry (review_application_action env c run_id i d diagnosis evidence)
     (\<lambda>e. pthrow (review_failure g1 e)))"
    by (intro emits_ptry review_action_neutral emits_pthrow)
  then show ?thesis
    using guided_conclude_round[OF assms] assms(2)
    by (intro guided_neutral_bind guided_plift_bind) (auto intro: round_post_other)
qed

lemma guided_negotiate_round:
  "guided (audit_step env c ns dep) q
    (negotiate_round env c run_id diagnosis evidence cs agent i action g) (round_post c q action)"
  unfolding negotiate_round_def Let_def
  by (intro guided_trace_bind guided_record_bind guided_reviewed_round)
    (auto intro: round_post_other simp: proposed_state_def recorded_def audit_record_def
        proposal_decision_def same_guard_def)

definition negotiated_post ::
  "MutualSupervisionCoordinator \<Rightarrow> audit \<Rightarrow> (exn, RecoveryAction option \<times> negotiation) result \<Rightarrow> audit \<Rightarrow> bool" where
  "negotiated_post c q r q' \<longleftrightarrow> same_guard q q' \<and>
     (\<forall>a g. r = Inr (Some a, g) \<longrightarrow> approved_state c a q')"

lemma negotiated_post_other:
  "same_guard q q' \<Longrightarrow> (\<And>a g. r \<noteq> Inr (Some a, g)) \<Longrightarrow> negotiated_post c q r q'"
  by (simp add: negotiated_post_def)

lemma guided_negotiate_rounds:
  "same_guard q0 q \<Longrightarrow> guided (audit_step env c ns dep) q
    (negotiate_rounds env c run_id diagnosis evidence cs agent left i action g) (negotiated_post c q0)"
proof (induction left arbitrary: q i action g)
  case 0
  then show ?case by (auto intro: guided_preturn negotiated_post_other)
next
  case (Suc left)
  show ?case
    unfolding negotiate_rounds.simps
  proof (rule guided_pbind[OF guided_negotiate_round])
    fix e q'
    assume "round_post c q action (Inl e) q'"
    with Suc.prems show "negotiated_post c q0 (Inl e) q'"
      by (auto simp: round_post_def negotiated_post_def intro: same_guard_trans)
  next
    fix x q'
    assume post: "round_post c q action (Inr x) q'"
    obtain result g' where x: "x = (result, g')" by (cases x)
    from post Suc.prems have same: "same_guard q0 q'"
      by (auto simp: round_post_def intro: same_guard_trans)
    show "guided (audit_step env c ns dep) q' (case x of (result, g') \<Rightarrow> (case result of
          Rejected \<Rightarrow> preturn (None, g')
        | Revised revised \<Rightarrow> negotiate_rounds env c run_id diagnosis evidence cs agent left
            (i + 1) revised g'
        | Approved \<Rightarrow> preturn (Some action, g'))) (negotiated_post c q0)"
    proof (cases result)
      case (Revised a)
      with Suc.IH[OF same] show ?thesis by (simp add: x)
    qed (use post same in \<open>auto intro!: guided_preturn simp: x negotiated_post_def round_post_def\<close>)
  qed
qed

lemma guided_negotiate:
  "guided (audit_step env c ns dep) q (negotiate env c run_id diagnosis evidence cs offset)
    (negotiated_post c q)"
  unfolding negotiate_def
  by (cases cs) (auto intro!: guided_preturn guided_plift_bind guided_negotiate_rounds negotiated_post_other)

section \<open>Reports under the monitor\<close>

lemma emits_protocol_check: "emits P (protocol_check env c)"
  unfolding protocol_check_def by (rule emits_plift)

lemma base_report_silent [simp]: "silent (base_report env c k ds rs rds status human)"
  by (simp add: base_report_def protocol_check_def)

lemma configuration_report_silent [simp]: "silent (configuration_failure_report env c run_id errors)"
  by (simp add: configuration_failure_report_def protocol_check_def)

lemma contributions_neutral: "emits (neutral c) (record_contributions env c ks)"
  by (induction ks rule: record_contributions.induct)
    (auto intro!: emits_preturn emits_pbind emits_record_stored)

lemma finalize_neutral: "emits (neutral c) (finalize_report env c r)"
  unfolding finalize_report_def Let_def
  by (intro emits_if emits_preturn emits_pbind emits_pcall contributions_neutral)

lemma finish_with_neutral: "emits (neutral c) (finish_with env c k st status human update)"
  unfolding finish_with_def
  by (intro emits_pbind finalize_neutral emits_preturn silent_emits base_report_silent)

lemma post_reviews_neutral:
  "emits (neutral c) (post_execution_reviews env c run_id aid action after assessment adapters reviews)"
proof (induction adapters arbitrary: reviews)
  case (Cons a adapters)
  then show ?case
    by (auto simp: ask_post_reviewer_def silent_emits intro!: emits_pbind emits_ptry emits_pthrow
        emits_record_stored emits_if split: option.split)
qed (simp add: emits_preturn)

section \<open>Execution under the monitor\<close>

text \<open>A monitor state in which the action may be sent.\<close>

definition ready :: "MutualSupervisionCoordinator \<Rightarrow> RecoveryAction \<Rightarrow> audit \<Rightarrow> bool" where
  "ready c a q \<longleftrightarrow> 0 < au_budget q \<and> (uses_lock c \<longrightarrow> au_locked q) \<and> cleared c q a"

text \<open>The lock is as before, at most one command was spent.\<close>

definition one_spent :: "audit \<Rightarrow> audit \<Rightarrow> bool" where
  "one_spent q q' \<longleftrightarrow> au_locked q' = au_locked q \<and> au_budget q \<le> au_budget q' + 1"

lemma same_one_spent: "same_guard q q' \<Longrightarrow> one_spent q q'"
  by (simp add: same_guard_def one_spent_def)

lemma one_spent_same: "one_spent q q' \<Longrightarrow> same_guard q' q'' \<Longrightarrow> one_spent q q''"
  by (simp add: same_guard_def one_spent_def)

lemma guided_command:
  assumes "admissible env c ns dep a" and "executor_effect_ok (executor_of c) a e" and "ready c a q"
  shows "\<exists>q'. audit_step env c ns dep q e = Some q' \<and> one_spent q q'"
proof -
  have "may_execute env c ns dep q e"
    using assms by (auto simp: may_execute_def ready_def)
  with assms(2,3) show ?thesis
    by (cases e) (auto simp: audit_step_def executor_effect_ok_def one_spent_def)
qed

lemma guided_run_command:
  assumes "admissible env c ns dep a" and "executor_effect_ok (executor_of c) a (Ran argv)" and "ready c a q"
  shows "guided (audit_step env c ns dep) q (run_command x k command argv) (\<lambda>r q'. one_spent q q')"
proof -
  obtain q1 where q1: "audit_step env c ns dep q (Ran argv) = Some q1" "one_spent q q1"
    using guided_command[OF assms] by blast
  show ?thesis
    unfolding run_command_def
    by (rule guided_pbind[where R = "\<lambda>r q'. q' = q1"])
      (use q1 in \<open>auto intro!: guided_emit guided_pcall_bind guided_preturn split: prod.split\<close>)
qed

lemma guided_go_guard:
  assumes "admissible env c ns dep a" and "ready c a q"
    and "\<And>r. gg_mode r = mode_value (ke_mode k) \<Longrightarrow> gg_namespace r = namespace \<Longrightarrow>
      gg_deployment r = deployment \<Longrightarrow> gg_action r = kind_value kind \<Longrightarrow> gg_replicas r = replicas \<Longrightarrow>
      executor_effect_ok (executor_of c) a (AskedGoGuard r)"
  shows "guided (audit_step env c ns dep) q
    (execute_with_go_guard x k namespace deployment kind replicas command) (\<lambda>r q'. one_spent q q')"
  unfolding execute_with_go_guard_def Let_def
proof (rule guided_pbind)
  let ?r = "\<lparr>gg_mode = mode_value (ke_mode k), gg_namespace = namespace, gg_deployment = deployment,
      gg_action = kind_value kind, gg_replicas = replicas,
      gg_allowed_namespaces = sort (allowed_namespaces (ke_validator k)),
      gg_allowed_deployments = sort (allowed_deployments (ke_validator k)),
      gg_min_replicas = min_replicas (ke_validator k), gg_max_replicas = max_replicas (ke_validator k)\<rparr>"
  have "executor_effect_ok (executor_of c) a (AskedGoGuard ?r)" by (rule assms(3)) simp_all
  from guided_command[OF assms(1) this assms(2)] obtain q1 where
    "audit_step env c ns dep q (AskedGoGuard ?r) = Some q1" "one_spent q q1" by blast
  then show "guided (audit_step env c ns dep) q (emit (AskedGoGuard ?r)) (\<lambda>r q'. one_spent q q')"
    by (auto intro: guided_emit)
qed (auto intro!: guided_pcall_bind guided_silent split: prod.split)

lemma guided_execute:
  assumes "admissible env c ns dep a" and "ready c a q"
  shows "guided (audit_step env c ns dep) q (execute_recovery x (executor_of c) a) (\<lambda>r q'. one_spent q q')"
proof (cases "safe_action (mc_validator c) a")
  case False
  then have "\<exists>e. validate_recovery_action (mc_validator c) a = Inl e" by (rule guard.rejected_raises)
  then show ?thesis
    by (auto simp: execute_recovery_def executor_of_def one_spent_def intro!: guided_pthrow)
next
  case True
  then have v: "validate_recovery_action (ke_validator (executor_of c)) a = Inr a"
    by (simp add: executor_of_def validates_iff)
  have go: "executor_effect_ok (executor_of c) a (AskedGoGuard r)"
    if "ke_backend (executor_of c) = GO" "gg_mode r = mode_value (ke_mode (executor_of c))"
      "gg_namespace r = ra_namespace a" "gg_deployment r = ra_deployment a"
      "gg_action r = kind_value (ra_kind a)" "gg_replicas r = ra_replicas a" for r
    using that True by (simp add: executor_effect_ok_def executor_of_def)
  have py: "executor_effect_ok (executor_of c) a (Ran (recovery_words a @
      (if ke_mode (executor_of c) = DRY_RUN \<and> ra_kind a \<noteq> OBSERVE_ONLY then [''--dry-run=server''] else [])))"
    if "ke_backend (executor_of c) \<noteq> GO" "ke_mode (executor_of c) \<noteq> MOCK"
    using that True by (cases "ke_backend (executor_of c)")
      (auto simp: executor_effect_ok_def executor_of_def mutating_def)
  have words: "recovery_argv a = Inr (recovery_words a)" by (rule recovery_argv_words[OF True])
  show ?thesis
    unfolding execute_recovery_def v plift_Inr_bind
    by (intro guided_plift_bind guided_if guided_go_guard[OF assms] guided_preturn
        guided_run_command[OF assms(1) _ assms(2)])
      (use words go py in \<open>auto simp: one_spent_def\<close>)
qed

lemma pair_recorded_dispatch:
  assumes "approved_state c a q" and "mc_has_event_store c \<longrightarrow> au_validated q" and "0 < au_budget q"
    and "uses_lock c \<longrightarrow> au_locked q"
  shows "ready c a (recorded c (EvExecution i a t None) q)"
  using assms by (auto simp: ready_def cleared_def recorded_def audit_record_def approved_state_def)

lemma emits_post_exn:
  "(\<And>m ps. e = PostReviewFailure m ps \<Longrightarrow> emits P (g m ps)) \<Longrightarrow>
   emits P (case e of PostReviewFailure m ps \<Rightarrow> g m ps | _ \<Rightarrow> pthrow e)"
  by (cases e) (simp_all add: emits_pthrow)

lemma assess_execution_neutral:
  "emits (neutral c) (assess_execution env c k aid action execution st)"
  unfolding assess_execution_def Let_def
  by (intro emits_pbind emits_pcall emits_ptry emits_post_exn post_reviews_neutral emits_preturn)

lemma conclude_dry_run_neutral:
  "emits (neutral c) (conclude_dry_run env c k action v left execution st)"
  unfolding conclude_dry_run_def
  by (intro emits_if emits_pbind emits_preturn finalize_neutral silent_emits base_report_silent)

lemma guided_protected_section:
  assumes adm: "admissible env c (rk_namespace k) (rk_deployment k) a"
    and ready: "approved_state c a q" "mc_has_event_store c \<longrightarrow> au_validated q" "0 < au_budget q"
      "uses_lock c \<longrightarrow> au_locked q"
  shows "guided (audit_step env c (rk_namespace k) (rk_deployment k)) q
    (protected_section env c k aid a v left st) (\<lambda>r q'. one_spent q q')"
  (is "guided ?m q _ ?Q")
proof -
  let ?q = "recorded c (EvExecution aid a (execution_event_type c ''dispatched'') None) q"
  have same: "same_guard q ?q" by simp
  note ready' = pair_recorded_dispatch[OF ready, of aid "execution_event_type c ''dispatched''"]
  have tail: "emits (stored c) (pbind (record_event env c ''executed_actions''
        (EvExecution aid a (execution_event_type c ''completed'') (Some x))) (\<lambda>_.
      if mc_mode c = DRY_RUN then conclude_dry_run env c k a v left x st1
      else assess_execution env c k aid a x st1))" for x st1
    by (intro emits_pbind emits_if emits_record_stored
        emits_mono[OF assess_execution_neutral neutral_stored]
        emits_mono[OF conclude_dry_run_neutral neutral_stored]) simp
  show ?thesis
    unfolding protected_section_def Let_def
  proof (rule guided_record_bind)
    show "guided ?m ?q (pbind (execute_recovery (ce_executor env) (executor_of c) a) (\<lambda>execution.
        pbind (check_runtime_control env c) (\<lambda>_.
        pbind (record_event env c ''executed_actions''
          (EvExecution aid a (execution_event_type c ''completed'') (Some execution))) (\<lambda>_.
        if mc_mode c = DRY_RUN then conclude_dry_run env c k a v left execution (st\<lparr>rs_last_execution := execution\<rparr>)
        else assess_execution env c k aid a execution (st\<lparr>rs_last_execution := execution\<rparr>))))) ?Q"
    proof (rule guided_pbind[OF guided_execute[OF adm ready']])
      fix x q1
      assume "one_spent ?q q1"
      then have spent: "one_spent q q1" using same by (simp add: one_spent_def same_guard_def)
      show "guided ?m q1 (pbind (check_runtime_control env c) (\<lambda>_.
        pbind (record_event env c ''executed_actions''
          (EvExecution aid a (execution_event_type c ''completed'') (Some x))) (\<lambda>_.
        if mc_mode c = DRY_RUN then conclude_dry_run env c k a v left x (st\<lparr>rs_last_execution := x\<rparr>)
        else assess_execution env c k aid a x (st\<lparr>rs_last_execution := x\<rparr>)))) ?Q"
        using spent
        by (intro guided_check_bind guided_mono[OF guided_stored[OF tail]]) (auto intro: one_spent_same)
    qed (use same in \<open>simp add: one_spent_def same_guard_def\<close>)
  qed (simp add: one_spent_def)
qed

text \<open>
  The lock is taken around the section. If releasing it raises, the monitor is left locked and the
  exception is what the attempt ends with.
\<close>

definition attempt_post :: "audit \<Rightarrow> (exn, 'a) result \<Rightarrow> audit \<Rightarrow> bool" where
  "attempt_post q r q' \<longleftrightarrow> au_budget q \<le> au_budget q' + 1 \<and>
     ((\<exists>x. r = Inr x) \<longrightarrow> au_locked q' = au_locked q)"

lemma guided_operation_context:
  assumes adm: "admissible env c (rk_namespace k) (rk_deployment k) a"
    and ready: "approved_state c a q" "mc_has_event_store c \<longrightarrow> au_validated q" "0 < au_budget q"
    and unlocked: "\<not> au_locked q"
  shows "guided (audit_step env c (rk_namespace k) (rk_deployment k)) q
    (with_operation_context env c (rk_namespace k) (rk_deployment k) (protected_section env c k aid a v left st))
    (attempt_post q)"
  (is "guided ?m q _ ?Q")
proof (cases "uses_lock c")
  case False
  then have "uses_lock c \<longrightarrow> au_locked q" by simp
  note body = guided_protected_section[OF adm ready this]
  have "guided ?m q (protected_section env c k aid a v left st) ?Q"
    by (rule guided_mono[OF body]) (simp add: attempt_post_def one_spent_def)
  with False show ?thesis by (simp add: with_operation_context_def)
next
  case True
  let ?q = "q\<lparr>au_locked := True\<rparr>"
  have ready': "approved_state c a ?q" "mc_has_event_store c \<longrightarrow> au_validated ?q" "0 < au_budget ?q"
    "uses_lock c \<longrightarrow> au_locked ?q"
    using ready by (simp_all add: approved_state_def)
  have enter: "?m q (LockEntered (rk_namespace k) (rk_deployment k)) = Some ?q"
    using True unlocked by (simp add: audit_step_def)
  have body: "guided ?m ?q (pfinally (protected_section env c k aid a v left st)
      (pbind (pcall (ce_lock_exit env (rk_namespace k) (rk_deployment k)))
        (\<lambda>_. emit (LockExited (rk_namespace k) (rk_deployment k))))) ?Q"
  proof (rule guided_pfinally[OF guided_protected_section[OF adm ready']])
    fix r q1
    assume "one_spent ?q q1"
    then have q1: "au_locked q1" "au_budget q \<le> au_budget q1 + 1" by (simp_all add: one_spent_def)
    then have "?m q1 (LockExited (rk_namespace k) (rk_deployment k)) = Some (q1\<lparr>au_locked := False\<rparr>)"
      using True by (simp add: audit_step_def)
    with q1 unlocked show "guided ?m q1 (pbind (pcall (ce_lock_exit env (rk_namespace k) (rk_deployment k)))
        (\<lambda>_. emit (LockExited (rk_namespace k) (rk_deployment k))))
        (\<lambda>f q2. case f of Inl e \<Rightarrow> ?Q (Inl e) q2 | Inr u \<Rightarrow> ?Q r q2)"
      by (intro guided_pcall_bind guided_emit) (auto simp: attempt_post_def)
  qed
  have entered: "guided ?m q (emit (LockEntered (rk_namespace k) (rk_deployment k)))
      (\<lambda>r q'. q' = ?q)"
    by (rule guided_emit[where q' = ?q]) (use enter in simp_all)
  have "guided ?m q (pbind (emit (LockEntered (rk_namespace k) (rk_deployment k))) (\<lambda>_.
      pfinally (protected_section env c k aid a v left st)
        (pbind (pcall (ce_lock_exit env (rk_namespace k) (rk_deployment k)))
          (\<lambda>_. emit (LockExited (rk_namespace k) (rk_deployment k)))))) ?Q"
    by (rule guided_pbind[OF entered]) (use body in \<open>auto simp: attempt_post_def\<close>)
  then show ?thesis
    unfolding with_operation_context_def using True
    by (auto intro!: guided_pcall_bind simp: attempt_post_def)
qed

lemma guided_lock_exn:
  "(\<And>m. e = OperationLockError m \<Longrightarrow> guided delta q (h m) Q) \<Longrightarrow>
   ((\<forall>m. e \<noteq> OperationLockError m) \<Longrightarrow> Q (Inl e) q) \<Longrightarrow>
   guided delta q (case e of OperationLockError m \<Rightarrow> h m | _ \<Rightarrow> pthrow e) Q"
  by (cases e) (auto intro: guided_pthrow)

section \<open>Attempts under the monitor\<close>

definition outcome_post :: "audit \<Rightarrow> (exn, outcome) result \<Rightarrow> audit \<Rightarrow> bool" where
  "outcome_post q r q' \<longleftrightarrow> au_budget q \<le> au_budget q' + 1 \<and>
     (\<forall>x. r = Inr x \<and> (\<forall>rep. x \<noteq> OutReport rep) \<longrightarrow> au_locked q' = au_locked q)"

lemma lock_failure_neutral: "emits (neutral c) (lock_failure_report env c k a v st m)"
  unfolding lock_failure_report_def
  by (intro emits_pbind finalize_neutral emits_preturn silent_emits base_report_silent)

lemma lock_failure_reports:
  "lock_failure_report env c k a v st m s = (Inr x, s') \<Longrightarrow> \<exists>rep. x = OutReport rep"
  by (auto simp: lock_failure_report_def pbind_Inr)

lemma guided_lock_failure:
  assumes "au_budget q \<le> au_budget q1 + 1"
  shows "guided (audit_step env c ns dep) q1 (lock_failure_report env c k a v st m) (outcome_post q)"
  unfolding lock_failure_report_def
  using assms by (intro guided_silent_bind base_report_silent guided_neutral_bind finalize_neutral guided_preturn)
    (auto simp: outcome_post_def)

lemma guided_execute_attempt:
  assumes "admissible env c (rk_namespace k) (rk_deployment k) a"
    and "approved_state c a q" "mc_has_event_store c \<longrightarrow> au_validated q" "0 < au_budget q"
    and "\<not> au_locked q"
  shows "guided (audit_step env c (rk_namespace k) (rk_deployment k)) q
    (execute_attempt env c k aid a v left st) (outcome_post q)"
  unfolding execute_attempt_def
proof (rule guided_ptry)
  show "guided (audit_step env c (rk_namespace k) (rk_deployment k)) q
    (pbind (check_runtime_control env c) (\<lambda>_. with_operation_context env c (rk_namespace k)
       (rk_deployment k) (protected_section env c k aid a v left st))) (attempt_post q)"
    by (intro guided_check_bind guided_operation_context[OF assms]) (simp add: attempt_post_def)
  fix e q'
  assume "attempt_post q (Inl e) q'"
  then show "guided (audit_step env c (rk_namespace k) (rk_deployment k)) q'
      (case e of OperationLockError m \<Rightarrow> lock_failure_report env c k a v st m | _ \<Rightarrow> pthrow e) (outcome_post q)"
    by (intro guided_lock_exn guided_lock_failure) (auto simp: attempt_post_def outcome_post_def)
qed (auto simp: attempt_post_def outcome_post_def)

definition step_post :: "nat \<Rightarrow> (exn, 'a step) result \<Rightarrow> audit \<Rightarrow> bool" where
  "step_post n r q' \<longleftrightarrow> (\<forall>x. r = Inr (Next x) \<longrightarrow> \<not> au_locked q' \<and> n \<le> au_budget q')"

lemma step_post_other [simp]: "step_post n (Inl e) q" "step_post n (Inr (Finished rep)) q"
  by (simp_all add: step_post_def)

lemma guided_finish:
  assumes "\<And>e q'. Q (Inl e) q'" and "\<And>rep q'. Q (Inr (Finished rep)) q'"
  shows "guided (audit_step env c ns dep) q (finish_with env c k st status human update) Q"
  unfolding finish_with_def
  by (intro guided_silent_bind base_report_silent guided_neutral_bind finalize_neutral guided_preturn
      assms)

lemma guided_finish_with:
  "guided (audit_step env c ns dep) q (finish_with env c k st status human update) (step_post n)"
  by (rule guided_finish) simp_all

lemma guided_conclude_attempt:
  assumes "outcome_post q0 (Inr out) q" and "\<not> au_locked q0" and "Suc n \<le> au_budget q0"
  shows "guided (audit_step env c ns dep) q (conclude_attempt env c k first a v left out) (step_post n)"
proof (cases out)
  case (OutReport rep)
  then show ?thesis by (auto simp: conclude_attempt_def intro: guided_preturn)
next
  case (OutContinue st)
  with assms show ?thesis
    by (auto simp: conclude_attempt_def outcome_post_def step_post_def intro!: guided_preturn)
next
  case (OutPostFailure m ps x y st)
  then show ?thesis by (simp add: conclude_attempt_def Let_def guided_finish_with)
next
  case (OutDone x y ps st)
  with assms have "\<not> au_locked q \<and> n \<le> au_budget q" by (auto simp: outcome_post_def)
  then have next_ok: "step_post n (Inr (Next st')) q" for st' :: run_state
    by (simp add: step_post_def)
  show ?thesis
    unfolding conclude_attempt_def OutDone outcome.case Let_def
    by (intro guided_if guided_finish_with guided_preturn next_ok)
qed

lemma record_validation_state:
  "au_validated (recorded c (EvValidation ok x y) q) = (if mc_has_event_store c then ok else au_validated q)"
  "approved_state c a (recorded c (EvValidation ok x y) q) = approved_state c a q"
  "au_budget (recorded c ev q) = au_budget q" "au_locked (recorded c ev q) = au_locked q"
proof -
  show "au_validated (recorded c (EvValidation ok x y) q) = (if mc_has_event_store c then ok else au_validated q)"
    "approved_state c a (recorded c (EvValidation ok x y) q) = approved_state c a q"
    by (simp_all add: recorded_def audit_record_def approved_state_def)
  have "same_guard q (recorded c ev q)" by simp
  then show "au_budget (recorded c ev q) = au_budget q" "au_locked (recorded c ev q) = au_locked q"
    by (simp_all add: same_guard_def)
qed

lemma semantic_admissible:
  assumes "action_semantic_error a (mc_protocol c) (rk_evidence k) (rk_namespace k) (rk_deployment k) = ''''"
    and "observed env (rk_namespace k) (rk_deployment k) (rk_evidence k)"
  shows "admissible env c (rk_namespace k) (rk_deployment k) a"
  using assms
  by (auto simp: action_semantic_error_def target_alignment_error_def admissible_def
      split: if_splits option.splits) fastforce?

lemma guided_attempt_action:
  assumes obs: "observed env (rk_namespace k) (rk_deployment k) (rk_evidence k)"
    and q: "approved_state c a q" "\<not> au_locked q" "Suc n \<le> au_budget q"
  shows "guided (audit_step env c (rk_namespace k) (rk_deployment k)) q
    (attempt_action env c k first left a st0) (step_post n)"
  (is "guided ?m q _ _")
proof (cases "action_semantic_error a (mc_protocol c) (rk_evidence k) (rk_namespace k) (rk_deployment k) = ''''")
  case False
  with q show ?thesis
    unfolding attempt_action_def Let_def record_validation_def
    by (simp add: guided_record_bind guided_preturn step_post_def record_validation_state)
next
  case True
  note adm = semantic_admissible[OF True obs]
  define st where "st = st0\<lparr>rs_last_action := Some a\<rparr>"
  have exec: "guided ?m q1 (pbind (case nr_selected_action_id (last (rs_rounds st1)) of
                 Some i \<Rightarrow> if i \<noteq> '''' then preturn i else new_trace_id env ''action''
               | None \<Rightarrow> new_trace_id env ''action'') (\<lambda>action_id.
             pbind (execute_attempt env c k action_id a v left st1) (\<lambda>out.
             conclude_attempt env c k first a v left out))) (step_post n)"
    if "approved_state c a q1" "mc_has_event_store c \<longrightarrow> au_validated q1" "\<not> au_locked q1"
      "Suc n \<le> au_budget q1" for q1 v st1
  proof (rule guided_silent_bind)
    show "silent (case nr_selected_action_id (last (rs_rounds st1)) of
                 Some i \<Rightarrow> if i \<noteq> '''' then preturn i else new_trace_id env ''action''
               | None \<Rightarrow> new_trace_id env ''action'')" by (simp split: option.split)
    fix aid
    have "0 < au_budget q1" using that(4) by simp
    from guided_execute_attempt[OF adm that(1,2) this that(3)]
    show "guided ?m q1 (pbind (execute_attempt env c k aid a v left st1) (\<lambda>out.
             conclude_attempt env c k first a v left out)) (step_post n)"
      by (rule guided_pbind) (auto intro: guided_conclude_attempt[OF _ that(3,4)])
  qed simp
  show ?thesis
    unfolding attempt_action_def Let_def record_validation_def
    using True q
    by (auto intro!: guided_plift_bind guided_record_bind guided_check_bind guided_if
        guided_finish_with exec simp: record_validation_state)
qed

lemma guided_negotiate_candidate:
  "guided (audit_step env c ns dep) q (negotiate_candidate env c k candidate st)
    (\<lambda>r q'. \<forall>x. r = Inr (Next x) \<longrightarrow> same_guard q q' \<and>
       (\<forall>a. fst x = Some a \<longrightarrow> approved_state c a q'))"
  (is "guided ?m q _ ?Q")
  unfolding negotiate_candidate_def
proof (rule guided_ptry)
  show "guided ?m q (pbind (negotiate env c (rk_run_id k) (rk_diagnosis k) (rk_evidence k) [candidate]
          (int (length (rs_rounds st)))) (\<lambda>(selected, g).
        pbind (check_runtime_control env c) (\<lambda>_. preturn (Next (selected, absorb st g))))) ?Q"
    by (rule guided_pbind[OF guided_negotiate])
      (auto intro!: guided_check_bind guided_preturn simp: negotiated_post_def)
  fix e q'
  show "guided ?m q' (case e of NegotiationFailure m decisions reviews rounds \<Rightarrow>
            finish_with env c k
              (absorb st \<lparr>ng_decisions = decisions, ng_reviews = reviews, ng_rounds = rounds\<rparr>)
              ''safe_stopped'' (human_on_failure c)
              (\<lambda>r. r\<lparr>rp_configuration_errors := [m], rp_replanning_attempts := rs_replans st\<rparr>)
        | _ \<Rightarrow> pthrow e) ?Q"
    by (cases e) (auto intro!: guided_pthrow guided_finish)
qed auto

lemma guided_attempt_candidate:
  assumes obs: "observed env (rk_namespace k) (rk_deployment k) (rk_evidence k)"
    and q: "\<not> au_locked q" "Suc n \<le> au_budget q"
  shows "guided (audit_step env c (rk_namespace k) (rk_deployment k)) q
    (attempt_candidate env c k first left candidate st) (step_post n)"
  unfolding attempt_candidate_def
proof (rule guided_pbind[OF guided_negotiate_candidate])
  fix x :: "(RecoveryAction option \<times> run_state) step" and q'
  assume post: "\<forall>y. Inr x = Inr (Next y) \<longrightarrow> same_guard q q' \<and> (\<forall>a. fst y = Some a \<longrightarrow> approved_state c a q')"
  show "guided (audit_step env c (rk_namespace k) (rk_deployment k)) q' (case x of
       Finished report \<Rightarrow> preturn (Finished report)
     | Next (None, st1) \<Rightarrow> finish_with env c k st1 ''safe_stopped'' True
           (\<lambda>r. r\<lparr>rp_replanning_attempts := rs_replans st1\<rparr>)
     | Next (Some action, st1) \<Rightarrow> attempt_action env c k first left action st1) (step_post n)"
  proof (cases x)
    case (Finished rep)
    then show ?thesis by (auto intro: guided_preturn)
  next
    case (Next y)
    obtain selected st1 where y: "y = (selected, st1)" by (cases y)
    show ?thesis
    proof (cases selected)
      case None
      then show ?thesis by (simp add: Next y guided_finish_with)
    next
      case (Some a)
      with post Next y q have "approved_state c a q'" "\<not> au_locked q'" "Suc n \<le> au_budget q'"
        by (auto simp: same_guard_def)
      from guided_attempt_action[OF obs this] show ?thesis by (simp add: Next y Some)
    qed
  qed
qed simp

lemma guided_attempt_candidates:
  assumes "observed env (rk_namespace k) (rk_deployment k) (rk_evidence k)"
  shows "\<not> au_locked q \<Longrightarrow> length cs \<le> au_budget q \<Longrightarrow>
    guided (audit_step env c (rk_namespace k) (rk_deployment k)) q
      (attempt_candidates env c k first cs st) (\<lambda>r q'. True)"
proof (induction cs arbitrary: q first st)
  case Nil
  then show ?case by (simp add: guided_preturn)
next
  case (Cons candidate rest)
  from Cons.prems have n: "Suc (length rest) \<le> au_budget q" by simp
  show ?case
    unfolding attempt_candidates.simps
  proof (rule guided_pbind[OF guided_attempt_candidate[OF assms Cons.prems(1) n]])
    fix x :: "run_state step" and q'
    assume "step_post (length rest) (Inr x) q'"
    with Cons.IH show "guided (audit_step env c (rk_namespace k) (rk_deployment k)) q'
      (case x of Finished report \<Rightarrow> preturn (Finished report)
       | Next st' \<Rightarrow> attempt_candidates env c k False rest st') (\<lambda>r q'. True)"
      by (cases x) (auto intro: guided_preturn simp: step_post_def)
  qed simp
qed

lemma exhausted_neutral: "emits (neutral c) (exhausted_report env c k st)"
  unfolding exhausted_report_def
  by (intro emits_pbind finalize_neutral silent_emits base_report_silent)

lemma guided_any_neutral:
  "emits (neutral c) m \<Longrightarrow> guided (audit_step env c ns dep) q m (\<lambda>r q'. True)"
  by (rule guided_mono[OF guided_neutral]) auto

lemma guided_run_candidates:
  assumes obs: "observed env (rk_namespace k) (rk_deployment k) (rk_evidence k)"
    and q: "\<not> au_locked q" "nat (pf_max_replan_attempts (mc_protocol c) + 1) \<le> au_budget q"
  shows "guided (audit_step env c (rk_namespace k) (rk_deployment k)) q
    (run_candidates env c k decisions actions) (\<lambda>r q'. True)"
proof -
  obtain candidates rejects where b: "build_candidates (mc_protocol c) (rk_evidence k) (rk_namespace k)
            (rk_deployment k) (dg_confidence (rk_diagnosis k)) 0 actions = (candidates, rejects)"
    by (cases "build_candidates (mc_protocol c) (rk_evidence k) (rk_namespace k)
            (rk_deployment k) (dg_confidence (rk_diagnosis k)) 0 actions")
  have "length (take (nat (pf_max_replan_attempts (mc_protocol c) + 1)) candidates) \<le> au_budget q"
    using q(2) by simp
  note loop = guided_attempt_candidates[OF obs q(1) this]
  show ?thesis
    unfolding run_candidates_def b Let_def prod.case
    by (rule guided_pbind[OF loop])
      (auto split: step.split intro: guided_preturn guided_any_neutral exhausted_neutral)
qed

lemma guided_run_proposals:
  assumes obs: "observed env (rk_namespace k) (rk_deployment k) (rk_evidence k)"
    and q: "\<not> au_locked q" "nat (pf_max_replan_attempts (mc_protocol c) + 1) \<le> au_budget q"
  shows "guided (audit_step env c (rk_namespace k) (rk_deployment k)) q
    (run_proposals env c k decision) (\<lambda>r q'. True)"
proof -
  have ask: "emits (neutral c) (ptry
       (pbind (pcall (ce_propose env (ad_name adapter) (rk_diagnosis k) (rk_evidence k))) (\<lambda>v.
        pbind (plift (normalize_proposal_output (ad_name adapter) v)) (\<lambda>actions.
        pbind (check_runtime_control env c) (\<lambda>_. preturn (Next actions)))))
       (\<lambda>e. pbind (base_report env c k [decision] [] [] ''safe_stopped'' (human_on_failure c)) (\<lambda>r.
            pbind (finalize_report env c (r\<lparr>rp_configuration_errors :=
              [ad_name adapter @ '' propose failed: '' @ exn_str e]\<rparr>)) (\<lambda>final.
            preturn (Finished final)))))" for adapter :: AgentAdapter
    by (intro emits_ptry emits_pbind finalize_neutral emits_preturn)
      (auto intro: silent_emits)
  show ?thesis
    unfolding run_proposals_def
    by (intro guided_plift_bind guided_neutral_bind[OF ask])
      (auto split: step.split intro: guided_preturn guided_run_candidates[OF obs q])
qed

lemma guided_run_diagnosed:
  assumes obs: "observed env (rk_namespace k) (rk_deployment k) (rk_evidence k)"
    and q: "\<not> au_locked q" "nat (pf_max_replan_attempts (mc_protocol c) + 1) \<le> au_budget q"
  shows "guided (audit_step env c (rk_namespace k) (rk_deployment k)) q
    (run_diagnosed env c k decision) (\<lambda>r q'. True)"
  unfolding run_diagnosed_def Let_def
  by (intro guided_record_bind guided_check_bind guided_if guided_silent_bind base_report_silent
      guided_any_neutral finalize_neutral guided_run_proposals[OF obs])
    (use q in \<open>simp_all add: record_validation_state\<close>)

lemma diagnose_silent [simp]: "silent (diagnose env c run_id adapter evidence metric threshold deployment)"
  by (simp add: diagnose_def split: prod.split)

lemma guided_run_with_evidence:
  assumes obs: "observed env ns dep evidence"
    and q: "\<not> au_locked q" "nat (pf_max_replan_attempts (mc_protocol c) + 1) \<le> au_budget q"
  shows "guided (audit_step env c ns dep) q
    (run_with_evidence env c run_id ns dep metric threshold evidence) (\<lambda>r q'. True)"
proof -
  have ask: "emits (neutral c) (ptry
       (pbind (diagnose env c run_id adapter evidence metric threshold dep) (\<lambda>d.
        preturn (Next d)))
       (\<lambda>e. pbind (configuration_failure_report env c run_id
              [ad_name adapter @ '' diagnose failed: '' @ exn_str e]) (\<lambda>r.
            pbind (finalize_report env c (r\<lparr>rp_evidence := Some evidence\<rparr>)) (\<lambda>final.
            preturn (Finished final)))))" for adapter :: AgentAdapter
    by (intro emits_ptry emits_pbind finalize_neutral emits_preturn) (auto intro: silent_emits)
  have go: "guided (audit_step env c ns dep) q (run_diagnosed env c
      \<lparr>rk_run_id = run_id, rk_namespace = ns, rk_deployment = dep, rk_evidence = evidence,
       rk_diagnosis = diagnosis\<rparr> decision) (\<lambda>r q'. True)" for diagnosis decision
    using guided_run_diagnosed[of env "\<lparr>rk_run_id = run_id, rk_namespace = ns, rk_deployment = dep,
        rk_evidence = evidence, rk_diagnosis = diagnosis\<rparr>" q c decision] obs q by simp
  have evidence: "emits (neutral c) (record_event env c ''evidence'' (EvEvidence evidence))"
    by (rule emits_record_stored) simp
  show ?thesis
    unfolding run_with_evidence_def
    by (intro guided_neutral_bind[OF evidence] guided_plift_bind guided_neutral_bind[OF ask])
      (auto split: step.split prod.split intro: guided_preturn go)
qed

lemma begin_runs_silent [simp]: "silent (begin_adapter_runs env run_id as)"
  by (induction as) simp_all

lemma protocol_check_silent [simp]: "silent (protocol_check env c)"
  by (simp add: protocol_check_def)

lemma guided_run:
  assumes "nat (pf_max_replan_attempts (mc_protocol c) + 1) \<le> au_budget q" and "\<not> au_locked q"
  shows "guided (audit_step env c ns dep) q (run env c ns dep metric threshold) (\<lambda>r q'. True)"
proof -
  have protocol: "emits (neutral c) (record_event env c ''protocol_profiles'' (EvProtocol x))" for x
    by (rule emits_record_stored) simp
  have collected: "guided (audit_step env c ns dep) q
      (pbind (pcall (ce_collect env ns dep)) (\<lambda>evidence.
       pbind (check_runtime_control env c) (\<lambda>_.
       run_with_evidence env c run_id ns dep metric threshold evidence))) (\<lambda>r q'. True)" for run_id
  proof (rule guided_pcall_bind)
    fix x w w'
    assume "ce_collect env ns dep w = (Inr x, w')"
    then have "observed env ns dep x" by (auto simp: observed_def)
    from guided_run_with_evidence[OF this assms(2,1)]
    show "guided (audit_step env c ns dep) q (pbind (check_runtime_control env c) (\<lambda>_.
       run_with_evidence env c run_id ns dep metric threshold x)) (\<lambda>r q'. True)"
      by (intro guided_check_bind) simp_all
  qed simp
  show ?thesis
    unfolding run_def
    by (rule guided_check_bind, simp, rule guided_trace_bind, simp,
        rule guided_silent_bind[OF protocol_check_silent], simp,
        rule guided_silent_bind[OF begin_runs_silent], simp,
        rule guided_silent_bind[OF protocol_check_silent], simp,
        rule guided_neutral_bind[OF protocol], simp)
      (intro guided_if guided_check_bind collected guided_any_neutral emits_pbind silent_emits
        configuration_report_silent finalize_neutral TrueI)
qed

text \<open>
  C1. Run safety. Whatever the adapters, the monitor, the clocks, the event store and the lock
  provider do, every effect of a run is allowed by the audit monitor, in order: each command is the
  rendered form of an action that the validator accepts, on the run's own target, inside the
  protocol's action space, scaling out only above an observed replica count; it runs while the
  operation lock of that target is held (in real mode with its own lock); with an event store it
  comes right after the recorded proposal, approving round, passed validation and dispatch of
  exactly that action; and there are at most \<open>max_replan_attempts + 1\<close> commands.
\<close>

theorem run_audited:
  "\<exists>new q. sys_trace (snd (run env c ns dep metric threshold s)) = new @ sys_trace s \<and>
     follow (audit_step env c ns dep)
       (audit_start (nat (pf_max_replan_attempts (mc_protocol c) + 1))) (rev new) = Some q"
proof -
  have "guided (audit_step env c ns dep) (audit_start (nat (pf_max_replan_attempts (mc_protocol c) + 1)))
      (run env c ns dep metric threshold) (\<lambda>r q'. True)"
    by (rule guided_run) (simp_all add: audit_start_def)
  from guidedD[OF this, of s] show ?thesis
    unfolding reaches_def by (metis prod.collapse)
qed

section \<open>Commands of a run\<close>

lemma audit_step_command:
  "is_command e \<Longrightarrow> audit_step env c ns dep q e = Some q' \<Longrightarrow>
   au_budget q = Suc (au_budget q') \<and> (\<exists>a. executor_effect_ok (executor_of c) a e)"
  by (cases e) (auto simp: is_command_def audit_step_def may_execute_def split: if_splits)

lemma audit_step_other:
  "\<not> is_command e \<Longrightarrow> audit_step env c ns dep q e = Some q' \<Longrightarrow> au_budget q' = au_budget q"
  using same_guard_record[of q _ q]
  by (cases e) (auto simp: is_command_def audit_step_def same_guard_def split: if_splits)

lemma follow_commands:
  "follow (audit_step env c ns dep) q es = Some q' \<Longrightarrow>
   length (filter is_command es) + au_budget q' = au_budget q \<and>
   (\<forall>e \<in> set es. is_command e \<longrightarrow> (\<exists>a. executor_effect_ok (executor_of c) a e))"
proof (induction es arbitrary: q)
  case (Cons e es)
  then obtain q1 where q1: "audit_step env c ns dep q e = Some q1"
    "follow (audit_step env c ns dep) q1 es = Some q'" by (auto split: option.splits)
  from Cons.IH[OF q1(2)] show ?case
    using audit_step_command[OF _ q1(1)] audit_step_other[OF _ q1(1)] by (cases "is_command e") auto
qed simp

text \<open>What the process runner sees in each mode.\<close>

definition mode_respected :: "MutualSupervisionCoordinator \<Rightarrow> effect \<Rightarrow> bool" where
  "mode_respected c e \<longleftrightarrow> (case e of
       Ran argv \<Rightarrow> mc_mode c \<noteq> MOCK \<and> mc_backend c = PYTHON \<and>
         (mc_mode c = DRY_RUN \<longrightarrow> last argv = ''--dry-run=server'' \<or> take 2 argv = [''kubectl'', ''get''])
     | AskedGoGuard r \<Rightarrow> mc_backend c = GO \<and> gg_mode r = mode_value (mc_mode c)
     | _ \<Rightarrow> True)"

lemma executor_effect_mode:
  "executor_effect_ok (executor_of c) a e \<Longrightarrow> mode_respected c e"
  by (cases e; cases "ra_kind a")
    (auto simp: executor_effect_ok_def executor_of_def mode_respected_def mutating_def
      recovery_words_def)

text \<open>
  C3. The mode is respected and the number of commands is bounded: a mock run on the Python backend
  starts no process, a dry run only starts read-only commands and commands that end in
  \<open>--dry-run=server\<close>, and no run issues more than \<open>max_replan_attempts + 1\<close> commands.
\<close>

theorem run_commands_bounded:
  "\<exists>new. sys_trace (snd (run env c ns dep metric threshold s)) = new @ sys_trace s \<and>
     list_all (mode_respected c) new \<and>
     length (filter is_command new) \<le> nat (pf_max_replan_attempts (mc_protocol c) + 1)"
proof -
  let ?start = "audit_start (nat (pf_max_replan_attempts (mc_protocol c) + 1))"
  have "guided (audit_step env c ns dep) ?start (run env c ns dep metric threshold) (\<lambda>r q'. True)"
    by (rule guided_run) (simp_all add: audit_start_def)
  from guidedD[OF this, of s] obtain new q where
    new: "sys_trace (snd (run env c ns dep metric threshold s)) = new @ sys_trace s"
    and run: "follow (audit_step env c ns dep) ?start (rev new) = Some q"
    unfolding reaches_def by (metis prod.collapse)
  from follow_commands[OF run] have
    "length (filter is_command new) \<le> nat (pf_max_replan_attempts (mc_protocol c) + 1)"
    by (auto simp: audit_start_def rev_filter[symmetric])
  moreover have "mode_respected c e" if "e \<in> set new" for e
  proof (cases "is_command e")
    case True
    with that follow_commands[OF run] obtain a where "executor_effect_ok (executor_of c) a e" by auto
    then show ?thesis by (rule executor_effect_mode)
  next
    case False
    then show ?thesis by (cases e) (simp_all add: is_command_def mode_respected_def)
  qed
  ultimately show ?thesis using new by (auto simp: list_all_iff)
qed

end
