(* ===== verification/RunReport.thy ===== *)
theory RunReport
  imports RunSafety
begin

text \<open>
  What the report of a mutual supervision run means: which statuses exist, what a valid report
  promises about the action, its validation, its execution and its assessment, when a human must
  look, and how large the report's lists can be.
\<close>

section \<open>The meaning of a report\<close>

definition success_statuses :: "string set" where
  "success_statuses = {''recovered'', ''recovered_after_replan'', ''dry_run_validated''}"

definition failure_statuses :: "string set" where
  "failure_statuses = {''safe_stopped'', ''safe_failure''}"

text \<open>The evidence behind a valid report.\<close>

definition earned :: "MutualSupervisionCoordinator \<Rightarrow> Report \<Rightarrow> bool" where
  "earned c r \<longleftrightarrow> sv_valid (rp_safety_validation r) \<and> cr_valid (rp_execution_result r) \<and>
     (\<exists>a. rp_selected_action r = Some a \<and> safe_action (mc_validator c) a \<and>
        render_recovery_command a = Inr (sv_command (rp_safety_validation r)) \<and>
        (if rp_final_status r = ''dry_run_validated''
         then mc_mode c = DRY_RUN \<and> rp_executed_actions r = [] \<and> rp_validated_actions r = [a] \<and>
           rp_recovery_monitoring r = NotMeasured
         else mc_mode c \<noteq> DRY_RUN \<and> rp_executed_actions r \<noteq> [] \<and> last (rp_executed_actions r) = a \<and>
           (\<exists>q. rp_recovery_monitoring r = Monitored q \<and> as_recovery_success q)))"

definition attempt_limit :: "MutualSupervisionCoordinator \<Rightarrow> nat" where
  "attempt_limit c = nat (pf_max_replan_attempts (mc_protocol c) + 1)"

definition round_limit :: "MutualSupervisionCoordinator \<Rightarrow> nat" where
  "round_limit c = nat (pf_max_negotiation_rounds (mc_protocol c))"

definition report_ok :: "MutualSupervisionCoordinator \<Rightarrow> Report \<Rightarrow> bool" where
  "report_ok c r \<longleftrightarrow>
     rp_final_status r \<in> success_statuses \<union> failure_statuses \<union> {''no_action_required''} \<and>
     rp_valid r = (rp_final_status r \<in> success_statuses) \<and>
     rp_human_review_required r = (rp_final_status r \<in> failure_statuses) \<and>
     (rp_valid r \<longrightarrow> earned c r) \<and>
     length (rp_executed_actions r) \<le> attempt_limit c \<and>
     (rp_configuration_errors r = [] \<longrightarrow> length (rp_rounds r) \<le> attempt_limit c * round_limit c)"

section \<open>Building reports\<close>

definition base_of ::
  "MutualSupervisionCoordinator \<Rightarrow> run_context \<Rightarrow> SupervisionDecision list
   \<Rightarrow> PeerReview list \<Rightarrow> NegotiationRound list \<Rightarrow> string \<Rightarrow> bool \<Rightarrow> Report" where
  "base_of c k decisions reviews rounds status human =
     (blank_report c (rk_run_id k) status human)
       \<lparr>rp_evidence := Some (rk_evidence k), rp_diagnosis := Some (rk_diagnosis k),
        rp_initial_decisions := decisions, rp_peer_reviews := reviews, rp_rounds := rounds,
        rp_consensus := (if rounds = [] then ''not_required'' else nr_consensus_status (last rounds))\<rparr>"

lemma integrity_human: "validate_integrity sha c' = Inr u \<Longrightarrow> pf_human_review_on_failure c' = VBool True"
  by (simp add: integrity_iff profile_valid_def)

lemma base_report_Inr:
  "base_report env c k ds rs rds status human s = (Inr r, s') \<Longrightarrow>
   r = base_of c k ds rs rds status human \<and> human_on_failure c"
  by (auto simp: base_report_def pbind_Inr base_of_def protocol_check_def human_on_failure_def
      dest: integrity_human)

lemma finalize_Inr:
  "finalize_report env c r s = (Inr r', s') \<Longrightarrow>
   r' = r\<lparr>rp_agent_contributions := agent_contributions r (dict_keys (mc_adapters c))\<rparr>"
  by (auto simp: finalize_report_def Let_def pbind_Inr split: if_splits)

lemma report_ok_contributions [simp]: "report_ok c (r\<lparr>rp_agent_contributions := x\<rparr>) = report_ok c r"
  by (simp add: report_ok_def earned_def)

lemma finish_with_ok:
  assumes "finish_with env c k st status human update s = (Inr x, s')"
    and "human_on_failure c \<Longrightarrow>
      report_ok c (update (base_of c k (rs_decisions st) (rs_reviews st) (rs_rounds st) status human))"
  shows "\<exists>rep. x = Finished rep \<and> report_ok c rep"
  using assms by (auto simp: finish_with_def pbind_Inr dest!: base_report_Inr finalize_Inr)

lemmas report_fields = report_ok_def base_of_def blank_report_def success_statuses_def
  failure_statuses_def attempt_limit_def round_limit_def

section \<open>Invariant of the loop\<close>

text \<open>After \<open>n\<close> attempts.\<close>

definition state_ok :: "MutualSupervisionCoordinator \<Rightarrow> nat \<Rightarrow> run_state \<Rightarrow> bool" where
  "state_ok c n st \<longleftrightarrow> length (rs_executed st) \<le> n \<and> length (rs_rounds st) \<le> n * round_limit c"

lemma state_ok_note [simp]: "state_ok c n (note_replan st a reason left) = state_ok c n st"
  by (simp add: state_ok_def note_replan_def)

lemma negotiate_rounds_limit:
  assumes "negotiate env c run_id diagnosis evidence cs offset s = (Inr (result, g), s')"
  shows "length (ng_rounds g) \<le> round_limit c"
proof (cases cs)
  case Nil
  with assms show ?thesis by (simp add: negotiate_def empty_negotiation_def)
next
  case (Cons candidate rest)
  with assms obtain proposer :: AgentAdapter where
    "negotiate_rounds env c run_id diagnosis evidence cs (ad_name proposer) (round_limit c)
       (offset + 1) (rc_action candidate) empty_negotiation s = (Inr (result, g), s')"
    by (auto simp: negotiate_def pbind_Inr round_limit_def)
  from negotiates_sound[OF negotiate_rounds_refines[OF this]] show ?thesis
    by (auto simp: empty_negotiation_def)
qed

text \<open>A state within the limits gives a report within the limits.\<close>

lemma limits_mono: "state_ok c n st \<Longrightarrow> n \<le> attempt_limit c \<Longrightarrow>
   length (rs_executed st) \<le> attempt_limit c \<and> length (rs_rounds st) \<le> attempt_limit c * round_limit c"
  unfolding state_ok_def by (meson le_trans mult_le_mono1)

lemma negotiate_candidate_ok:
  assumes "negotiate_candidate env c k candidate st s = (Inr x, s')" and "state_ok c n st"
  shows "(\<exists>rep. x = Finished rep \<and> report_ok c rep) \<or>
    (\<exists>selected st1. x = Next (selected, st1) \<and> state_ok c (Suc n) st1 \<and>
       length (rs_executed st1) \<le> n \<and> rs_executed st1 = rs_executed st)"
proof -
  let ?neg = "negotiate env c (rk_run_id k) (rk_diagnosis k) (rk_evidence k) [candidate]
      (int (length (rs_rounds st)))"
  let ?stop = "\<lambda>m ds rs rds. finish_with env c k
      (absorb st \<lparr>ng_decisions = ds, ng_reviews = rs, ng_rounds = rds\<rparr>) ''safe_stopped''
      (human_on_failure c) (\<lambda>r. r\<lparr>rp_configuration_errors := [m], rp_replanning_attempts := rs_replans st\<rparr>)"
  from assms(1) consider
    (returned) "pbind ?neg (\<lambda>(selected, g). pbind (check_runtime_control env c)
      (\<lambda>_. preturn (Next (selected, absorb st g)))) s = (Inr x, s')"
  | (raised) e s1 where "(case e of NegotiationFailure m ds rs rds \<Rightarrow> ?stop m ds rs rds | _ \<Rightarrow> pthrow e) s1 = (Inr x, s')"
    unfolding negotiate_candidate_def ptry_Inr by blast
  then show ?thesis
  proof cases
    case returned
    then obtain selected g s1 where neg: "?neg s = (Inr (selected, g), s1)"
      and x: "x = Next (selected, absorb st g)"
      by (auto simp: pbind_Inr)
    from negotiate_rounds_limit[OF neg] assms(2) show ?thesis
      by (auto simp: x state_ok_def absorb_def)
  next
    case raised
    then obtain m ds rs rds where stop: "?stop m ds rs rds s1 = (Inr x, s')" by (cases e) simp_all
    have "\<exists>rep. x = Finished rep \<and> report_ok c rep"
      by (rule finish_with_ok[OF stop]) (simp add: report_fields)
    then show ?thesis by blast
  qed
qed

text \<open>A state in the middle of attempt \<open>n + 1\<close>: its round limit is used, its execution is not.\<close>

definition midway :: "MutualSupervisionCoordinator \<Rightarrow> nat \<Rightarrow> run_state \<Rightarrow> bool" where
  "midway c n st \<longleftrightarrow> length (rs_executed st) \<le> n \<and> length (rs_rounds st) \<le> Suc n * round_limit c"

lemma midway_state: "midway c n st \<Longrightarrow> state_ok c (Suc n) st"
  by (simp add: midway_def state_ok_def)

definition passed :: "MutualSupervisionCoordinator \<Rightarrow> RecoveryAction \<Rightarrow> SafetyValidation \<Rightarrow> bool" where
  "passed c a v \<longleftrightarrow> sv_valid v \<and> safe_action (mc_validator c) a \<and>
     render_recovery_command a = Inr (sv_command v)"

lemma validate_action_passed:
  "validate_action c a = Inr v \<Longrightarrow> sv_valid v \<Longrightarrow> passed c a v"
  by (auto simp: validate_action_def passed_def no_validation_def validates_iff
      split: sum.splits exn.splits)

definition outcome_ok :: "MutualSupervisionCoordinator \<Rightarrow> nat \<Rightarrow> RecoveryAction \<Rightarrow> outcome \<Rightarrow> bool" where
  "outcome_ok c n a out \<longleftrightarrow> (case out of
       OutReport rep \<Rightarrow> report_ok c rep
     | OutContinue st \<Rightarrow> state_ok c (Suc n) st
     | OutPostFailure m ps execution assessment st \<Rightarrow> state_ok c (Suc n) st
     | OutDone execution assessment ps st \<Rightarrow> state_ok c (Suc n) st \<and> mc_mode c \<noteq> DRY_RUN \<and>
         (cr_valid execution \<longrightarrow> rs_executed st \<noteq> [] \<and> last (rs_executed st) = a))"

lemma conclude_dry_run_ok:
  assumes "conclude_dry_run env c k a v left execution st s = (Inr out, s')"
    and "midway c n st" and "passed c a v" and "mc_mode c = DRY_RUN" and "n < attempt_limit c"
  shows "outcome_ok c n a out"
proof (cases "cr_valid execution")
  case False
  with assms show ?thesis
    by (auto simp: conclude_dry_run_def outcome_ok_def dest: midway_state)
next
  case True
  let ?r = "(base_of c k (rs_decisions st) (rs_reviews st) (rs_rounds st) ''dry_run_validated'' False)
      \<lparr>rp_valid := True, rp_selected_action := Some a,
          rp_safety_validation := v, rp_execution_result := execution,
          rp_recovery_monitoring := NotMeasured, rp_validated_actions := [a],
          rp_executed_actions := [], rp_post_execution_reviews := [],
          rp_replanning_attempts := rs_replans st\<rparr>"
  have "length (rs_rounds st) \<le> attempt_limit c * round_limit c"
    using limits_mono[OF midway_state[OF assms(2)]] assms(5) by simp
  with assms(3,4) True have "report_ok c ?r"
    by (simp add: report_fields earned_def passed_def)
  moreover from assms(1) True have "\<exists>x. out = OutReport (?r\<lparr>rp_agent_contributions := x\<rparr>)"
    by (auto simp: conclude_dry_run_def pbind_Inr dest!: base_report_Inr finalize_Inr)
  ultimately show ?thesis by (auto simp: outcome_ok_def)
qed

lemma assess_execution_ok:
  assumes "assess_execution env c k aid a execution st s = (Inr out, s')"
    and "midway c n st" and "mc_mode c \<noteq> DRY_RUN"
  shows "outcome_ok c n a out"
proof -
  define st1 where "st1 = (if cr_valid execution then st\<lparr>rs_executed := rs_executed st @ [a]\<rparr> else st)"
  have st1: "state_ok c (Suc n) (st1\<lparr>rs_last_assessment := x\<rparr>)"
      "cr_valid execution \<longrightarrow> rs_executed st1 \<noteq> [] \<and> last (rs_executed st1) = a" for x
    using assms(2) by (auto simp: st1_def midway_def state_ok_def)
  obtain after assessment s1 where
    run: "ptry (pbind (post_execution_reviews env c (rk_run_id k) aid a after assessment (adapters_of c) [])
        (\<lambda>posts. preturn (OutDone execution assessment posts (st1\<lparr>rs_last_assessment := Some assessment\<rparr>))))
      (\<lambda>e. case e of PostReviewFailure m posts \<Rightarrow>
          preturn (OutPostFailure m posts execution assessment (st1\<lparr>rs_last_assessment := Some assessment\<rparr>))
        | _ \<Rightarrow> pthrow e) s1 = (Inr out, s')"
    using assms(1) unfolding assess_execution_def st1_def[symmetric] Let_def pbind_Inr by blast
  then consider (finished) "pbind (post_execution_reviews env c (rk_run_id k) aid a after assessment (adapters_of c) [])
        (\<lambda>posts. preturn (OutDone execution assessment posts (st1\<lparr>rs_last_assessment := Some assessment\<rparr>))) s1
        = (Inr out, s')"
    | (raised) e s2 where "(case e of PostReviewFailure m posts \<Rightarrow>
          preturn (OutPostFailure m posts execution assessment (st1\<lparr>rs_last_assessment := Some assessment\<rparr>))
        | _ \<Rightarrow> pthrow e) s2 = (Inr out, s')"
    unfolding ptry_Inr by blast
  then show ?thesis
  proof cases
    case finished
    then obtain ps where "out = OutDone execution assessment ps (st1\<lparr>rs_last_assessment := Some assessment\<rparr>)"
      by (auto simp: pbind_Inr)
    with st1 assms(3) show ?thesis by (simp add: outcome_ok_def)
  next
    case raised
    with st1 show ?thesis by (cases e) (auto simp: outcome_ok_def)
  qed
qed

lemma protected_section_ok:
  assumes "protected_section env c k aid a v left st s = (Inr out, s')"
    and "midway c n st" and "passed c a v" and "n < attempt_limit c"
  shows "outcome_ok c n a out"
proof -
  from assms(1) obtain execution s1 where
    run: "(if mc_mode c = DRY_RUN
       then conclude_dry_run env c k a v left execution (st\<lparr>rs_last_execution := execution\<rparr>)
       else assess_execution env c k aid a execution (st\<lparr>rs_last_execution := execution\<rparr>)) s1 = (Inr out, s')"
    unfolding protected_section_def Let_def pbind_Inr by blast
  have mid: "midway c n (st\<lparr>rs_last_execution := execution\<rparr>)"
    using assms(2) by (simp add: midway_def)
  show ?thesis
  proof (cases "mc_mode c = DRY_RUN")
    case True
    with run conclude_dry_run_ok[OF _ mid assms(3) _ assms(4)] show ?thesis by simp
  next
    case False
    with run assess_execution_ok[OF _ mid] show ?thesis by simp
  qed
qed

lemma pfinally_Inr: "pfinally m fin s = (Inr x, s') \<Longrightarrow> \<exists>s1. m s = (Inr x, s1)"
  by (auto simp: pfinally_def split: prod.splits sum.splits)

lemma execute_attempt_ok:
  assumes "execute_attempt env c k aid a v left st s = (Inr out, s')"
    and "midway c n st" and "passed c a v" and "n < attempt_limit c"
  shows "outcome_ok c n a out"
proof -
  let ?body = "pbind (check_runtime_control env c) (\<lambda>_.
    with_operation_context env c (rk_namespace k) (rk_deployment k) (protected_section env c k aid a v left st))"
  from assms(1) consider (body) "?body s = (Inr out, s')"
    | (raised) e s1 where
      "(case e of OperationLockError m \<Rightarrow> lock_failure_report env c k a v st m | _ \<Rightarrow> pthrow e) s1 = (Inr out, s')"
    unfolding execute_attempt_def ptry_Inr by blast
  then show ?thesis
  proof cases
    case body
    then obtain s1 s2 where "protected_section env c k aid a v left st s1 = (Inr out, s2)"
      by (auto simp: pbind_Inr with_operation_context_def split: if_splits dest!: pfinally_Inr)
    from protected_section_ok[OF this assms(2-4)] show ?thesis .
  next
    case raised
    then obtain m where lock: "lock_failure_report env c k a v st m s1 = (Inr out, s')"
      by (cases e) simp_all
    let ?r = "(base_of c k (rs_decisions st) (rs_reviews st) (rs_rounds st) ''safe_stopped'' True)
       \<lparr>rp_selected_action := Some a, rp_safety_validation := v,
        rp_execution_result := empty_result (mode_value (mc_mode c)) m\<rparr>"
    from lock have "\<exists>x. out = OutReport (?r\<lparr>rp_agent_contributions := x\<rparr>)"
      by (auto simp: lock_failure_report_def pbind_Inr dest!: base_report_Inr finalize_Inr)
    moreover have "report_ok c ?r"
      using limits_mono[OF midway_state[OF assms(2)]] assms(4) by (simp add: report_fields)
    ultimately show ?thesis by (auto simp: outcome_ok_def)
  qed
qed

text \<open>What one step of the candidate loop leaves behind.\<close>

definition step_ok :: "MutualSupervisionCoordinator \<Rightarrow> nat \<Rightarrow> run_state step \<Rightarrow> bool" where
  "step_ok c n x = (case x of Finished rep \<Rightarrow> report_ok c rep | Next st \<Rightarrow> state_ok c n st)"

lemma step_ok_simps [simp]:
  "step_ok c n (Finished rep) = report_ok c rep"
  "step_ok c n (Next st) = state_ok c n st"
  by (simp_all add: step_ok_def)

lemma finish_step_ok:
  assumes "finish_with env c k st status human update s = (Inr x, s')"
    and "human_on_failure c \<Longrightarrow>
      report_ok c (update (base_of c k (rs_decisions st) (rs_reviews st) (rs_rounds st) status human))"
  shows "step_ok c n x"
  using finish_with_ok[OF assms] by auto

lemma conclude_attempt_ok:
  assumes "conclude_attempt env c k first a v left out s = (Inr x, s')"
    and "outcome_ok c n a out" and "passed c a v" and "n < attempt_limit c"
  shows "step_ok c (Suc n) x"
proof (cases out)
  case (OutReport rep)
  with assms(1,2) show ?thesis by (simp add: conclude_attempt_def outcome_ok_def)
next
  case (OutContinue st)
  with assms(1,2) show ?thesis by (simp add: conclude_attempt_def outcome_ok_def)
next
  case (OutPostFailure m ps execution assessment st)
  with assms(2) have st: "state_ok c (Suc n) st" by (simp add: outcome_ok_def)
  from OutPostFailure assms(1) have "finish_with env c k st ''safe_failure'' (human_on_failure c)
      (\<lambda>r. (executed_report st a v execution assessment (rs_post_reviews st @ ps) r)
        \<lparr>rp_configuration_errors := [m]\<rparr>) s = (Inr x, s')"
    by (simp add: conclude_attempt_def Let_def)
  then show ?thesis
    by (rule finish_step_ok)
      (use limits_mono[OF st] assms(4) in \<open>simp add: report_fields executed_report_def\<close>)
next
  case (OutDone execution assessment reviews st)
  with assms(2) have st: "state_ok c (Suc n) st" "mc_mode c \<noteq> DRY_RUN"
    and last: "cr_valid execution \<longrightarrow> rs_executed st \<noteq> [] \<and> last (rs_executed st) = a"
    by (simp_all add: outcome_ok_def)
  let ?good = "cr_valid execution \<and> as_recovery_success assessment \<and> list_all po_approved reviews"
  show ?thesis
  proof (cases ?good)
    case False
    with OutDone assms(1) st show ?thesis
      by (auto simp: conclude_attempt_def state_ok_def note_replan_def)
  next
    case True
    with OutDone assms(1) have "finish_with env c k (st\<lparr>rs_post_reviews := rs_post_reviews st @ reviews\<rparr>)
       (if first then ''recovered'' else ''recovered_after_replan'') False
       (\<lambda>r. (executed_report (st\<lparr>rs_post_reviews := rs_post_reviews st @ reviews\<rparr>) a v execution assessment
          (rs_post_reviews st @ reviews) r)\<lparr>rp_valid := True\<rparr>) s = (Inr x, s')"
      by (simp add: conclude_attempt_def Let_def)
    then show ?thesis
      by (rule finish_step_ok)
        (use limits_mono[OF st(1)] assms(3,4) st(2) last True in
          \<open>simp add: report_fields executed_report_def earned_def passed_def\<close>)
  qed
qed

lemma attempt_action_ok:
  assumes "attempt_action env c k first left a st0 s = (Inr x, s')"
    and "midway c n st0" and "n < attempt_limit c"
  shows "step_ok c (Suc n) x"
proof -
  let ?st = "st0\<lparr>rs_last_action := Some a\<rparr>"
  let ?err = "action_semantic_error a (mc_protocol c) (rk_evidence k) (rk_namespace k) (rk_deployment k)"
  note mid = midway_state[OF assms(2)]
  show ?thesis
  proof (cases "?err = ''''")
    case False
    with assms(1) mid show ?thesis
      by (auto simp: attempt_action_def Let_def pbind_Inr state_ok_def note_replan_def)
  next
    case True
    then obtain v s1 where v: "validate_action c a = Inr v" and
      rest: "(if \<not> sv_valid v then finish_with env c k (?st\<lparr>rs_last_validation := v\<rparr>) ''safe_stopped'' True
               (\<lambda>r. r\<lparr>rp_selected_action := Some a, rp_safety_validation := v\<rparr>)
             else pbind (case nr_selected_action_id (last (rs_rounds (?st\<lparr>rs_last_validation := v\<rparr>))) of
                 Some i \<Rightarrow> if i \<noteq> '''' then preturn i else new_trace_id env ''action''
               | None \<Rightarrow> new_trace_id env ''action'') (\<lambda>action_id.
             pbind (execute_attempt env c k action_id a v left (?st\<lparr>rs_last_validation := v\<rparr>)) (\<lambda>out.
             conclude_attempt env c k first a v left out))) s1 = (Inr x, s')"
      using assms(1) unfolding attempt_action_def Let_def
      by (auto simp: pbind_Inr plift_def)
    show ?thesis
    proof (cases "sv_valid v")
      case False
      with rest have "finish_with env c k (?st\<lparr>rs_last_validation := v\<rparr>) ''safe_stopped'' True
               (\<lambda>r. r\<lparr>rp_selected_action := Some a, rp_safety_validation := v\<rparr>) s1 = (Inr x, s')" by simp
      then show ?thesis
        by (rule finish_step_ok) (use limits_mono[OF mid] assms(3) in \<open>simp add: report_fields\<close>)
    next
      case True
      note pass = validate_action_passed[OF v True]
      from rest True obtain aid out s2 s3 where
        ex: "execute_attempt env c k aid a v left (?st\<lparr>rs_last_validation := v\<rparr>) s2 = (Inr out, s3)" and
        co: "conclude_attempt env c k first a v left out s3 = (Inr x, s')"
        by (auto simp only: pbind_Inr if_False not_True_eq_False simp_thms)
      have "midway c n (?st\<lparr>rs_last_validation := v\<rparr>)"
        using assms(2) by (simp add: midway_def)
      from conclude_attempt_ok[OF co execute_attempt_ok[OF ex this pass assms(3)] pass assms(3)]
      show ?thesis .
    qed
  qed
qed

lemma attempt_candidate_ok:
  assumes "attempt_candidate env c k first left candidate st s = (Inr x, s')"
    and "state_ok c n st" and "n < attempt_limit c"
  shows "step_ok c (Suc n) x"
proof -
  from assms(1) obtain y s1 where neg: "negotiate_candidate env c k candidate st s = (Inr y, s1)"
    and rest: "(case y of
       Finished report \<Rightarrow> preturn (Finished report)
     | Next (None, st1) \<Rightarrow>
         finish_with env c k st1 ''safe_stopped'' True (\<lambda>r. r\<lparr>rp_replanning_attempts := rs_replans st1\<rparr>)
     | Next (Some action, st1) \<Rightarrow> attempt_action env c k first left action st1) s1 = (Inr x, s')"
    by (auto simp: attempt_candidate_def pbind_Inr)
  from negotiate_candidate_ok[OF neg assms(2)] consider
    rep where "y = Finished rep" "report_ok c rep"
  | selected st1 where "y = Next (selected, st1)" "state_ok c (Suc n) st1" "midway c n st1"
    by (auto simp: midway_def state_ok_def)
  then show ?thesis
  proof cases
    case 1
    with rest show ?thesis by simp
  next
    case (2 selected st1)
    show ?thesis
    proof (cases selected)
      case None
      with rest 2(1) have "finish_with env c k st1 ''safe_stopped'' True
          (\<lambda>r. r\<lparr>rp_replanning_attempts := rs_replans st1\<rparr>) s1 = (Inr x, s')" by simp
      then show ?thesis
        by (rule finish_step_ok) (use limits_mono[OF 2(2)] assms(3) in \<open>simp add: report_fields\<close>)
    next
      case (Some a)
      with rest 2(1) have "attempt_action env c k first left a st1 s1 = (Inr x, s')" by simp
      from attempt_action_ok[OF this 2(3) assms(3)] show ?thesis .
    qed
  qed
qed

lemma attempt_candidates_ok:
  assumes "attempt_candidates env c k first cs st s = (Inr x, s')"
    and "state_ok c n st" and "n + length cs \<le> attempt_limit c"
  shows "step_ok c (n + length cs) x"
  using assms
proof (induction cs arbitrary: first st s n)
  case Nil
  then show ?case by simp
next
  case (Cons candidate rest)
  from Cons.prems(1) obtain y s1 where
    one: "attempt_candidate env c k first (rest \<noteq> []) candidate st s = (Inr y, s1)" and
    rest: "(case y of Finished report \<Rightarrow> preturn (Finished report)
       | Next st' \<Rightarrow> attempt_candidates env c k False rest st') s1 = (Inr x, s')"
    by (auto simp: pbind_Inr)
  from Cons.prems(3) have "n < attempt_limit c" by simp
  with one Cons.prems(2) have y: "step_ok c (Suc n) y" by (rule attempt_candidate_ok)
  show ?case
  proof (cases y)
    case (Finished rep)
    with rest y show ?thesis by auto
  next
    case (Next st')
    with rest y Cons.IH[of False st' s1 "Suc n"] Cons.prems(3) show ?thesis by simp
  qed
qed

lemma exhausted_report_ok:
  assumes "exhausted_report env c k st s = (Inr rep, s')"
    and "state_ok c n st" and "n \<le> attempt_limit c"
  shows "report_ok c rep"
proof -
  let ?r = "(base_of c k (rs_decisions st) (rs_reviews st) (rs_rounds st) ''safe_failure'' True)
      \<lparr>rp_selected_action := rs_last_action st,
       rp_safety_validation := rs_last_validation st, rp_execution_result := rs_last_execution st,
       rp_recovery_monitoring :=
         (case rs_last_assessment st of None \<Rightarrow> NoMonitoring | Some a \<Rightarrow> Monitored a),
       rp_executed_actions := rs_executed st, rp_post_execution_reviews := rs_post_reviews st,
       rp_replanning_attempts := rs_replans st\<rparr>"
  from assms(1) obtain x where "rep = ?r\<lparr>rp_agent_contributions := x\<rparr>"
    by (auto simp: exhausted_report_def pbind_Inr dest!: base_report_Inr finalize_Inr)
  moreover have "report_ok c ?r"
    using limits_mono[OF assms(2,3)] by (simp add: report_fields)
  ultimately show ?thesis by simp
qed

lemma run_candidates_ok:
  assumes "run_candidates env c k ds actions s = (Inr rep, s')"
  shows "report_ok c rep"
proof -
  obtain cs rejects where build: "build_candidates (mc_protocol c) (rk_evidence k) (rk_namespace k)
            (rk_deployment k) (dg_confidence (rk_diagnosis k)) 0 actions = (cs, rejects)" by force
  let ?tried = "take (nat (pf_max_replan_attempts (mc_protocol c) + 1)) cs"
  let ?st = "initial_state c ds (cs \<noteq> []) rejects"
  from assms obtain y s1 where
    loop: "attempt_candidates env c k True ?tried ?st s = (Inr y, s1)" and
    rest: "(case y of Finished report \<Rightarrow> preturn report | Next st \<Rightarrow> exhausted_report env c k st) s1
        = (Inr rep, s')"
    by (auto simp: run_candidates_def build pbind_Inr)
  have start: "state_ok c 0 ?st" by (simp add: state_ok_def initial_state_def)
  have len: "length ?tried \<le> attempt_limit c" by (simp add: attempt_limit_def)
  with loop start have y: "step_ok c (length ?tried) y"
    using attempt_candidates_ok[of env c k True ?tried ?st s y s1 0] by simp
  show ?thesis
  proof (cases y)
    case (Finished r)
    with rest y show ?thesis by simp
  next
    case (Next st)
    with rest y len show ?thesis by (auto intro: exhausted_report_ok)
  qed
qed

section \<open>The whole run\<close>

text \<open>Reports built outside the loop.\<close>

lemma early_report_ok:
  assumes "pbind (base_report env c k [d] [] [] status human) (\<lambda>r. finalize_report env c (update r)) s = (Inr rep, s')"
    and "human_on_failure c \<Longrightarrow> report_ok c (update (base_of c k [d] [] [] status human))"
  shows "report_ok c rep"
  using assms by (auto simp: pbind_Inr dest!: base_report_Inr finalize_Inr)

lemma configuration_report_ok:
  "configuration_failure_report env c run_id errors s = (Inr r, s') \<Longrightarrow> report_ok c r"
  by (auto simp: pbind_Inr configuration_failure_report_def protocol_check_def human_on_failure_def
      report_fields dest: integrity_human)

lemma config_report_ok:
  assumes "pbind (configuration_failure_report env c run_id errors)
      (\<lambda>r. finalize_report env c (update r)) s = (Inr rep, s')"
    and "\<And>r. report_ok c (update r) = report_ok c r"
  shows "report_ok c rep"
proof -
  from assms(1) obtain r s1 where "configuration_failure_report env c run_id errors s = (Inr r, s1)"
    and "finalize_report env c (update r) s1 = (Inr rep, s')"
    by (auto simp: pbind_Inr)
  then show ?thesis
    using assms(2) configuration_report_ok by (auto dest!: finalize_Inr)
qed

lemma run_proposals_ok:
  assumes "run_proposals env c k d s = (Inr rep, s')"
  shows "report_ok c rep"
proof -
  from assms obtain name y s1 s2 where
    proposed: "ptry
       (pbind (pcall (ce_propose env name (rk_diagnosis k) (rk_evidence k))) (\<lambda>v.
        pbind (plift (normalize_proposal_output name v)) (\<lambda>actions.
        pbind (check_runtime_control env c) (\<lambda>_. preturn (Next actions)))))
       (\<lambda>e. pbind (base_report env c k [d] [] [] ''safe_stopped'' (human_on_failure c)) (\<lambda>r.
            pbind (finalize_report env c (r\<lparr>rp_configuration_errors :=
              [name @ '' propose failed: '' @ exn_str e]\<rparr>)) (\<lambda>final.
            preturn (Finished final)))) s1 = (Inr y, s2)" and
    rest: "(case y of Finished report \<Rightarrow> preturn report
       | Next actions \<Rightarrow> run_candidates env c k [d] actions) s2 = (Inr rep, s')"
    unfolding run_proposals_def pbind_Inr by blast
  show ?thesis
  proof (cases y)
    case (Next actions)
    with rest show ?thesis by (auto intro: run_candidates_ok)
  next
    case (Finished r)
    from proposed obtain e s3 where
      "pbind (base_report env c k [d] [] [] ''safe_stopped'' (human_on_failure c)) (\<lambda>r.
            finalize_report env c (r\<lparr>rp_configuration_errors :=
              [name @ '' propose failed: '' @ exn_str e]\<rparr>)) s3 = (Inr r, s2)"
      unfolding ptry_Inr by (auto simp: pbind_Inr Finished)
    then have "report_ok c r"
      by (rule early_report_ok) (simp add: report_fields)
    with rest Finished show ?thesis by simp
  qed
qed

lemma run_diagnosed_ok:
  assumes "run_diagnosed env c k d s = (Inr rep, s')"
  shows "report_ok c rep"
proof -
  from assms obtain s1 where
    rest: "(if \<not> sd_approved d then
       (let missing = missing_requested_metric (rk_diagnosis k) in
        pbind (base_report env c k [d] [] []
          (if missing then ''safe_stopped'' else ''no_action_required'')
          (if missing then human_on_failure c else False)) (finalize_report env c))
     else run_proposals env c k d) s1 = (Inr rep, s')"
    unfolding run_diagnosed_def pbind_Inr by blast
  show ?thesis
  proof (cases "sd_approved d")
    case True
    with rest show ?thesis by (auto intro: run_proposals_ok)
  next
    case False
    let ?missing = "missing_requested_metric (rk_diagnosis k)"
    from False rest have "pbind (base_report env c k [d] [] []
          (if ?missing then ''safe_stopped'' else ''no_action_required'')
          (if ?missing then human_on_failure c else False)) (finalize_report env c) s1 = (Inr rep, s')"
      by (simp only: Let_def simp_thms if_True)
    then show ?thesis
      by (rule early_report_ok) (simp add: report_fields)
  qed
qed

lemma run_with_evidence_ok:
  assumes "run_with_evidence env c run_id ns dep metric threshold evidence s = (Inr rep, s')"
  shows "report_ok c rep"
proof -
  from assms obtain adapter y s1 s2 where
    diagnosed: "ptry
       (pbind (diagnose env c run_id adapter evidence metric threshold dep) (\<lambda>d. preturn (Next d)))
       (\<lambda>e. pbind (configuration_failure_report env c run_id
              [ad_name adapter @ '' diagnose failed: '' @ exn_str e]) (\<lambda>r.
            pbind (finalize_report env c (r\<lparr>rp_evidence := Some evidence\<rparr>)) (\<lambda>final.
            preturn (Finished final)))) s1 = (Inr y, s2)" and
    rest: "(case y of Finished report \<Rightarrow> preturn report
     | Next (diagnosis, decision) \<Rightarrow>
         run_diagnosed env c \<lparr>rk_run_id = run_id, rk_namespace = ns,
           rk_deployment = dep, rk_evidence = evidence, rk_diagnosis = diagnosis\<rparr> decision) s2 = (Inr rep, s')"
    unfolding run_with_evidence_def pbind_Inr by blast
  show ?thesis
  proof (cases y)
    case (Next d)
    with rest show ?thesis by (cases d) (auto intro: run_diagnosed_ok)
  next
    case (Finished r)
    from diagnosed obtain e s3 where
      "pbind (configuration_failure_report env c run_id
              [ad_name adapter @ '' diagnose failed: '' @ exn_str e]) (\<lambda>r.
            finalize_report env c (r\<lparr>rp_evidence := Some evidence\<rparr>)) s3 = (Inr r, s2)"
      unfolding ptry_Inr by (auto simp: pbind_Inr Finished)
    then have "report_ok c r"
      by (rule config_report_ok) (simp add: report_ok_def earned_def)
    with rest Finished show ?thesis by simp
  qed
qed

text \<open>
  C2. A report that \<open>run\<close> returns carries one of the six statuses of the program; it is valid
  exactly for the three success statuses and asks for a human exactly for the two failure
  statuses. A valid report is earned: its selected action is a safe action, validated with the
  rendered command, its execution result is valid, and outside a dry run it was the last action
  executed and its recovery was measured as a success, while a dry run executed nothing. No
  report lists more executed actions than candidates the protocol allows, nor (without a
  negotiation error) more rounds than attempts times rounds.
\<close>

theorem run_report_sound:
  assumes "run env c namespace deployment metric threshold s = (Inr rep, s')"
  shows "report_ok c rep"
proof -
  from assms obtain run_id evidence s1 where
    "(if required_capability_errors c \<noteq> [] then
        pbind (configuration_failure_report env c run_id (required_capability_errors c))
          (\<lambda>r. finalize_report env c r)
      else
       pbind (check_runtime_control env c) (\<lambda>_.
       pbind (pcall (ce_collect env namespace deployment)) (\<lambda>evidence.
       pbind (check_runtime_control env c) (\<lambda>_.
       run_with_evidence env c run_id namespace deployment metric threshold evidence)))) s1 = (Inr rep, s')"
    unfolding run_def pbind_Inr by blast
  note ending = this
  show ?thesis
  proof (cases "required_capability_errors c = []")
    case True
    with ending obtain evidence s2 where
      "run_with_evidence env c run_id namespace deployment metric threshold evidence s2 = (Inr rep, s')"
      by (auto simp only: pbind_Inr simp_thms if_False)
    then show ?thesis by (rule run_with_evidence_ok)
  next
    case False
    with ending have "pbind (configuration_failure_report env c run_id (required_capability_errors c))
         (\<lambda>r. finalize_report env c r) s1 = (Inr rep, s')" by (simp only: simp_thms if_True)
    then show ?thesis by (rule config_report_ok) simp
  qed
qed

section \<open>A worked run\<close>

abbreviation unit_env :: "unit coordinator_env" where
  "unit_env \<equiv> demo_env"

lemma demo_profile_facts:
  "pf_version demo_profile = ''1''"
  "pf_human_review_on_failure demo_profile = VBool True"
  "nat (pf_max_replan_attempts demo_profile + 1) = Suc (Suc 0)"
  by code_simp+

lemma demo_diagnosed:
  "check_diagnosis_output ''ha'' ''run-0'' 0 ''1'' (evidence_refs (demo_snapshot 0 0) ''m'') ''web'' (VTuple
     [VDiagnosis (VStr ''web'') (VStr ''load'') (VStr ''high'') (VFloat (FFin 1)) (VDict []),
      VSupervisionDecision VNone VNone VNone (VStr ''ha'') (VStr ''diagnosis'') VNone
        (VBool True) (VStr ''down'') (VFloat (FFin 1)) VNone (VFloat (FFin 0)) VNone]) =
   Inr (demo_diagnosis\<lparr>dg_confidence := VFloat (FFin 1)\<rparr>,
     \<lparr>sd_decision_id = '''', sd_run_id = ''run-0'', sd_round_index = 0, sd_agent = ''ha'',
      sd_decision_type = ''diagnosis'', sd_proposed_action = None, sd_approved = True,
      sd_reason = ''down'', sd_confidence = VFloat (FFin 1),
      sd_evidence_refs = [''evidence_source:fake'', ''signal:m'', ''desired_replicas:0'',
        ''available_replicas:0''],
      sd_reward = VFloat (FFin 0), sd_policy_version = ''1''\<rparr>)"
  by code_simp

lemma demo_proposed:
  "normalize_proposal_output ''ha'' (VList [VRecoveryAction (VStr ''shop'') (VStr ''web'')
     (VKind SCALE_OUT) (VInt 1) (VStr ''load'')]) = Inr [demo_scale]"
  by code_simp

lemma demo_semantic: "action_semantic_error demo_scale demo_profile (demo_snapshot 0 0) ''shop'' ''web'' = ''''"
  by code_simp

lemma demo_candidates:
  "build_candidates demo_profile (demo_snapshot 0 0) ''shop'' ''web'' (VFloat (FFin 1)) 0 [demo_scale] =
   ([demo_candidate\<lparr>rc_confidence := VFloat (FFin 1)\<rparr>], [])"
proof -
  obtain y where "round64 (1 / 10) = FFin y" using round64_unit[of "1 / 10"] by auto
  then have "candidate_priority 0 = FFin 1" by (simp add: candidate_priority_def fsub_def fmax_def)
  then show ?thesis
    by (simp add: demo_semantic demo_candidate_def) (simp add: demo_scale_def)
qed

lemma demo_validated:
  "validate_action demo_coordinator demo_scale = Inr \<lparr>sv_valid = True,
     sv_command = ''kubectl scale deployment web --replicas=1 -n shop'', sv_stderr = ''''\<rparr>"
  by code_simp

lemma demo_capable: "required_capability_errors demo_coordinator = []"
  by code_simp

lemma demo_executed:
  "execute_recovery demo_guard_env (executor_of demo_coordinator) demo_scale s =
    (Inr (demo_command_result\<lparr>cr_command := ''kubectl scale deployment web --replicas=1 -n shop''\<rparr>),
     s\<lparr>sys_trace := Ran [''kubectl'', ''scale'', ''deployment'', ''web'', ''--replicas=1'', ''-n'', ''shop'']
       # sys_trace s\<rparr>)"
proof -
  have "validate_recovery_action demo_validator demo_scale = Inr demo_scale"
    "render_recovery_command demo_scale = Inr ''kubectl scale deployment web --replicas=1 -n shop''"
    "recovery_argv demo_scale =
       Inr [''kubectl'', ''scale'', ''deployment'', ''web'', ''--replicas=1'', ''-n'', ''shop'']"
    by code_simp+
  then show ?thesis
    by (simp add: executor_of_def execute_recovery_def prog_eval run_command_def demo_guard_env_def
        demo_command_result_def)
qed

lemma demo_posts:
  "post_execution_reviews unit_env demo_coordinator r aid a q e (adapters_of demo_coordinator) [] s = (Inr [], s)"
  by (simp add: adapters_of_def has_capability_def ask_post_reviewer_def prog_eval)

lemma demo_check [simp]: "check_runtime_control unit_env demo_coordinator s = (Inr (), s)"
  by (simp add: check_runtime_control_def prog_eval)

lemma demo_base [simp]:
  "base_report unit_env demo_coordinator k ds rs rds status human s =
     (Inr (base_of demo_coordinator k ds rs rds status human), s)"
  by (simp add: base_report_def protocol_check_def demo_profile_integrity prog_eval base_of_def)

lemma demo_contributions: "record_contributions unit_env demo_coordinator cs s =
   (Inr (), s\<lparr>sys_trace := rev (map (\<lambda>(a, k). Recorded ''agent_contributions'' (EvContribution a k)) cs) @ sys_trace s\<rparr>)"
  by (induction cs arbitrary: s) (auto simp: prog_eval)

lemma demo_finalize:
  "\<exists>s'. finalize_report unit_env demo_coordinator r s =
     (Inr (r\<lparr>rp_agent_contributions := agent_contributions r (dict_keys (mc_adapters demo_coordinator))\<rparr>), s')"
  by (simp add: finalize_report_def prog_eval Let_def demo_contributions del: demo_coordinator_fields(9))

definition demo_context :: "Diagnosis \<Rightarrow> run_context" where
  "demo_context d = \<lparr>rk_run_id = ''run-0'', rk_namespace = ''shop'', rk_deployment = ''web'',
      rk_evidence = demo_snapshot 0 0, rk_diagnosis = d\<rparr>"

definition done_well :: "outcome \<Rightarrow> bool" where
  "done_well out \<longleftrightarrow> (\<exists>execution assessment st. out = OutDone execution assessment [] st \<and>
     cr_valid execution \<and> as_recovery_success assessment)"

lemma demo_section:
  "delivers (protected_section unit_env demo_coordinator (demo_context d) aid demo_scale v left st) done_well"
  by (simp add: delivers_def protected_section_def prog_eval demo_executed assess_execution_def Let_def demo_posts
      demo_context_def done_well_def demo_command_result_def demo_assessment_def)

lemma demo_attempt:
  "delivers (execute_attempt unit_env demo_coordinator (demo_context d) aid demo_scale v left st) done_well"
  unfolding execute_attempt_def with_operation_context_def uses_lock_def
  apply (simp add: demo_section)
  by (intro delivers_ptry delivers_bind[where P = "\<lambda>_. True"] delivers_pfinally demo_section)
    (auto simp: delivers_def prog_eval)

lemma demo_finish:
  assumes "\<And>r. rp_final_status r = status \<Longrightarrow> rp_final_status (update r) = status"
  shows "delivers (finish_with unit_env demo_coordinator k st status human update)
     (\<lambda>x. \<exists>rep. x = Finished rep \<and> rp_final_status rep = status)"
  unfolding finish_with_def
proof (rule delivers_bind)
  show "delivers (base_report unit_env demo_coordinator k (rs_decisions st) (rs_reviews st) (rs_rounds st) status human)
     (\<lambda>r. rp_final_status r = status)"
    by (simp add: delivers_def base_of_def blank_report_def)
  fix r :: Report
  assume "rp_final_status r = status"
  then have "rp_final_status (update r) = status" by (rule assms)
  then show "delivers (pbind (finalize_report unit_env demo_coordinator (update r)) (\<lambda>final. preturn (Finished final)))
     (\<lambda>x. \<exists>rep. x = Finished rep \<and> rp_final_status rep = status)"
    by (intro delivers_bind[OF delivers_eq[OF demo_finalize]]) auto
qed

definition recovered_step :: "'a step \<Rightarrow> bool" where
  "recovered_step x \<longleftrightarrow> (\<exists>rep. x = Finished rep \<and> rp_final_status rep = ''recovered'')"

lemma demo_conclude:
  assumes "done_well out"
  shows "delivers (conclude_attempt unit_env demo_coordinator k True a v left out) recovered_step"
proof -
  from assms obtain execution assessment st where "out = OutDone execution assessment [] st"
    "cr_valid execution" "as_recovery_success assessment" by (auto simp: done_well_def)
  then show ?thesis
    unfolding recovered_step_def conclude_attempt_def
    by (simp add: Let_def) (rule demo_finish, simp add: executed_report_def)
qed

lemma demo_action:
  "delivers (attempt_action unit_env demo_coordinator (demo_context d) True left demo_scale st) recovered_step"
  unfolding attempt_action_def
  apply (simp add: demo_context_def demo_semantic demo_validated Let_def del: demo_coordinator_fields(9))
  apply (fold demo_context_def)
  by (intro delivers_bind[where P = "\<lambda>_. True"] delivers_bind[OF demo_attempt] demo_conclude)
    (auto simp: delivers_def record_validation_def prog_eval split: option.splits)

lemma demo_negotiated:
  "delivers (negotiate_candidate unit_env demo_coordinator (demo_context d) candidate st)
     (\<lambda>x. \<exists>st'. x = Next (Some (rc_action candidate), st')) \<or> rs_rounds st \<noteq> []"
  by (auto simp: negotiate_candidate_def demo_context_def delivers_def prog_eval demo_negotiate)

lemma demo_candidate_run:
  assumes "rs_rounds st = []" and "rc_action candidate = demo_scale"
  shows "delivers (attempt_candidate unit_env demo_coordinator (demo_context d) True left candidate st) recovered_step"
  unfolding attempt_candidate_def
  using demo_negotiated[of d candidate st] assms by (auto intro!: delivers_bind demo_action)

lemma demo_candidates_run:
  "delivers (run_candidates unit_env demo_coordinator (demo_context d) ds [demo_scale])
     (\<lambda>rep. rp_final_status rep = ''recovered'')" if "dg_confidence d = VFloat (FFin 1)"
proof -
  let ?st = "initial_state demo_coordinator ds True []"
  have "delivers (attempt_candidate unit_env demo_coordinator (demo_context d) True False
      (demo_candidate\<lparr>rc_confidence := VFloat (FFin 1)\<rparr>) ?st) recovered_step"
    by (rule demo_candidate_run) (simp_all add: initial_state_def demo_candidate_def)
  then have "delivers (attempt_candidates unit_env demo_coordinator (demo_context d) True
      [demo_candidate\<lparr>rc_confidence := VFloat (FFin 1)\<rparr>] ?st) recovered_step"
    by (auto intro!: delivers_bind simp: recovered_step_def)
  then have "delivers (pbind (attempt_candidates unit_env demo_coordinator (demo_context d) True
      [demo_candidate\<lparr>rc_confidence := VFloat (FFin 1)\<rparr>] ?st) (\<lambda>result. case result of
           Finished report \<Rightarrow> preturn report
         | Next st \<Rightarrow> exhausted_report unit_env demo_coordinator (demo_context d) st))
    (\<lambda>rep. rp_final_status rep = ''recovered'')"
    by (rule delivers_bind) (auto simp: recovered_step_def)
  moreover have "rk_evidence (demo_context d) = demo_snapshot 0 0" "rk_namespace (demo_context d) = ''shop''"
    "rk_deployment (demo_context d) = ''web''" "rk_diagnosis (demo_context d) = d"
    by (simp_all add: demo_context_def)
  ultimately show ?thesis
    by (simp add: run_candidates_def that demo_candidates demo_profile_facts del: attempt_candidates.simps build_candidates.simps)
qed

lemma demo_diagnosed_run:
  assumes "dg_confidence d = VFloat (FFin 1)" and "sd_approved decision"
  shows "delivers (run_diagnosed unit_env demo_coordinator (demo_context d) decision)
     (\<lambda>rep. rp_final_status rep = ''recovered'')"
proof -
  have "delivers (run_proposals unit_env demo_coordinator (demo_context d) decision)
     (\<lambda>rep. rp_final_status rep = ''recovered'')"
    unfolding run_proposals_def demo_single plift_Inr_bind
  proof (rule delivers_bind[where P = "\<lambda>x. x = Next [demo_scale]"])
    show "delivers (case x of Finished report \<Rightarrow> preturn report
        | Next actions \<Rightarrow> run_candidates unit_env demo_coordinator (demo_context d) [decision] actions)
      (\<lambda>rep. rp_final_status rep = ''recovered'')" if "x = Next [demo_scale]" for x
      using demo_candidates_run[OF assms(1)] that by simp
  qed (simp add: demo_proposed delivers_def prog_eval)
  with assms(2) show ?thesis
    unfolding run_diagnosed_def
    by (auto intro!: delivers_bind[where P = "\<lambda>_. True"]) (auto simp: delivers_def)
qed

lemma demo_run:
  "delivers (run unit_env demo_coordinator ''shop'' ''web'' ''m'' (FFin 1))
     (\<lambda>rep. rp_final_status rep = ''recovered'')"
proof -
  have "delivers (run_with_evidence unit_env demo_coordinator ''run-0'' ''shop'' ''web'' ''m'' (FFin 1) (demo_snapshot 0 0))
     (\<lambda>rep. rp_final_status rep = ''recovered'')"
    unfolding run_with_evidence_def demo_single plift_Inr_bind
    apply (rule delivers_bind[where P = "\<lambda>_. True"])
     apply (simp add: delivers_def)
    apply (rule delivers_bind[where P = "\<lambda>x. \<exists>d decision. x = Next (d, decision) \<and> dg_confidence d = VFloat (FFin 1) \<and> sd_approved decision"])
     apply (simp add: delivers_def prog_eval diagnose_def demo_profile_facts demo_diagnosed)
    using demo_diagnosed_run by (auto simp: demo_context_def)
  then show ?thesis
    by (simp add: delivers_def run_def demo_capable prog_eval protocol_check_def demo_profile_integrity adapters_of_def)
qed

lemma run_report_sound_witness:
  "\<exists>rep. report_ok demo_coordinator rep \<and> rp_final_status rep = ''recovered''"
proof -
  obtain rep s' where "run unit_env demo_coordinator ''shop'' ''web'' ''m'' (FFin 1)
      \<lparr>sys_world = (), sys_trace = []\<rparr> = (Inr rep, s')" and "rp_final_status rep = ''recovered''"
    using demo_run unfolding delivers_def by blast
  with run_report_sound show ?thesis by blast
qed

end
