(* ===== verification/OperationLock.thy ===== *)
theory OperationLock
  imports Effects
begin

text \<open>
  \<open>operation_lock.py\<close>: the file lock that keeps two real recoveries off one Kubernetes target. The
  lock file lives in a file system that all contenders share; every call into it (create exclusively,
  read, stat, write, unlink) is one atomic step of a contender, so the interleavings of several
  contenders are the runs of a step relation. The sequential reading of \<open>__enter__\<close> and \<open>__exit__\<close>,
  in which nobody interferes, is derived from the same steps.
\<close>

section \<open>The file system\<close>

text \<open>What \<open>json.loads(path.read_text())\<close> makes of a file: a value, or one of its two exceptions.\<close>

datatype lock_content = NotJson | Undecodable | Json pyval

record lock_file =
  lf_inode :: nat
  lf_content :: lock_content
  lf_mtime :: pyfloat

text \<open>The four ways \<open>os.kill(pid, 0)\<close> can end.\<close>

datatype kill_result = Signalled | NoSuchProcess | NotPermitted | KillFailed

record lock_system =
  ls_file :: "lock_file option"
  ls_next_inode :: nat
  ls_now :: pyfloat
  ls_kill :: "string \<Rightarrow> int \<Rightarrow> kill_result"

text \<open>One \<open>TargetOperationLock\<close> object with the process it lives in.\<close>

record TargetOperationLock =
  tl_namespace :: string
  tl_deployment :: string
  tl_stale_after_seconds :: pyfloat
  tl_token :: string
  tl_pid :: int
  tl_host :: string
  tl_acquired_at :: string

definition lock_payload :: "TargetOperationLock \<Rightarrow> pyval" where
  "lock_payload l = VDict
     [(''acquired_at'', VStr (tl_acquired_at l)), (''deployment'', VStr (tl_deployment l)),
      (''host'', VStr (tl_host l)), (''namespace'', VStr (tl_namespace l)),
      (''pid'', VInt (tl_pid l)), (''token'', VStr (tl_token l))]"

text \<open>\<open>_pid_is_running\<close> on a POSIX system.\<close>

definition pid_is_running :: "'a lock_system_scheme \<Rightarrow> string \<Rightarrow> int \<Rightarrow> bool" where
  "pid_is_running sys host pid =
     (0 < pid \<and> (case ls_kill sys host pid of
        Signalled \<Rightarrow> True | NoSuchProcess \<Rightarrow> False | NotPermitted \<Rightarrow> True | KillFailed \<Rightarrow> False))"

text \<open>\<open>isinstance(owner_pid, int) and not _pid_is_running(owner_pid)\<close>; a boolean is an integer.\<close>

fun dead_pid :: "'a lock_system_scheme \<Rightarrow> string \<Rightarrow> pyval \<Rightarrow> bool" where
  "dead_pid sys host (VInt p) = (\<not> pid_is_running sys host p)"
| "dead_pid sys host (VBool b) = (\<not> pid_is_running sys host (if b then 1 else 0))"
| "dead_pid sys host _ = False"

definition lock_is_stale ::
  "TargetOperationLock \<Rightarrow> 'a lock_system_scheme \<Rightarrow> (string \<times> pyval) list \<Rightarrow> pyfloat \<Rightarrow> bool" where
  "lock_is_stale l sys owner modified_at =
     (let owner_host = json_str (vget_default owner ''host'' (VStr ''''));
          same_host = (owner_host = tl_host l);
          dead_local_process = (same_host \<and> dead_pid sys (tl_host l) (vget owner ''pid''));
          age_seconds = fmax (fsub (ls_now sys) modified_at) (FFin 0);
          expired_unknown_owner = (\<not> same_host \<and> fle (tl_stale_after_seconds l) age_seconds)
      in dead_local_process \<or> expired_unknown_owner)"

definition lock_busy :: "TargetOperationLock \<Rightarrow> exn" where
  "lock_busy l = OperationLockError (''a real recovery operation is already active for '' @
     tl_namespace l @ ''/'' @ tl_deployment l)"

definition no_get :: exn where
  "no_get = OtherError ''AttributeError''"

definition undecodable :: exn where
  "undecodable = ValueError ''UnicodeDecodeError''"

section \<open>One step of a contender\<close>

text \<open>
  Where a contender stands between two calls. \<open>Opening n\<close> is attempt \<open>n\<close> of the loop, the phases
  from \<open>ReadingOwner\<close> to \<open>Unlinking\<close> are \<open>_clear_stale_lock\<close>, \<open>Writing i\<close> holds a descriptor of
  inode \<open>i\<close>, \<open>Releasing\<close> and \<open>UnlinkingOwn\<close> are \<open>__exit__\<close>.
\<close>

datatype lock_phase =
    Outside
  | Opening nat
  | ReadingOwner
  | StatingOwner pyval
  | StatingUnknown
  | Rechecking pyval
  | Unlinking
  | Writing nat
  | Holding
  | Releasing
  | UnlinkingOwn
  | Raised exn

text \<open>The decision after a successful \<open>stat\<close>.\<close>

fun judge_owner :: "TargetOperationLock \<Rightarrow> 'a lock_system_scheme \<Rightarrow> pyval \<Rightarrow> pyfloat \<Rightarrow> lock_phase" where
  "judge_owner l sys (VDict owner) modified_at =
     (if lock_is_stale l sys owner modified_at then Rechecking (vget owner ''token'')
      else Raised (lock_busy l))"
| "judge_owner l sys _ modified_at = Raised no_get"

fun token_of :: "lock_file option \<Rightarrow> (exn, pyval) result" where
  "token_of None = Inr VNone"
| "token_of (Some f) = (case lf_content f of
      NotJson \<Rightarrow> Inr VNone
    | Undecodable \<Rightarrow> Inl undecodable
    | Json (VDict owner) \<Rightarrow> Inr (vget owner ''token'')
    | Json _ \<Rightarrow> Inl no_get)"

definition create_file :: "'a lock_system_scheme \<Rightarrow> 'a lock_system_scheme" where
  "create_file sys = sys\<lparr>ls_file := Some \<lparr>lf_inode = ls_next_inode sys, lf_content = NotJson,
     lf_mtime = ls_now sys\<rparr>, ls_next_inode := Suc (ls_next_inode sys)\<rparr>"

definition unlink_file :: "'a lock_system_scheme \<Rightarrow> 'a lock_system_scheme" where
  "unlink_file sys = sys\<lparr>ls_file := None\<rparr>"

text \<open>Writing through a descriptor changes the file it was opened on, wherever its name has gone.\<close>

definition write_file :: "nat \<Rightarrow> pyval \<Rightarrow> 'a lock_system_scheme \<Rightarrow> 'a lock_system_scheme" where
  "write_file inode v sys = (case ls_file sys of
      None \<Rightarrow> sys
    | Some f \<Rightarrow> if lf_inode f = inode
        then sys\<lparr>ls_file := Some (f\<lparr>lf_content := Json v, lf_mtime := ls_now sys\<rparr>)\<rparr> else sys)"

fun lock_step :: "TargetOperationLock \<Rightarrow> lock_phase \<Rightarrow> 'a lock_system_scheme \<Rightarrow> lock_phase \<times> 'a lock_system_scheme" where
  "lock_step l (Opening attempt) sys = (case ls_file sys of
      None \<Rightarrow> (Writing (ls_next_inode sys), create_file sys)
    | Some f \<Rightarrow> (if attempt = 0 then ReadingOwner else Raised (lock_busy l), sys))"
| "lock_step l ReadingOwner sys = (case ls_file sys of
      None \<Rightarrow> (StatingUnknown, sys)
    | Some f \<Rightarrow> (case lf_content f of
        NotJson \<Rightarrow> (StatingUnknown, sys)
      | Undecodable \<Rightarrow> (Raised undecodable, sys)
      | Json v \<Rightarrow> (StatingOwner v, sys)))"
| "lock_step l (StatingOwner v) sys = (case ls_file sys of
      None \<Rightarrow> (StatingUnknown, sys)
    | Some f \<Rightarrow> (judge_owner l sys v (lf_mtime f), sys))"
| "lock_step l StatingUnknown sys = (case ls_file sys of
      None \<Rightarrow> (Raised (lock_busy l), sys)
    | Some f \<Rightarrow> (judge_owner l sys (VDict []) (lf_mtime f), sys))"
| "lock_step l (Rechecking token) sys = (case token_of (ls_file sys) of
      Inl e \<Rightarrow> (Raised e, sys)
    | Inr current \<Rightarrow> (if current \<noteq> token then Raised (lock_busy l) else Unlinking, sys))"
| "lock_step l Unlinking sys = (Opening 1, unlink_file sys)"
| "lock_step l (Writing inode) sys = (Holding, write_file inode (lock_payload l) sys)"
| "lock_step l Releasing sys = (case token_of (ls_file sys) of
      Inl e \<Rightarrow> (Raised e, sys)
    | Inr current \<Rightarrow> (if current = VStr (tl_token l) then UnlinkingOwn else Outside, sys))"
| "lock_step l UnlinkingOwn sys = (Outside, unlink_file sys)"
| "lock_step l phase sys = (phase, sys)"

section \<open>Several contenders\<close>

text \<open>
  \<open>lg_cleared\<close> records whether any contender has removed a lock it took for stale. The clock and
  the processes may change at any time, and a holder leaves its \<open>with\<close> block when it likes.
\<close>

record lock_state =
  lg_sys :: lock_system
  lg_phase :: "nat \<Rightarrow> lock_phase"
  lg_cleared :: bool

definition move :: "(nat \<Rightarrow> TargetOperationLock) \<Rightarrow> nat \<Rightarrow> lock_state \<Rightarrow> lock_state" where
  "move procs i st =
     (case lock_step (procs i) (lg_phase st i) (lg_sys st) of (phase, sys) \<Rightarrow>
        \<lparr>lg_sys = sys, lg_phase = (lg_phase st)(i := phase),
         lg_cleared = (lg_cleared st \<or> lg_phase st i = Unlinking)\<rparr>)"

definition enters :: "nat \<Rightarrow> lock_state \<Rightarrow> lock_state" where
  "enters i st = st\<lparr>lg_phase := (lg_phase st)(i := Opening 0)\<rparr>"

definition leaves :: "nat \<Rightarrow> lock_state \<Rightarrow> lock_state" where
  "leaves i st = st\<lparr>lg_phase := (lg_phase st)(i := Releasing)\<rparr>"

text \<open>The write of the payload fails: the file is removed and the exception leaves \<open>__enter__\<close>.\<close>

definition write_fails :: "nat \<Rightarrow> exn \<Rightarrow> lock_state \<Rightarrow> lock_state" where
  "write_fails i e st = st\<lparr>lg_phase := (lg_phase st)(i := Raised e), lg_sys := unlink_file (lg_sys st)\<rparr>"

inductive lock_trans :: "(nat \<Rightarrow> TargetOperationLock) \<Rightarrow> lock_state \<Rightarrow> lock_state \<Rightarrow> bool"
  for procs where
  enter: "lg_phase st i = Outside \<Longrightarrow> lock_trans procs st (enters i st)"
| step: "lock_trans procs st (move procs i st)"
| leave: "lg_phase st i = Holding \<Longrightarrow> lock_trans procs st (leaves i st)"
| fail: "lg_phase st i = Writing n \<Longrightarrow> lock_trans procs st (write_fails i e st)"
| world: "lock_trans procs st (st\<lparr>lg_sys := (lg_sys st)\<lparr>ls_now := t, ls_kill := k\<rparr>\<rparr>)"

inductive_cases lock_transE: "lock_trans procs st st'"

inductive lock_reach :: "(nat \<Rightarrow> TargetOperationLock) \<Rightarrow> lock_state \<Rightarrow> lock_state \<Rightarrow> bool"
  for procs st0 where
  start: "lock_reach procs st0 st0"
| more: "lock_reach procs st0 st \<Longrightarrow> lock_trans procs st st' \<Longrightarrow> lock_reach procs st0 st'"

text \<open>Nobody is inside, nothing has been cleared; the file of an earlier run may be there.\<close>

definition lock_start :: "lock_state \<Rightarrow> bool" where
  "lock_start st \<longleftrightarrow> (\<forall>i. lg_phase st i = Outside) \<and> \<not> lg_cleared st \<and>
     (\<forall>f. ls_file (lg_sys st) = Some f \<longrightarrow> lf_inode f < ls_next_inode (lg_sys st))"

fun inside :: "lock_phase \<Rightarrow> bool" where
  "inside (Writing n) = True"
| "inside Holding = True"
| "inside Releasing = True"
| "inside UnlinkingOwn = True"
| "inside phase = False"

section \<open>Mutual exclusion\<close>

text \<open>What the file is while a contender is inside, as long as no lock has been cleared.\<close>

fun owns :: "TargetOperationLock \<Rightarrow> lock_phase \<Rightarrow> lock_file option \<Rightarrow> bool" where
  "owns l (Writing n) file = (\<exists>f. file = Some f \<and> lf_inode f = n)"
| "owns l Holding file = (\<exists>f. file = Some f \<and> lf_content f = Json (lock_payload l))"
| "owns l Releasing file = (\<exists>f. file = Some f \<and> lf_content f = Json (lock_payload l))"
| "owns l UnlinkingOwn file = (\<exists>f. file = Some f \<and> lf_content f = Json (lock_payload l))"
| "owns l phase file = True"

definition lock_inv :: "(nat \<Rightarrow> TargetOperationLock) \<Rightarrow> lock_state \<Rightarrow> bool" where
  "lock_inv procs st \<longleftrightarrow>
     (\<forall>i j. inside (lg_phase st i) \<and> inside (lg_phase st j) \<longrightarrow> i = j) \<and>
     (\<forall>i. owns (procs i) (lg_phase st i) (ls_file (lg_sys st)))"

lemma owns_outside: "\<not> inside phase \<Longrightarrow> owns l phase file"
  by (cases phase) simp_all

lemma inside_file: "inside phase \<Longrightarrow> owns l phase file \<Longrightarrow> file \<noteq> None"
  by (cases phase) auto

text \<open>A contender that moves on its own, the others not inside, keeps the invariant.\<close>

lemma lock_inv_update:
  assumes "lock_inv procs st"
    and "inside phase \<Longrightarrow> \<forall>j. j \<noteq> i \<longrightarrow> \<not> inside (lg_phase st j)"
    and "owns (procs i) phase (ls_file sys)"
    and "\<And>j. j \<noteq> i \<Longrightarrow> inside (lg_phase st j) \<Longrightarrow> ls_file sys = ls_file (lg_sys st)"
  shows "lock_inv procs \<lparr>lg_sys = sys, lg_phase = (lg_phase st)(i := phase), lg_cleared = b\<rparr>"
proof -
  have "owns (procs j) (lg_phase st j) (ls_file sys)" if "j \<noteq> i" for j
  proof (cases "inside (lg_phase st j)")
    case True
    with assms(1,4) that show ?thesis by (simp add: lock_inv_def)
  qed (simp add: owns_outside)
  with assms(1,2,3) show ?thesis
    unfolding lock_inv_def by (auto simp del: owns.simps)
qed

lemma judge_not_inside [simp]: "\<not> inside (judge_owner l sys v t)"
  by (cases v) simp_all

lemma lock_step_owns:
  assumes "lock_step l phase sys = (phase', sys')"
    and "owns l phase (ls_file sys)" and "phase \<noteq> Unlinking"
  shows "owns l phase' (ls_file sys') \<and>
    (ls_file sys' = ls_file sys \<or> inside phase \<or> ls_file sys = None) \<and>
    (inside phase' \<longrightarrow> inside phase \<or> ls_file sys = None)"
  using assms
  by (cases phase; cases "ls_file sys")
    (auto simp: create_file_def unlink_file_def write_file_def split: if_splits sum.splits lock_content.splits
      simp: owns_outside)

lemma lock_inv_move:
  assumes "lock_inv procs st" and "lg_phase st i \<noteq> Unlinking"
  shows "lock_inv procs (move procs i st)"
proof -
  obtain phase sys where step: "lock_step (procs i) (lg_phase st i) (lg_sys st) = (phase, sys)" by force
  have own: "owns (procs i) (lg_phase st i) (ls_file (lg_sys st))"
    using assms(1) by (simp add: lock_inv_def)
  note s = lock_step_owns[OF step own assms(2)]
  have alone: "ls_file (lg_sys st) = None \<or> inside (lg_phase st i) \<Longrightarrow> \<forall>j. j \<noteq> i \<longrightarrow> \<not> inside (lg_phase st j)"
    using assms(1) inside_file unfolding lock_inv_def by metis
  have "lock_inv procs \<lparr>lg_sys = sys, lg_phase = (lg_phase st)(i := phase), lg_cleared = lg_cleared (move procs i st)\<rparr>"
    by (rule lock_inv_update[OF assms(1)]) (use s alone in blast)+
  then show ?thesis by (simp add: move_def step)
qed

lemma lock_inv_trans:
  assumes "lock_trans procs st st'" and "lock_inv procs st" and "\<not> lg_cleared st'"
  shows "lock_inv procs st'"
  using assms(1)
proof (cases rule: lock_trans.cases)
  case (enter i)
  with assms(2) show ?thesis by (auto simp: lock_inv_def enters_def)
next
  case (step i)
  then have "lg_phase st i \<noteq> Unlinking" using assms(3) by (auto simp: move_def split: prod.splits)
  with assms(2) step show ?thesis by (simp add: lock_inv_move)
next
  case (leave i)
  with assms(2) show ?thesis unfolding lock_inv_def leaves_def
    by (simp, metis inside.simps(2) owns.simps(2))
next
  case (fail i n e)
  with assms(2) have "\<forall>j. j \<noteq> i \<longrightarrow> \<not> inside (lg_phase st j)"
    unfolding lock_inv_def by (metis inside.simps(1))
  with fail show ?thesis
    by (auto simp: lock_inv_def write_fails_def unlink_file_def intro: owns_outside)
next
  case (world t k)
  with assms(2) show ?thesis by (simp add: lock_inv_def)
qed

lemma cleared_stays: "lock_trans procs st st' \<Longrightarrow> lg_cleared st \<Longrightarrow> lg_cleared st'"
  by (erule lock_transE) (auto simp: move_def enters_def leaves_def write_fails_def split: prod.splits)

lemma lock_reach_inv:
  "lock_reach procs st0 st \<Longrightarrow> lock_start st0 \<Longrightarrow> \<not> lg_cleared st \<Longrightarrow> lock_inv procs st"
proof (induction rule: lock_reach.induct)
  case start
  then show ?case by (simp add: lock_inv_def lock_start_def owns_outside)
next
  case (more st st')
  then show ?case using cleared_stays lock_inv_trans by metis
qed

text \<open>
  C20. Mutual exclusion of the lock. However many contenders interleave their file system calls,
  and whatever happens to the clock, to the processes or to a write, as long as no contender has
  removed a lock it judged stale at most one of them is between the creation of the lock file and
  its removal, and while it holds the lock the file carries its own payload.
\<close>

theorem lock_mutual_exclusion:
  assumes "lock_reach procs st0 st" and "lock_start st0" and "\<not> lg_cleared st"
  shows "(inside (lg_phase st i) \<and> inside (lg_phase st j) \<longrightarrow> i = j) \<and>
    (lg_phase st i = Holding \<longrightarrow>
       (\<exists>f. ls_file (lg_sys st) = Some f \<and> lf_content f = Json (lock_payload (procs i))))"
  using lock_reach_inv[OF assms] unfolding lock_inv_def by (metis owns.simps(2))

section \<open>Clearing a stale lock\<close>

text \<open>A schedule: who enters and who makes the next step.\<close>

datatype lock_move = Enter nat | Move nat

fun schedule :: "(nat \<Rightarrow> TargetOperationLock) \<Rightarrow> lock_move list \<Rightarrow> lock_state \<Rightarrow> lock_state option" where
  "schedule procs [] st = Some st"
| "schedule procs (Enter i # ms) st =
     (if lg_phase st i = Outside then schedule procs ms (enters i st) else None)"
| "schedule procs (Move i # ms) st = schedule procs ms (move procs i st)"

lemma schedule_reach:
  "lock_reach procs st0 st \<Longrightarrow> schedule procs ms st = Some st' \<Longrightarrow> lock_reach procs st0 st'"
  by (induction procs ms st rule: schedule.induct)
    (auto split: if_splits intro: lock_reach.more lock_trans.enter lock_trans.step)

text \<open>Two recoveries on one host and the lock file that a dead third one left behind.\<close>

definition demo_lock :: "nat \<Rightarrow> TargetOperationLock" where
  "demo_lock i = \<lparr>tl_namespace = ''shop'', tl_deployment = ''web'',
     tl_stale_after_seconds = FFin 3600, tl_token = nat_str i, tl_pid = int i + 10,
     tl_host = ''h'', tl_acquired_at = ''t''\<rparr>"

definition demo_system :: "lock_file option \<Rightarrow> nat \<Rightarrow> lock_system" where
  "demo_system file n = \<lparr>ls_file = file, ls_next_inode = n, ls_now = FFin 100,
     ls_kill = (\<lambda>host pid. if pid < 17 then Signalled else NoSuchProcess)\<rparr>"

definition demo_at :: "lock_system \<Rightarrow> lock_phase \<Rightarrow> lock_phase \<Rightarrow> bool \<Rightarrow> lock_state" where
  "demo_at sys p q c = \<lparr>lg_sys = sys, lg_phase = (\<lambda>i. if i = 0 then p else if i = 1 then q else Outside),
     lg_cleared = c\<rparr>"

definition demo_lock_state :: lock_state where
  "demo_lock_state = demo_at (demo_system (Some \<lparr>lf_inode = 0, lf_content = Json (lock_payload (demo_lock 7)),
     lf_mtime = FFin 0\<rparr>) 1) Outside Outside False"

definition race :: "lock_move list" where
  "race = [Enter 0, Move 0, Move 0, Move 0, Enter 1, Move 1, Move 1, Move 1, Move 0, Move 1,
     Move 0, Move 0, Move 0, Move 1, Move 1, Move 1]"


lemma demo_at_simps [simp]:
  "lg_phase (demo_at sys p q c) 0 = p" "lg_phase (demo_at sys p q c) (Suc 0) = q"
  "lg_sys (demo_at sys p q c) = sys"
  "enters 0 (demo_at sys p q c) = demo_at sys (Opening 0) q c"
  "enters (Suc 0) (demo_at sys p q c) = demo_at sys p (Opening 0) c"
  by (auto simp: demo_at_def enters_def)

lemma demo_move [simp]:
  "move procs 0 (demo_at sys p q c) = (case lock_step (procs 0) p sys of (p', sys') \<Rightarrow> demo_at sys' p' q (c \<or> p = Unlinking))"
  "move procs (Suc 0) (demo_at sys p q c) = (case lock_step (procs 1) q sys of (q', sys') \<Rightarrow> demo_at sys' p q' (c \<or> q = Unlinking))"
  by (auto simp: move_def demo_at_def split: prod.splits)

lemma demo_system_simps [simp]:
  "ls_file (demo_system file n) = file" "ls_next_inode (demo_system file n) = n"
  "create_file (demo_system file n) = demo_system (Some \<lparr>lf_inode = n, lf_content = NotJson, lf_mtime = FFin 100\<rparr>) (Suc n)"
  "unlink_file (demo_system file n) = demo_system None n"
  "write_file i v (demo_system (Some f) n) = demo_system (Some (if lf_inode f = i then f\<lparr>lf_content := Json v, lf_mtime := FFin 100\<rparr> else f)) n"
  by (simp_all add: demo_system_def create_file_def unlink_file_def write_file_def)

lemma demo_lock_fields [simp]:
  "tl_host (demo_lock i) = ''h''" "tl_pid (demo_lock i) = int i + 10" "tl_token (demo_lock i) = nat_str i"
  by (simp_all add: demo_lock_def)

lemma demo_stale [simp]:
  "judge_owner (demo_lock i) (demo_system file n) (lock_payload (demo_lock 7)) t = Rechecking (VStr (nat_str 7))"
  by (simp add: demo_system_def lock_payload_def lock_is_stale_def vget_def vget_default_def pid_is_running_def Let_def)

lemma demo_token [simp]: "lf_content f = Json (lock_payload (demo_lock i)) \<Longrightarrow> token_of (Some f) = Inr (VStr (nat_str i))"
  by (simp add: lock_payload_def vget_def)

theorem lock_mutual_exclusion_witness:
  "\<exists>st. schedule demo_lock [Enter 0, Move 0, Move 0, Enter 1, Move 1]
       (demo_at (demo_system None 1) Outside Outside False) = Some st \<and> lg_phase st 0 = Holding \<and>
     (\<exists>f. ls_file (lg_sys st) = Some f \<and> lf_content f = Json (lock_payload (demo_lock 0)))"
proof -
  let ?s0 = "demo_at (demo_system None 1) Outside Outside False"
  have "\<exists>st. schedule demo_lock [Enter 0, Move 0, Move 0, Enter 1, Move 1] ?s0 = Some st \<and>
      lg_phase st 0 = Holding \<and> \<not> lg_cleared st"
    by (simp add: demo_at_def[of _ _ _ "False \<or> _"]) (simp add: demo_at_def)
  then obtain st where st: "schedule demo_lock [Enter 0, Move 0, Move 0, Enter 1, Move 1] ?s0 = Some st"
    "lg_phase st 0 = Holding" "\<not> lg_cleared st" by blast
  have "lock_start ?s0" by (auto simp: lock_start_def demo_at_def)
  from lock_mutual_exclusion[OF schedule_reach[OF lock_reach.start st(1)] this st(3), of 0 0] st
  show ?thesis by blast
qed

text \<open>
  C26. Clearing a stale lock is not atomic: the token is checked and the file removed in two calls.
  There is an interleaving of two recoveries of one target, both alive on one host and both meeting
  the lock file of a dead process, after which both hold the lock: the second removes the file that
  the first has just created in its place.
\<close>

theorem stale_clear_race:
  "\<exists>st. lock_reach demo_lock demo_lock_state st \<and> lock_start demo_lock_state \<and>
     lg_phase st 0 = Holding \<and> lg_phase st 1 = Holding \<and>
     pid_is_running (lg_sys st) ''h'' (tl_pid (demo_lock 0)) \<and>
     pid_is_running (lg_sys st) ''h'' (tl_pid (demo_lock 1))"
proof -
  have alive: "pid_is_running (demo_system fl n) ''h'' 10" "pid_is_running (demo_system fl n) ''h'' 11" for fl n
    by (simp_all add: demo_system_def pid_is_running_def)
  have "\<exists>st. schedule demo_lock race demo_lock_state = Some st \<and> lg_phase st 0 = Holding \<and>
      lg_phase st 1 = Holding \<and> pid_is_running (lg_sys st) ''h'' 10 \<and> pid_is_running (lg_sys st) ''h'' 11"
    by (simp add: race_def demo_lock_state_def alive del: token_of.simps)
  moreover have "lock_start demo_lock_state" by (auto simp: lock_start_def demo_lock_state_def demo_at_def)
  ultimately show ?thesis using schedule_reach[OF lock_reach.start] by (simp, blast)
qed

section \<open>One contender alone\<close>

text \<open>\<open>_clear_stale_lock\<close>, \<open>__enter__\<close> and \<open>__exit__\<close> when nobody else touches the file.\<close>

definition clear_stale_lock ::
  "TargetOperationLock \<Rightarrow> 'a lock_system_scheme \<Rightarrow> (exn, bool) result \<times> 'a lock_system_scheme" where
  "clear_stale_lock l sys = (case ls_file sys of
      None \<Rightarrow> (Inr False, sys)
    | Some f \<Rightarrow>
        (case (case lf_content f of Undecodable \<Rightarrow> Inl undecodable | NotJson \<Rightarrow> Inr (VDict [])
              | Json v \<Rightarrow> Inr v) of
           Inl e \<Rightarrow> (Inl e, sys)
         | Inr (VDict owner) \<Rightarrow>
             (if \<not> lock_is_stale l sys owner (lf_mtime f) then (Inr False, sys)
              else case token_of (ls_file sys) of
                  Inl e \<Rightarrow> (Inl e, sys)
                | Inr current \<Rightarrow> if current \<noteq> vget owner ''token'' then (Inr False, sys)
                    else (Inr True, unlink_file sys))
         | Inr _ \<Rightarrow> (Inl no_get, sys)))"

text \<open>The loop \<open>for attempt in range(2)\<close>; it yields the inode of the descriptor.\<close>

definition open_lock :: "TargetOperationLock \<Rightarrow> 'a lock_system_scheme \<Rightarrow> (exn, nat) result \<times> 'a lock_system_scheme" where
  "open_lock l sys =
     (if ls_file sys = None then (Inr (ls_next_inode sys), create_file sys)
      else case clear_stale_lock l sys of
          (Inl e, sys1) \<Rightarrow> (Inl e, sys1)
        | (Inr cleared, sys1) \<Rightarrow>
            if \<not> cleared then (Inl (lock_busy l), sys1)
            else if ls_file sys1 = None then (Inr (ls_next_inode sys1), create_file sys1)
            else (Inl (lock_busy l), sys1))"

definition enter_lock :: "TargetOperationLock \<Rightarrow> 'a lock_system_scheme \<Rightarrow> (exn, unit) result \<times> 'a lock_system_scheme" where
  "enter_lock l sys = (case open_lock l sys of
      (Inl e, sys1) \<Rightarrow> (Inl e, sys1)
    | (Inr inode, sys1) \<Rightarrow> (Inr (), write_file inode (lock_payload l) sys1))"

definition exit_lock :: "TargetOperationLock \<Rightarrow> 'a lock_system_scheme \<Rightarrow> (exn, unit) result \<times> 'a lock_system_scheme" where
  "exit_lock l sys = (case token_of (ls_file sys) of
      Inl e \<Rightarrow> (Inl e, sys)
    | Inr current \<Rightarrow> (Inr (), if current = VStr (tl_token l) then unlink_file sys else sys))"

text \<open>\<open>n\<close> steps of a contender that is alone.\<close>

fun solo :: "TargetOperationLock \<Rightarrow> nat \<Rightarrow> lock_phase \<times> 'a lock_system_scheme \<Rightarrow> lock_phase \<times> 'a lock_system_scheme" where
  "solo l 0 p = p"
| "solo l (Suc n) (phase, sys) = solo l n (lock_step l phase sys)"

fun phase_after :: "lock_phase \<Rightarrow> (exn, unit) result \<Rightarrow> lock_phase" where
  "phase_after done_phase (Inr u) = done_phase"
| "phase_after done_phase (Inl e) = Raised e"

lemma solo_final [simp]:
  "solo l n (Holding, sys) = (Holding, sys)"
  "solo l n (Outside, sys) = (Outside, sys)"
  "solo l n (Raised e, sys) = (Raised e, sys)"
  by (induction n) simp_all

text \<open>
  The step machine refines the sequential code: run alone, a contender that enters needs at
  most seven calls to end as \<open>__enter__\<close> says, holding the lock or raising its exception, with the
  file system it leaves, and one that releases needs at most two calls to end as \<open>__exit__\<close> says.
\<close>

theorem solo_lock_refines:
  "solo l 7 (Opening 0, sys) = (phase_after Holding (fst (enter_lock l sys)), snd (enter_lock l sys)) \<and>
   solo l 2 (Releasing, sys) = (phase_after Outside (fst (exit_lock l sys)), snd (exit_lock l sys))"
proof
  show "solo l 2 (Releasing, sys) = (phase_after Outside (fst (exit_lock l sys)), snd (exit_lock l sys))"
    by (simp add: numeral_2_eq_2 exit_lock_def split: sum.splits)
next
  show "solo l 7 (Opening 0, sys) = (phase_after Holding (fst (enter_lock l sys)), snd (enter_lock l sys))"
  proof (cases "ls_file sys")
    case None
    then show ?thesis by (simp add: eval_nat_numeral enter_lock_def open_lock_def)
  next
    case (Some f)
    then show ?thesis
      apply (cases "lf_content f")
      subgoal by (simp add: eval_nat_numeral enter_lock_def open_lock_def clear_stale_lock_def vget_def unlink_file_def)
      subgoal by (simp add: eval_nat_numeral enter_lock_def open_lock_def clear_stale_lock_def)
      subgoal for v by (cases v) (simp_all add: eval_nat_numeral enter_lock_def open_lock_def clear_stale_lock_def unlink_file_def)
      done
  qed
qed

end
