(* ===== verification/LockedRun.thy ===== *)
theory LockedRun
  imports OperationLock Coordinator
begin

text \<open>
  The coordinator and its lock together. Every operation of the coordinator keeps whatever the calls of its
  environment keep, and the operation context closes the lock it opened. What the coordinator relies
  on in a lock provider is the locale \<open>lock_provider\<close>; the lock file of \<open>operation_lock.py\<close> is its
  interpretation.
\<close>

section \<open>Control flow of the coordinator\<close>

lemma keeps_step [keep_rules]:
  "(\<And>r. x = Finished r \<Longrightarrow> keeps I (f r)) \<Longrightarrow> (\<And>y. x = Next y \<Longrightarrow> keeps I (g y)) \<Longrightarrow>
   keeps I (case x of Finished r \<Rightarrow> f r | Next y \<Rightarrow> g y)"
  by (cases x) auto

lemma keeps_lock_exn [keep_rules]:
  "(\<And>m. keeps I (f m)) \<Longrightarrow> keeps I (case e of OperationLockError m \<Rightarrow> f m | _ \<Rightarrow> pthrow e)"
  by (cases e) (simp_all add: keeps_pthrow)

lemma keeps_post_exn [keep_rules]:
  "(\<And>m ps. keeps I (f m ps)) \<Longrightarrow> keeps I (case e of PostReviewFailure m ps \<Rightarrow> f m ps | _ \<Rightarrow> pthrow e)"
  by (cases e) (simp_all add: keeps_pthrow)

lemma keeps_negotiation_exn [keep_rules]:
  "(\<And>m ds rs rds. keeps I (f m ds rs rds)) \<Longrightarrow>
   keeps I (case e of NegotiationFailure m ds rs rds \<Rightarrow> f m ds rs rds | _ \<Rightarrow> pthrow e)"
  by (cases e) (simp_all add: keeps_pthrow)

text \<open>All calls into the environment but those to the lock.\<close>

definition env_keeps :: "('w \<Rightarrow> bool) \<Rightarrow> 'w coordinator_env \<Rightarrow> bool" where
  "env_keeps I env \<longleftrightarrow>
     (\<forall>argv. call_keeps I (ex_runner (ce_executor env) argv)) \<and>
     (\<forall>r. call_keeps I (ex_go_guard_runner (ce_executor env) r)) \<and>
     call_keeps I (ce_uuid env) \<and> call_keeps I (ce_runtime_check env) \<and>
     (\<forall>n r. call_keeps I (ce_begin_run env n r)) \<and> (\<forall>n d. call_keeps I (ce_collect env n d)) \<and>
     (\<forall>n e m t. call_keeps I (ce_diagnose env n e m t)) \<and>
     (\<forall>n d e. call_keeps I (ce_propose env n d e)) \<and>
     (\<forall>n d e x. call_keeps I (ce_review env n d e x)) \<and>
     (\<forall>n a q e. call_keeps I (ce_post_review env n a q e)) \<and>
     (\<forall>a b e r. call_keeps I (ce_assess env a b e r)) \<and>
     (\<forall>r. call_keeps I (ce_finalize env r)) \<and> (\<forall>s e. call_keeps I (ce_append env s e))"

lemma env_calls [keep_rules]:
  assumes "env_keeps I env"
  shows "call_keeps I (ex_runner (ce_executor env) argv)"
    "call_keeps I (ex_go_guard_runner (ce_executor env) request)"
    "call_keeps I (ce_uuid env)" "call_keeps I (ce_runtime_check env)"
    "call_keeps I (ce_begin_run env n run_id)" "call_keeps I (ce_collect env ns dep)"
    "call_keeps I (ce_diagnose env n e metric t)" "call_keeps I (ce_propose env n d e)"
    "call_keeps I (ce_review env n dec e x)" "call_keeps I (ce_post_review env n a q e)"
    "call_keeps I (ce_assess env a b e r)" "call_keeps I (ce_finalize env rep)"
    "call_keeps I (ce_append env stream ev)"
  using assms by (simp_all add: env_keeps_def)

section \<open>The operations of the coordinator\<close>

lemma check_keeps [keep_rules]: "env_keeps I env \<Longrightarrow> keeps I (check_runtime_control env c)"
  unfolding check_runtime_control_def by (intro keep_rules)

lemma protocol_check_keeps [keep_rules]: "keeps I (protocol_check env c)"
  unfolding protocol_check_def by (intro keep_rules)

lemma record_keeps [keep_rules]: "env_keeps I env \<Longrightarrow> keeps I (record_event env c stream ev)"
  unfolding record_event_def by (intro keep_rules)

lemma trace_id_keeps [keep_rules]: "env_keeps I env \<Longrightarrow> keeps I (new_trace_id env prefix)"
  unfolding new_trace_id_def Let_def by (intro keep_rules)

lemma ask_reviewer_keeps [keep_rules]:
  "env_keeps I env \<Longrightarrow> keeps I (ask_reviewer env c run_id i d diagnosis evidence a)"
  unfolding ask_reviewer_def Let_def by (intro keep_rules)

lemma collect_reviews_keeps [keep_rules]:
  "env_keeps I env \<Longrightarrow> keeps I (collect_reviews env c run_id i d diagnosis evidence rs reviews)"
  by (induction rs arbitrary: reviews) (auto intro!: keep_rules)

lemma review_action_keeps [keep_rules]:
  "env_keeps I env \<Longrightarrow> keeps I (review_application_action env c run_id i d diagnosis evidence)"
  unfolding review_application_action_def by (intro keep_rules)

lemma conclude_round_keeps [keep_rules]:
  "env_keeps I env \<Longrightarrow> keeps I (conclude_round env c run_id i evidence action d reviews out g)"
  unfolding conclude_round_def push_round_def Let_def by (intro keep_rules)

lemma negotiate_round_keeps [keep_rules]:
  "env_keeps I env \<Longrightarrow> keeps I (negotiate_round env c run_id diagnosis evidence cs proposer i action g)"
  unfolding negotiate_round_def Let_def by (intro keep_rules)

lemma negotiate_rounds_keeps [keep_rules]:
  "env_keeps I env \<Longrightarrow> keeps I (negotiate_rounds env c run_id diagnosis evidence cs proposer n i action g)"
  by (induction n arbitrary: i action g) (auto intro!: keep_rules split: round_result.splits)

lemma negotiate_keeps [keep_rules]:
  "env_keeps I env \<Longrightarrow> keeps I (negotiate env c run_id diagnosis evidence cs offset)"
  unfolding negotiate_def by (cases cs) (auto intro!: keep_rules)

lemma post_reviews_keeps [keep_rules]:
  "env_keeps I env \<Longrightarrow> keeps I (post_execution_reviews env c run_id aid a after q as reviews)"
  by (induction as arbitrary: reviews) (auto simp: ask_post_reviewer_def intro!: keep_rules)

lemma executor_keeps [keep_rules]:
  "env_keeps I env \<Longrightarrow> keeps I (execute_recovery (ce_executor env) k action)"
  unfolding execute_recovery_def run_command_def execute_with_go_guard_def Let_def
  by (intro keep_rules)

lemma base_report_keeps [keep_rules]: "keeps I (base_report env c k ds rs rds status human)"
  unfolding base_report_def by (intro keep_rules)

lemma contributions_keeps [keep_rules]: "env_keeps I env \<Longrightarrow> keeps I (record_contributions env c ks)"
  by (induction env c ks rule: record_contributions.induct) (auto intro!: keep_rules)

lemma finalize_keeps [keep_rules]: "env_keeps I env \<Longrightarrow> keeps I (finalize_report env c r)"
  unfolding finalize_report_def Let_def by (intro keep_rules)

lemma finish_keeps [keep_rules]: "env_keeps I env \<Longrightarrow> keeps I (finish_with env c k st status human update)"
  unfolding finish_with_def by (intro keep_rules)

lemma negotiate_candidate_keeps [keep_rules]: "env_keeps I env \<Longrightarrow> keeps I (negotiate_candidate env c k candidate st)"
  unfolding negotiate_candidate_def by (intro keep_rules)

lemma section_keeps [keep_rules]:
  "env_keeps I env \<Longrightarrow> keeps I (protected_section env c k aid a v left st)"
  unfolding protected_section_def conclude_dry_run_def assess_execution_def Let_def by (intro keep_rules)

lemma conclude_attempt_keeps [keep_rules]:
  "env_keeps I env \<Longrightarrow> keeps I (conclude_attempt env c k first a v left out)"
  unfolding conclude_attempt_def Let_def by (cases out) (auto intro!: keep_rules)

section \<open>The lock provider\<close>

text \<open>
  What the operation context needs of a lock, over whatever part \<open>view\<close> of the world records who
  owns it: entering gives ownership or changes nothing, leaving frees an owned or freed lock.
\<close>

locale lock_provider =
  fixes enter exit :: "'w \<Rightarrow> (exn, unit) result \<times> 'w"
    and view :: "'w \<Rightarrow> 'v" and free :: 'v and own :: "'v \<Rightarrow> bool"
  assumes enter_own: "enter w = (Inr u, w') \<Longrightarrow> own (view w')"
    and enter_fails: "enter w = (Inl e, w') \<Longrightarrow> view w' = view w"
    and exit_own: "own (view w) \<Longrightarrow> exit w = (r, w') \<Longrightarrow> view w' = free"
    and exit_free: "view w = free \<Longrightarrow> exit w = (r, w') \<Longrightarrow> view w' = free"
begin

lemma context_runs:
  assumes "ce_lock_enter env ns dep = enter" and "ce_lock_exit env ns dep = exit" and "uses_lock c"
    and "\<And>v. keeps (\<lambda>w. view w = v \<or> view w = free) body"
    and "with_operation_context env c ns dep body s = (r, s')"
  shows "(\<exists>e. r = Inl e \<and> view (sys_world s') = view (sys_world s)) \<or>
    (\<exists>w. enter (sys_world s) = (Inr (), w) \<and> own (view w) \<and> view (sys_world s') = free)"
proof -
  obtain r1 w1 where enter: "enter (sys_world s) = (r1, w1)" by force
  show ?thesis
  proof (cases r1)
    case (Inl e)
    with assms(1,3,5) enter enter_fails[of "sys_world s"] show ?thesis
      by (auto simp: with_operation_context_def pbind_def pcall_def)
  next
    case (Inr u)
    define s1 where "s1 = s\<lparr>sys_world := w1, sys_trace := LockEntered ns dep # sys_trace s\<rparr>"
    have own: "own (view (sys_world s1))" using enter enter_own Inr by (simp add: s1_def)
    obtain r0 s2 where body: "body s1 = (r0, s2)" by force
    obtain r2 w2 where exit: "exit (sys_world s2) = (r2, w2)" by force
    from keepsD[OF assms(4)[of "view (sys_world s1)"] _ body]
    have "view (sys_world s2) = view (sys_world s1) \<or> view (sys_world s2) = free" by simp
    with own exit_own exit_free exit have "view w2 = free" by metis
    moreover from assms(1,2,3,5) enter Inr body exit have "sys_world s' = w2"
      by (auto simp: with_operation_context_def pbind_def pcall_def emit_def pfinally_def s1_def
          split: sum.splits)
    ultimately show ?thesis using own enter Inr by (auto simp: s1_def)
  qed
qed

lemma context_keeps:
  assumes "ce_lock_enter env ns dep = enter" and "ce_lock_exit env ns dep = exit"
    and "\<And>v. keeps (\<lambda>w. view w = v \<or> view w = free) body"
  shows "keeps (\<lambda>w. view w = v \<or> view w = free) (with_operation_context env c ns dep body)"
proof (cases "uses_lock c")
  case True
  have "view (sys_world s') = v \<or> view (sys_world s') = free"
    if "with_operation_context env c ns dep body s = (r, s')"
      and "view (sys_world s) = v \<or> view (sys_world s) = free" for s r s'
    using context_runs[OF assms(1,2) True assms(3) that(1)] that(2) by auto
  then show ?thesis unfolding keeps_def by (metis prod.collapse)
next
  case False
  with assms(3) show ?thesis by (simp add: with_operation_context_def)
qed

end

definition owned_by :: "TargetOperationLock \<Rightarrow> lock_file option \<Rightarrow> bool" where
  "owned_by l file \<longleftrightarrow> (\<exists>f. file = Some f \<and> lf_content f = Json (lock_payload l))"

lemma created_file [simp]: "ls_file (create_file sys) = Some \<lparr>lf_inode = ls_next_inode sys,
    lf_content = NotJson, lf_mtime = ls_now sys\<rparr>"
  by (simp add: create_file_def)

lemma enter_lock_owned:
  "enter_lock l sys = (r, sys') \<Longrightarrow>
   (case r of Inl e \<Rightarrow> ls_file sys' = ls_file sys | Inr u \<Rightarrow> owned_by l (ls_file sys'))"
  by (auto simp: enter_lock_def open_lock_def clear_stale_lock_def owned_by_def write_file_def
      unlink_file_def split: if_splits option.splits sum.splits prod.splits lock_content.splits pyval.splits)

lemma exit_lock_frees:
  "exit_lock l sys = (r, sys') \<Longrightarrow> owned_by l (ls_file sys) \<or> ls_file sys = None \<Longrightarrow> ls_file sys' = None"
  by (auto simp: exit_lock_def owned_by_def lock_payload_def vget_def unlink_file_def)

interpretation file_lock: lock_provider "enter_lock l" "exit_lock l" ls_file None "owned_by l" for l
  by unfold_locales (auto dest: enter_lock_owned intro: exit_lock_frees)

section \<open>A run does not leak its lock\<close>

definition lock_kept :: "lock_file option \<Rightarrow> 'a lock_system_scheme \<Rightarrow> bool" where
  "lock_kept file w \<longleftrightarrow> ls_file w = file \<or> ls_file w = None"

text \<open>The environment leaves the lock file alone and locks the target with it.\<close>

definition file_lock_env ::
  "'a lock_system_scheme coordinator_env \<Rightarrow> string \<Rightarrow> string \<Rightarrow> TargetOperationLock \<Rightarrow> bool" where
  "file_lock_env env ns dep l \<longleftrightarrow> (\<forall>file. env_keeps (lock_kept file) env) \<and>
     ce_lock_enter env ns dep = enter_lock l \<and> ce_lock_exit env ns dep = exit_lock l"

lemma file_lock_keeps: "file_lock_env env ns dep l \<Longrightarrow> env_keeps (lock_kept file) env"
  by (simp add: file_lock_env_def)

lemma lock_context_keeps:
  assumes "file_lock_env env ns dep l" and "\<And>file. keeps (lock_kept file) body"
  shows "keeps (lock_kept file) (with_operation_context env c ns dep body)"
proof -
  have kept: "lock_kept F = (\<lambda>w. ls_file w = F \<or> ls_file w = None)" for F
    by (rule ext) (simp add: lock_kept_def)
  show ?thesis
    using assms unfolding kept file_lock_env_def by (blast intro: file_lock.context_keeps)
qed

lemma execute_attempt_keeps:
  assumes "file_lock_env env ns dep l" and "rk_namespace k = ns" and "rk_deployment k = dep"
  shows "keeps (lock_kept file) (execute_attempt env c k aid a v left st)"
  unfolding execute_attempt_def lock_failure_report_def assms(2,3)
  using file_lock_keeps[OF assms(1)] by (intro keep_rules lock_context_keeps[OF assms(1)])

lemma attempt_action_keeps:
  assumes "file_lock_env env ns dep l" and "rk_namespace k = ns" and "rk_deployment k = dep"
  shows "keeps (lock_kept file) (attempt_action env c k first left a st)"
  unfolding attempt_action_def record_validation_def Let_def
  using file_lock_keeps[OF assms(1)] execute_attempt_keeps[OF assms] by (intro keep_rules)

lemma attempt_candidates_keeps:
  assumes "file_lock_env env ns dep l" and "rk_namespace k = ns" and "rk_deployment k = dep"
  shows "keeps (lock_kept file) (attempt_candidates env c k first cs st)"
proof (induction cs arbitrary: first st)
  case Nil
  then show ?case by (simp add: keeps_preturn)
next
  case (Cons candidate rest)
  have "keeps (lock_kept file) (attempt_candidate env c k first (rest \<noteq> []) candidate st)"
    unfolding attempt_candidate_def
    using file_lock_keeps[OF assms(1)] attempt_action_keeps[OF assms] by (intro keep_rules)
  with Cons.IH show ?case by (auto intro!: keep_rules)
qed

lemma run_proposals_keeps:
  assumes "file_lock_env env ns dep l" and "rk_namespace k = ns" and "rk_deployment k = dep"
  shows "keeps (lock_kept file) (run_proposals env c k d)"
proof -
  have "keeps (lock_kept file) (run_candidates env c k ds actions)" for ds actions
    unfolding run_candidates_def exhausted_report_def Let_def
    using file_lock_keeps[OF assms(1)] attempt_candidates_keeps[OF assms] by (intro keep_rules)
  then show ?thesis unfolding run_proposals_def
    using file_lock_keeps[OF assms(1)] by (intro keep_rules)
qed

lemma begin_runs_keeps [keep_rules]: "env_keeps I env \<Longrightarrow> keeps I (begin_adapter_runs env run_id as)"
  by (induction env run_id as rule: begin_adapter_runs.induct) (auto intro!: keep_rules)

lemma run_keeps:
  assumes "file_lock_env env ns dep l"
  shows "keeps (lock_kept file) (run env c ns dep metric threshold)"
proof -
  have diagnosed: "keeps (lock_kept file) (run_diagnosed env c \<lparr>rk_run_id = i, rk_namespace = ns,
      rk_deployment = dep, rk_evidence = e, rk_diagnosis = dg\<rparr> d)" for i e dg d
    unfolding run_diagnosed_def Let_def
    using file_lock_keeps[OF assms] run_proposals_keeps[OF assms] by (intro keep_rules) simp_all
  have "keeps (lock_kept file) (run_with_evidence env c i ns dep metric threshold e)" for i e
    unfolding run_with_evidence_def configuration_failure_report_def diagnose_def
    using file_lock_keeps[OF assms] diagnosed by (intro keep_rules)
  then show ?thesis
    unfolding run_def configuration_failure_report_def
    using file_lock_keeps[OF assms] by (intro keep_rules)
qed


text \<open>
  C22. No run leaks its lock. When the coordinator locks its target with the lock file, then however
  the run ends, with a report or with any exception, and whatever the adapters and the cluster do,
  the lock file is in the end the one that was there at the start or is gone. An attempt in real
  mode either fails to enter and changes nothing, or runs its protected section after the file has
  got the payload of this lock and has removed it when it is over.
\<close>

theorem run_releases_lock:
  assumes "file_lock_env env ns dep l" and "run env c ns dep metric threshold s = (r, s')"
  shows "(ls_file (sys_world s') = ls_file (sys_world s) \<or> ls_file (sys_world s') = None) \<and>
    (\<forall>k aid a v left st t q t'. uses_lock c \<and>
       with_operation_context env c ns dep (protected_section env c k aid a v left st) t = (q, t') \<longrightarrow>
       (\<exists>e. q = Inl e \<and> ls_file (sys_world t') = ls_file (sys_world t)) \<or>
       (\<exists>w. enter_lock l (sys_world t) = (Inr (), w) \<and> owned_by l (ls_file w) \<and>
          ls_file (sys_world t') = None))"
proof (intro conjI allI impI)
  from keepsD[OF run_keeps[OF assms(1)] _ assms(2), of "ls_file (sys_world s)"]
  show "ls_file (sys_world s') = ls_file (sys_world s) \<or> ls_file (sys_world s') = None"
    by (simp add: lock_kept_def)
next
  fix k aid a v left st t q t'
  let ?body = "protected_section env c k aid a v left st"
  assume use: "uses_lock c \<and> with_operation_context env c ns dep ?body t = (q, t')"
  have "keeps (\<lambda>w. ls_file w = fl \<or> ls_file w = None) ?body" for fl
    using section_keeps[OF file_lock_keeps[OF assms(1), of fl]] by (simp add: lock_kept_def[abs_def])
  from file_lock.context_runs[OF _ _ _ this] use assms(1)
  show "(\<exists>e. q = Inl e \<and> ls_file (sys_world t') = ls_file (sys_world t)) \<or>
       (\<exists>w. enter_lock l (sys_world t) = (Inr (), w) \<and> owned_by l (ls_file w) \<and>
          ls_file (sys_world t') = None)"
    unfolding file_lock_env_def by blast
qed

text \<open>The demonstration environment on a world that is the lock's file system.\<close>

definition demo_locked_env :: "lock_system coordinator_env" where
  "demo_locked_env = demo_env\<lparr>ce_lock_enter := (\<lambda>n d. enter_lock (demo_lock 0)),
     ce_lock_exit := (\<lambda>n d. exit_lock (demo_lock 0))\<rparr>"

lemma demo_file_lock: "file_lock_env demo_locked_env ns dep (demo_lock 0)"
  by (simp add: file_lock_env_def env_keeps_def call_keeps_def demo_locked_env_def demo_guard_env_def)

lemma run_releases_lock_witness:
  "uses_lock demo_coordinator \<and>
   (\<exists>r s'. run demo_locked_env demo_coordinator ''shop'' ''web'' ''m'' (FFin 1)
      \<lparr>sys_world = demo_system None 0, sys_trace = []\<rparr> = (r, s') \<and> ls_file (sys_world s') = None)"
proof
  show "uses_lock demo_coordinator" by (simp add: uses_lock_def)
  obtain r s' where run: "run demo_locked_env demo_coordinator ''shop'' ''web'' ''m'' (FFin 1)
      \<lparr>sys_world = demo_system None 0, sys_trace = []\<rparr> = (r, s')" by fastforce
  from run_releases_lock[OF demo_file_lock this] have "ls_file (sys_world s') = None" by auto
  with run show "\<exists>r s'. run demo_locked_env demo_coordinator ''shop'' ''web'' ''m'' (FFin 1)
      \<lparr>sys_world = demo_system None 0, sys_trace = []\<rparr> = (r, s') \<and> ls_file (sys_world s') = None" by blast
qed

end
