(* ===== verification/PyNumber.thy ===== *)
theory PyNumber
  imports Validator
begin

text \<open>
  The conversions \<open>float(v)\<close> and \<open>int(v)\<close> of Python on the values of a JSON document: the text
  grammar of numbers (blanks, sign, digits with single underscores between them, fraction,
  exponent, \<open>inf\<close> and \<open>nan\<close>), the correctly rounded result, and the exceptions.
\<close>

section \<open>Numeric text\<close>

definition num_space :: "char \<Rightarrow> bool" where
  "num_space c = (let n = code_point c in (9 \<le> n \<and> n \<le> 13) \<or> n = 32 \<or> n = 133 \<or> n = 160)"

definition num_strip :: "string \<Rightarrow> string" where
  "num_strip s = rev (dropWhile num_space (rev (dropWhile num_space s)))"

text \<open>An underscore must stand between two digits; \<open>None\<close> is a misplaced one.\<close>

fun drop_underscores :: "char option \<Rightarrow> string \<Rightarrow> string option" where
  "drop_underscores prev [] = (if prev = Some CHR ''_'' then None else Some [])"
| "drop_underscores prev (c # cs) =
     (if c = CHR ''_'' then
        (case prev of
           None \<Rightarrow> None
         | Some p \<Rightarrow> if is_decimal p then drop_underscores (Some c) cs else None)
      else if prev = Some CHR ''_'' \<and> \<not> is_decimal c then None
      else map_option ((#) c) (drop_underscores (Some c) cs))"

fun split_sign :: "string \<Rightarrow> bool \<times> string" where
  "split_sign (c # cs) =
     (if c = CHR ''-'' then (True, cs) else if c = CHR ''+'' then (False, cs) else (False, c # cs))"
| "split_sign [] = (False, [])"

text \<open>The exponent part: nothing, or \<open>e\<close> with an optionally signed number.\<close>

fun exponent_value :: "string \<Rightarrow> int option" where
  "exponent_value [] = Some 0"
| "exponent_value (c # cs) =
     (if c = CHR ''e'' then
        (let (neg, ds) = split_sign cs
         in if isdecimal ds then Some (if neg then - int (decimal_value ds) else int (decimal_value ds))
            else None)
      else None)"

text \<open>An unsigned decimal literal in lower case, as the exact number it denotes.\<close>

definition unsigned_value :: "string \<Rightarrow> rat option" where
  "unsigned_value s =
     (let ip = takeWhile is_decimal s; r = dropWhile is_decimal s;
          dotted = (r \<noteq> [] \<and> hd r = CHR ''.'');
          fp = (if dotted then takeWhile is_decimal (tl r) else []);
          ep = (if dotted then dropWhile is_decimal (tl r) else r)
      in if ip = [] \<and> fp = [] then None
         else map_option (\<lambda>e. of_nat (decimal_value (ip @ fp)) * pow10 (e - int (length fp)))
           (exponent_value ep))"

definition parse_float :: "string \<Rightarrow> pyfloat option" where
  "parse_float text =
     (case drop_underscores None (num_strip text) of
        None \<Rightarrow> None
      | Some s \<Rightarrow>
         (let (neg, b) = split_sign (lower s)
          in if b = ''inf'' \<or> b = ''infinity'' then Some (if neg then FNInf else FPInf)
             else if b = ''nan'' then Some FNaN
             else map_option (\<lambda>x. round64 (if neg then - x else x)) (unsigned_value b)))"

definition int_text :: "string \<Rightarrow> (exn, int) result" where
  "int_text text =
     (let bad = Inl (ValueError (''invalid literal for int() with base 10: '' @ str_repr text));
          (neg, b) = split_sign (num_strip text)
      in case drop_underscores None b of
           None \<Rightarrow> bad
         | Some ds \<Rightarrow>
             (if isdecimal ds then rbind (parse_int ds) (\<lambda>i. Inr (if neg then - i else i))
              else bad))"

section \<open>\<open>float\<close> and \<open>int\<close>\<close>

definition too_large :: exn where
  "too_large = OtherError ''int too large to convert to float''"

definition float_of_int :: "int \<Rightarrow> (exn, pyfloat) result" where
  "float_of_int i = (if is_finite (round64 (of_int i)) then Inr (round64 (of_int i)) else Inl too_large)"

fun py_float :: "pyval \<Rightarrow> (exn, pyfloat) result" where
  "py_float (VBool b) = Inr (FFin (if b then 1 else 0))"
| "py_float (VInt i) = float_of_int i"
| "py_float (VFloat x) = Inr x"
| "py_float (VStr s) = (case parse_float s of
      Some x \<Rightarrow> Inr x
    | None \<Rightarrow> Inl (ValueError (''could not convert string to float: '' @ str_repr s)))"
| "py_float _ = Inl (TypeError ''float() argument must be a string or a real number'')"

definition truncate_rat :: "rat \<Rightarrow> int" where
  "truncate_rat x = (if 0 \<le> x then \<lfloor>x\<rfloor> else \<lceil>x\<rceil>)"

fun int_of_float :: "pyfloat \<Rightarrow> (exn, int) result" where
  "int_of_float (FFin x) = Inr (truncate_rat x)"
| "int_of_float FNaN = Inl (ValueError ''cannot convert float NaN to integer'')"
| "int_of_float _ = Inl (OtherError ''cannot convert float infinity to integer'')"

fun py_int :: "pyval \<Rightarrow> (exn, int) result" where
  "py_int (VBool b) = Inr (if b then 1 else 0)"
| "py_int (VInt i) = Inr i"
| "py_int (VFloat x) = int_of_float x"
| "py_int (VStr s) = int_text s"
| "py_int _ = Inl (TypeError ''int() argument must be a string or a real number'')"

text \<open>Only an integer beyond binary64 makes \<open>float\<close> raise anything but \<open>TypeError\<close> or \<open>ValueError\<close>.\<close>

lemma py_float_error:
  "py_float v = Inl e \<Longrightarrow>
   (\<exists>m. e = TypeError m) \<or> (\<exists>m. e = ValueError m) \<or>
   (e = too_large \<and> (\<exists>i. v = VInt i \<and> \<not> is_finite (round64 (of_int i))))"
  by (cases v) (auto simp: float_of_int_def split: option.splits if_splits)

lemma float_of_int_finite: "float_of_int i = Inr x \<Longrightarrow> is_finite x"
  by (auto simp: float_of_int_def split: if_splits)

section \<open>Integers up to \<open>2 ^ 53\<close> are exact\<close>

lemma ilog2_less: "n < 2 ^ Suc k \<Longrightarrow> ilog2 n \<le> int k"
proof (induction k arbitrary: n)
  case 0
  then show ?case by (subst ilog2.simps) simp
next
  case (Suc k)
  have "ilog2 (n div 2) \<le> int k" by (rule Suc.IH) (use Suc.prems in auto)
  then show ?case by (subst ilog2.simps) auto
qed

lemma float_limit_big: "x \<le> 2 ^ 53 \<Longrightarrow> x < float_limit"
  by (simp add: float_limit_def)

lemma binary_exponent_less:
  assumes "0 < y" and "y < 2 ^ 53"
  shows "binary_exponent y \<le> 52"
proof (cases "1 \<le> y")
  case True
  have "\<lfloor>y\<rfloor> < 2 ^ Suc 52" using assms(2) by (simp add: floor_less_iff)
  from ilog2_less[OF this] True show ?thesis by (simp add: binary_exponent_def)
next
  case False
  with assms(1) binary_exponent_le_0[of y] show ?thesis by simp
qed

lemma round64_below:
  assumes "0 \<le> y" and "y < of_int n" and "n \<le> 2 ^ 53"
  shows "\<exists>z. round64 y = FFin z \<and> 0 \<le> z \<and> z \<le> of_int n"
proof (cases "y = 0")
  case True
  with assms show ?thesis by simp
next
  case False
  define e where "e = max (binary_exponent y) (- 1022)"
  define u where "u = pow2 (e - 52)"
  define v where "v = of_int (round_half_even (y / u)) * u"
  have n: "(of_int n :: rat) \<le> 2 ^ 53" using assms(3) by (metis of_int_le_iff of_int_numeral of_int_power)
  have "e \<le> 52" using binary_exponent_less[of y] False assms n by (simp add: e_def)
  then have u: "u = 1 / 2 ^ nat (52 - e)" by (auto simp: u_def pow2_def)
  have "y / u \<le> of_int (n * 2 ^ nat (52 - e))" using assms by (simp add: u mult_right_mono)
  from round_half_even_le[OF this] have "round_half_even (y / u) \<le> n * 2 ^ nat (52 - e)" .
  then have "(of_int (round_half_even (y / u)) :: rat) \<le> of_int n * 2 ^ nat (52 - e)"
    by (metis of_int_le_iff of_int_mult of_int_numeral of_int_power)
  then have v: "v \<le> of_int n" by (simp add: v_def u pos_divide_le_eq)
  with n have "v < float_limit" using float_limit_big by fastforce
  then have r: "round64 y = FFin v"
    using False assms by (simp add: round64_def Let_def v_def u_def e_def)
  from round64_nonneg[OF assms(1) this] v r show ?thesis by blast
qed

lemma round64_int:
  assumes "0 \<le> n" and "n \<le> 2 ^ 53"
  shows "round64 (of_int n) = FFin (of_int n)"
proof (cases "n = 0 \<or> n = 2 ^ 53")
  case True
  have "round64 (2 ^ 53) = FFin (2 ^ 53)"
  proof (rule round64_exact[where e = 53 and m = "2 ^ 52"])
    have "ilog2 (2 ^ 53) = 53"
      by (simp add: ilog2.simps)
    then show "53 = max (binary_exponent (2 ^ 53)) (- 1022)" by (simp add: binary_exponent_def)
  qed (simp_all add: pow2_def float_limit_big)
  with True show ?thesis by auto
next
  case False
  with assms have n: "0 < n" "n < 2 ^ 53" by auto
  let ?e = "ilog2 n"
  have e: "0 \<le> ?e" "?e \<le> 52" using ilog2_nonneg[of n] ilog2_less[of n 52] n by simp_all
  have "(of_int n :: rat) < 2 ^ 53" using n by (metis of_int_less_iff of_int_numeral of_int_power)
  then have lim: "of_int n < float_limit" using float_limit_big by simp
  show ?thesis
  proof (rule round64_exact[where e = ?e and m = "n * 2 ^ nat (52 - ?e)"])
    show "?e = max (binary_exponent (of_int n)) (- 1022)" using n e by (simp add: binary_exponent_def)
    show "of_int n = of_int (n * 2 ^ nat (52 - ?e)) * pow2 (?e - 52)"
      using e by (auto simp: pow2_def)
  qed (use n lim in simp_all)
qed

lemma round64_at_most:
  assumes "0 \<le> y" and "y \<le> of_int n" and "n \<le> 2 ^ 53"
  shows "\<exists>z. round64 y = FFin z \<and> 0 \<le> z \<and> z \<le> of_int n"
proof (cases "y = of_int n")
  case True
  with assms round64_int[of n] show ?thesis by simp
next
  case False
  with assms round64_below[of y n] show ?thesis by simp
qed

lemma truncate_le: "0 \<le> x \<Longrightarrow> x \<le> of_int n \<Longrightarrow> truncate_rat x \<le> n"
  by (simp add: truncate_rat_def) linarith


end
