(* ===== verification/RuntimeModels.thy ===== *)
theory RuntimeModels
  imports Effects
begin

text \<open>
  \<open>experiment_runtime_models.py\<close>: stages, requests and events of an experiment, with the
  normalisation their constructors perform, and the JSON form they are stored in. Constructor
  arguments are Python values; an object that was constructed is a record. A member of a string
  enumeration is its string.
\<close>

section \<open>Stages\<close>

datatype RuntimeStage =
    QUEUED_STAGE | PREFLIGHT | INJECTING_FAULT | COLLECTING_EVIDENCE | AGENT_REASONING | NEGOTIATING
  | VALIDATING | EXECUTING | OBSERVING_RECOVERY | ANALYZING | CLEANUP | COMPLETED_STAGE

fun stage_value :: "RuntimeStage \<Rightarrow> string" where
  "stage_value QUEUED_STAGE = ''queued''"
| "stage_value PREFLIGHT = ''preflight''"
| "stage_value INJECTING_FAULT = ''injecting_fault''"
| "stage_value COLLECTING_EVIDENCE = ''collecting_evidence''"
| "stage_value AGENT_REASONING = ''agent_reasoning''"
| "stage_value NEGOTIATING = ''negotiating''"
| "stage_value VALIDATING = ''validating''"
| "stage_value EXECUTING = ''executing''"
| "stage_value OBSERVING_RECOVERY = ''observing_recovery''"
| "stage_value ANALYZING = ''analyzing''"
| "stage_value CLEANUP = ''cleanup''"
| "stage_value COMPLETED_STAGE = ''completed''"

definition all_stages :: "RuntimeStage list" where
  "all_stages = [QUEUED_STAGE, PREFLIGHT, INJECTING_FAULT, COLLECTING_EVIDENCE, AGENT_REASONING,
     NEGOTIATING, VALIDATING, EXECUTING, OBSERVING_RECOVERY, ANALYZING, CLEANUP, COMPLETED_STAGE]"

text \<open>\<open>EnumType(value)\<close>: the member with this value.\<close>

definition member_of :: "('a \<Rightarrow> string) \<Rightarrow> 'a list \<Rightarrow> string \<Rightarrow> 'a option" where
  "member_of f xs s = List.find (\<lambda>x. f x = s) xs"

lemma member_of_Some: "member_of f xs s = Some x \<Longrightarrow> f x = s"
  by (simp add: member_of_def find_Some_iff) blast

lemma stage_member [simp]: "member_of stage_value all_stages (stage_value st) = Some st"
  by (cases st) (simp_all add: member_of_def all_stages_def)

lemma mode_member [simp]: "member_of mode_value [MOCK, DRY_RUN, REAL] (mode_value m) = Some m"
  by (cases m) (simp_all add: member_of_def)

lemma backend_member [simp]: "member_of backend_value [PYTHON, GO] (backend_value b) = Some b"
  by (cases b) (simp_all add: member_of_def)

section \<open>Checks and conversions\<close>

fun strip_identifier :: "string \<Rightarrow> pyval \<Rightarrow> (exn, string) result" where
  "strip_identifier name (VStr s) =
     (if strip s = '''' then Inl (ValueError (name @ '' must not be empty'')) else Inr (strip s))"
| "strip_identifier name _ = Inl (TypeError (name @ '' must be a string''))"

fun enum_value :: "string \<Rightarrow> ('a \<Rightarrow> string) \<Rightarrow> 'a list \<Rightarrow> pyval \<Rightarrow> (exn, 'a) result" where
  "enum_value type_name f xs (VStr s) = (case member_of f xs s of
      Some x \<Rightarrow> Inr x
    | None \<Rightarrow> Inl (ValueError (''invalid '' @ type_name @ '': '' @ str_repr s)))"
| "enum_value type_name f xs v =
     Inl (ValueError (''invalid '' @ type_name @ '': '' @ json_repr v))"

text \<open>\<open>_freeze\<close> and \<open>_json_safe\<close> on the values of the model; other objects raise \<open>TypeError\<close>.\<close>

fun freeze :: "pyval \<Rightarrow> (exn, pyval) result" where
  "freeze (VKind k) = Inr (VStr (kind_value k))"
| "freeze (VVerdict v) = Inr (VStr (verdict_value v))"
| "freeze (VDict kvs) =
     rbind (rmap (\<lambda>(k, v). rbind (freeze v) (\<lambda>w. Inr (k, w))) kvs) (\<lambda>ws. Inr (VDict ws))"
| "freeze (VList vs) = rbind (rmap freeze vs) (\<lambda>ws. Inr (VTuple ws))"
| "freeze (VTuple vs) = rbind (rmap freeze vs) (\<lambda>ws. Inr (VTuple ws))"
| "freeze (VFloat x) =
     (if is_finite x then Inr (VFloat x) else Inl (ValueError ''float values must be finite''))"
| "freeze VNone = Inr VNone"
| "freeze (VBool b) = Inr (VBool b)"
| "freeze (VInt i) = Inr (VInt i)"
| "freeze (VStr s) = Inr (VStr s)"
| "freeze _ = Inl (TypeError ''value is not JSON serializable'')"

fun json_safe :: "pyval \<Rightarrow> (exn, pyval) result" where
  "json_safe (VKind k) = Inr (VStr (kind_value k))"
| "json_safe (VVerdict v) = Inr (VStr (verdict_value v))"
| "json_safe (VDict kvs) =
     rbind (rmap (\<lambda>(k, v). rbind (json_safe v) (\<lambda>w. Inr (k, w))) kvs) (\<lambda>ws. Inr (VDict ws))"
| "json_safe (VList vs) = rbind (rmap json_safe vs) (\<lambda>ws. Inr (VList ws))"
| "json_safe (VTuple vs) = rbind (rmap json_safe vs) (\<lambda>ws. Inr (VList ws))"
| "json_safe (VFloat x) =
     (if is_finite x then Inr (VFloat x) else Inl (ValueError ''float values must be finite''))"
| "json_safe VNone = Inr VNone"
| "json_safe (VBool b) = Inr (VBool b)"
| "json_safe (VInt i) = Inr (VInt i)"
| "json_safe (VStr s) = Inr (VStr s)"
| "json_safe _ = Inl (TypeError ''value is not JSON serializable'')"

text \<open>What \<open>json.loads(json.dumps(v, sort_keys=True))\<close> gives for a JSON value.\<close>

fun json_reload :: "pyval \<Rightarrow> pyval" where
  "json_reload (VDict kvs) = VDict (sort_key fst (map (\<lambda>(k, v). (k, json_reload v)) kvs))"
| "json_reload (VList vs) = VList (map json_reload vs)"
| "json_reload (VTuple vs) = VList (map json_reload vs)"
| "json_reload (VKind k) = VStr (kind_value k)"
| "json_reload (VVerdict v) = VStr (verdict_value v)"
| "json_reload v = v"

text \<open>The values \<open>json.dumps\<close> accepts; it raises \<open>TypeError\<close> on the others.\<close>

fun dumpable :: "pyval \<Rightarrow> bool" where
  "dumpable (VDict kvs) = list_all (\<lambda>(k, v). dumpable v) kvs"
| "dumpable (VList vs) = list_all dumpable vs"
| "dumpable (VTuple vs) = list_all dumpable vs"
| "dumpable VNone = True"
| "dumpable (VBool b) = True"
| "dumpable (VInt i) = True"
| "dumpable (VFloat x) = True"
| "dumpable (VStr s) = True"
| "dumpable (VKind k) = True"
| "dumpable (VVerdict v) = True"
| "dumpable _ = False"

text \<open>The same value with the keys of every dictionary in order; Python compares the two as equal.\<close>

fun sort_keys :: "pyval \<Rightarrow> pyval" where
  "sort_keys (VDict kvs) = VDict (sort_key fst (map (\<lambda>(k, v). (k, sort_keys v)) kvs))"
| "sort_keys (VTuple vs) = VTuple (map sort_keys vs)"
| "sort_keys v = v"

section \<open>Requests\<close>

record ExperimentRuntimeRequest =
  rq_scenario_id :: string
  rq_namespace :: string
  rq_deployment :: string
  rq_metric :: string
  rq_threshold :: pyfloat
  rq_mode :: ExecutionMode
  rq_backend :: ExecutionBackend
  rq_protocol_profile :: string
  rq_repetitions :: int
  rq_controller :: string
  rq_model :: string
  rq_incident_source :: string
  rq_benchmark_id :: string
  rq_detection_context :: "(string \<times> pyval) list"

text \<open>The constructor's arguments.\<close>

record request_args =
  qa_scenario_id :: pyval
  qa_namespace :: pyval
  qa_deployment :: pyval
  qa_metric :: pyval
  qa_threshold :: pyval
  qa_mode :: pyval
  qa_backend :: pyval
  qa_protocol_profile :: pyval
  qa_repetitions :: pyval
  qa_controller :: pyval
  qa_model :: pyval
  qa_incident_source :: pyval
  qa_benchmark_id :: pyval
  qa_detection_context :: pyval

definition underscored :: "string \<Rightarrow> string" where
  "underscored s = replace_char CHR ''-'' CHR ''_'' (lower s)"

lemma is_space_replace [simp]: "is_space (if c = CHR ''-'' then CHR ''_'' else c) = is_space c"
  by (auto simp: is_space_def code_point_def)

lemma underscored_map:
  "underscored s = map (\<lambda>c. if lower_char c = CHR ''-'' then CHR ''_'' else lower_char c) s"
  by (simp add: underscored_def replace_char_def lower_def)

lemma strip_underscored [simp]: "strip (underscored s) = underscored (strip s)"
  unfolding underscored_map by (rule strip_map) simp

lemma underscored_idem [simp]: "underscored (underscored s) = underscored s"
proof -
  have "lower_char CHR ''_'' = CHR ''_''" by (simp add: lower_char_def code_point_def)
  then show ?thesis by (simp add: underscored_map)
qed

lemma map_Nil_strip [simp]: "underscored s = '''' \<longleftrightarrow> s = ''''"
  by (simp_all add: lower_def underscored_map)

fun string_field :: "string \<Rightarrow> pyval \<Rightarrow> (exn, string) result" where
  "string_field name (VStr s) = Inr (strip s)"
| "string_field name _ = Inl (TypeError (name @ '' must be a string''))"

fun frozen_mapping :: "string \<Rightarrow> pyval \<Rightarrow> (exn, (string \<times> pyval) list) result" where
  "frozen_mapping name (VDict kvs) = rmap (\<lambda>(k, v). rbind (freeze v) (\<lambda>w. Inr (k, w))) kvs"
| "frozen_mapping name _ = Inl (TypeError (name @ '' must be a mapping''))"

fun repetition_count :: "pyval \<Rightarrow> (exn, int) result" where
  "repetition_count (VInt n) =
     (if n < 1 then Inl (ValueError ''repetitions must be an integer >= 1'') else Inr n)"
| "repetition_count _ = Inl (ValueError ''repetitions must be an integer >= 1'')"

text \<open>\<open>isfinite(i)\<close> of an integer beyond binary64 raises \<open>OverflowError\<close>.\<close>

fun threshold_value :: "pyval \<Rightarrow> (exn, pyfloat) result" where
  "threshold_value (VInt i) =
     (if is_finite (round64 (of_int i)) then Inr (round64 (of_int i))
      else Inl (OtherError ''int too large to convert to float''))"
| "threshold_value (VFloat x) =
     (if is_finite x then Inr x else Inl (ValueError ''threshold must be finite''))"
| "threshold_value _ = Inl (ValueError ''threshold must be finite'')"

definition member_choice :: "string \<Rightarrow> string list \<Rightarrow> string \<Rightarrow> pyval \<Rightarrow> (exn, unit) result" where
  "member_choice name allowed s v =
     raise_if (s \<notin> set allowed) (ValueError (''invalid '' @ name @ '': '' @ json_repr v))"

definition make_request :: "request_args \<Rightarrow> (exn, ExperimentRuntimeRequest) result" where
  "make_request a =
     rbind (strip_identifier ''scenario_id'' (qa_scenario_id a)) (\<lambda>scenario_id.
     rbind (strip_identifier ''namespace'' (qa_namespace a)) (\<lambda>namespace.
     rbind (strip_identifier ''deployment'' (qa_deployment a)) (\<lambda>deployment.
     rbind (strip_identifier ''protocol_profile'' (qa_protocol_profile a)) (\<lambda>profile.
     rbind (strip_identifier ''metric'' (qa_metric a)) (\<lambda>metric.
     rbind (enum_value ''ExecutionMode'' mode_value [MOCK, DRY_RUN, REAL] (qa_mode a)) (\<lambda>mode.
     rbind (enum_value ''ExecutionBackend'' backend_value [PYTHON, GO] (qa_backend a)) (\<lambda>backend.
     rbind (strip_identifier ''controller'' (qa_controller a)) (\<lambda>controller.
     rbind (member_choice ''controller'' [''deterministic'', ''autogen''] (lower controller)
       (qa_controller a)) (\<lambda>_.
     rbind (string_field ''model'' (qa_model a)) (\<lambda>model.
     rbind (strip_identifier ''incident_source'' (qa_incident_source a)) (\<lambda>incident.
     rbind (member_choice ''incident_source'' [''chaos_mesh'', ''aiopslab''] (underscored incident)
       (qa_incident_source a)) (\<lambda>_.
     rbind (string_field ''benchmark_id'' (qa_benchmark_id a)) (\<lambda>benchmark.
     rbind (raise_if (underscored incident = ''aiopslab'' \<and> benchmark = '''')
       (ValueError ''benchmark_id is required for aiopslab incident source'')) (\<lambda>_.
     rbind (frozen_mapping ''detection_context'' (qa_detection_context a)) (\<lambda>context.
     rbind (repetition_count (qa_repetitions a)) (\<lambda>repetitions.
     rbind (threshold_value (qa_threshold a)) (\<lambda>threshold.
     Inr \<lparr>rq_scenario_id = scenario_id, rq_namespace = namespace, rq_deployment = deployment,
          rq_metric = underscored metric, rq_threshold = threshold, rq_mode = mode,
          rq_backend = backend, rq_protocol_profile = profile, rq_repetitions = repetitions,
          rq_controller = lower controller, rq_model = model,
          rq_incident_source = underscored incident, rq_benchmark_id = benchmark,
          rq_detection_context = context\<rparr>)))))))))))))))))"

definition request_dict :: "ExperimentRuntimeRequest \<Rightarrow> pyval" where
  "request_dict r = VDict
     [(''scenario_id'', VStr (rq_scenario_id r)), (''namespace'', VStr (rq_namespace r)),
      (''deployment'', VStr (rq_deployment r)), (''metric'', VStr (rq_metric r)),
      (''threshold'', VFloat (rq_threshold r)), (''mode'', VStr (mode_value (rq_mode r))),
      (''backend'', VStr (backend_value (rq_backend r))),
      (''protocol_profile'', VStr (rq_protocol_profile r)),
      (''repetitions'', VInt (rq_repetitions r)), (''controller'', VStr (rq_controller r)),
      (''model'', VStr (rq_model r)), (''incident_source'', VStr (rq_incident_source r)),
      (''benchmark_id'', VStr (rq_benchmark_id r)),
      (''detection_context'', VDict (rq_detection_context r))]"

definition request_to_dict :: "ExperimentRuntimeRequest \<Rightarrow> (exn, pyval) result" where
  "request_to_dict r = json_safe (request_dict r)"

section \<open>Events\<close>

record RuntimeEvent =
  re_experiment_id :: string
  re_sequence :: int
  re_stage :: RuntimeStage
  re_status :: string
  re_message :: string
  re_created_at :: string
  re_payload :: "(string \<times> pyval) list"

fun sequence_number :: "pyval \<Rightarrow> (exn, int) result" where
  "sequence_number (VInt n) =
     (if n < 0 then Inl (ValueError ''sequence must be non-negative'') else Inr n)"
| "sequence_number _ = Inl (ValueError ''sequence must be non-negative'')"

definition make_event ::
  "pyval \<Rightarrow> pyval \<Rightarrow> pyval \<Rightarrow> pyval \<Rightarrow> pyval \<Rightarrow> pyval \<Rightarrow> pyval \<Rightarrow> (exn, RuntimeEvent) result" where
  "make_event experiment_id sequence stage status message created_at payload =
     rbind (strip_identifier ''experiment_id'' experiment_id) (\<lambda>i.
     rbind (strip_identifier ''status'' status) (\<lambda>st.
     rbind (strip_identifier ''message'' message) (\<lambda>msg.
     rbind (strip_identifier ''created_at'' created_at) (\<lambda>created.
     rbind (sequence_number sequence) (\<lambda>n.
     rbind (enum_value ''RuntimeStage'' stage_value all_stages stage) (\<lambda>sg.
     rbind (frozen_mapping ''payload'' payload) (\<lambda>p.
     Inr \<lparr>re_experiment_id = i, re_sequence = n, re_stage = sg, re_status = st, re_message = msg,
          re_created_at = created, re_payload = p\<rparr>)))))))"

definition event_dict :: "RuntimeEvent \<Rightarrow> pyval" where
  "event_dict e = VDict
     [(''experiment_id'', VStr (re_experiment_id e)), (''sequence'', VInt (re_sequence e)),
      (''stage'', VStr (stage_value (re_stage e))), (''status'', VStr (re_status e)),
      (''message'', VStr (re_message e)), (''created_at'', VStr (re_created_at e)),
      (''payload'', VDict (re_payload e))]"

definition event_to_dict :: "RuntimeEvent \<Rightarrow> (exn, pyval) result" where
  "event_to_dict e = json_safe (event_dict e)"

section \<open>JSON values of stored objects\<close>

text \<open>A frozen value, and its JSON form.\<close>

fun plain :: "pyval \<Rightarrow> bool" where
  "plain (VDict kvs) = list_all (\<lambda>(k, v). plain v) kvs"
| "plain (VTuple vs) = list_all plain vs"
| "plain (VFloat x) = is_finite x"
| "plain VNone = True"
| "plain (VBool b) = True"
| "plain (VInt i) = True"
| "plain (VStr s) = True"
| "plain v = False"

fun thaw :: "pyval \<Rightarrow> pyval" where
  "thaw (VDict kvs) = VDict (map (\<lambda>(k, v). (k, thaw v)) kvs)"
| "thaw (VTuple vs) = VList (map thaw vs)"
| "thaw v = v"

lemma freeze_plain: "freeze u = Inr v \<Longrightarrow> plain v"
proof (induction u arbitrary: v rule: freeze.induct)
  case (3 kvs)
  then obtain ws where ws: "rmap (\<lambda>(k, v). rbind (freeze v) (\<lambda>w. Inr (k, w))) kvs = Inr ws" "v = VDict ws"
    by auto
  from ws(1) have "list_all (\<lambda>(k, v). plain v) ws" 
    by (rule rmap_list_all) (use 3 in auto)
  with ws show ?case by simp
next
  case (4 vs)
  then obtain ws where ws: "rmap freeze vs = Inr ws" "v = VTuple ws" by auto
  from ws(1) have "list_all plain ws" by (rule rmap_list_all) (use 4 in auto)
  with ws show ?case by simp
next
  case (5 vs)
  then obtain ws where ws: "rmap freeze vs = Inr ws" "v = VTuple ws" by auto
  from ws(1) have "list_all plain ws" by (rule rmap_list_all) (use 5 in auto)
  with ws show ?case by simp
qed (auto split: if_splits)

lemma plain_safe: "plain v \<Longrightarrow> json_safe v = Inr (thaw v)"
proof (induction v rule: plain.induct)
  case (1 kvs)
  then have "rmap (\<lambda>(k, v). rbind (json_safe v) (\<lambda>w. Inr (k, w))) kvs = Inr (map (\<lambda>(k, v). (k, thaw v)) kvs)"
    by (intro rmap_Inr_map) (auto simp: list_all_iff)
  then show ?case by simp
next
  case (2 vs)
  then have "rmap json_safe vs = Inr (map thaw vs)"
    by (intro rmap_Inr_map) (auto simp: list_all_iff)
  then show ?case by simp
qed auto

lemma sort_key_values: "sort_key fst (map (\<lambda>(k, v). (k, f v)) kvs) = map (\<lambda>(k, v). (k, f v)) (sort_key fst kvs)"
  by (rule sort_key_map[symmetric]) auto

lemma freeze_reload_items:
  assumes "\<And>k v. (k, v) \<in> set kvs \<Longrightarrow> freeze (json_reload (thaw v)) = Inr (sort_keys v)"
  shows "rmap (\<lambda>(k, v). rbind (freeze v) (\<lambda>w. Inr (k, w)))
      (sort_key fst (map (\<lambda>(k, v). (k, json_reload v)) (map (\<lambda>(k, v). (k, thaw v)) kvs)))
    = Inr (sort_key fst (map (\<lambda>(k, v). (k, sort_keys v)) kvs))"
proof -
  have "rmap (\<lambda>(k, v). rbind (freeze v) (\<lambda>w. Inr (k, w)))
       (map (\<lambda>(k, v). (k, json_reload (thaw v))) (sort_key fst kvs))
    = Inr (map (\<lambda>(k, v). (k, sort_keys v)) (sort_key fst kvs))"
    unfolding rmap_map by (rule rmap_Inr_map) (use assms in auto)
  moreover have "map (\<lambda>(k, v). (k, json_reload v)) (map (\<lambda>(k, v). (k, thaw v)) kvs) = map (\<lambda>(k, v). (k, json_reload (thaw v))) kvs"
    by auto
  ultimately show ?thesis by (simp only: sort_key_values)
qed

lemma freeze_reload: "plain v \<Longrightarrow> freeze (json_reload (thaw v)) = Inr (sort_keys v)"
proof (induction v rule: plain.induct)
  case (1 kvs)
  have "rmap (\<lambda>(k, v). rbind (freeze v) (\<lambda>w. Inr (k, w)))
      (sort_key fst (map (\<lambda>(k, v). (k, json_reload v)) (map (\<lambda>(k, v). (k, thaw v)) kvs)))
    = Inr (sort_key fst (map (\<lambda>(k, v). (k, sort_keys v)) kvs))"
    by (rule freeze_reload_items) (use 1 in \<open>auto simp: list_all_iff\<close>)
  then show ?case by simp
next
  case (2 vs)
  then have "rmap freeze (map json_reload (map thaw vs)) = Inr (map sort_keys vs)"
    unfolding rmap_map by (intro rmap_Inr_map) (auto simp: list_all_iff)
  then show ?case by simp
qed auto

section \<open>What a constructed request satisfies\<close>

definition trimmed :: "string \<Rightarrow> bool" where
  "trimmed s = (strip s = s \<and> s \<noteq> '''')"

definition request_ok :: "ExperimentRuntimeRequest \<Rightarrow> bool" where
  "request_ok r =
     (trimmed (rq_scenario_id r) \<and> trimmed (rq_namespace r) \<and> trimmed (rq_deployment r) \<and>
      trimmed (rq_protocol_profile r) \<and> trimmed (rq_metric r) \<and>
      underscored (rq_metric r) = rq_metric r \<and> is_finite (rq_threshold r) \<and>
      1 \<le> rq_repetitions r \<and> rq_controller r \<in> {''deterministic'', ''autogen''} \<and>
      rq_incident_source r \<in> {''chaos_mesh'', ''aiopslab''} \<and>
      strip (rq_model r) = rq_model r \<and> strip (rq_benchmark_id r) = rq_benchmark_id r \<and>
      (rq_incident_source r = ''aiopslab'' \<longrightarrow> rq_benchmark_id r \<noteq> '''') \<and>
      plain (VDict (rq_detection_context r)))"

lemma strip_identifier_Inr: "strip_identifier n v = Inr s \<longleftrightarrow> (\<exists>u. v = VStr u \<and> s = strip u \<and> s \<noteq> '''')"
  by (cases v) auto

lemma string_field_Inr: "string_field n v = Inr s \<longleftrightarrow> (\<exists>u. v = VStr u \<and> s = strip u)"
  by (cases v) auto

lemma strip_identifier_trimmed: "strip_identifier n v = Inr s \<Longrightarrow> trimmed s"
  by (auto simp: strip_identifier_Inr trimmed_def)

lemma strip_identifier_id: "trimmed s \<Longrightarrow> strip_identifier n (VStr s) = Inr s"
  by (simp add: strip_identifier_Inr trimmed_def)

lemma frozen_mapping_plain: "frozen_mapping n v = Inr kvs \<Longrightarrow> plain (VDict kvs)"
  using freeze_plain[of v] by (cases v) auto

lemma threshold_finite: "threshold_value v = Inr x \<Longrightarrow> is_finite x"
  by (cases v) (auto split: if_splits)

lemma repetition_positive: "repetition_count v = Inr n \<Longrightarrow> 1 \<le> n"
  by (cases v) (auto split: if_splits)

lemma make_request_ok: "make_request a = Inr r \<Longrightarrow> request_ok r"
  unfolding make_request_def request_ok_def member_choice_def
  by (auto simp: string_field_Inr trimmed_def  dest!: strip_identifier_trimmed frozen_mapping_plain threshold_finite repetition_positive)

lemma request_to_dict_ok: "request_ok r \<Longrightarrow> request_to_dict r = Inr (thaw (request_dict r))"
  unfolding request_to_dict_def by (rule plain_safe) (simp add: request_ok_def request_dict_def)


end
