(* ===== verification/PartitionRanking.thy ===== *)
theory PartitionRanking
  imports PyNumber RuntimeModels
begin

text \<open>
  \<open>partition_ranking_models.py\<close>: the ranking of partition candidates and the selection made from
  it, read from a JSON object (\<open>from_dict\<close>) and written back to one (\<open>to_dict\<close>).
\<close>

section \<open>Reading JSON objects\<close>

type_synonym payload = "(string \<times> pyval) list"

definition item_of :: "payload \<Rightarrow> string \<Rightarrow> (exn, pyval) result" where
  "item_of d k = (case map_of d k of Some v \<Rightarrow> Inr v | None \<Rightarrow> Inl (KeyError k))"

text \<open>The items of \<open>for item in v\<close>: of an array, the characters of a text, the keys of an object.\<close>

fun py_iter :: "pyval \<Rightarrow> (exn, pyval list) result" where
  "py_iter (VList vs) = Inr vs"
| "py_iter (VTuple vs) = Inr vs"
| "py_iter (VStr s) = Inr (map (\<lambda>c. VStr [c]) s)"
| "py_iter (VDict kvs) = Inr (map (VStr \<circ> fst) kvs)"
| "py_iter _ = Inl (TypeError ''object is not iterable'')"

text \<open>
  \<open>dict(v)\<close>: of an object its copy, of an empty sequence the empty object; other values of the
  model are rejected. (A sequence of pairs would be accepted; no caller passes one.)
\<close>

definition py_dict :: "pyval \<Rightarrow> (exn, payload) result" where
  "py_dict v = (case v of VDict d \<Rightarrow> Inr d | VList [] \<Rightarrow> Inr [] | VTuple [] \<Rightarrow> Inr [] | VStr [] \<Rightarrow> Inr []
     | _ \<Rightarrow> Inl (TypeError ''cannot convert value to a dictionary''))"

definition array_of :: "pyval \<Rightarrow> string \<Rightarrow> (exn, pyval list) result" where
  "array_of v name = (case v of VList vs \<Rightarrow> Inr vs | VTuple vs \<Rightarrow> Inr vs
     | _ \<Rightarrow> Inl (ValueError (name @ '' must be an array'')))"

definition object_of :: "pyval \<Rightarrow> string \<Rightarrow> (exn, payload) result" where
  "object_of v name = (case v of VDict d \<Rightarrow> Inr d
     | _ \<Rightarrow> Inl (ValueError (name @ '' must be an object'')))"

definition optional_text :: "pyval \<Rightarrow> string option" where
  "optional_text v =
     (if v = VNone then None
      else if strip (json_str v) = '''' then None else Some (strip (json_str v)))"

definition optional_float :: "pyval \<Rightarrow> (exn, pyfloat option) result" where
  "optional_float v = (if v = VNone then Inr None else rbind (py_float v) (\<lambda>x. Inr (Some x)))"

definition feature_contribution :: "pyval \<Rightarrow> (exn, string \<times> pyfloat) result" where
  "feature_contribution v =
     (let bad = Inl (ValueError ''feature_contributions[] must contain a name and value'') in
      case v of
        VList [a, b] \<Rightarrow> rbind (py_float b) (\<lambda>x. Inr (json_str a, x))
      | VTuple [a, b] \<Rightarrow> rbind (py_float b) (\<lambda>x. Inr (json_str a, x))
      | _ \<Rightarrow> bad)"

definition opt_json :: "('a \<Rightarrow> pyval) \<Rightarrow> 'a option \<Rightarrow> pyval" where
  "opt_json f x = (case x of None \<Rightarrow> VNone | Some y \<Rightarrow> f y)"

section \<open>Ranking entries and selections\<close>

datatype SelectionMode = DETERMINISTIC | SHADOW | LEARNED_GUARDED

fun selection_mode_value :: "SelectionMode \<Rightarrow> string" where
  "selection_mode_value DETERMINISTIC = ''deterministic''"
| "selection_mode_value SHADOW = ''shadow''"
| "selection_mode_value LEARNED_GUARDED = ''learned_guarded''"

definition selection_mode_of :: "string \<Rightarrow> (exn, SelectionMode) result" where
  "selection_mode_of s =
     (case member_of selection_mode_value [DETERMINISTIC, SHADOW, LEARNED_GUARDED] s of
        Some m \<Rightarrow> Inr m
      | None \<Rightarrow> Inl (ValueError (str_repr s @ '' is not a valid SelectionMode'')))"

record CandidateRankingEntry =
  re_candidate_key :: string
  re_baseline_score :: pyfloat
  re_predicted_reward :: "pyfloat option"
  re_prediction_confidence :: "pyfloat option"
  re_rank :: int
  re_eligible :: bool
  re_warnings :: "string list"
  re_feature_contributions :: "(string \<times> pyfloat) list"

definition ranking_entry_of :: "payload \<Rightarrow> (exn, CandidateRankingEntry) result" where
  "ranking_entry_of d =
     rbind (array_of (vget_default d ''feature_contributions'' (VList [])) ''feature_contributions'')
       (\<lambda>contributions.
     rbind (item_of d ''candidate_key'') (\<lambda>key.
     rbind (rbind (item_of d ''baseline_score'') py_float) (\<lambda>baseline.
     rbind (optional_float (vget d ''predicted_reward'')) (\<lambda>predicted.
     rbind (optional_float (vget d ''prediction_confidence'')) (\<lambda>confidence.
     rbind (rbind (item_of d ''rank'') py_int) (\<lambda>rank.
     rbind (item_of d ''eligible'') (\<lambda>eligible.
     rbind (py_iter (vget_default d ''warnings'' (VList []))) (\<lambda>warnings.
     rbind (rmap feature_contribution contributions) (\<lambda>features.
       Inr \<lparr>re_candidate_key = json_str key, re_baseline_score = baseline,
            re_predicted_reward = predicted, re_prediction_confidence = confidence,
            re_rank = rank, re_eligible = truthy eligible, re_warnings = map json_str warnings,
            re_feature_contributions = features\<rparr>)))))))))"

definition ranking_entry_dict :: "CandidateRankingEntry \<Rightarrow> payload" where
  "ranking_entry_dict r =
     [(''candidate_key'', VStr (re_candidate_key r)),
      (''baseline_score'', VFloat (re_baseline_score r)),
      (''predicted_reward'', opt_json VFloat (re_predicted_reward r)),
      (''prediction_confidence'', opt_json VFloat (re_prediction_confidence r)),
      (''rank'', VInt (re_rank r)),
      (''eligible'', VBool (re_eligible r)),
      (''warnings'', VList (map VStr (re_warnings r))),
      (''feature_contributions'',
       VList (map (\<lambda>(n, x). VList [VStr n, VFloat x]) (re_feature_contributions r)))]"

record CandidateSelection =
  cs_mode :: SelectionMode
  cs_active_ranker_id :: string
  cs_active_ranker_version :: string
  cs_baseline_key :: "string option"
  cs_learned_key :: "string option"
  cs_final_key :: "string option"
  cs_model_version :: "string option"
  cs_model_artifact_hash :: "string option"
  cs_feature_schema_version :: string
  cs_entries :: "CandidateRankingEntry list"
  cs_confidence :: pyfloat
  cs_fallback_used :: bool
  cs_fallback_reason :: "string option"
  cs_rationale :: "string list"

definition selection_of :: "payload \<Rightarrow> (exn, CandidateSelection) result" where
  "selection_of d =
     rbind (array_of (vget_default d ''entries'' (VList [])) ''entries'') (\<lambda>entries.
     rbind (rbind (item_of d ''mode'') (\<lambda>v. selection_mode_of (json_str v))) (\<lambda>mode.
     rbind (item_of d ''active_ranker_id'') (\<lambda>ranker.
     rbind (item_of d ''active_ranker_version'') (\<lambda>version.
     rbind (item_of d ''feature_schema_version'') (\<lambda>schema.
     rbind (rmap (\<lambda>item. rbind (object_of item ''entries[]'') ranking_entry_of) entries) (\<lambda>es.
     rbind (rbind (item_of d ''confidence'') py_float) (\<lambda>confidence.
     rbind (item_of d ''fallback_used'') (\<lambda>fallback.
     rbind (py_iter (vget_default d ''rationale'' (VList []))) (\<lambda>rationale.
       Inr \<lparr>cs_mode = mode, cs_active_ranker_id = json_str ranker,
            cs_active_ranker_version = json_str version,
            cs_baseline_key = optional_text (vget d ''baseline_selected_candidate_key''),
            cs_learned_key = optional_text (vget d ''learned_selected_candidate_key''),
            cs_final_key = optional_text (vget d ''final_selected_candidate_key''),
            cs_model_version = optional_text (vget d ''model_version''),
            cs_model_artifact_hash = optional_text (vget d ''model_artifact_hash''),
            cs_feature_schema_version = json_str schema, cs_entries = es,
            cs_confidence = confidence, cs_fallback_used = truthy fallback,
            cs_fallback_reason = optional_text (vget d ''fallback_reason''),
            cs_rationale = map json_str rationale\<rparr>)))))))))"

definition selection_dict :: "CandidateSelection \<Rightarrow> payload" where
  "selection_dict c =
     [(''mode'', VStr (selection_mode_value (cs_mode c))),
      (''active_ranker_id'', VStr (cs_active_ranker_id c)),
      (''active_ranker_version'', VStr (cs_active_ranker_version c)),
      (''baseline_selected_candidate_key'', opt_json VStr (cs_baseline_key c)),
      (''learned_selected_candidate_key'', opt_json VStr (cs_learned_key c)),
      (''final_selected_candidate_key'', opt_json VStr (cs_final_key c)),
      (''model_version'', opt_json VStr (cs_model_version c)),
      (''model_artifact_hash'', opt_json VStr (cs_model_artifact_hash c)),
      (''feature_schema_version'', VStr (cs_feature_schema_version c)),
      (''entries'', VList (map (VDict \<circ> ranking_entry_dict) (cs_entries c))),
      (''confidence'', VFloat (cs_confidence c)),
      (''fallback_used'', VBool (cs_fallback_used c)),
      (''fallback_reason'', opt_json VStr (cs_fallback_reason c)),
      (''rationale'', VList (map VStr (cs_rationale c)))]"

definition signature_provenance :: "CandidateSelection \<Rightarrow> payload" where
  "signature_provenance c =
     [(''mode'', VStr (selection_mode_value (cs_mode c))),
      (''active_ranker_id'', VStr (cs_active_ranker_id c)),
      (''active_ranker_version'', VStr (cs_active_ranker_version c)),
      (''model_artifact_hash'', opt_json VStr (cs_model_artifact_hash c)),
      (''final_selected_candidate_key'', opt_json VStr (cs_final_key c))]"

section \<open>What was read is written back\<close>

named_theorems wire_simps \<open>reading back the fields of a serialised object\<close>

text \<open>A text that \<open>strip\<close> leaves alone and that is not empty.\<close>

definition text_ok :: "string \<Rightarrow> bool" where
  "text_ok s = (s \<noteq> '''' \<and> strip s = s)"

lemma text_ok_strip [simp]: "text_ok (strip s) = (strip s \<noteq> '''')"
  by (simp add: text_ok_def)

lemma optional_text_ok: "optional_text v = Some s \<Longrightarrow> text_ok s"
  by (auto simp: optional_text_def text_ok_def split: if_splits)

lemma optional_text_back [wire_simps]:
  "pred_option text_ok x \<Longrightarrow> optional_text (opt_json VStr x) = x"
  by (cases x) (auto simp: opt_json_def optional_text_def text_ok_def)

lemma optional_float_back [wire_simps]: "optional_float (opt_json VFloat x) = Inr x"
  by (cases x) (auto simp: opt_json_def optional_float_def)

lemma selection_mode_back [wire_simps]: "selection_mode_of (selection_mode_value m) = Inr m"
  by (cases m) (simp_all add: selection_mode_of_def member_of_def)

lemma rmap_back: "(\<And>x. x \<in> set xs \<Longrightarrow> f (g x) = Inr x) \<Longrightarrow> rmap f (map g xs) = Inr xs"
  by (induction xs) auto

lemma json_str_map [wire_simps]: "map (json_str \<circ> VStr) xs = xs"
  by (simp add: comp_def)

lemma feature_back [wire_simps]:
  "rmap feature_contribution (map (\<lambda>(n, x). VList [VStr n, VFloat x]) fs) = Inr fs"
  by (rule rmap_back) (auto simp: feature_contribution_def)

lemma item_of_Cons [wire_simps]: "item_of ((k', v) # d) k = (if k = k' then Inr v else item_of d k)"
  by (simp add: item_of_def)

lemma vget_Cons [wire_simps]: "vget ((k', v) # d) k = (if k = k' then v else vget d k)"
  by (simp add: vget_def)

lemma vget_default_Cons [wire_simps]:
  "vget_default ((k', v) # d) k dv = (if k = k' then v else vget_default d k dv)"
  by (simp add: vget_default_def)

lemma array_of_VList [wire_simps]: "array_of (VList vs) name = Inr vs"
  by (simp add: array_of_def)

lemma object_of_VDict [wire_simps]: "object_of (VDict d) name = Inr d"
  by (simp add: object_of_def)

lemma ranking_entry_back [wire_simps]: "ranking_entry_of (ranking_entry_dict r) = Inr r"
  by (simp add: ranking_entry_of_def ranking_entry_dict_def wire_simps)

definition selection_ok :: "CandidateSelection \<Rightarrow> bool" where
  "selection_ok c \<longleftrightarrow> pred_option text_ok (cs_baseline_key c) \<and> pred_option text_ok (cs_learned_key c) \<and>
     pred_option text_ok (cs_final_key c) \<and> pred_option text_ok (cs_model_version c) \<and>
     pred_option text_ok (cs_model_artifact_hash c) \<and> pred_option text_ok (cs_fallback_reason c)"

lemma optional_text_pred [simp]: "pred_option text_ok (optional_text v)"
  by (cases "optional_text v") (auto dest: optional_text_ok)

lemma selection_of_ok: "selection_of d = Inr c \<Longrightarrow> selection_ok c"
  by (auto simp: selection_of_def selection_ok_def)

lemma entries_back [wire_simps]:
  "rmap (\<lambda>item. rbind (object_of item ''entries[]'') ranking_entry_of)
     (map (VDict \<circ> ranking_entry_dict) es) = Inr es"
  by (rule rmap_back) (simp add: wire_simps)

lemma selection_back: "selection_ok c \<Longrightarrow> selection_of (selection_dict c) = Inr c"
  by (simp add: selection_of_def selection_dict_def wire_simps selection_ok_def)

end
