(* ===== verification/PartitionModels.thy ===== *)
theory PartitionModels
  imports PartitionRanking
begin

text \<open>
  \<open>partition_models.py\<close>: the contracts of model partitioning. Each contract is read from an
  untrusted JSON object by \<open>from_dict\<close>, which raises \<open>PartitionContractError\<close> on what it rejects,
  and written back by \<open>to_dict\<close>. The predicates \<open>..._ok\<close> state what a contract that was read
  guarantees: texts are stripped and not empty, numbers are finite and at least their minimum,
  identifiers are distinct and refer to devices that exist.
\<close>

section \<open>Field readers\<close>

definition invalid_contract :: "string \<Rightarrow> exn" where
  "invalid_contract m = PartitionContractError ''invalid_contract'' m"

definition mapping_field :: "pyval \<Rightarrow> string \<Rightarrow> (exn, payload) result" where
  "mapping_field v field_name = (case v of VDict d \<Rightarrow> Inr d
     | _ \<Rightarrow> Inl (invalid_contract (field_name @ '' must be an object'')))"

definition sequence_field :: "pyval \<Rightarrow> string \<Rightarrow> (exn, pyval list) result" where
  "sequence_field v field_name = (case v of VList vs \<Rightarrow> Inr vs | VTuple vs \<Rightarrow> Inr vs
     | _ \<Rightarrow> Inl (invalid_contract (field_name @ '' must be an array'')))"

text \<open>\<open>str(value or "").strip()\<close>.\<close>

definition stripped :: "pyval \<Rightarrow> string" where
  "stripped v = strip (if truthy v then json_str v else '''')"

definition text_field :: "pyval \<Rightarrow> string \<Rightarrow> (exn, string) result" where
  "text_field v field_name =
     (if stripped v = '''' then Inl (invalid_contract (field_name @ '' is required''))
      else Inr (stripped v))"

definition float_field :: "pyval \<Rightarrow> string \<Rightarrow> pyfloat \<Rightarrow> (exn, pyfloat) result" where
  "float_field v field_name minimum =
     (let not_numeric = Inl (invalid_contract (field_name @ '' must be numeric'')) in
      case v of
        VBool b \<Rightarrow> not_numeric
      | _ \<Rightarrow>
          (case py_float v of
             Inl (TypeError m) \<Rightarrow> not_numeric
           | Inl (ValueError m) \<Rightarrow> not_numeric
           | Inl e \<Rightarrow> Inl e
           | Inr x \<Rightarrow>
               (if \<not> is_finite x \<or> flt x minimum
                then Inl (invalid_contract (field_name @ '' must be at least '' @ float_repr minimum))
                else Inr x)))"

definition int_field :: "pyval \<Rightarrow> string \<Rightarrow> int \<Rightarrow> (exn, int) result" where
  "int_field v field_name minimum =
     (case v of
        VInt i \<Rightarrow>
          (if i < minimum
           then Inl (invalid_contract (field_name @ '' must be at least '' @ int_str minimum))
           else Inr i)
      | _ \<Rightarrow> Inl (invalid_contract (field_name @ '' must be an integer'')))"

text \<open>The literals \<open>0.0\<close> and \<open>0.000001\<close>.\<close>

abbreviation zero_float :: pyfloat where
  "zero_float \<equiv> FFin 0"

definition micro :: pyfloat where
  "micro = round64 (1 / 1000000)"

fun unique_from :: "('a \<Rightarrow> string) \<Rightarrow> string \<Rightarrow> 'a list \<Rightarrow> 'a list \<Rightarrow> (exn, unit) result" where
  "unique_from show_value code seen [] = Inr ()"
| "unique_from show_value code seen (x # xs) =
     (if x \<in> set seen then Inl (PartitionContractError code (''duplicate value: '' @ show_value x))
      else unique_from show_value code (x # seen) xs)"

definition require_unique :: "('a \<Rightarrow> string) \<Rightarrow> 'a list \<Rightarrow> string \<Rightarrow> (exn, unit) result" where
  "require_unique show_value values code = unique_from show_value code [] values"

definition pair_repr :: "string \<times> string \<Rightarrow> string" where
  "pair_repr p = ''('' @ str_repr (fst p) @ '', '' @ str_repr (snd p) @ '')''"

definition number_ok :: "pyfloat \<Rightarrow> pyfloat \<Rightarrow> bool" where
  "number_ok minimum x \<longleftrightarrow> is_finite x \<and> \<not> flt x minimum"

lemma text_field_Inr: "text_field v n = Inr s \<Longrightarrow> text_ok s"
  by (auto simp: text_field_def stripped_def split: if_splits)

lemma stripped_VStr [wire_simps]: "stripped (VStr s) = strip s"
  by (simp add: stripped_def)

lemma text_field_back [wire_simps]: "text_ok s \<Longrightarrow> text_field (VStr s) n = Inr s"
  by (simp add: text_field_def text_ok_def wire_simps)

lemma float_field_Inr: "float_field v n m = Inr x \<Longrightarrow> number_ok m x"
  by (auto simp: float_field_def number_ok_def Let_def split: pyval.splits sum.splits exn.splits if_splits)

lemma float_field_back [wire_simps]: "number_ok m x \<Longrightarrow> float_field (VFloat x) n m = Inr x"
  by (simp add: float_field_def number_ok_def)

lemma int_field_Inr: "int_field v n m = Inr i \<Longrightarrow> m \<le> i"
  by (auto simp: int_field_def split: pyval.splits if_splits)

lemma int_field_back [wire_simps]: "m \<le> i \<Longrightarrow> int_field (VInt i) n m = Inr i"
  by (simp add: int_field_def)

lemma mapping_field_back [wire_simps]: "mapping_field (VDict d) n = Inr d"
  by (simp add: mapping_field_def)

lemma sequence_field_back [wire_simps]: "sequence_field (VList vs) n = Inr vs"
  by (simp add: sequence_field_def)

lemma unique_from_ok [simp]:
  "unique_from f code seen xs = Inr u \<longleftrightarrow> distinct xs \<and> set xs \<inter> set seen = {}"
  by (induction xs arbitrary: seen) auto

lemma require_unique_ok [simp]: "require_unique f xs code = Inr u \<longleftrightarrow> distinct xs"
  by (simp add: require_unique_def)

lemma rmap_text_ok: "rmap (\<lambda>v. text_field v n) vs = Inr xs \<Longrightarrow> list_all text_ok xs"
  by (erule rmap_list_all) (rule text_field_Inr)

lemma rmap_text_back [wire_simps]:
  "list_all text_ok xs \<Longrightarrow> rmap (\<lambda>v. text_field v n) (map VStr xs) = Inr xs"
  by (rule rmap_back) (simp add: list_all_iff wire_simps)

lemma rmap_objects_ok:
  "rmap (\<lambda>v. rbind (mapping_field v n) f) vs = Inr xs \<Longrightarrow> (\<And>d x. f d = Inr x \<Longrightarrow> P x) \<Longrightarrow>
   list_all P xs"
  by (erule rmap_list_all) auto

lemma rmap_objects_back:
  "list_all P xs \<Longrightarrow> (\<And>x. P x \<Longrightarrow> f (g x) = Inr x) \<Longrightarrow>
   rmap (\<lambda>v. rbind (mapping_field v n) f) (map (VDict \<circ> g) xs) = Inr xs"
  by (rule rmap_back) (simp add: list_all_iff wire_simps)

lemmas field_ok = text_field_Inr float_field_Inr int_field_Inr

section \<open>The parts of a round plan\<close>

record ApprovedExecutionMode =
  am_name :: string
  am_approved :: bool
  am_approved_by :: string
  am_approval_ref :: string

definition approved_mode_of :: "payload \<Rightarrow> (exn, ApprovedExecutionMode) result" where
  "approved_mode_of d =
     rbind (text_field (vget d ''name'') ''execution_mode.name'') (\<lambda>name.
     rbind (raise_if (vget d ''approved'' \<noteq> VBool True)
       (PartitionContractError ''approved_mode_required''
          ''execution mode must be approved by the upstream coordinator'')) (\<lambda>_.
     let by_whom = stripped (vget d ''approved_by''); ref = stripped (vget d ''approval_ref'') in
     rbind (raise_if (by_whom = '''' \<or> ref = '''')
       (PartitionContractError ''approval_provenance_required''
          ''approved_by and approval_ref are required'')) (\<lambda>_.
     Inr \<lparr>am_name = name, am_approved = True, am_approved_by = by_whom, am_approval_ref = ref\<rparr>)))"

definition approved_mode_dict :: "ApprovedExecutionMode \<Rightarrow> payload" where
  "approved_mode_dict m =
     [(''name'', VStr (am_name m)), (''approved'', VBool (am_approved m)),
      (''approved_by'', VStr (am_approved_by m)), (''approval_ref'', VStr (am_approval_ref m))]"

definition approved_mode_ok :: "ApprovedExecutionMode \<Rightarrow> bool" where
  "approved_mode_ok m \<longleftrightarrow> text_ok (am_name m) \<and> am_approved m \<and> text_ok (am_approved_by m) \<and>
     text_ok (am_approval_ref m)"

record ModelLayer =
  ml_name :: string
  ml_compute_units :: pyfloat
  ml_parameter_bytes :: int
  ml_activation_bytes :: int
  ml_working_memory_bytes :: int

definition layer_of :: "payload \<Rightarrow> (exn, ModelLayer) result" where
  "layer_of d =
     rbind (text_field (vget d ''name'') ''layers.name'') (\<lambda>name.
     rbind (float_field (vget d ''compute_units'') ''layers.compute_units'' micro) (\<lambda>units.
     rbind (int_field (vget d ''parameter_bytes'') ''layers.parameter_bytes'' 0) (\<lambda>parameters.
     rbind (int_field (vget d ''activation_bytes'') ''layers.activation_bytes'' 0) (\<lambda>activation.
     rbind (int_field (vget d ''working_memory_bytes'') ''layers.working_memory_bytes'' 0) (\<lambda>working.
     Inr \<lparr>ml_name = name, ml_compute_units = units, ml_parameter_bytes = parameters,
          ml_activation_bytes = activation, ml_working_memory_bytes = working\<rparr>)))))"

definition layer_dict :: "ModelLayer \<Rightarrow> payload" where
  "layer_dict l =
     [(''name'', VStr (ml_name l)), (''compute_units'', VFloat (ml_compute_units l)),
      (''parameter_bytes'', VInt (ml_parameter_bytes l)),
      (''activation_bytes'', VInt (ml_activation_bytes l)),
      (''working_memory_bytes'', VInt (ml_working_memory_bytes l))]"

definition layer_ok :: "ModelLayer \<Rightarrow> bool" where
  "layer_ok l \<longleftrightarrow> text_ok (ml_name l) \<and> number_ok micro (ml_compute_units l) \<and>
     0 \<le> ml_parameter_bytes l \<and> 0 \<le> ml_activation_bytes l \<and> 0 \<le> ml_working_memory_bytes l"

record ResourceDevice =
  rd_device_id :: string
  rd_device_type :: string
  rd_compute_units_per_second :: pyfloat
  rd_memory_capacity_bytes :: int
  rd_memory_available_bytes :: int

definition device_of :: "payload \<Rightarrow> (exn, ResourceDevice) result" where
  "device_of d =
     rbind (text_field (vget d ''device_id'') ''devices.device_id'') (\<lambda>i.
     rbind (text_field (vget d ''device_type'') ''devices.device_type'') (\<lambda>kind.
     rbind (float_field (vget d ''compute_units_per_second'') ''devices.compute_units_per_second'' micro)
       (\<lambda>speed.
     rbind (int_field (vget d ''memory_capacity_bytes'') ''devices.memory_capacity_bytes'' 1) (\<lambda>capacity.
     rbind (int_field (vget d ''memory_available_bytes'') ''devices.memory_available_bytes'' 0)
       (\<lambda>available.
     rbind (raise_if (capacity < available)
       (PartitionContractError ''invalid_memory_snapshot''
          (''available memory exceeds capacity for '' @ i))) (\<lambda>_.
     Inr \<lparr>rd_device_id = i, rd_device_type = kind, rd_compute_units_per_second = speed,
          rd_memory_capacity_bytes = capacity, rd_memory_available_bytes = available\<rparr>))))))"

definition device_dict :: "ResourceDevice \<Rightarrow> payload" where
  "device_dict r =
     [(''device_id'', VStr (rd_device_id r)), (''device_type'', VStr (rd_device_type r)),
      (''compute_units_per_second'', VFloat (rd_compute_units_per_second r)),
      (''memory_capacity_bytes'', VInt (rd_memory_capacity_bytes r)),
      (''memory_available_bytes'', VInt (rd_memory_available_bytes r))]"

definition device_ok :: "ResourceDevice \<Rightarrow> bool" where
  "device_ok r \<longleftrightarrow> text_ok (rd_device_id r) \<and> text_ok (rd_device_type r) \<and>
     number_ok micro (rd_compute_units_per_second r) \<and> 1 \<le> rd_memory_capacity_bytes r \<and>
     0 \<le> rd_memory_available_bytes r \<and> rd_memory_available_bytes r \<le> rd_memory_capacity_bytes r"

record NetworkLink =
  nl_source_device :: string
  nl_target_device :: string
  nl_bandwidth_bytes_per_second :: pyfloat
  nl_latency_ms :: pyfloat

definition link_of :: "payload \<Rightarrow> (exn, NetworkLink) result" where
  "link_of d =
     rbind (text_field (vget d ''source_device'') ''network_links.source_device'') (\<lambda>source.
     rbind (text_field (vget d ''target_device'') ''network_links.target_device'') (\<lambda>target.
     rbind (float_field (vget d ''bandwidth_bytes_per_second'')
       ''network_links.bandwidth_bytes_per_second'' micro) (\<lambda>bandwidth.
     rbind (float_field (vget d ''latency_ms'') ''network_links.latency_ms'' zero_float) (\<lambda>latency.
     Inr \<lparr>nl_source_device = source, nl_target_device = target,
          nl_bandwidth_bytes_per_second = bandwidth, nl_latency_ms = latency\<rparr>))))"

definition link_dict :: "NetworkLink \<Rightarrow> payload" where
  "link_dict l =
     [(''source_device'', VStr (nl_source_device l)), (''target_device'', VStr (nl_target_device l)),
      (''bandwidth_bytes_per_second'', VFloat (nl_bandwidth_bytes_per_second l)),
      (''latency_ms'', VFloat (nl_latency_ms l))]"

definition link_ok :: "NetworkLink \<Rightarrow> bool" where
  "link_ok l \<longleftrightarrow> text_ok (nl_source_device l) \<and> text_ok (nl_target_device l) \<and>
     number_ok micro (nl_bandwidth_bytes_per_second l) \<and> number_ok zero_float (nl_latency_ms l)"

record PartitionConstraints =
  pc_max_end_to_end_latency_ms :: "pyfloat option"
  pc_max_transfer_bytes :: "int option"
  pc_minimum_memory_headroom_ratio :: pyfloat

text \<open>\<open>None if v is None else f(v)\<close>.\<close>

definition optional_field :: "(pyval \<Rightarrow> (exn, 'a) result) \<Rightarrow> pyval \<Rightarrow> (exn, 'a option) result" where
  "optional_field f v = (if v = VNone then Inr None else rbind (f v) (\<lambda>x. Inr (Some x)))"

definition constraints_of :: "payload \<Rightarrow> (exn, PartitionConstraints) result" where
  "constraints_of d =
     rbind (float_field (vget_default d ''minimum_memory_headroom_ratio'' (VFloat zero_float))
       ''constraints.minimum_memory_headroom_ratio'' zero_float) (\<lambda>headroom.
     rbind (raise_if (fle (FFin 1) headroom)
       (invalid_contract ''minimum_memory_headroom_ratio must be below 1.0'')) (\<lambda>_.
     rbind (optional_field (\<lambda>v. float_field v ''constraints.max_end_to_end_latency_ms'' micro)
       (vget d ''max_end_to_end_latency_ms'')) (\<lambda>latency.
     rbind (optional_field (\<lambda>v. int_field v ''constraints.max_transfer_bytes'' 1)
       (vget d ''max_transfer_bytes'')) (\<lambda>transfer.
     Inr \<lparr>pc_max_end_to_end_latency_ms = latency, pc_max_transfer_bytes = transfer,
          pc_minimum_memory_headroom_ratio = headroom\<rparr>))))"

definition constraints_dict :: "PartitionConstraints \<Rightarrow> payload" where
  "constraints_dict c =
     [(''max_end_to_end_latency_ms'', opt_json VFloat (pc_max_end_to_end_latency_ms c)),
      (''max_transfer_bytes'', opt_json VInt (pc_max_transfer_bytes c)),
      (''minimum_memory_headroom_ratio'', VFloat (pc_minimum_memory_headroom_ratio c))]"

definition constraints_ok :: "PartitionConstraints \<Rightarrow> bool" where
  "constraints_ok c \<longleftrightarrow> pred_option (number_ok micro) (pc_max_end_to_end_latency_ms c) \<and>
     pred_option ((\<le>) 1) (pc_max_transfer_bytes c) \<and>
     number_ok zero_float (pc_minimum_memory_headroom_ratio c) \<and>
     \<not> fle (FFin 1) (pc_minimum_memory_headroom_ratio c)"

lemma approved_mode_of_ok: "approved_mode_of d = Inr m \<Longrightarrow> approved_mode_ok m"
  by (auto simp: approved_mode_of_def approved_mode_ok_def stripped_def Let_def dest: field_ok)

lemma layer_of_ok: "layer_of d = Inr l \<Longrightarrow> layer_ok l"
  by (auto simp: layer_of_def layer_ok_def dest: field_ok)

lemma device_of_ok: "device_of d = Inr r \<Longrightarrow> device_ok r"
  by (auto simp: device_of_def device_ok_def dest: field_ok)

lemma link_of_ok: "link_of d = Inr l \<Longrightarrow> link_ok l"
  by (auto simp: link_of_def link_ok_def dest: field_ok)

lemma optional_field_ok:
  "optional_field f v = Inr x \<Longrightarrow> (\<And>v y. f v = Inr y \<Longrightarrow> P y) \<Longrightarrow> pred_option P x"
  by (auto simp: optional_field_def split: if_splits)

lemma optional_field_back:
  "pred_option P x \<Longrightarrow> (\<And>y. P y \<Longrightarrow> f (g y) = Inr y) \<Longrightarrow> (\<And>y. g y \<noteq> VNone) \<Longrightarrow>
   optional_field f (opt_json g x) = Inr x"
  by (cases x) (auto simp: optional_field_def opt_json_def)

lemma constraints_of_ok: "constraints_of d = Inr c \<Longrightarrow> constraints_ok c"
  by (auto simp: constraints_of_def constraints_ok_def
      elim!: optional_field_ok dest!: field_ok)

lemma approved_mode_back [wire_simps]: "approved_mode_ok m \<Longrightarrow> approved_mode_of (approved_mode_dict m) = Inr m"
  by (cases m) (auto simp: approved_mode_of_def approved_mode_dict_def approved_mode_ok_def wire_simps
      text_ok_def text_field_def)

lemma layer_back: "layer_ok l \<Longrightarrow> layer_of (layer_dict l) = Inr l"
  by (simp add: layer_of_def layer_dict_def layer_ok_def wire_simps)

lemma device_back: "device_ok r \<Longrightarrow> device_of (device_dict r) = Inr r"
  by (simp add: device_of_def device_dict_def device_ok_def wire_simps)

lemma link_back: "link_ok l \<Longrightarrow> link_of (link_dict l) = Inr l"
  by (simp add: link_of_def link_dict_def link_ok_def wire_simps)

lemma optional_float_field_back [wire_simps]:
  "pred_option (number_ok m) x \<Longrightarrow> optional_field (\<lambda>v. float_field v n m) (opt_json VFloat x) = Inr x"
  by (rule optional_field_back[where P = "number_ok m"]) (auto simp: wire_simps)

lemma optional_int_field_back [wire_simps]:
  "pred_option ((\<le>) m) x \<Longrightarrow> optional_field (\<lambda>v. int_field v n m) (opt_json VInt x) = Inr x"
  by (rule optional_field_back[where P = "(\<le>) m"]) (auto simp: wire_simps)

lemma constraints_back [wire_simps]: "constraints_ok c \<Longrightarrow> constraints_of (constraints_dict c) = Inr c"
  by (simp add: constraints_of_def constraints_dict_def constraints_ok_def wire_simps)

section \<open>Round plans\<close>

record FederatedRoundPlan =
  fr_job_id :: string
  fr_model_id :: string
  fr_execution_mode :: ApprovedExecutionMode
  fr_layers :: "ModelLayer list"
  fr_participants :: "string list"
  fr_devices :: "ResourceDevice list"
  fr_network_links :: "NetworkLink list"
  fr_constraints :: PartitionConstraints

definition link_pair :: "NetworkLink \<Rightarrow> string \<times> string" where
  "link_pair l = (nl_source_device l, nl_target_device l)"

text \<open>The checks between the parts, in the order of the code.\<close>

definition check_round_plan ::
  "ModelLayer list \<Rightarrow> string list \<Rightarrow> ResourceDevice list \<Rightarrow> NetworkLink list \<Rightarrow> (exn, unit) result" where
  "check_round_plan layers participants devices links =
     rbind (raise_if (length layers < 2)
       (PartitionContractError ''insufficient_layers'' ''at least two ordered layers are required'')) (\<lambda>_.
     rbind (raise_if (length participants < 2)
       (PartitionContractError ''insufficient_participants''
          ''at least two participants are required'')) (\<lambda>_.
     rbind (raise_if (length layers < length participants)
       (PartitionContractError ''insufficient_layers''
          ''each participant requires a non-empty partition'')) (\<lambda>_.
     rbind (require_unique (\<lambda>s. s) (map ml_name layers) ''duplicate_layer'') (\<lambda>_.
     rbind (require_unique (\<lambda>s. s) participants ''duplicate_participant'') (\<lambda>_.
     rbind (require_unique (\<lambda>s. s) (map rd_device_id devices) ''duplicate_device'') (\<lambda>_.
     rbind (require_unique pair_repr (map link_pair links) ''duplicate_network_link'') (\<lambda>_.
     rbind (rcheck (\<lambda>p. raise_if (p \<notin> set (map rd_device_id devices))
       (PartitionContractError ''unknown_participant''
          (''participant '' @ p @ '' has no device snapshot''))) participants) (\<lambda>_.
     rbind (rcheck (\<lambda>l. raise_if (nl_source_device l \<notin> set (map rd_device_id devices) \<or>
         nl_target_device l \<notin> set (map rd_device_id devices))
       (PartitionContractError ''unknown_network_device''
          (''link '' @ nl_source_device l @ ''->'' @ nl_target_device l @
           '' references an unknown device''))) links) (\<lambda>_.
     rcheck (\<lambda>(source, target). raise_if ((source, target) \<notin> set (map link_pair links))
       (PartitionContractError ''missing_network_link'' (''missing link '' @ source @ ''->'' @ target)))
       (zip participants (tl participants)))))))))))"

definition round_plan_of :: "pyval \<Rightarrow> (exn, FederatedRoundPlan) result" where
  "round_plan_of v =
     rbind (mapping_field v ''round_plan'') (\<lambda>d.
     rbind (rbind (sequence_field (vget d ''layers'') ''layers'')
       (rmap (\<lambda>item. rbind (mapping_field item ''layers[]'') layer_of))) (\<lambda>layers.
     rbind (rbind (sequence_field (vget d ''participants'') ''participants'')
       (rmap (\<lambda>item. text_field item ''participants[]''))) (\<lambda>participants.
     rbind (rbind (sequence_field (vget d ''devices'') ''devices'')
       (rmap (\<lambda>item. rbind (mapping_field item ''devices[]'') device_of))) (\<lambda>devices.
     rbind (rbind (sequence_field (vget d ''network_links'') ''network_links'')
       (rmap (\<lambda>item. rbind (mapping_field item ''network_links[]'') link_of))) (\<lambda>links.
     rbind (check_round_plan layers participants devices links) (\<lambda>_.
     rbind (text_field (vget d ''job_id'') ''job_id'') (\<lambda>job.
     rbind (text_field (vget d ''model_id'') ''model_id'') (\<lambda>model.
     rbind (rbind (mapping_field (vget d ''execution_mode'') ''execution_mode'') approved_mode_of) (\<lambda>mode.
     rbind (rbind (mapping_field (vget_default d ''constraints'' (VDict [])) ''constraints'')
       constraints_of) (\<lambda>constraints.
     Inr \<lparr>fr_job_id = job, fr_model_id = model, fr_execution_mode = mode, fr_layers = layers,
          fr_participants = participants, fr_devices = devices, fr_network_links = links,
          fr_constraints = constraints\<rparr>))))))))))"

definition round_plan_dict :: "FederatedRoundPlan \<Rightarrow> payload" where
  "round_plan_dict p =
     [(''job_id'', VStr (fr_job_id p)), (''model_id'', VStr (fr_model_id p)),
      (''execution_mode'', VDict (approved_mode_dict (fr_execution_mode p))),
      (''layers'', VList (map (VDict \<circ> layer_dict) (fr_layers p))),
      (''participants'', VList (map VStr (fr_participants p))),
      (''devices'', VList (map (VDict \<circ> device_dict) (fr_devices p))),
      (''network_links'', VList (map (VDict \<circ> link_dict) (fr_network_links p))),
      (''constraints'', VDict (constraints_dict (fr_constraints p)))]"

text \<open>What a round plan promises to the planner and the validator.\<close>

definition topology_ok ::
  "ModelLayer list \<Rightarrow> string list \<Rightarrow> ResourceDevice list \<Rightarrow> NetworkLink list \<Rightarrow> bool" where
  "topology_ok layers participants devices links \<longleftrightarrow>
     2 \<le> length participants \<and> length participants \<le> length layers \<and>
     distinct (map ml_name layers) \<and> distinct participants \<and>
     distinct (map rd_device_id devices) \<and> distinct (map link_pair links) \<and>
     set participants \<subseteq> rd_device_id ` set devices \<and>
     (\<forall>l \<in> set links. nl_source_device l \<in> rd_device_id ` set devices \<and>
        nl_target_device l \<in> rd_device_id ` set devices) \<and>
     set (zip participants (tl participants)) \<subseteq> link_pair ` set links"

definition round_plan_ok :: "FederatedRoundPlan \<Rightarrow> bool" where
  "round_plan_ok p \<longleftrightarrow>
     text_ok (fr_job_id p) \<and> text_ok (fr_model_id p) \<and> approved_mode_ok (fr_execution_mode p) \<and>
     list_all layer_ok (fr_layers p) \<and> list_all text_ok (fr_participants p) \<and>
     list_all device_ok (fr_devices p) \<and> list_all link_ok (fr_network_links p) \<and>
     constraints_ok (fr_constraints p) \<and>
     topology_ok (fr_layers p) (fr_participants p) (fr_devices p) (fr_network_links p)"

lemma check_round_plan_ok [simp]: "check_round_plan ls ps ds ks = Inr u \<longleftrightarrow> topology_ok ls ps ds ks"
  by (auto simp: check_round_plan_def topology_ok_def subset_iff)

lemma round_plan_of_ok: "round_plan_of v = Inr p \<Longrightarrow> round_plan_ok p"
  by (auto simp: round_plan_of_def round_plan_ok_def dest: field_ok approved_mode_of_ok
      constraints_of_ok rmap_text_ok rmap_objects_ok[OF _ layer_of_ok]
      rmap_objects_ok[OF _ device_of_ok]
      rmap_objects_ok[OF _ link_of_ok])

lemma round_plan_back: "round_plan_ok p \<Longrightarrow> round_plan_of (VDict (round_plan_dict p)) = Inr p"
  by (simp add: round_plan_of_def round_plan_dict_def round_plan_ok_def wire_simps
      rmap_objects_back[where P = layer_ok, OF _ layer_back]
      rmap_objects_back[where P = device_ok, OF _ device_back]
      rmap_objects_back[where P = link_ok, OF _ link_back])


section \<open>Partitions, the execution graph and candidates\<close>

record LogicalPartition =
  lp_partition_id :: string
  lp_device_id :: string
  lp_layer_names :: "string list"
  lp_compute_units :: pyfloat
  lp_memory_demand_bytes :: int

definition partition_of :: "payload \<Rightarrow> (exn, LogicalPartition) result" where
  "partition_of d =
     rbind (text_field (vget d ''partition_id'') ''partition_id'') (\<lambda>i.
     rbind (text_field (vget d ''device_id'') ''device_id'') (\<lambda>device.
     rbind (rbind (sequence_field (vget d ''layer_names'') ''layer_names'')
       (rmap (\<lambda>item. text_field item ''layer_names[]''))) (\<lambda>names.
     rbind (float_field (vget d ''compute_units'') ''compute_units'' zero_float) (\<lambda>units.
     rbind (int_field (vget d ''memory_demand_bytes'') ''memory_demand_bytes'' 0) (\<lambda>memory.
     Inr \<lparr>lp_partition_id = i, lp_device_id = device, lp_layer_names = names,
          lp_compute_units = units, lp_memory_demand_bytes = memory\<rparr>)))))"

definition partition_dict :: "LogicalPartition \<Rightarrow> payload" where
  "partition_dict p =
     [(''partition_id'', VStr (lp_partition_id p)), (''device_id'', VStr (lp_device_id p)),
      (''layer_names'', VList (map VStr (lp_layer_names p))),
      (''compute_units'', VFloat (lp_compute_units p)),
      (''memory_demand_bytes'', VInt (lp_memory_demand_bytes p))]"

definition partition_ok :: "LogicalPartition \<Rightarrow> bool" where
  "partition_ok p \<longleftrightarrow> text_ok (lp_partition_id p) \<and> text_ok (lp_device_id p) \<and>
     list_all text_ok (lp_layer_names p) \<and> number_ok zero_float (lp_compute_units p) \<and>
     0 \<le> lp_memory_demand_bytes p"

record ExecutionGraphNode =
  gn_partition_id :: string
  gn_device_id :: string

definition graph_node_of :: "payload \<Rightarrow> (exn, ExecutionGraphNode) result" where
  "graph_node_of d =
     rbind (text_field (vget d ''partition_id'') ''partition_id'') (\<lambda>i.
     rbind (text_field (vget d ''device_id'') ''device_id'') (\<lambda>device.
     Inr \<lparr>gn_partition_id = i, gn_device_id = device\<rparr>))"

definition graph_node_dict :: "ExecutionGraphNode \<Rightarrow> payload" where
  "graph_node_dict n =
     [(''partition_id'', VStr (gn_partition_id n)), (''device_id'', VStr (gn_device_id n))]"

definition graph_node_ok :: "ExecutionGraphNode \<Rightarrow> bool" where
  "graph_node_ok n \<longleftrightarrow> text_ok (gn_partition_id n) \<and> text_ok (gn_device_id n)"

record ExecutionGraphEdge =
  ge_source_partition :: string
  ge_target_partition :: string
  ge_transfer_bytes :: int
  ge_estimated_transfer_ms :: pyfloat
  ge_edge_type :: string

definition contract_edge_types :: "string list" where
  "contract_edge_types = [''forward'', ''backward'', ''gradient'', ''aggregation'']"

definition graph_edge_of :: "payload \<Rightarrow> (exn, ExecutionGraphEdge) result" where
  "graph_edge_of d =
     rbind (text_field (vget_default d ''edge_type'' (VStr ''forward'')) ''edge_type'') (\<lambda>kind.
     rbind (raise_if (kind \<notin> set contract_edge_types)
       (invalid_contract ''edge_type must be forward, backward, gradient, or aggregation'')) (\<lambda>_.
     rbind (text_field (vget d ''source_partition'') ''source_partition'') (\<lambda>source.
     rbind (text_field (vget d ''target_partition'') ''target_partition'') (\<lambda>target.
     rbind (int_field (vget d ''transfer_bytes'') ''transfer_bytes'' 0) (\<lambda>bytes.
     rbind (float_field (vget d ''estimated_transfer_ms'') ''estimated_transfer_ms'' zero_float) (\<lambda>ms.
     Inr \<lparr>ge_source_partition = source, ge_target_partition = target, ge_transfer_bytes = bytes,
          ge_estimated_transfer_ms = ms, ge_edge_type = kind\<rparr>))))))"

definition graph_edge_dict :: "ExecutionGraphEdge \<Rightarrow> payload" where
  "graph_edge_dict e =
     [(''source_partition'', VStr (ge_source_partition e)),
      (''target_partition'', VStr (ge_target_partition e)),
      (''transfer_bytes'', VInt (ge_transfer_bytes e)),
      (''estimated_transfer_ms'', VFloat (ge_estimated_transfer_ms e)),
      (''edge_type'', VStr (ge_edge_type e))]"

definition graph_edge_ok :: "ExecutionGraphEdge \<Rightarrow> bool" where
  "graph_edge_ok e \<longleftrightarrow> text_ok (ge_source_partition e) \<and> text_ok (ge_target_partition e) \<and>
     0 \<le> ge_transfer_bytes e \<and> number_ok zero_float (ge_estimated_transfer_ms e) \<and>
     ge_edge_type e \<in> set contract_edge_types"

record PartitionCandidate =
  ca_split_points :: "int list"
  ca_partitions :: "LogicalPartition list"
  ca_graph_nodes :: "ExecutionGraphNode list"
  ca_graph_edges :: "ExecutionGraphEdge list"
  ca_estimated_compute_ms :: pyfloat
  ca_estimated_transfer_ms :: pyfloat
  ca_estimated_total_latency_ms :: pyfloat
  ca_total_transfer_bytes :: int
  ca_maximum_memory_pressure :: pyfloat
  ca_valid :: bool
  ca_rejection_reasons :: "string list"
  ca_score :: pyfloat
  ca_estimated_step_time_ms :: pyfloat
  ca_gradient_transfer_bytes :: int
  ca_maximum_load_imbalance :: pyfloat
  ca_predicted_resilience_risk :: pyfloat

definition candidate_of :: "payload \<Rightarrow> (exn, PartitionCandidate) result" where
  "candidate_of d =
     rbind (rbind (sequence_field (vget d ''split_points'') ''split_points'')
       (rmap (\<lambda>item. int_field item ''split_points[]'' 1))) (\<lambda>splits.
     rbind (rbind (sequence_field (vget d ''partitions'') ''partitions'')
       (rmap (\<lambda>item. rbind (mapping_field item ''partitions[]'') partition_of))) (\<lambda>partitions.
     rbind (rbind (sequence_field (vget d ''graph_nodes'') ''graph_nodes'')
       (rmap (\<lambda>item. rbind (mapping_field item ''graph_nodes[]'') graph_node_of))) (\<lambda>nodes.
     rbind (rbind (sequence_field (vget d ''graph_edges'') ''graph_edges'')
       (rmap (\<lambda>item. rbind (mapping_field item ''graph_edges[]'') graph_edge_of))) (\<lambda>edges.
     rbind (float_field (vget d ''estimated_compute_ms'') ''estimated_compute_ms'' zero_float) (\<lambda>compute.
     rbind (float_field (vget d ''estimated_transfer_ms'') ''estimated_transfer_ms'' zero_float)
       (\<lambda>transfer.
     rbind (float_field (vget d ''estimated_total_latency_ms'') ''estimated_total_latency_ms'' zero_float)
       (\<lambda>latency.
     rbind (int_field (vget d ''total_transfer_bytes'') ''total_transfer_bytes'' 0) (\<lambda>bytes.
     rbind (float_field (vget d ''maximum_memory_pressure'') ''maximum_memory_pressure'' zero_float)
       (\<lambda>pressure.
     rbind (sequence_field (vget_default d ''rejection_reasons'' (VList [])) ''rejection_reasons'')
       (\<lambda>reasons.
     rbind (float_field (vget d ''score'') ''score'' zero_float) (\<lambda>score.
     rbind (float_field (vget_default d ''estimated_step_time_ms'' (VFloat zero_float))
       ''estimated_step_time_ms'' zero_float) (\<lambda>step.
     rbind (int_field (vget_default d ''gradient_transfer_bytes'' (VInt 0)) ''gradient_transfer_bytes'' 0)
       (\<lambda>gradient.
     rbind (float_field (vget_default d ''maximum_load_imbalance'' (VFloat zero_float))
       ''maximum_load_imbalance'' zero_float) (\<lambda>imbalance.
     rbind (float_field (vget_default d ''predicted_resilience_risk'' (VFloat zero_float))
       ''predicted_resilience_risk'' zero_float) (\<lambda>risk.
     Inr \<lparr>ca_split_points = splits, ca_partitions = partitions, ca_graph_nodes = nodes,
          ca_graph_edges = edges, ca_estimated_compute_ms = compute,
          ca_estimated_transfer_ms = transfer, ca_estimated_total_latency_ms = latency,
          ca_total_transfer_bytes = bytes, ca_maximum_memory_pressure = pressure,
          ca_valid = truthy (vget d ''valid''), ca_rejection_reasons = map json_str reasons,
          ca_score = score, ca_estimated_step_time_ms = step,
          ca_gradient_transfer_bytes = gradient, ca_maximum_load_imbalance = imbalance,
          ca_predicted_resilience_risk = risk\<rparr>)))))))))))))))"

definition candidate_dict :: "PartitionCandidate \<Rightarrow> payload" where
  "candidate_dict c =
     [(''split_points'', VList (map VInt (ca_split_points c))),
      (''partitions'', VList (map (VDict \<circ> partition_dict) (ca_partitions c))),
      (''graph_nodes'', VList (map (VDict \<circ> graph_node_dict) (ca_graph_nodes c))),
      (''graph_edges'', VList (map (VDict \<circ> graph_edge_dict) (ca_graph_edges c))),
      (''estimated_compute_ms'', VFloat (ca_estimated_compute_ms c)),
      (''estimated_transfer_ms'', VFloat (ca_estimated_transfer_ms c)),
      (''estimated_total_latency_ms'', VFloat (ca_estimated_total_latency_ms c)),
      (''total_transfer_bytes'', VInt (ca_total_transfer_bytes c)),
      (''maximum_memory_pressure'', VFloat (ca_maximum_memory_pressure c)),
      (''valid'', VBool (ca_valid c)),
      (''rejection_reasons'', VList (map VStr (ca_rejection_reasons c))),
      (''score'', VFloat (ca_score c)),
      (''estimated_step_time_ms'', VFloat (ca_estimated_step_time_ms c)),
      (''gradient_transfer_bytes'', VInt (ca_gradient_transfer_bytes c)),
      (''maximum_load_imbalance'', VFloat (ca_maximum_load_imbalance c)),
      (''predicted_resilience_risk'', VFloat (ca_predicted_resilience_risk c))]"

definition candidate_ok :: "PartitionCandidate \<Rightarrow> bool" where
  "candidate_ok c \<longleftrightarrow> list_all ((\<le>) 1) (ca_split_points c) \<and>
     list_all partition_ok (ca_partitions c) \<and> list_all graph_node_ok (ca_graph_nodes c) \<and>
     list_all graph_edge_ok (ca_graph_edges c) \<and>
     list_all (number_ok zero_float)
       [ca_estimated_compute_ms c, ca_estimated_transfer_ms c, ca_estimated_total_latency_ms c,
        ca_maximum_memory_pressure c, ca_score c, ca_estimated_step_time_ms c,
        ca_maximum_load_imbalance c, ca_predicted_resilience_risk c] \<and>
     0 \<le> ca_total_transfer_bytes c \<and> 0 \<le> ca_gradient_transfer_bytes c"

lemma partition_of_ok: "partition_of d = Inr p \<Longrightarrow> partition_ok p"
  by (auto simp: partition_of_def partition_ok_def dest: field_ok rmap_text_ok)

lemma partition_back: "partition_ok p \<Longrightarrow> partition_of (partition_dict p) = Inr p"
  by (simp add: partition_of_def partition_dict_def partition_ok_def wire_simps)

lemma graph_node_of_ok: "graph_node_of d = Inr n \<Longrightarrow> graph_node_ok n"
  by (auto simp: graph_node_of_def graph_node_ok_def dest: field_ok)

lemma graph_node_back: "graph_node_ok n \<Longrightarrow> graph_node_of (graph_node_dict n) = Inr n"
  by (simp add: graph_node_of_def graph_node_dict_def graph_node_ok_def wire_simps)

lemma graph_edge_of_ok: "graph_edge_of d = Inr e \<Longrightarrow> graph_edge_ok e"
  by (auto simp: graph_edge_of_def graph_edge_ok_def dest: field_ok)

lemma graph_edge_back: "graph_edge_ok e \<Longrightarrow> graph_edge_of (graph_edge_dict e) = Inr e"
proof -
  assume ok: "graph_edge_ok e"
  then have "text_ok (ge_edge_type e)"
    by (auto simp: graph_edge_ok_def contract_edge_types_def text_ok_def strip_def is_space_def
        code_point_def)
  with ok show ?thesis
    by (simp add: graph_edge_of_def graph_edge_dict_def graph_edge_ok_def wire_simps)
qed

lemma rmap_ints_back [wire_simps]:
  "list_all ((\<le>) m) xs \<Longrightarrow> rmap (\<lambda>v. int_field v n m) (map VInt xs) = Inr xs"
  by (rule rmap_back) (simp add: list_all_iff wire_simps)

lemma rmap_ints_ok: "rmap (\<lambda>v. int_field v n m) vs = Inr xs \<Longrightarrow> list_all ((\<le>) m) xs"
  by (erule rmap_list_all) (rule int_field_Inr)

lemma candidate_of_ok: "candidate_of d = Inr c \<Longrightarrow> candidate_ok c"
  by (auto simp: candidate_of_def candidate_ok_def dest: field_ok rmap_ints_ok
      rmap_objects_ok[OF _ partition_of_ok] rmap_objects_ok[OF _ graph_node_of_ok]
      rmap_objects_ok[OF _ graph_edge_of_ok])

lemma candidate_back [wire_simps]: "candidate_ok c \<Longrightarrow> candidate_of (candidate_dict c) = Inr c"
  by (simp add: candidate_of_def candidate_dict_def candidate_ok_def wire_simps
      rmap_objects_back[where P = partition_ok, OF _ partition_back]
      rmap_objects_back[where P = graph_node_ok, OF _ graph_node_back]
      rmap_objects_back[where P = graph_edge_ok, OF _ graph_edge_back])


section \<open>Execution plans\<close>

text \<open>The values of a decoded JSON document.\<close>

fun json_value :: "pyval \<Rightarrow> bool" where
  "json_value (VDict kvs) = list_all (\<lambda>(k, v). json_value v) kvs"
| "json_value (VList vs) = list_all json_value vs"
| "json_value VNone = True"
| "json_value (VBool b) = True"
| "json_value (VInt i) = True"
| "json_value (VFloat x) = True"
| "json_value (VStr s) = True"
| "json_value v = False"

record PartitionExecutionPlan =
  pp_plan_id :: string
  pp_job_id :: string
  pp_model_id :: string
  pp_approved_execution_mode :: string
  pp_policy_version :: string
  pp_selected_candidate :: "PartitionCandidate option"
  pp_alternative_candidates :: "PartitionCandidate list"
  pp_rationale :: string
  pp_valid :: bool
  pp_human_review_required :: bool
  pp_errors :: "string list"
  pp_plan_version :: int
  pp_parent_plan_id :: "string option"
  pp_plan_type :: string
  pp_approved_model_version :: string
  pp_strategy_id :: string
  pp_strategy_version :: string
  pp_input_snapshot_id :: string
  pp_input_snapshot_hash :: string
  pp_assumptions :: "string list"
  pp_warnings :: "string list"
  pp_confidence :: pyfloat
  pp_deterministic_signature :: string
  pp_handoff_status :: string
  pp_selection :: "CandidateSelection option"

text \<open>\<open>str(payload.get(key) or default)\<close>.\<close>

definition text_or :: "pyval \<Rightarrow> string \<Rightarrow> string" where
  "text_or v fallback = (if truthy v then json_str v else fallback)"

definition parent_plan :: "pyval \<Rightarrow> string option" where
  "parent_plan v = (if v = VNone then None else if stripped v = '''' then None else Some (stripped v))"

definition execution_plan_of :: "payload \<Rightarrow> (exn, PartitionExecutionPlan) result" where
  "execution_plan_of d =
     rbind (text_field (vget d ''plan_id'') ''plan_id'') (\<lambda>plan.
     rbind (text_field (vget d ''job_id'') ''job_id'') (\<lambda>job.
     rbind (text_field (vget d ''model_id'') ''model_id'') (\<lambda>model.
     rbind (text_field (vget d ''approved_execution_mode'') ''approved_execution_mode'') (\<lambda>mode.
     rbind (text_field (vget d ''policy_version'') ''policy_version'') (\<lambda>policy.
     rbind (optional_field (\<lambda>v. rbind (mapping_field v ''selected_candidate'') candidate_of)
       (vget d ''selected_candidate'')) (\<lambda>selected.
     rbind (rbind (sequence_field (vget_default d ''alternative_candidates'' (VList []))
         ''alternative_candidates'')
       (rmap (\<lambda>item. rbind (mapping_field item ''alternative_candidates[]'') candidate_of)))
       (\<lambda>alternatives.
     rbind (sequence_field (vget_default d ''errors'' (VList [])) ''errors'') (\<lambda>errors.
     rbind (int_field (vget_default d ''plan_version'' (VInt 1)) ''plan_version'' 1) (\<lambda>version.
     rbind (sequence_field (vget_default d ''assumptions'' (VList [])) ''assumptions'') (\<lambda>assumptions.
     rbind (sequence_field (vget_default d ''warnings'' (VList [])) ''warnings'') (\<lambda>warnings.
     rbind (float_field (vget_default d ''confidence'' (VFloat zero_float)) ''confidence'' zero_float)
       (\<lambda>confidence.
     rbind (optional_field (\<lambda>v. rbind (mapping_field v ''selection'') selection_of)
       (vget d ''selection'')) (\<lambda>selection.
     Inr \<lparr>pp_plan_id = plan, pp_job_id = job, pp_model_id = model,
          pp_approved_execution_mode = mode, pp_policy_version = policy,
          pp_selected_candidate = selected, pp_alternative_candidates = alternatives,
          pp_rationale = text_or (vget d ''rationale'') '''', pp_valid = truthy (vget d ''valid''),
          pp_human_review_required = truthy (vget d ''human_review_required''),
          pp_errors = map json_str errors, pp_plan_version = version,
          pp_parent_plan_id = parent_plan (vget d ''parent_plan_id''),
          pp_plan_type = text_or (vget d ''plan_type'') ''inference'',
          pp_approved_model_version = text_or (vget d ''approved_model_version'') ''legacy'',
          pp_strategy_id = text_or (vget d ''strategy_id'') ''legacy-partition-v1'',
          pp_strategy_version = text_or (vget d ''strategy_version'') ''1.0'',
          pp_input_snapshot_id = text_or (vget d ''input_snapshot_id'') ''legacy-snapshot'',
          pp_input_snapshot_hash = text_or (vget d ''input_snapshot_hash'') '''',
          pp_assumptions = map json_str assumptions, pp_warnings = map json_str warnings,
          pp_confidence = confidence,
          pp_deterministic_signature = text_or (vget d ''deterministic_signature'') '''',
          pp_handoff_status = text_or (vget d ''handoff_status'') ''not_ready'',
          pp_selection = selection\<rparr>)))))))))))))"

definition safe_failure ::
  "string \<Rightarrow> string \<Rightarrow> string \<Rightarrow> string \<Rightarrow> string \<Rightarrow> string list \<Rightarrow> PartitionCandidate list \<Rightarrow>
   CandidateSelection option \<Rightarrow> PartitionExecutionPlan" where
  "safe_failure plan job model mode policy errors alternatives selection =
     \<lparr>pp_plan_id = plan, pp_job_id = job, pp_model_id = model, pp_approved_execution_mode = mode,
      pp_policy_version = policy, pp_selected_candidate = None,
      pp_alternative_candidates = alternatives,
      pp_rationale = ''No feasible partition plan; human review is required.'',
      pp_valid = False, pp_human_review_required = True, pp_errors = errors, pp_plan_version = 1,
      pp_parent_plan_id = None, pp_plan_type = ''inference'', pp_approved_model_version = ''legacy'',
      pp_strategy_id = ''legacy-partition-v1'', pp_strategy_version = ''1.0'',
      pp_input_snapshot_id = ''legacy-snapshot'', pp_input_snapshot_hash = '''', pp_assumptions = [],
      pp_warnings = [], pp_confidence = zero_float, pp_deterministic_signature = '''',
      pp_handoff_status = ''not_ready'', pp_selection = selection\<rparr>"

definition execution_plan_dict :: "PartitionExecutionPlan \<Rightarrow> payload" where
  "execution_plan_dict p =
     [(''plan_id'', VStr (pp_plan_id p)), (''job_id'', VStr (pp_job_id p)),
      (''model_id'', VStr (pp_model_id p)),
      (''approved_execution_mode'', VStr (pp_approved_execution_mode p)),
      (''policy_version'', VStr (pp_policy_version p)),
      (''selected_candidate'', opt_json (VDict \<circ> candidate_dict) (pp_selected_candidate p)),
      (''alternative_candidates'', VList (map (VDict \<circ> candidate_dict) (pp_alternative_candidates p))),
      (''rationale'', VStr (pp_rationale p)), (''valid'', VBool (pp_valid p)),
      (''human_review_required'', VBool (pp_human_review_required p)),
      (''errors'', VList (map VStr (pp_errors p))), (''plan_version'', VInt (pp_plan_version p)),
      (''parent_plan_id'', opt_json VStr (pp_parent_plan_id p)), (''plan_type'', VStr (pp_plan_type p)),
      (''approved_model_version'', VStr (pp_approved_model_version p)),
      (''strategy_id'', VStr (pp_strategy_id p)), (''strategy_version'', VStr (pp_strategy_version p)),
      (''input_snapshot_id'', VStr (pp_input_snapshot_id p)),
      (''input_snapshot_hash'', VStr (pp_input_snapshot_hash p)),
      (''assumptions'', VList (map VStr (pp_assumptions p))),
      (''warnings'', VList (map VStr (pp_warnings p))), (''confidence'', VFloat (pp_confidence p)),
      (''deterministic_signature'', VStr (pp_deterministic_signature p)),
      (''handoff_status'', VStr (pp_handoff_status p)),
      (''selection'', opt_json (VDict \<circ> selection_dict) (pp_selection p))]"

definition execution_plan_ok :: "PartitionExecutionPlan \<Rightarrow> bool" where
  "execution_plan_ok p \<longleftrightarrow>
     list_all text_ok [pp_plan_id p, pp_job_id p, pp_model_id p, pp_approved_execution_mode p,
       pp_policy_version p] \<and>
     pred_option candidate_ok (pp_selected_candidate p) \<and>
     list_all candidate_ok (pp_alternative_candidates p) \<and> 1 \<le> pp_plan_version p \<and>
     pred_option text_ok (pp_parent_plan_id p) \<and>
     list_all (\<lambda>s. s \<noteq> '''') [pp_plan_type p, pp_approved_model_version p, pp_strategy_id p,
       pp_strategy_version p, pp_input_snapshot_id p, pp_handoff_status p] \<and>
     number_ok zero_float (pp_confidence p) \<and> pred_option selection_ok (pp_selection p)"

lemma text_or_VStr [wire_simps]: "text_or (VStr s) fallback = (if s = '''' then fallback else s)"
  by (simp add: text_or_def)

lemma int_str_not_blank [simp]: "int_str i \<noteq> ''''"
  by (simp add: int_str_def)

lemma float_repr_not_blank [simp]: "float_repr x \<noteq> ''''"
proof -
  have "float_digits ds e \<noteq> ''''" for ds e by (simp add: float_digits_def Let_def)
  then show ?thesis by (cases x) (simp_all add: Let_def split: prod.splits)
qed

lemma json_str_not_blank: "json_value v \<Longrightarrow> truthy v \<Longrightarrow> json_str v \<noteq> ''''"
  by (cases v) auto

lemma text_or_not_blank [simp]: "json_value v \<Longrightarrow> s \<noteq> '''' \<Longrightarrow> text_or v s \<noteq> ''''"
  by (simp add: text_or_def json_str_not_blank)

lemma vget_json: "json_value (VDict d) \<Longrightarrow> json_value (vget d k)"
  by (auto simp: vget_def list_all_iff split: option.split dest!: map_of_SomeD)

lemma parent_plan_ok [simp]: "pred_option text_ok (parent_plan v)"
  by (simp add: parent_plan_def stripped_def)

lemma parent_plan_back [wire_simps]: "pred_option text_ok x \<Longrightarrow> parent_plan (opt_json VStr x) = x"
  by (cases x) (auto simp: parent_plan_def opt_json_def wire_simps text_ok_def)

lemma optional_objects_back:
  "pred_option P x \<Longrightarrow> (\<And>y. P y \<Longrightarrow> f (g y) = Inr y) \<Longrightarrow>
   optional_field (\<lambda>v. rbind (mapping_field v n) f) (opt_json (VDict \<circ> g) x) = Inr x"
  by (rule optional_field_back[where P = P]) (auto simp: wire_simps)

lemma optional_objects_ok:
  "optional_field (\<lambda>v. rbind (mapping_field v n) f) v = Inr x \<Longrightarrow> (\<And>d y. f d = Inr y \<Longrightarrow> P y) \<Longrightarrow>
   pred_option P x"
  by (erule optional_field_ok) auto

lemma execution_plan_of_ok:
  "json_value (VDict d) \<Longrightarrow> execution_plan_of d = Inr p \<Longrightarrow> execution_plan_ok p"
  by (auto simp: execution_plan_of_def execution_plan_ok_def vget_json simp del: json_value.simps
      dest: field_ok optional_objects_ok[OF _ candidate_of_ok] optional_objects_ok[OF _ selection_of_ok]
      rmap_objects_ok[OF _ candidate_of_ok])

lemma execution_plan_back:
  "execution_plan_ok p \<Longrightarrow> execution_plan_of (execution_plan_dict p) = Inr p"
  by (simp add: execution_plan_of_def execution_plan_dict_def execution_plan_ok_def wire_simps
      optional_objects_back[where P = candidate_ok, OF _ candidate_back]
      optional_objects_back[where P = selection_ok, OF _ selection_back]
      rmap_objects_back[where P = candidate_ok, OF _ candidate_back])


section \<open>Reported failures of a running plan\<close>

record PartitionFailure =
  pf_signal :: string
  pf_device_id :: string
  pf_source_device :: string
  pf_target_device :: string
  pf_details :: string

definition partition_failure_signals :: "string list" where
  "partition_failure_signals =
     [''device_unavailable'', ''memory_exceeded'', ''latency_slo_violation'', ''transfer_failure'']"

definition failure_of :: "payload \<Rightarrow> (exn, PartitionFailure) result" where
  "failure_of d =
     rbind (text_field (vget d ''signal'') ''failure.signal'') (\<lambda>signal.
     rbind (raise_if (signal \<notin> set partition_failure_signals)
       (PartitionContractError ''unsupported_failure_signal''
          (''unsupported failure signal: '' @ signal))) (\<lambda>_.
     let f = \<lparr>pf_signal = signal, pf_device_id = stripped (vget d ''device_id''),
              pf_source_device = stripped (vget d ''source_device''),
              pf_target_device = stripped (vget d ''target_device''),
              pf_details = stripped (vget d ''details'')\<rparr> in
     rbind (raise_if (signal \<in> {''device_unavailable'', ''memory_exceeded''} \<and> pf_device_id f = '''')
       (PartitionContractError ''failure_context_required'' (signal @ '' requires device_id''))) (\<lambda>_.
     rbind (raise_if (signal = ''transfer_failure'' \<and>
         (pf_source_device f = '''' \<or> pf_target_device f = ''''))
       (PartitionContractError ''failure_context_required''
          ''transfer_failure requires source_device and target_device'')) (\<lambda>_.
     Inr f))))"

definition failure_dict :: "PartitionFailure \<Rightarrow> payload" where
  "failure_dict f =
     [(''signal'', VStr (pf_signal f)), (''device_id'', VStr (pf_device_id f)),
      (''source_device'', VStr (pf_source_device f)), (''target_device'', VStr (pf_target_device f)),
      (''details'', VStr (pf_details f))]"

text \<open>A failure names a known signal, and the devices that signal is about.\<close>

definition failure_ok :: "PartitionFailure \<Rightarrow> bool" where
  "failure_ok f \<longleftrightarrow> pf_signal f \<in> set partition_failure_signals \<and>
     (pf_signal f \<in> {''device_unavailable'', ''memory_exceeded''} \<longrightarrow> text_ok (pf_device_id f)) \<and>
     (pf_signal f = ''transfer_failure'' \<longrightarrow>
        text_ok (pf_source_device f) \<and> text_ok (pf_target_device f)) \<and>
     (\<forall>s \<in> {pf_device_id f, pf_source_device f, pf_target_device f, pf_details f}. strip s = s)"

lemma failure_of_ok: "failure_of d = Inr f \<Longrightarrow> failure_ok f"
  by (auto simp: failure_of_def failure_ok_def Let_def stripped_def)

lemma signal_text_ok: "s \<in> set partition_failure_signals \<Longrightarrow> text_ok s"
  by (auto simp: partition_failure_signals_def text_ok_def strip_def is_space_def code_point_def)

lemma failure_back: "failure_ok f \<Longrightarrow> failure_of (failure_dict f) = Inr f"
  using signal_text_ok[of "pf_signal f"]
  by (auto simp: failure_of_def failure_dict_def failure_ok_def wire_simps Let_def text_ok_def
      text_field_def)

section \<open>Errors of the contract readers\<close>

definition contract_error :: "exn \<Rightarrow> bool" where
  "contract_error e = (\<exists>c m. e = PartitionContractError c m)"

text \<open>Every integer in the payload is within the range of binary64.\<close>

fun integers_fit :: "pyval \<Rightarrow> bool" where
  "integers_fit (VInt i) = is_finite (round64 (of_int i))"
| "integers_fit (VList vs) = list_all integers_fit vs"
| "integers_fit (VTuple vs) = list_all integers_fit vs"
| "integers_fit (VDict kvs) = list_all (\<lambda>(k, v). integers_fit v) kvs"
| "integers_fit v = True"

text \<open>\<open>contracted r\<close>: \<open>r\<close> returns, or raises \<open>PartitionContractError\<close>.\<close>

definition contracted :: "(exn, 'a) result \<Rightarrow> bool" where
  "contracted r = (\<forall>e. r = Inl e \<longrightarrow> contract_error e)"

named_theorems contract_rules \<open>the readers that raise nothing but contract errors\<close>

lemma contract_error_intros [simp]:
  "contract_error (PartitionContractError c m)" "contract_error (invalid_contract m)"
  by (simp_all add: contract_error_def invalid_contract_def)

lemma contracted_simps [simp]: "contracted (Inr x)" "contracted (Inl e) = contract_error e"
  by (simp_all add: contracted_def)

lemma contracted_rbind [contract_rules]:
  "contracted m \<Longrightarrow> (\<And>x. m = Inr x \<Longrightarrow> contracted (f x)) \<Longrightarrow> contracted (rbind m f)"
  by (cases m) auto

lemma contracted_raise_if [contract_rules]: "contract_error e \<Longrightarrow> contracted (raise_if c e)"
  by (simp add: raise_if_def)

lemma contracted_rmap [contract_rules]:
  "(\<And>x. x \<in> set xs \<Longrightarrow> contracted (f x)) \<Longrightarrow> contracted (rmap f xs)"
  by (induction xs) (auto intro!: contracted_rbind)

lemma contracted_rcheck [contract_rules]:
  "(\<And>x. x \<in> set xs \<Longrightarrow> contracted (f x)) \<Longrightarrow> contracted (rcheck f xs)"
  by (induction xs) (auto intro!: contracted_rbind)

lemma contracted_optional [contract_rules]:
  "contracted (f v) \<Longrightarrow> contracted (optional_field f v)"
  by (auto simp: optional_field_def intro!: contracted_rbind)

lemma contracted_mapping [contract_rules]: "contracted (mapping_field v n)"
  by (simp add: mapping_field_def split: pyval.split)

lemma contracted_sequence [contract_rules]: "contracted (sequence_field v n)"
  by (simp add: sequence_field_def split: pyval.split)

lemma contracted_text [contract_rules]: "contracted (text_field v n)"
  by (simp add: text_field_def)

lemma contracted_int [contract_rules]: "contracted (int_field v n m)"
  by (simp add: int_field_def split: pyval.split)

lemma contracted_float [contract_rules]: "integers_fit v \<Longrightarrow> contracted (float_field v n m)"
  using py_float_error[of v]
  by (cases "py_float v") (auto simp: float_field_def Let_def split: pyval.splits exn.splits)

lemma contracted_unique [contract_rules]: "contracted (require_unique f xs c)"
proof -
  have "contracted (unique_from f c seen ys)" for seen ys
    by (induction ys arbitrary: seen) auto
  then show ?thesis by (simp add: require_unique_def)
qed

lemma vget_fit [contract_rules]: "integers_fit (VDict d) \<Longrightarrow> integers_fit (vget d k)"
  by (auto simp: vget_def list_all_iff split: option.split dest!: map_of_SomeD)

lemma vget_default_fit [contract_rules]:
  "integers_fit (VDict d) \<Longrightarrow> integers_fit v \<Longrightarrow> integers_fit (vget_default d k v)"
  by (auto simp: vget_default_def list_all_iff split: option.split dest!: map_of_SomeD)

lemma mapping_field_fit: "mapping_field v n = Inr d \<Longrightarrow> integers_fit v \<Longrightarrow> integers_fit (VDict d)"
  by (auto simp: mapping_field_def split: pyval.splits)

lemma sequence_field_fit: "sequence_field v n = Inr vs \<Longrightarrow> integers_fit v \<Longrightarrow> list_all integers_fit vs"
  by (auto simp: sequence_field_def split: pyval.splits)

lemma contracted_object [contract_rules]:
  "integers_fit v \<Longrightarrow> (\<And>d. integers_fit (VDict d) \<Longrightarrow> contracted (f d)) \<Longrightarrow>
   contracted (rbind (mapping_field v n) f)"
  by (rule contracted_rbind) (auto intro: contract_rules dest: mapping_field_fit simp del: integers_fit.simps)

lemma contracted_array [contract_rules]:
  "integers_fit v \<Longrightarrow> (\<And>x. integers_fit x \<Longrightarrow> contracted (f x)) \<Longrightarrow>
   contracted (rbind (sequence_field v n) (rmap f))"
  by (rule contracted_rbind)
    (auto intro!: contract_rules dest: sequence_field_fit simp: list_all_iff simp del: integers_fit.simps)

lemmas reads_contracted = contracted_object contracted_array contract_rules

lemma contracted_layer: "integers_fit (VDict d) \<Longrightarrow> contracted (layer_of d)"
  unfolding layer_of_def by (intro contract_rules contracted_simps)

lemma contracted_device: "integers_fit (VDict d) \<Longrightarrow> contracted (device_of d)"
  unfolding device_of_def by (intro contract_rules contracted_simps contract_error_intros)

lemma contracted_link: "integers_fit (VDict d) \<Longrightarrow> contracted (link_of d)"
  unfolding link_of_def by (intro contract_rules contracted_simps)

lemma contracted_mode: "contracted (approved_mode_of d)"
  unfolding approved_mode_of_def Let_def by (intro contract_rules contracted_simps contract_error_intros)

lemma contracted_constraints: "integers_fit (VDict d) \<Longrightarrow> contracted (constraints_of d)"
  unfolding constraints_of_def
  by (intro contract_rules contracted_simps contract_error_intros integers_fit.simps(8)[THEN iffD2]) simp_all

lemma contracted_check: "contracted (check_round_plan ls ps ds ks)"
  unfolding check_round_plan_def
  by (intro contract_rules contract_error_intros) (auto intro: contract_rules)

lemma contracted_round_plan: "integers_fit v \<Longrightarrow> contracted (round_plan_of v)"
  unfolding round_plan_of_def
  by (intro reads_contracted contracted_simps contracted_layer contracted_device contracted_link
      contracted_mode contracted_constraints contracted_check)
    (simp_all add: contracted_text)

section \<open>Properties\<close>

text \<open>
  C33. \<open>FederatedRoundPlan.from_dict\<close> is a type check: the objects it returns are exactly the round
  plans that keep the contract (texts stripped and not empty, finite numbers above their minimum,
  an approval with its provenance, distinct names, participants with a device snapshot, links
  between known devices and one between every two consecutive participants), and exactly these
  survive \<open>to_dict\<close> followed by \<open>from_dict\<close>.
\<close>

theorem round_plan_contract:
  "((\<exists>v. round_plan_of v = Inr p) \<longleftrightarrow> round_plan_ok p) \<and>
   (round_plan_of (VDict (round_plan_dict p)) = Inr p \<longleftrightarrow> round_plan_ok p)"
  using round_plan_of_ok round_plan_back by blast

definition demo_candidate_payload :: payload where
  "demo_candidate_payload =
     [(''split_points'', VList [VInt 1]),
      (''partitions'', VList [VDict [(''partition_id'', VStr ''p0''), (''device_id'', VStr ''edge-a''),
         (''layer_names'', VList [VStr ''conv'', VStr '' head '']), (''compute_units'', VFloat (FFin 3)),
         (''memory_demand_bytes'', VInt 512)]]),
      (''graph_nodes'', VList [VDict [(''partition_id'', VStr ''p0''), (''device_id'', VStr ''edge-a'')]]),
      (''graph_edges'', VList []),
      (''estimated_compute_ms'', VFloat (FFin 4)), (''estimated_transfer_ms'', VFloat (FFin 0)),
      (''estimated_total_latency_ms'', VFloat (FFin 4)), (''total_transfer_bytes'', VInt 0),
      (''maximum_memory_pressure'', VFloat (FFin (1 / 2))), (''valid'', VInt 1),
      (''score'', VFloat (FFin 7))]"

definition demo_candidate :: PartitionCandidate where
  "demo_candidate =
     \<lparr>ca_split_points = [1],
      ca_partitions = [\<lparr>lp_partition_id = ''p0'', lp_device_id = ''edge-a'',
        lp_layer_names = [''conv'', ''head''], lp_compute_units = FFin 3, lp_memory_demand_bytes = 512\<rparr>],
      ca_graph_nodes = [\<lparr>gn_partition_id = ''p0'', gn_device_id = ''edge-a''\<rparr>], ca_graph_edges = [],
      ca_estimated_compute_ms = FFin 4, ca_estimated_transfer_ms = FFin 0,
      ca_estimated_total_latency_ms = FFin 4, ca_total_transfer_bytes = 0,
      ca_maximum_memory_pressure = FFin (1 / 2), ca_valid = True, ca_rejection_reasons = [],
      ca_score = FFin 7, ca_estimated_step_time_ms = FFin 0, ca_gradient_transfer_bytes = 0,
      ca_maximum_load_imbalance = FFin 0, ca_predicted_resilience_risk = FFin 0\<rparr>"

definition demo_plan_payload :: payload where
  "demo_plan_payload =
     [(''plan_id'', VStr '' plan-1 ''), (''job_id'', VStr ''job-1''), (''model_id'', VInt 7),
      (''approved_execution_mode'', VStr ''edge''), (''policy_version'', VStr ''p1''),
      (''selected_candidate'', VDict demo_candidate_payload), (''valid'', VBool True),
      (''errors'', VList [VInt 3]), (''parent_plan_id'', VStr '' ''),
      (''confidence'', VFloat (FFin (1 / 2)))]"

definition demo_execution_plan :: PartitionExecutionPlan where
  "demo_execution_plan =
     (safe_failure ''plan-1'' ''job-1'' ''7'' ''edge'' ''p1'' [''3''] [] None)
       \<lparr>pp_selected_candidate := Some demo_candidate, pp_rationale := '''', pp_valid := True,
        pp_human_review_required := False, pp_confidence := FFin (1 / 2)\<rparr>"

lemma demo_text [simp]: "strip ''p0'' = ''p0''" "strip ''edge-a'' = ''edge-a''" "strip ''conv'' = ''conv''"
  "strip '' head '' = ''head''" "strip '' plan-1 '' = ''plan-1''" "strip ''job-1'' = ''job-1''"
  "strip ''edge'' = ''edge''" "strip ''p1'' = ''p1''" "strip '' '' = ''''" "strip ''7'' = ''7''"
  "int_str 7 = ''7''" "int_str 3 = ''3''"
  by code_simp+

lemma demo_candidate_read: "candidate_of demo_candidate_payload = Inr demo_candidate"
  by (simp add: candidate_of_def demo_candidate_payload_def demo_candidate_def wire_simps
      partition_of_def graph_node_of_def text_field_def float_field_def int_field_def
      mapping_field_def sequence_field_def vget_def vget_default_def)

text \<open>
  C34. Reading an execution plan normalises it once and for all: a plan read from a JSON object
  keeps its contract (candidates, partitions, graph, selection and optional fields included), and
  writing it with \<open>to_dict\<close> and reading it again gives the same plan.
\<close>

theorem execution_plan_roundtrip:
  assumes "json_value (VDict d)" and "execution_plan_of d = Inr p"
  shows "execution_plan_ok p \<and> execution_plan_of (execution_plan_dict p) = Inr p"
  using execution_plan_of_ok[OF assms] execution_plan_back by blast

theorem execution_plan_roundtrip_witness:
  "execution_plan_of demo_plan_payload = Inr demo_execution_plan \<and>
   execution_plan_of (execution_plan_dict demo_execution_plan) = Inr demo_execution_plan"
proof -
  have read: "execution_plan_of demo_plan_payload = Inr demo_execution_plan"
    by (simp add: execution_plan_of_def demo_plan_payload_def demo_execution_plan_def safe_failure_def
        optional_field_def text_field_def stripped_def int_field_def float_field_def parent_plan_def
        text_or_def mapping_field_def sequence_field_def vget_def vget_default_def demo_candidate_read)
  moreover have "json_value (VDict demo_plan_payload)"
    by (simp add: demo_plan_payload_def demo_candidate_payload_def)
  ultimately show ?thesis using execution_plan_roundtrip[of demo_plan_payload demo_execution_plan] by blast
qed

text \<open>
  \<open>FederatedRoundPlan.from_dict\<close> rejects every bad payload with \<open>PartitionContractError\<close>, as long
  as each integer in it fits binary64. The condition is needed: \<open>_float\<close> does not catch the
  \<open>OverflowError\<close> of \<open>float(2 ** 1024)\<close>, which the witness lets escape from a \<open>compute_units\<close> field.
\<close>

theorem round_plan_errors:
  assumes "integers_fit v" and "round_plan_of v = Inl e"
  shows "\<exists>code m. e = PartitionContractError code m"
  using contracted_round_plan[OF assms(1)] assms(2) by (simp add: contracted_def contract_error_def)

definition demo_layer_payload :: "pyval \<Rightarrow> pyval" where
  "demo_layer_payload units = VDict [(''layers'', VList [VDict [(''name'', VStr ''conv''), (''compute_units'', units)]])]"

lemma ilog2_power: "ilog2 (2 ^ n) = int n"
  by (induction n) (simp_all add: ilog2_1, subst ilog2.simps, simp add: not_less)

lemma huge_int: "\<not> is_finite (round64 (of_int (2 ^ 1024)))"
proof -
  have e: "binary_exponent (2 ^ 1024) = 1024"
    using ilog2_power[of 1024] by (simp add: binary_exponent_def)
  have "(2 ^ 1024 :: rat) = of_int (2 ^ 52) * pow2 (1024 - 52)"
    by (simp add: pow2_def)
  then have "(2 ^ 1024 :: rat) / pow2 (1024 - 52) = of_int (2 ^ 52)" by simp
  then have "round_half_even (2 ^ 1024 / pow2 (1024 - 52)) = 2 ^ 52"
    by (metis round_half_even_of_int)
  with e show ?thesis
    by (simp add: round64_def Let_def float_limit_def pow2_def)
qed

lemma demo_layer_read:
  "float_field units ''layers.compute_units'' micro = Inl e \<Longrightarrow>
   round_plan_of (demo_layer_payload units) = Inl e"
  by (simp add: round_plan_of_def demo_layer_payload_def wire_simps layer_of_def text_field_def)

theorem round_plan_errors_witness:
  "(\<exists>code m. round_plan_of (demo_layer_payload VNone) = Inl (PartitionContractError code m)) \<and>
   round_plan_of (demo_layer_payload (VInt (2 ^ 1024))) = Inl too_large"
proof
  have err: "round_plan_of (demo_layer_payload VNone) =
      Inl (invalid_contract ''layers.compute_units must be numeric'')"
    by (rule demo_layer_read) (simp add: float_field_def)
  have "integers_fit (demo_layer_payload VNone)" by (simp add: demo_layer_payload_def)
  from round_plan_errors[OF this err] err
  show "\<exists>code m. round_plan_of (demo_layer_payload VNone) = Inl (PartitionContractError code m)"
    by metis
  show "round_plan_of (demo_layer_payload (VInt (2 ^ 1024))) = Inl too_large"
    by (rule demo_layer_read) (use huge_int in \<open>simp add: float_field_def float_of_int_def too_large_def\<close>)
qed

end
