(* ===== verification/PartitionGraph.thy ===== *)
theory PartitionGraph
  imports PartitionModels
begin

text \<open>
  The cycle search of \<open>partition_validator.py\<close> (\<open>_has_cycle\<close>): a recursive depth-first search over
  the adjacency of the execution graph. A call of \<open>visit\<close> that returns \<open>False\<close> leaves the set
  \<open>visiting\<close> as it found it, and after \<open>True\<close> nothing reads it again, so it is passed down;
  \<open>visited\<close> is threaded. Every nested call of \<open>visit\<close> uses up room on the interpreter's stack:
  without room the result is \<open>None\<close>, a \<open>RecursionError\<close>.
\<close>

section \<open>The search\<close>

type_synonym adjacency = "(string, string list) dict"

definition targets :: "adjacency \<Rightarrow> string \<Rightarrow> string list" where
  "targets adj node = (case dict_get adj node of None \<Rightarrow> [] | Some ts \<Rightarrow> ts)"

function visit :: "nat \<Rightarrow> adjacency \<Rightarrow> string set \<Rightarrow> string set \<Rightarrow> string \<Rightarrow> (bool \<times> string set) option"
  and visit_any :: "nat \<Rightarrow> adjacency \<Rightarrow> string set \<Rightarrow> string set \<Rightarrow> string list \<Rightarrow> (bool \<times> string set) option"
  where
  "visit 0 adj visiting visited node = None"
| "visit (Suc room) adj visiting visited node =
     (if node \<in> visiting then Some (True, visited)
      else if node \<in> visited then Some (False, visited)
      else (case visit_any room adj (insert node visiting) visited (targets adj node) of
              None \<Rightarrow> None
            | Some (True, v) \<Rightarrow> Some (True, v)
            | Some (False, v) \<Rightarrow> Some (False, insert node v)))"
| "visit_any room adj visiting visited [] = Some (False, visited)"
| "visit_any room adj visiting visited (t # ts) =
     (case visit room adj visiting visited t of
        None \<Rightarrow> None
      | Some (True, v) \<Rightarrow> Some (True, v)
      | Some (False, v) \<Rightarrow> visit_any room adj visiting v ts)"
  by pat_completeness auto
termination
  by (relation "measures [\<lambda>x. case x of Inl (room, _) \<Rightarrow> room | Inr (room, _) \<Rightarrow> room,
      \<lambda>x. case x of Inl _ \<Rightarrow> 0 | Inr (_, _, _, _, ts) \<Rightarrow> length ts]") auto

definition has_cycle :: "nat \<Rightarrow> adjacency \<Rightarrow> bool option" where
  "has_cycle room adj = map_option fst (visit_any room adj {} {} (dict_keys adj))"

section \<open>What it computes\<close>

definition edge_rel :: "adjacency \<Rightarrow> (string \<times> string) set" where
  "edge_rel adj = {(a, b). b \<in> set (targets adj a)}"

lemma edge_relI: "b \<in> set (targets adj a) \<Longrightarrow> (a, b) \<in> edge_rel adj"
  by (simp add: edge_rel_def)

lemma targets_dom: "targets adj a \<noteq> [] \<Longrightarrow> a \<in> set (dict_keys adj)"
proof -
  assume "targets adj a \<noteq> []"
  then have "a \<in> dom (dict_get adj)" by (auto simp: targets_def split: option.splits)
  then show ?thesis by (simp only: set_dict_keys)
qed

text \<open>A cycle that is reported exists: every node on the stack reaches the node that is visited.\<close>

lemma visit_finds_cycle:
  shows "visit room adj P V n = Some (True, V') \<Longrightarrow> (\<forall>p \<in> P. (p, n) \<in> (edge_rel adj)\<^sup>+) \<Longrightarrow>
           \<exists>a. (a, a) \<in> (edge_rel adj)\<^sup>+"
    and "visit_any room adj P V ts = Some (True, V') \<Longrightarrow>
           (\<forall>p \<in> P. \<forall>t \<in> set ts. (p, t) \<in> (edge_rel adj)\<^sup>+) \<Longrightarrow> \<exists>a. (a, a) \<in> (edge_rel adj)\<^sup>+"
proof (induction room adj P V n and room adj P V ts arbitrary: V' and V' rule: visit_visit_any.induct)
  case (2 room adj P V n)
  show ?case
  proof (cases "n \<in> P \<or> n \<in> V")
    case True
    with 2 show ?thesis by (auto split: if_splits)
  next
    case False
    have "\<forall>p \<in> insert n P. \<forall>t \<in> set (targets adj n). (p, t) \<in> (edge_rel adj)\<^sup>+"
      using "2.prems"(2) by (auto dest: edge_relI intro: trancl_into_trancl)
    with 2 False show ?thesis by (auto split: option.splits bool.splits prod.splits)
  qed
qed (fastforce split: option.splits bool.splits prod.splits)+

text \<open>
  The visited nodes are closed under edges, lie on no cycle and are disjoint from the stack; a
  search without a find keeps this and visits what it was asked to.
\<close>

definition settled :: "adjacency \<Rightarrow> string set \<Rightarrow> string set \<Rightarrow> bool" where
  "settled adj P V \<longleftrightarrow> (edge_rel adj) `` V \<subseteq> V \<and> (\<forall>a \<in> V. (a, a) \<notin> (edge_rel adj)\<^sup>+) \<and> V \<inter> P = {}"

lemma settled_reach: "(a, b) \<in> (edge_rel adj)\<^sup>+ \<Longrightarrow> (edge_rel adj) `` V \<subseteq> V \<Longrightarrow> a \<in> V \<Longrightarrow> b \<in> V"
  by (induction rule: trancl_induct) auto

lemma settled_insert:
  assumes "settled adj (insert n P) V" and "set (targets adj n) \<subseteq> V" and "n \<notin> P"
  shows "settled adj P (insert n V)"
proof -
  from assms have V: "(edge_rel adj) `` V \<subseteq> V" "n \<notin> V" by (auto simp: settled_def)
  have "(n, n) \<notin> (edge_rel adj)\<^sup>+"
  proof
    assume "(n, n) \<in> (edge_rel adj)\<^sup>+"
    then obtain t where t: "(n, t) \<in> edge_rel adj" "(t, n) \<in> (edge_rel adj)\<^sup>*"
      by (blast dest: tranclD)
    from t(1) assms(2) have "t \<in> V" by (auto simp: edge_rel_def)
    with t(2) V show False by (metis rtranclD settled_reach)
  qed
  with assms V show ?thesis by (auto simp: settled_def edge_rel_def)
qed

lemma visit_settles:
  shows "visit room adj P V n = Some (False, V') \<Longrightarrow> settled adj P V \<Longrightarrow>
           settled adj P V' \<and> V \<subseteq> V' \<and> n \<in> V'"
    and "visit_any room adj P V ts = Some (False, V') \<Longrightarrow> settled adj P V \<Longrightarrow>
           settled adj P V' \<and> V \<subseteq> V' \<and> set ts \<subseteq> V'"
proof (induction room adj P V n and room adj P V ts arbitrary: V' and V' rule: visit_visit_any.induct)
  case (2 room adj P V n)
  show ?case
  proof (cases "n \<in> P \<or> n \<in> V")
    case True
    with 2 show ?thesis by (auto split: if_splits)
  next
    case False
    with "2.prems" obtain W where W: "visit_any room adj (insert n P) V (targets adj n) = Some (False, W)"
      "V' = insert n W" by (auto split: option.splits bool.splits prod.splits)
    from "2.prems"(2) False have "settled adj (insert n P) V" by (auto simp: settled_def)
    with "2.IH" W(1) False have "settled adj (insert n P) W" "V \<subseteq> W" "set (targets adj n) \<subseteq> W" by blast+
    with W(2) False settled_insert[of adj n P W] show ?thesis by auto
  qed
next
  case (4 room adj P V t ts)
  from "4.prems" obtain W where v: "visit room adj P V t = Some (False, W)"
    and ts: "visit_any room adj P W ts = Some (False, V')"
    by (auto split: option.splits bool.splits prod.splits)
  from "4.IH"(1)[OF v "4.prems"(2)] have W: "settled adj P W \<and> V \<subseteq> W \<and> t \<in> W" .
  have "settled adj P V' \<and> W \<subseteq> V' \<and> set ts \<subseteq> V'"
    by (rule "4.IH"(2)) (use v ts W in auto)
  with W show ?case by auto
qed auto

text \<open>The stack never holds more than the nodes of the graph, so that much room is enough.\<close>

lemma visit_returns:
  shows "P \<subseteq> set (dict_keys adj) \<Longrightarrow> card (set (dict_keys adj) - P) < room \<Longrightarrow>
           visit room adj P V n \<noteq> None"
    and "P \<subseteq> set (dict_keys adj) \<Longrightarrow> ts = [] \<or> card (set (dict_keys adj) - P) < room \<Longrightarrow>
           visit_any room adj P V ts \<noteq> None"
proof (induction room adj P V n and room adj P V ts rule: visit_visit_any.induct)
  case (2 room adj P V n)
  let ?D = "set (dict_keys adj)"
  show ?case
  proof (cases "n \<in> P \<or> n \<in> V \<or> targets adj n = []")
    case True
    then show ?thesis by (elim disjE) (simp_all add: ex_bool_eq)
  next
    case False
    then have n: "n \<in> ?D" "n \<notin> P" "n \<notin> V" using targets_dom[of adj n] by auto
    then have D: "?D - P = insert n (?D - insert n P)" by blast
    have "card (?D - P) = Suc (card (?D - insert n P))"
      unfolding D by (rule card_insert_disjoint) simp_all
    with "2.prems"(2) have less: "card (?D - insert n P) < room" by linarith
    have sub: "insert n P \<subseteq> ?D" using "2.prems"(1) n(1) by blast
    have "visit_any room adj (insert n P) V (targets adj n) \<noteq> None"
      by (rule "2.IH") (use less sub n in simp_all)
    then obtain b W where "visit_any room adj (insert n P) V (targets adj n) = Some (b, W)" by auto
    with n show ?thesis by (cases b) simp_all
  qed
next
  case (4 room adj P V t ts)
  have "visit room adj P V t \<noteq> None"
    by (rule "4.IH"(1)) (use "4.prems" in simp_all)
  then obtain b W where v: "visit room adj P V t = Some (b, W)" by auto
  show ?case
  proof (cases b)
    case False
    have "visit_any room adj P W ts \<noteq> None"
      by (rule "4.IH"(2)[OF v refl]) (use "4.prems" False in simp_all)
    with v False show ?thesis by simp
  qed (use v in simp)
qed simp_all

text \<open>An answer is right whatever the room; enough room gives an answer.\<close>

lemma has_cycle_right:
  assumes "has_cycle room adj = Some b"
  shows "b \<longleftrightarrow> \<not> acyclic (edge_rel adj)"
proof -
  from assms obtain V where r: "visit_any room adj {} {} (dict_keys adj) = Some (b, V)"
    by (auto simp: has_cycle_def)
  show ?thesis
  proof (cases b)
    case True
    with r visit_finds_cycle(2)[of room adj "{}" "{}" "dict_keys adj" V] show ?thesis
      by (auto simp: acyclic_def)
  next
    case False
    have "settled adj {} {}" by (simp add: settled_def)
    with False r visit_settles(2)[of room adj "{}" "{}" "dict_keys adj" V]
    have V: "\<forall>a \<in> V. (a, a) \<notin> (edge_rel adj)\<^sup>+" "set (dict_keys adj) \<subseteq> V" by (auto simp: settled_def)
    have "(a, a) \<notin> (edge_rel adj)\<^sup>+" for a
    proof
      assume cyc: "(a, a) \<in> (edge_rel adj)\<^sup>+"
      then obtain b where "(a, b) \<in> edge_rel adj" by (meson tranclD)
      then have "targets adj a \<noteq> []" by (auto simp: edge_rel_def)
      with targets_dom V(2) have "a \<in> V" by blast
      with V(1) cyc show False by blast
    qed
    with False show ?thesis by (auto simp: acyclic_def)
  qed
qed

lemma has_cycle_acyclic:
  assumes "length adj < room"
  shows "has_cycle room adj = Some (\<not> acyclic (edge_rel adj))"
proof -
  have "card (set (dict_keys adj)) < room"
    using assms card_length[of "dict_keys adj"] by simp
  then have "has_cycle room adj \<noteq> None"
    using visit_returns(2)[of "{}" adj "dict_keys adj" room "{}"] by (auto simp: has_cycle_def)
  with has_cycle_right[of room adj] show ?thesis by auto
qed

text \<open>
  C35. The cycle search ends with the right answer: with room on the stack for one nested call more
  than the graph has nodes it never overflows, and it reports a cycle exactly when the edge relation
  of the adjacency is not acyclic, in whatever order nodes and targets are visited.
\<close>

theorem has_cycle_decides:
  assumes "length adj < room"
  shows "has_cycle room adj = Some (\<not> acyclic (edge_rel adj))"
  using assms by (rule has_cycle_acyclic)

theorem has_cycle_decides_witness:
  "has_cycle 4 [(''a'', [''b'', ''c'']), (''b'', [''c'']), (''c'', [])] = Some False \<and>
   acyclic (edge_rel [(''a'', [''b'', ''c'']), (''b'', [''c'']), (''c'', [])]) \<and>
   has_cycle 3 [(''a'', [''b'']), (''b'', [''a''])] = Some True \<and>
   \<not> acyclic (edge_rel [(''a'', [''b'']), (''b'', [''a''])]) \<and>
   has_cycle 1 [(''a'', [''b'']), (''b'', [''a''])] = None"
proof -
  let ?g = "[(''a'', [''b'', ''c'']), (''b'', [''c'']), (''c'', [])] :: adjacency"
  let ?h = "[(''a'', [''b'']), (''b'', [''a''])] :: adjacency"
  have "has_cycle 4 ?g = Some False" "has_cycle 3 ?h = Some True" "has_cycle 1 ?h = None"
    by (simp_all add: has_cycle_def targets_def eval_nat_numeral)
  with has_cycle_decides[of ?g 4] has_cycle_decides[of ?h 3] show ?thesis by simp
qed

end
