(* ===== verification/PartitionValidator.thy ===== *)
theory PartitionValidator
  imports PartitionGraph
begin

text \<open>
  \<open>partition_validator.py\<close>: the independent check of an execution plan against its round plan
  (\<open>_validate_legacy\<close>) and the parts of the second version that look at the plan alone. Each
  check appends to the list of errors; a plan is valid when the list stays empty. The argument
  \<open>room\<close> is what the interpreter's recursion limit leaves for \<open>_has_cycle\<close>.
\<close>

section \<open>Results\<close>

record PartitionValidationResult =
  pv_valid :: bool
  pv_errors :: "string list"
  pv_checked_rules :: "string list"

definition checked_rules :: "string list" where
  "checked_rules =
     [''plan_identity'', ''approved_mode_provenance'', ''layer_coverage'', ''partition_devices'',
      ''memory_capacity'', ''execution_graph_nodes'', ''execution_graph_dag'', ''network_links'',
      ''job_constraints'']"

definition validation_result :: "string list \<Rightarrow> PartitionValidationResult" where
  "validation_result errors =
     \<lparr>pv_valid = (first_occurrences errors = []), pv_errors = first_occurrences errors,
      pv_checked_rules = checked_rules\<rparr>"

definition validation_result_dict :: "PartitionValidationResult \<Rightarrow> payload" where
  "validation_result_dict r =
     [(''valid'', VBool (pv_valid r)), (''errors'', VList (map VStr (pv_errors r))),
      (''checked_rules'', VList (map VStr (pv_checked_rules r)))]"

text \<open>\<open>if c: errors.append(e)\<close>.\<close>

definition err_if :: "bool \<Rightarrow> string \<Rightarrow> string list" where
  "err_if c e = (if c then [e] else [])"

lemma err_if_Nil [simp]: "err_if c e = [] \<longleftrightarrow> \<not> c"
  by (simp add: err_if_def)

section \<open>Identity, approval and layer coverage\<close>

definition identity_errors :: "FederatedRoundPlan \<Rightarrow> PartitionExecutionPlan \<Rightarrow> string list" where
  "identity_errors rp plan =
     err_if (pp_job_id plan \<noteq> fr_job_id rp) ''job_id_mismatch'' @
     err_if (pp_model_id plan \<noteq> fr_model_id rp) ''model_id_mismatch'' @
     err_if (pp_approved_execution_mode plan \<noteq> am_name (fr_execution_mode rp))
       ''approved_execution_mode_mismatch'' @
     err_if (\<not> am_approved (fr_execution_mode rp) \<or> am_approved_by (fr_execution_mode rp) = '''' \<or>
         am_approval_ref (fr_execution_mode rp) = '''')
       ''approved_mode_provenance_missing''"

definition full_model_replicas :: "FederatedRoundPlan \<Rightarrow> PartitionExecutionPlan \<Rightarrow> PartitionCandidate \<Rightarrow> bool" where
  "full_model_replicas rp plan c \<longleftrightarrow>
     pp_plan_type plan = ''training'' \<and> pp_approved_execution_mode plan = ''federated_learning'' \<and>
     length (ca_partitions c) = length (fr_participants rp) \<and>
     list_all (\<lambda>p. lp_layer_names p = map ml_name (fr_layers rp)) (ca_partitions c)"

definition coverage_errors :: "FederatedRoundPlan \<Rightarrow> PartitionExecutionPlan \<Rightarrow> PartitionCandidate \<Rightarrow> string list" where
  "coverage_errors rp plan c =
     err_if (\<not> pp_valid plan \<or> \<not> ca_valid c) ''selected_plan_not_valid'' @
     err_if (\<not> full_model_replicas rp plan c \<and>
         concat (map lp_layer_names (ca_partitions c)) \<noteq> map ml_name (fr_layers rp))
       ''layer_coverage_mismatch''"

section \<open>Partitions and memory\<close>

definition layers_by_name :: "FederatedRoundPlan \<Rightarrow> (string, ModelLayer) dict" where
  "layers_by_name rp = dict_of (map (\<lambda>l. (ml_name l, l)) (fr_layers rp))"

definition devices_by_id :: "FederatedRoundPlan \<Rightarrow> (string, ResourceDevice) dict" where
  "devices_by_id rp = dict_of (map (\<lambda>d. (rd_device_id d, d)) (fr_devices rp))"

definition partitions_by_id :: "LogicalPartition list \<Rightarrow> (string, LogicalPartition) dict" where
  "partitions_by_id ps = dict_of (map (\<lambda>p. (lp_partition_id p, p)) ps)"

text \<open>\<open>max(xs)\<close> of an empty sequence raises \<open>ValueError\<close>.\<close>

definition expected_memory :: "ModelLayer list \<Rightarrow> (exn, int) result" where
  "expected_memory ls =
     (if ls = [] then Inl (ValueError ''max() iterable argument is empty'')
      else Inr (sum_list (map ml_parameter_bytes ls) + sum_list (map ml_working_memory_bytes ls) +
                Max (set (map ml_activation_bytes ls))))"

text \<open>\<open>int(available * (1.0 - headroom))\<close>: the integer is converted to binary64 first.\<close>

definition allowed_memory :: "ResourceDevice \<Rightarrow> PartitionConstraints \<Rightarrow> (exn, int) result" where
  "allowed_memory d c =
     rbind (float_of_int (rd_memory_available_bytes d)) (\<lambda>available.
       int_of_float (fmul available (fsub (FFin 1) (pc_minimum_memory_headroom_ratio c))))"

definition memory_errors :: "FederatedRoundPlan \<Rightarrow> LogicalPartition \<Rightarrow> (exn, string list) result" where
  "memory_errors rp p =
     rbind (expected_memory (map (the \<circ> dict_get (layers_by_name rp)) (lp_layer_names p))) (\<lambda>expected.
     rbind (allowed_memory (the (dict_get (devices_by_id rp) (lp_device_id p))) (fr_constraints rp))
       (\<lambda>allowed.
     Inr (err_if (lp_memory_demand_bytes p \<noteq> expected) (''memory_demand_mismatch:'' @ lp_partition_id p) @
          err_if (allowed < expected) (''memory_capacity_exceeded:'' @ lp_device_id p))))"

definition partition_errors :: "FederatedRoundPlan \<Rightarrow> LogicalPartition \<Rightarrow> (exn, string list) result" where
  "partition_errors rp p =
     rbind
       (if lp_device_id p \<notin> set (fr_participants rp) \<or>
           lp_device_id p \<notin> set (dict_keys (devices_by_id rp))
        then Inr [''unknown_partition_device:'' @ lp_device_id p]
        else if \<exists>n \<in> set (lp_layer_names p). n \<notin> set (dict_keys (layers_by_name rp))
        then Inr [''unknown_partition_layer:'' @ lp_partition_id p]
        else memory_errors rp p)
       (\<lambda>es. Inr (err_if (lp_layer_names p = []) (''empty_partition:'' @ lp_partition_id p) @ es))"

definition partitions_errors :: "FederatedRoundPlan \<Rightarrow> LogicalPartition list \<Rightarrow> (exn, string list) result" where
  "partitions_errors rp ps =
     rbind (rmap (partition_errors rp) ps) (\<lambda>ess.
       Inr (err_if (length (partitions_by_id ps) \<noteq> length ps) ''duplicate_partition_id'' @ concat ess))"

section \<open>The execution graph\<close>

definition graph_node_partitions :: "LogicalPartition list \<Rightarrow> bool \<Rightarrow> string \<Rightarrow> (string, LogicalPartition) dict" where
  "graph_node_partitions ps training mode =
     (if \<not> training then partitions_by_id ps
      else case ps of
        [] \<Rightarrow> []
      | first # _ \<Rightarrow>
          (if mode = ''federated_learning'' then dict_set ''aggregation'' first (partitions_by_id ps)
           else dict_set ''aggregation'' first
             (dict_of (concat (map (\<lambda>p. [(lp_partition_id p @ '':forward'', p),
                                          (lp_partition_id p @ '':backward'', p)]) ps)))))"

definition has_required_network_link ::
  "string \<Rightarrow> string \<Rightarrow> string \<Rightarrow> (string \<times> string) list \<Rightarrow> bool \<Rightarrow> bool" where
  "has_required_network_link source target edge_type link_pairs training =
     (source = target \<or> (source, target) \<in> set link_pairs \<or>
      (training \<and> edge_type = ''backward'' \<and> (target, source) \<in> set link_pairs))"

definition known_edge :: "string list \<Rightarrow> ExecutionGraphEdge \<Rightarrow> bool" where
  "known_edge node_ids e \<longleftrightarrow> ge_source_partition e \<in> set node_ids \<and> ge_target_partition e \<in> set node_ids"

definition edge_errors ::
  "string list \<Rightarrow> (string, LogicalPartition) dict \<Rightarrow> (string \<times> string) list \<Rightarrow> bool \<Rightarrow>
   ExecutionGraphEdge \<Rightarrow> string list" where
  "edge_errors node_ids parts link_pairs training e =
     (if \<not> known_edge node_ids e then [''graph_edge_unknown_node'']
      else case (dict_get parts (ge_source_partition e), dict_get parts (ge_target_partition e)) of
          (Some source, Some target) \<Rightarrow>
            err_if (\<not> has_required_network_link (lp_device_id source) (lp_device_id target)
                (ge_edge_type e) link_pairs training)
              (''missing_network_link:'' @ lp_device_id source @ ''->'' @ lp_device_id target)
        | _ \<Rightarrow> [''graph_edge_unknown_partition''])"

text \<open>The adjacency the edge loop builds: every node with the set of its targets.\<close>

definition add_edge :: "string list \<Rightarrow> adjacency \<Rightarrow> ExecutionGraphEdge \<Rightarrow> adjacency" where
  "add_edge node_ids adj e =
     (if known_edge node_ids e
      then dict_set (ge_source_partition e)
        (List.insert (ge_target_partition e) (targets adj (ge_source_partition e))) adj
      else adj)"

definition adjacency_of :: "string list \<Rightarrow> ExecutionGraphEdge list \<Rightarrow> adjacency" where
  "adjacency_of node_ids es =
     foldl (add_edge node_ids) (map (\<lambda>n. (n, [])) (first_occurrences node_ids)) es"

definition training_graph_modes :: "string list" where
  "training_graph_modes =
     [''federated_learning'', ''pipeline_parallel'', ''split_learning'', ''hybrid_partition'']"

definition edge_key :: "ExecutionGraphEdge \<Rightarrow> string \<times> string \<times> string" where
  "edge_key e = (ge_source_partition e, ge_target_partition e, ge_edge_type e)"

definition consecutive :: "'a list \<Rightarrow> ('a \<times> 'a) list" where
  "consecutive xs = zip xs (tl xs)"

definition phase_edges :: "LogicalPartition list \<Rightarrow> (string \<times> string \<times> string) list" where
  "phase_edges ps =
     map (\<lambda>(s, t). (lp_partition_id s @ '':forward'', lp_partition_id t @ '':forward'', ''forward''))
       (consecutive ps) @
     map (\<lambda>(s, t). (lp_partition_id t @ '':backward'', lp_partition_id s @ '':backward'', ''backward''))
       (consecutive ps) @
     (if ps = [] then []
      else [(lp_partition_id (last ps) @ '':forward'', lp_partition_id (last ps) @ '':backward'', ''gradient''),
            (lp_partition_id (hd ps) @ '':backward'', ''aggregation'', ''aggregation'')])"

definition training_graph_errors :: "string \<Rightarrow> LogicalPartition list \<Rightarrow> ExecutionGraphEdge list \<Rightarrow> string list" where
  "training_graph_errors mode ps es =
     (if mode \<notin> set training_graph_modes then [''training_graph_mode_not_supported'']
      else if mode = ''federated_learning'' then
        err_if (set (map edge_key es) \<noteq>
            set (map (\<lambda>p. (lp_partition_id p, ''aggregation'', ''aggregation'')) (tl ps)))
          ''federated_aggregation_graph_contract_mismatch''
      else err_if (set (map edge_key es) \<noteq> set (phase_edges ps))
          ''training_graph_phase_contract_mismatch'')"

definition graph_errors ::
  "FederatedRoundPlan \<Rightarrow> PartitionExecutionPlan \<Rightarrow> PartitionCandidate \<Rightarrow> string list" where
  "graph_errors rp plan c =
     (let training = (pp_plan_type plan = ''training'');
          parts = graph_node_partitions (ca_partitions c) training (pp_approved_execution_mode plan);
          node_ids = map gn_partition_id (ca_graph_nodes c)
      in err_if (set (map (\<lambda>n. (gn_partition_id n, gn_device_id n)) (ca_graph_nodes c)) \<noteq>
             set (map (\<lambda>(i, p). (i, lp_device_id p)) parts)) ''graph_node_partition_mismatch'' @
         concat (map (edge_errors node_ids parts (map link_pair (fr_network_links rp)) training)
           (ca_graph_edges c)) @
         (if training
          then training_graph_errors (pp_approved_execution_mode plan) (ca_partitions c) (ca_graph_edges c)
          else []))"

definition cycle_errors :: "nat \<Rightarrow> PartitionCandidate \<Rightarrow> (exn, string list) result" where
  "cycle_errors room c =
     (case has_cycle room (adjacency_of (map gn_partition_id (ca_graph_nodes c)) (ca_graph_edges c)) of
        None \<Rightarrow> Inl (OtherError ''maximum recursion depth exceeded'')
      | Some b \<Rightarrow> Inr (err_if b ''execution_graph_cycle''))"

section \<open>The whole check\<close>

definition constraint_errors :: "PartitionConstraints \<Rightarrow> PartitionCandidate \<Rightarrow> string list" where
  "constraint_errors k c =
     err_if (case pc_max_end_to_end_latency_ms k of None \<Rightarrow> False
        | Some limit \<Rightarrow> flt limit (ca_estimated_total_latency_ms c)) ''latency_slo_exceeded'' @
     err_if (case pc_max_transfer_bytes k of None \<Rightarrow> False
        | Some limit \<Rightarrow> limit < ca_total_transfer_bytes c) ''max_transfer_bytes_exceeded''"

definition validate_legacy ::
  "nat \<Rightarrow> FederatedRoundPlan \<Rightarrow> PartitionExecutionPlan \<Rightarrow> (exn, PartitionValidationResult) result" where
  "validate_legacy room rp plan =
     (case pp_selected_candidate plan of
        None \<Rightarrow> Inr (validation_result (identity_errors rp plan @ [''selected_candidate_required'']))
      | Some c \<Rightarrow>
          rbind (partitions_errors rp (ca_partitions c)) (\<lambda>partition_es.
          rbind (cycle_errors room c) (\<lambda>cycle_es.
          Inr (validation_result (identity_errors rp plan @ coverage_errors rp plan c @ partition_es @
            graph_errors rp plan c @ cycle_es @ constraint_errors (fr_constraints rp) c)))))"

section \<open>Inference plans\<close>

definition inference_forward_edge_types :: "string list" where
  "inference_forward_edge_types = [''forward'', ''pipeline'', ''cache_transfer'']"

definition has_inference_forward_chain :: "PartitionCandidate \<Rightarrow> bool" where
  "has_inference_forward_chain c =
     list_all (\<lambda>(s, t). list_ex (\<lambda>e. ge_source_partition e = lp_partition_id s \<and>
         ge_target_partition e = lp_partition_id t \<and>
         ge_edge_type e \<in> set inference_forward_edge_types) (ca_graph_edges c))
       (consecutive (ca_partitions c))"

definition inference_graph_errors :: "PartitionExecutionPlan \<Rightarrow> string list" where
  "inference_graph_errors plan =
     (case pp_selected_candidate plan of
        None \<Rightarrow> []
      | Some c \<Rightarrow>
          err_if (list_ex (\<lambda>e. ge_edge_type e \<notin> set inference_forward_edge_types) (ca_graph_edges c))
            ''inference_graph_forward_contract_mismatch'' @
          err_if (\<not> has_inference_forward_chain c) ''inference_graph_forward_path_missing'')"

definition snapshot_availability_feasibility ::
  "FederatedRoundPlan \<Rightarrow> PartitionExecutionPlan \<Rightarrow> pyfloat option" where
  "snapshot_availability_feasibility rp plan =
     (case pp_selected_candidate plan of
        None \<Rightarrow> None
      | Some c \<Rightarrow>
          Some (if list_ex (\<lambda>p. lp_device_id p \<notin> set (map rd_device_id (fr_devices rp)) \<or>
                    lp_device_id p \<notin> set (fr_participants rp)) (ca_partitions c) then FFin 0
                else if set (map (\<lambda>n. (gn_partition_id n, gn_device_id n)) (ca_graph_nodes c)) \<noteq>
                    set (map (\<lambda>p. (lp_partition_id p, lp_device_id p)) (ca_partitions c)) \<or>
                    \<not> has_inference_forward_chain c then FFin 0
                else if list_ex (\<lambda>(s, t). lp_device_id s \<noteq> lp_device_id t \<and>
                    (lp_device_id s, lp_device_id t) \<notin> set (map link_pair (fr_network_links rp)))
                    (consecutive (ca_partitions c)) then FFin 0
                else FFin 1))"

section \<open>Facts about the pieces\<close>

lemma dom_foldl_dict:
  "dom (dict_get (foldl (\<lambda>d (k, v). dict_set k v d) d kvs)) = dom (dict_get d) \<union> fst ` set kvs"
  by (induction kvs arbitrary: d) (auto simp: dom_def)

lemma keys_dict_of [simp]: "fst ` set (dict_of kvs) = fst ` set kvs"
  using dom_foldl_dict[of "[]" kvs] by (simp add: dict_of_def dom_map_of_conv_image_fst)

lemma length_dict_of: "length (dict_of kvs) = length kvs \<longleftrightarrow> distinct (map fst kvs)"
proof -
  have "length (dict_of kvs) = card (set (map fst (dict_of kvs)))"
    using dict_ok_dict_of[of kvs] by (metis distinct_card length_map)
  then have "length (dict_of kvs) = card (set (map fst kvs))" by simp
  then show ?thesis
    by (metis card_distinct distinct_card length_map)
qed

lemma partitions_by_id_length [simp]:
  "length (partitions_by_id ps) = length ps \<longleftrightarrow> distinct (map lp_partition_id ps)"
  using length_dict_of[of "map (\<lambda>p. (lp_partition_id p, p)) ps"]
  by (simp add: partitions_by_id_def comp_def)

lemma lookup_named:
  assumes "distinct (map f xs)" and "x \<in> set xs"
  shows "dict_get (dict_of (map (\<lambda>x. (f x, x)) xs)) (f x) = Some x"
  using assms by (simp add: dict_of_distinct comp_def map_of_eq_Some_iff)

lemma named_keys [simp]: "fst ` set (dict_of (map (\<lambda>x. (f x, x)) xs)) = f ` set xs"
  by (simp add: image_image)

text \<open>The edges of the adjacency are the edges between known nodes.\<close>

lemma targets_set [simp]: "targets (dict_set k ts adj) n = (if n = k then ts else targets adj n)"
  by (simp add: targets_def)

lemma edge_rel_add:
  "edge_rel (add_edge ids adj e) =
     edge_rel adj \<union> (if known_edge ids e then {(ge_source_partition e, ge_target_partition e)} else {})"
  by (auto simp: edge_rel_def add_edge_def split: if_splits)

lemma edge_rel_adjacency:
  "edge_rel (adjacency_of ids es) =
     {(ge_source_partition e, ge_target_partition e) | e. e \<in> set es \<and> known_edge ids e}"
proof -
  have "targets (map (\<lambda>n. (n, [])) xs) a = []" for xs a
    by (induction xs) (auto simp: targets_def)
  then have start: "edge_rel (map (\<lambda>n. (n, [])) (first_occurrences ids)) = {}"
    by (simp add: edge_rel_def)
  have "edge_rel (foldl (add_edge ids) adj es) = edge_rel adj \<union>
      {(ge_source_partition e, ge_target_partition e) | e. e \<in> set es \<and> known_edge ids e}" for adj
    by (induction es arbitrary: adj) (auto simp: edge_rel_add)
  with start show ?thesis by (simp add: adjacency_of_def)
qed

lemma update_length: "k \<in> fst ` set d \<Longrightarrow> length (dict_set k v d) = length d"
  by (induction d) auto

lemma add_edge_keys: "set (dict_keys (add_edge ids adj e)) = set (dict_keys adj) \<union>
    (if known_edge ids e then {ge_source_partition e} else {})"
  using dom_foldl_dict[of adj "[(ge_source_partition e, undefined)]"]
  by (auto simp: add_edge_def simp flip: dom_map_of_conv_image_fst)

lemma adjacency_length: "length (adjacency_of ids es) = card (set ids)"
proof -
  have "length (foldl (add_edge ids) adj es) = length adj"
    if "set (dict_keys adj) = set ids" for adj
    using that
  proof (induction es arbitrary: adj)
    case (Cons e es)
    have "set (dict_keys (add_edge ids adj e)) = set ids"
      using add_edge_keys[of ids adj e] Cons.prems by (auto simp: known_edge_def)
    moreover have "length (add_edge ids adj e) = length adj"
      using Cons.prems by (auto simp: add_edge_def known_edge_def intro: update_length)
    ultimately show ?case using Cons.IH by simp
  qed simp
  from this[of "map (\<lambda>n. (n, [])) (first_occurrences ids)"]
  have "length (adjacency_of ids es) = length (first_occurrences ids)"
    by (simp add: adjacency_of_def image_image)
  then show ?thesis
    using distinct_card[OF distinct_first_occurrences[of ids]] by simp
qed

text \<open>With room for the nodes of the graph the cycle check is the acyclicity of its edges.\<close>

definition graph_edge_rel :: "PartitionCandidate \<Rightarrow> (string \<times> string) set" where
  "graph_edge_rel c =
     {(ge_source_partition e, ge_target_partition e) | e.
        e \<in> set (ca_graph_edges c) \<and> known_edge (map gn_partition_id (ca_graph_nodes c)) e}"

lemma cycle_errors_decides:
  assumes "length (ca_graph_nodes c) < room"
  shows "cycle_errors room c = Inr (err_if (\<not> acyclic (graph_edge_rel c)) ''execution_graph_cycle'')"
proof -
  let ?ids = "map gn_partition_id (ca_graph_nodes c)"
  have "length (adjacency_of ?ids (ca_graph_edges c)) < room"
    using assms card_length[of ?ids] by (simp add: adjacency_length)
  from has_cycle_acyclic[OF this] show ?thesis
    by (simp add: cycle_errors_def edge_rel_adjacency graph_edge_rel_def)
qed

section \<open>What a valid plan is\<close>

definition required_memory :: "ModelLayer list \<Rightarrow> int" where
  "required_memory ls = sum_list (map ml_parameter_bytes ls) +
     sum_list (map ml_working_memory_bytes ls) + Max (set (map ml_activation_bytes ls))"

text \<open>A partition runs known layers on the device of a participant, within the memory allowed there.\<close>

definition placed :: "FederatedRoundPlan \<Rightarrow> LogicalPartition \<Rightarrow> bool" where
  "placed rp p \<longleftrightarrow>
     (\<exists>d \<in> set (fr_devices rp). rd_device_id d = lp_device_id p \<and>
        lp_device_id p \<in> set (fr_participants rp) \<and>
        (\<exists>ls. ls \<noteq> [] \<and> set ls \<subseteq> set (fr_layers rp) \<and> map ml_name ls = lp_layer_names p \<and>
          lp_memory_demand_bytes p = required_memory ls) \<and>
        (\<exists>allowed. allowed_memory d (fr_constraints rp) = Inr allowed \<and>
          lp_memory_demand_bytes p \<le> allowed))"

text \<open>An edge joins two nodes of the graph whose devices are the same or have the link it needs.\<close>

definition linked :: "FederatedRoundPlan \<Rightarrow> PartitionExecutionPlan \<Rightarrow> PartitionCandidate \<Rightarrow> ExecutionGraphEdge \<Rightarrow> bool" where
  "linked rp plan c e \<longleftrightarrow>
     (let training = (pp_plan_type plan = ''training'');
          parts = graph_node_partitions (ca_partitions c) training (pp_approved_execution_mode plan)
      in known_edge (map gn_partition_id (ca_graph_nodes c)) e \<and>
         (\<exists>s t. dict_get parts (ge_source_partition e) = Some s \<and>
            dict_get parts (ge_target_partition e) = Some t \<and>
            has_required_network_link (lp_device_id s) (lp_device_id t) (ge_edge_type e)
              (map link_pair (fr_network_links rp)) training))"

definition plan_sound :: "FederatedRoundPlan \<Rightarrow> PartitionExecutionPlan \<Rightarrow> PartitionCandidate \<Rightarrow> bool" where
  "plan_sound rp plan c \<longleftrightarrow>
     pp_job_id plan = fr_job_id rp \<and> pp_model_id plan = fr_model_id rp \<and>
     pp_approved_execution_mode plan = am_name (fr_execution_mode rp) \<and> pp_valid plan \<and> ca_valid c \<and>
     (full_model_replicas rp plan c \<or>
      concat (map lp_layer_names (ca_partitions c)) = map ml_name (fr_layers rp)) \<and>
     distinct (map lp_partition_id (ca_partitions c)) \<and> list_all (placed rp) (ca_partitions c) \<and>
     set (map (\<lambda>n. (gn_partition_id n, gn_device_id n)) (ca_graph_nodes c)) =
       set (map (\<lambda>(i, p). (i, lp_device_id p)) (graph_node_partitions (ca_partitions c)
         (pp_plan_type plan = ''training'') (pp_approved_execution_mode plan))) \<and>
     list_all (linked rp plan c) (ca_graph_edges c) \<and>
     (pp_plan_type plan = ''training'' \<longrightarrow>
        training_graph_errors (pp_approved_execution_mode plan) (ca_partitions c) (ca_graph_edges c) = []) \<and>
     acyclic (graph_edge_rel c) \<and>
     pred_option (\<lambda>limit. \<not> flt limit (ca_estimated_total_latency_ms c))
       (pc_max_end_to_end_latency_ms (fr_constraints rp)) \<and>
     pred_option (\<lambda>limit. ca_total_transfer_bytes c \<le> limit) (pc_max_transfer_bytes (fr_constraints rp))"

lemma device_lookup:
  "round_plan_ok rp \<Longrightarrow>
   dict_get (devices_by_id rp) i = Some d \<longleftrightarrow> d \<in> set (fr_devices rp) \<and> rd_device_id d = i"
  by (auto simp: round_plan_ok_def topology_ok_def devices_by_id_def dict_of_distinct comp_def
      map_of_eq_Some_iff)

lemma layer_lookup:
  "round_plan_ok rp \<Longrightarrow>
   dict_get (layers_by_name rp) n = Some l \<longleftrightarrow> l \<in> set (fr_layers rp) \<and> ml_name l = n"
  by (auto simp: round_plan_ok_def topology_ok_def layers_by_name_def dict_of_distinct comp_def
      map_of_eq_Some_iff)

lemma known_layers:
  assumes "round_plan_ok rp" and "\<forall>n \<in> set ns. n \<in> ml_name ` set (fr_layers rp)"
  shows "set (map (the \<circ> dict_get (layers_by_name rp)) ns) \<subseteq> set (fr_layers rp) \<and>
    map ml_name (map (the \<circ> dict_get (layers_by_name rp)) ns) = ns"
proof -
  have "the (dict_get (layers_by_name rp) n) \<in> set (fr_layers rp) \<and>
      ml_name (the (dict_get (layers_by_name rp) n)) = n" if "n \<in> set ns" for n
  proof -
    from assms(2) that obtain l where "l \<in> set (fr_layers rp)" "n = ml_name l" by auto
    moreover from this layer_lookup[OF assms(1), of n l]
    have "dict_get (layers_by_name rp) n = Some l" by simp
    ultimately show ?thesis by simp
  qed
  then show ?thesis by (auto simp: comp_def intro!: map_idI)
qed

lemma layers_of_names:
  assumes "round_plan_ok rp" and "set ls \<subseteq> set (fr_layers rp)"
  shows "map (the \<circ> dict_get (layers_by_name rp)) (map ml_name ls) = ls"
proof -
  have "dict_get (layers_by_name rp) (ml_name l) = Some l" if "l \<in> set ls" for l
    using layer_lookup[OF assms(1)] assms(2) that by auto
  then show ?thesis by (simp add: map_idI)
qed

lemma device_keys: "fst ` set (devices_by_id rp) = rd_device_id ` set (fr_devices rp)"
  by (simp add: devices_by_id_def image_image)

lemma layer_keys: "fst ` set (layers_by_name rp) = ml_name ` set (fr_layers rp)"
  by (simp add: layers_by_name_def image_image)

lemma expected_memory_Inr [simp]: "expected_memory ls = Inr m \<longleftrightarrow> ls \<noteq> [] \<and> m = required_memory ls"
  by (auto simp: expected_memory_def required_memory_def)

lemma partition_errors_placed:
  assumes rp: "round_plan_ok rp"
  shows "partition_errors rp p = Inr [] \<longleftrightarrow> placed rp p"
proof
  assume "partition_errors rp p = Inr []"
  then have p: "lp_device_id p \<in> set (fr_participants rp)"
    "lp_device_id p \<in> rd_device_id ` set (fr_devices rp)"
    "\<forall>n \<in> set (lp_layer_names p). n \<in> ml_name ` set (fr_layers rp)"
    "memory_errors rp p = Inr []" "lp_layer_names p \<noteq> []"
    by (auto simp: partition_errors_def device_keys layer_keys split: if_splits)
  from p(2) obtain d where d: "d \<in> set (fr_devices rp)" "rd_device_id d = lp_device_id p" by auto
  then have "dict_get (devices_by_id rp) (lp_device_id p) = Some d"
    using device_lookup[OF rp] by blast
  with p(4) obtain allowed where
    "lp_memory_demand_bytes p = required_memory (map (the \<circ> dict_get (layers_by_name rp)) (lp_layer_names p))"
    "allowed_memory d (fr_constraints rp) = Inr allowed" "lp_memory_demand_bytes p \<le> allowed"
    by (auto simp: memory_errors_def)
  with d p known_layers[OF rp p(3)] show "placed rp p"
    unfolding placed_def by (metis list.map_disc_iff)
next
  assume "placed rp p"
  then obtain d ls allowed where d: "d \<in> set (fr_devices rp)" "rd_device_id d = lp_device_id p"
    "lp_device_id p \<in> set (fr_participants rp)"
    and ls: "ls \<noteq> []" "set ls \<subseteq> set (fr_layers rp)" "lp_layer_names p = map ml_name ls"
      "lp_memory_demand_bytes p = required_memory ls"
    and allowed: "allowed_memory d (fr_constraints rp) = Inr allowed" "lp_memory_demand_bytes p \<le> allowed"
    unfolding placed_def by metis
  from d have "dict_get (devices_by_id rp) (lp_device_id p) = Some d"
    using device_lookup[OF rp] by blast
  moreover note layers_of_names[OF rp ls(2)]
  ultimately have "memory_errors rp p = Inr []"
    using ls allowed by (simp add: memory_errors_def)
  moreover have "lp_device_id p \<in> rd_device_id ` set (fr_devices rp)" using d by force
  moreover have "\<forall>n \<in> set (lp_layer_names p). n \<in> ml_name ` set (fr_layers rp)" using ls by auto
  ultimately show "partition_errors rp p = Inr []"
    using d ls by (auto simp: partition_errors_def device_keys layer_keys)
qed

lemma rmap_all_Nil: "(\<exists>ess. rmap f xs = Inr ess \<and> concat ess = []) \<longleftrightarrow> list_all (\<lambda>x. f x = Inr []) xs"
  by (induction xs) auto

lemma partitions_errors_placed:
  assumes "round_plan_ok rp"
  shows "partitions_errors rp ps = Inr [] \<longleftrightarrow>
    distinct (map lp_partition_id ps) \<and> list_all (placed rp) ps"
  using rmap_all_Nil[of "partition_errors rp" ps]
  by (auto simp: partitions_errors_def partition_errors_placed[OF assms] cong: conj_cong)

lemma edge_errors_linked:
  "edge_errors (map gn_partition_id (ca_graph_nodes c))
     (graph_node_partitions (ca_partitions c) (pp_plan_type plan = ''training'')
       (pp_approved_execution_mode plan))
     (map link_pair (fr_network_links rp)) (pp_plan_type plan = ''training'') e = []
   \<longleftrightarrow> linked rp plan c e"
  by (auto simp: edge_errors_def linked_def Let_def split: option.splits)

lemma graph_errors_Nil:
  "graph_errors rp plan c = [] \<longleftrightarrow>
     set (map (\<lambda>n. (gn_partition_id n, gn_device_id n)) (ca_graph_nodes c)) =
       set (map (\<lambda>(i, p). (i, lp_device_id p)) (graph_node_partitions (ca_partitions c)
         (pp_plan_type plan = ''training'') (pp_approved_execution_mode plan))) \<and>
     list_all (linked rp plan c) (ca_graph_edges c) \<and>
     (pp_plan_type plan = ''training'' \<longrightarrow>
        training_graph_errors (pp_approved_execution_mode plan) (ca_partitions c) (ca_graph_edges c) = [])"
  unfolding graph_errors_def Let_def append_is_Nil_conv err_if_Nil concat_eq_Nil_conv set_map ball_simps
    edge_errors_linked list_all_iff
  by simp

lemma identity_errors_Nil:
  "round_plan_ok rp \<Longrightarrow> identity_errors rp plan = [] \<longleftrightarrow>
     pp_job_id plan = fr_job_id rp \<and> pp_model_id plan = fr_model_id rp \<and>
     pp_approved_execution_mode plan = am_name (fr_execution_mode rp)"
  by (auto simp: identity_errors_def round_plan_ok_def approved_mode_ok_def text_ok_def)

lemma coverage_errors_Nil:
  "coverage_errors rp plan c = [] \<longleftrightarrow> pp_valid plan \<and> ca_valid c \<and>
     (full_model_replicas rp plan c \<or>
      concat (map lp_layer_names (ca_partitions c)) = map ml_name (fr_layers rp))"
  by (auto simp: coverage_errors_def)

lemma constraint_errors_Nil:
  "constraint_errors k c = [] \<longleftrightarrow>
     pred_option (\<lambda>limit. \<not> flt limit (ca_estimated_total_latency_ms c)) (pc_max_end_to_end_latency_ms k) \<and>
     pred_option (\<lambda>limit. ca_total_transfer_bytes c \<le> limit) (pc_max_transfer_bytes k)"
  by (auto simp: constraint_errors_def not_less split: option.split)

lemma validation_result_valid [simp]: "pv_valid (validation_result es) \<longleftrightarrow> es = []"
  by (simp add: validation_result_def)

text \<open>A plan that was found valid is sound, however little room the interpreter left.\<close>

lemma validate_legacy_sound:
  assumes rp: "round_plan_ok rp" and run: "validate_legacy room rp plan = Inr r" and valid: "pv_valid r"
  shows "\<exists>c. pp_selected_candidate plan = Some c \<and> plan_sound rp plan c"
proof (cases "pp_selected_candidate plan")
  case None
  with run valid show ?thesis by (auto simp: validate_legacy_def)
next
  case (Some c)
  with run valid have es: "identity_errors rp plan = []" "coverage_errors rp plan c = []"
      "partitions_errors rp (ca_partitions c) = Inr []" "graph_errors rp plan c = []"
      "constraint_errors (fr_constraints rp) c = []" and cyc: "cycle_errors room c = Inr []"
    by (auto simp: validate_legacy_def)
  from cyc has_cycle_right have "acyclic (graph_edge_rel c)"
    by (fastforce simp: cycle_errors_def graph_edge_rel_def edge_rel_adjacency[symmetric] split: option.splits)
  with es Some show ?thesis
    unfolding identity_errors_Nil[OF rp] coverage_errors_Nil partitions_errors_placed[OF rp]
      graph_errors_Nil constraint_errors_Nil plan_sound_def Some option.inject
    by (auto simp only: simp_thms)
qed

lemma validate_legacy_accepts:
  assumes rp: "round_plan_ok rp"
    and room: "\<forall>c. pp_selected_candidate plan = Some c \<longrightarrow> length (ca_graph_nodes c) < room"
  shows "(\<exists>r. validate_legacy room rp plan = Inr r \<and> pv_valid r) \<longleftrightarrow>
    (\<exists>c. pp_selected_candidate plan = Some c \<and> plan_sound rp plan c)"
proof (cases "pp_selected_candidate plan")
  case None
  then show ?thesis by (auto simp: validate_legacy_def)
next
  case (Some c)
  with room cycle_errors_decides have cyc:
    "cycle_errors room c = Inr (err_if (\<not> acyclic (graph_edge_rel c)) ''execution_graph_cycle'')" by blast
  have "(\<exists>r. validate_legacy room rp plan = Inr r \<and> pv_valid r) \<longleftrightarrow>
      identity_errors rp plan = [] \<and> coverage_errors rp plan c = [] \<and>
      partitions_errors rp (ca_partitions c) = Inr [] \<and> graph_errors rp plan c = [] \<and>
      acyclic (graph_edge_rel c) \<and> constraint_errors (fr_constraints rp) c = []"
    using Some cyc by (auto simp: validate_legacy_def)
  then show ?thesis
    unfolding identity_errors_Nil[OF rp] coverage_errors_Nil partitions_errors_placed[OF rp]
      graph_errors_Nil constraint_errors_Nil plan_sound_def Some option.inject
    by (auto simp only: simp_thms)
qed

section \<open>Demonstration data\<close>

definition demo_layers :: "ModelLayer list" where
  "demo_layers =
     [\<lparr>ml_name = ''conv'', ml_compute_units = FFin 2, ml_parameter_bytes = 100,
       ml_activation_bytes = 10, ml_working_memory_bytes = 5\<rparr>,
      \<lparr>ml_name = ''head'', ml_compute_units = FFin 1, ml_parameter_bytes = 50,
       ml_activation_bytes = 4, ml_working_memory_bytes = 3\<rparr>]"

definition demo_device :: "string \<Rightarrow> ResourceDevice" where
  "demo_device i = \<lparr>rd_device_id = i, rd_device_type = ''edge'', rd_compute_units_per_second = FFin 1,
     rd_memory_capacity_bytes = 120, rd_memory_available_bytes = 120\<rparr>"

definition demo_round_plan :: FederatedRoundPlan where
  "demo_round_plan =
     \<lparr>fr_job_id = ''job-1'', fr_model_id = ''m1'',
      fr_execution_mode = \<lparr>am_name = ''edge'', am_approved = True, am_approved_by = ''ops'',
        am_approval_ref = ''r1''\<rparr>,
      fr_layers = demo_layers, fr_participants = [''edge-a'', ''edge-b''],
      fr_devices = [demo_device ''edge-a'', demo_device ''edge-b''],
      fr_network_links = [\<lparr>nl_source_device = ''edge-a'', nl_target_device = ''edge-b'',
        nl_bandwidth_bytes_per_second = FFin 1, nl_latency_ms = FFin 0\<rparr>],
      fr_constraints = \<lparr>pc_max_end_to_end_latency_ms = None, pc_max_transfer_bytes = Some 64,
        pc_minimum_memory_headroom_ratio = FFin 0\<rparr>\<rparr>"

text \<open>The plan that puts the first layer on \<open>edge-a\<close> and the layers \<open>names\<close> on \<open>device\<close>.\<close>

definition demo_split :: "string \<Rightarrow> string list \<Rightarrow> int \<Rightarrow> PartitionExecutionPlan" where
  "demo_split device names demand =
     (safe_failure ''plan-1'' ''job-1'' ''m1'' ''edge'' ''p1'' [] [] None)
       \<lparr>pp_valid := True,
        pp_selected_candidate := Some (demo_candidate
          \<lparr>ca_partitions :=
             [\<lparr>lp_partition_id = ''p0'', lp_device_id = ''edge-a'', lp_layer_names = [''conv''],
               lp_compute_units = FFin 2, lp_memory_demand_bytes = 115\<rparr>,
              \<lparr>lp_partition_id = ''p1'', lp_device_id = device, lp_layer_names = names,
               lp_compute_units = FFin 1, lp_memory_demand_bytes = demand\<rparr>],
           ca_graph_nodes := [\<lparr>gn_partition_id = ''p0'', gn_device_id = ''edge-a''\<rparr>,
              \<lparr>gn_partition_id = ''p1'', gn_device_id = device\<rparr>],
           ca_graph_edges := [\<lparr>ge_source_partition = ''p0'', ge_target_partition = ''p1'',
              ge_transfer_bytes = 10, ge_estimated_transfer_ms = FFin 1, ge_edge_type = ''forward''\<rparr>]\<rparr>)\<rparr>"

lemmas demo_defs = demo_round_plan_def demo_layers_def demo_device_def demo_split_def
  demo_candidate_def safe_failure_def

lemma micro_small: "1 \<le> x \<Longrightarrow> number_ok micro (FFin x)"
  using round64_unit[of "1 / 1000000"] by (auto simp: number_ok_def micro_def)

lemma demo_texts [simp]: "strip ''m1'' = ''m1''" "strip ''ops'' = ''ops''" "strip ''r1'' = ''r1''"
  "strip ''head'' = ''head''" "strip ''edge-b'' = ''edge-b''"
  by code_simp+

lemma demo_round_plan_ok: "round_plan_ok demo_round_plan"
  by (simp add: demo_defs round_plan_ok_def text_ok_def approved_mode_ok_def layer_ok_def device_ok_def
      link_ok_def constraints_ok_def topology_ok_def micro_small link_pair_def)
    (simp add: number_ok_def)

lemma demo_allowed: "allowed_memory (demo_device i) (fr_constraints demo_round_plan) = Inr 120"
proof -
  have "round64 120 = FFin 120" using round64_int[of 120] by simp
  then show ?thesis
    by (simp add: allowed_memory_def demo_device_def demo_round_plan_def float_of_int_def fsub_def truncate_rat_def)
qed

lemma demo_devices: "dict_get (devices_by_id demo_round_plan) ''edge-a'' = Some (demo_device ''edge-a'')"
  "dict_get (devices_by_id demo_round_plan) ''edge-b'' = Some (demo_device ''edge-b'')"
  "fst ` set (devices_by_id demo_round_plan) = {''edge-a'', ''edge-b''}"
  by (simp_all add: device_lookup[OF demo_round_plan_ok] device_keys) 
    (simp_all add: demo_round_plan_def demo_device_def)


lemma demo_layer_lookup: "set (fr_layers demo_round_plan) = {demo_layers ! 0, demo_layers ! 1}"
  by (simp add: demo_round_plan_def demo_layers_def)

definition demo_split_candidate :: "string \<Rightarrow> PartitionCandidate" where
  "demo_split_candidate device = the (pp_selected_candidate (demo_split device [''head''] 57))"

lemma demo_placed:
  assumes "device \<in> {''edge-a'', ''edge-b''}"
  shows "list_all (placed demo_round_plan) (ca_partitions (demo_split_candidate device))"
proof -
  have dev: "demo_device d \<in> set (fr_devices demo_round_plan) \<and> d \<in> set (fr_participants demo_round_plan)"
    if "d \<in> {''edge-a'', ''edge-b''}" for d
    using that by (auto simp: demo_round_plan_def)
  have placed: "placed demo_round_plan p"
    if "lp_device_id p \<in> {''edge-a'', ''edge-b''}" "l \<in> {demo_layers ! 0, demo_layers ! 1}"
      "lp_layer_names p = [ml_name l]" "lp_memory_demand_bytes p = required_memory [l]"
      "required_memory [l] \<le> 120" for p l
    unfolding placed_def
  proof (intro bexI conjI exI)
    show "map ml_name [l] = lp_layer_names p" using that by simp
    show "allowed_memory (demo_device (lp_device_id p)) (fr_constraints demo_round_plan) = Inr 120"
      by (rule demo_allowed)
  qed (use that dev[of "lp_device_id p"] in \<open>simp_all add: demo_layer_lookup demo_device_def[of "lp_device_id p"]\<close>)
  show ?thesis
    using assms placed[of "ca_partitions (demo_split_candidate device) ! 0" "demo_layers ! 0"]
      placed[of "ca_partitions (demo_split_candidate device) ! 1" "demo_layers ! 1"]
    by (simp add: demo_split_candidate_def demo_split_def safe_failure_def demo_layers_def required_memory_def)
qed

lemma demo_sound:
  assumes "device \<in> {''edge-a'', ''edge-b''}"
  shows "plan_sound demo_round_plan (demo_split device [''head''] 57) (demo_split_candidate device)"
proof -
  have "graph_edge_rel (demo_split_candidate device) = {(''p0'', ''p1'')}"
    by (auto simp: graph_edge_rel_def demo_split_candidate_def demo_split_def safe_failure_def known_edge_def)
  then have acyc: "acyclic (graph_edge_rel (demo_split_candidate device))"
    by (auto simp: acyclic_def trancl_insert)
  have links: "list_all (linked demo_round_plan (demo_split device [''head''] 57) (demo_split_candidate device))
      (ca_graph_edges (demo_split_candidate device))"
    using assms
    by (auto simp: linked_def demo_split_candidate_def demo_split_def safe_failure_def known_edge_def
        graph_node_partitions_def partitions_by_id_def dict_of_def has_required_network_link_def
        demo_round_plan_def link_pair_def)
  have cover: "concat (map lp_layer_names (ca_partitions (demo_split_candidate device))) =
      map ml_name (fr_layers demo_round_plan)"
    "distinct (map lp_partition_id (ca_partitions (demo_split_candidate device)))"
    by (simp_all add: demo_split_candidate_def demo_split_def safe_failure_def demo_round_plan_def demo_layers_def)
  show ?thesis
    unfolding plan_sound_def
  proof (intro conjI)
    show "full_model_replicas demo_round_plan (demo_split device [''head''] 57) (demo_split_candidate device) \<or>
      concat (map lp_layer_names (ca_partitions (demo_split_candidate device))) =
        map ml_name (fr_layers demo_round_plan)" using cover by blast
  qed (use acyc links cover demo_placed[OF assms] in
      \<open>simp_all add: demo_split_candidate_def demo_split_def safe_failure_def demo_round_plan_def
        demo_candidate_def graph_node_partitions_def partitions_by_id_def dict_of_def\<close>)
qed

section \<open>Properties\<close>

lemma concat_parts_disjoint:
  assumes "distinct (concat xss)" and "i < j" and "j < length xss" and "x \<in> set (xss ! i)"
  shows "x \<notin> set (xss ! j)"
proof -
  have "concat xss = concat (take j xss) @ concat (drop j xss)"
    by (metis append_take_drop_id concat_append)
  with assms(1) have disj: "set (concat (take j xss)) \<inter> set (concat (drop j xss)) = {}"
    by (metis distinct_append)
  have "xss ! i \<in> set (take j xss)" using assms(2,3) by (metis in_set_conv_nth length_take min.absorb4 nth_take)
  with assms(4) have "x \<in> set (concat (take j xss))" by auto
  moreover have "xss ! j \<in> set (drop j xss)" using assms(3) by (metis Cons_nth_drop_Suc list.set_intros(1))
  ultimately show ?thesis using disj by auto
qed

lemma concat_unique_part:
  assumes "distinct (concat xss)" and "x \<in> set (concat xss)"
  shows "\<exists>!i. i < length xss \<and> x \<in> set (xss ! i)"
proof -
  from assms(2) obtain i where i: "i < length xss" "x \<in> set (xss ! i)"
    by (auto simp: in_set_conv_nth[of _ xss])
  have "j = i" if "j < length xss" "x \<in> set (xss ! j)" for j
    using concat_parts_disjoint[OF assms(1)] i that by (metis linorder_neqE_nat)
  with i show ?thesis by metis
qed

lemma partition_lookup:
  "distinct (map lp_partition_id ps) \<Longrightarrow>
   dict_get (partitions_by_id ps) i = Some p \<longleftrightarrow> p \<in> set ps \<and> lp_partition_id p = i"
  by (auto simp: partitions_by_id_def dict_of_distinct comp_def map_of_eq_Some_iff)

lemma allowed_memory_bound:
  assumes d: "device_ok d" and k: "constraints_ok k" and run: "allowed_memory d k = Inr m"
    and small: "rd_memory_available_bytes d \<le> 2 ^ 53"
  shows "m \<le> rd_memory_available_bytes d"
proof -
  let ?n = "rd_memory_available_bytes d"
  from d have n: "0 \<le> ?n" by (simp add: device_ok_def)
  from k obtain h where h: "pc_minimum_memory_headroom_ratio k = FFin h" "0 \<le> h" "h < 1"
    by (cases "pc_minimum_memory_headroom_ratio k") (auto simp: constraints_ok_def number_ok_def)
  from round64_unit[of "1 - h"] h obtain r where
    r: "fsub (FFin 1) (FFin h) = FFin r" "0 \<le> r" "r \<le> 1" by (auto simp: fsub_def)
  have "of_int ?n * r \<le> of_int ?n * 1" using n r by (intro mult_left_mono) simp_all
  with round64_at_most[of "of_int ?n * r" ?n] n r small obtain z where
    z: "round64 (of_int ?n * r) = FFin z" "0 \<le> z" "z \<le> of_int ?n" by auto
  from run z h r round64_int[OF n small] have "m = truncate_rat z"
    by (simp add: allowed_memory_def float_of_int_def)
  with truncate_le[OF z(2,3)] show ?thesis by simp
qed

text \<open>
  C36. The validator accepts exactly the sound plans: with room for the nodes of the graph on the
  stack, \<open>validate\<close> returns a valid result if and only if the plan has a selected candidate, matches
  the round plan's identity and approval, covers the layers in order (or holds full replicas in
  federated learning), places every partition on the device of a participant within the memory
  allowed there and with the demand the layers require, has the graph nodes of its partitions, only
  linked edges and no cycle, keeps the training graph contract and the job's limits.
\<close>

theorem validate_legacy_decides:
  assumes "round_plan_ok rp"
    and "\<forall>c. pp_selected_candidate plan = Some c \<longrightarrow> length (ca_graph_nodes c) < room"
  shows "(\<exists>r. validate_legacy room rp plan = Inr r \<and> pv_valid r) \<longleftrightarrow>
    (\<exists>c. pp_selected_candidate plan = Some c \<and> plan_sound rp plan c)"
  using assms by (rule validate_legacy_accepts)

lemma demo_split_room:
  "\<forall>c. pp_selected_candidate (demo_split d ns m) = Some c \<longrightarrow> length (ca_graph_nodes c) < 3"
  by (simp add: demo_split_def)

lemma demo_split_selected:
  "pp_selected_candidate (demo_split d [''head''] 57) = Some (demo_split_candidate d)"
  by (simp add: demo_split_candidate_def demo_split_def)

theorem validate_legacy_decides_witness:
  "\<exists>r. validate_legacy 3 demo_round_plan (demo_split ''edge-b'' [''head''] 57) = Inr r \<and> pv_valid r"
  using validate_legacy_decides[OF demo_round_plan_ok demo_split_room] demo_sound[of "''edge-b''"]
    demo_split_selected by fastforce

lemma graph_node_partitions_members:
  "dict_get (graph_node_partitions ps training mode) i = Some p \<Longrightarrow> p \<in> set ps"
proof -
  assume "dict_get (graph_node_partitions ps training mode) i = Some p"
  then have "(i, p) \<in> set (graph_node_partitions ps training mode)" by (rule map_of_SomeD)
  then show "p \<in> set ps"
    using set_dict_of[of "map (\<lambda>p. (lp_partition_id p, p)) ps"] set_dict_set[of "''aggregation''" "hd ps"]
      set_dict_of[of "concat (map (\<lambda>p. [(lp_partition_id p @ '':forward'', p), (lp_partition_id p @ '':backward'', p)]) ps)"]
    by (cases ps) (fastforce simp: graph_node_partitions_def partitions_by_id_def split: if_splits)+
qed

text \<open>An edge joins two nodes of the graph on devices of partitions, over a link that exists.\<close>

definition edge_runs :: "FederatedRoundPlan \<Rightarrow> PartitionExecutionPlan \<Rightarrow> PartitionCandidate \<Rightarrow> ExecutionGraphEdge \<Rightarrow> bool" where
  "edge_runs rp plan c e \<longleftrightarrow>
     (\<exists>m n. m \<in> set (ca_graph_nodes c) \<and> n \<in> set (ca_graph_nodes c) \<and>
        gn_partition_id m = ge_source_partition e \<and> gn_partition_id n = ge_target_partition e \<and>
        {gn_device_id m, gn_device_id n} \<subseteq> lp_device_id ` set (ca_partitions c) \<and>
        (gn_device_id m = gn_device_id n \<or>
         (gn_device_id m, gn_device_id n) \<in> link_pair ` set (fr_network_links rp) \<or>
         (pp_plan_type plan = ''training'' \<and> ge_edge_type e = ''backward'' \<and>
          (gn_device_id n, gn_device_id m) \<in> link_pair ` set (fr_network_links rp))))"

lemma sound_edge_runs:
  assumes "plan_sound rp plan c" and e: "e \<in> set (ca_graph_edges c)"
  shows "edge_runs rp plan c e"
proof -
  let ?D = "graph_node_partitions (ca_partitions c) (pp_plan_type plan = ''training'') (pp_approved_execution_mode plan)"
  from assms have "linked rp plan c e"
    and nodes: "set (map (\<lambda>n. (gn_partition_id n, gn_device_id n)) (ca_graph_nodes c)) =
      set (map (\<lambda>(i, p). (i, lp_device_id p)) ?D)"
    by (simp_all add: plan_sound_def list_all_iff)
  then obtain p q where look: "dict_get ?D (ge_source_partition e) = Some p" "dict_get ?D (ge_target_partition e) = Some q"
    and link: "has_required_network_link (lp_device_id p) (lp_device_id q) (ge_edge_type e)
      (map link_pair (fr_network_links rp)) (pp_plan_type plan = ''training'')"
    unfolding linked_def Let_def by blast
  have node: "\<exists>m. m \<in> set (ca_graph_nodes c) \<and> gn_partition_id m = i \<and> gn_device_id m = lp_device_id p"
    if "dict_get ?D i = Some p" for i p
  proof -
    from map_of_SomeD[OF that] have "(i, lp_device_id p) \<in> set (map (\<lambda>(i, p). (i, lp_device_id p)) ?D)" by force
    then show ?thesis unfolding nodes[symmetric] by auto
  qed
  from node[OF look(1)] node[OF look(2)] obtain m n where
    "m \<in> set (ca_graph_nodes c)" "gn_partition_id m = ge_source_partition e" "gn_device_id m = lp_device_id p"
    "n \<in> set (ca_graph_nodes c)" "gn_partition_id n = ge_target_partition e" "gn_device_id n = lp_device_id q" by blast
  moreover from look[THEN graph_node_partitions_members] have "p \<in> set (ca_partitions c)" "q \<in> set (ca_partitions c)" .
  ultimately show ?thesis
    using link unfolding edge_runs_def has_required_network_link_def
    by (intro exI[of _ m] exI[of _ n]) auto
qed

lemma layer_part:
  assumes rp: "round_plan_ok rp" and names: "concat (map lp_layer_names ps) = map ml_name (fr_layers rp)"
    and l: "l \<in> set (fr_layers rp)"
  shows "\<exists>!i. i < length ps \<and> ml_name l \<in> set (lp_layer_names (ps ! i))"
proof -
  have "distinct (concat (map lp_layer_names ps))"
    using rp by (simp add: names round_plan_ok_def topology_ok_def)
  moreover from l have "ml_name l \<in> set (concat (map lp_layer_names ps))" by (simp add: names)
  ultimately show ?thesis using concat_unique_part by (metis length_map nth_map)
qed

lemma placed_device:
  assumes rp: "round_plan_ok rp" and placed: "list_all (placed rp) ps" and p: "p \<in> set ps"
  shows "\<exists>d \<in> set (fr_devices rp). rd_device_id d = lp_device_id p \<and> rd_device_id d \<in> set (fr_participants rp) \<and>
    (rd_memory_available_bytes d \<le> 2 ^ 53 \<longrightarrow> lp_memory_demand_bytes p \<le> rd_memory_available_bytes d)"
proof -
  from placed p have "placed rp p" by (simp add: list_all_iff)
  then obtain d m where d: "d \<in> set (fr_devices rp)" "rd_device_id d = lp_device_id p"
    "lp_device_id p \<in> set (fr_participants rp)" "allowed_memory d (fr_constraints rp) = Inr m"
    "lp_memory_demand_bytes p \<le> m" unfolding placed_def by metis
  from rp d(1) have "device_ok d" "constraints_ok (fr_constraints rp)"
    by (simp_all add: round_plan_ok_def list_all_iff)
  from allowed_memory_bound[OF this d(4)] d show ?thesis by force
qed


lemma demo_split_valid:
  "device \<in> {''edge-a'', ''edge-b''} \<Longrightarrow>
   \<exists>r. validate_legacy 3 demo_round_plan (demo_split device [''head''] 57) = Inr r \<and> pv_valid r"
  using validate_legacy_accepts[OF demo_round_plan_ok demo_split_room] demo_sound[of device]
    demo_split_selected[of device] by fast


section \<open>Two gaps\<close>

text \<open>
  An empty partition on a known device is not reported as \<open>empty_partition\<close>: the loop goes on to
  \<open>max()\<close> over no layers, and the \<open>ValueError\<close> leaves the validator.
\<close>

theorem empty_partition_escapes:
  assumes "round_plan_ok rp" and "pp_selected_candidate plan = Some c" and "p \<in> set (ca_partitions c)"
    and "lp_layer_names p = []" and "lp_device_id p \<in> set (fr_participants rp)"
  shows "isl (validate_legacy room rp plan)"
proof -
  have "lp_device_id p \<in> rd_device_id ` set (fr_devices rp)"
    using assms(1,5) by (auto simp: round_plan_ok_def topology_ok_def)
  then have "isl (partition_errors rp p)"
    using assms(4,5) by (simp add: partition_errors_def device_keys memory_errors_def expected_memory_def)
  then have "isl (rmap (partition_errors rp) (ca_partitions c))"
    using assms(3) rmap_Inr_all2[of "partition_errors rp" "ca_partitions c"]
    by (cases "rmap (partition_errors rp) (ca_partitions c)")
      (auto simp: list_all2_conv_all_nth in_set_conv_nth)
  then show ?thesis
    using assms(2) by (cases "rmap (partition_errors rp) (ca_partitions c)")
      (auto simp: validate_legacy_def partitions_errors_def)
qed

text \<open>
  The memory rule looks at one partition at a time. Two partitions may share a device, each within
  what the device has available, and together beyond it: 115 and 57 of 120 bytes here.
\<close>

theorem shared_device_overcommit:
  "(\<exists>r. validate_legacy 3 demo_round_plan (demo_split ''edge-a'' [''head''] 57) = Inr r \<and> pv_valid r) \<and>
   (\<forall>p \<in> set (ca_partitions (demo_split_candidate ''edge-a'')). lp_device_id p = ''edge-a'') \<and>
   rd_memory_available_bytes (demo_device ''edge-a'') <
     sum_list (map lp_memory_demand_bytes (ca_partitions (demo_split_candidate ''edge-a'')))"
  using demo_split_valid[of "''edge-a''"]
  by (simp add: demo_split_candidate_def demo_split_def demo_device_def)

end

