(* ===== verification/RecoveryEvaluator.thy ===== *)
theory RecoveryEvaluator
  imports PartitionRanking
begin

text \<open>
  \<open>recovery_evaluator.py\<close>: the evaluation of a completed experiment. It reads the report (a JSON
  object) through \<open>get\<close> alone, scores outcome, efficiency, safety and evidence in binary64, and
  derives the rewards of the team and of the four agents.
\<close>

section \<open>Reading the report\<close>

definition recovery_agent_names :: "string list" where
  "recovery_agent_names = [''AIServiceHASupportAgent'', ''AIApplicationManagementAgent'',
     ''AISemiconductorInfraOpsAgent'', ''CostOptimizationAgent'']"

text \<open>The float literals of the source.\<close>

abbreviation lit :: "rat \<Rightarrow> pyfloat" where
  "lit x \<equiv> round64 x"

definition eval_clamp :: "pyfloat \<Rightarrow> pyfloat" where
  "eval_clamp v = fmax (FFin (- 1)) (fmin (FFin 1) v)"

definition eval_number :: "pyval \<Rightarrow> (exn, pyfloat option) result" where
  "eval_number v =
     (case v of
        VInt i \<Rightarrow> rbind (float_of_int i) (\<lambda>x. Inr (Some x))
      | VFloat x \<Rightarrow> Inr (if is_finite x then Some x else None)
      | _ \<Rightarrow> Inr None)"

definition eval_mapping :: "pyval \<Rightarrow> payload" where
  "eval_mapping v = (case v of VDict d \<Rightarrow> d | _ \<Rightarrow> [])"

definition eval_count :: "pyval \<Rightarrow> (exn, int) result" where
  "eval_count v =
     (case v of
        VList vs \<Rightarrow> Inr (int (length vs))
      | VTuple vs \<Rightarrow> Inr (int (length vs))
      | VDict d \<Rightarrow> Inr (int (length d))
      | _ \<Rightarrow> rbind (eval_number v) (\<lambda>n. case n of
            None \<Rightarrow> Inr 0
          | Some x \<Rightarrow> rbind (int_of_float x) (\<lambda>i. Inr (max 0 i))))"

definition report_status :: "payload \<Rightarrow> string" where
  "report_status r = lower (strip (json_str (vget_default r ''final_status'' (VStr ''''))))"

definition failed_statuses :: "string list" where
  "failed_statuses = [''safe_failure'', ''failed'', ''consensus_rejected'',
     ''configuration_rejected'', ''interrupted'', ''cancelled'']"

definition recovery_flag :: "payload \<Rightarrow> pyval" where
  "recovery_flag r =
     (let recovery = eval_mapping (vget r ''recovery_monitoring'');
          success = vget recovery ''recovery_success''
      in if success = VNone then vget recovery ''recovered'' else success)"

definition outcome_score :: "payload \<Rightarrow> pyfloat" where
  "outcome_score r =
     (let status = report_status r; success = recovery_flag r in
      if status = ''safe_stopped'' then FFin (- 1 / 4)
      else if status \<in> set failed_statuses then FFin (- 1)
      else if success = VBool False then FFin (- 1)
      else if status = ''recovered_after_replan'' then FFin (3 / 4)
      else if status \<in> {''recovered'', ''no_action_required''} \<or> success = VBool True then FFin 1
      else FFin 0)"

section \<open>Efficiency\<close>

text \<open>\<open>score - weight * n\<close> for an integer \<open>n\<close>, which is converted to a float.\<close>

definition less_weighted :: "pyfloat \<Rightarrow> rat \<Rightarrow> int \<Rightarrow> (exn, pyfloat) result" where
  "less_weighted score weight n = rbind (float_of_int n) (\<lambda>x. Inr (fsub score (fmul (lit weight) x)))"

definition step_value :: "payload \<Rightarrow> pyval" where
  "step_value r =
     (let monitoring = eval_mapping (vget r ''recovery_monitoring'');
          execution = eval_mapping (vget r ''execution_result'')
      in vget_default monitoring ''actual_steps'' (vget_default monitoring ''steps''
           (vget_default r ''actual_steps'' (vget execution ''steps''))))"

definition recovery_budget :: "payload \<Rightarrow> (exn, pyfloat option) result" where
  "recovery_budget r =
     (let monitoring = eval_mapping (vget r ''recovery_monitoring'') in
      rbind (eval_number (vget_default monitoring ''recovery_budget_seconds''
        (vget r ''recovery_budget_seconds''))) (\<lambda>budget.
      case budget of
        Some b \<Rightarrow> Inr (Some b)
      | None \<Rightarrow>
          (let protocol = eval_mapping (vget r ''protocol_config'');
               protocol = (if protocol = [] then eval_mapping (vget r ''protocol'') else protocol)
           in eval_number (vget protocol ''recovery_budget_seconds''))))"

definition less_time :: "pyfloat \<Rightarrow> pyfloat option \<Rightarrow> pyfloat option \<Rightarrow> pyfloat" where
  "less_time score seconds budget =
     (case (seconds, budget) of
        (Some s, Some b) \<Rightarrow>
          (if flt (FFin 0) b
           then fsub score (fmul (lit (1 / 5))
             (fmax (FFin 0) (fmin (FFin 1) (case fdiv s b of Some q \<Rightarrow> q | None \<Rightarrow> FNaN))))
           else score)
      | _ \<Rightarrow> score)"

definition efficiency_score :: "payload \<Rightarrow> (exn, pyfloat) result" where
  "efficiency_score r =
     rbind (eval_count (vget r ''replanning_attempts'')) (\<lambda>replans.
     rbind (eval_count (vget r ''executed_actions'')) (\<lambda>actions.
     rbind (eval_count (step_value r)) (\<lambda>steps.
     if replans = 0 \<and> actions = 0 \<and> steps = 0 then Inr (FFin 0)
     else
       rbind (less_weighted (FFin 1) (1 / 5) replans) (\<lambda>score.
       rbind (less_weighted score (3 / 20) (max (actions - 1) 0)) (\<lambda>score.
       rbind (less_weighted score (1 / 10) (max (steps - 1) 0)) (\<lambda>score.
       rbind (eval_number (vget (eval_mapping (vget r ''recovery_monitoring'')) ''recovery_seconds''))
         (\<lambda>seconds.
       rbind (recovery_budget r) (\<lambda>budget.
       Inr (eval_clamp (less_time score seconds budget)))))))))) "

section \<open>Safety and evidence\<close>

text \<open>Some object inside the value says \<open>valid: false\<close>.\<close>

fun explicit_invalid :: "pyval \<Rightarrow> bool" where
  "explicit_invalid (VDict d) = (vget d ''valid'' = VBool False \<or> list_ex (\<lambda>(k, v). explicit_invalid v) d)"
| "explicit_invalid (VList vs) = list_ex explicit_invalid vs"
| "explicit_invalid (VTuple vs) = list_ex explicit_invalid vs"
| "explicit_invalid v = False"

definition safety_score :: "payload \<Rightarrow> (exn, pyfloat) result" where
  "safety_score r =
     (let safety = eval_mapping (vget r ''safety_validation'');
          execution = eval_mapping (vget r ''execution_result'')
      in rbind (eval_count (vget r ''executed_actions'')) (\<lambda>n.
         let penalty = (if 0 < n then FFin (- 1) else FFin (- 1 / 2)) in
         Inr (if explicit_invalid (VDict safety) then penalty
              else if vget execution ''unsafe_execution'' = VBool True then FFin (- 1)
              else if vget execution ''valid'' = VBool False then penalty
              else if vget safety ''valid'' = VBool True \<and> vget execution ''valid'' \<noteq> VBool False
                then FFin 1
              else if vget safety ''valid'' = VBool False then penalty
              else FFin 0)))"

definition count_true :: "bool list \<Rightarrow> rat" where
  "count_true bs = of_nat (length (filter (\<lambda>b. b) bs))"

definition evidence_score :: "payload \<Rightarrow> pyfloat" where
  "evidence_score r =
     (let evidence = eval_mapping (vget r ''evidence'');
          diagnosis = eval_mapping (vget r ''diagnosis'');
          monitoring = eval_mapping (vget r ''recovery_monitoring'');
          initial = (evidence \<noteq> [] \<and> truthy (vget evidence ''metric_values'') \<and>
            truthy (vget evidence ''source'') \<and> truthy (vget evidence ''namespace'') \<and>
            truthy (vget evidence ''deployment''));
          cause = (diagnosis \<noteq> [] \<and> truthy (vget diagnosis ''cause''));
          recovery = list_ex (\<lambda>k. vget monitoring k \<noteq> VNone)
            [''recovery_success'', ''recovered'', ''recovery_seconds'']
      in round64 (count_true [initial, cause, recovery] / 3))"

definition cost_keys :: "string list" where
  "cost_keys = [''cost'', ''cost_per_hour'', ''resource_cost'', ''cost_metrics'', ''cost_evidence'']"

definition cost_evidence_present :: "payload \<Rightarrow> bool" where
  "cost_evidence_present r =
     list_ex (\<lambda>container. list_ex (\<lambda>k. map_of container k \<noteq> None) cost_keys)
       [r, eval_mapping (vget r ''evidence''), eval_mapping (vget r ''execution_result'')]"

section \<open>The evaluation\<close>

record RecoveryEvaluation =
  rv_evaluator :: string
  rv_rubric_version :: string
  rv_team_reward :: pyfloat
  rv_agent_rewards :: "(string \<times> pyfloat) list"
  rv_components :: "(string \<times> pyfloat) list"
  rv_reason :: string

definition half :: "pyfloat \<Rightarrow> pyfloat \<Rightarrow> pyfloat" where
  "half a b = (case fdiv (fadd a b) (FFin 2) of Some q \<Rightarrow> q | None \<Rightarrow> FNaN)"

definition team_reward :: "pyfloat \<Rightarrow> pyfloat \<Rightarrow> pyfloat \<Rightarrow> pyfloat \<Rightarrow> pyfloat" where
  "team_reward outcome efficiency safety evidence =
     (let reward = eval_clamp (fadd (fadd (fadd (fmul (lit (13 / 20)) outcome)
            (fmul (lit (3 / 20)) efficiency)) (fmul (lit (1 / 10)) safety)) (fmul (lit (1 / 10)) evidence))
      in if flt outcome (FFin 0) then fmin reward (FFin 0) else reward)"

definition role_scores :: "payload \<Rightarrow> pyfloat \<Rightarrow> pyfloat \<Rightarrow> pyfloat \<Rightarrow> pyfloat \<Rightarrow> pyfloat list" where
  "role_scores r outcome efficiency safety evidence =
     [eval_clamp (half outcome evidence),
      (if truthy (vget r ''selected_action'') \<or> truthy (vget r ''executed_actions'')
       then eval_clamp (half outcome efficiency) else FFin 0),
      safety,
      (if \<not> cost_evidence_present r then efficiency else eval_clamp (half efficiency safety))]"

definition evaluate :: "payload \<Rightarrow> (exn, RecoveryEvaluation) result" where
  "evaluate r =
     rbind (efficiency_score r) (\<lambda>eff.
     rbind (safety_score r) (\<lambda>saf.
     let outcome = eval_clamp (outcome_score r); efficiency = eval_clamp eff;
         safety = eval_clamp saf; evidence = eval_clamp (evidence_score r);
         reward = team_reward outcome efficiency safety evidence
     in Inr \<lparr>rv_evaluator = ''RecoveryEvaluatorAgent'',
          rv_rubric_version = ''recovery-evaluator-v1'', rv_team_reward = reward,
          rv_agent_rewards = zip recovery_agent_names
            (map (\<lambda>score. eval_clamp (fadd (fmul (lit (7 / 10)) reward) (fmul (lit (3 / 10)) score)))
              (role_scores r outcome efficiency safety evidence)),
          rv_components = [(''outcome'', outcome), (''efficiency'', efficiency), (''safety'', safety),
            (''evidence_quality'', evidence)],
          rv_reason = json_str (vget_default r ''final_status'' (VStr ''unknown'')) @
            '': outcome='' @ fmt_fixed 3 outcome @ '', efficiency='' @ fmt_fixed 3 efficiency @
            '', safety='' @ fmt_fixed 3 safety @ '', evidence_quality='' @ fmt_fixed 3 evidence\<rparr>))"

definition evaluation_dict :: "RecoveryEvaluation \<Rightarrow> payload" where
  "evaluation_dict e =
     [(''evaluator'', VStr (rv_evaluator e)), (''rubric_version'', VStr (rv_rubric_version e)),
      (''team_reward'', VFloat (rv_team_reward e)),
      (''agent_rewards'', VDict (map (\<lambda>(k, x). (k, VFloat x)) (rv_agent_rewards e))),
      (''components'', VDict (map (\<lambda>(k, x). (k, VFloat x)) (rv_components e))),
      (''reason'', VStr (rv_reason e))]"

definition attach_recovery_evaluation :: "payload \<Rightarrow> (exn, payload) result" where
  "attach_recovery_evaluation r =
     rbind (evaluate r) (\<lambda>e. Inr (dict_set ''evaluation'' (VDict (evaluation_dict e)) r))"

section \<open>Properties\<close>

text \<open>A reward: a finite number between -1 and 1.\<close>

definition unit_reward :: "pyfloat \<Rightarrow> bool" where
  "unit_reward v \<longleftrightarrow> (\<exists>x. v = FFin x \<and> - 1 \<le> x \<and> x \<le> 1)"

lemma clamp_reward [simp]: "unit_reward (eval_clamp v)"
  by (cases v) (auto simp: eval_clamp_def fmin_def fmax_def unit_reward_def)

lemma team_reward_unit [simp]: "unit_reward (team_reward a b c d)"
proof -
  have "unit_reward v \<Longrightarrow> unit_reward (fmin v (FFin 0))" for v
    by (auto simp: unit_reward_def fmin_def)
  then show ?thesis by (simp add: team_reward_def Let_def)
qed

lemma team_reward_nonpos: "flt a (FFin 0) \<Longrightarrow> fle (team_reward a b c d) (FFin 0)"
proof -
  assume neg: "flt a (FFin 0)"
  have "unit_reward v \<Longrightarrow> fle (fmin v (FFin 0)) (FFin 0)" for v
    by (auto simp: unit_reward_def fmin_def)
  with neg show ?thesis by (simp add: team_reward_def Let_def)
qed

text \<open>A failed experiment: it ended in a failed status, or the monitor saw no recovery.\<close>

definition experiment_failed :: "payload \<Rightarrow> bool" where
  "experiment_failed r \<longleftrightarrow> report_status r \<in> insert ''safe_stopped'' (set failed_statuses) \<or>
     recovery_flag r = VBool False"

lemma outcome_failed: "experiment_failed r \<Longrightarrow> flt (eval_clamp (outcome_score r)) (FFin 0)"
  by (auto simp: experiment_failed_def outcome_score_def Let_def eval_clamp_def fmin_def fmax_def)

text \<open>
  C38. Whatever the report holds, an evaluation that is returned has a team reward, agent rewards and
  components between -1 and 1, one reward for each of the four agents; and the team of a failed
  experiment gets no positive reward, however good its efficiency, safety and evidence.
\<close>

theorem evaluate_bounds:
  assumes "evaluate r = Inr e"
  shows "unit_reward (rv_team_reward e) \<and> map fst (rv_agent_rewards e) = recovery_agent_names \<and>
    (\<forall>x \<in> snd ` set (rv_agent_rewards e @ rv_components e). unit_reward x) \<and>
    (experiment_failed r \<longrightarrow> fle (rv_team_reward e) (FFin 0))"
  using assms outcome_failed[of r] team_reward_nonpos
  by (auto simp: evaluate_def Let_def recovery_agent_names_def role_scores_def)

text \<open>The parts of the report an evaluation looks at.\<close>

definition observed_keys :: "string list" where
  "observed_keys = [''final_status'', ''recovery_monitoring'', ''replanning_attempts'',
     ''executed_actions'', ''actual_steps'', ''execution_result'', ''recovery_budget_seconds'',
     ''protocol_config'', ''protocol'', ''safety_validation'', ''evidence'', ''diagnosis'',
     ''selected_action''] @ cost_keys"

lemma evaluate_observed:
  assumes "\<And>k. k \<in> set observed_keys \<Longrightarrow> map_of r k = map_of r' k"
  shows "evaluate r = evaluate r'"
proof -
  have get: "vget r k = vget r' k" "vget_default r k v = vget_default r' k v"
    if "k \<in> set observed_keys" for k v
    using assms[OF that] by (simp_all add: vget_def vget_default_def)
  have "efficiency_score r = efficiency_score r'"
    by (simp add: efficiency_score_def step_value_def recovery_budget_def get observed_keys_def
        cong: if_cong option.case_cong)
  moreover have "safety_score r = safety_score r'"
    by (simp add: safety_score_def get observed_keys_def cong: if_cong)
  moreover have "outcome_score r = outcome_score r'"
    by (simp add: outcome_score_def report_status_def recovery_flag_def get observed_keys_def)
  moreover have "evidence_score r = evidence_score r'"
    by (simp add: evidence_score_def get observed_keys_def)
  moreover have "role_scores r = role_scores r'"
    using assms by (intro ext) (simp add: role_scores_def cost_evidence_present_def get observed_keys_def
        cost_keys_def)
  ultimately show ?thesis
    by (simp add: evaluate_def get observed_keys_def)
qed

definition demo_failed_report :: payload where
  "demo_failed_report = [(''final_status'', VStr '' Failed ''),
     (''safety_validation'', VDict [(''valid'', VBool True)])]"

lemma demo_failed_status: "lower (strip '' Failed '') = ''failed''"
  by code_simp

lemma demo_failed: "experiment_failed demo_failed_report" "\<exists>e. evaluate demo_failed_report = Inr e"
  by (simp_all add: experiment_failed_def report_status_def demo_failed_report_def wire_simps
      demo_failed_status failed_statuses_def evaluate_def efficiency_score_def safety_score_def
      eval_count_def eval_number_def eval_mapping_def step_value_def Let_def vget_def vget_default_def)

theorem evaluate_bounds_witness:
  "\<exists>e. evaluate demo_failed_report = Inr e \<and> fle (rv_team_reward e) (FFin 0) \<and>
     unit_reward (rv_team_reward e)"
  using demo_failed evaluate_bounds[of demo_failed_report] by blast

text \<open>
  The evaluation is independent of the decision trace: storing anything under a key it does not
  observe (agent contributions, decisions, reviews, an earlier evaluation) changes nothing, so
  evaluating an evaluated report again gives the same report.
\<close>

theorem evaluate_independent:
  assumes "k \<notin> set observed_keys"
  shows "evaluate (dict_set k v r) = evaluate r \<and>
    (attach_recovery_evaluation r = Inr r' \<longrightarrow> attach_recovery_evaluation r' = Inr r')"
proof -
  have same: "evaluate (dict_set k v r) = evaluate r" if "k \<notin> set observed_keys" for k v
    by (rule evaluate_observed) (use that in auto)
  have "dict_set k v (dict_set k v r) = dict_set k v r" for k :: string and v :: pyval
    by (induction r) auto
  with same[of "''evaluation''"] assms show ?thesis
    by (auto simp: attach_recovery_evaluation_def same observed_keys_def cost_keys_def)
qed

theorem evaluate_independent_witness:
  "evaluate (dict_set ''agent_contributions'' (VDict [(''reward'', VInt 1)]) demo_failed_report) =
   evaluate demo_failed_report"
  by (rule conjunct1[OF evaluate_independent]) (simp add: observed_keys_def cost_keys_def)

end

