(* ===== verification/ActionPolicy.thy ===== *)
theory ActionPolicy
  imports RecoveryEvaluator "HOL-Library.Multiset"
begin

text \<open>
  The advisory action policy: \<open>agent_decision_policy.py\<close> (the configured policy) and
  \<open>action_policy.py\<close> (samples read from experiment records, the ranking of the bounded actions
  and its baseline fallback).
\<close>

section \<open>The configured decision policy\<close>

record MetricPolicy =
  mp_canonical_name :: string
  mp_aliases :: "string list"
  mp_cause :: string
  mp_signal_direction :: string
  mp_warning_ratio :: pyfloat
  mp_critical_ratio :: pyfloat

definition threshold_exceeded :: "MetricPolicy \<Rightarrow> pyfloat \<Rightarrow> pyfloat \<Rightarrow> bool" where
  "threshold_exceeded p v threshold =
     (if mp_signal_direction p = ''high_is_bad'' then fle threshold v else fle v threshold)"

definition severity_score :: "MetricPolicy \<Rightarrow> pyfloat \<Rightarrow> pyfloat \<Rightarrow> pyfloat" where
  "severity_score p v threshold =
     (if fle threshold (FFin 0) then FFin 0
      else if mp_signal_direction p = ''high_is_bad'' then the (fdiv v threshold)
      else if fle v (FFin 0) then mp_critical_ratio p
      else the (fdiv threshold v))"

definition severity_label :: "MetricPolicy \<Rightarrow> pyfloat \<Rightarrow> pyfloat \<Rightarrow> string" where
  "severity_label p v threshold =
     (if \<not> threshold_exceeded p v threshold then ''info''
      else if fle (mp_critical_ratio p) (severity_score p v threshold) then ''critical''
      else if fle (mp_warning_ratio p) (severity_score p v threshold) then ''warning''
      else ''info'')"

record AgentDecisionPolicy =
  dp_version :: string
  dp_metric_policies :: "(string, MetricPolicy) dict"
  dp_preferred_actions :: "(string, string) dict"
  dp_action_rewards :: "(string, pyfloat) dict"
  dp_replica_by_severity :: "(string, int) dict"
  dp_default_replicas :: int
  dp_max_replicas :: int

text \<open>
  \<open>MetricPolicy.from_dict\<close> and \<open>AgentDecisionPolicy.from_dict\<close>. The error of the policy is a
  \<open>ValueError\<close>. The file is read by \<open>json.loads\<close>, so the keys of an object are distinct texts.
\<close>

definition metric_policy_of :: "string \<Rightarrow> payload \<Rightarrow> (exn, MetricPolicy) result" where
  "metric_policy_of name d =
     (let direction = strip (json_str (vget_default d ''signal_direction'' (VStr '''')));
          cause = strip (json_str (vget_default d ''cause'' (VStr ''''))) in
      if direction \<notin> {''high_is_bad'', ''low_is_bad''}
      then Inl (ValueError (''metric '' @ name @ '' must define high_is_bad or low_is_bad''))
      else if cause = '''' then Inl (ValueError (''metric '' @ name @ '' cause is required''))
      else
        rbind (py_dict (vget_default d ''severity'' (VDict []))) (\<lambda>severity.
        rbind (py_iter (vget_default d ''aliases'' (VList [VStr name]))) (\<lambda>aliases.
        rbind (py_float (vget_default severity ''warning_ratio'' (VFloat (FFin 1)))) (\<lambda>warning.
        rbind (py_float (vget_default severity ''critical_ratio'' (VFloat (lit (11 / 10))))) (\<lambda>critical.
        Inr \<lparr>mp_canonical_name = name, mp_aliases = map (\<lambda>a. underscored (strip (json_str a))) aliases,
             mp_cause = cause, mp_signal_direction = direction, mp_warning_ratio = warning,
             mp_critical_ratio = critical\<rparr>)))))"

text \<open>\<open>{str(k): f(v) for k, v in dict(data.get(key, {})).items()}\<close>.\<close>

definition object_map ::
  "(string \<Rightarrow> pyval \<Rightarrow> (exn, 'a) result) \<Rightarrow> payload \<Rightarrow> string \<Rightarrow> (exn, (string, 'a) dict) result" where
  "object_map f d key =
     rbind (py_dict (vget_default d key (VDict []))) (\<lambda>kvs.
     rbind (rmap (\<lambda>(k, v). rbind (f k v) (\<lambda>x. Inr (k, x))) kvs) (\<lambda>kxs. Inr (dict_of kxs)))"

definition policy_of :: "payload \<Rightarrow> (exn, AgentDecisionPolicy) result" where
  "policy_of d =
     rbind (object_map (\<lambda>k v. rbind (py_dict v) (metric_policy_of k)) d ''metric_categories'') (\<lambda>metrics.
     if metrics = [] then Inl (ValueError ''metric_categories must not be empty'')
     else
       rbind (py_dict (vget_default d ''replica_recommendation_policy'' (VDict []))) (\<lambda>replicas.
       rbind (object_map (\<lambda>k. py_int) replicas ''by_severity'') (\<lambda>by_severity.
       rbind (object_map (\<lambda>k v. Inr (json_str v)) d ''preferred_actions_by_cause'') (\<lambda>actions.
       rbind (object_map (\<lambda>k. py_float) d ''action_rewards'') (\<lambda>action_rewards.
       rbind (py_int (vget_default replicas ''default_replicas'' (VInt 3))) (\<lambda>default_replicas.
       rbind (py_int (vget_default replicas ''max_replicas'' (VInt 5))) (\<lambda>max_replicas.
       Inr \<lparr>dp_version = json_str (vget_default d ''version'' (VStr ''1'')), dp_metric_policies = metrics,
            dp_preferred_actions = actions, dp_action_rewards = action_rewards,
            dp_replica_by_severity = by_severity, dp_default_replicas = default_replicas,
            dp_max_replicas = max_replicas\<rparr>)))))))"

definition metric_policy_for :: "AgentDecisionPolicy \<Rightarrow> string \<Rightarrow> MetricPolicy option" where
  "metric_policy_for pol metric =
     (let n = underscored (strip metric)
      in List.find (\<lambda>p. n = mp_canonical_name p \<or> n \<in> set (mp_aliases p))
           (map snd (dp_metric_policies pol)))"

definition preferred_action_for :: "AgentDecisionPolicy \<Rightarrow> string \<Rightarrow> string" where
  "preferred_action_for pol cause =
     (case dict_get (dp_preferred_actions pol) cause of Some a \<Rightarrow> a | None \<Rightarrow> ''observe_only'')"

definition reward_for :: "AgentDecisionPolicy \<Rightarrow> string \<Rightarrow> pyfloat \<Rightarrow> pyfloat" where
  "reward_for pol action fallback =
     (case dict_get (dp_action_rewards pol) action of Some r \<Rightarrow> r | None \<Rightarrow> fallback)"

definition recommended_replicas :: "AgentDecisionPolicy \<Rightarrow> string \<Rightarrow> int option \<Rightarrow> int" where
  "recommended_replicas pol severity current =
     (let target = (case dict_get (dp_replica_by_severity pol) severity of
            Some n \<Rightarrow> n | None \<Rightarrow> dp_default_replicas pol);
          target = (case current of None \<Rightarrow> target | Some n \<Rightarrow> max target (n + 1))
      in max 1 (min target (dp_max_replicas pol)))"

section \<open>Samples\<close>

definition action_kinds :: "string list" where
  "action_kinds = [''observe_only'', ''rollout_restart'', ''scale_out'']"

record PolicyContext =
  px_scenario :: string
  px_metric :: string
  px_cause :: string
  px_severity :: string

definition context_key :: "PolicyContext \<Rightarrow> string" where
  "context_key x =
     join ''|'' (map (\<lambda>s. underscored (strip s)) [px_scenario x, px_metric x, px_cause x, px_severity x])"

record PolicySample =
  ps_context :: PolicyContext
  ps_action :: string
  ps_observed_reward :: pyfloat
  ps_recovery_success :: bool
  ps_safety_valid :: bool
  ps_measurement_valid :: bool
  ps_eligible :: bool

definition unit_clamp :: "pyfloat \<Rightarrow> pyfloat" where
  "unit_clamp v = fmax (FFin 0) (fmin (FFin 1) v)"

definition first_key :: "payload \<Rightarrow> string list \<Rightarrow> pyval option" where
  "first_key d ks = (case List.find (\<lambda>k. map_of d k \<noteq> None) ks of
     Some k \<Rightarrow> map_of d k | None \<Rightarrow> None)"

definition clamped_float :: "pyval \<Rightarrow> (exn, pyfloat) result" where
  "clamped_float v = rbind (py_float v) (\<lambda>x. Inr (eval_clamp x))"

definition derived_reward :: "payload \<Rightarrow> (exn, pyfloat) result" where
  "derived_reward d =
     (if \<not> truthy (vget_default d ''safety_valid'' (VBool True)) \<or>
         \<not> truthy (vget_default d ''measurement_valid'' (VBool True)) then Inr (FFin (- 1))
      else
        (let success = FFin (if truthy (vget_default d ''recovery_success'' (VBool False)) then 1 else 0) in
         rbind (py_float (vget_default d ''availability_recovery'' (VFloat (FFin 0)))) (\<lambda>availability.
         rbind (py_float (vget_default d ''metric_improvement'' (VFloat (FFin 0)))) (\<lambda>improvement.
         rbind (py_float (vget_default d ''recovery_seconds'' (VFloat (FFin 60)))) (\<lambda>seconds.
         let time_score = fsub (FFin 1) (unit_clamp (the (fdiv (fmax seconds (FFin 0)) (FFin 60)))) in
         rbind (py_int (vget_default d ''replica_delta'' (VInt 0))) (\<lambda>delta.
         rbind (float_of_int (max delta 0)) (\<lambda>extra.
         let penalty = unit_clamp (the (fdiv extra (FFin 4))) in
         Inr (eval_clamp (fadd (fadd (fadd (fadd (fmul (lit (9 / 20)) success)
           (fmul (lit (1 / 5)) (unit_clamp availability))) (fmul (lit (1 / 5)) (unit_clamp improvement)))
           (fmul (lit (1 / 10)) time_score)) (fmul (lit (1 / 20)) (fsub (FFin 1) penalty)))))))))))"

definition record_reward :: "payload \<Rightarrow> (exn, pyfloat) result" where
  "record_reward d =
     (let evaluated = (case vget d ''evaluation'' of
            VDict e \<Rightarrow> first_key e [''team_reward'', ''observed_reward''] | _ \<Rightarrow> None)
      in case evaluated of
           Some v \<Rightarrow> clamped_float v
         | None \<Rightarrow>
             (case first_key d [''observed_reward'', ''team_reward'', ''reward''] of
                Some v \<Rightarrow> clamped_float v
              | None \<Rightarrow> derived_reward d))"

definition cause_for_metric :: "AgentDecisionPolicy \<Rightarrow> string \<Rightarrow> string" where
  "cause_for_metric pol metric =
     (case metric_policy_for pol metric of Some p \<Rightarrow> mp_cause p | None \<Rightarrow> ''unknown_metric'')"

definition sample_text :: "payload \<Rightarrow> string \<Rightarrow> string" where
  "sample_text d k = strip (json_str (vget_default d k (VStr '''')))"

definition sample_of :: "AgentDecisionPolicy \<Rightarrow> payload \<Rightarrow> (exn, PolicySample) result" where
  "sample_of pol d =
     (let action = strip (case vget_default d ''action'' (VDict []) of
            VDict a \<Rightarrow> json_str (vget_default a ''kind'' (VStr '''')) | v \<Rightarrow> json_str v);
          scenario = sample_text d ''scenario''; metric = sample_text d ''metric'';
          given = sample_text d ''cause'';
          cause = (if given = '''' then cause_for_metric pol metric else given);
          safety = truthy (vget_default d ''safety_valid'' (VBool True));
          measured = truthy (vget_default d ''measurement_valid'' (VBool True))
      in rbind (record_reward d) (\<lambda>reward.
         Inr \<lparr>ps_context = \<lparr>px_scenario = scenario, px_metric = metric, px_cause = cause,
                px_severity = sample_text d ''severity''\<rparr>,
              ps_action = action, ps_observed_reward = reward,
              ps_recovery_success = truthy (vget_default d ''recovery_success'' (VBool False)),
              ps_safety_valid = safety, ps_measurement_valid = measured,
              ps_eligible = (action \<in> set action_kinds \<and> safety \<and> measured \<and> scenario \<noteq> '''')\<rparr>))"

definition sample_dict :: "PolicySample \<Rightarrow> payload" where
  "sample_dict s =
     [(''scenario'', VStr (px_scenario (ps_context s))), (''metric'', VStr (px_metric (ps_context s))),
      (''cause'', VStr (px_cause (ps_context s))), (''severity'', VStr (px_severity (ps_context s))),
      (''action'', VStr (ps_action s)), (''observed_reward'', VFloat (fround 6 (ps_observed_reward s))),
      (''recovery_success'', VBool (ps_recovery_success s)),
      (''safety_valid'', VBool (ps_safety_valid s)),
      (''measurement_valid'', VBool (ps_measurement_valid s)), (''eligible'', VBool (ps_eligible s))]"

text \<open>
  \<open>load_policy_samples\<close> on the lines of the file; \<open>loads\<close> is \<open>json.loads\<close>. \<open>TypeError\<close> and
  \<open>ValueError\<close> name the line, other exceptions pass.
\<close>

fun load_samples ::
  "(string \<Rightarrow> (exn, pyval) result) \<Rightarrow> AgentDecisionPolicy \<Rightarrow> nat \<Rightarrow> string list \<Rightarrow> (exn, PolicySample list) result" where
  "load_samples loads pol n [] = Inr []"
| "load_samples loads pol n (line # lines) =
     (if strip line = '''' then load_samples loads pol (Suc n) lines
      else
        (let bad = (\<lambda>m. Inl (ValueError (''invalid policy sample at line '' @ nat_str n @ '': '' @ m)));
             parsed = rbind (loads line) (\<lambda>v. case v of VDict d \<Rightarrow> sample_of pol d
               | _ \<Rightarrow> Inl (TypeError ''record must be an object''))
         in case parsed of
              Inl (TypeError m) \<Rightarrow> bad m
            | Inl (ValueError m) \<Rightarrow> bad m
            | Inl e \<Rightarrow> Inl e
            | Inr s \<Rightarrow> rbind (load_samples loads pol (Suc n) lines) (\<lambda>ss. Inr (s # ss))))"

section \<open>The contextual policy\<close>

datatype PolicyMode = BASELINE_MODE | LEARNED_MODE

fun policy_mode_value :: "PolicyMode \<Rightarrow> string" where
  "policy_mode_value BASELINE_MODE = ''baseline''"
| "policy_mode_value LEARNED_MODE = ''learned''"

type_synonym rewards = "(string, pyfloat list) dict"

record bandit =
  bp_mode :: PolicyMode
  bp_context_rewards :: "(string, rewards) dict"
  bp_global_rewards :: rewards
  bp_sample_count :: nat

definition new_bandit :: "PolicyMode \<Rightarrow> bandit" where
  "new_bandit mode = \<lparr>bp_mode = mode, bp_context_rewards = [], bp_global_rewards = [], bp_sample_count = 0\<rparr>"

text \<open>\<open>defaultdict(list)[key]\<close> and \<open>defaultdict[key].append(x)\<close>.\<close>

definition rewards_at :: "rewards \<Rightarrow> string \<Rightarrow> pyfloat list" where
  "rewards_at m k = (case dict_get m k of Some xs \<Rightarrow> xs | None \<Rightarrow> [])"

definition context_at :: "bandit \<Rightarrow> string \<Rightarrow> rewards" where
  "context_at b k = (case dict_get (bp_context_rewards b) k of Some m \<Rightarrow> m | None \<Rightarrow> [])"

definition append_reward :: "string \<Rightarrow> pyfloat \<Rightarrow> rewards \<Rightarrow> rewards" where
  "append_reward k x m = dict_set k (rewards_at m k @ [x]) m"

definition learn_sample :: "bandit \<Rightarrow> PolicySample \<Rightarrow> bandit" where
  "learn_sample b s =
     (if \<not> ps_eligible s then b
      else (let k = context_key (ps_context s) in
        b\<lparr>bp_context_rewards := dict_set k
              (append_reward (ps_action s) (ps_observed_reward s) (context_at b k)) (bp_context_rewards b),
          bp_global_rewards := append_reward (ps_action s) (ps_observed_reward s) (bp_global_rewards b),
          bp_sample_count := bp_sample_count b + 1\<rparr>))"

definition fit :: "bandit \<Rightarrow> PolicySample list \<Rightarrow> bandit" where
  "fit b samples = foldl learn_sample (new_bandit (bp_mode b)) samples"

definition reward_mean :: "pyfloat list \<Rightarrow> pyfloat" where
  "reward_mean xs =
     (case fsum xs of None \<Rightarrow> FFin 0 | Some s \<Rightarrow> the (fdiv s (round64 (of_nat (length xs)))))"

record ranking_row =
  rr_action :: string
  rr_mean_reward :: pyfloat
  rr_samples :: nat
  rr_source :: string

definition baseline_reward :: "string \<Rightarrow> string \<Rightarrow> pyfloat" where
  "baseline_reward baseline action = FFin (if action = baseline then 1 else 0)"

definition learned_row :: "bandit \<Rightarrow> string \<Rightarrow> string \<Rightarrow> string \<Rightarrow> ranking_row" where
  "learned_row b key baseline action =
     (let local = rewards_at (context_at b key) action;
          world = rewards_at (bp_global_rewards b) action;
          xs = (if local = [] then world else local);
          source = (if local \<noteq> [] then ''context'' else if world \<noteq> [] then ''global'' else ''baseline'');
          mean = (if xs = [] then baseline_reward baseline action else reward_mean xs)
      in \<lparr>rr_action = action, rr_mean_reward = fround 6 mean, rr_samples = length xs, rr_source = source\<rparr>)"

definition baseline_row :: "string \<Rightarrow> string \<Rightarrow> ranking_row" where
  "baseline_row baseline action =
     \<lparr>rr_action = action, rr_mean_reward = baseline_reward baseline action, rr_samples = 0,
      rr_source = ''baseline''\<rparr>"

text \<open>The sort key \<open>(-mean, 0 if baseline else 1, ACTION_KINDS.index(action))\<close>; the means are finite.\<close>

fun finite_value :: "pyfloat \<Rightarrow> rat" where
  "finite_value (FFin x) = x"
| "finite_value _ = 0"

fun index_of :: "'a list \<Rightarrow> 'a \<Rightarrow> nat" where
  "index_of [] x = 0"
| "index_of (y # ys) x = (if y = x then 0 else Suc (index_of ys x))"

definition rank_key :: "string \<Rightarrow> ranking_row \<Rightarrow> rat \<times> nat \<times> nat" where
  "rank_key baseline row =
     (- finite_value (rr_mean_reward row), if rr_action row = baseline then 0 else 1,
      index_of action_kinds (rr_action row))"

record PolicyRecommendation =
  rec_policy_mode :: PolicyMode
  rec_context :: PolicyContext
  rec_selected_action :: string
  rec_ranking :: "ranking_row list"
  rec_training_samples :: nat
  rec_fallback_reason :: string

definition baseline_action_of :: "AgentDecisionPolicy \<Rightarrow> PolicyContext \<Rightarrow> string" where
  "baseline_action_of pol x =
     (let a = preferred_action_for pol (px_cause x)
      in if a \<in> set action_kinds then a else ''observe_only'')"

definition recommend :: "AgentDecisionPolicy \<Rightarrow> bandit \<Rightarrow> PolicyContext \<Rightarrow> PolicyRecommendation" where
  "recommend pol b x =
     (let baseline = baseline_action_of pol x;
          learned = (bp_mode b = LEARNED_MODE \<and> bp_sample_count b \<noteq> 0);
          rows = (if learned then map (learned_row b (context_key x) baseline) action_kinds
                  else map (baseline_row baseline) action_kinds);
          ranking = sort_key (rank_key baseline) rows
      in \<lparr>rec_policy_mode = bp_mode b, rec_context = x, rec_selected_action = rr_action (hd ranking),
          rec_ranking = ranking, rec_training_samples = bp_sample_count b,
          rec_fallback_reason = (if bp_mode b = LEARNED_MODE \<and> bp_sample_count b = 0
            then ''no eligible training samples'' else '''')\<rparr>)"

definition recommendation_dict :: "PolicyRecommendation \<Rightarrow> payload" where
  "recommendation_dict r =
     [(''policy_mode'', VStr (policy_mode_value (rec_policy_mode r))),
      (''context'', VDict [(''scenario'', VStr (px_scenario (rec_context r))),
         (''metric'', VStr (px_metric (rec_context r))), (''cause'', VStr (px_cause (rec_context r))),
         (''severity'', VStr (px_severity (rec_context r)))]),
      (''selected_action'', VStr (rec_selected_action r)),
      (''ranking'', VTuple (map (\<lambda>row. VDict [(''action'', VStr (rr_action row)),
         (''mean_reward'', VFloat (rr_mean_reward row)), (''samples'', VInt (int (rr_samples row))),
         (''source'', VStr (rr_source row))]) (rec_ranking r))),
      (''training_samples'', VInt (int (rec_training_samples r))),
      (''fallback_reason'', VStr (rec_fallback_reason r)), (''advisory_only'', VBool True),
      (''safety_boundary'', VStr ''4-agent-review-and-validator'')]"

section \<open>Properties of the ranking\<close>

lemma hd_sort_key:
  assumes "xs \<noteq> []"
  shows "hd (sort_key f xs) \<in> set xs \<and> (\<forall>y \<in> set xs. f (hd (sort_key f xs)) \<le> f y)"
proof -
  have "sort_key f xs \<noteq> []" using assms by (metis length_0_conv length_sort)
  then obtain z zs where s: "sort_key f xs = z # zs" by (cases "sort_key f xs") auto
  then have set: "set xs = insert z (set zs)" by (metis list.simps(15) set_sort)
  have "sorted (map f (z # zs))" using sorted_sort_key[of f xs] s by simp
  with s set show ?thesis by auto
qed

lemma baseline_action_kind: "baseline_action_of pol x \<in> set action_kinds"
  by (simp add: baseline_action_of_def Let_def action_kinds_def)

text \<open>The rows before the sort.\<close>

definition recommendation_rows :: "AgentDecisionPolicy \<Rightarrow> bandit \<Rightarrow> PolicyContext \<Rightarrow> ranking_row list" where
  "recommendation_rows pol b x =
     (if bp_mode b = LEARNED_MODE \<and> bp_sample_count b \<noteq> 0
      then map (learned_row b (context_key x) (baseline_action_of pol x)) action_kinds
      else map (baseline_row (baseline_action_of pol x)) action_kinds)"

lemma rows_actions: "map rr_action (recommendation_rows pol b x) = action_kinds"
  by (auto simp: recommendation_rows_def learned_row_def baseline_row_def Let_def comp_def)

lemma recommend_ranking:
  "rec_ranking (recommend pol b x) = sort_key (rank_key (baseline_action_of pol x)) (recommendation_rows pol b x)"
  "rec_selected_action (recommend pol b x) = rr_action (hd (rec_ranking (recommend pol b x)))"
  by (simp_all add: recommend_def recommendation_rows_def Let_def)

lemma recommend_baseline:
  assumes "bp_mode b = BASELINE_MODE \<or> bp_sample_count b = 0"
  shows "rec_selected_action (recommend pol b x) = baseline_action_of pol x"
proof -
  let ?base = "baseline_action_of pol x"
  let ?rows = "recommendation_rows pol b x"
  have rows: "?rows = map (baseline_row ?base) action_kinds"
    using assms by (auto simp: recommendation_rows_def)
  then have "?rows \<noteq> []" by (simp add: action_kinds_def)
  from hd_sort_key[OF this, of "rank_key ?base"]
  have hd: "hd (rec_ranking (recommend pol b x)) \<in> set ?rows"
    "\<forall>y \<in> set ?rows. rank_key ?base (hd (rec_ranking (recommend pol b x))) \<le> rank_key ?base y"
    by (simp_all add: recommend_ranking)
  from hd(1) rows obtain a where a: "hd (rec_ranking (recommend pol b x)) = baseline_row ?base a" by auto
  have "baseline_row ?base ?base \<in> set ?rows" using rows baseline_action_kind[of pol x] by auto
  with hd(2) a have "rank_key ?base (baseline_row ?base a) \<le> rank_key ?base (baseline_row ?base ?base)"
    by metis
  then have "a = ?base"
    by (auto simp: rank_key_def baseline_row_def baseline_reward_def split: if_splits)
  with a show ?thesis by (simp add: recommend_ranking(2) baseline_row_def)
qed

lemma learn_mode [simp]: "bp_mode (foldl learn_sample b ss) = bp_mode b"
  by (induction ss arbitrary: b) (auto simp: learn_sample_def Let_def)

lemma fit_count: "bp_sample_count (fit b ss) = length (filter ps_eligible ss)"
proof -
  have "bp_sample_count (foldl learn_sample b ss) = bp_sample_count b + length (filter ps_eligible ss)" for b
    by (induction ss arbitrary: b) (auto simp: learn_sample_def Let_def)
  then show ?thesis by (simp add: fit_def new_bandit_def)
qed

lemma fit_eligible: "fit b (filter ps_eligible ss) = fit b ss"
proof -
  have "foldl learn_sample b (filter ps_eligible ss) = foldl learn_sample b ss" for b
    by (induction ss arbitrary: b) (auto simp: learn_sample_def)
  then show ?thesis by (simp add: fit_def)
qed

text \<open>The rewards recorded for a context are those of its eligible samples, in order.\<close>

lemma fit_rewards:
  "rewards_at (context_at (fit b ss) k) a =
     map ps_observed_reward
       (filter (\<lambda>s. ps_eligible s \<and> context_key (ps_context s) = k \<and> ps_action s = a) ss)"
proof -
  have "rewards_at (context_at (foldl learn_sample b ss) k) a = rewards_at (context_at b k) a @
      map ps_observed_reward
        (filter (\<lambda>s. ps_eligible s \<and> context_key (ps_context s) = k \<and> ps_action s = a) ss)" for b
    by (induction ss arbitrary: b)
      (auto simp: learn_sample_def Let_def context_at_def rewards_at_def append_reward_def)
  then show ?thesis by (simp add: fit_def new_bandit_def context_at_def rewards_at_def)
qed

text \<open>The rewards of the eligible samples of an action in a context.\<close>

definition observed_in :: "PolicySample list \<Rightarrow> string \<Rightarrow> string \<Rightarrow> pyfloat list" where
  "observed_in ss k a = map ps_observed_reward
     (filter (\<lambda>s. ps_eligible s \<and> context_key (ps_context s) = k \<and> ps_action s = a) ss)"



definition demo_policy :: AgentDecisionPolicy where
  "demo_policy = \<lparr>dp_version = ''1'', dp_metric_policies = [],
     dp_preferred_actions = [(''overload'', ''scale_out'')], dp_action_rewards = [],
     dp_replica_by_severity = [], dp_default_replicas = 3, dp_max_replicas = 5\<rparr>"

definition demo_context :: PolicyContext where
  "demo_context = \<lparr>px_scenario = ''burst'', px_metric = ''latency'', px_cause = ''overload'',
     px_severity = ''critical''\<rparr>"

definition demo_sample :: PolicySample where
  "demo_sample = \<lparr>ps_context = demo_context, ps_action = ''rollout_restart'',
     ps_observed_reward = FFin (1 / 2), ps_recovery_success = True, ps_safety_valid = True,
     ps_measurement_valid = True, ps_eligible = True\<rparr>"


end
