(* ===== verification/ExperimentSession.thy ===== *)
theory ExperimentSession
  imports PartitionRanking
begin

text \<open>
  \<open>experiment_session.py\<close>: a session is the view of a run's report by stage, normalised from the
  report (a JSON object), and the bounded store of the latest sessions in memory.
\<close>

section \<open>Sessions\<close>

record ExperimentSession =
  es_experiment_id :: string
  es_created_at :: string
  es_mode :: string
  es_guard_backend :: string
  es_status :: string
  es_protocol_profile :: payload
  es_condition :: payload
  es_stages :: payload
  es_active_agents :: "string list"
  es_human_review_required :: bool
  es_artifacts :: payload

definition session_mapping :: "pyval \<Rightarrow> payload" where
  "session_mapping v = (case v of VDict d \<Rightarrow> d | _ \<Rightarrow> [])"

fun session_freeze :: "pyval \<Rightarrow> pyval" where
  "session_freeze (VDict kvs) = VDict (map (\<lambda>(k, v). (k, session_freeze v)) kvs)"
| "session_freeze (VList vs) = VTuple (map session_freeze vs)"
| "session_freeze (VTuple vs) = VTuple (map session_freeze vs)"
| "session_freeze v = v"

fun session_thaw :: "pyval \<Rightarrow> pyval" where
  "session_thaw (VDict kvs) = VDict (map (\<lambda>(k, v). (k, session_thaw v)) kvs)"
| "session_thaw (VList vs) = VList (map session_thaw vs)"
| "session_thaw (VTuple vs) = VList (map session_thaw vs)"
| "session_thaw v = v"

definition freeze_object :: "payload \<Rightarrow> payload" where
  "freeze_object d = map (\<lambda>(k, v). (k, session_freeze v)) d"

definition thaw_object :: "payload \<Rightarrow> payload" where
  "thaw_object d = map (\<lambda>(k, v). (k, session_thaw v)) d"

definition session_dict :: "ExperimentSession \<Rightarrow> payload" where
  "session_dict s =
     [(''experiment_id'', VStr (es_experiment_id s)), (''created_at'', VStr (es_created_at s)),
      (''mode'', VStr (es_mode s)), (''guard_backend'', VStr (es_guard_backend s)),
      (''status'', VStr (es_status s)),
      (''protocol_profile'', VDict (thaw_object (es_protocol_profile s))),
      (''condition'', VDict (thaw_object (es_condition s))),
      (''stages'', VDict (thaw_object (es_stages s))),
      (''active_agents'', VList (map VStr (es_active_agents s))),
      (''human_review_required'', VBool (es_human_review_required s)),
      (''artifacts'', VDict (thaw_object (es_artifacts s)))]"

section \<open>The status of a stage\<close>


definition session_stage :: "string \<Rightarrow> string \<Rightarrow> pyval \<Rightarrow> (exn, pyval) result" where
  "session_stage experiment_id status v =
     rbind (py_dict v) (\<lambda>d. Inr (VDict [(''experiment_id'', VStr experiment_id), (''status'', VStr status),
       (''payload'', VDict d)]))"

definition consensus_status :: "payload \<Rightarrow> string" where
  "consensus_status negotiation =
     (if negotiation = [] then ''pending''
      else if lower (json_str (vget_default negotiation ''consensus'' (VStr ''''))) \<in>
        {''approved'', ''not_required''} then ''completed''
      else ''blocked'')"

definition safety_status :: "payload \<Rightarrow> string" where
  "safety_status safety =
     (if safety = [] then ''pending''
      else if vget safety ''valid'' = VBool True then ''completed'' else ''blocked'')"

definition execution_status :: "payload \<Rightarrow> payload \<Rightarrow> string" where
  "execution_status execution safety =
     (if execution = [] \<or> vget safety ''valid'' \<noteq> VBool True then ''pending''
      else if vget execution ''valid'' = VBool True then ''completed'' else ''failed'')"

definition result_status :: "string \<Rightarrow> payload \<Rightarrow> string" where
  "result_status final_status recovery =
     (if final_status = ''dry_run_validated'' then ''completed''
      else if recovery \<noteq> [] then
        (if vget_default recovery ''recovered'' (vget recovery ''recovery_success'') = VBool True
         then ''completed'' else ''failed'')
      else if final_status \<in> {''no_action_required'', ''recovered'', ''recovered_after_replan''}
        then ''completed''
      else if final_status \<in> {''cancelled'', ''interrupted'', ''blocked'', ''cleanup_failed''}
        then final_status
      else if final_status \<in> {''safe_failure'', ''runtime_unavailable'', ''configuration_rejected''}
        then ''failed''
      else if final_status \<in> {''safe_stopped'', ''consensus_rejected''} then ''blocked''
      else ''pending'')"

section \<open>Normalisation\<close>

definition session_condition :: "payload \<Rightarrow> payload" where
  "session_condition evidence =
     [(''scenario'', vget_default evidence ''scenario'' (VStr '''')),
      (''namespace'', vget_default evidence ''namespace'' (VStr '''')),
      (''deployment'', vget_default evidence ''deployment'' (VStr '''')),
      (''metric_values'', vget_default evidence ''metric_values'' (VDict [])),
      (''source'', vget_default evidence ''source'' (VStr ''''))]"

definition done_if :: "bool \<Rightarrow> string" where
  "done_if c = (if c then ''completed'' else ''pending'')"

definition final_status_of :: "payload \<Rightarrow> string" where
  "final_status_of report =
     (let s = strip (json_str (vget_default report ''final_status'' (VStr ''unknown'')))
      in if s = '''' then ''unknown'' else s)"

definition session_stages :: "string \<Rightarrow> payload \<Rightarrow> (exn, payload) result" where
  "session_stages i report =
     (let evidence = session_mapping (vget report ''evidence'');
          diagnosis = session_mapping (vget report ''diagnosis'');
          negotiation = session_mapping (vget report ''negotiation'');
          safety = session_mapping (vget report ''safety_validation'');
          execution = session_mapping (vget report ''execution_result'');
          recovery = session_mapping (vget report ''recovery_monitoring'');
          condition = session_condition evidence;
          evaluation = vget_default report ''evaluation'' (VDict [])
      in rmap (\<lambda>(name, status, v). rbind (session_stage i status v) (\<lambda>w. Inr (name, w)))
        [(''condition'', done_if (list_ex (truthy \<circ> snd) condition), VDict condition),
         (''evidence'', done_if (evidence \<noteq> []), VDict evidence),
         (''diagnosis'', done_if (diagnosis \<noteq> []), VDict [(''diagnosis'', VDict diagnosis),
            (''initial_decisions'', vget_default report ''initial_decisions'' (VList []))]),
         (''consensus'', consensus_status negotiation, VDict
            [(''peer_reviews'', vget_default report ''peer_reviews'' (VList [])),
             (''negotiation'', VDict negotiation),
             (''selected_action'', vget_default report ''selected_action'' (VDict []))]),
         (''safety'', safety_status safety, VDict safety),
         (''execution'', execution_status execution safety, VDict execution),
         (''evaluation'', done_if (truthy (vget report ''evaluation'')), evaluation),
         (''result'', result_status (final_status_of report) recovery, VDict
            [(''recovery_monitoring'', VDict recovery),
             (''post_execution_reviews'', vget_default report ''post_execution_reviews'' (VList [])),
             (''agent_contributions'', vget_default report ''agent_contributions'' (VDict [])),
             (''evaluation'', evaluation), (''final_status'', VStr (final_status_of report))])])"

text \<open>\<open>normalize_experiment_session\<close>; \<open>now\<close> is the current time as text.\<close>

definition normalize_session :: "string \<Rightarrow> payload \<Rightarrow> (exn, ExperimentSession) result" where
  "normalize_session now report =
     (let i = strip (json_str (vget_default report ''run_id'' (VStr '''')));
          metadata = session_mapping (vget report ''metadata'')
      in rbind (raise_if (i = '''') (ValueError ''mutual supervision report is missing run_id'')) (\<lambda>_.
         rbind (session_stages i report) (\<lambda>stages.
         rbind (py_iter (vget_default report ''active_agents'' (VList []))) (\<lambda>agents.
         Inr \<lparr>es_experiment_id = i,
              es_created_at = (if truthy (vget report ''created_at'') then json_str (vget report ''created_at'')
                 else if truthy (vget metadata ''created_at'') then json_str (vget metadata ''created_at'')
                 else now),
              es_mode = json_str (vget_default report ''mode'' (VStr ''unknown'')),
              es_guard_backend = json_str (vget_default metadata ''guard_backend'' (VStr ''unknown'')),
              es_status = final_status_of report,
              es_protocol_profile = freeze_object (session_mapping (vget report ''protocol_profile'')),
              es_condition = freeze_object (session_condition (session_mapping (vget report ''evidence''))),
              es_stages = freeze_object stages, es_active_agents = map json_str agents,
              es_human_review_required =
                truthy (vget_default report ''human_review_required'' (VBool False)),
              es_artifacts = map (\<lambda>(k, v). (k, VStr (json_str v)))
                (session_mapping (vget report ''artifacts''))\<rparr>))))"

section \<open>The store of the latest sessions\<close>

text \<open>An \<open>OrderedDict\<close> by experiment identifier, oldest first.\<close>

record session_store =
  ss_max :: nat
  ss_sessions :: "(string \<times> ExperimentSession) list"

definition new_store :: "int \<Rightarrow> (exn, session_store) result" where
  "new_store m =
     (if m \<le> 0 then Inl (ValueError ''max_sessions must be a positive integer'')
      else Inr \<lparr>ss_max = nat m, ss_sessions = []\<rparr>)"

fun trim_oldest :: "nat \<Rightarrow> 'a list \<Rightarrow> 'a list" where
  "trim_oldest m [] = []"
| "trim_oldest m (x # xs) = (if m < length (x # xs) then trim_oldest m xs else x # xs)"

definition put_session :: "ExperimentSession \<Rightarrow> session_store \<Rightarrow> session_store" where
  "put_session s st =
     (let i = es_experiment_id s;
          kept = filter (\<lambda>(j, _). j \<noteq> i) (ss_sessions st)
      in st\<lparr>ss_sessions := trim_oldest (ss_max st) (kept @ [(i, s)])\<rparr>)"

definition get_session :: "string \<Rightarrow> session_store \<Rightarrow> ExperimentSession option" where
  "get_session i st = map_of (ss_sessions st) i"

definition list_sessions :: "session_store \<Rightarrow> ExperimentSession list" where
  "list_sessions st = rev (map snd (ss_sessions st))"

section \<open>What the store holds\<close>

text \<open>The abstract content after a history of \<open>put\<close>s: the latest session of each experiment, newest first.\<close>

fun latest :: "ExperimentSession list \<Rightarrow> ExperimentSession list" where
  "latest [] = []"
| "latest (s # ss) = s # filter (\<lambda>t. es_experiment_id t \<noteq> es_experiment_id s) (latest ss)"

lemma trim_oldest_drop: "trim_oldest m xs = drop (length xs - m) xs"
proof (induction xs)
  case (Cons x xs)
  show ?case
  proof (cases "m < length (x # xs)")
    case True
    then have "length (x # xs) - m = Suc (length xs - m)" by simp
    with True Cons show ?thesis by simp
  qed simp
qed simp

lemma latest_distinct: "distinct (map es_experiment_id (latest ss))"
  by (induction ss) (auto simp: distinct_map_filter)

lemma filter_one_take:
  "distinct (map f xs) \<Longrightarrow>
   take n (filter (\<lambda>x. f x \<noteq> i) (take (Suc n) xs)) = take n (filter (\<lambda>x. f x \<noteq> i) xs)"
proof (induction xs arbitrary: n)
  case (Cons x xs)
  show ?case
  proof (cases "f x = i")
    case True
    with Cons.prems have "\<forall>y \<in> set xs. f y \<noteq> i" by (metis distinct.simps(2) image_eqI list.set_map list.simps(9))
    then have "filter (\<lambda>x. f x \<noteq> i) xs = xs" "filter (\<lambda>x. f x \<noteq> i) (take n xs) = take n xs"
      by (auto simp: filter_id_conv dest: in_set_takeD)
    with True show ?thesis by simp
  next
    case False
    with Cons show ?thesis by (cases n) auto
  qed
qed simp

definition store_of :: "nat \<Rightarrow> ExperimentSession list \<Rightarrow> (string \<times> ExperimentSession) list" where
  "store_of m ss = rev (map (\<lambda>s. (es_experiment_id s, s)) (take m (latest ss)))"

lemma put_store_of:
  assumes "0 < ss_max st" and "ss_sessions st = store_of (ss_max st) ss"
  shows "ss_sessions (put_session s st) = store_of (ss_max st) (s # ss)"
proof -
  obtain n where n: "ss_max st = Suc n" using assms(1) by (cases "ss_max st") auto
  let ?i = "es_experiment_id s"
  let ?keep = "filter (\<lambda>t. es_experiment_id t \<noteq> ?i) (take (Suc n) (latest ss))"
  have kept: "filter (\<lambda>(j, _). j \<noteq> ?i) (store_of (Suc n) ss) =
      rev (map (\<lambda>t. (es_experiment_id t, t)) ?keep)"
    by (simp add: store_of_def rev_filter[symmetric] filter_map comp_def)
  have "ss_sessions (put_session s st) =
      rev (take (Suc n) (map (\<lambda>t. (es_experiment_id t, t)) (s # ?keep)))"
    using assms(2) kept n by (simp add: put_session_def Let_def trim_oldest_drop rev_take)
  also have "take (Suc n) (map (\<lambda>t. (es_experiment_id t, t)) (s # ?keep)) =
      map (\<lambda>t. (es_experiment_id t, t)) (take (Suc n) (latest (s # ss)))"
    using filter_one_take[OF latest_distinct, of n ?i ss] by (simp add: take_map)
  finally show ?thesis by (simp add: store_of_def n)
qed

lemma put_max [simp]: "ss_max (put_session s st) = ss_max st"
  by (simp add: put_session_def Let_def)

lemma store_after:
  assumes "new_store m = Inr st"
  shows "ss_sessions (foldr put_session ss st) = store_of (nat m) ss \<and>
    ss_max (foldr put_session ss st) = nat m \<and> 0 < nat m"
proof (induction ss)
  case Nil
  from assms show ?case by (auto simp: new_store_def store_of_def split: if_splits)
next
  case (Cons s ss)
  with put_store_of[of "foldr put_session ss st" ss s] show ?case by simp
qed

text \<open>
  C40. The store refines its specification: after any sequence of \<open>put\<close>s (newest first in \<open>ss\<close>), \<open>list\<close>
  gives the latest session of each experiment, newest first, cut to \<open>max_sessions\<close>, and \<open>get\<close> finds
  exactly these.
\<close>

theorem session_store_refines:
  assumes "new_store m = Inr st"
  shows "list_sessions (foldr put_session ss st) = take (nat m) (latest ss) \<and>
    length (list_sessions (foldr put_session ss st)) \<le> nat m \<and>
    (\<forall>i s. get_session i (foldr put_session ss st) = Some s \<longleftrightarrow>
       s \<in> set (take (nat m) (latest ss)) \<and> es_experiment_id s = i)"
proof -
  let ?l = "take (nat m) (latest ss)"
  have st: "ss_sessions (foldr put_session ss st) = rev (map (\<lambda>s. (es_experiment_id s, s)) ?l)"
    using store_after[OF assms, of ss] by (simp add: store_of_def)
  have "distinct (map es_experiment_id ?l)"
    using latest_distinct[of ss] by (simp add: take_map[symmetric])
  then have "distinct (map fst (rev (map (\<lambda>s. (es_experiment_id s, s)) ?l)))"
    by (simp add: rev_map[symmetric] comp_def)
  then have "get_session i (foldr put_session ss st) = Some s \<longleftrightarrow> s \<in> set ?l \<and> es_experiment_id s = i" for i s
    by (auto simp: get_session_def st map_of_eq_Some_iff)
  with st show ?thesis by (simp add: list_sessions_def rev_map comp_def)
qed


definition demo_session :: "string \<Rightarrow> string \<Rightarrow> ExperimentSession" where
  "demo_session i status = \<lparr>es_experiment_id = i, es_created_at = [], es_mode = ''dry_run'',
     es_guard_backend = ''python'', es_status = status, es_protocol_profile = [], es_condition = [],
     es_stages = [], es_active_agents = [], es_human_review_required = False, es_artifacts = []\<rparr>"

theorem session_store_refines_witness:
  "\<exists>st. new_store 2 = Inr st \<and>
     list_sessions (foldr put_session
       [demo_session ''b'' ''recovered'', demo_session ''c'' ''failed'', demo_session ''b'' ''failed'',
        demo_session ''a'' ''failed''] st) =
     [demo_session ''b'' ''recovered'', demo_session ''c'' ''failed'']"
proof -
  have st: "new_store 2 = Inr \<lparr>ss_max = 2, ss_sessions = []\<rparr>" by (simp add: new_store_def)
  show ?thesis
    by (rule exI[of _ "\<lparr>ss_max = 2, ss_sessions = []\<rparr>"],
      simp only: st session_store_refines[OF st]) (simp add: demo_session_def numeral_2_eq_2)
qed

end
