(* ===== verification/ChaosAdapter.thy ===== *)
theory ChaosAdapter
  imports TraceLogic
begin

text \<open>
  \<open>chaos_adapter.py\<close>: the adapter that injects registered Chaos Mesh faults. A path is the list of
  the parts of a resolved absolute path. What the adapter asks the system for (reading a manifest,
  running \<open>kubectl\<close>, the clock) is in \<open>chaos_env\<close>; each command handed to the process
  runner is the effect \<open>Ran argv\<close>.
\<close>

section \<open>Paths and registration\<close>

type_synonym path = "string list"

definition path_text :: "path \<Rightarrow> string" where
  "path_text p = ''/'' @ join ''/'' p"

record ChaosScenario =
  sc_scenario_id :: string
  sc_manifest :: path
  sc_kind :: string

text \<open>A value of the mapping given to the constructor: a path, and its \<open>incident_source\<close> if it has one.\<close>

record registered_manifest =
  rm_absolute :: bool
  rm_parts :: path
  rm_incident_source :: "string option"

record chaos_adapter =
  ad_scenarios :: "(string, ChaosScenario) dict"
  ad_manifest_root :: path
  ad_wait_timeout :: int
  ad_command_timeout :: int

definition resolve_manifest :: "(path \<Rightarrow> path) \<Rightarrow> path \<Rightarrow> path \<Rightarrow> registered_manifest \<Rightarrow> path" where
  "resolve_manifest resolve repository_root manifest_root m =
     (if rm_absolute m then resolve (rm_parts m)
      else if rm_parts m \<noteq> [] \<and> lower (hd (rm_parts m)) = lower (last manifest_root)
      then resolve (repository_root @ rm_parts m)
      else resolve (manifest_root @ rm_parts m))"

definition scenario_id_of :: "string \<Rightarrow> (exn, string) result" where
  "scenario_id_of v =
     (if strip v = '''' then Inl (ValueError ''scenario id must not be empty'') else Inr (strip v))"

text \<open>\<open>resolve\<close> is \<open>Path.resolve\<close>, which follows the symbolic links of the file system.\<close>

definition new_chaos_adapter ::
  "(path \<Rightarrow> path) \<Rightarrow> path \<Rightarrow> (string \<times> registered_manifest) list \<Rightarrow> int \<Rightarrow> int \<Rightarrow>
   (exn, chaos_adapter) result" where
  "new_chaos_adapter resolve repository scenarios wait_timeout command_timeout =
     rbind (raise_if (wait_timeout < 1) (ValueError ''wait_timeout_seconds must be positive'')) (\<lambda>_.
     rbind (raise_if (command_timeout < 1) (ValueError ''command_timeout_seconds must be positive'')) (\<lambda>_.
     (let root = resolve repository; manifest_root = resolve (root @ [''k8s'']) in
      rbind (rmap (\<lambda>(key, m). rbind (scenario_id_of key) (\<lambda>i.
          Inr (i, \<lparr>sc_scenario_id = key, sc_manifest = resolve_manifest resolve root manifest_root m,
                   sc_kind = ''''\<rparr>)))
        (filter (\<lambda>(key, m). (case rm_incident_source m of None \<Rightarrow> True | Some s \<Rightarrow> s = ''chaos_mesh''))
          scenarios)) (\<lambda>entries.
      Inr \<lparr>ad_scenarios = dict_of entries, ad_manifest_root = manifest_root,
           ad_wait_timeout = wait_timeout, ad_command_timeout = command_timeout\<rparr>))))"

section \<open>Results\<close>

record ChaosPreflight =
  cp_valid :: bool
  cp_stdout :: string
  cp_stderr :: string
  cp_scenario_id :: "string option"
  cp_manifest :: "string option"
  cp_resource_kind :: "string option"
  cp_missing_prerequisites :: "string list"

definition chaos_preflight_result :: "bool \<Rightarrow> string \<Rightarrow> string \<Rightarrow> ChaosPreflight" where
  "chaos_preflight_result valid stdout stderr =
     \<lparr>cp_valid = valid, cp_stdout = stdout, cp_stderr = stderr, cp_scenario_id = None,
      cp_manifest = None, cp_resource_kind = None, cp_missing_prerequisites = []\<rparr>"

record ChaosApplication =
  ap_scenario :: ChaosScenario
  ap_applied_at :: string
  ap_valid :: bool
  ap_stdout :: string
  ap_stderr :: string
  ap_cleanup_required :: bool

record ChaosCleanup =
  cl_valid :: bool
  cl_stdout :: string
  cl_stderr :: string
  cl_cleanup_required :: bool

section \<open>Reading a manifest\<close>

definition line_break :: "char \<Rightarrow> bool" where
  "line_break c = (code_point c \<in> {10, 11, 12, 13, 28, 29, 30, 133})"

text \<open>\<open>str.splitlines\<close>; the first argument is the current line.\<close>

fun split_lines :: "string \<Rightarrow> string \<Rightarrow> string list" where
  "split_lines cur [] = (if cur = [] then [] else [cur])"
| "split_lines cur [c] = (if line_break c then [cur] else [cur @ [c]])"
| "split_lines cur (c # d # cs) =
     (if code_point c = 13 \<and> code_point d = 10 then cur # split_lines [] cs
      else if line_break c then cur # split_lines [] (d # cs)
      else split_lines (cur @ [c]) (d # cs))"

text \<open>\<open>str.split()\<close>.\<close>

fun split_words :: "string \<Rightarrow> string \<Rightarrow> string list" where
  "split_words cur [] = (if cur = [] then [] else [cur])"
| "split_words cur (c # cs) =
     (if is_space c then (if cur = [] then [] else [cur]) @ split_words [] cs
      else split_words (cur @ [c]) cs)"

definition ascii_alnum :: "char \<Rightarrow> bool" where
  "ascii_alnum c = (let n = code_point c in
     (48 \<le> n \<and> n \<le> 57) \<or> (65 \<le> n \<and> n \<le> 90) \<or> (97 \<le> n \<and> n \<le> 122))"

text \<open>
  The match of \<open>^\s*kind\s*:\s*([A-Za-z0-9]+)\s*(?:#.*)?$\<close> on a line; giving characters of the group
  back never helps, since what follows must be space, a comment or the end.
\<close>

definition kind_on_line :: "string \<Rightarrow> string option" where
  "kind_on_line line =
     (let s = dropWhile is_space line in
      if \<not> startswith s ''kind'' then None
      else case dropWhile is_space (drop 4 s) of
          [] \<Rightarrow> None
        | c # cs \<Rightarrow>
            (if c \<noteq> CHR '':'' then None
             else let body = dropWhile is_space cs;
                    kind = takeWhile ascii_alnum body;
                    rest = dropWhile is_space (dropWhile ascii_alnum body)
                  in if kind \<noteq> [] \<and> (rest = [] \<or> hd rest = CHR ''#'') then Some kind else None))"

definition supported_kinds :: "string list" where
  "supported_kinds = [''stresschaos'', ''networkchaos'', ''podchaos'', ''iochaos'', ''timechaos'']"

fun find_kind :: "path \<Rightarrow> string list \<Rightarrow> (exn, string) result" where
  "find_kind p [] = Inl (ValueError (''manifest kind is missing: '' @ path_text p))"
| "find_kind p (line # lines) =
     (case kind_on_line line of
        None \<Rightarrow> find_kind p lines
      | Some kind \<Rightarrow>
          if lower kind \<notin> set supported_kinds
          then Inl (ValueError (''unsupported Chaos Mesh resource kind: '' @ kind))
          else Inr kind)"

section \<open>The system around the adapter\<close>

text \<open>What the process runner does with a command.\<close>

datatype run_outcome =
    Finished int string string
  | TimedOut "string option" "string option"
  | RunOSError string
  | RunOtherError string

record 'w chaos_env =
  xe_read_text :: "path \<Rightarrow> 'w \<Rightarrow> (exn, string) result \<times> 'w"
  xe_is_file :: "path \<Rightarrow> 'w \<Rightarrow> (exn, bool) result \<times> 'w"
  xe_run :: "string list \<Rightarrow> int \<Rightarrow> 'w \<Rightarrow> run_outcome \<times> 'w"
  xe_now :: "'w \<Rightarrow> string \<times> 'w"
  xe_sleep :: "'w \<Rightarrow> (exn, unit) result \<times> 'w"

definition command_output :: "string option \<Rightarrow> string" where
  "command_output v = (case v of None \<Rightarrow> '''' | Some s \<Rightarrow> s)"

definition command_timeout :: "chaos_adapter \<Rightarrow> string list \<Rightarrow> int" where
  "command_timeout ad argv =
     (if 1 < length argv \<and> argv ! 1 = ''wait'' then ad_command_timeout ad + ad_wait_timeout ad
      else ad_command_timeout ad)"

definition run_result :: "int \<Rightarrow> run_outcome \<Rightarrow> int \<times> string \<times> string" where
  "run_result timeout out =
     (case out of
        Finished code stdout stderr \<Rightarrow> (code, stdout, stderr)
      | TimedOut stdout stderr \<Rightarrow>
          (124, command_output stdout,
           command_output stderr @ ''command timed out after '' @ int_str timeout @ ''s'')
      | RunOSError m \<Rightarrow> (126, '''', m)
      | RunOtherError m \<Rightarrow> (125, '''', m))"

definition chaos_run ::
  "'w chaos_env \<Rightarrow> chaos_adapter \<Rightarrow> string list \<Rightarrow> ('w, int \<times> string \<times> string) prog" where
  "chaos_run env ad argv =
     pbind (emit (Ran argv)) (\<lambda>_.
     pbind (pgets (xe_run env argv (command_timeout ad argv))) (\<lambda>out.
     preturn (run_result (command_timeout ad argv) out)))"

definition manifest_safe :: "chaos_adapter \<Rightarrow> path \<Rightarrow> bool" where
  "manifest_safe ad p = (take (length (ad_manifest_root ad)) p = ad_manifest_root ad)"

definition assert_manifest_is_safe :: "chaos_adapter \<Rightarrow> path \<Rightarrow> ('w, unit) prog" where
  "assert_manifest_is_safe ad p = plift (raise_if (\<not> manifest_safe ad p)
     (ValueError (''manifest must resolve under '' @ path_text (ad_manifest_root ad) @ '': '' @ path_text p)))"

definition read_kind :: "'w chaos_env \<Rightarrow> path \<Rightarrow> ('w, string) prog" where
  "read_kind env p =
     pbind (ptry (pcall (xe_read_text env p))
        (\<lambda>e. if is_os_error e then pthrow (ValueError (''cannot read manifest: '' @ path_text p))
             else pthrow e)) (\<lambda>content.
     plift (find_kind p (split_lines [] content)))"

section \<open>Operations\<close>

definition api_resources :: "string list" where
  "api_resources = [''kubectl'', ''api-resources'']"

definition apply_command :: "path \<Rightarrow> string list" where
  "apply_command p = [''kubectl'', ''apply'', ''-f'', path_text p]"

definition wait_command :: "chaos_adapter \<Rightarrow> path \<Rightarrow> string list" where
  "wait_command ad p = [''kubectl'', ''wait'', ''--for=condition=AllInjected'', ''-f'', path_text p,
     ''--timeout='' @ int_str (ad_wait_timeout ad) @ ''s'']"

definition delete_command :: "path \<Rightarrow> string list" where
  "delete_command p = [''kubectl'', ''delete'', ''-f'', path_text p, ''--ignore-not-found'']"

definition chaos_catch :: "(exn \<Rightarrow> 'a) \<Rightarrow> ('w, 'a) prog \<Rightarrow> ('w, 'a) prog" where
  "chaos_catch h m = ptry m (\<lambda>e. if is_os_error e \<or> is_value_error e then preturn (h e) else pthrow e)"

definition available_resources :: "string \<Rightarrow> string list" where
  "available_resources stdout = map lower (concat (map (split_words []) (split_lines [] stdout)))"

fun check_manifests :: "'w chaos_env \<Rightarrow> chaos_adapter \<Rightarrow> ChaosScenario list \<Rightarrow> ('w, unit) prog" where
  "check_manifests env ad [] = preturn ()"
| "check_manifests env ad (s # ss) =
     pbind (assert_manifest_is_safe ad (sc_manifest s)) (\<lambda>_.
     pbind (pcall (xe_is_file env (sc_manifest s))) (\<lambda>present.
     if \<not> present then pthrow (ValueError (''manifest does not exist: '' @ path_text (sc_manifest s)))
     else pbind (read_kind env (sc_manifest s)) (\<lambda>_. check_manifests env ad ss)))"

fun required_kinds :: "'w chaos_env \<Rightarrow> ChaosScenario list \<Rightarrow> ('w, string list) prog" where
  "required_kinds env [] = preturn []"
| "required_kinds env (s # ss) =
     pbind (read_kind env (sc_manifest s)) (\<lambda>kind.
     pbind (required_kinds env ss) (\<lambda>kinds. preturn (lower kind # kinds)))"

definition chaos_preflight :: "'w chaos_env \<Rightarrow> chaos_adapter \<Rightarrow> ('w, ChaosPreflight) prog" where
  "chaos_preflight env ad =
     chaos_catch (\<lambda>e. chaos_preflight_result False '''' (exn_str e))
       (pbind (check_manifests env ad (map snd (ad_scenarios ad))) (\<lambda>_.
        pbind (required_kinds env (map snd (ad_scenarios ad))) (\<lambda>required.
        if required = [] then preturn (chaos_preflight_result False '''' ''no chaos scenarios are registered'')
        else
          pbind (chaos_run env ad api_resources) (\<lambda>(code, stdout, stderr).
          if code \<noteq> 0 then preturn (chaos_preflight_result False stdout
              (if stderr = '''' then ''kubectl api-resources failed'' else stderr))
          else
            (let missing = sort (filter (\<lambda>k. k \<notin> set (available_resources stdout)) (remdups required))
             in if missing \<noteq> [] then preturn ((chaos_preflight_result False stdout
                    (''missing Chaos Mesh resources: '' @ join '', '' missing))
                    \<lparr>cp_missing_prerequisites := map (\<lambda>k. ''chaos_mesh.resource_kind:'' @ k) missing\<rparr>)
                else preturn (chaos_preflight_result True stdout stderr))))))"

definition scenario_preflight ::
  "bool \<Rightarrow> string \<Rightarrow> string \<Rightarrow> ChaosScenario \<Rightarrow> string option \<Rightarrow> string list \<Rightarrow> ChaosPreflight" where
  "scenario_preflight valid stdout stderr s kind missing =
     \<lparr>cp_valid = valid, cp_stdout = stdout, cp_stderr = stderr,
      cp_scenario_id = Some (sc_scenario_id s), cp_manifest = Some (path_text (sc_manifest s)),
      cp_resource_kind = kind, cp_missing_prerequisites = missing\<rparr>"

definition preflight_scenario :: "'w chaos_env \<Rightarrow> chaos_adapter \<Rightarrow> string \<Rightarrow> ('w, ChaosPreflight) prog" where
  "preflight_scenario env ad scenario_id =
     (case dict_get (ad_scenarios ad) (strip scenario_id) of
        None \<Rightarrow> preturn \<lparr>cp_valid = False, cp_stdout = '''', cp_stderr = '''',
          cp_scenario_id = Some scenario_id, cp_manifest = None, cp_resource_kind = None,
          cp_missing_prerequisites = [''scenario:'' @ scenario_id]\<rparr>
      | Some s \<Rightarrow>
          (let no_manifest = scenario_preflight False '''' '''' s None
                 [''scenario_manifest:'' @ sc_scenario_id s] in
           chaos_catch (\<lambda>_. no_manifest)
             (pbind (assert_manifest_is_safe ad (sc_manifest s)) (\<lambda>_.
              pbind (pcall (xe_is_file env (sc_manifest s))) (\<lambda>present.
              if \<not> present then preturn no_manifest
              else
                pbind (read_kind env (sc_manifest s)) (\<lambda>kind.
                pbind (chaos_run env ad api_resources) (\<lambda>(code, stdout, stderr).
                preturn
                  (if code \<noteq> 0 then scenario_preflight False stdout
                     ''Chaos Mesh resource discovery unavailable'' s (Some kind)
                     [''chaos_mesh.api_resources'']
                   else if lower kind \<notin> set (available_resources stdout) then
                     scenario_preflight False stdout ''Chaos Mesh resource kind is unavailable'' s
                       (Some kind) [''chaos_mesh.resource_kind:'' @ kind]
                   else scenario_preflight True stdout stderr s (Some kind) []))))))))"

definition chaos_inject :: "'w chaos_env \<Rightarrow> chaos_adapter \<Rightarrow> string \<Rightarrow> ('w, ChaosApplication) prog" where
  "chaos_inject env ad scenario_id =
     (case dict_get (ad_scenarios ad) (strip scenario_id) of
        None \<Rightarrow> pthrow (ValueError (''unknown chaos scenario: '' @ scenario_id))
      | Some registered \<Rightarrow>
          pbind (assert_manifest_is_safe ad (sc_manifest registered)) (\<lambda>_.
          pbind (read_kind env (sc_manifest registered)) (\<lambda>kind.
          let s = registered\<lparr>sc_kind := kind\<rparr> in
          pbind (pgets (xe_now env)) (\<lambda>applied_at.
          pbind (chaos_run env ad (apply_command (sc_manifest s))) (\<lambda>(code, out, err).
          let applied = \<lparr>ap_scenario = s, ap_applied_at = applied_at, ap_valid = False,
            ap_stdout = out, ap_stderr = err, ap_cleanup_required = True\<rparr> in
          if code \<noteq> 0 then preturn applied
          else
            pbind (ptry (pbind (pcall (xe_sleep env)) (\<lambda>_. preturn None))
               (\<lambda>e. preturn (Some (exn_str e)))) (\<lambda>interrupted.
            case interrupted of
              Some m \<Rightarrow> preturn (applied\<lparr>ap_stderr := err @ m\<rparr>)
            | None \<Rightarrow>
                pbind (chaos_run env ad (wait_command ad (sc_manifest s))) (\<lambda>(wait_code, wait_out, wait_err).
                preturn (applied\<lparr>ap_valid := (wait_code = 0), ap_stdout := out @ wait_out,
                  ap_stderr := err @ wait_err\<rparr>))))))))"

definition chaos_cleanup :: "'w chaos_env \<Rightarrow> chaos_adapter \<Rightarrow> ChaosApplication \<Rightarrow> ('w, ChaosCleanup) prog" where
  "chaos_cleanup env ad application =
     pbind (assert_manifest_is_safe ad (sc_manifest (ap_scenario application))) (\<lambda>_.
     pbind (chaos_run env ad (delete_command (sc_manifest (ap_scenario application))))
       (\<lambda>(code, stdout, stderr).
     preturn \<lparr>cl_valid = (code = 0), cl_stdout = stdout, cl_stderr = stderr,
              cl_cleanup_required = (code \<noteq> 0)\<rparr>))"

section \<open>What the adapter does to the cluster\<close>

lemma read_kind_silent: "emits P (read_kind env p)"
  unfolding read_kind_def by (intro prog_rules)

lemma chaos_run_emits: "P (Ran argv) \<Longrightarrow> emits P (chaos_run env ad argv)"
  unfolding chaos_run_def by (intro prog_rules)

lemma assert_safe_bind:
  "(manifest_safe ad p \<Longrightarrow> emits P (f ())) \<Longrightarrow> emits P (pbind (assert_manifest_is_safe ad p) f)"
  unfolding assert_manifest_is_safe_def by (rule emits_plift_bind) (auto simp: raise_if_def split: if_splits)

lemma chaos_catch_emits: "emits P m \<Longrightarrow> emits P (chaos_catch h m)"
  unfolding chaos_catch_def by (intro prog_rules)

lemma check_manifests_emits: "emits P (check_manifests env ad ss)"
  by (induction ss) (auto intro!: prog_rules assert_safe_bind read_kind_silent)

lemma required_kinds_emits: "emits P (required_kinds env ss)"
  by (induction ss) (auto intro!: prog_rules read_kind_silent)

lemma chaos_preflight_emits: "P (Ran api_resources) \<Longrightarrow> emits P (chaos_preflight env ad)"
  unfolding chaos_preflight_def Let_def
  by (intro chaos_catch_emits prog_rules check_manifests_emits required_kinds_emits chaos_run_emits)

lemma preflight_scenario_emits: "P (Ran api_resources) \<Longrightarrow> emits P (preflight_scenario env ad i)"
  unfolding preflight_scenario_def Let_def
  by (intro chaos_catch_emits prog_rules assert_safe_bind read_kind_silent chaos_run_emits)

lemma chaos_cleanup_emits:
  "(manifest_safe ad (sc_manifest (ap_scenario ap)) \<Longrightarrow>
     P (Ran (delete_command (sc_manifest (ap_scenario ap))))) \<Longrightarrow> emits P (chaos_cleanup env ad ap)"
  unfolding chaos_cleanup_def by (intro prog_rules assert_safe_bind chaos_run_emits)

text \<open>What an injection returns, and when it raises: before the first command.\<close>

definition registered_application :: "chaos_adapter \<Rightarrow> string \<Rightarrow> ChaosApplication \<Rightarrow> bool" where
  "registered_application ad i ap \<longleftrightarrow> (\<exists>s. dict_get (ad_scenarios ad) (strip i) = Some s \<and>
     ap_scenario ap = s\<lparr>sc_kind := sc_kind (ap_scenario ap)\<rparr> \<and>
     lower (sc_kind (ap_scenario ap)) \<in> set supported_kinds \<and>
     manifest_safe ad (sc_manifest s) \<and> ap_cleanup_required ap)"

lemma find_kind_supported: "find_kind p ls = Inr k \<Longrightarrow> lower k \<in> set supported_kinds"
  by (induction ls) (auto split: option.splits if_splits)

lemma read_kind_supported: "returns (\<lambda>k. lower k \<in> set supported_kinds) (read_kind env p)"
  unfolding read_kind_def by (rule returns_pbind_any) (auto simp: returns_def dest: find_kind_supported)

lemma chaos_inject_returns: "returns (registered_application ad i) (chaos_inject env ad i)"
proof (cases "dict_get (ad_scenarios ad) (strip i)")
  case None
  then show ?thesis by (simp add: chaos_inject_def returns_pthrow)
next
  case (Some s)
  show ?thesis
    unfolding chaos_inject_def Some option.case assert_manifest_is_safe_def Let_def
    by (intro returns_plift_bind returns_pbind[OF read_kind_supported] returns_pbind_any)
      (auto simp: raise_if_def registered_application_def Some split: if_splits option.splits
        intro!: returns_preturn returns_pbind_any)
qed

text \<open>
  The commands of one operation, in their order, with its outcome.
\<close>

definition performs :: "('w, 'a) prog \<Rightarrow> ((exn, 'a) result \<Rightarrow> effect list \<Rightarrow> bool) \<Rightarrow> bool" where
  "performs m P \<longleftrightarrow> (\<forall>s. \<exists>new. sys_trace (snd (m s)) = new @ sys_trace s \<and> P (fst (m s)) (rev new))"

text \<open>The monitor that keeps what it sees proves such statements with the rules of the trace logic.\<close>

definition recorder :: "effect list monitor_step" where
  "recorder q e = Some (q @ [e])"

lemma follow_recorder: "follow recorder q es = Some (q @ es)"
  by (induction es arbitrary: q) (simp_all add: recorder_def)

lemma guided_performs: "guided recorder [] m P \<Longrightarrow> performs m P"
  unfolding performs_def guided_def reaches_def follow_recorder
  by (metis append_Nil option.inject prod.collapse)

lemma performs_returns:
  assumes "performs m P" "returns R m"
  shows "performs m (\<lambda>r cs. P r cs \<and> (\<forall>x. r = Inr x \<longrightarrow> R x))"
proof -
  have "\<forall>x. fst (m s) = Inr x \<longrightarrow> R x" for s
    using assms(2) unfolding returns_def by (metis prod.collapse)
  with assms(1) show ?thesis unfolding performs_def by blast
qed

lemma performs_mono: "performs m P \<Longrightarrow> (\<And>r cs. P r cs \<Longrightarrow> Q r cs) \<Longrightarrow> performs m Q"
  unfolding performs_def by blast

lemma silent_no_effect: "emits (\<lambda>e. False) m \<Longrightarrow> silent m"
  unfolding emits_def silent_def by fastforce

lemma guided_quiet: "emits (\<lambda>e. False) m \<Longrightarrow> (\<And>e. Q (Inl e) q) \<Longrightarrow> (\<And>x. guided delta q (f x) Q) \<Longrightarrow>
   guided delta q (pbind m f) Q"
  by (rule guided_pbind[where R = "\<lambda>r q'. q' = q"]) (auto intro: guided_silent silent_no_effect)

lemma guided_chaos_run:
  assumes "\<And>code stdout stderr. guided recorder (q @ [Ran argv]) (f (code, stdout, stderr)) Q"
  shows "guided recorder q (pbind (chaos_run env ad argv) f) Q"
proof (rule guided_pbind)
  show "guided recorder q (chaos_run env ad argv) (\<lambda>r q'. (\<exists>x. r = Inr x) \<and> q' = q @ [Ran argv])"
  proof (rule guidedI)
    fix s r s' assume "chaos_run env ad argv s = (r, s')"
    then show "reaches recorder q s s' (\<lambda>q'. (\<exists>x. r = Inr x) \<and> q' = q @ [Ran argv])"
      by (intro reaches_one) (auto simp: chaos_run_def pbind_def emit_def pgets_def preturn_def recorder_def
          simp del: split_paired_Ex split: prod.splits)
  qed
next
  fix x q'
  show "(\<exists>y. (Inr x :: (exn, int \<times> string \<times> string) result) = Inr y) \<and> q' = q @ [Ran argv] \<Longrightarrow>
      guided recorder q' (f x) Q"
    using assms by (cases x) auto
qed simp

lemma guided_safe:
  assumes "\<And>e. \<not> manifest_safe ad p \<Longrightarrow> Q (Inl e) q" "manifest_safe ad p \<Longrightarrow> guided delta q (f ()) Q"
  shows "guided delta q (pbind (assert_manifest_is_safe ad p) f) Q"
  unfolding assert_manifest_is_safe_def
  by (rule guided_plift_bind) (use assms in \<open>auto simp: raise_if_def split: if_splits\<close>)

text \<open>What each operation may do, with the commands written out.\<close>

definition discovers :: "(exn, ChaosPreflight) result \<Rightarrow> effect list \<Rightarrow> bool" where
  "discovers r cs \<longleftrightarrow> cs = [Ran [''kubectl'', ''api-resources'']] \<or>
     (cs = [] \<and> (case r of Inl e \<Rightarrow> True | Inr p \<Rightarrow> \<not> cp_valid p))"

definition under_root :: "chaos_adapter \<Rightarrow> path \<Rightarrow> bool" where
  "under_root ad p \<longleftrightarrow> (\<exists>rest. p = ad_manifest_root ad @ rest)"

lemma manifest_safe_root: "manifest_safe ad p \<longleftrightarrow> under_root ad p"
  unfolding manifest_safe_def under_root_def by (metis append_eq_conv_conj append_take_drop_id)

definition injects :: "chaos_adapter \<Rightarrow> string \<Rightarrow> (exn, ChaosApplication) result \<Rightarrow> effect list \<Rightarrow> bool" where
  "injects ad i r cs \<longleftrightarrow>
     (case r of
        Inl e \<Rightarrow> cs = []
      | Inr ap \<Rightarrow>
          (\<exists>s. dict_get (ad_scenarios ad) (strip i) = Some s \<and> under_root ad (sc_manifest s) \<and>
             ap_scenario ap = s\<lparr>sc_kind := sc_kind (ap_scenario ap)\<rparr> \<and>
             lower (sc_kind (ap_scenario ap)) \<in>
               {''stresschaos'', ''networkchaos'', ''podchaos'', ''iochaos'', ''timechaos''} \<and>
             ap_cleanup_required ap \<and>
             (let file = path_text (sc_manifest s);
                  apply_it = Ran [''kubectl'', ''apply'', ''-f'', file];
                  wait_for_it = Ran [''kubectl'', ''wait'', ''--for=condition=AllInjected'', ''-f'', file,
                    ''--timeout='' @ int_str (ad_wait_timeout ad) @ ''s''] in
              (cs = [apply_it] \<and> \<not> ap_valid ap) \<or> cs = [apply_it, wait_for_it])))"

definition cleans_up :: "chaos_adapter \<Rightarrow> ChaosApplication \<Rightarrow> (exn, ChaosCleanup) result \<Rightarrow> effect list \<Rightarrow> bool" where
  "cleans_up ad ap r cs \<longleftrightarrow>
     (let p = sc_manifest (ap_scenario ap) in
      case r of
        Inl e \<Rightarrow> cs = [] \<and> \<not> under_root ad p
      | Inr cl \<Rightarrow> under_root ad p \<and> cs = [Ran [''kubectl'', ''delete'', ''-f'', path_text p, ''--ignore-not-found'']] \<and>
          (cl_cleanup_required cl = (\<not> cl_valid cl)))"

lemma chaos_preflight_discovers: "performs (chaos_preflight env ad) discovers"
proof (rule guided_performs)
  show "guided recorder [] (chaos_preflight env ad) discovers"
    unfolding chaos_preflight_def chaos_catch_def Let_def
    by (rule guided_ptry[where R = discovers],
        intro guided_quiet check_manifests_emits required_kinds_emits guided_if guided_chaos_run)
      (auto simp: discovers_def api_resources_def chaos_preflight_result_def
        intro!: guided_preturn guided_pthrow)
qed

lemma preflight_scenario_discovers: "performs (preflight_scenario env ad i) discovers"
proof (rule guided_performs, cases "dict_get (ad_scenarios ad) (strip i)")
  case None
  then show "guided recorder [] (preflight_scenario env ad i) discovers"
    by (auto simp: preflight_scenario_def discovers_def intro!: guided_preturn)
next
  case (Some s)
  show "guided recorder [] (preflight_scenario env ad i) discovers"
    unfolding preflight_scenario_def Some option.case chaos_catch_def Let_def
    by (rule guided_ptry[where R = discovers],
        intro guided_safe guided_quiet emits_pcall read_kind_silent guided_if guided_chaos_run)
      (auto simp: discovers_def api_resources_def scenario_preflight_def intro!: guided_preturn guided_pthrow)
qed

lemma chaos_cleanup_cleans: "performs (chaos_cleanup env ad ap) (cleans_up ad ap)"
  unfolding chaos_cleanup_def
  by (rule guided_performs, intro guided_safe guided_chaos_run)
    (auto simp: cleans_up_def delete_command_def manifest_safe_root intro!: guided_preturn)

lemma chaos_inject_commands:
  assumes "dict_get (ad_scenarios ad) (strip i) = Some s"
  shows "performs (chaos_inject env ad i) (\<lambda>r cs. case r of Inl e \<Rightarrow> cs = []
    | Inr ap \<Rightarrow> (cs = [Ran (apply_command (sc_manifest s))] \<and> \<not> ap_valid ap) \<or>
        cs = [Ran (apply_command (sc_manifest s)), Ran (wait_command ad (sc_manifest s))])"
    (is "performs _ ?Q")
proof (rule guided_performs)
  have sleep: "guided recorder q (pbind (ptry (pbind (pcall (xe_sleep env)) (\<lambda>_. preturn None))
      (\<lambda>e. preturn (Some (exn_str e)))) f) ?Q" if "\<And>x. guided recorder q (f x) ?Q" for q f
    by (rule guided_pbind[where R = "\<lambda>r q'. (\<exists>x. r = Inr x) \<and> q' = q"], rule guided_ptry[where R = "\<lambda>r q'. q' = q \<and>
        (\<forall>x. r = Inr x \<longrightarrow> x = None)"])
      (auto intro!: guided_pcall_bind guided_preturn that)
  show "guided recorder [] (chaos_inject env ad i) ?Q"
    unfolding chaos_inject_def assms option.case Let_def
    by (intro guided_safe guided_quiet read_kind_silent emits_pgets guided_chaos_run)
      (auto intro!: sleep guided_preturn guided_chaos_run split: option.splits)
qed

lemma chaos_inject_injects: "performs (chaos_inject env ad i) (injects ad i)"
proof (cases "dict_get (ad_scenarios ad) (strip i)")
  case None
  then show ?thesis
    by (intro guided_performs) (auto simp: chaos_inject_def injects_def intro!: guided_pthrow)
next
  case (Some s)
  from performs_returns[OF chaos_inject_commands[OF Some, of env] chaos_inject_returns[of ad i env]]
  show ?thesis
    by (rule performs_mono)
      (auto simp: injects_def registered_application_def Some apply_command_def wait_command_def
        manifest_safe_root supported_kinds_def Let_def split: sum.splits)
qed

text \<open>
  C16. Only registered faults reach the cluster, and these are the commands. A preflight runs nothing
  but \<open>kubectl api-resources\<close>, at most once, and finds the adapter ready only after it. An injection
  that raises has run nothing; one that returns has applied the manifest registered under the
  requested scenario, which lies under the manifest root, and then waited for it or reports a failure;
  its application is of that scenario, of a supported kind and marked for cleanup. A cleanup that
  raises has run nothing, and only because the manifest lies outside the root; one that returns has run
  exactly the \<open>kubectl delete\<close> of the application's manifest.
\<close>

theorem chaos_registered_only:
  "performs (chaos_preflight env ad) discovers \<and> performs (preflight_scenario env ad i) discovers \<and>
   performs (chaos_inject env ad i) (injects ad i) \<and> performs (chaos_cleanup env ad ap) (cleans_up ad ap)"
  by (intro conjI chaos_preflight_discovers preflight_scenario_discovers chaos_inject_injects
      chaos_cleanup_cleans)

section \<open>Faults left behind\<close>

text \<open>
  A monitor of the faults in the cluster: its state is the manifest that was applied and not yet
  deleted. At most one fault is active, only an active fault is deleted, and no lock is left while a
  fault is active. An apply counts as active even if the command fails: it may have taken effect.
\<close>

definition fault_step :: "string option monitor_step" where
  "fault_step q e =
     (case e of
        Ran argv \<Rightarrow>
          (if take 3 argv = [''kubectl'', ''apply'', ''-f''] then (if q = None then Some (Some (argv ! 3)) else None)
           else if take 3 argv = [''kubectl'', ''delete'', ''-f''] then
             (if q = Some (argv ! 3) then Some None else None)
           else Some q)
      | LockExited ns dep \<Rightarrow> (if q = None then Some q else None)
      | _ \<Rightarrow> Some q)"

text \<open>The effects it does not look at.\<close>

definition fault_neutral :: "effect \<Rightarrow> bool" where
  "fault_neutral e \<longleftrightarrow>
     (case e of
        Ran argv \<Rightarrow> take 2 argv \<notin> {[''kubectl'', ''apply''], [''kubectl'', ''delete'']}
      | LockExited ns dep \<Rightarrow> False
      | _ \<Rightarrow> True)"

lemma take_two: "take 3 xs = [a, b, c] \<Longrightarrow> take 2 xs = [a, b]"
  by (cases xs; cases "tl xs") auto

lemma fault_neutral_step: "fault_neutral e \<Longrightarrow> fault_step q e = Some q"
  by (cases e) (auto simp: fault_neutral_def fault_step_def dest: take_two)

lemma guided_fault_neutral:
  assumes "emits fault_neutral m" and "\<And>r. Q r q"
  shows "guided fault_step q m Q"
proof -
  have "guided fault_step q m (\<lambda>r q'. q' = q)"
    using assms(1) by (rule guided_emits) (simp_all add: fault_neutral_step)
  then show ?thesis by (rule guided_mono) (simp add: assms(2))
qed

lemma guided_pgets_bind: "(\<And>x. guided delta q (f x) Q) \<Longrightarrow> guided delta q (pbind (pgets g) f) Q"
proof (rule guidedI)
  fix s r s'
  assume f: "\<And>x. guided delta q (f x) Q" and run: "pbind (pgets g) f s = (r, s')"
  obtain x w where g: "g (sys_world s) = (x, w)" by (cases "g (sys_world s)")
  with run have "f x (s\<lparr>sys_world := w\<rparr>) = (r, s')" by (simp add: pbind_def pgets_def)
  from guidedD[OF f this] show "reaches delta q s s' (Q r)" by (simp add: reaches_def)
qed

lemma guided_total_silent:
  assumes "silent m" and "delivers m (\<lambda>_. True)" and "\<And>x. Q (Inr x) q"
  shows "guided delta q m Q"
proof (rule guidedI)
  fix s r s'
  assume run: "m s = (r, s')"
  then have "sys_trace s' = sys_trace s" using assms(1) by (metis silent_def snd_conv)
  moreover obtain x where "r = Inr x" using assms(2) run by (metis delivers_def prod.inject)
  ultimately show "reaches delta q s s' (Q r)" using assms(3) by (auto intro: reaches_same)
qed

lemma delivers_caught: "(\<And>e. delivers (h e) (\<lambda>_. True)) \<Longrightarrow> delivers (ptry m h) (\<lambda>_. True)"
  unfolding delivers_def ptry_def by (auto split: prod.splits sum.splits)

lemma silent_ptry [simp]: "silent m \<Longrightarrow> (\<And>e. silent (h e)) \<Longrightarrow> silent (ptry m h)"
  unfolding silent_def ptry_def by (auto split: prod.split sum.split) (metis snd_conv)+

lemma chaos_run_guided:
  assumes "fault_step q (Ran argv) = Some q'" and "\<And>x. Q (Inr x) q'"
  shows "guided fault_step q (chaos_run env ad argv) Q"
proof -
  have "guided fault_step q' (pbind (pgets g) (\<lambda>out. preturn (f out))) Q" for g and f :: "_ \<Rightarrow> int \<times> string \<times> string"
    by (intro guided_pgets_bind guided_preturn assms(2))
  with assms(1) show ?thesis
    unfolding chaos_run_def by (auto intro!: guided_pbind[OF guided_emit[where Q = "\<lambda>r p. r = Inr () \<and> p = q'"]])
qed

definition fault_of :: "ChaosApplication \<Rightarrow> string" where
  "fault_of ap = path_text (sc_manifest (ap_scenario ap))"

lemma read_kind_guided: "(\<And>r. Q r q) \<Longrightarrow> guided fault_step q (read_kind env p) Q"
  by (rule guided_fault_neutral[OF read_kind_silent])

lemma chaos_inject_guided:
  "guided fault_step None (chaos_inject env ad i) (\<lambda>r q. q = (case r of Inl _ \<Rightarrow> None | Inr ap \<Rightarrow> Some (fault_of ap)))"
proof (cases "dict_get (ad_scenarios ad) (strip i)")
  case None
  then show ?thesis by (simp add: chaos_inject_def guided_pthrow)
next
  case (Some s)
  let ?f = "Some (path_text (sc_manifest s))"
  have step: "fault_step None (Ran (apply_command (sc_manifest s))) = Some ?f"
    "fault_step ?f (Ran (wait_command ad (sc_manifest s))) = Some ?f"
    by (simp_all add: fault_step_def apply_command_def wait_command_def)
  show ?thesis
    unfolding chaos_inject_def Some option.case assert_manifest_is_safe_def Let_def
    by (rule guided_plift_bind, simp,
        rule guided_pbind[OF read_kind_guided[where Q="\<lambda>r q. q = None"]], simp, simp,
        rule guided_pgets_bind,
        rule guided_pbind[OF chaos_run_guided[where Q = "\<lambda>r q. \<not> isl r \<and> q = ?f"]])
      (auto simp: step fault_of_def split: prod.splits option.splits
        intro!: guided_preturn guided_if chaos_run_guided[OF step(2)]
          guided_pbind[OF guided_total_silent[where Q = "\<lambda>r q. \<not> isl r \<and> q = ?f"]]
          guided_pbind[OF chaos_run_guided[OF step(2), where Q = "\<lambda>r q. \<not> isl r \<and> q = ?f"]]
          delivers_caught)
qed

lemma chaos_cleanup_guided:
  assumes "manifest_safe ad (sc_manifest (ap_scenario ap))"
  shows "guided fault_step (Some (fault_of ap)) (chaos_cleanup env ad ap) (\<lambda>r q. \<not> isl r \<and> q = None)"
proof -
  have "fault_step (Some (fault_of ap)) (Ran (delete_command (sc_manifest (ap_scenario ap)))) = Some None"
    by (simp add: fault_step_def delete_command_def fault_of_def)
  then show ?thesis
    using assms unfolding chaos_cleanup_def assert_manifest_is_safe_def
    by (auto split: prod.splits intro!: guided_preturn
        guided_pbind[OF chaos_run_guided[where Q = "\<lambda>r q. \<not> isl r \<and> q = None"]])
qed

section \<open>The interface the runtime relies on\<close>

text \<open>
  A fault provider: its preflight leaves faults alone; an injection makes the fault of the application
  it returns the active one, and raises only before anything was applied; a cleanup of what an injection
  returned (\<open>usable\<close>) deletes the fault.
\<close>

locale fault_provider =
  fixes preflight :: "('w, ChaosPreflight) prog"
    and inject :: "string \<Rightarrow> ('w, ChaosApplication) prog"
    and cleanup :: "ChaosApplication \<Rightarrow> ('w, (string \<times> pyval) list option) prog"
    and usable :: "ChaosApplication \<Rightarrow> bool"
  assumes preflight_neutral: "emits fault_neutral preflight"
    and inject_active: "guided fault_step None (inject i)
      (\<lambda>r q. q = (case r of Inl _ \<Rightarrow> None | Inr ap \<Rightarrow> Some (fault_of ap)))"
    and inject_usable: "returns usable (inject i)"
    and cleanup_removes: "usable ap \<Longrightarrow> guided fault_step (Some (fault_of ap)) (cleanup ap) (\<lambda>r q. q = None)"

text \<open>
  \<open>ChaosMeshAdapter.cleanup\<close> returns a \<open>ChaosCleanup\<close>, which is not a mapping; \<open>None\<close> stands for
  such a value.
\<close>

definition chaos_mesh_cleanup ::
  "'w chaos_env \<Rightarrow> chaos_adapter \<Rightarrow> ChaosApplication \<Rightarrow> ('w, (string \<times> pyval) list option) prog" where
  "chaos_mesh_cleanup env ad ap = pbind (chaos_cleanup env ad ap) (\<lambda>_. preturn None)"

lemma registered_safe:
  assumes "registered_application ad i ap"
  shows "manifest_safe ad (sc_manifest (ap_scenario ap))"
proof -
  from assms obtain s k where "ap_scenario ap = s\<lparr>sc_kind := k\<rparr>" "manifest_safe ad (sc_manifest s)"
    by (auto simp: registered_application_def)
  then show ?thesis by simp
qed

interpretation chaos_mesh: fault_provider "chaos_preflight env ad" "chaos_inject env ad"
  "chaos_mesh_cleanup env ad" "\<lambda>ap. manifest_safe ad (sc_manifest (ap_scenario ap))" for env ad
proof (unfold_locales, goal_cases)
  case 1
  show ?case by (rule chaos_preflight_emits) (simp add: fault_neutral_def api_resources_def)
next
  case (2 i)
  show ?case by (rule chaos_inject_guided)
next
  case (3 i)
  show ?case
    using chaos_inject_returns registered_safe unfolding returns_def by blast
next
  case (4 ap)
  then show ?case
    unfolding chaos_mesh_cleanup_def
    by (auto intro!: guided_pbind[OF chaos_cleanup_guided] guided_preturn)
qed

end
