(* ===== verification/ExperimentRuntime.thy ===== *)
theory ExperimentRuntime
  imports ActionPolicy ExperimentSession ChaosAdapter
begin

text \<open>
  \<open>experiment_runtime.py\<close>: one experiment, from the admission of a request through the injection of
  the fault, the run of the coordinator and the cleanup to the result. The variables that the
  \<open>except\<close> and \<open>finally\<close> blocks of \<open>run\<close> read are a record that the body hands on, with the
  exception that ended it if one did. The event bridge is state the runtime and the coordinator share.
\<close>

section \<open>Configuration and surroundings\<close>

record ScenarioConfiguration =
  sg_scenario_id :: string
  sg_namespace :: "string option"
  sg_deployment :: "string option"
  sg_metric :: "string option"
  sg_threshold :: "pyfloat option"
  sg_manifest :: string
  sg_incident_source :: string
  sg_benchmark_id :: string

record RuntimeConfiguration =
  rc_allowed_namespaces :: "string list"
  rc_allowed_deployments :: "string list"
  rc_scenarios :: "(string, ScenarioConfiguration) dict"
  rc_metric_queries :: "string list"
  rc_experiment_seconds :: pyfloat

text \<open>The artifact store, an object of the caller: \<open>paths\<close> is an attribute it may have.\<close>

record 'w artifact_store =
  st_append :: "string \<Rightarrow> pyval \<Rightarrow> 'w \<Rightarrow> (exn, unit) result \<times> 'w"
  st_finalize :: "payload \<Rightarrow> 'w \<Rightarrow> (exn, payload) result \<times> 'w"
  st_paths :: "pyval option"

text \<open>The fields of \<open>RuntimeResearchEventBridge\<close> that change, and the world around it.\<close>

record 'w bridge =
  br_sequence :: int
  br_events :: "RuntimeEvent list"
  br_store :: "'w artifact_store option"
  br_rest :: 'w

text \<open>
  A coordinator as the runtime sees it: the values of its attributes \<open>mode\<close> (a mode by its value),
  \<open>backend\<close> (its \<open>str\<close>) and \<open>event_store\<close>, if it has them; its \<open>run\<close>, given the control check, the
  admitted timeouts and the \<open>append\<close> of the bridge when it takes an event store; and the transcript
  lines of its adapters afterwards.
\<close>

record 'w coordinator_object =
  cj_mode :: "string option"
  cj_backend :: "string option"
  cj_event_store :: "'w artifact_store option option"
  cj_run :: "('w bridge, unit) prog \<Rightarrow> payload \<Rightarrow> (string \<Rightarrow> pyval \<Rightarrow> ('w bridge, unit) prog) option \<Rightarrow>
    string \<Rightarrow> string \<Rightarrow> string \<Rightarrow> pyfloat \<Rightarrow> ('w bridge, payload) prog"
  cj_transcripts :: "'w \<Rightarrow> string list list \<times> 'w"

record 'w runtime_env =
  xr_configuration :: RuntimeConfiguration
  xr_preflight :: "('w, ChaosPreflight) prog"
  xr_preflight_scenario :: "(string \<Rightarrow> ('w, ChaosPreflight) prog) option"
  xr_inject :: "string \<Rightarrow> ('w, ChaosApplication) prog"
  xr_cleanup :: "ChaosApplication \<Rightarrow> ('w, payload option) prog"
  xr_factory :: "ExperimentRuntimeRequest \<Rightarrow> ('w, 'w coordinator_object) prog"
  xr_admit :: "'w coordinator_object \<Rightarrow> ExperimentRuntimeRequest \<Rightarrow> ('w, payload option) prog"
  xr_store :: "'w artifact_store option"
  xr_cancelled :: "'w \<Rightarrow> bool \<times> 'w"
  xr_clock :: "'w \<Rightarrow> pyfloat \<times> 'w"
  xr_now :: "'w \<Rightarrow> string \<times> 'w"
  xr_lock_enter :: "string \<Rightarrow> string \<Rightarrow> ('w, unit) prog"
  xr_lock_exit :: "string \<Rightarrow> string \<Rightarrow> ('w, unit) prog"
  xr_put_session :: "(ExperimentSession \<Rightarrow> ('w, unit) prog) option"
  xr_policy :: AgentDecisionPolicy
  xr_samples_path :: string
  xr_read_samples :: "string \<Rightarrow> ('w, string list) prog"
  xr_loads :: "string \<Rightarrow> (exn, pyval) result"

section \<open>Programs around the bridge\<close>

definition outer :: "('w, 'a) prog \<Rightarrow> ('w bridge, 'a) prog" where
  "outer m s = (case m \<lparr>sys_world = br_rest (sys_world s), sys_trace = sys_trace s\<rparr> of
     (r, t) \<Rightarrow> (r, \<lparr>sys_world = (sys_world s)\<lparr>br_rest := sys_world t\<rparr>, sys_trace = sys_trace t\<rparr>))"

definition with_bridge :: "'w artifact_store option \<Rightarrow> ('w bridge, 'a) prog \<Rightarrow> ('w, 'a) prog" where
  "with_bridge store m s =
     (case m \<lparr>sys_world = \<lparr>br_sequence = 0, br_events = [], br_store = store, br_rest = sys_world s\<rparr>,
              sys_trace = sys_trace s\<rparr> of
        (r, t) \<Rightarrow> (r, \<lparr>sys_world = br_rest (sys_world t), sys_trace = sys_trace t\<rparr>))"

text \<open>\<open>m\<close> in the body of the \<open>try\<close>: an exception ends the body with the variables as they are.\<close>

record run_locals =
  lv_report :: payload
  lv_application :: "ChaosApplication option"
  lv_status :: string
  lv_locked :: bool

type_synonym body_end = "exn option \<times> run_locals"

definition try_step ::
  "('w, 'a) prog \<Rightarrow> run_locals \<Rightarrow> ('a \<Rightarrow> ('w, body_end) prog) \<Rightarrow> ('w, body_end) prog" where
  "try_step m l f =
     pbind (ptry (pbind m (\<lambda>x. preturn (Inr x))) (\<lambda>e. preturn (Inl e))) (\<lambda>out.
       case out of Inl e \<Rightarrow> preturn (Some e, l) | Inr x \<Rightarrow> f x)"

section \<open>The event bridge\<close>

definition stream_stage :: "string \<Rightarrow> RuntimeStage option" where
  "stream_stage stream = map_of
     [(''evidence'', COLLECTING_EVIDENCE), (''initial_decisions'', AGENT_REASONING),
      (''peer_reviews'', NEGOTIATING), (''negotiation_rounds'', NEGOTIATING),
      (''safety_validations'', VALIDATING), (''executed_actions'', EXECUTING),
      (''post_execution_reviews'', OBSERVING_RECOVERY)] stream"

text \<open>The sink of the caller and the experiment identifier.\<close>

record 'w run_target =
  rt_sink :: "RuntimeEvent \<Rightarrow> ('w, unit) prog"
  rt_id :: string

definition bridge_emit ::
  "'w runtime_env \<Rightarrow> 'w run_target \<Rightarrow> RuntimeStage \<Rightarrow> string \<Rightarrow> payload \<Rightarrow> ('w bridge, unit) prog" where
  "bridge_emit env tg stage message payload =
     pbind (pgets (\<lambda>w. (br_sequence w + 1, w\<lparr>br_sequence := br_sequence w + 1\<rparr>))) (\<lambda>n.
     pbind (outer (pgets (xr_now env))) (\<lambda>now.
     pbind (plift (make_event (VStr (rt_id tg)) (VInt n) (VStr (stage_value stage)) (VStr ''running'')
       (VStr message) (VStr now) (VDict payload))) (\<lambda>event.
     pbind (pgets (\<lambda>w. ((), w\<lparr>br_events := br_events w @ [event]\<rparr>))) (\<lambda>_.
     outer (rt_sink tg event)))))"

text \<open>The event arrives serialised (\<open>to_serializable\<close>).\<close>

definition bridge_append ::
  "'w runtime_env \<Rightarrow> 'w run_target \<Rightarrow> string \<Rightarrow> pyval \<Rightarrow> ('w bridge, unit) prog" where
  "bridge_append env tg stream event =
     (let persisted = (case event of VDict d \<Rightarrow> VDict (dict_set ''run_id'' (VStr (rt_id tg)) d) | v \<Rightarrow> v) in
      pbind (pgets (\<lambda>w. (br_store w, w))) (\<lambda>store.
      pbind (case store of None \<Rightarrow> preturn () | Some st \<Rightarrow> outer (pcall (st_append st stream persisted))) (\<lambda>_.
      case stream_stage stream of
        None \<Rightarrow> preturn ()
      | Some stage \<Rightarrow> bridge_emit env tg stage (''research event: '' @ stream)
          [(''stream'', VStr stream), (''event'', persisted)])))"

definition bridge_finalize :: "'w run_target \<Rightarrow> payload \<Rightarrow> ('w bridge, payload) prog" where
  "bridge_finalize tg report =
     pbind (pgets (\<lambda>w. (br_store w, w))) (\<lambda>store.
     case store of
       None \<Rightarrow> preturn []
     | Some st \<Rightarrow> outer (pcall (st_finalize st (dict_set ''run_id'' (VStr (rt_id tg)) report))))"

section \<open>Control\<close>

text \<open>\<open>RuntimeControl.check\<close>.\<close>

definition control_check :: "'w runtime_env \<Rightarrow> pyfloat \<Rightarrow> ('w, unit) prog" where
  "control_check env deadline =
     pbind (pgets (xr_cancelled env)) (\<lambda>cancelled.
     if cancelled then pthrow (RuntimeCancelled ''experiment cancelled'')
     else pbind (pgets (xr_clock env)) (\<lambda>now.
       if fle deadline now then pthrow (TimeoutError ''experiment runtime deadline exceeded'')
       else preturn ()))"

section \<open>Admission\<close>

definition blocked_unless :: "bool \<Rightarrow> string \<Rightarrow> (exn, unit) result" where
  "blocked_unless c m = raise_if (\<not> c) (BlockedRequest m)"

definition validate_binding_field ::
  "string \<Rightarrow> string \<Rightarrow> ('a \<Rightarrow> 'a \<Rightarrow> bool) \<Rightarrow> 'a option \<Rightarrow> 'a \<Rightarrow> (exn, unit) result" where
  "validate_binding_field scenario_id field_name same expected actual =
     (case expected of
        None \<Rightarrow> Inl (BlockedRequest (''scenario binding is incomplete: '' @ scenario_id @ ''.'' @ field_name))
      | Some v \<Rightarrow> blocked_unless (same actual v)
          (''request '' @ field_name @ '' does not match scenario '' @ scenario_id))"

definition validate_request ::
  "RuntimeConfiguration \<Rightarrow> ExperimentRuntimeRequest \<Rightarrow> (exn, unit) result" where
  "validate_request conf r =
     rbind (blocked_unless (rq_namespace r \<in> set (rc_allowed_namespaces conf))
       (''namespace is not allowlisted: '' @ rq_namespace r)) (\<lambda>_.
     rbind (blocked_unless (rq_deployment r \<in> set (rc_allowed_deployments conf))
       (''deployment is not allowlisted: '' @ rq_deployment r)) (\<lambda>_.
     case dict_get (rc_scenarios conf) (rq_scenario_id r) of
       None \<Rightarrow> Inl (BlockedRequest (''scenario is not registered: '' @ rq_scenario_id r))
     | Some sg \<Rightarrow>
         rbind (blocked_unless (rq_metric r \<in> set (rc_metric_queries conf))
           (''metric is not registered: '' @ rq_metric r)) (\<lambda>_.
         rbind (blocked_unless (rq_incident_source r = sg_incident_source sg)
           (''request incident source does not match scenario '' @ rq_scenario_id r)) (\<lambda>_.
         rbind (blocked_unless (rq_benchmark_id r = sg_benchmark_id sg)
           (''request benchmark does not match scenario '' @ rq_scenario_id r)) (\<lambda>_.
         rbind (validate_binding_field (rq_scenario_id r) ''namespace'' (=) (sg_namespace sg) (rq_namespace r)) (\<lambda>_.
         rbind (validate_binding_field (rq_scenario_id r) ''deployment'' (=) (sg_deployment sg) (rq_deployment r)) (\<lambda>_.
         rbind (validate_binding_field (rq_scenario_id r) ''metric'' (=) (sg_metric sg) (rq_metric r)) (\<lambda>_.
         validate_binding_field (rq_scenario_id r) ''threshold'' feq (sg_threshold sg) (rq_threshold r))))))))) "

fun backend_str :: "ExecutionBackend \<Rightarrow> string" where
  "backend_str PYTHON = ''ExecutionBackend.PYTHON''"
| "backend_str GO = ''ExecutionBackend.GO''"

definition validate_coordinator_mode ::
  "'w coordinator_object \<Rightarrow> ExperimentRuntimeRequest \<Rightarrow> (exn, unit) result" where
  "validate_coordinator_mode c r =
     (case cj_mode c of
        None \<Rightarrow> Inl (BlockedRequest ''coordinator mode is required'')
      | Some m \<Rightarrow>
          (case member_of mode_value [MOCK, DRY_RUN, REAL] m of
             None \<Rightarrow> Inl (BlockedRequest ''coordinator mode is invalid'')
           | Some mode \<Rightarrow>
               rbind (blocked_unless (mode = rq_mode r) (''coordinator mode '' @ mode_value mode @
                 '' does not match request mode '' @ mode_value (rq_mode r))) (\<lambda>_.
               blocked_unless (case cj_backend c of None \<Rightarrow> True | Some b \<Rightarrow> b = backend_str (rq_backend r))
                 ''coordinator backend does not match request backend'')))"

definition admit ::
  "'w runtime_env \<Rightarrow> ExperimentRuntimeRequest \<Rightarrow> ('w, 'w coordinator_object \<times> payload) prog" where
  "admit env r =
     pbind (plift (validate_request (xr_configuration env) r)) (\<lambda>_.
     pbind (xr_factory env r) (\<lambda>c.
     pbind (xr_admit env c r) (\<lambda>admission.
     pbind (plift (validate_coordinator_mode c r)) (\<lambda>_.
     case admission of
       None \<Rightarrow> pthrow (OtherError ''NoneType object has no attribute stage_timeouts'')
     | Some timeouts \<Rightarrow> preturn (c, timeouts)))))"


section \<open>The report before and after the run\<close>

text \<open>
  \<open>deepcopy(dict(request.detection_context))\<close>: the request holds a frozen mapping, in which every
  nested mapping is a \<open>mappingproxy\<close>; \<open>deepcopy\<close> raises \<open>TypeError\<close> on these.
\<close>

fun holds_object :: "pyval \<Rightarrow> bool" where
  "holds_object (VDict _) = True"
| "holds_object (VTuple vs) = list_ex holds_object vs"
| "holds_object (VList vs) = list_ex holds_object vs"
| "holds_object _ = False"

definition copy_context :: "payload \<Rightarrow> (exn, payload) result" where
  "copy_context d = rbind (raise_if (list_ex (holds_object \<circ> snd) d)
     (TypeError ''cannot pickle mappingproxy object'')) (\<lambda>_. Inr d)"

definition dict_update :: "payload \<Rightarrow> payload \<Rightarrow> payload" where
  "dict_update d kvs = foldl (\<lambda>d (k, v). dict_set k v d) d kvs"

definition run_fields :: "string \<Rightarrow> ExperimentRuntimeRequest \<Rightarrow> payload" where
  "run_fields i r =
     [(''run_id'', VStr i), (''mode'', VStr (mode_value (rq_mode r))),
      (''controller'', VStr (rq_controller r)), (''model'', VStr (rq_model r)),
      (''incident_source'', VStr (rq_incident_source r)), (''benchmark_id'', VStr (rq_benchmark_id r))]"

definition requested_policy :: "ExperimentRuntimeRequest \<Rightarrow> string" where
  "requested_policy r = json_str (vget_default (rq_detection_context r) ''action_policy'' (VStr ''baseline''))"

definition initial_report :: "string \<Rightarrow> ExperimentRuntimeRequest \<Rightarrow> (exn, payload) result" where
  "initial_report i r =
     rbind (copy_context (rq_detection_context r)) (\<lambda>detection.
     Inr (run_fields i r @
       [(''detection'', VDict detection), (''action_policy'', VStr (requested_policy r)),
        (''final_status'', VStr ''failed''), (''evidence'', VDict []), (''diagnosis'', VDict []),
        (''negotiation'', VDict []), (''safety_validation'', VDict []), (''execution_result'', VDict []),
        (''recovery_monitoring'', VDict []), (''human_review_required'', VBool False)]))"

text \<open>
  \<open>_attach_action_policy_advice\<close>. The configured decision policy is read from its file, which is
  taken to be present and valid; \<open>xr_samples_path\<close> is the environment variable.
\<close>

definition attach_advice ::
  "'w runtime_env \<Rightarrow> ExperimentRuntimeRequest \<Rightarrow> payload \<Rightarrow> ('w, payload) prog" where
  "attach_advice env r report =
     (let mode = (if lower (strip (requested_policy r)) = ''learned'' then LEARNED_MODE else BASELINE_MODE);
          path = strip (xr_samples_path env);
          context = \<lparr>px_scenario = rq_scenario_id r, px_metric = rq_metric r,
            px_cause = cause_for_metric (xr_policy env) (rq_metric r), px_severity = ''''\<rparr>;
          advise = (\<lambda>b report. preturn (dict_update report
            [(''action_policy'', VStr (policy_mode_value mode)), (''action_policy_samples'', VStr path),
             (''action_policy_recommendation'',
                VDict (recommendation_dict (recommend (xr_policy env) b context)))]))
      in if mode = LEARNED_MODE \<and> path \<noteq> '''' then
           pbind (ptry
             (pbind (xr_read_samples env path) (\<lambda>lines.
              pbind (plift (load_samples (xr_loads env) (xr_policy env) 1 lines)) (\<lambda>samples.
              preturn (Inr samples))))
             (\<lambda>e. if is_os_error e \<or> is_value_error e then preturn (Inl e) else pthrow e)) (\<lambda>loaded.
           case loaded of
             Inl e \<Rightarrow> advise (new_bandit mode) (dict_set ''action_policy_error'' (VStr (exn_str e)) report)
           | Inr samples \<Rightarrow> advise (fit (new_bandit mode) samples) report)
         else advise (new_bandit mode) report)"

section \<open>The body of \<open>run\<close>\<close>

definition lock_enter :: "'w runtime_env \<Rightarrow> ExperimentRuntimeRequest \<Rightarrow> ('w, unit) prog" where
  "lock_enter env r =
     (if rq_mode r = REAL then
        pbind (xr_lock_enter env (rq_namespace r) (rq_deployment r)) (\<lambda>_.
        emit (LockEntered (rq_namespace r) (rq_deployment r)))
      else preturn ())"

definition lock_exit :: "'w runtime_env \<Rightarrow> ExperimentRuntimeRequest \<Rightarrow> ('w, unit) prog" where
  "lock_exit env r =
     (if rq_mode r = REAL then
        pbind (xr_lock_exit env (rq_namespace r) (rq_deployment r)) (\<lambda>_.
        emit (LockExited (rq_namespace r) (rq_deployment r)))
      else preturn ())"

text \<open>From the preflight to the injected fault.\<close>

definition start_fault ::
  "'w runtime_env \<Rightarrow> 'w run_target \<Rightarrow> ('w bridge, unit) prog \<Rightarrow> ExperimentRuntimeRequest \<Rightarrow>
   ('w bridge, ChaosApplication) prog" where
  "start_fault env tg check r =
     pbind check (\<lambda>_.
     pbind (outer (xr_preflight env)) (\<lambda>preflight.
     if \<not> cp_valid preflight then pthrow (BlockedRequest (cp_stderr preflight))
     else
       pbind check (\<lambda>_.
       pbind (bridge_emit env tg INJECTING_FAULT ''injecting registered fault'' []) (\<lambda>_.
       pbind check (\<lambda>_. outer (xr_inject env (rq_scenario_id r)))))))"

definition fault_phase ::
  "'w runtime_env \<Rightarrow> 'w run_target \<Rightarrow> ('w bridge, unit) prog \<Rightarrow> ExperimentRuntimeRequest \<Rightarrow>
   run_locals \<Rightarrow> (run_locals \<Rightarrow> ('w bridge, body_end) prog) \<Rightarrow> ('w bridge, body_end) prog" where
  "fault_phase env tg check r l continue =
     (if rq_mode r = REAL \<and> rq_incident_source r = ''chaos_mesh'' then
        try_step (start_fault env tg check r) l (\<lambda>application.
          let l = l\<lparr>lv_application := Some application\<rparr> in
          try_step (if \<not> ap_valid application then pthrow (RuntimeExecutionError (ap_stderr application))
                    else check) l (\<lambda>_. continue l))
      else continue l)"

definition coordinate ::
  "'w runtime_env \<Rightarrow> 'w run_target \<Rightarrow> ('w bridge, unit) prog \<Rightarrow> ExperimentRuntimeRequest \<Rightarrow>
   'w coordinator_object \<Rightarrow> payload \<Rightarrow> ('w bridge, payload) prog" where
  "coordinate env tg check r c timeouts =
     pbind check (\<lambda>_.
     pbind (bridge_emit env tg COLLECTING_EVIDENCE ''collecting registered evidence'' []) (\<lambda>_.
     pbind (bridge_emit env tg AGENT_REASONING ''running mutual supervision'' []) (\<lambda>_.
     pbind (case cj_event_store c of
         None \<Rightarrow> preturn None
       | Some own \<Rightarrow> pgets (\<lambda>w. (Some (bridge_append env tg),
           w\<lparr>br_store := (case xr_store env of None \<Rightarrow> own | Some st \<Rightarrow> Some st)\<rparr>))) (\<lambda>append.
     cj_run c check timeouts append (rq_namespace r) (rq_deployment r) (rq_metric r) (rq_threshold r)))))"

definition coordinator_transcript :: "string list list \<Rightarrow> string list" where
  "coordinator_transcript ls = (case filter (\<lambda>l. l \<noteq> []) ls of [] \<Rightarrow> [] | l # _ \<Rightarrow> l)"

fun emit_stages ::
  "'w runtime_env \<Rightarrow> 'w run_target \<Rightarrow> payload \<Rightarrow> string \<Rightarrow> (RuntimeStage \<times> string) list \<Rightarrow>
   ('w bridge, unit) prog" where
  "emit_stages env tg report status [] = preturn ()"
| "emit_stages env tg report status ((stage, key) # rest) =
     (if (key = ''recovery_monitoring'' \<and> status = ''dry_run_validated'') \<or> \<not> truthy (vget report key)
      then emit_stages env tg report status rest
      else pbind (bridge_emit env tg stage (''runtime stage: '' @ key) []) (\<lambda>_.
        emit_stages env tg report status rest))"

definition report_stages :: "(RuntimeStage \<times> string) list" where
  "report_stages = [(VALIDATING, ''safety_validation''), (EXECUTING, ''execution_result''),
     (OBSERVING_RECOVERY, ''recovery_monitoring'')]"

definition coordinate_phase ::
  "'w runtime_env \<Rightarrow> 'w run_target \<Rightarrow> ('w bridge, unit) prog \<Rightarrow> ExperimentRuntimeRequest \<Rightarrow>
   'w coordinator_object \<Rightarrow> payload \<Rightarrow> run_locals \<Rightarrow> ('w bridge, body_end) prog" where
  "coordinate_phase env tg check r c timeouts l =
     try_step (coordinate env tg check r c timeouts) l (\<lambda>report.
     try_step check (l\<lparr>lv_report := report\<rparr>) (\<lambda>_.
     let report = dict_update report (run_fields (rt_id tg) r) in
     try_step (plift (copy_context (rq_detection_context r))) (l\<lparr>lv_report := report\<rparr>) (\<lambda>detection.
     pbind (outer (pgets (cj_transcripts c))) (\<lambda>ls.
     let report = dict_set ''detection'' (VDict detection) report;
         transcript = coordinator_transcript ls;
         report = (if transcript = [] then report
           else dict_set ''autogen_transcript'' (VList (map VStr transcript)) report);
         status = json_str (vget_default report ''final_status'' (VStr ''failed''));
         l = l\<lparr>lv_report := report, lv_status := status\<rparr>
     in try_step (emit_stages env tg report status report_stages) l (\<lambda>_.
        preturn (None, l\<lparr>lv_report := dict_set ''final_status'' (VStr status) report\<rparr>))))))"

definition run_body ::
  "'w runtime_env \<Rightarrow> 'w run_target \<Rightarrow> ('w bridge, unit) prog \<Rightarrow> ExperimentRuntimeRequest \<Rightarrow> run_locals \<Rightarrow>
   ('w bridge, body_end) prog" where
  "run_body env tg check r l =
     try_step (outer (admit env r)) l (\<lambda>(c, timeouts).
     try_step check l (\<lambda>_.
     try_step (outer (lock_enter env r)) l (\<lambda>_.
     let l = l\<lparr>lv_locked := True\<rparr> in
     try_step (bridge_emit env tg PREFLIGHT ''runtime preflight'' []) l (\<lambda>_.
     fault_phase env tg check r l (coordinate_phase env tg check r c timeouts)))))"

section \<open>The exits\<close>

text \<open>The \<open>except\<close> clauses.\<close>

fun status_of_exn :: "exn \<Rightarrow> string" where
  "status_of_exn (OperationLockError _) = ''blocked''"
| "status_of_exn (BlockedRequest _) = ''blocked''"
| "status_of_exn (RuntimeCancelled _) = ''cancelled''"
| "status_of_exn (TimeoutError _) = ''interrupted''"
| "status_of_exn (InterruptedError _) = ''interrupted''"
| "status_of_exn _ = ''failed''"

fun after_body :: "body_end \<Rightarrow> run_locals" where
  "after_body (None, l) = l"
| "after_body (Some e, l) = l\<lparr>lv_status := status_of_exn e,
     lv_report := dict_update (lv_report l)
       [(''error'', VStr (exn_str e)), (''final_status'', VStr (status_of_exn e))]\<rparr>"

definition cleanup_failed :: "string \<Rightarrow> payload \<Rightarrow> payload" where
  "cleanup_failed m report = dict_update report
     [(''cleanup_error'', VStr m), (''human_review_required'', VBool True)]"

definition invalid_cleanup :: payload where
  "invalid_cleanup = [(''valid'', VBool False), (''stderr'', VStr ''invalid cleanup result'')]"

definition cleanup_phase ::
  "'w runtime_env \<Rightarrow> 'w run_target \<Rightarrow> run_locals \<Rightarrow> ('w bridge, payload \<times> payload) prog" where
  "cleanup_phase env tg l =
     (case lv_application l of
        None \<Rightarrow> preturn ([], lv_report l)
      | Some application \<Rightarrow>
          pbind (bridge_emit env tg CLEANUP ''cleaning up registered fault'' []) (\<lambda>_.
          ptry
            (pbind (outer (xr_cleanup env application)) (\<lambda>answer.
             let cleanup = (case answer of Some d \<Rightarrow> d | None \<Rightarrow> invalid_cleanup) in
             preturn (cleanup,
               if vget cleanup ''valid'' \<noteq> VBool True
               then cleanup_failed (json_str (vget_default cleanup ''stderr'' (VStr ''cleanup failed''))) (lv_report l)
               else lv_report l)))
            (\<lambda>e. preturn ([(''valid'', VBool False), (''stderr'', VStr (exn_str e))],
               cleanup_failed (exn_str e) (lv_report l)))))"


section \<open>The result\<close>

record ExperimentRuntimeResult =
  exr_experiment_id :: string
  exr_status :: string
  exr_report :: payload
  exr_session :: ExperimentSession
  exr_events :: "RuntimeEvent list"
  exr_cleanup :: payload

definition make_result ::
  "string \<Rightarrow> string \<Rightarrow> payload \<Rightarrow> ExperimentSession \<Rightarrow> RuntimeEvent list \<Rightarrow> payload \<Rightarrow>
   (exn, ExperimentRuntimeResult) result" where
  "make_result i status report session events cleanup =
     rbind (strip_identifier ''experiment_id'' (VStr i)) (\<lambda>i.
     rbind (strip_identifier ''status'' (VStr status)) (\<lambda>status.
     rbind (json_safe (VDict (session_dict session))) (\<lambda>_.
     rbind (frozen_mapping ''report'' (VDict report)) (\<lambda>report.
     rbind (frozen_mapping ''cleanup'' (VDict cleanup)) (\<lambda>cleanup.
     Inr \<lparr>exr_experiment_id = i, exr_status = status, exr_report = report, exr_session = session,
          exr_events = events, exr_cleanup = cleanup\<rparr>)))))"

definition result_to_dict :: "ExperimentRuntimeResult \<Rightarrow> (exn, pyval) result" where
  "result_to_dict r =
     rbind (rmap event_to_dict (exr_events r)) (\<lambda>events.
     json_safe (VDict
       [(''experiment_id'', VStr (exr_experiment_id r)), (''status'', VStr (exr_status r)),
        (''report'', VDict (exr_report r)), (''session'', VDict (session_dict (exr_session r))),
        (''events'', VList events), (''cleanup'', VDict (exr_cleanup r))]))"

definition dry_run_evaluation :: payload where
  "dry_run_evaluation =
     [(''status'', VStr ''not_applicable''), (''evaluator'', VStr ''RecoveryEvaluatorAgent''),
      (''rubric_version'', VStr ''recovery-evaluator-v1''), (''team_reward'', VNone),
      (''agent_rewards'', VDict []), (''components'', VDict []),
      (''reason'', VStr (''dry-run does not mutate Kubernetes, so recovery outcome '' @
        ''and reward are not measured''))]"

definition evaluate_report ::
  "'w runtime_env \<Rightarrow> 'w run_target \<Rightarrow> ExperimentRuntimeRequest \<Rightarrow> payload \<Rightarrow> ('w bridge, payload) prog" where
  "evaluate_report env tg r report =
     (if rq_incident_source r \<noteq> ''chaos_mesh'' then preturn report
      else if rq_mode r = DRY_RUN then
        pbind (bridge_emit env tg ANALYZING ''recording dry-run validation without recovery scoring'' [])
          (\<lambda>_. preturn (dict_set ''evaluation'' (VDict dry_run_evaluation) report))
      else
        pbind (bridge_emit env tg ANALYZING ''evaluating recovery outcome with RecoveryEvaluatorAgent'' [])
          (\<lambda>_. plift (attach_recovery_evaluation report)))"

text \<open>\<open>_finish\<close>.\<close>

definition finish_run ::
  "'w runtime_env \<Rightarrow> 'w run_target \<Rightarrow> ExperimentRuntimeRequest \<Rightarrow> payload \<Rightarrow> string \<Rightarrow> payload \<Rightarrow>
   ('w bridge, ExperimentRuntimeResult) prog" where
  "finish_run env tg r report status cleanup =
     pbind (plift (copy_context (rq_detection_context r))) (\<lambda>detection.
     pbind (evaluate_report env tg r (dict_update report (run_fields (rt_id tg) r @
       [(''detection'', VDict detection), (''final_status'', VStr status), (''cleanup'', VDict cleanup)])))
       (\<lambda>report.
     pbind (bridge_emit env tg COMPLETED_STAGE (''experiment '' @ status) []) (\<lambda>_.
     pbind (pgets (\<lambda>w. ((br_events w, br_store w), w))) (\<lambda>(events, store).
     pbind (plift (rmap event_to_dict events)) (\<lambda>event_dicts.
     let report = dict_set ''runtime_events'' (VList event_dicts) report;
         report = (case store of None \<Rightarrow> report
           | Some st \<Rightarrow> (case st_paths st of None \<Rightarrow> report
               | Some paths \<Rightarrow> dict_set ''artifacts'' paths report)) in
     pbind (bridge_finalize tg report) (\<lambda>_.
     pbind (outer (pgets (xr_now env))) (\<lambda>now.
     pbind (plift (normalize_session now report)) (\<lambda>session.
     pbind (case xr_put_session env of None \<Rightarrow> preturn () | Some put \<Rightarrow> outer (put session)) (\<lambda>_.
     pbind (pgets (\<lambda>w. (br_events w, w))) (\<lambda>events.
     plift (make_result (rt_id tg) status report session events cleanup)))))))))))"

definition run_exits ::
  "'w runtime_env \<Rightarrow> 'w run_target \<Rightarrow> ExperimentRuntimeRequest \<Rightarrow> run_locals \<Rightarrow>
   ('w bridge, ExperimentRuntimeResult) prog" where
  "run_exits env tg r l =
     pbind (cleanup_phase env tg l) (\<lambda>(cleanup, report).
     pbind (if lv_locked l then outer (lock_exit env r) else preturn ()) (\<lambda>_.
     let report = (if truthy (vget report ''cleanup_error'')
           then dict_set ''cleanup_status'' (VStr ''cleanup_failed'') report else report);
         status = json_str (vget_default report ''final_status'' (VStr (lv_status l)))
     in finish_run env tg r report status cleanup))"

text \<open>\<open>ExperimentRuntime.run\<close>; the target holds the sink and the fresh experiment identifier.\<close>

definition runtime_run ::
  "'w runtime_env \<Rightarrow> 'w run_target \<Rightarrow> ExperimentRuntimeRequest \<Rightarrow> ('w, ExperimentRuntimeResult) prog" where
  "runtime_run env tg r =
     pbind (plift (initial_report (rt_id tg) r)) (\<lambda>report.
     pbind (attach_advice env r report) (\<lambda>report.
     pbind (pgets (xr_clock env)) (\<lambda>start.
     let check = outer (control_check env (fadd start (rc_experiment_seconds (xr_configuration env)))) in
     with_bridge (xr_store env)
       (pbind (run_body env tg check r
          \<lparr>lv_report = report, lv_application = None, lv_status = ''failed'', lv_locked = False\<rparr>)
        (\<lambda>e. run_exits env tg r (after_body e))))))"

section \<open>The preflight request\<close>

record RuntimePreflightResult =
  rpf_valid :: bool
  rpf_scenario_id :: string
  rpf_manifest :: string
  rpf_resource_kind :: "string option"
  rpf_missing :: "string list"

definition preflight_result ::
  "'w runtime_env \<Rightarrow> ExperimentRuntimeRequest \<Rightarrow> bool \<Rightarrow> string option \<Rightarrow> string list \<Rightarrow> RuntimePreflightResult" where
  "preflight_result env r valid kind missing =
     \<lparr>rpf_valid = valid, rpf_scenario_id = rq_scenario_id r,
      rpf_manifest = (case dict_get (rc_scenarios (xr_configuration env)) (rq_scenario_id r) of
        None \<Rightarrow> '''' | Some sg \<Rightarrow> sg_manifest sg),
      rpf_resource_kind = kind, rpf_missing = missing\<rparr>"

definition preflight_dict :: "RuntimePreflightResult \<Rightarrow> payload" where
  "preflight_dict p =
     [(''valid'', VBool (rpf_valid p)), (''scenario_id'', VStr (rpf_scenario_id p)),
      (''manifest'', VStr (rpf_manifest p)), (''resource_kind'', opt_json VStr (rpf_resource_kind p)),
      (''missing_prerequisites'', VList (map VStr (rpf_missing p)))]"

text \<open>The Chaos Mesh part: the verdict that ends the preflight, or the resource kind to go on with.\<close>

definition chaos_admission ::
  "'w runtime_env \<Rightarrow> ExperimentRuntimeRequest \<Rightarrow> ('w, RuntimePreflightResult + string option) prog" where
  "chaos_admission env r =
     (let unmet = [''chaos_mesh:'' @ rq_scenario_id r] in
      if rq_incident_source r \<noteq> ''chaos_mesh'' then
        preturn (Inr (if rq_incident_source r = ''aiopslab'' then Some ''AIOpsLabDetection'' else None))
      else
        ptry
          (pbind (case xr_preflight_scenario env of
              None \<Rightarrow> xr_preflight env | Some checker \<Rightarrow> checker (rq_scenario_id r)) (\<lambda>p.
           preturn (if cp_valid p then Inr (cp_resource_kind p)
             else Inl (preflight_result env r False (cp_resource_kind p)
               (if cp_missing_prerequisites p = [] then unmet else cp_missing_prerequisites p)))))
          (\<lambda>e. preturn (Inl (preflight_result env r False None unmet))))"

definition runtime_preflight ::
  "'w runtime_env \<Rightarrow> ExperimentRuntimeRequest \<Rightarrow> ('w, RuntimePreflightResult) prog" where
  "runtime_preflight env r =
     pbind (plift (validate_request (xr_configuration env) r)) (\<lambda>_.
     if rq_mode r \<noteq> REAL then preturn (preflight_result env r True None [])
     else
       pbind (chaos_admission env r) (\<lambda>verdict.
       case verdict of
         Inl p \<Rightarrow> preturn p
       | Inr kind \<Rightarrow>
           ptry
             (pbind (xr_factory env r) (\<lambda>c.
              pbind (xr_admit env c r) (\<lambda>admission.
              pbind (plift (validate_coordinator_mode c r)) (\<lambda>_.
              if admission = None then pthrow (BlockedRequest ''runtime admission is unavailable'')
              else preturn (preflight_result env r True kind [])))))
             (\<lambda>e. preturn (preflight_result env r False kind [''runtime.coordinator'']))))"

end
