(* ===== verification/RuntimeContract.thy ===== *)
theory RuntimeContract
  imports ExperimentRuntime
begin

text \<open>
  The contract between the experiment runtime and its surroundings: an invariant of the caller's world
  that every program of the environment keeps is kept by a whole run, and the event bridge keeps its
  numbering meanwhile. The runtime's pieces are checked one by one with the rules for \<open>keeps\<close>.
\<close>

section \<open>Rules\<close>

lemma outer_run:
  "outer m s = (r, s') \<longleftrightarrow>
     (\<exists>t. m \<lparr>sys_world = br_rest (sys_world s), sys_trace = sys_trace s\<rparr> = (r, t) \<and>
        s' = \<lparr>sys_world = (sys_world s)\<lparr>br_rest := sys_world t\<rparr>, sys_trace = sys_trace t\<rparr>)"
  by (auto simp: outer_def split: prod.splits)

lemma with_bridge_run:
  "with_bridge store m s = (r, s') \<longleftrightarrow>
     (\<exists>t. m \<lparr>sys_world = \<lparr>br_sequence = 0, br_events = [], br_store = store, br_rest = sys_world s\<rparr>,
              sys_trace = sys_trace s\<rparr> = (r, t) \<and>
        s' = \<lparr>sys_world = br_rest (sys_world t), sys_trace = sys_trace t\<rparr>)"
  by (auto simp: with_bridge_def split: prod.splits)

lemma outer_pgets:
  "outer (pgets g) = pgets (\<lambda>w. let (x, v) = g (br_rest w) in (x, w\<lparr>br_rest := v\<rparr>))"
  by (rule ext) (simp add: outer_def pgets_def split: prod.split)

definition store_keeps :: "('w \<Rightarrow> bool) \<Rightarrow> 'w artifact_store option \<Rightarrow> bool" where
  "store_keeps J store \<longleftrightarrow> (\<forall>st. store = Some st \<longrightarrow>
     (\<forall>stream v. call_keeps J (st_append st stream v)) \<and> (\<forall>p. call_keeps J (st_finalize st p)))"

text \<open>The state of a run: the events are numbered from one on.\<close>

definition bridge_inv :: "('w \<Rightarrow> bool) \<Rightarrow> 'w bridge \<Rightarrow> bool" where
  "bridge_inv J w \<longleftrightarrow> 0 \<le> br_sequence w \<and> store_keeps J (br_store w) \<and> J (br_rest w)"

lemma keepsI: "(\<And>s r s'. I (sys_world s) \<Longrightarrow> m s = (r, s') \<Longrightarrow> I (sys_world s')) \<Longrightarrow> keeps I m"
  unfolding keeps_def by (metis prod.collapse)

lemma keeps_outer: "keeps J m \<Longrightarrow> keeps (bridge_inv J) (outer m)"
  by (rule keepsI) (auto simp: bridge_inv_def outer_run dest: keepsD[rotated 2])

lemma ensures_outer:
  assumes "ensures J m Q" shows "ensures (bridge_inv J) (outer m) Q"
  unfolding ensures_def
proof (intro conjI allI impI)
  show "keeps (bridge_inv J) (outer m)" using assms by (simp add: ensures_def keeps_outer)
  fix s :: "'a bridge sys" and x s'
  assume "bridge_inv J (sys_world s)" "outer m s = (Inr x, s')"
  with assms show "Q x"
    unfolding ensures_def outer_run bridge_inv_def by (metis sys.select_convs(1))
qed

lemma keeps_with_bridge:
  "store_keeps J store \<Longrightarrow> keeps (bridge_inv J) m \<Longrightarrow> keeps J (with_bridge store m)"
  by (rule keepsI) (auto simp: bridge_inv_def with_bridge_run dest!: keepsD)

lemma keeps_ensures_bind: "ensures I m P \<Longrightarrow> (\<And>x. P x \<Longrightarrow> keeps I (f x)) \<Longrightarrow> keeps I (pbind m f)"
  using ensures_bind[of I m P f "\<lambda>_. True"] ensures_any ensures_keeps by blast

lemma keeps_try_step [keep_rules]:
  "keeps I m \<Longrightarrow> (\<And>x. keeps I (f x)) \<Longrightarrow> keeps I (try_step m l f)"
  unfolding try_step_def by (intro keep_rules)

lemma ensures_ptry:
  assumes "ensures I m Q" and "\<And>e. ensures I (h e) Q"
  shows "ensures I (ptry m h) Q"
  using assms unfolding ensures_def keeps_def ptry_def
  by (auto split: prod.splits sum.splits) (metis snd_conv)+

lemma keeps_try_ensures:
  assumes "ensures I m P" and "\<And>x. P x \<Longrightarrow> keeps I (f x)"
  shows "keeps I (try_step m l f)"
  unfolding try_step_def
proof (rule keeps_ensures_bind)
  show "ensures I (ptry (pbind m (\<lambda>x. preturn (Inr x))) (\<lambda>e. preturn (Inl e)))
      (\<lambda>out. case out of Inl e \<Rightarrow> True | Inr x \<Rightarrow> P x)"
    by (intro ensures_ptry ensures_bind[OF assms(1)]) simp_all
qed (auto intro: assms(2) keeps_preturn split: sum.splits)

lemma read_store_ensures:
  "ensures (bridge_inv J) (pgets (\<lambda>w. (br_store w, w))) (store_keeps J)"
  by (auto simp: ensures_def keeps_def pgets_def bridge_inv_def)

section \<open>The contract\<close>

definition coordinator_keeps :: "('w \<Rightarrow> bool) \<Rightarrow> 'w coordinator_object \<Rightarrow> bool" where
  "coordinator_keeps J c \<longleftrightarrow> call_keeps J (cj_transcripts c) \<and>
     (\<forall>own. cj_event_store c = Some own \<longrightarrow> store_keeps J own) \<and>
     (\<forall>check timeouts append ns dep metric threshold. keeps (bridge_inv J) check \<longrightarrow>
       (\<forall>f stream v. append = Some f \<longrightarrow> keeps (bridge_inv J) (f stream v)) \<longrightarrow>
       keeps (bridge_inv J) (cj_run c check timeouts append ns dep metric threshold))"

definition env_keeps :: "('w \<Rightarrow> bool) \<Rightarrow> 'w runtime_env \<Rightarrow> bool" where
  "env_keeps J env \<longleftrightarrow>
     keeps J (xr_preflight env) \<and> (\<forall>i. keeps J (xr_inject env i)) \<and> (\<forall>ap. keeps J (xr_cleanup env ap)) \<and>
     (\<forall>r. ensures J (xr_factory env r) (coordinator_keeps J)) \<and> (\<forall>c r. keeps J (xr_admit env c r)) \<and>
     store_keeps J (xr_store env) \<and> call_keeps J (xr_cancelled env) \<and> call_keeps J (xr_clock env) \<and>
     call_keeps J (xr_now env) \<and> (\<forall>ns dep. keeps J (xr_lock_enter env ns dep)) \<and>
     (\<forall>ns dep. keeps J (xr_lock_exit env ns dep)) \<and>
     (\<forall>put s. xr_put_session env = Some put \<longrightarrow> keeps J (put s)) \<and>
     (\<forall>path. keeps J (xr_read_samples env path))"

definition target_keeps :: "('w \<Rightarrow> bool) \<Rightarrow> 'w run_target \<Rightarrow> bool" where
  "target_keeps J tg \<longleftrightarrow> (\<forall>e. keeps J (rt_sink tg e))"

section \<open>The bridge\<close>

lemma bridge_emit_keeps:
  assumes "env_keeps J env" "target_keeps J tg"
  shows "keeps (bridge_inv J) (bridge_emit env tg stage m p)"
  unfolding bridge_emit_def
  by (intro keep_rules keeps_outer)
    (use assms in \<open>auto simp: call_keeps_def bridge_inv_def env_keeps_def target_keeps_def\<close>)

lemma bridge_append_keeps:
  assumes "env_keeps J env" "target_keeps J tg"
  shows "keeps (bridge_inv J) (bridge_append env tg stream v)"
  unfolding bridge_append_def Let_def
  by (rule keeps_ensures_bind[OF read_store_ensures])
    (intro keep_rules keeps_outer bridge_emit_keeps assms, simp add: store_keeps_def)

lemma bridge_finalize_keeps: "keeps (bridge_inv J) (bridge_finalize tg report)"
  unfolding bridge_finalize_def
  by (rule keeps_ensures_bind[OF read_store_ensures])
    (intro keep_rules keeps_outer, simp add: store_keeps_def)

section \<open>The pieces of a run\<close>

lemma control_check_keeps: "env_keeps J env \<Longrightarrow> keeps (bridge_inv J) (outer (control_check env deadline))"
  unfolding control_check_def by (intro keep_rules keeps_outer) (auto simp: env_keeps_def)

lemma attach_advice_keeps: "env_keeps J env \<Longrightarrow> keeps J (attach_advice env r report)"
  unfolding attach_advice_def Let_def by (intro keep_rules) (auto simp: env_keeps_def)

lemma lock_keeps:
  "env_keeps J env \<Longrightarrow> keeps (bridge_inv J) (outer (lock_enter env r))"
  "env_keeps J env \<Longrightarrow> keeps (bridge_inv J) (outer (lock_exit env r))"
  unfolding lock_enter_def lock_exit_def by (intro keep_rules keeps_outer; auto simp: env_keeps_def)+

lemma admit_ensures:
  "env_keeps J env \<Longrightarrow> ensures (bridge_inv J) (outer (admit env r)) (\<lambda>(c, _). coordinator_keeps J c)"
  unfolding admit_def
  by (rule ensures_outer, rule ensures_bind[OF ensures_any[OF keeps_plift]],
      rule ensures_bind[where P = "coordinator_keeps J"])
    (auto simp: env_keeps_def split: option.splits
      intro!: ensures_bind[OF ensures_any[OF keeps_plift]] ensures_bind[OF ensures_any])

lemma emit_stages_keeps:
  assumes "env_keeps J env" "target_keeps J tg"
  shows "keeps (bridge_inv J) (emit_stages env tg report status stages)"
proof (induction stages)
  case (Cons p stages)
  then show ?case
    by (cases p) (auto intro!: keep_rules bridge_emit_keeps[OF assms])
qed (simp add: keeps_preturn)

lemma coordinate_keeps:
  assumes env: "env_keeps J env" and tg: "target_keeps J tg" and c: "coordinator_keeps J c"
    and check: "keeps (bridge_inv J) check"
  shows "keeps (bridge_inv J) (coordinate env tg check r c timeouts)"
proof -
  let ?append = "case cj_event_store c of None \<Rightarrow> preturn None
    | Some own \<Rightarrow> pgets (\<lambda>w. (Some (bridge_append env tg),
        w\<lparr>br_store := (case xr_store env of None \<Rightarrow> own | Some st \<Rightarrow> Some st)\<rparr>))"
  have "keeps (bridge_inv J) ?append"
    using env c by (auto simp: keeps_def pgets_def bridge_inv_def[abs_def] env_keeps_def coordinator_keeps_def
        preturn_def split: option.splits)
  moreover have "returns (\<lambda>append. \<forall>f stream v. append = Some f \<longrightarrow> keeps (bridge_inv J) (f stream v)) ?append"
    using bridge_append_keeps[OF env tg] by (auto simp: returns_def pgets_def split: option.splits)
  ultimately have "ensures (bridge_inv J) ?append
      (\<lambda>append. \<forall>f stream v. append = Some f \<longrightarrow> keeps (bridge_inv J) (f stream v))" by (rule ensuresI)
  note append = keeps_ensures_bind[OF this]
  show ?thesis
    unfolding coordinate_def
    by (rule keeps_pbind[OF check], rule keeps_pbind[OF bridge_emit_keeps[OF env tg]],
        rule keeps_pbind[OF bridge_emit_keeps[OF env tg]], rule append)
      (use c check in \<open>auto simp: coordinator_keeps_def\<close>)
qed

lemma coordinate_phase_keeps:
  assumes "env_keeps J env" "target_keeps J tg" "coordinator_keeps J c" "keeps (bridge_inv J) check"
  shows "keeps (bridge_inv J) (coordinate_phase env tg check r c timeouts l)"
  unfolding coordinate_phase_def Let_def
  by (intro keep_rules keeps_outer coordinate_keeps emit_stages_keeps assms)
    (use assms(3) in \<open>simp add: coordinator_keeps_def\<close>)

lemma start_fault_keeps:
  assumes "env_keeps J env" "target_keeps J tg" "keeps (bridge_inv J) check"
  shows "keeps (bridge_inv J) (start_fault env tg check r)"
  unfolding start_fault_def
  by (intro keep_rules keeps_outer bridge_emit_keeps assms) (use assms(1) in \<open>simp_all add: env_keeps_def\<close>)

lemma run_body_keeps:
  assumes env: "env_keeps J env" and tg: "target_keeps J tg" and check: "keeps (bridge_inv J) check"
  shows "keeps (bridge_inv J) (run_body env tg check r l)"
proof -
  have "keeps (bridge_inv J) (fault_phase env tg check r l (coordinate_phase env tg check r c timeouts))"
    if "coordinator_keeps J c" for c timeouts l
    unfolding fault_phase_def Let_def
    by (intro keep_rules start_fault_keeps coordinate_phase_keeps assms that)
  then show ?thesis
    unfolding run_body_def Let_def
    by (intro keeps_try_ensures[OF admit_ensures[OF env]])
      (auto intro!: keep_rules check lock_keeps env bridge_emit_keeps tg)
qed

lemma cleanup_phase_keeps:
  assumes "env_keeps J env" "target_keeps J tg"
  shows "keeps (bridge_inv J) (cleanup_phase env tg l)"
  unfolding cleanup_phase_def Let_def
  by (intro keep_rules keeps_outer bridge_emit_keeps assms) (use assms(1) in \<open>simp add: env_keeps_def\<close>)

lemma finish_run_keeps:
  assumes "env_keeps J env" "target_keeps J tg"
  shows "keeps (bridge_inv J) (finish_run env tg r report status cleanup)"
  unfolding finish_run_def evaluate_report_def Let_def
  by (intro keep_rules keeps_outer bridge_emit_keeps bridge_finalize_keeps assms)
    (use assms(1) in \<open>auto simp: env_keeps_def call_keeps_def\<close>)

lemma run_exits_keeps:
  assumes "env_keeps J env" "target_keeps J tg"
  shows "keeps (bridge_inv J) (run_exits env tg r l)"
  unfolding run_exits_def Let_def
  by (intro keep_rules cleanup_phase_keeps finish_run_keeps lock_keeps assms)

text \<open>A run keeps what its surroundings keep.\<close>

lemma runtime_run_keeps:
  assumes env: "env_keeps J env" and tg: "target_keeps J tg"
  shows "keeps J (runtime_run env tg r)"
  unfolding runtime_run_def Let_def
  by (intro keep_rules attach_advice_keeps keeps_with_bridge run_body_keeps run_exits_keeps
      control_check_keeps assms) (use env in \<open>simp_all add: env_keeps_def\<close>)

end
