(* ===== verification/RuntimeSafety.thy ===== *)
theory RuntimeSafety
  imports RuntimeContract
begin

text \<open>
  What a run of the experiment runtime does to the cluster: the fault monitor of \<open>ChaosAdapter\<close>
  follows the body of the run, its exits and the result, for every fault provider; the rules for the
  programs around the bridge come first.
\<close>

section \<open>Rules\<close>

lemma emits_outer [prog_rules]: "emits P m \<Longrightarrow> emits P (outer m)"
  by (rule emitsI) (auto simp: outer_run dest!: emitsD)

lemma emits_with_bridge [prog_rules]: "emits P m \<Longrightarrow> emits P (with_bridge store m)"
  by (rule emitsI) (auto simp: with_bridge_run dest!: emitsD)

lemma guided_outer: "guided delta q m Q \<Longrightarrow> guided delta q (outer m) Q"
  by (rule guidedI) (auto simp: outer_run reaches_def dest!: guidedD)

lemma guided_with_bridge: "guided delta q m Q \<Longrightarrow> guided delta q (with_bridge store m) Q"
  by (rule guidedI) (auto simp: with_bridge_run reaches_def dest!: guidedD)

lemma delivers_outer: "delivers m Q \<Longrightarrow> delivers (outer m) Q"
  unfolding delivers_def outer_def by (metis (no_types, lifting) case_prod_conv)

lemma returns_outer: "returns Q m \<Longrightarrow> returns Q (outer m)"
  by (auto simp: returns_def outer_run)

lemma emits_returns_bind:
  assumes "emits P m" and "returns R m" and "\<And>x. R x \<Longrightarrow> emits P (f x)"
  shows "emits P (pbind m f)"
proof (rule emitsI)
  fix s r s' assume run: "pbind m f s = (r, s')"
  obtain rm t where m: "m s = (rm, t)" by (cases "m s")
  note first = emitsD[OF assms(1) m]
  show "\<exists>new. sys_trace s' = new @ sys_trace s \<and> (\<forall>e \<in> set new. P e)"
  proof (cases rm)
    case (Inr x)
    with run m have "f x t = (r, s')" by (simp add: pbind_def)
    from emits_seq[OF first emitsD[OF assms(3) this]] returnsD[OF assms(2)] m Inr show ?thesis by blast
  qed (use run m first in \<open>simp add: pbind_def\<close>)
qed

lemma emits_try_step [prog_rules]:
  "emits P m \<Longrightarrow> (\<And>x. emits P (f x)) \<Longrightarrow> emits P (try_step m l f)"
  unfolding try_step_def by (intro prog_rules)

lemma guided_try_step:
  assumes "guided delta q m R" and "\<And>e q'. R (Inl e) q' \<Longrightarrow> Q (Inr (Some e, l)) q'"
    and "\<And>x q'. R (Inr x) q' \<Longrightarrow> guided delta q' (f x) Q"
  shows "guided delta q (try_step m l f) Q"
proof -
  have "guided delta q (ptry (pbind m (\<lambda>x. preturn (Inr x))) (\<lambda>e. preturn (Inl e)))
      (\<lambda>r q'. case r of Inl e \<Rightarrow> False | Inr out \<Rightarrow> R out q')"
    by (rule guided_ptry[where R = "\<lambda>r q'. case r of Inl e \<Rightarrow> R (Inl e) q'
          | Inr (Inl e) \<Rightarrow> False | Inr (Inr x) \<Rightarrow> R (Inr x) q'"])
      (auto intro!: guided_preturn guided_pbind[OF assms(1)] split: sum.splits)
  then show ?thesis
    unfolding try_step_def
    by (rule guided_pbind) (auto split: sum.splits intro: assms guided_preturn)
qed

text \<open>A step that leaves faults alone, and whose value satisfies a predicate.\<close>

lemma guided_try_neutral:
  assumes "emits fault_neutral m" and "returns P m"
    and "\<And>e. Q (Inr (Some e, l)) q" and "\<And>x. P x \<Longrightarrow> guided fault_step q (f x) Q"
  shows "guided fault_step q (try_step m l f) Q"
proof -
  have "guided fault_step q m (\<lambda>r q'. q' = q \<and> (case r of Inl _ \<Rightarrow> True | Inr x \<Rightarrow> P x))"
  proof (rule guidedI)
    fix s r s' assume run: "m s = (r, s')"
    have "guided fault_step q m (\<lambda>_ q'. q' = q)" by (rule guided_fault_neutral[OF assms(1)]) simp
    from guidedD[OF this run] returnsD[OF assms(2)] run
    show "reaches fault_step q s s' (\<lambda>q'. q' = q \<and> (case r of Inl _ \<Rightarrow> True | Inr x \<Rightarrow> P x))"
      by (auto elim!: reaches_mono split: sum.splits)
  qed
  then show ?thesis by (rule guided_try_step) (auto intro: assms)
qed

lemma returns_any [simp]: "returns (\<lambda>_. True) m"
  by (simp add: returns_def)

lemmas guided_try_plain = guided_try_neutral[where P = "\<lambda>_. True", OF _ returns_any]

lemma guided_neutral_then:
  "emits fault_neutral m \<Longrightarrow> (\<And>e. Q (Inl e) q) \<Longrightarrow> (\<And>x. guided fault_step q (f x) Q) \<Longrightarrow>
   guided fault_step q (pbind m f) Q"
  by (rule guided_pbind[OF guided_fault_neutral[where Q = "\<lambda>_ q'. q' = q"]]) auto

section \<open>What the surroundings promise\<close>

text \<open>The sink returns and leaves faults alone; the identifier and the clock's texts are not blank.\<close>

definition live_target :: "'w runtime_env \<Rightarrow> 'w run_target \<Rightarrow> bool" where
  "live_target env tg \<longleftrightarrow> strip (rt_id tg) \<noteq> '''' \<and> (\<forall>w. strip (fst (xr_now env w)) \<noteq> '''') \<and>
     (\<forall>e. emits fault_neutral (rt_sink tg e) \<and> delivers (rt_sink tg e) (\<lambda>_. True))"

text \<open>A coordinator whose commands are neither \<open>kubectl apply\<close> nor \<open>kubectl delete\<close>.\<close>

definition quiet_coordinator :: "'w coordinator_object \<Rightarrow> bool" where
  "quiet_coordinator c \<longleftrightarrow> (\<forall>check timeouts append ns dep metric threshold.
     emits fault_neutral check \<longrightarrow> (\<forall>f stream v. append = Some f \<longrightarrow> emits fault_neutral (f stream v)) \<longrightarrow>
     emits fault_neutral (cj_run c check timeouts append ns dep metric threshold))"

definition quiet_env :: "'w runtime_env \<Rightarrow> bool" where
  "quiet_env env \<longleftrightarrow>
     (\<forall>r. emits fault_neutral (xr_factory env r) \<and> returns quiet_coordinator (xr_factory env r)) \<and>
     (\<forall>c r. emits fault_neutral (xr_admit env c r)) \<and>
     (\<forall>ns dep. emits fault_neutral (xr_lock_enter env ns dep) \<and> emits fault_neutral (xr_lock_exit env ns dep)) \<and>
     (\<forall>path. emits fault_neutral (xr_read_samples env path)) \<and>
     (\<forall>put s. xr_put_session env = Some put \<longrightarrow> emits fault_neutral (put s))"

section \<open>The pieces of a run\<close>

lemma bridge_emit_neutral:
  "live_target env tg \<Longrightarrow> emits fault_neutral (bridge_emit env tg stage m p)"
  unfolding bridge_emit_def live_target_def by (intro prog_rules) blast

lemma bridge_append_neutral:
  "live_target env tg \<Longrightarrow> emits fault_neutral (bridge_append env tg stream v)"
  unfolding bridge_append_def Let_def by (intro prog_rules bridge_emit_neutral)

lemma bridge_finalize_neutral: "emits fault_neutral (bridge_finalize tg report)"
  unfolding bridge_finalize_def by (intro prog_rules)

lemma control_check_neutral: "emits fault_neutral (outer (control_check env deadline))"
  unfolding control_check_def by (intro prog_rules)

lemma attach_advice_neutral: "quiet_env env \<Longrightarrow> emits fault_neutral (attach_advice env r report)"
  unfolding attach_advice_def Let_def quiet_env_def by (intro prog_rules) blast

lemma lock_enter_neutral: "quiet_env env \<Longrightarrow> emits fault_neutral (outer (lock_enter env r))"
  unfolding lock_enter_def quiet_env_def by (intro prog_rules) (simp_all add: fault_neutral_def)

lemma emit_stages_neutral:
  "live_target env tg \<Longrightarrow> emits fault_neutral (emit_stages env tg report status stages)"
  by (induction env tg report status stages rule: emit_stages.induct)
    (auto intro!: prog_rules bridge_emit_neutral)

lemma admit_neutral: "quiet_env env \<Longrightarrow> emits fault_neutral (outer (admit env r))"
  unfolding admit_def quiet_env_def by (intro prog_rules) blast+

lemma admit_quiet: "quiet_env env \<Longrightarrow> returns (\<lambda>(c, _). quiet_coordinator c) (outer (admit env r))"
  unfolding admit_def
  by (rule returns_outer, rule returns_pbind_any, rule returns_pbind[where R = quiet_coordinator])
    (auto simp: quiet_env_def intro!: returns_pbind_any returns_preturn returns_pthrow split: option.splits)

lemma coordinate_neutral:
  assumes live: "live_target env tg" and quiet: "quiet_coordinator c" and check: "emits fault_neutral check"
  shows "emits fault_neutral (coordinate env tg check r c timeouts)"
proof -
  let ?append = "case cj_event_store c of None \<Rightarrow> preturn None
    | Some own \<Rightarrow> pgets (\<lambda>w. (Some (bridge_append env tg),
        w\<lparr>br_store := (case xr_store env of None \<Rightarrow> own | Some st \<Rightarrow> Some st)\<rparr>))"
  have emits: "emits fault_neutral ?append"
    by (cases "cj_event_store c") (auto intro!: prog_rules)
  have ret: "returns (\<lambda>append. \<forall>f stream v. append = Some f \<longrightarrow> emits fault_neutral (f stream v)) ?append"
    using bridge_append_neutral[OF live] by (auto simp: returns_def pgets_def split: option.splits)
  show ?thesis
    unfolding coordinate_def
    by (rule emits_pbind[OF check], rule emits_pbind[OF bridge_emit_neutral[OF live]],
        rule emits_pbind[OF bridge_emit_neutral[OF live]], rule emits_returns_bind[OF emits ret])
      (use quiet check in \<open>auto simp: quiet_coordinator_def\<close>)
qed

section \<open>The body and the exits\<close>

text \<open>The active fault is the one whose application the local variables hold.\<close>

definition fault_at :: "(ChaosApplication \<Rightarrow> bool) \<Rightarrow> run_locals \<Rightarrow> string option \<Rightarrow> bool" where
  "fault_at usable l q \<longleftrightarrow> q = map_option fault_of (lv_application l) \<and> pred_option usable (lv_application l)"

definition body_ok :: "(ChaosApplication \<Rightarrow> bool) \<Rightarrow> (exn, body_end) result \<Rightarrow> string option \<Rightarrow> bool" where
  "body_ok usable r q \<longleftrightarrow> (case r of Inl _ \<Rightarrow> False | Inr (e, l) \<Rightarrow> fault_at usable l q)"

lemma fault_at_update [simp]:
  "fault_at usable (l\<lparr>lv_report := x\<rparr>) q = fault_at usable l q"
  "fault_at usable (l\<lparr>lv_status := y\<rparr>) q = fault_at usable l q"
  "fault_at usable (l\<lparr>lv_locked := b\<rparr>) q = fault_at usable l q"
  by (simp_all add: fault_at_def)

lemma body_ok_simp [simp]: "body_ok usable (Inr (e, l)) q = fault_at usable l q"
  by (simp add: body_ok_def)

lemma fault_at_after_body [simp]: "fault_at usable (after_body (e, l)) q = fault_at usable l q"
  by (cases e) simp_all

lemma coordinate_phase_guided:
  assumes "live_target env tg" "quiet_coordinator c" "emits fault_neutral check" "fault_at usable l q"
  shows "guided fault_step q (coordinate_phase env tg check r c timeouts l) (body_ok usable)"
  unfolding coordinate_phase_def Let_def outer_pgets
  by (intro guided_try_plain coordinate_neutral emit_stages_neutral emits_plift guided_pgets_bind
      guided_preturn)
    (use assms in simp_all)

text \<open>The event that announces the cleanup reaches the sink.\<close>

lemma emit_cleanup_returns:
  assumes "live_target env tg" and "0 \<le> br_sequence (sys_world s)"
  shows "\<exists>s'. bridge_emit env tg CLEANUP ''cleaning up registered fault'' [] s = (Inr (), s')"
proof -
  obtain now w where now: "xr_now env (br_rest (sys_world s)) = (now, w)"
    by (cases "xr_now env (br_rest (sys_world s))")
  from assms(1) have "strip now \<noteq> ''''" "strip (rt_id tg) \<noteq> ''''"
    unfolding live_target_def using now by (metis fst_conv)+
  moreover have "strip ''cleaning up registered fault'' = ''cleaning up registered fault''"
    "strip ''running'' = ''running''"
    "member_of stage_value all_stages ''cleanup'' = Some CLEANUP" by code_simp+
  ultimately have "\<exists>event. make_event (VStr (rt_id tg)) (VInt (br_sequence (sys_world s) + 1))
      (VStr (stage_value CLEANUP)) (VStr ''running'') (VStr ''cleaning up registered fault'') (VStr now)
      (VDict []) = Inr event"
    using assms(2) by (simp add: make_event_def)
  then obtain event where event: "make_event (VStr (rt_id tg)) (VInt (br_sequence (sys_world s) + 1))
      (VStr (stage_value CLEANUP)) (VStr ''running'') (VStr ''cleaning up registered fault'') (VStr now)
      (VDict []) = Inr event" by blast
  have sink: "\<exists>s'. outer (rt_sink tg event) t = (Inr (), s')" for t
    using assms(1) delivers_outer[of "rt_sink tg event" "\<lambda>_. True"]
    unfolding live_target_def delivers_def by (metis (full_types) unit.exhaust)
  show ?thesis
    unfolding bridge_emit_def outer_pgets pbind_def pgets_def plift_def
    by (simp add: now event sink del: stage_value.simps)
qed

lemma cleanup_neutral_when_none:
  "lv_application l = None \<Longrightarrow> cleanup_phase env tg l = preturn ([], lv_report l)"
  by (simp add: cleanup_phase_def)

lemma lock_exit_guided: "quiet_env env \<Longrightarrow> guided fault_step None (outer (lock_exit env r)) (\<lambda>_ q. q = None)"
  unfolding lock_exit_def quiet_env_def
  by (intro guided_outer guided_if guided_neutral_then guided_preturn guided_emit)
    (auto simp: fault_step_def)

lemma finish_run_neutral:
  assumes "live_target env tg" "quiet_env env"
  shows "emits fault_neutral (finish_run env tg r report status cleanup)"
  unfolding finish_run_def evaluate_report_def Let_def
  by (intro prog_rules bridge_emit_neutral bridge_finalize_neutral assms)
    (use assms(2) in \<open>simp add: quiet_env_def\<close>)

text \<open>
  A fault provider that the runtime uses, \<open>usable\<close> as in the interface: the body of a run, its exits,
  and the run.
\<close>

context fault_provider
begin

definition provides :: "'w runtime_env \<Rightarrow> bool" where
  "provides env \<longleftrightarrow> xr_preflight env = preflight \<and> xr_inject env = inject \<and> xr_cleanup env = cleanup"

lemma start_fault_guided:
  assumes "live_target env tg" "provides env" "emits fault_neutral check"
  shows "guided fault_step None (start_fault env tg check r)
    (\<lambda>out q. case out of Inl _ \<Rightarrow> q = None | Inr ap \<Rightarrow> q = Some (fault_of ap) \<and> usable ap)"
proof -
  have inject: "guided fault_step None (outer (inject i))
      (\<lambda>out q. case out of Inl _ \<Rightarrow> q = None | Inr ap \<Rightarrow> q = Some (fault_of ap) \<and> usable ap)" for i
  proof (rule guided_outer, rule guidedI)
    fix s out s' assume run: "inject i s = (out, s')"
    from guidedD[OF inject_active run] returnsD[OF inject_usable] run
    show "reaches fault_step None s s'
        (\<lambda>q. case out of Inl _ \<Rightarrow> q = None | Inr ap \<Rightarrow> q = Some (fault_of ap) \<and> usable ap)"
      by (auto elim!: reaches_mono split: sum.splits)
  qed
  have "xr_preflight env = preflight" "xr_inject env = inject" using assms(2) by (simp_all add: provides_def)
  then show ?thesis
    unfolding start_fault_def
    by (simp only:) (intro guided_neutral_then assms(3) emits_outer preflight_neutral guided_if guided_pthrow
        bridge_emit_neutral assms(1) inject; simp)
qed

lemma fault_phase_guided:
  assumes "live_target env tg" "provides env" "emits fault_neutral check" "lv_application l = None"
    and continue: "\<And>l q. fault_at usable l q \<Longrightarrow> guided fault_step q (continue l) (body_ok usable)"
  shows "guided fault_step None (fault_phase env tg check r l continue) (body_ok usable)"
  unfolding fault_phase_def Let_def
proof (intro guided_if guided_try_step[OF start_fault_guided] guided_try_plain)
qed (use assms in \<open>auto simp: fault_at_def intro: prog_rules intro!: continue\<close>)

lemma run_body_guided:
  assumes "live_target env tg" "quiet_env env" "provides env" "emits fault_neutral check"
    "lv_application l = None"
  shows "guided fault_step None (run_body env tg check r l) (body_ok usable)"
proof -
  have l: "fault_at usable l None" by (simp add: fault_at_def assms(5))
  show ?thesis
    unfolding run_body_def Let_def
    by (rule guided_try_neutral[OF admit_neutral[OF assms(2)] admit_quiet[OF assms(2)]])
      (auto simp: l assms intro!: guided_try_plain lock_enter_neutral bridge_emit_neutral fault_phase_guided
        coordinate_phase_guided)
qed

text \<open>Whatever the body left, no fault is active after the cleanup.\<close>

lemma cleanup_reaches:
  assumes "live_target env tg" "provides env" "fault_at usable l q" "0 \<le> br_sequence (sys_world s)"
    and run: "cleanup_phase env tg l s = (out, s')"
  shows "reaches fault_step q s s' (\<lambda>q'. q' = None \<and> \<not> isl out)"
proof (cases "lv_application l")
  case None
  with run assms(3) show ?thesis
    by (auto simp: cleanup_neutral_when_none fault_at_def intro: reaches_same)
next
  case (Some ap)
  let ?announce = "bridge_emit env tg CLEANUP ''cleaning up registered fault'' []"
  define rest where "rest = (\<lambda>_ :: unit. ptry
    (pbind (outer (cleanup ap)) (\<lambda>answer.
       let c = (case answer of Some d \<Rightarrow> d | None \<Rightarrow> invalid_cleanup) in
       preturn (c, if vget c ''valid'' \<noteq> VBool True
         then cleanup_failed (json_str (vget_default c ''stderr'' (VStr ''cleanup failed''))) (lv_report l)
         else lv_report l)))
    (\<lambda>e. preturn ([(''valid'', VBool False), (''stderr'', VStr (exn_str e))],
       cleanup_failed (exn_str e) (lv_report l))))"
  have phase: "cleanup_phase env tg l = pbind ?announce rest"
    using Some assms(2) by (simp add: cleanup_phase_def provides_def rest_def)
  have q: "q = Some (fault_of ap)" "usable ap" using Some assms(3) by (simp_all add: fault_at_def)
  have rest: "guided fault_step q (rest u) (\<lambda>out q'. q' = None \<and> \<not> isl out)" for u
    unfolding rest_def q(1)
    by (rule guided_ptry[where R = "\<lambda>_ q'. q' = None"],
        rule guided_pbind[OF guided_outer[OF cleanup_removes[OF q(2)]]])
      (auto simp: Let_def intro!: guided_preturn guided_ptry)
  from emit_cleanup_returns[OF assms(1,4)] obtain t where announce: "?announce s = (Inr (), t)" by blast
  with run have rest_run: "rest () t = (out, s')" by (simp add: phase pbind_def)
  have "guided fault_step q ?announce (\<lambda>_ q'. q' = q)"
    by (rule guided_fault_neutral[OF bridge_emit_neutral[OF assms(1)]]) simp
  from reaches_seq[OF guidedD[OF this announce]] guidedD[OF rest rest_run] show ?thesis by blast
qed

lemma run_exits_reaches:
  assumes "live_target env tg" "quiet_env env" "provides env" "fault_at usable l q"
    "0 \<le> br_sequence (sys_world s)" and run: "run_exits env tg r l s = (out, s')"
  shows "reaches fault_step q s s' (\<lambda>q'. q' = None)"
proof -
  obtain c t where c: "cleanup_phase env tg l s = (c, t)" by (cases "cleanup_phase env tg l s")
  from cleanup_reaches[OF assms(1,3,4,5) c]
  have first: "reaches fault_step q s t (\<lambda>q'. q' = None \<and> \<not> isl c)" .
  then obtain x where x: "c = Inr x" by (cases c) (auto simp: reaches_def)
  define rest where "rest = (\<lambda>(cleanup, report).
     pbind (if lv_locked l then outer (lock_exit env r) else preturn ()) (\<lambda>_.
     let report = (if truthy (vget report ''cleanup_error'')
           then dict_set ''cleanup_status'' (VStr ''cleanup_failed'') report else report);
         status = json_str (vget_default report ''final_status'' (VStr (lv_status l)))
     in finish_run env tg r report status cleanup))"
  have "guided fault_step None (if lv_locked l then outer (lock_exit env r) else preturn ()) (\<lambda>_ q. q = None)"
    by (intro guided_if lock_exit_guided[OF assms(2)] guided_preturn) simp
  then have "guided fault_step None (rest p) (\<lambda>_ q. q = None)" for p
    unfolding rest_def Let_def
    by (auto split: prod.split intro: guided_pbind guided_fault_neutral[OF finish_run_neutral[OF assms(1,2)]])
  moreover have "rest x t = (out, s')" using run c x by (simp add: run_exits_def pbind_def rest_def)
  ultimately have "reaches fault_step None t s' (\<lambda>q'. q' = None)" by (rule guidedD)
  with reaches_seq[OF first] show ?thesis by blast
qed

text \<open>From the first request to the result.\<close>

lemma run_reaches:
  assumes live: "live_target env tg" and quiet: "quiet_env env" and "provides env"
    and keeps: "env_keeps (\<lambda>_. True) env" and run: "runtime_run env tg r s = (out, s')"
  shows "reaches fault_step None s s' (\<lambda>q. q = None)"
proof -
  define check where "check = (\<lambda>start. outer
    (control_check env (fadd start (rc_experiment_seconds (xr_configuration env)))))"
  define l where "l = (\<lambda>report. \<lparr>lv_report = report, lv_application = None, lv_status = ''failed'', lv_locked = False\<rparr>)"
  have inner: "guided fault_step None (with_bridge (xr_store env)
      (pbind (run_body env tg (check start) r (l report)) (\<lambda>e. run_exits env tg r (after_body e)))) (\<lambda>_ q. q = None)"
    for start report
  proof (rule guidedI)
    fix s out s' assume "with_bridge (xr_store env) (pbind (run_body env tg (check start) r (l report))
        (\<lambda>e. run_exits env tg r (after_body e))) s = (out, s')"
    then obtain t where t: "pbind (run_body env tg (check start) r (l report))
        (\<lambda>e. run_exits env tg r (after_body e))
        \<lparr>sys_world = \<lparr>br_sequence = 0, br_events = [], br_store = xr_store env, br_rest = sys_world s\<rparr>,
         sys_trace = sys_trace s\<rparr> = (out, t)"
      and s': "s' = \<lparr>sys_world = br_rest (sys_world t), sys_trace = sys_trace t\<rparr>"
      by (auto simp: with_bridge_run)
    let ?s0 = "\<lparr>sys_world = \<lparr>br_sequence = 0, br_events = [], br_store = xr_store env, br_rest = sys_world s\<rparr>,
         sys_trace = sys_trace s\<rparr>"
    obtain b u where b: "run_body env tg (check start) r (l report) ?s0 = (b, u)" by fastforce
    have "guided fault_step None (run_body env tg (check start) r (l report)) (body_ok usable)"
      by (rule run_body_guided[OF live quiet assms(3)]) (simp_all add: check_def l_def control_check_neutral)
    from guidedD[OF this b] have body: "reaches fault_step None ?s0 u (body_ok usable b)" .
    then obtain e l' where e: "b = Inr (e, l')" by (cases b) (auto simp: reaches_def body_ok_def)
    have inv: "bridge_inv (\<lambda>_. True) (sys_world ?s0)"
      using keeps by (simp add: bridge_inv_def env_keeps_def)
    have "keeps (bridge_inv (\<lambda>_. True)) (run_body env tg (check start) r (l report))"
      by (rule run_body_keeps[OF keeps]) (simp_all add: target_keeps_def keeps_def check_def
          control_check_keeps[OF keeps, unfolded keeps_def])
    from keepsD[OF this inv b] have u: "0 \<le> br_sequence (sys_world u)" by (simp add: bridge_inv_def)
    from t b e have exits: "run_exits env tg r (after_body (e, l')) u = (out, t)" by (simp add: pbind_def)
    have "reaches fault_step None ?s0 t (\<lambda>q. q = None)"
    proof (rule reaches_seq[OF body])
      fix q assume "body_ok usable b q"
      then have "fault_at usable (after_body (e, l')) q" by (simp add: e)
      from run_exits_reaches[OF live quiet assms(3) this u exits] show "reaches fault_step q u t (\<lambda>q. q = None)" .
    qed
    then show "reaches fault_step None s s' (\<lambda>q. q = None)" by (simp add: reaches_def s')
  qed
  have "guided fault_step None (runtime_run env tg r) (\<lambda>_ q. q = None)"
    unfolding runtime_run_def Let_def
    by (intro guided_plift_bind guided_neutral_then attach_advice_neutral[OF quiet] guided_pgets_bind
        inner[unfolded check_def l_def]) simp_all
  from guidedD[OF this run] show ?thesis .
qed

end

end
