(* ===== verification/JobStore.thy ===== *)
theory JobStore
  imports RuntimeModels
begin

text \<open>
  \<open>experiment_jobs.py\<close>: the durable store of experiment jobs and their events. The two SQLite
  tables are lists of rows in \<open>rowid\<close> order; a JSON column holds the value its text denotes. Every
  method is the sequence of statements the code sends; a method that reads and then writes does so
  in two transactions, so other calls may come in between. Clock readings are arguments.
\<close>

section \<open>Status\<close>

datatype ExperimentJobStatus =
    QUEUED | RUNNING | CANCELLING | COMPLETED | FAILED | BLOCKED | CANCELLED | INTERRUPTED

fun status_value :: "ExperimentJobStatus \<Rightarrow> string" where
  "status_value QUEUED = ''queued''"
| "status_value RUNNING = ''running''"
| "status_value CANCELLING = ''cancelling''"
| "status_value COMPLETED = ''completed''"
| "status_value FAILED = ''failed''"
| "status_value BLOCKED = ''blocked''"
| "status_value CANCELLED = ''cancelled''"
| "status_value INTERRUPTED = ''interrupted''"

definition all_statuses :: "ExperimentJobStatus list" where
  "all_statuses = [QUEUED, RUNNING, CANCELLING, COMPLETED, FAILED, BLOCKED, CANCELLED, INTERRUPTED]"

definition terminal :: "ExperimentJobStatus \<Rightarrow> bool" where
  "terminal s = (s \<in> {COMPLETED, FAILED, BLOCKED, CANCELLED, INTERRUPTED})"

lemma terminal_simps [simp]:
  "\<not> terminal QUEUED" "\<not> terminal RUNNING" "\<not> terminal CANCELLING" "terminal COMPLETED"
  "terminal FAILED" "terminal BLOCKED" "terminal CANCELLED" "terminal INTERRUPTED"
  by (simp_all add: terminal_def)

definition job_status_of :: "string \<Rightarrow> (exn, ExperimentJobStatus) result" where
  "job_status_of s = (case member_of status_value all_statuses s of
      Some st \<Rightarrow> Inr st
    | None \<Rightarrow> Inl (ValueError (str_repr s @ '' is not a valid ExperimentJobStatus'')))"

lemma status_member [simp]: "job_status_of (status_value s) = Inr s"
  by (cases s) (simp_all add: job_status_of_def member_of_def all_statuses_def)

lemma job_status_of_Inr: "job_status_of s = Inr st \<Longrightarrow> s = status_value st"
  by (auto simp: job_status_of_def dest: member_of_Some split: option.splits)

lemma status_value_eq [simp]: "status_value a = status_value b \<longleftrightarrow> a = b"
  by (metis status_member sum.inject(2))

section \<open>Tables\<close>

record job_row =
  jr_id :: string
  jr_request :: pyval
  jr_status :: string
  jr_stage :: string
  jr_created_at :: string
  jr_updated_at :: string
  jr_started_at :: "string option"
  jr_finished_at :: "string option"
  jr_cancel :: bool
  jr_result :: "pyval option"
  jr_error :: string

record event_row =
  er_job :: string
  er_sequence :: int
  er_event :: pyval
  er_created_at :: string

record job_db =
  db_jobs :: "job_row list"
  db_events :: "event_row list"

record ExperimentJob =
  ej_id :: string
  ej_request :: ExperimentRuntimeRequest
  ej_status :: ExperimentJobStatus
  ej_stage :: string
  ej_created_at :: string
  ej_updated_at :: string
  ej_started_at :: "string option"
  ej_finished_at :: "string option"
  ej_cancel_requested :: bool
  ej_result :: "pyval option"
  ej_error :: string

section \<open>Rows and objects\<close>

text \<open>\<open>data[key]\<close> and \<open>data.get(key, default)\<close>.\<close>

fun subscript :: "pyval \<Rightarrow> string \<Rightarrow> (exn, pyval) result" where
  "subscript (VDict d) k = (case map_of d k of Some v \<Rightarrow> Inr v | None \<Rightarrow> Inl (KeyError k))"
| "subscript v k = Inl (TypeError ''value is not subscriptable'')"

fun get_or :: "pyval \<Rightarrow> string \<Rightarrow> pyval \<Rightarrow> pyval" where
  "get_or (VDict d) k dv = vget_default d k dv"
| "get_or v k dv = dv"

definition request_from_dict :: "pyval \<Rightarrow> (exn, ExperimentRuntimeRequest) result" where
  "request_from_dict data =
     rbind (subscript data ''scenario_id'') (\<lambda>scenario.
     rbind (subscript data ''namespace'') (\<lambda>namespace.
     rbind (subscript data ''deployment'') (\<lambda>deployment.
     rbind (subscript data ''metric'') (\<lambda>metric.
     rbind (subscript data ''threshold'') (\<lambda>threshold.
     rbind (subscript data ''mode'') (\<lambda>mode.
     rbind (enum_value ''ExecutionMode'' mode_value [MOCK, DRY_RUN, REAL] mode) (\<lambda>m.
     rbind (subscript data ''backend'') (\<lambda>backend.
     rbind (enum_value ''ExecutionBackend'' backend_value [PYTHON, GO] backend) (\<lambda>b.
     rbind (subscript data ''protocol_profile'') (\<lambda>profile.
     rbind (subscript data ''repetitions'') (\<lambda>repetitions.
     make_request \<lparr>qa_scenario_id = scenario, qa_namespace = namespace, qa_deployment = deployment,
       qa_metric = metric, qa_threshold = threshold, qa_mode = VStr (mode_value m),
       qa_backend = VStr (backend_value b), qa_protocol_profile = profile,
       qa_repetitions = repetitions,
       qa_controller = get_or data ''controller'' (VStr ''deterministic''),
       qa_model = get_or data ''model'' (VStr ''''),
       qa_incident_source = get_or data ''incident_source'' (VStr ''chaos_mesh''),
       qa_benchmark_id = get_or data ''benchmark_id'' (VStr ''''),
       qa_detection_context = get_or data ''detection_context'' (VDict [])\<rparr>)))))))))))"

definition event_from_dict :: "pyval \<Rightarrow> (exn, RuntimeEvent) result" where
  "event_from_dict data =
     rbind (subscript data ''experiment_id'') (\<lambda>experiment_id.
     rbind (subscript data ''sequence'') (\<lambda>sequence.
     rbind (subscript data ''stage'') (\<lambda>stage.
     rbind (enum_value ''RuntimeStage'' stage_value all_stages stage) (\<lambda>sg.
     rbind (subscript data ''status'') (\<lambda>status.
     rbind (subscript data ''message'') (\<lambda>message.
     rbind (subscript data ''created_at'') (\<lambda>created_at.
     make_event experiment_id sequence (VStr (stage_value sg)) status message created_at
       (get_or data ''payload'' (VDict [])))))))))"

text \<open>\<open>result_json\<close> is decoded when its text is not empty, which every JSON text is.\<close>

definition job_from_row :: "job_row \<Rightarrow> (exn, ExperimentJob) result" where
  "job_from_row row =
     rbind (request_from_dict (jr_request row)) (\<lambda>request.
     rbind (job_status_of (jr_status row)) (\<lambda>status.
     Inr \<lparr>ej_id = jr_id row, ej_request = request, ej_status = status, ej_stage = jr_stage row,
          ej_created_at = jr_created_at row, ej_updated_at = jr_updated_at row,
          ej_started_at = jr_started_at row, ej_finished_at = jr_finished_at row,
          ej_cancel_requested = jr_cancel row, ej_result = jr_result row, ej_error = jr_error row\<rparr>))"

section \<open>Methods\<close>

type_synonym 'a job_op = "job_db \<Rightarrow> (exn, 'a) result \<times> job_db"

definition find_row :: "string \<Rightarrow> job_db \<Rightarrow> job_row option" where
  "find_row i db = List.find (\<lambda>r. jr_id r = i) (db_jobs db)"

definition update_row :: "string \<Rightarrow> (job_row \<Rightarrow> job_row) \<Rightarrow> job_db \<Rightarrow> job_db" where
  "update_row i f db = db\<lparr>db_jobs := map (\<lambda>r. if jr_id r = i then f r else r) (db_jobs db)\<rparr>"

definition get_job :: "string \<Rightarrow> job_db \<Rightarrow> (exn, ExperimentJob option) result" where
  "get_job i db = (case find_row i db of
      None \<Rightarrow> Inr None
    | Some row \<Rightarrow> rbind (job_from_row row) (\<lambda>job. Inr (Some job)))"

definition required_job :: "string \<Rightarrow> job_db \<Rightarrow> (exn, ExperimentJob) result" where
  "required_job i db = rbind (get_job i db) (\<lambda>found. case found of
      Some job \<Rightarrow> Inr job
    | None \<Rightarrow> Inl (KeyError (''experiment job not found: '' @ i)))"

text \<open>Read, then write, then read back.\<close>

definition then_required :: "string \<Rightarrow> (exn, job_db) result \<Rightarrow> ExperimentJob job_op" where
  "then_required i r db = (case r of Inl e \<Rightarrow> (Inl e, db) | Inr db' \<Rightarrow> (required_job i db', db'))"

definition create_job ::
  "ExperimentRuntimeRequest \<Rightarrow> string option \<Rightarrow> string \<Rightarrow> string \<Rightarrow> ExperimentJob job_op" where
  "create_job request experiment_id hex now db =
     (let i = strip (case experiment_id of
            Some s \<Rightarrow> if s \<noteq> '''' then s else ''exp-'' @ hex | None \<Rightarrow> ''exp-'' @ hex)
      in then_required i
        (rbind (raise_if (i = '''') (ValueError ''experiment_id must not be empty'')) (\<lambda>_.
         rbind (request_to_dict request) (\<lambda>v.
         rbind (raise_if (find_row i db \<noteq> None)
           (ValueError (''experiment already exists: '' @ i))) (\<lambda>_.
         Inr (db\<lparr>db_jobs := db_jobs db @ [\<lparr>jr_id = i, jr_request = json_reload v,
           jr_status = status_value QUEUED, jr_stage = stage_value QUEUED_STAGE,
           jr_created_at = now, jr_updated_at = now, jr_started_at = None, jr_finished_at = None,
           jr_cancel = False, jr_result = None, jr_error = ''''\<rparr>]\<rparr>))))) db)"

text \<open>Binding an integer outside the signed 64-bit range to a statement raises
  \<open>OverflowError\<close>.\<close>

definition bind_int :: "int \<Rightarrow> (exn, unit) result" where
  "bind_int n = raise_if (n < - (2 ^ 63) \<or> 2 ^ 63 \<le> n)
     (OtherError ''Python int too large to convert to SQLite INTEGER'')"

fun list_limit :: "pyval \<Rightarrow> (exn, nat) result" where
  "list_limit (VInt n) =
     (if n < 1 then Inl (ValueError ''limit must be a positive integer'') else Inr (nat n))"
| "list_limit _ = Inl (ValueError ''limit must be a positive integer'')"

definition list_jobs :: "pyval \<Rightarrow> job_db \<Rightarrow> (exn, ExperimentJob list) result" where
  "list_jobs limit db =
     rbind (list_limit limit) (\<lambda>n.
     rbind (bind_int (int n)) (\<lambda>_. rmap job_from_row (take n (rev (db_jobs db)))))"

definition transition_row ::
  "ExperimentJobStatus \<Rightarrow> string option \<Rightarrow> string option \<Rightarrow> string \<Rightarrow> ExperimentJob \<Rightarrow> job_row \<Rightarrow> job_row" where
  "transition_row status stage error now existing row =
     row\<lparr>jr_status := status_value status,
       jr_stage := (case stage of Some s \<Rightarrow> if s \<noteq> '''' then s else ej_stage existing
                    | None \<Rightarrow> ej_stage existing),
       jr_updated_at := now,
       jr_started_at := (if status = RUNNING \<and> ej_started_at existing = None then Some now
                         else ej_started_at existing),
       jr_finished_at := (if terminal status then Some now else ej_finished_at existing),
       jr_error := (case error of None \<Rightarrow> ej_error existing | Some m \<Rightarrow> m)\<rparr>"

definition transition_job ::
  "string \<Rightarrow> string \<Rightarrow> string option \<Rightarrow> string option \<Rightarrow> string \<Rightarrow> ExperimentJob job_op" where
  "transition_job i status stage error now db =
     then_required i
       (rbind (job_status_of status) (\<lambda>st.
        rbind (required_job i db) (\<lambda>existing.
        Inr (update_row i (transition_row st stage error now existing) db)))) db"

text \<open>The insert of an event fails on a second event of this key and, by the foreign key, when the
  job is not in the table.\<close>

definition event_insert :: "RuntimeEvent \<Rightarrow> pyval \<Rightarrow> string \<Rightarrow> RuntimeEvent job_op" where
  "event_insert event v now db =
     (let i = re_experiment_id event; n = re_sequence event in
      case rbind (bind_int n) (\<lambda>_.
           raise_if ((\<exists>e \<in> set (db_events db). er_job e = i \<and> er_sequence e = n) \<or> find_row i db = None)
             (ValueError (''runtime event already exists: '' @ i @ ''/'' @ int_str n))) of
        Inl e \<Rightarrow> (Inl e, db)
      | Inr _ \<Rightarrow> (Inr event, update_row i
          (\<lambda>r. r\<lparr>jr_stage := stage_value (re_stage event), jr_updated_at := now\<rparr>)
          (db\<lparr>db_events := db_events db @ [\<lparr>er_job = i, er_sequence = n, er_event = json_reload v,
             er_created_at = re_created_at event\<rparr>]\<rparr>)))"

definition append_event :: "RuntimeEvent \<Rightarrow> string \<Rightarrow> RuntimeEvent job_op" where
  "append_event event now db =
     (case rbind (required_job (re_experiment_id event) db) (\<lambda>_. event_to_dict event) of
        Inl e \<Rightarrow> (Inl e, db)
      | Inr v \<Rightarrow> event_insert event v now db)"

fun event_position :: "pyval \<Rightarrow> (exn, int) result" where
  "event_position (VInt n) =
     (if n < 0 then Inl (ValueError ''sequence must be a non-negative integer'') else Inr n)"
| "event_position _ = Inl (ValueError ''sequence must be a non-negative integer'')"

definition events_after :: "string \<Rightarrow> pyval \<Rightarrow> job_db \<Rightarrow> (exn, RuntimeEvent list) result" where
  "events_after i sequence db =
     rbind (required_job i db) (\<lambda>_.
     rbind (event_position sequence) (\<lambda>n.
     rbind (bind_int n) (\<lambda>_.
     rmap (\<lambda>e. event_from_dict (er_event e))
       (sort_key er_sequence (filter (\<lambda>e. er_job e = i \<and> n < er_sequence e) (db_events db))))))"

definition result_row :: "ExperimentJobStatus \<Rightarrow> pyval \<Rightarrow> string \<Rightarrow> string \<Rightarrow> job_row \<Rightarrow> job_row" where
  "result_row status result error now row =
     row\<lparr>jr_status := status_value status, jr_stage := stage_value COMPLETED_STAGE,
       jr_result := Some (json_reload result), jr_error := error, jr_updated_at := now,
       jr_finished_at := Some now\<rparr>"

definition set_result :: "string \<Rightarrow> string \<Rightarrow> pyval \<Rightarrow> string \<Rightarrow> string \<Rightarrow> ExperimentJob job_op" where
  "set_result i status result error now db =
     then_required i
       (rbind (job_status_of status) (\<lambda>st.
        rbind (raise_if (\<not> terminal st) (ValueError ''result status must be terminal'')) (\<lambda>_.
        rbind (required_job i db) (\<lambda>_.
        rbind (raise_if (\<not> dumpable result)
          (TypeError ''Object is not JSON serializable'')) (\<lambda>_.
        Inr (update_row i (result_row st result error now) db)))))) db"

definition cancel_row :: "string \<Rightarrow> job_row \<Rightarrow> job_row" where
  "cancel_row now row =
     row\<lparr>jr_status := status_value CANCELLING, jr_cancel := True, jr_updated_at := now\<rparr>"

text \<open>The write of \<open>request_cancel\<close>, after its own check of the status.\<close>

definition cancel_write :: "string \<Rightarrow> string \<Rightarrow> ExperimentJob job_op" where
  "cancel_write i now db = then_required i (Inr (update_row i (cancel_row now) db)) db"

definition request_cancel :: "string \<Rightarrow> string \<Rightarrow> ExperimentJob job_op" where
  "request_cancel i now db = (case required_job i db of
      Inl e \<Rightarrow> (Inl e, db)
    | Inr existing \<Rightarrow> if terminal (ej_status existing) then (Inr existing, db) else cancel_write i now db)"

text \<open>Deleting a job deletes its events (\<open>ON DELETE CASCADE\<close>).\<close>

definition delete_rows :: "string \<Rightarrow> job_db \<Rightarrow> job_db" where
  "delete_rows i db = \<lparr>db_jobs = filter (\<lambda>r. jr_id r \<noteq> i) (db_jobs db),
     db_events = filter (\<lambda>e. er_job e \<noteq> i) (db_events db)\<rparr>"

definition delete_job :: "string \<Rightarrow> ExperimentJob job_op" where
  "delete_job i db = (case required_job i db of
      Inl e \<Rightarrow> (Inl e, db)
    | Inr existing \<Rightarrow>
        if \<not> terminal (ej_status existing)
        then (Inl (ValueError ''only terminal experiment jobs can be deleted''), db)
        else (Inr existing, delete_rows i db))"

definition nonterminal_row :: "job_row \<Rightarrow> bool" where
  "nonterminal_row r =
     (jr_status r \<in> {status_value QUEUED, status_value RUNNING, status_value CANCELLING})"

definition interrupt_row :: "string \<Rightarrow> job_row \<Rightarrow> job_row" where
  "interrupt_row now r = r\<lparr>jr_status := status_value INTERRUPTED, jr_stage := stage_value CLEANUP,
     jr_updated_at := now, jr_finished_at := Some now,
     jr_error := ''server restarted while the experiment was nonterminal''\<rparr>"

definition interrupt_nonterminal_jobs :: "string \<Rightarrow> job_db \<Rightarrow> string list \<times> job_db" where
  "interrupt_nonterminal_jobs now db =
     (map jr_id (filter nonterminal_row (db_jobs db)),
      db\<lparr>db_jobs := map (\<lambda>r. if nonterminal_row r then interrupt_row now r else r) (db_jobs db)\<rparr>)"

section \<open>A stored request is read back\<close>

definition request_fields :: "ExperimentRuntimeRequest \<Rightarrow> (string \<times> pyval) list" where
  "request_fields r =
     [(''scenario_id'', VStr (rq_scenario_id r)), (''namespace'', VStr (rq_namespace r)),
      (''deployment'', VStr (rq_deployment r)), (''metric'', VStr (rq_metric r)),
      (''threshold'', VFloat (rq_threshold r)), (''mode'', VStr (mode_value (rq_mode r))),
      (''backend'', VStr (backend_value (rq_backend r))),
      (''protocol_profile'', VStr (rq_protocol_profile r)),
      (''repetitions'', VInt (rq_repetitions r)), (''controller'', VStr (rq_controller r)),
      (''model'', VStr (rq_model r)), (''incident_source'', VStr (rq_incident_source r)),
      (''benchmark_id'', VStr (rq_benchmark_id r)),
      (''detection_context'', json_reload (thaw (VDict (rq_detection_context r))))]"

lemma reload_request: "json_reload (thaw (request_dict r)) = VDict (sort_key fst (request_fields r))"
  by (simp only: request_dict_def request_fields_def thaw.simps json_reload.simps list.map prod.case)

lemma request_lookup: "map_of (sort_key fst (request_fields r)) = map_of (request_fields r)"
  by (rule map_of_sort_key) (simp add: request_fields_def)

lemma request_subscripts:
  fixes r
  defines "d \<equiv> VDict (sort_key fst (request_fields r))"
  shows "subscript d ''scenario_id'' = Inr (VStr (rq_scenario_id r))"
    "subscript d ''namespace'' = Inr (VStr (rq_namespace r))"
    "subscript d ''deployment'' = Inr (VStr (rq_deployment r))"
    "subscript d ''metric'' = Inr (VStr (rq_metric r))"
    "subscript d ''threshold'' = Inr (VFloat (rq_threshold r))"
    "subscript d ''mode'' = Inr (VStr (mode_value (rq_mode r)))"
    "subscript d ''backend'' = Inr (VStr (backend_value (rq_backend r)))"
    "subscript d ''protocol_profile'' = Inr (VStr (rq_protocol_profile r))"
    "subscript d ''repetitions'' = Inr (VInt (rq_repetitions r))"
    "get_or d ''controller'' (VStr ''deterministic'') = VStr (rq_controller r)"
    "get_or d ''model'' (VStr '''') = VStr (rq_model r)"
    "get_or d ''incident_source'' (VStr ''chaos_mesh'') = VStr (rq_incident_source r)"
    "get_or d ''benchmark_id'' (VStr '''') = VStr (rq_benchmark_id r)"
    "get_or d ''detection_context'' (VDict []) = json_reload (thaw (VDict (rq_detection_context r)))"
  unfolding d_def subscript.simps get_or.simps vget_default_def request_lookup
  by (simp_all only: request_fields_def map_of.simps fun_upd_apply prod.sel) simp_all

definition reread_request :: "ExperimentRuntimeRequest \<Rightarrow> ExperimentRuntimeRequest" where
  "reread_request r = r\<lparr>rq_detection_context :=
     sort_key fst (map (\<lambda>(k, v). (k, sort_keys v)) (rq_detection_context r))\<rparr>"

lemma request_roundtrip:
  assumes ok: "request_ok r"
  shows "request_from_dict (json_reload (thaw (request_dict r)))
   = Inr (reread_request r)"
proof -
  have ctx: "frozen_mapping n (json_reload (thaw (VDict (rq_detection_context r))))
     = Inr (sort_key fst (map (\<lambda>(k, v). (k, sort_keys v)) (rq_detection_context r)))" for n
    using freeze_reload[of "VDict (rq_detection_context r)"] ok by (simp add: request_ok_def)
  have c: "strip ''deterministic'' = ''deterministic''" "strip ''autogen'' = ''autogen''"
    "lower ''deterministic'' = ''deterministic''" "lower ''autogen'' = ''autogen''"
    "strip ''chaos_mesh'' = ''chaos_mesh''" "strip ''aiopslab'' = ''aiopslab''"
    "underscored ''chaos_mesh'' = ''chaos_mesh''" "underscored ''aiopslab'' = ''aiopslab''"
    by code_simp+
  from ok have controller: "strip_identifier n (VStr (rq_controller r)) = Inr (rq_controller r)"
    "lower (rq_controller r) = rq_controller r" "lower (rq_controller r) \<in> {''deterministic'', ''autogen''}"
    and incident: "strip_identifier n (VStr (rq_incident_source r)) = Inr (rq_incident_source r)"
    "underscored (rq_incident_source r) = rq_incident_source r" for n
    by (auto simp: request_ok_def strip_identifier_Inr c)
  note fields = request_subscripts[of r, folded reload_request]
  show ?thesis
    unfolding request_from_dict_def make_request_def fields
    using ok controller incident ctx
    by (auto simp: request_ok_def reread_request_def member_choice_def strip_identifier_id
        simp del: strip_identifier.simps frozen_mapping.simps json_reload.simps thaw.simps plain.simps)
qed

section \<open>A stored event is read back\<close>

definition event_ok :: "RuntimeEvent \<Rightarrow> bool" where
  "event_ok e =
     (trimmed (re_experiment_id e) \<and> trimmed (re_status e) \<and> trimmed (re_message e) \<and>
      trimmed (re_created_at e) \<and> 0 \<le> re_sequence e \<and> plain (VDict (re_payload e)))"

lemma sequence_nonneg: "sequence_number v = Inr n \<Longrightarrow> 0 \<le> n"
  by (cases v) (auto split: if_splits)

lemma make_event_ok: "make_event i n sg st m c p = Inr e \<Longrightarrow> event_ok e"
  unfolding make_event_def event_ok_def
  by (auto dest!: strip_identifier_trimmed frozen_mapping_plain sequence_nonneg)

lemma event_to_dict_ok: "event_ok e \<Longrightarrow> event_to_dict e = Inr (thaw (event_dict e))"
  unfolding event_to_dict_def by (rule plain_safe) (simp add: event_ok_def event_dict_def)

definition event_fields :: "RuntimeEvent \<Rightarrow> (string \<times> pyval) list" where
  "event_fields e =
     [(''experiment_id'', VStr (re_experiment_id e)), (''sequence'', VInt (re_sequence e)),
      (''stage'', VStr (stage_value (re_stage e))), (''status'', VStr (re_status e)),
      (''message'', VStr (re_message e)), (''created_at'', VStr (re_created_at e)),
      (''payload'', json_reload (thaw (VDict (re_payload e))))]"

lemma reload_event: "json_reload (thaw (event_dict e)) = VDict (sort_key fst (event_fields e))"
  by (simp only: event_dict_def event_fields_def thaw.simps json_reload.simps list.map prod.case)

lemma event_subscripts:
  fixes e
  defines "d \<equiv> VDict (sort_key fst (event_fields e))"
  shows "subscript d ''experiment_id'' = Inr (VStr (re_experiment_id e))"
    "subscript d ''sequence'' = Inr (VInt (re_sequence e))"
    "subscript d ''stage'' = Inr (VStr (stage_value (re_stage e)))"
    "subscript d ''status'' = Inr (VStr (re_status e))"
    "subscript d ''message'' = Inr (VStr (re_message e))"
    "subscript d ''created_at'' = Inr (VStr (re_created_at e))"
    "get_or d ''payload'' (VDict []) = json_reload (thaw (VDict (re_payload e)))"
proof -
  have "map_of (sort_key fst (event_fields e)) = map_of (event_fields e)"
    by (rule map_of_sort_key) (simp add: event_fields_def)
  then show "subscript d ''experiment_id'' = Inr (VStr (re_experiment_id e))"
    "subscript d ''sequence'' = Inr (VInt (re_sequence e))"
    "subscript d ''stage'' = Inr (VStr (stage_value (re_stage e)))"
    "subscript d ''status'' = Inr (VStr (re_status e))"
    "subscript d ''message'' = Inr (VStr (re_message e))"
    "subscript d ''created_at'' = Inr (VStr (re_created_at e))"
    "get_or d ''payload'' (VDict []) = json_reload (thaw (VDict (re_payload e)))"
    unfolding d_def subscript.simps get_or.simps vget_default_def
    by (simp_all only: event_fields_def map_of.simps fun_upd_apply prod.sel) simp_all
qed

definition reread_event :: "RuntimeEvent \<Rightarrow> RuntimeEvent" where
  "reread_event e = e\<lparr>re_payload := sort_key fst (map (\<lambda>(k, v). (k, sort_keys v)) (re_payload e))\<rparr>"

lemma event_roundtrip:
  assumes ok: "event_ok e"
  shows "event_from_dict (json_reload (thaw (event_dict e))) = Inr (reread_event e)"
proof -
  have payload: "frozen_mapping n (json_reload (thaw (VDict (re_payload e))))
     = Inr (sort_key fst (map (\<lambda>(k, v). (k, sort_keys v)) (re_payload e)))" for n
    using freeze_reload[of "VDict (re_payload e)"] ok by (simp add: event_ok_def)
  note fields = event_subscripts[of e, folded reload_event]
  show ?thesis
    unfolding event_from_dict_def make_event_def fields
    using ok payload
    by (simp add: event_ok_def strip_identifier_id reread_event_def
        del: strip_identifier.simps frozen_mapping.simps json_reload.simps thaw.simps plain.simps)
qed

end
