(* ===== verification/JobLedger.thy ===== *)
theory JobLedger
  imports JobStore
begin

text \<open>
  What the job store guarantees. \<open>store_step\<close> is one committed write, with whatever the method read
  before it, so a run of steps is any interleaving of the calls of several threads and processes.
  The tables stay well formed under every such run; each method is a sequence of steps.
\<close>

declare status_value.simps [simp del]

section \<open>Well-formed tables\<close>

definition row_ok :: "job_row \<Rightarrow> bool" where
  "row_ok row \<longleftrightarrow> trimmed (jr_id row) \<and>
     (\<exists>r. request_ok r \<and> jr_request row = json_reload (thaw (request_dict r))) \<and>
     (\<exists>st. jr_status row = status_value st \<and> (terminal st \<longrightarrow> jr_finished_at row \<noteq> None))"

definition event_row_ok :: "event_row \<Rightarrow> bool" where
  "event_row_ok row \<longleftrightarrow> (\<exists>e. event_ok e \<and> er_event row = json_reload (thaw (event_dict e)) \<and>
     er_job row = re_experiment_id e \<and> er_sequence row = re_sequence e)"

definition job_ids :: "job_db \<Rightarrow> string set" where
  "job_ids db = set (map jr_id (db_jobs db))"

definition db_ok :: "job_db \<Rightarrow> bool" where
  "db_ok db \<longleftrightarrow> distinct (map jr_id (db_jobs db)) \<and> (\<forall>row \<in> set (db_jobs db). row_ok row) \<and>
     distinct (map (\<lambda>e. (er_job e, er_sequence e)) (db_events db)) \<and>
     (\<forall>e \<in> set (db_events db). event_row_ok e \<and> er_job e \<in> job_ids db)"

definition empty_db :: job_db where
  "empty_db = \<lparr>db_jobs = [], db_events = []\<rparr>"

lemma empty_db_ok [simp]: "db_ok empty_db"
  by (simp add: db_ok_def empty_db_def)

lemma find_row_None_iff [simp]: "find_row i db = None \<longleftrightarrow> i \<notin> job_ids db"
  by (auto simp: find_row_def job_ids_def find_None_iff)

lemma find_row_Some: "find_row i db = Some row \<Longrightarrow> row \<in> set (db_jobs db) \<and> jr_id row = i"
  by (auto simp: find_row_def find_Some_iff)

lemma row_decodes: "row_ok row \<Longrightarrow> \<exists>job. job_from_row row = Inr job"
  by (auto simp: row_ok_def job_from_row_def request_roundtrip)

lemma job_from_row_fields:
  "job_from_row row = Inr job \<Longrightarrow>
   ej_id job = jr_id row \<and> status_value (ej_status job) = jr_status row \<and>
   ej_finished_at job = jr_finished_at row \<and> ej_result job = jr_result row \<and>
   ej_cancel_requested job = jr_cancel row \<and> ej_error job = jr_error row \<and>
   ej_stage job = jr_stage row \<and> ej_started_at job = jr_started_at row"
  by (auto simp: job_from_row_def dest: job_status_of_Inr)

section \<open>Writes of one job\<close>

definition map_rows :: "(job_row \<Rightarrow> job_row) \<Rightarrow> job_db \<Rightarrow> job_db" where
  "map_rows g db = db\<lparr>db_jobs := map g (db_jobs db)\<rparr>"

lemma map_rows_ids: "(\<And>r. jr_id (g r) = jr_id r) \<Longrightarrow> map jr_id (db_jobs (map_rows g db)) = map jr_id (db_jobs db)"
  by (simp add: map_rows_def)

lemma map_rows_ok:
  assumes db: "db_ok db" and g: "\<And>r. jr_id (g r) = jr_id r" "\<And>r. row_ok r \<Longrightarrow> row_ok (g r)"
  shows "db_ok (map_rows g db)"
proof -
  have "\<forall>row \<in> set (db_jobs (map_rows g db)). row_ok row"
    using db g(2) by (auto simp: map_rows_def db_ok_def)
  moreover have "db_events (map_rows g db) = db_events db" by (simp add: map_rows_def)
  ultimately show ?thesis
    using db unfolding db_ok_def job_ids_def map_rows_ids[OF g(1)] by simp
qed

lemma update_row_map_rows: "update_row i f = map_rows (\<lambda>r. if jr_id r = i then f r else r)"
  by (simp add: fun_eq_iff update_row_def map_rows_def)

lemma interrupt_map_rows:
  "snd (interrupt_nonterminal_jobs now db) = map_rows (\<lambda>r. if nonterminal_row r then interrupt_row now r else r) db"
  by (simp add: interrupt_nonterminal_jobs_def map_rows_def)

lemma ids_update_row: "(\<And>r. jr_id (f r) = jr_id r) \<Longrightarrow> job_ids (update_row i f db) = job_ids db"
  by (simp add: job_ids_def update_row_map_rows map_rows_ids del: set_map)

lemma events_update_row [simp]: "db_events (update_row i f db) = db_events db"
  by (simp add: update_row_def)

lemma find_update_row:
  assumes "\<And>r. jr_id (f r) = jr_id r"
  shows "find_row j (update_row i f db) = (if j = i then map_option f (find_row j db) else find_row j db)"
proof -
  have "List.find (\<lambda>r. jr_id r = j) (map (\<lambda>r. if jr_id r = i then f r else r) xs)
      = (if j = i then map_option f (List.find (\<lambda>r. jr_id r = j) xs)
         else List.find (\<lambda>r. jr_id r = j) xs)" for xs
    by (induction xs) (auto simp: assms)
  then show ?thesis by (simp add: find_row_def update_row_def)
qed

lemma update_row_ok:
  assumes db: "db_ok db" and f: "\<And>r. jr_id (f r) = jr_id r" "\<And>r. row_ok r \<Longrightarrow> row_ok (f r)"
  shows "db_ok (update_row i f db)"
  unfolding update_row_map_rows using assms by (intro map_rows_ok) auto

lemma transition_row_ok: "row_ok row \<Longrightarrow> row_ok (transition_row st stage error now existing row)"
  by (auto simp: row_ok_def transition_row_def)

lemma result_row_ok: "row_ok row \<Longrightarrow> row_ok (result_row st result error now row)"
  by (auto simp: row_ok_def result_row_def)

lemma cancel_row_ok: "row_ok row \<Longrightarrow> row_ok (cancel_row now row)"
  by (auto simp: row_ok_def cancel_row_def intro!: exI[of _ CANCELLING])

lemma interrupt_row_ok: "row_ok row \<Longrightarrow> row_ok (interrupt_row now row)"
  by (auto simp: row_ok_def interrupt_row_def)

lemma writes_keep_id [simp]:
  "jr_id (transition_row st stage error now existing row) = jr_id row"
  "jr_id (result_row st result message now row) = jr_id row"
  "jr_id (cancel_row now row) = jr_id row" "jr_id (interrupt_row now row) = jr_id row"
  by (simp_all add: transition_row_def result_row_def cancel_row_def interrupt_row_def)

section \<open>Committed writes\<close>

inductive store_step :: "job_db \<Rightarrow> job_db \<Rightarrow> bool" where
  insert_job: "request_ok r \<Longrightarrow> store_step db (snd (create_job r i hex now db))"
| write_transition: "store_step db (update_row i (transition_row st stage error now existing) db)"
| write_result: "terminal st \<Longrightarrow> store_step db (update_row i (result_row st result message now) db)"
| write_cancel: "store_step db (update_row i (cancel_row now) db)"
| insert_event: "event_ok e \<Longrightarrow> event_to_dict e = Inr v \<Longrightarrow> store_step db (snd (event_insert e v now db))"
| delete: "store_step db (delete_rows i db)"
| interrupt: "store_step db (snd (interrupt_nonterminal_jobs now db))"

lemma create_job_ok:
  assumes "db_ok db" "request_ok r"
  shows "db_ok (snd (create_job r i hex now db))"
  using assms
  by (auto simp: create_job_def then_required_def Let_def db_ok_def job_ids_def row_ok_def trimmed_def
      request_to_dict_ok rbind_Inl_iff raise_if_def split: sum.splits option.splits if_splits
      intro!: exI[of _ QUEUED])

lemma event_insert_ok:
  assumes db: "db_ok db" and e: "event_ok e" "event_to_dict e = Inr v"
  shows "db_ok (snd (event_insert e v now db))"
proof (cases "fst (event_insert e v now db)")
  case (Inl err)
  with db show ?thesis by (auto simp: event_insert_def Let_def split: sum.splits)
next
  case (Inr ev)
  from e have v: "v = thaw (event_dict e)" by (simp add: event_to_dict_ok)
  let ?row = "\<lparr>er_job = re_experiment_id e, er_sequence = re_sequence e, er_event = json_reload v,
             er_created_at = re_created_at e\<rparr>"
  from Inr have fresh: "\<not> (\<exists>x \<in> set (db_events db). er_job x = re_experiment_id e \<and> er_sequence x = re_sequence e)"
    and job: "re_experiment_id e \<in> job_ids db"
    and new: "snd (event_insert e v now db) = update_row (re_experiment_id e)
          (\<lambda>r. r\<lparr>jr_stage := stage_value (re_stage e), jr_updated_at := now\<rparr>)
          (db\<lparr>db_events := db_events db @ [?row]\<rparr>)"
    by (auto simp: event_insert_def Let_def rbind_Inl_iff split: sum.splits)
  have "db_ok (db\<lparr>db_events := db_events db @ [?row]\<rparr>)"
    using db fresh job e v by (auto simp: db_ok_def job_ids_def event_row_ok_def)
  then show ?thesis unfolding new by (rule update_row_ok) (auto simp: row_ok_def)
qed

lemma store_step_ok: "store_step db db' \<Longrightarrow> db_ok db \<Longrightarrow> db_ok db'"
proof (induction rule: store_step.induct)
  case (delete db i)
  then show ?case by (auto simp: db_ok_def delete_rows_def job_ids_def distinct_map inj_on_def)
next
  case (interrupt now db)
  then show ?case unfolding interrupt_map_rows by (intro map_rows_ok) (auto intro: interrupt_row_ok)
qed (auto intro: create_job_ok event_insert_ok update_row_ok transition_row_ok result_row_ok cancel_row_ok)

section \<open>Reads of well-formed tables\<close>

lemma required_job_ok:
  assumes "db_ok db" "i \<in> job_ids db"
  obtains job row where "required_job i db = Inr job" "find_row i db = Some row" "job_from_row row = Inr job"
    "ej_id job = i"
proof -
  from assms(2) obtain row where row: "find_row i db = Some row" by (cases "find_row i db") auto
  with find_row_Some assms(1) have "row_ok row" "jr_id row = i" by (auto simp: db_ok_def)
  with row_decodes obtain job where "job_from_row row = Inr job" by blast
  with row \<open>jr_id row = i\<close> show ?thesis
    by (intro that) (auto simp: required_job_def get_job_def dest: job_from_row_fields)
qed

lemma required_job_missing: "i \<notin> job_ids db \<Longrightarrow> required_job i db = Inl (KeyError (''experiment job not found: '' @ i))"
  by (simp add: required_job_def get_job_def find_row_None_iff[THEN iffD2])

lemma required_jobD: "required_job i db = Inr job \<Longrightarrow> i \<in> job_ids db"
  using required_job_missing[of i db] by (cases "i \<in> job_ids db") auto

lemma required_job_row:
  "required_job i db = Inr job \<longleftrightarrow> (\<exists>row. find_row i db = Some row \<and> job_from_row row = Inr job)"
  by (cases "find_row i db") (auto simp: required_job_def get_job_def simp del: find_row_None_iff)

lemma required_status: "required_job i db = Inr job \<Longrightarrow> \<exists>row. find_row i db = Some row \<and> jr_status row = status_value (ej_status job)"
  by (auto simp: required_job_row dest: job_from_row_fields)

lemma get_job_ok:
  assumes "db_ok db"
  shows "\<exists>found. get_job i db = Inr found \<and> (found = None \<longleftrightarrow> i \<notin> job_ids db)"
proof (cases "i \<in> job_ids db")
  case True
  with assms obtain job row where "find_row i db = Some row" "job_from_row row = Inr job"
    by (rule required_job_ok)
  with True show ?thesis by (simp add: get_job_def)
next
  case False
  then show ?thesis by (simp add: get_job_def find_row_None_iff[THEN iffD2])
qed

lemma list_jobs_ok:
  assumes "db_ok db" "1 \<le> n" "n < 2 ^ 63"
  shows "\<exists>jobs. list_jobs (VInt n) db = Inr jobs \<and> map ej_id jobs = take (nat n) (rev (map jr_id (db_jobs db)))"
proof -
  have "\<exists>jobs. rmap job_from_row rows = Inr jobs \<and> map ej_id jobs = map jr_id rows"
    if "\<forall>row \<in> set rows. row_ok row" for rows
    using that
  proof (induction rows)
    case (Cons row rows)
    then obtain job where "job_from_row row = Inr job" using row_decodes[of row] by auto
    with Cons show ?case by (auto dest: job_from_row_fields)
  qed simp
  moreover have "\<forall>row \<in> set (take (nat n) (rev (db_jobs db))). row_ok row"
    using assms(1) by (auto simp: db_ok_def dest: in_set_takeD)
  ultimately have "\<exists>jobs. rmap job_from_row (take (nat n) (rev (db_jobs db))) = Inr jobs \<and>
      map ej_id jobs = map jr_id (take (nat n) (rev (db_jobs db)))" by blast
  with assms show ?thesis
    by (auto simp: list_jobs_def bind_int_def db_ok_def take_map rev_map)
qed

text \<open>The events of a job after a position, as the code stored them.\<close>

definition later_rows :: "string \<Rightarrow> int \<Rightarrow> job_db \<Rightarrow> event_row list" where
  "later_rows i n db = sort_key er_sequence (filter (\<lambda>e. er_job e = i \<and> n < er_sequence e) (db_events db))"

lemma later_rows_strict:
  assumes "db_ok db"
  shows "sorted_wrt (<) (map er_sequence (later_rows i n db))"
proof -
  let ?es = "filter (\<lambda>e. er_job e = i \<and> n < er_sequence e) (db_events db)"
  have "distinct (map (\<lambda>e. (er_job e, er_sequence e)) ?es)"
    using assms by (simp add: db_ok_def distinct_map_filter)
  then have "inj_on (\<lambda>e. (er_job e, er_sequence e)) (set ?es)" "distinct ?es"
    by (simp_all add: distinct_map)
  then have "distinct (map er_sequence (later_rows i n db))"
    unfolding later_rows_def distinct_map by (auto simp: inj_on_def)
  then show ?thesis by (simp add: later_rows_def strict_sorted_iff)
qed

lemma events_after_rows:
  assumes db: "db_ok db" "i \<in> job_ids db" and n: "0 \<le> n" "n < 2 ^ 63"
  shows "\<exists>es. events_after i (VInt n) db = Inr es \<and> map re_sequence es = map er_sequence (later_rows i n db)
     \<and> (\<forall>e \<in> set es. re_experiment_id e = i)"
proof -
  have rows: "\<exists>es. rmap (\<lambda>e. event_from_dict (er_event e)) rows = Inr es \<and> map re_sequence es = map er_sequence rows
     \<and> (\<forall>e \<in> set es. re_experiment_id e = i)"
    if "\<forall>row \<in> set rows. event_row_ok row \<and> er_job row = i" for rows
    using that
  proof (induction rows)
    case (Cons row rows)
    then obtain e where "event_from_dict (er_event row) = Inr (reread_event e)"
      "er_job row = re_experiment_id e" "er_sequence row = re_sequence e"
      by (auto simp: event_row_ok_def event_roundtrip)
    with Cons show ?case by (auto simp: reread_event_def)
  qed simp
  from db obtain job where "required_job i db = Inr job" by (rule required_job_ok)
  with rows[of "later_rows i n db"] db n show ?thesis
    by (auto simp: events_after_def bind_int_def later_rows_def db_ok_def)
qed

section \<open>Methods\<close>

text \<open>Each method is a run of writes, and a method that raises has written nothing.\<close>

abbreviation store_run :: "job_db \<Rightarrow> job_db \<Rightarrow> bool" where
  "store_run \<equiv> store_step\<^sup>*\<^sup>*"

lemma store_run_ok: "store_run db db' \<Longrightarrow> db_ok db \<Longrightarrow> db_ok db'"
  by (induction rule: rtranclp_induct) (auto intro: store_step_ok)

definition tidy :: "'a job_op \<Rightarrow> job_db \<Rightarrow> bool" where
  "tidy f db \<longleftrightarrow> store_run db (snd (f db)) \<and> (isl (fst (f db)) \<longrightarrow> snd (f db) = db)"

lemma tidyI:
  assumes "\<And>e db'. f db = (Inl e, db') \<Longrightarrow> db' = db"
    and "\<And>x db'. f db = (Inr x, db') \<Longrightarrow> store_run db db'"
  shows "tidy f db"
  using assms unfolding tidy_def by (cases "f db"; cases "fst (f db)") auto

lemma then_required_tidy:
  assumes f: "f db = then_required i r db" and db: "db_ok db"
    and commit: "\<And>db'. r = Inr db' \<Longrightarrow> store_step db db' \<and> i \<in> job_ids db'"
  shows "tidy f db"
proof (cases r)
  case (Inr db')
  with commit have step: "store_step db db'" "i \<in> job_ids db'" by auto
  with db have "db_ok db'" by (auto intro: store_step_ok)
  from required_job_ok[OF this step(2)] obtain job where "required_job i db' = Inr job" by blast
  with Inr step f show ?thesis by (auto simp: tidy_def then_required_def)
qed (simp add: tidy_def then_required_def f)

lemma ids_update_rows [simp]:
  "job_ids (update_row i (transition_row st stage error now existing) db) = job_ids db"
  "job_ids (update_row i (result_row st result message now) db) = job_ids db"
  "job_ids (update_row i (cancel_row now) db) = job_ids db"
  by (simp_all add: ids_update_row)

lemma transition_job_tidy: "db_ok db \<Longrightarrow> tidy (transition_job i status stage error now) db"
  by (rule then_required_tidy, rule transition_job_def)
    (auto intro: store_step.write_transition dest: required_jobD)

lemma set_result_tidy: "db_ok db \<Longrightarrow> tidy (set_result i status result message now) db"
  by (rule then_required_tidy, rule set_result_def)
    (auto intro: store_step.write_result dest: required_jobD)

lemma cancel_write_tidy: "db_ok db \<Longrightarrow> i \<in> job_ids db \<Longrightarrow> tidy (cancel_write i now) db"
  by (rule then_required_tidy, rule cancel_write_def) (auto intro: store_step.write_cancel)

lemma request_cancel_tidy:
  assumes "db_ok db"
  shows "tidy (request_cancel i now) db"
proof (cases "required_job i db")
  case (Inr job)
  with cancel_write_tidy[OF assms] show ?thesis
    by (auto simp: tidy_def request_cancel_def dest: required_jobD)
qed (simp add: tidy_def request_cancel_def)

lemma delete_job_tidy: "tidy (delete_job i) db"
  by (rule tidyI) (auto simp: delete_job_def intro: store_step.delete split: sum.splits if_splits)

lemma event_insert_fail: "event_insert e v now db = (Inl err, db') \<Longrightarrow> db' = db"
  by (auto simp: event_insert_def Let_def split: sum.splits)

lemma append_event_tidy: "event_ok e \<Longrightarrow> tidy (append_event e now) db"
proof (rule tidyI)
  fix x db' assume "event_ok e" "append_event e now db = (Inr x, db')"
  then obtain v where "event_to_dict e = Inr v" "event_insert e v now db = (Inr x, db')"
    by (auto simp: append_event_def split: sum.splits)
  with \<open>event_ok e\<close> store_step.insert_event[of e v db now] show "store_run db db'" by auto
qed (auto simp: append_event_def dest: event_insert_fail split: sum.splits)

lemma create_job_tidy:
  assumes "db_ok db" "request_ok r"
  shows "tidy (create_job r i hex now) db"
proof (rule tidyI)
  fix x db' assume "create_job r i hex now db = (Inr x, db')"
  with store_step.insert_job[OF assms(2), of db i hex now] show "store_run db db'" by auto
next
  fix e db' assume e: "create_job r i hex now db = (Inl e, db')"
  show "db' = db"
  proof (rule ccontr)
    assume "db' \<noteq> db"
    let ?i = "strip (case i of Some s \<Rightarrow> if s \<noteq> '''' then s else ''exp-'' @ hex | None \<Rightarrow> ''exp-'' @ hex)"
    from e \<open>db' \<noteq> db\<close> have db': "required_job ?i db' = Inl e" "?i \<in> job_ids db'"
      by (auto simp: create_job_def then_required_def Let_def job_ids_def split: sum.splits)
    from create_job_ok[OF assms, of i hex now] e have "db_ok db'" by simp
    from required_job_ok[OF this db'(2)] db'(1) show False by auto
  qed
qed


section \<open>Guarantees\<close>

definition demo_request :: ExperimentRuntimeRequest where
  "demo_request = \<lparr>rq_scenario_id = ''pod-kill'', rq_namespace = ''shop'', rq_deployment = ''cart'',
     rq_metric = ''latency'', rq_threshold = FFin 1, rq_mode = DRY_RUN, rq_backend = PYTHON,
     rq_protocol_profile = ''four-agent'', rq_repetitions = 2, rq_controller = ''deterministic'',
     rq_model = '''', rq_incident_source = ''chaos_mesh'', rq_benchmark_id = '''',
     rq_detection_context = []\<rparr>"

lemma demo_request_ok: "request_ok demo_request"
proof -
  have "trimmed ''pod-kill''" "trimmed ''shop''" "trimmed ''cart''" "trimmed ''latency''"
    "trimmed ''four-agent''" "underscored ''latency'' = ''latency''" by code_simp+
  then show ?thesis by (simp add: request_ok_def demo_request_def)
qed

definition demo_job_db :: job_db where
  "demo_job_db = snd (create_job demo_request (Some ''exp-1'') ''00'' ''t0'' empty_db)"

definition demo_event :: "int \<Rightarrow> RuntimeEvent" where
  "demo_event n = \<lparr>re_experiment_id = ''exp-1'', re_sequence = n, re_stage = PREFLIGHT,
     re_status = ''running'', re_message = ''checks'', re_created_at = ''t1'', re_payload = []\<rparr>"

lemma demo_event_ok: "0 \<le> n \<Longrightarrow> event_ok (demo_event n)"
proof -
  have "trimmed ''exp-1''" "trimmed ''running''" "trimmed ''checks''" "trimmed ''t1''" by code_simp+
  then show "0 \<le> n \<Longrightarrow> event_ok (demo_event n)" by (simp add: event_ok_def demo_event_def)
qed

lemma demo_job_db_rows: "map jr_id (db_jobs demo_job_db) = [''exp-1'']" "db_events demo_job_db = []"
proof -
  have "strip ''exp-1'' = ''exp-1''" by code_simp
  then show "map jr_id (db_jobs demo_job_db) = [''exp-1'']" "db_events demo_job_db = []"
    using demo_request_ok
    by (simp_all add: demo_job_db_def create_job_def then_required_def empty_db_def job_ids_def request_to_dict_ok Let_def)
qed

lemma demo_job_db_run: "store_run empty_db demo_job_db"
  unfolding demo_job_db_def using store_step.insert_job[OF demo_request_ok] by blast


text \<open>
  C21. The job store never holds a record it cannot read. After any interleaving of the writes of any
  number of callers, starting from empty tables, reading a job never raises; the events of a stored
  job after a position read back as events of that job whose sequence numbers are exactly the stored
  ones above the position, in strictly increasing order; and no event outlives its job.
\<close>

theorem job_store_readable:
  assumes "store_run empty_db db"
  shows "(\<forall>i. \<exists>found. get_job i db = Inr found \<and> (found = None \<longleftrightarrow> i \<notin> job_ids db)) \<and>
    (\<forall>i n. i \<in> job_ids db \<longrightarrow> 0 \<le> n \<longrightarrow> n < 2 ^ 63 \<longrightarrow>
      (\<exists>es. events_after i (VInt n) db = Inr es \<and> sorted_wrt (<) (map re_sequence es) \<and>
        (\<forall>e \<in> set es. re_experiment_id e = i) \<and>
        set (map re_sequence es) =
          {er_sequence e | e. e \<in> set (db_events db) \<and> er_job e = i \<and> n < er_sequence e})) \<and>
    er_job ` set (db_events db) \<subseteq> job_ids db"
proof -
  from assms have db: "db_ok db" by (rule store_run_ok) simp
  have "\<exists>es. events_after i (VInt n) db = Inr es \<and> sorted_wrt (<) (map re_sequence es) \<and>
        (\<forall>e \<in> set es. re_experiment_id e = i) \<and>
        set (map re_sequence es) =
          {er_sequence e | e. e \<in> set (db_events db) \<and> er_job e = i \<and> n < er_sequence e}"
    if "i \<in> job_ids db" "0 \<le> n" "n < 2 ^ 63" for i n
  proof -
    from events_after_rows[OF db that] obtain es where es: "events_after i (VInt n) db = Inr es"
      "map re_sequence es = map er_sequence (later_rows i n db)" "\<forall>e \<in> set es. re_experiment_id e = i"
      by blast
    have "set (map er_sequence (later_rows i n db)) =
        {er_sequence e | e. e \<in> set (db_events db) \<and> er_job e = i \<and> n < er_sequence e}"
      by (auto simp: later_rows_def)
    with es later_rows_strict[OF db, of i n] show ?thesis by (metis (no_types, lifting))
  qed
  moreover have "er_job ` set (db_events db) \<subseteq> job_ids db" using db by (auto simp: db_ok_def)
  ultimately show ?thesis using get_job_ok[OF db] by blast
qed

theorem job_store_readable_witness:
  "\<exists>found. get_job ''exp-1'' demo_job_db = Inr (Some found)"
  using job_store_readable[OF demo_job_db_run] demo_job_db_rows
  by (metis job_ids_def list.set_intros(1) not_None_eq)

text \<open>
  C25. A method of the job store that raises has changed nothing: on well-formed tables, if creating
  a job, changing its status, recording its result, asking for its cancellation, deleting it or
  appending an event raises an exception, both tables are the ones before the call.
\<close>

theorem job_method_errors_atomic:
  assumes "db_ok db" "request_ok r" "event_ok e"
    and "f \<in> {create_job r h hex now, transition_job i status stage err now,
      set_result i status result message now, request_cancel i now, delete_job i}"
  shows "(\<forall>ex db'. f db = (Inl ex, db') \<longrightarrow> db' = db) \<and>
    (\<forall>ex db'. append_event e now db = (Inl ex, db') \<longrightarrow> db' = db)"
proof -
  from assms(4) create_job_tidy[OF assms(1,2)] transition_job_tidy[OF assms(1)]
    set_result_tidy[OF assms(1)] request_cancel_tidy[OF assms(1)] delete_job_tidy
  have "tidy f db" by blast
  with append_event_tidy[OF assms(3), of now db] show ?thesis by (auto simp: tidy_def)
qed

theorem job_method_errors_atomic_witness:
  "\<exists>ex. delete_job ''exp-2'' demo_job_db = (Inl ex, demo_job_db)"
proof -
  have "db_ok demo_job_db" using demo_job_db_run by (rule store_run_ok) simp
  from job_method_errors_atomic[OF this demo_request_ok demo_event_ok[of 1], of "delete_job ''exp-2''"
      None "''''" "''''" "''exp-2''"]
  have "\<forall>ex db'. delete_job ''exp-2'' demo_job_db = (Inl ex, db') \<longrightarrow> db' = demo_job_db" by simp
  moreover have "fst (delete_job ''exp-2'' demo_job_db) = Inl (KeyError ''experiment job not found: exp-2'')"
    using required_job_missing[of "''exp-2''" demo_job_db] demo_job_db_rows
    by (simp add: delete_job_def job_ids_def del: set_map)
  ultimately show ?thesis by (metis prod.collapse)
qed


lemma required_after_write:
  assumes "db_ok db" "i \<in> job_ids db" and f: "\<And>r. jr_id (f r) = jr_id r" "\<And>r. row_ok r \<Longrightarrow> row_ok (f r)"
  obtains row job where "find_row i db = Some row" "required_job i (update_row i f db) = Inr job"
    "job_from_row (f row) = Inr job"
proof -
  from assms(1,2) obtain row where row: "find_row i db = Some row" by (rule required_job_ok)
  have "db_ok (update_row i f db)" using assms by (intro update_row_ok)
  moreover have "i \<in> job_ids (update_row i f db)" using assms by (simp add: ids_update_row)
  ultimately obtain job row' where "required_job i (update_row i f db) = Inr job"
    "find_row i (update_row i f db) = Some row'" "job_from_row row' = Inr job"
    by (rule required_job_ok)
  moreover from this(2) row f(1) have "row' = f row" by (simp add: find_update_row)
  ultimately show ?thesis using row that by blast
qed

lemma set_result_writes:
  assumes db: "db_ok db" "i \<in> job_ids db" and st: "terminal st" "dumpable result"
  obtains job where
    "set_result i (status_value st) result message now db
      = (Inr job, update_row i (result_row st result message now) db)"
    "ej_status job = st" "ej_id job = i" "ej_result job = Some (json_reload result)"
    "ej_finished_at job = Some now" "ej_error job = message"
proof -
  from db obtain old where old: "required_job i db = Inr old" by (rule required_job_ok)
  have "\<exists>row job. find_row i db = Some row \<and>
      required_job i (update_row i (result_row st result message now) db) = Inr job \<and>
      job_from_row (result_row st result message now row) = Inr job"
    by (rule required_after_write[OF db, of "result_row st result message now"])
      (auto intro: result_row_ok)
  then obtain row job where job: "find_row i db = Some row"
    "required_job i (update_row i (result_row st result message now) db) = Inr job"
    "job_from_row (result_row st result message now row) = Inr job"
    by blast
  from job_from_row_fields[OF job(3)] find_row_Some[OF job(1)]
  have "ej_status job = st" "ej_id job = i" "ej_result job = Some (json_reload result)"
    "ej_finished_at job = Some now" "ej_error job = message"
    by (auto simp: result_row_def)
  with old st job(2) show ?thesis
    by (intro that) (simp_all add: set_result_def then_required_def)
qed

lemma cancel_write_writes:
  assumes db: "db_ok db" "i \<in> job_ids db"
  obtains job row where "cancel_write i now db = (Inr job, update_row i (cancel_row now) db)"
    "ej_status job = CANCELLING" "find_row i db = Some row" "ej_result job = jr_result row"
    "ej_finished_at job = jr_finished_at row"
proof -
  have "\<exists>row job. find_row i db = Some row \<and>
      required_job i (update_row i (cancel_row now) db) = Inr job \<and> job_from_row (cancel_row now row) = Inr job"
    by (rule required_after_write[OF db, of "cancel_row now"]) (auto intro: cancel_row_ok)
  then obtain row job where job: "find_row i db = Some row"
    "required_job i (update_row i (cancel_row now) db) = Inr job"
    "job_from_row (cancel_row now row) = Inr job"
    by blast
  from job_from_row_fields[OF job(3)] have "ej_status job = CANCELLING" "ej_result job = jr_result row"
    "ej_finished_at job = jr_finished_at row"
    by (auto simp: cancel_row_def)
  with job show ?thesis by (intro that) (simp_all add: cancel_write_def then_required_def)
qed

text \<open>
  C27. Cancelling an experiment that finishes meanwhile reopens it. When the check of
  \<open>request_cancel\<close> finds the job unfinished and the worker then records its final status and result,
  the write of \<open>request_cancel\<close> puts the job back to \<open>cancelling\<close>: the caller sees a job that is not
  terminal although it has its result and its finishing time, and the job can no longer be deleted.
  Had the check come after the result, the same call would have left the job as it is.
\<close>

theorem cancel_reopens_finished_job:
  assumes "db_ok db" "required_job i db = Inr job" "\<not> terminal (ej_status job)"
    and "terminal st" "dumpable result"
  shows "\<exists>finished db1 reopened db2.
    set_result i (status_value st) result message t1 db = (Inr finished, db1) \<and> ej_status finished = st \<and>
    request_cancel i t2 db1 = (Inr finished, db1) \<and>
    request_cancel i t2 db = cancel_write i t2 db \<and>
    cancel_write i t2 db1 = (Inr reopened, db2) \<and> ej_status reopened = CANCELLING \<and>
    ej_result reopened = Some (json_reload result) \<and> ej_finished_at reopened = Some t1 \<and>
    delete_job i db2 = (Inl (ValueError ''only terminal experiment jobs can be deleted''), db2)"
proof -
  let ?db1 = "update_row i (result_row st result message t1) db"
  let ?db2 = "update_row i (cancel_row t2) ?db1"
  from assms(2) have i: "i \<in> job_ids db" by (rule required_jobD)
  from set_result_writes[OF assms(1) i assms(4,5), of message t1] obtain finished where
    fin: "set_result i (status_value st) result message t1 db = (Inr finished, ?db1)" "ej_status finished = st"
    by blast
  then have r1: "required_job i ?db1 = Inr finished"
    by (auto simp: set_result_def then_required_def split: sum.splits)
  have ok1: "db_ok ?db1" using assms(1) by (intro update_row_ok) (auto intro: result_row_ok)
  from cancel_write_writes[OF ok1, of i t2] i obtain reopened row where
    re: "cancel_write i t2 ?db1 = (Inr reopened, ?db2)" "ej_status reopened = CANCELLING"
      "find_row i ?db1 = Some row" "ej_result reopened = jr_result row" "ej_finished_at reopened = jr_finished_at row"
    by auto
  from re(3) have "jr_result row = Some (json_reload result)" "jr_finished_at row = Some t1"
    by (auto simp: find_update_row result_row_def)
  moreover from re(1) have "required_job i ?db2 = Inr reopened"
    by (simp add: cancel_write_def then_required_def)
  then have "delete_job i ?db2 = (Inl (ValueError ''only terminal experiment jobs can be deleted''), ?db2)"
    using re(2) by (simp add: delete_job_def)
  moreover have "request_cancel i t2 ?db1 = (Inr finished, ?db1)"
    using r1 fin(2) assms(4) by (simp add: request_cancel_def)
  moreover have "request_cancel i t2 db = cancel_write i t2 db"
    using assms(2,3) by (simp add: request_cancel_def)
  ultimately show ?thesis using fin re by (metis (no_types, lifting))
qed

theorem cancel_reopens_finished_job_witness:
  "\<exists>finished db1 reopened db2.
    set_result ''exp-1'' ''completed'' (VDict []) '''' ''t1'' demo_job_db = (Inr finished, db1) \<and>
    cancel_write ''exp-1'' ''t2'' db1 = (Inr reopened, db2) \<and> ej_status reopened = CANCELLING \<and>
    ej_finished_at reopened = Some ''t1''"
proof -
  have ok: "db_ok demo_job_db" using demo_job_db_run by (rule store_run_ok) simp
  have "''exp-1'' \<in> job_ids demo_job_db" using demo_job_db_rows by (simp add: job_ids_def del: set_map)
  from required_job_ok[OF ok this] obtain job row where job: "required_job ''exp-1'' demo_job_db = Inr job"
    "find_row ''exp-1'' demo_job_db = Some row" "job_from_row row = Inr job" by blast
  have "row \<in> set (db_jobs demo_job_db)" using job(2) find_row_Some by blast
  then have "jr_status row = status_value QUEUED"
    using demo_request_ok
    by (auto simp: demo_job_db_def create_job_def then_required_def empty_db_def job_ids_def
        request_to_dict_ok Let_def raise_if_def split: if_splits)
  with job(3) have "ej_status job = QUEUED" by (auto dest: job_from_row_fields)
  then have "\<not> terminal (ej_status job)" by simp
  from cancel_reopens_finished_job[OF ok job(1) this, of COMPLETED "VDict []" "''''" "''t1''" "''t2''"]
  show ?thesis by (auto simp: status_value.simps)
qed


lemma find_snoc:
  "List.find P (xs @ [x]) =
    (case List.find P xs of Some y \<Rightarrow> Some y | None \<Rightarrow> if P x then Some x else None)"
  by (induction xs) auto

lemma later_rows_only:
  assumes "db_ok db" "n < er_sequence row" "er_job row = i"
    "\<forall>e \<in> set (db_events db). er_job e \<noteq> i"
  shows "later_rows i n (db\<lparr>db_events := db_events db @ [row]\<rparr>) = [row]"
  using assms by (simp add: later_rows_def filter_False)

text \<open>The row of a job just created, and what reading it back gives.\<close>

definition queued_row :: "ExperimentRuntimeRequest \<Rightarrow> string \<Rightarrow> string \<Rightarrow> job_row" where
  "queued_row r i now = \<lparr>jr_id = i, jr_request = json_reload (thaw (request_dict r)),
     jr_status = status_value QUEUED, jr_stage = stage_value QUEUED_STAGE,
     jr_created_at = now, jr_updated_at = now, jr_started_at = None, jr_finished_at = None,
     jr_cancel = False, jr_result = None, jr_error = ''''\<rparr>"

lemma created_job:
  fixes now :: string and db :: job_db
  assumes r: "request_ok r" and i: "trimmed i" "i \<notin> job_ids db"
  defines "db1 \<equiv> db\<lparr>db_jobs := db_jobs db @ [queued_row r i now]\<rparr>"
  obtains job where "create_job r (Some i) hex now db = (Inr job, db1)" "get_job i db1 = Inr (Some job)"
    "ej_id job = i" "ej_request job = reread_request r" "ej_status job = QUEUED"
    "\<not> ej_cancel_requested job" "ej_result job = None" "\<forall>j. j \<noteq> i \<longrightarrow> get_job j db1 = get_job j db"
proof -
  from i have strip: "strip i = i" "i \<noteq> ''''" by (simp_all add: trimmed_def)
  have new: "find_row j db1 = (if j = i then Some (queued_row r i now) else find_row j db)" for j
  proof (cases "find_row j db")
    case None
    then show ?thesis by (simp add: db1_def queued_row_def find_row_def find_snoc del: find_row_None_iff)
  next
    case (Some row)
    then have "j \<noteq> i" using i(2) find_row_None_iff[of i db] by (auto simp del: find_row_None_iff)
    with Some show ?thesis by (simp add: db1_def queued_row_def find_row_def find_snoc)
  qed
  have "\<exists>job. job_from_row (queued_row r i now) = Inr job \<and> ej_request job = reread_request r"
    using r by (simp add: job_from_row_def request_roundtrip queued_row_def)
  then obtain job where job: "job_from_row (queued_row r i now) = Inr job" "ej_request job = reread_request r"
    by blast
  from job_from_row_fields[OF job(1)] have fields: "ej_id job = i" "ej_status job = QUEUED"
    "\<not> ej_cancel_requested job" "ej_result job = None" by (auto simp: queued_row_def)
  have get: "get_job i db1 = Inr (Some job)" using new job by (simp add: get_job_def)
  moreover from get have "required_job i db1 = Inr job" by (simp add: required_job_def)
  then have "create_job r (Some i) hex now db = (Inr job, db1)"
    using strip i(2) r by (simp add: create_job_def then_required_def request_to_dict_ok db1_def queued_row_def)
  ultimately show ?thesis using new fields job(2) by (intro that[of job]) (auto simp: get_job_def)
qed

text \<open>
  C23. What is stored is what is read. A job created under a new identifier can be fetched at once:
  queued, not cancelled, without result, with the submitted request up to the order of the keys in its
  detection context, and no other job changes. An event of the new job is then stored and read back,
  up to the order of the keys in its payload, by every request for events after an earlier position.
\<close>

theorem create_then_read:
  assumes db: "db_ok db" and r: "request_ok r" and i: "trimmed i" "i \<notin> job_ids db"
    and e: "event_ok e" "re_experiment_id e = i" "re_sequence e < 2 ^ 63" "0 \<le> n" "n < re_sequence e"
  shows "\<exists>job db1 db2. create_job r (Some i) hex now db = (Inr job, db1) \<and>
    get_job i db1 = Inr (Some job) \<and> ej_id job = i \<and> ej_request job = reread_request r \<and>
    ej_status job = QUEUED \<and> \<not> ej_cancel_requested job \<and> ej_result job = None \<and>
    (\<forall>j. j \<noteq> i \<longrightarrow> get_job j db1 = get_job j db) \<and>
    append_event e now2 db1 = (Inr e, db2) \<and> events_after i (VInt n) db2 = Inr [reread_event e]"
proof -
  let ?db1 = "db\<lparr>db_jobs := db_jobs db @ [queued_row r i now]\<rparr>"
  obtain job where job: "create_job r (Some i) hex now db = (Inr job, ?db1)" "get_job i ?db1 = Inr (Some job)"
    "ej_id job = i" "ej_request job = reread_request r" "ej_status job = QUEUED"
    "\<not> ej_cancel_requested job" "ej_result job = None" "\<forall>j. j \<noteq> i \<longrightarrow> get_job j ?db1 = get_job j db"
    using r i by (rule created_job)
  then have req1: "required_job i ?db1 = Inr job" by (simp add: required_job_def)
  note create = job(1)
  have ok1: "db_ok ?db1" using create_job_ok[OF db r, of "Some i" hex now] create by simp
  let ?ev = "\<lparr>er_job = i, er_sequence = re_sequence e, er_event = json_reload (thaw (event_dict e)),
             er_created_at = re_created_at e\<rparr>"
  let ?db2 = "update_row i (\<lambda>r. r\<lparr>jr_stage := stage_value (re_stage e), jr_updated_at := now2\<rparr>)
          (?db1\<lparr>db_events := db_events ?db1 @ [?ev]\<rparr>)"
  have none: "\<forall>x \<in> set (db_events ?db1). er_job x \<noteq> i" using db i(2) by (auto simp: db_ok_def)
  have "i \<in> job_ids ?db1" by (simp add: job_ids_def queued_row_def)
  then have app: "append_event e now2 ?db1 = (Inr e, ?db2)"
    using req1 e none
    by (auto simp: append_event_def event_to_dict_ok event_insert_def bind_int_def event_ok_def)
  have "later_rows i n (?db1\<lparr>db_events := db_events ?db1 @ [?ev]\<rparr>) = [?ev]"
    using later_rows_only[OF ok1, of n ?ev i] e(5) none by simp
  then have rows: "later_rows i n ?db2 = [?ev]" by (simp add: later_rows_def)
  have "db_ok ?db2"
    using event_insert_ok[OF ok1 e(1) event_to_dict_ok[OF e(1)], of now2] app e req1
    by (simp add: append_event_def event_to_dict_ok)
  moreover have "job_ids ?db2 = job_ids (?db1\<lparr>db_events := db_events ?db1 @ [?ev]\<rparr>)"
    by (rule ids_update_row) simp
  then have "i \<in> job_ids ?db2" by (simp add: job_ids_def queued_row_def)
  ultimately obtain job2 where "required_job i ?db2 = Inr job2" by (rule required_job_ok)
  then have "events_after i (VInt n) ?db2 = Inr [reread_event e]"
    using rows e by (simp add: events_after_def bind_int_def later_rows_def event_roundtrip)
  with job app show ?thesis by blast
qed

theorem create_then_read_witness:
  "\<exists>job db1 db2. create_job demo_request (Some ''exp-1'') '''' ''t0'' empty_db = (Inr job, db1) \<and>
    ej_request job = reread_request demo_request \<and>
    append_event (demo_event 1) ''t1'' db1 = (Inr (demo_event 1), db2) \<and>
    events_after ''exp-1'' (VInt 0) db2 = Inr [reread_event (demo_event 1)]"
proof -
  have i: "trimmed ''exp-1''" "''exp-1'' \<notin> job_ids empty_db"
    by (code_simp, simp add: job_ids_def empty_db_def)
  have e: "re_experiment_id (demo_event 1) = ''exp-1''" "re_sequence (demo_event 1) < 2 ^ 63"
    "0 < re_sequence (demo_event 1)"
    by (simp_all add: demo_event_def)
  have "event_ok (demo_event 1)" by (rule demo_event_ok) simp
  from create_then_read[OF empty_db_ok demo_request_ok i this e(1,2) order_refl e(3),
      of "''''" "''t0''" "''t1''"]
  show ?thesis by blast
qed

text \<open>
  A restart leaves no experiment in flight. After \<open>interrupt_nonterminal_jobs\<close> every job is
  terminal and finished; the call returns exactly the jobs that were not terminal, in creation order,
  each of which is now \<open>interrupted\<close>, and every job that was terminal is untouched, as are all events.
\<close>

theorem interrupt_settles_jobs:
  assumes db: "db_ok db"
  shows "\<exists>ids db'. interrupt_nonterminal_jobs now db = (ids, db') \<and> job_ids db' = job_ids db \<and>
    db_events db' = db_events db \<and> distinct ids \<and>
    (\<forall>i job. required_job i db = Inr job \<longrightarrow>
      (if terminal (ej_status job) then i \<notin> set ids \<and> required_job i db' = Inr job
       else i \<in> set ids \<and> (\<exists>job'. required_job i db' = Inr job' \<and> ej_status job' = INTERRUPTED \<and>
         ej_finished_at job' = Some now \<and> ej_result job' = ej_result job)))"
proof -
  let ?g = "\<lambda>r. if nonterminal_row r then interrupt_row now r else r"
  obtain ids db' where call: "interrupt_nonterminal_jobs now db = (ids, db')" by force
  then have ids: "ids = map jr_id (filter nonterminal_row (db_jobs db))" and db': "db' = map_rows ?g db"
    using interrupt_map_rows[of now db] by (auto simp: interrupt_nonterminal_jobs_def)
  have keep: "\<And>r. jr_id (?g r) = jr_id r" by simp
  have find: "find_row i db' = map_option ?g (find_row i db)" for i
  proof -
    have "List.find (\<lambda>r. jr_id r = i) (map ?g xs) = map_option ?g (List.find (\<lambda>r. jr_id r = i) xs)" for xs
      by (induction xs) auto
    then show ?thesis by (simp add: find_row_def db' map_rows_def)
  qed
  have jobs: "if terminal (ej_status job) then i \<notin> set ids \<and> required_job i db' = Inr job
       else i \<in> set ids \<and> (\<exists>job'. required_job i db' = Inr job' \<and> ej_status job' = INTERRUPTED \<and>
         ej_finished_at job' = Some now \<and> ej_result job' = ej_result job)"
    if req: "required_job i db = Inr job" for i job
  proof -
    from req obtain row where row: "find_row i db = Some row" "job_from_row row = Inr job"
      by (auto simp: required_job_row)
    from find_row_Some[OF row(1)] have r: "row \<in> set (db_jobs db)" "jr_id row = i" by auto
    have nt: "nonterminal_row row \<longleftrightarrow> \<not> terminal (ej_status job)"
      using job_from_row_fields[OF row(2)]
      by (cases "ej_status job") (auto simp: nonterminal_row_def dest: sym)
    have "i \<in> set ids \<longleftrightarrow> nonterminal_row row"
    proof -
      have "inj_on jr_id (set (db_jobs db))" using db by (simp add: db_ok_def distinct_map)
      with r show ?thesis unfolding ids by (auto simp: inj_on_def)
    qed
    moreover have "row_ok (interrupt_row now row)"
      using r db by (intro interrupt_row_ok) (auto simp: db_ok_def)
    then obtain job' where job': "job_from_row (interrupt_row now row) = Inr job'"
      using row_decodes by blast
    then have "ej_status job' = INTERRUPTED \<and> ej_finished_at job' = Some now \<and> ej_result job' = ej_result job"
      using job_from_row_fields[OF row(2)] job_from_row_fields[OF job'] by (auto simp: interrupt_row_def)
    ultimately show ?thesis
      using nt row find[of i] job' by (auto simp: required_job_row)
  qed
  have "job_ids db' = job_ids db" unfolding job_ids_def db' map_rows_ids[OF keep] ..
  moreover have "db_events db' = db_events db" by (simp add: db' map_rows_def)
  moreover have "distinct ids" unfolding ids using db by (simp add: db_ok_def distinct_map_filter)
  ultimately show ?thesis using call jobs by blast
qed

theorem interrupt_settles_jobs_witness:
  "set (fst (interrupt_nonterminal_jobs ''t9'' empty_db)) = {} \<and>
   (\<exists>ids db'. interrupt_nonterminal_jobs ''t9'' demo_job_db = (ids, db') \<and> job_ids db' = {''exp-1''})"
proof
  show "set (fst (interrupt_nonterminal_jobs ''t9'' empty_db)) = {}"
    by (simp add: interrupt_nonterminal_jobs_def empty_db_def)
  have "db_ok demo_job_db" using demo_job_db_run by (rule store_run_ok) simp
  from interrupt_settles_jobs[OF this, of "''t9''"] demo_job_db_rows
  show "\<exists>ids db'. interrupt_nonterminal_jobs ''t9'' demo_job_db = (ids, db') \<and> job_ids db' = {''exp-1''}"
    by (auto simp: job_ids_def simp del: set_map)
qed


end
