(* ===== verification/JobRunner.thy ===== *)
theory JobRunner
  imports JobLedger
begin

text \<open>
  \<open>experiment_job_runner.py\<close>: the worker that runs the repetitions of a stored experiment and
  records their outcome. Its world is the job store, the counters of its event sink, the registered
  cancellation flags and whatever else there is; other threads act at the points where it looks at its
  flag. The AIOpsLab adapter and the runtime are called with the runner's event sink.
\<close>

section \<open>The runner and its surroundings\<close>

type_synonym 'w event_sink = "RuntimeEvent \<Rightarrow> ('w, unit) prog"

record 'w jobs_world =
  jw_db :: job_db
  jw_sequence :: int
  jw_attempt :: int
  jw_registered :: "string list"
  jw_flag :: "string \<Rightarrow> bool"
  jw_rest :: 'w

text \<open>What a runtime returns: an object with \<open>to_dict\<close>, a mapping, or something else.\<close>

datatype runtime_result =
    ToDict "(exn, pyval) result" | MappingResult "(string \<times> pyval) list" | OtherResult

record 'w runner_env =
  rn_now :: "'w jobs_world \<Rightarrow> string \<times> 'w jobs_world"
  rn_others :: "'w jobs_world \<Rightarrow> unit \<times> 'w jobs_world"
  rn_new_id :: "'w jobs_world \<Rightarrow> string \<times> 'w jobs_world"
  rn_prepare :: "(ExperimentRuntimeRequest \<Rightarrow> string \<Rightarrow> int \<Rightarrow> 'w jobs_world event_sink \<Rightarrow>
    ('w jobs_world, (string \<times> pyval) list) prog) option"
  rn_runtime :: "'w jobs_world event_sink \<Rightarrow> string \<Rightarrow> ExperimentRuntimeRequest \<Rightarrow>
    ('w jobs_world, runtime_result) prog"

definition store_call :: "'w runner_env \<Rightarrow> (string \<Rightarrow> 'a job_op) \<Rightarrow> ('w jobs_world, 'a) prog" where
  "store_call env f = pbind (pgets (rn_now env)) (\<lambda>now.
     pcall (\<lambda>w. case f now (jw_db w) of (r, db) \<Rightarrow> (r, w\<lparr>jw_db := db\<rparr>)))"

definition store_read :: "(job_db \<Rightarrow> (exn, 'a) result) \<Rightarrow> ('w jobs_world, 'a) prog" where
  "store_read f = pcall (\<lambda>w. (f (jw_db w), w))"

text \<open>\<open>cancellation.is_set()\<close>, after whatever other threads did.\<close>

definition is_set :: "'w runner_env \<Rightarrow> string \<Rightarrow> ('w jobs_world, bool) prog" where
  "is_set env i = pbind (pgets (rn_others env)) (\<lambda>_. pgets (\<lambda>w. (jw_flag w i, w)))"

section \<open>Results of an attempt\<close>

definition result_status_of :: "string \<Rightarrow> ExperimentJobStatus" where
  "result_status_of runtime_status =
     (let normalized = lower (strip runtime_status) in
      if normalized \<in> {''completed'', ''recovered'', ''recovered_after_replan'',
        ''no_action_required'', ''dry_run_validated''} then COMPLETED
      else if normalized \<in> {''cancelled'', ''cancelling''} then CANCELLED
      else if normalized \<in> {''blocked'', ''safe_failure'', ''safe_stopped'', ''consensus_rejected'',
        ''configuration_rejected''} then BLOCKED
      else if normalized = ''interrupted'' then INTERRUPTED
      else FAILED)"

fun result_dict :: "runtime_result \<Rightarrow> (exn, (string \<times> pyval) list) result" where
  "result_dict (ToDict (Inl e)) = Inl e"
| "result_dict (ToDict (Inr (VDict kvs))) = Inr kvs"
| "result_dict (ToDict (Inr _)) = Inl (TypeError ''runtime result serialization must be a mapping'')"
| "result_dict (MappingResult kvs) = Inr kvs"
| "result_dict OtherResult = Inl (TypeError ''runtime result must provide to_dict or be a mapping'')"

type_synonym attempt = "(string \<times> pyval) list"

definition attempt_status :: "attempt \<Rightarrow> ExperimentJobStatus" where
  "attempt_status a = result_status_of (json_str (vget_default a ''status'' VNone))"

definition aggregate :: "string \<Rightarrow> ExperimentJobStatus \<Rightarrow> ExperimentRuntimeRequest \<Rightarrow> attempt list \<Rightarrow> pyval" where
  "aggregate experiment_id status request attempts = VDict
     [(''experiment_id'', VStr experiment_id), (''status'', VStr (status_value status)),
      (''incident_source'', VStr (rq_incident_source request)),
      (''benchmark_id'', VStr (rq_benchmark_id request)),
      (''attempts'', VList (map VDict attempts)),
      (''successful_attempts'',
        VInt (int (length (filter (\<lambda>a. attempt_status a = COMPLETED) attempts)))),
      (''failed_attempts'',
        VInt (int (length (filter (\<lambda>a. attempt_status a \<in> {FAILED, BLOCKED}) attempts))))]"

section \<open>The event sink\<close>

text \<open>\<open>_PersistentRuntimeEventSink.emit\<close>.\<close>

definition sink_emit :: "'w runner_env \<Rightarrow> string \<Rightarrow> 'w jobs_world event_sink" where
  "sink_emit env experiment_id event =
     pbind (pgets (\<lambda>w. let w' = w\<lparr>jw_sequence := jw_sequence w + 1\<rparr>
       in ((jw_sequence w', jw_attempt w'), w'))) (\<lambda>(n, attempt).
     pbind (plift (make_event (VStr experiment_id) (VInt n) (VStr (stage_value (re_stage event)))
       (VStr (re_status event)) (VStr (re_message event)) (VStr (re_created_at event))
       (VDict (dict_set ''runtime_experiment_id'' (VStr (re_experiment_id event))
         (dict_set ''attempt'' (VInt attempt) (re_payload event)))))) (\<lambda>persisted.
     pbind (store_call env (append_event persisted)) (\<lambda>_. preturn ())))"

section \<open>Running a job\<close>

text \<open>\<open>replace(request, ...)\<close> constructs the request again.\<close>

definition rebuild_request ::
  "ExperimentRuntimeRequest \<Rightarrow> int \<Rightarrow> (string \<times> pyval) list \<Rightarrow> (exn, ExperimentRuntimeRequest) result" where
  "rebuild_request r repetitions detection = make_request
     \<lparr>qa_scenario_id = VStr (rq_scenario_id r), qa_namespace = VStr (rq_namespace r),
      qa_deployment = VStr (rq_deployment r), qa_metric = VStr (rq_metric r),
      qa_threshold = VFloat (rq_threshold r), qa_mode = VStr (mode_value (rq_mode r)),
      qa_backend = VStr (backend_value (rq_backend r)),
      qa_protocol_profile = VStr (rq_protocol_profile r), qa_repetitions = VInt repetitions,
      qa_controller = VStr (rq_controller r), qa_model = VStr (rq_model r),
      qa_incident_source = VStr (rq_incident_source r), qa_benchmark_id = VStr (rq_benchmark_id r),
      qa_detection_context = VDict detection\<rparr>"

definition two_digits :: "nat \<Rightarrow> string" where
  "two_digits n = (if n < 10 then ''0'' @ nat_str n else nat_str n)"

definition prepare_attempt ::
  "'w runner_env \<Rightarrow> string \<Rightarrow> ExperimentRuntimeRequest \<Rightarrow> nat \<Rightarrow>
   ('w jobs_world, ExperimentRuntimeRequest \<times> (string \<times> pyval) list) prog" where
  "prepare_attempt env experiment_id request n =
     (if rq_incident_source request = ''aiopslab'' then
        (case rn_prepare env of
           None \<Rightarrow> pthrow (OtherError ''AIOpsLab incident adapter is unavailable'')
         | Some prepare \<Rightarrow>
             pbind (prepare request experiment_id (int n) (sink_emit env experiment_id)) (\<lambda>detection.
             pbind (plift (rebuild_request request (rq_repetitions request) detection)) (\<lambda>r.
             preturn (r, detection))))
      else preturn (request, []))"

definition run_attempt ::
  "'w runner_env \<Rightarrow> string \<Rightarrow> ExperimentRuntimeRequest \<Rightarrow> nat \<Rightarrow> ('w jobs_world, attempt) prog" where
  "run_attempt env experiment_id request n =
     pbind (pgets (\<lambda>w. ((), w\<lparr>jw_attempt := int n\<rparr>))) (\<lambda>_.
     pbind (prepare_attempt env experiment_id request n) (\<lambda>(attempt_request, detection).
     pbind (rn_runtime env (sink_emit env experiment_id) (experiment_id @ ''-r'' @ two_digits n)
       attempt_request) (\<lambda>result.
     pbind (plift (result_dict result)) (\<lambda>serialized.
     preturn (if detection \<noteq> [] then dict_set ''detection'' (VDict detection) serialized
              else serialized)))))"

text \<open>The loop over the repetitions: the attempts so far and the status to report are its state; an
  exception ends it with what was collected.\<close>

record loop_state =
  lo_attempts :: "attempt list"
  lo_status :: ExperimentJobStatus
  lo_error :: string

definition loop_caught :: "'w runner_env \<Rightarrow> string \<Rightarrow> loop_state \<Rightarrow> exn \<Rightarrow> ('w jobs_world, loop_state) prog" where
  "loop_caught env i l e = pbind (is_set env i) (\<lambda>set.
     preturn (l\<lparr>lo_status := (if set then CANCELLED else FAILED), lo_error := exn_str e\<rparr>))"

definition after_attempt :: "attempt \<Rightarrow> loop_state \<Rightarrow> loop_state" where
  "after_attempt a l =
     (let mapped = result_status_of (json_str (vget_default a ''status'' (VStr ''failed'')))
      in l\<lparr>lo_attempts := lo_attempts l @ [a],
           lo_status := (if mapped \<in> {CANCELLED, BLOCKED, FAILED} then mapped else lo_status l)\<rparr>)"

fun run_attempts ::
  "'w runner_env \<Rightarrow> string \<Rightarrow> ExperimentRuntimeRequest \<Rightarrow> nat list \<Rightarrow> loop_state \<Rightarrow>
   ('w jobs_world, loop_state) prog" where
  "run_attempts env i request [] l = preturn l"
| "run_attempts env i request (n # ns) l =
     pbind (is_set env i) (\<lambda>set.
       if set then preturn (l\<lparr>lo_status := CANCELLED\<rparr>)
       else pbind (ptry (pbind (run_attempt env i request n) (\<lambda>a. preturn (Inr a)))
                        (\<lambda>e. pbind (loop_caught env i l e) (\<lambda>l'. preturn (Inl l')))) (\<lambda>out.
         case out of
           Inl l' \<Rightarrow> preturn l'
         | Inr a \<Rightarrow>
             if lo_status (after_attempt a l) = CANCELLED then preturn (after_attempt a l)
             else run_attempts env i request ns (after_attempt a l)))"

text \<open>The \<open>finally\<close> block: the result is recorded and the thread is forgotten.\<close>

definition conclude_job ::
  "'w runner_env \<Rightarrow> string \<Rightarrow> ExperimentRuntimeRequest \<Rightarrow> loop_state \<Rightarrow> ('w jobs_world, unit) prog" where
  "conclude_job env i request l =
     pbind (is_set env i) (\<lambda>set.
     let status = (if set \<and> lo_status l = COMPLETED then CANCELLED else lo_status l) in
     pbind (store_call env (\<lambda>now. set_result i (status_value status)
       (aggregate i status request (lo_attempts l)) (lo_error l) now)) (\<lambda>_.
     pgets (\<lambda>w. ((), w\<lparr>jw_registered := removeAll i (jw_registered w)\<rparr>))))"

definition run_job :: "'w runner_env \<Rightarrow> string \<Rightarrow> ('w jobs_world, unit) prog" where
  "run_job env i =
     pbind (store_read (get_job i)) (\<lambda>found. case found of
       None \<Rightarrow> preturn ()
     | Some job \<Rightarrow>
         pbind (store_call env (transition_job i (status_value RUNNING) None None)) (\<lambda>_.
         pbind (pgets (\<lambda>w. ((), w\<lparr>jw_sequence := 0, jw_attempt := 1\<rparr>))) (\<lambda>_.
         pbind (plift (rebuild_request (ej_request job) 1 (rq_detection_context (ej_request job)))) (\<lambda>request.
         pbind (run_attempts env i request [1..<Suc (nat (rq_repetitions (ej_request job)))]
           \<lparr>lo_attempts = [], lo_status = COMPLETED, lo_error = ''''\<rparr>) (\<lambda>l.
         conclude_job env i (ej_request job) l)))))"

section \<open>The calls of the web server\<close>

definition submit :: "'w runner_env \<Rightarrow> ExperimentRuntimeRequest \<Rightarrow> ('w jobs_world, ExperimentJob) prog" where
  "submit env request =
     pbind (pgets (rn_new_id env)) (\<lambda>i.
     pbind (store_call env (create_job request (Some i) '''')) (\<lambda>job.
     pbind (pgets (\<lambda>w. ((), w\<lparr>jw_registered := jw_registered w @ [i], jw_flag := (jw_flag w)(i := False)\<rparr>))) (\<lambda>_.
     preturn job)))"

definition set_flag :: "string \<Rightarrow> ('w jobs_world, unit) prog" where
  "set_flag i = pgets (\<lambda>w. ((), if i \<in> set (jw_registered w) then w\<lparr>jw_flag := (jw_flag w)(i := True)\<rparr> else w))"

definition cancel :: "'w runner_env \<Rightarrow> string \<Rightarrow> ('w jobs_world, ExperimentJob) prog" where
  "cancel env i = pbind (store_call env (request_cancel i)) (\<lambda>job. pbind (set_flag i) (\<lambda>_. preturn job))"

definition wait_for_events ::
  "'w runner_env \<Rightarrow> string \<Rightarrow> pyval \<Rightarrow> ('w jobs_world, RuntimeEvent list) prog" where
  "wait_for_events env i after =
     pbind (store_read (events_after i after)) (\<lambda>events.
     if events \<noteq> [] then preturn events
     else pbind (store_read (get_job i)) (\<lambda>found.
       if (case found of None \<Rightarrow> True | Some job \<Rightarrow> terminal (ej_status job)) then preturn []
       else pbind (pgets (rn_others env)) (\<lambda>_. store_read (events_after i after))))"

fun cancel_all :: "'w runner_env \<Rightarrow> string list \<Rightarrow> ('w jobs_world, unit) prog" where
  "cancel_all env [] = preturn ()"
| "cancel_all env (i # is) =
     pbind (ptry (pbind (store_call env (request_cancel i)) (\<lambda>_. preturn ()))
       (\<lambda>e. case e of KeyError _ \<Rightarrow> preturn () | _ \<Rightarrow> pthrow e)) (\<lambda>_. cancel_all env is)"

fun set_flags :: "string list \<Rightarrow> ('w jobs_world, unit) prog" where
  "set_flags [] = preturn ()"
| "set_flags (i # is) = pbind (set_flag i) (\<lambda>_. set_flags is)"

definition shutdown :: "'w runner_env \<Rightarrow> ('w jobs_world, unit) prog" where
  "shutdown env =
     pbind (pgets (\<lambda>w. (jw_registered w, w))) (\<lambda>active.
     pbind (cancel_all env active) (\<lambda>_. pbind (set_flags active) (\<lambda>_.
     pbind (pgets (rn_others env)) (\<lambda>_. preturn ()))))"

definition start_runner :: "'w runner_env \<Rightarrow> ('w jobs_world, string list) prog" where
  "start_runner env = store_call env (\<lambda>now db. case interrupt_nonterminal_jobs now db of (ids, db') \<Rightarrow> (Inr ids, db'))"

section \<open>What the runner relies on\<close>

text \<open>The job is in well-formed tables.\<close>

definition job_stored :: "string \<Rightarrow> 'w jobs_world \<Rightarrow> bool" where
  "job_stored i w \<longleftrightarrow> db_ok (jw_db w) \<and> i \<in> job_ids (jw_db w)"

text \<open>
  The contract of the code a repetition runs, over an invariant of the world: it touches the job's
  record through the event sink alone, and what it returns can be stored as JSON.
\<close>

definition runtime_ok :: "('w \<Rightarrow> bool) \<Rightarrow>
  ('w event_sink \<Rightarrow> string \<Rightarrow> ExperimentRuntimeRequest \<Rightarrow> ('w, runtime_result) prog) \<Rightarrow> bool" where
  "runtime_ok I runtime \<longleftrightarrow> (\<forall>sink aid r. (\<forall>e. keeps I (sink e)) \<longrightarrow>
     ensures I (runtime sink aid r) (\<lambda>res. \<forall>kvs. result_dict res = Inr kvs \<longrightarrow> dumpable (VDict kvs)))"

definition prepare_ok where
  "prepare_ok I prepare \<longleftrightarrow> (\<forall>sink r i n. (\<forall>e. keeps I (sink e)) \<longrightarrow>
     ensures I (prepare r i n sink) (\<lambda>kvs. dumpable (VDict kvs)))"

definition runner_ok :: "('w jobs_world \<Rightarrow> bool) \<Rightarrow> 'w runner_env \<Rightarrow> bool" where
  "runner_ok I env \<longleftrightarrow> call_keeps I (rn_now env) \<and> call_keeps I (rn_others env) \<and>
     runtime_ok I (rn_runtime env) \<and>
     (\<forall>prepare. rn_prepare env = Some prepare \<longrightarrow> prepare_ok I prepare)"

text \<open>Invariants that the runner's own bookkeeping does not touch.\<close>

definition job_invariant :: "string \<Rightarrow> ('w jobs_world \<Rightarrow> bool) \<Rightarrow> bool" where
  "job_invariant i I \<longleftrightarrow> (\<forall>w. I w \<longrightarrow> job_stored i w) \<and>
     (\<forall>w db. I w \<longrightarrow> store_run (jw_db w) db \<longrightarrow> i \<in> job_ids db \<longrightarrow> I (w\<lparr>jw_db := db\<rparr>)) \<and>
     (\<forall>w n. I w \<longrightarrow> I (w\<lparr>jw_sequence := n\<rparr>)) \<and> (\<forall>w n. I w \<longrightarrow> I (w\<lparr>jw_attempt := n\<rparr>)) \<and>
     (\<forall>w is. I w \<longrightarrow> I (w\<lparr>jw_registered := is\<rparr>))"

lemma job_stored_invariant: "job_invariant i (job_stored i)"
  unfolding job_invariant_def job_stored_def by (auto intro: store_run_ok)

section \<open>Calls of the store\<close>

definition stays :: "string \<Rightarrow> 'a job_op \<Rightarrow> bool" where
  "stays i f \<longleftrightarrow> (\<forall>db. db_ok db \<longrightarrow> i \<in> job_ids db \<longrightarrow> tidy f db \<and> i \<in> job_ids (snd (f db)))"

lemma then_required_stays:
  assumes "\<And>db'. r = Inr db' \<Longrightarrow> job_ids db' = job_ids db"
  shows "job_ids (snd (then_required i r db)) = job_ids db"
  using assms by (cases r) (simp_all add: then_required_def)

lemma ids_transition: "job_ids (snd (transition_job i status stage error now db)) = job_ids db"
  unfolding transition_job_def by (rule then_required_stays) auto

lemma ids_set_result: "job_ids (snd (set_result i status result message now db)) = job_ids db"
  unfolding set_result_def by (rule then_required_stays) auto

lemma ids_event_insert: "job_ids (snd (event_insert e v now db)) = job_ids db"
proof -
  have "job_ids (update_row j f db') = job_ids db'" if "\<And>r. jr_id (f r) = jr_id r" for j f db'
    using that by (rule ids_update_row)
  then show ?thesis
    by (auto simp: event_insert_def Let_def job_ids_def split: sum.splits)
qed

lemma ids_append_event: "job_ids (snd (append_event e now db)) = job_ids db"
  by (auto simp: append_event_def ids_event_insert split: sum.splits)

lemma stays_transition: "stays i (transition_job i status stage error now)"
  by (simp add: stays_def transition_job_tidy ids_transition)

lemma stays_result: "stays i (set_result i status result message now)"
  by (simp add: stays_def set_result_tidy ids_set_result)

lemma stays_event: "event_ok e \<Longrightarrow> stays i (append_event e now)"
  by (simp add: stays_def append_event_tidy ids_append_event)

lemma store_call_keeps:
  assumes I: "job_invariant i I" and now: "call_keeps I (rn_now env)" and f: "\<And>t. stays i (f t)"
  shows "keeps I (store_call env f)"
  unfolding store_call_def
proof (intro keep_rules now)
  fix t
  show "call_keeps I (\<lambda>w. case f t (jw_db w) of (r, db) \<Rightarrow> (r, w\<lparr>jw_db := db\<rparr>))"
    unfolding call_keeps_def
  proof (intro allI impI)
    fix w assume w: "I w"
    with I have "job_stored i w" by (simp add: job_invariant_def)
    with f[of t] have "store_run (jw_db w) (snd (f t (jw_db w)))" "i \<in> job_ids (snd (f t (jw_db w)))"
      by (auto simp: job_stored_def stays_def tidy_def)
    with I w show "I (snd (case f t (jw_db w) of (r, db) \<Rightarrow> (r, w\<lparr>jw_db := db\<rparr>)))"
      by (auto simp: job_invariant_def split: prod.split)
  qed
qed

lemma store_read_keeps [keep_rules]: "keeps I (store_read f)"
  unfolding store_read_def by (intro keep_rules) (simp add: call_keeps_def)

lemma store_call_attains:
  assumes I: "job_invariant i I" and now: "call_keeps I (rn_now env)" and f: "\<And>t. stays i (f t)"
    and ok: "\<And>t w. I w \<Longrightarrow> \<exists>x db. f t (jw_db w) = (Inr x, db)"
  shows "attains I (store_call env f) (\<lambda>_. True)"
  unfolding attains_def
proof (intro allI impI)
  fix s :: "'a jobs_world sys" assume s: "I (sys_world s)"
  obtain t w where tw: "rn_now env (sys_world s) = (t, w)" by force
  with now s have "I w" unfolding call_keeps_def by (metis snd_conv)
  with ok obtain x db where x: "f t (jw_db w) = (Inr x, db)" by blast
  have "keeps I (store_call env f)" using I now f by (rule store_call_keeps)
  with s have "I (sys_world (snd (store_call env f s)))" by (simp add: keeps_def)
  with tw x show "\<exists>x s'. store_call env f s = (Inr x, s') \<and> True \<and> I (sys_world s')"
    by (simp add: store_call_def pbind_def pgets_def pcall_def)
qed

lemma keeps_plift_bind: "(\<And>x. r = Inr x \<Longrightarrow> keeps I (f x)) \<Longrightarrow> keeps I (pbind (plift r) f)"
  by (cases r) (auto simp: keeps_pthrow)

lemma sink_keeps:
  assumes "job_invariant i I" "call_keeps I (rn_now env)"
  shows "keeps I (sink_emit env i e)"
  unfolding sink_emit_def
proof (rule keeps_pbind)
  show "keeps I (pgets (\<lambda>w. let w' = w\<lparr>jw_sequence := jw_sequence w + 1\<rparr> in ((jw_sequence w', jw_attempt w'), w')))"
    using assms(1) by (intro keep_rules) (simp add: call_keeps_def job_invariant_def Let_def)
qed (auto intro!: keep_rules keeps_plift_bind store_call_keeps assms stays_event
  dest: make_event_ok split: prod.split)

section \<open>One attempt and the loop\<close>

lemma dumpable_dict_set:
  "dumpable (VDict d) \<Longrightarrow> dumpable v \<Longrightarrow> dumpable (VDict (dict_set k v d))"
  using set_dict_set[of k v d] by (fastforce simp: list_all_iff)

lemma attempt_status_default:
  "result_status_of (json_str (vget_default a ''status'' (VStr ''failed''))) = attempt_status a"
proof -
  have "result_status_of ''failed'' = FAILED" "result_status_of ''None'' = FAILED" by code_simp+
  then show ?thesis by (simp add: attempt_status_def vget_default_def split: option.split)
qed

lemma is_set_keeps: "runner_ok I env \<Longrightarrow> keeps I (is_set env i)"
  unfolding is_set_def runner_ok_def by (auto intro!: keep_rules simp: call_keeps_def)

lemma is_set_attains: "runner_ok I env \<Longrightarrow> attains I (is_set env i) (\<lambda>_. True)"
  unfolding is_set_def runner_ok_def
  by (rule attains_bind[OF attains_pgets attains_pgets]) (auto simp: call_keeps_def)

lemma run_attempt_ensures:
  assumes env: "runner_ok I env" and I: "job_invariant i I"
  shows "ensures I (run_attempt env i request n) (\<lambda>a. dumpable (VDict a))"
proof -
  have sink: "\<forall>e. keeps I (sink_emit env i e)"
    using env I by (auto intro: sink_keeps simp: runner_ok_def)
  have "ensures I (prepare_attempt env i request n) (\<lambda>(_, detection). dumpable (VDict detection))"
  proof (cases "rn_prepare env")
    case None
    then show ?thesis by (auto simp: prepare_attempt_def)
  next
    case (Some prepare)
    with env sink have "ensures I (prepare request i (int n) (sink_emit env i)) (\<lambda>kvs. dumpable (VDict kvs))"
      by (simp add: runner_ok_def prepare_ok_def)
    then show ?thesis
      unfolding prepare_attempt_def Some
      by (auto intro!: ensures_bind ensures_plift ensures_preturn)
  qed
  moreover have "ensures I (rn_runtime env (sink_emit env i) aid r)
      (\<lambda>res. \<forall>kvs. result_dict res = Inr kvs \<longrightarrow> dumpable (VDict kvs))" for aid r
    using env sink by (simp add: runner_ok_def runtime_ok_def)
  moreover have "ensures I (pgets (\<lambda>w. ((), w\<lparr>jw_attempt := int n\<rparr>))) (\<lambda>_. True)"
    using I by (intro ensures_any keep_rules) (simp add: call_keeps_def job_invariant_def)
  ultimately show ?thesis
    unfolding run_attempt_def
    by (auto intro!: ensures_bind[of I _ "\<lambda>_. True"] ensures_bind[of I "prepare_attempt env i request n"]
        ensures_bind[of I "rn_runtime env a b c" for a b c] ensures_bind[of I "plift r" "\<lambda>kvs. dumpable (VDict kvs)" for r]
        ensures_plift ensures_preturn dumpable_dict_set simp del: dumpable.simps)
qed

definition loop_ok :: "nat \<Rightarrow> loop_state \<Rightarrow> bool" where
  "loop_ok n l \<longleftrightarrow> (\<forall>a \<in> set (lo_attempts l). dumpable (VDict a)) \<and>
     lo_status l \<in> {COMPLETED, FAILED, BLOCKED, CANCELLED} \<and> length (lo_attempts l) \<le> n \<and>
     (lo_status l = COMPLETED \<longrightarrow> length (lo_attempts l) = n \<and>
       (\<forall>a \<in> set (lo_attempts l). attempt_status a \<in> {COMPLETED, INTERRUPTED}))"

lemma loop_ok_later: "loop_ok n l \<Longrightarrow> lo_status l \<noteq> COMPLETED \<Longrightarrow> n \<le> m \<Longrightarrow> loop_ok m l"
  by (auto simp: loop_ok_def)

lemma attempt_status_range: "attempt_status a \<in> {COMPLETED, CANCELLED, BLOCKED, FAILED, INTERRUPTED}"
  by (simp add: attempt_status_def result_status_of_def Let_def)

lemma loop_ok_after: "loop_ok n l \<Longrightarrow> dumpable (VDict a) \<Longrightarrow> loop_ok (Suc n) (after_attempt a l)"
  using attempt_status_range[of a]
  by (auto simp: loop_ok_def after_attempt_def attempt_status_default Let_def simp del: dumpable.simps)

lemma run_attempts_attains:
  assumes env: "runner_ok I env" and I: "job_invariant i I"
  shows "loop_ok n l \<Longrightarrow> attains I (run_attempts env i request ns l) (loop_ok (n + length ns))"
proof (induction ns arbitrary: n l)
  case (Cons k ns)
  define m where "m = n + length (k # ns)"
  then have m: "Suc n + length ns = m" "n \<le> m" "Suc n \<le> m" by simp_all
  let ?Q = "loop_ok m"
  have caught: "attains I (loop_caught env i l e) (\<lambda>l'. ?Q l')" for e
    unfolding loop_caught_def
    by (rule attains_bind[OF is_set_attains[OF env]]) (use Cons.prems m in \<open>auto simp: loop_ok_def\<close>)
  have rest: "attains I (run_attempts env i request ns (after_attempt a l)) ?Q"
    if "dumpable (VDict a)" for a
    using Cons.IH[OF loop_ok_after[OF Cons.prems that]] m by metis
  have stop: "?Q (after_attempt a l)" if "dumpable (VDict a)" "lo_status (after_attempt a l) = CANCELLED" for a
    using loop_ok_later[OF loop_ok_after[OF Cons.prems that(1)] _ m(3)] that(2) by simp
  have body: "attains I (ptry (pbind (run_attempt env i request k) (\<lambda>a. preturn (Inr a)))
                        (\<lambda>e. pbind (loop_caught env i l e) (\<lambda>l'. preturn (Inl l'))))
      (\<lambda>out. case out of Inl l' \<Rightarrow> ?Q l' | Inr a \<Rightarrow> dumpable (VDict a))"
    by (rule attains_ptry)
      (auto intro!: ensures_bind[OF run_attempt_ensures[OF env I]] attains_bind[OF caught] simp del: dumpable.simps)
  show ?case
    unfolding run_attempts.simps m_def[symmetric]
  proof (rule attains_bind[OF is_set_attains[OF env]], rule attains_if)
    show "attains I (preturn (l\<lparr>lo_status := CANCELLED\<rparr>)) ?Q"
      using Cons.prems m by (auto simp: loop_ok_def)
  next
    fix set
    show "attains I (pbind (ptry (pbind (run_attempt env i request k) (\<lambda>a. preturn (Inr a)))
                        (\<lambda>e. pbind (loop_caught env i l e) (\<lambda>l'. preturn (Inl l')))) (\<lambda>out.
         case out of Inl l' \<Rightarrow> preturn l'
         | Inr a \<Rightarrow> if lo_status (after_attempt a l) = CANCELLED then preturn (after_attempt a l)
             else run_attempts env i request ns (after_attempt a l))) ?Q"
      by (rule attains_bind[OF body]) (auto split: sum.splits intro!: attains_if attains_preturn rest stop simp del: dumpable.simps)
  qed
qed simp

section \<open>The whole job\<close>

lemma freeze_plain_id: "plain v \<Longrightarrow> freeze v = Inr v"
proof (induction v rule: plain.induct)
  case (1 kvs)
  then have "rmap (\<lambda>(k, v). rbind (freeze v) (\<lambda>w. Inr (k, w))) kvs = Inr (map (\<lambda>x. x) kvs)"
    by (intro rmap_Inr_map) (auto simp: list_all_iff)
  then show ?case by simp
next
  case (2 vs)
  then have "rmap freeze vs = Inr (map (\<lambda>x. x) vs)" by (intro rmap_Inr_map) (auto simp: list_all_iff)
  then show ?case by simp
qed auto

lemma rebuild_request_ok:
  assumes ok: "request_ok r" and n: "1 \<le> n" and d: "plain (VDict d)"
  shows "rebuild_request r n d = Inr (r\<lparr>rq_repetitions := n, rq_detection_context := d\<rparr>)"
proof -
  have c: "strip ''deterministic'' = ''deterministic''" "strip ''autogen'' = ''autogen''"
    "lower ''deterministic'' = ''deterministic''" "lower ''autogen'' = ''autogen''"
    "strip ''chaos_mesh'' = ''chaos_mesh''" "strip ''aiopslab'' = ''aiopslab''"
    "underscored ''chaos_mesh'' = ''chaos_mesh''" "underscored ''aiopslab'' = ''aiopslab''"
    by code_simp+
  from ok have controller: "strip_identifier n (VStr (rq_controller r)) = Inr (rq_controller r)"
    "lower (rq_controller r) = rq_controller r" "lower (rq_controller r) \<in> {''deterministic'', ''autogen''}"
    and incident: "strip_identifier n (VStr (rq_incident_source r)) = Inr (rq_incident_source r)"
    "underscored (rq_incident_source r) = rq_incident_source r" for n
    by (auto simp: request_ok_def strip_identifier_Inr c)
  have "frozen_mapping m (VDict d) = Inr d" for m
    using freeze_plain_id[OF d] by simp
  then show ?thesis
    unfolding rebuild_request_def make_request_def
    using ok n controller incident
    by (auto simp: request_ok_def member_choice_def strip_identifier_id
        simp del: strip_identifier.simps frozen_mapping.simps plain.simps)
qed

lemma request_from_dict_ok: "request_from_dict v = Inr r \<Longrightarrow> request_ok r"
  unfolding request_from_dict_def by (auto intro: make_request_ok simp del: subscript.simps get_or.simps)

lemma job_request_ok: "get_job i db = Inr (Some job) \<Longrightarrow> request_ok (ej_request job)"
  by (auto simp: get_job_def job_from_row_def request_from_dict_ok split: option.splits)

lemma aggregate_dumpable:
  "\<forall>a \<in> set attempts. dumpable (VDict a) \<Longrightarrow> dumpable (aggregate i st r attempts)"
  by (simp add: aggregate_def list_all_iff)

lemma removeAll_notin: "i \<notin> set (removeAll i xs)"
  by simp

text \<open>What a finished job's record says.\<close>

definition settled :: "string \<Rightarrow> ExperimentRuntimeRequest \<Rightarrow> ExperimentJob \<Rightarrow> bool" where
  "settled i request job \<longleftrightarrow> ej_id job = i \<and> ej_finished_at job \<noteq> None \<and>
     ej_status job \<in> {COMPLETED, FAILED, BLOCKED, CANCELLED} \<and>
     (\<exists>attempts. ej_result job = Some (json_reload (aggregate i (ej_status job) request attempts)) \<and>
       length attempts \<le> nat (rq_repetitions request) \<and>
       (ej_status job = COMPLETED \<longrightarrow> length attempts = nat (rq_repetitions request) \<and>
         (\<forall>a \<in> set attempts. attempt_status a \<in> {COMPLETED, INTERRUPTED})))"

definition final_status :: "bool \<Rightarrow> loop_state \<Rightarrow> ExperimentJobStatus" where
  "final_status flag l = (if flag \<and> lo_status l = COMPLETED then CANCELLED else lo_status l)"

lemma conclude_job_records:
  assumes env: "runner_ok I env" and I: "job_invariant i I" and s: "I (sys_world s)"
    and reads: "attains I (is_set env i) P" and l: "loop_ok n l"
  shows "\<exists>s' job flag. conclude_job env i request l s = (Inr (), s') \<and>
    i \<notin> set (jw_registered (sys_world s')) \<and>
    I (sys_world s') \<and> required_job i (jw_db (sys_world s')) = Inr job \<and>
    P flag \<and> ej_status job = final_status flag l \<and> ej_id job = i \<and> ej_finished_at job \<noteq> None \<and>
    ej_result job = Some (json_reload (aggregate i (ej_status job) request (lo_attempts l)))"
proof -
  from reads s obtain flag s1 where set: "is_set env i s = (Inr flag, s1)" "I (sys_world s1)" "P flag"
    unfolding attains_def by blast
  define st where "st = (if flag \<and> lo_status l = COMPLETED then CANCELLED else lo_status l)"
  have st: "st \<in> {COMPLETED, FAILED, BLOCKED, CANCELLED}" "st = COMPLETED \<Longrightarrow> lo_status l = COMPLETED"
    using l by (auto simp: st_def loop_ok_def split: if_splits)
  obtain now w where now: "rn_now env (sys_world s1) = (now, w)" by force
  with env set(2) have w: "I w" unfolding runner_ok_def call_keeps_def by (metis snd_conv)
  with I have "job_stored i w" by (simp add: job_invariant_def)
  then have db: "db_ok (jw_db w)" "i \<in> job_ids (jw_db w)" by (simp_all add: job_stored_def)
  have final: "terminal st" using st(1) by auto
  have dump: "dumpable (aggregate i st request (lo_attempts l))"
    using l by (intro aggregate_dumpable) (simp add: loop_ok_def)
  obtain job where job:
    "set_result i (status_value st) (aggregate i st request (lo_attempts l)) (lo_error l) now (jw_db w) =
      (Inr job, update_row i (result_row st (aggregate i st request (lo_attempts l)) (lo_error l) now) (jw_db w))"
    "ej_status job = st" "ej_id job = i" "ej_result job = Some (json_reload (aggregate i st request (lo_attempts l)))"
    "ej_finished_at job = Some now"
    by (rule set_result_writes[OF db final dump])
  let ?db = "update_row i (result_row st (aggregate i st request (lo_attempts l)) (lo_error l) now) (jw_db w)"
  let ?s = "s1\<lparr>sys_world := w\<lparr>jw_db := ?db, jw_registered := removeAll i (jw_registered w)\<rparr>\<rparr>"
  have call: "store_call env (set_result i (status_value st) (aggregate i st request (lo_attempts l)) (lo_error l)) s1
      = (Inr job, s1\<lparr>sys_world := w\<lparr>jw_db := ?db\<rparr>\<rparr>)"
    by (simp add: store_call_def pbind_def pgets_def pcall_def now job(1))
  have "conclude_job env i request l s = (Inr (), ?s)"
    unfolding conclude_job_def pbind_def
    by (simp only: set prod.case sum.case Let_def st_def[symmetric] call) (simp add: pgets_def)
  moreover have "required_job i ?db = Inr job"
    using job(1) by (auto simp: set_result_def then_required_def split: sum.splits)
  moreover have "ej_status job = final_status flag l" by (simp add: job(2) st_def final_status_def)
  moreover have "ej_result job = Some (json_reload (aggregate i (ej_status job) request (lo_attempts l)))"
    "ej_finished_at job \<noteq> None" by (simp_all add: job)
  moreover have "store_run (jw_db w) ?db" "i \<in> job_ids ?db"
    using store_step.write_result[OF final] db by auto
  with I w have "I (w\<lparr>jw_db := ?db\<rparr>)" by (simp add: job_invariant_def)
  then have "I (sys_world ?s)" using I unfolding job_invariant_def by force
  moreover have "i \<notin> set (jw_registered (sys_world ?s))" "jw_db (sys_world ?s) = ?db" by simp_all
  ultimately show ?thesis using job(3) set(3) by metis
qed

lemma conclude_job_settles:
  assumes env: "runner_ok I env" and I: "job_invariant i I" and s: "I (sys_world s)"
    and l: "loop_ok (nat (rq_repetitions request)) l"
  shows "\<exists>s' job. conclude_job env i request l s = (Inr (), s') \<and>
    i \<notin> set (jw_registered (sys_world s')) \<and>
    required_job i (jw_db (sys_world s')) = Inr job \<and> settled i request job"
proof -
  from conclude_job_records[OF env I s is_set_attains[OF env] l, of request]
  obtain s' job flag where c: "conclude_job env i request l s = (Inr (), s')"
    "i \<notin> set (jw_registered (sys_world s'))" "required_job i (jw_db (sys_world s')) = Inr job"
    and job: "ej_status job = final_status flag l" "ej_id job = i" "ej_finished_at job \<noteq> None"
    "ej_result job = Some (json_reload (aggregate i (ej_status job) request (lo_attempts l)))"
    by blast
  have "ej_status job \<in> {COMPLETED, FAILED, BLOCKED, CANCELLED}"
    "ej_status job = COMPLETED \<Longrightarrow> lo_status l = COMPLETED"
    using l job(1) by (auto simp: final_status_def loop_ok_def split: if_splits)
  with job l have "settled i request job" unfolding settled_def loop_ok_def by blast
  with c show ?thesis by blast
qed

lemma transition_job_returns:
  assumes "db_ok db" "i \<in> job_ids db"
  shows "\<exists>job db'. transition_job i (status_value st) stage error now db = (Inr job, db')"
proof -
  from assms obtain old where old: "required_job i db = Inr old" by (rule required_job_ok)
  have "db_ok (update_row i (transition_row st stage error now old) db)"
    using assms by (intro update_row_ok) (auto intro: transition_row_ok)
  moreover have "i \<in> job_ids (update_row i (transition_row st stage error now old) db)" using assms by simp
  ultimately obtain job where "required_job i (update_row i (transition_row st stage error now old) db) = Inr job"
    by (rule required_job_ok)
  with old show ?thesis by (simp add: transition_job_def then_required_def)
qed

text \<open>The part of \<open>run_job\<close> before the \<open>finally\<close> block.\<close>

lemma run_job_prefix:
  assumes env: "runner_ok I env" and I: "job_invariant i I" and s: "I (sys_world s)"
    and job: "get_job i (jw_db (sys_world s)) = Inr (Some job)"
    and loop: "\<And>r. rq_incident_source r = rq_incident_source (ej_request job) \<Longrightarrow>
      attains I (run_attempts env i r [1..<Suc (nat (rq_repetitions (ej_request job)))]
        \<lparr>lo_attempts = [], lo_status = COMPLETED, lo_error = ''''\<rparr>) P"
  shows "\<exists>l s1. run_job env i s = conclude_job env i (ej_request job) l s1 \<and> P l \<and> I (sys_world s1)"
proof -
  let ?r = "(ej_request job)\<lparr>rq_repetitions := 1, rq_detection_context := rq_detection_context (ej_request job)\<rparr>"
  have stored: "job_stored i w" if "I w" for w using I that by (simp add: job_invariant_def)
  have ok: "request_ok (ej_request job)" using job by (rule job_request_ok)
  then have rebuild: "rebuild_request (ej_request job) 1 (rq_detection_context (ej_request job)) = Inr ?r"
    by (intro rebuild_request_ok) (auto simp: request_ok_def)
  have "attains I (store_call env (transition_job i (status_value RUNNING) None None)) (\<lambda>_. True)"
    using env stored transition_job_returns[of "jw_db w" i RUNNING None None for w :: "'a jobs_world"]
    by (intro store_call_attains[OF I]) (auto simp: runner_ok_def job_stored_def intro: stays_transition)
  moreover have "attains I (pgets (\<lambda>w. ((), w\<lparr>jw_sequence := 0, jw_attempt := 1\<rparr>))) (\<lambda>_. True)"
  proof (rule attains_pgets, unfold call_keeps_def, intro allI impI)
    fix w assume "I w"
    with I have "I (w\<lparr>jw_sequence := 0\<rparr>)" by (simp add: job_invariant_def)
    with I show "I (snd ((), w\<lparr>jw_sequence := 0, jw_attempt := 1\<rparr>))" by (simp add: job_invariant_def)
  qed
  moreover have "attains I (run_attempts env i ?r [1..<Suc (nat (rq_repetitions (ej_request job)))]
        \<lparr>lo_attempts = [], lo_status = COMPLETED, lo_error = ''''\<rparr>) P"
    by (rule loop) simp
  ultimately obtain j s1 u s2 l s3 where
    "store_call env (transition_job i (status_value RUNNING) None None) s = (Inr j, s1)"
    "pgets (\<lambda>w. ((), w\<lparr>jw_sequence := 0, jw_attempt := 1\<rparr>)) s1 = (Inr u, s2)"
    "run_attempts env i ?r [1..<Suc (nat (rq_repetitions (ej_request job)))]
        \<lparr>lo_attempts = [], lo_status = COMPLETED, lo_error = ''''\<rparr> s2 = (Inr l, s3)"
    and l: "P l" "I (sys_world s3)"
    using s unfolding attains_def by meson
  then have "run_job env i s = conclude_job env i (ej_request job) l s3"
    unfolding run_job_def pbind_def
    by (simp only: store_read_def pcall_def job prod.case sum.case option.case rebuild plift_def) simp
  with l show ?thesis by blast
qed


section \<open>Guarantees\<close>

text \<open>
  C19. A job that runs is settled. Whatever the runtime, the incident adapter and other threads do, as
  long as they reach the job's record only through the event sink and the store and return values that
  JSON can store, the worker of a stored job returns; the job then has a final status other than
  \<open>interrupted\<close>, a finishing time, and a result that aggregates its attempts, never more than were
  requested; its thread is forgotten; and it is \<open>completed\<close> only if every requested repetition was
  attempted and each attempt ended completed or interrupted.
\<close>

theorem run_job_settles:
  assumes env: "runner_ok (job_stored i) env" and s: "job_stored i (sys_world s)"
    and job: "get_job i (jw_db (sys_world s)) = Inr (Some submitted)"
  shows "\<exists>s' job. run_job env i s = (Inr (), s') \<and> i \<notin> set (jw_registered (sys_world s')) \<and>
    required_job i (jw_db (sys_world s')) = Inr job \<and> settled i (ej_request submitted) job"
proof -
  let ?n = "nat (rq_repetitions (ej_request submitted))"
  have "attains (job_stored i) (run_attempts env i r [1..<Suc ?n]
      \<lparr>lo_attempts = [], lo_status = COMPLETED, lo_error = ''''\<rparr>) (loop_ok ?n)" for r
    using run_attempts_attains[OF env job_stored_invariant, of 0 _ r "[1..<Suc ?n]"]
    by (simp add: loop_ok_def del: upt_Suc)
  from run_job_prefix[OF env job_stored_invariant s job this] obtain l s1 where
    "run_job env i s = conclude_job env i (ej_request submitted) l s1" "loop_ok ?n l" "job_stored i (sys_world s1)"
    by blast
  with conclude_job_settles[OF env job_stored_invariant] show ?thesis by metis
qed

text \<open>A runtime whose every run ends with the same report.\<close>

definition constant_env :: "(string \<times> pyval) list \<Rightarrow> 'w runner_env" where
  "constant_env report = \<lparr>rn_now = (\<lambda>w. (''now'', w)), rn_others = (\<lambda>w. ((), w)),
     rn_new_id = (\<lambda>w. (''exp-1'', w)), rn_prepare = None,
     rn_runtime = (\<lambda>sink aid r. preturn (MappingResult report))\<rparr>"

lemma constant_env_ok: "dumpable (VDict report) \<Longrightarrow> runner_ok I (constant_env report)"
  by (simp add: runner_ok_def constant_env_def call_keeps_def runtime_ok_def del: dumpable.simps)

definition demo_jobs_world :: "unit jobs_world sys" where
  "demo_jobs_world = \<lparr>sys_world = \<lparr>jw_db = demo_job_db, jw_sequence = 0, jw_attempt = 1,
     jw_registered = [''exp-1''], jw_flag = (\<lambda>_. False), jw_rest = ()\<rparr>, sys_trace = []\<rparr>"

lemma demo_jobs_stored: "job_stored ''exp-1'' (sys_world demo_jobs_world)"
proof -
  have "db_ok demo_job_db" using demo_job_db_run by (rule store_run_ok) simp
  with demo_job_db_rows show ?thesis
    by (simp add: job_stored_def demo_jobs_world_def job_ids_def del: set_map)
qed

lemma demo_job_found:
  obtains job where "get_job ''exp-1'' demo_job_db = Inr (Some job)" "rq_repetitions (ej_request job) = 2"
    "rq_incident_source (ej_request job) = ''chaos_mesh''"
proof -
  have "trimmed ''exp-1''" by code_simp
  moreover have "''exp-1'' \<notin> job_ids empty_db" by (simp add: job_ids_def empty_db_def)
  ultimately obtain job where job: "get_job ''exp-1'' demo_job_db = Inr (Some job)"
    "ej_request job = reread_request demo_request"
    by (rule created_job[OF demo_request_ok, where hex = "''00''" and now = "''t0''"])
      (simp add: demo_job_db_def)
  show ?thesis
    by (rule that[OF job(1)]) (simp_all only: job(2), simp_all add: reread_request_def demo_request_def)
qed

theorem run_job_settles_witness:
  "\<exists>s' job. run_job (constant_env [(''status'', VStr ''recovered'')]) ''exp-1'' demo_jobs_world = (Inr (), s') \<and>
     required_job ''exp-1'' (jw_db (sys_world s')) = Inr job \<and> terminal (ej_status job)"
proof -
  obtain job where job: "get_job ''exp-1'' (jw_db (sys_world demo_jobs_world)) = Inr (Some job)"
    using demo_job_found by (auto simp: demo_jobs_world_def)
  have "runner_ok (job_stored ''exp-1'') (constant_env [(''status'', VStr ''recovered'')])"
    by (rule constant_env_ok) simp
  from run_job_settles[OF this demo_jobs_stored job] show ?thesis
    by (auto simp: settled_def)
qed

text \<open>
  A job whose attempts all ran out of time is recorded as completed. When the runtime reports
  \<open>interrupted\<close> for every repetition, as it does when its deadline passes, and nobody cancels the job,
  the worker stores the status \<open>completed\<close> although no attempt was successful and none is counted as
  failed.
\<close>

theorem interrupted_attempts_complete:
  fixes s :: "'w jobs_world sys"
  assumes report: "attempt_status report = INTERRUPTED" "dumpable (VDict report)"
    and s: "job_stored i (sys_world s)" "\<not> jw_flag (sys_world s) i"
    and job: "get_job i (jw_db (sys_world s)) = Inr (Some submitted)"
    and source: "rq_incident_source (ej_request submitted) = ''chaos_mesh''"
  shows "\<exists>s' job. run_job (constant_env report) i s = (Inr (), s') \<and>
    required_job i (jw_db (sys_world s')) = Inr job \<and> ej_status job = COMPLETED \<and>
    ej_result job = Some (json_reload (aggregate i COMPLETED (ej_request submitted)
      (replicate (nat (rq_repetitions (ej_request submitted))) report))) \<and>
    \<not> (\<exists>a \<in> set (replicate (nat (rq_repetitions (ej_request submitted))) report).
        attempt_status a \<in> {COMPLETED, FAILED, BLOCKED})"
proof -
  let ?env = "constant_env report :: 'w runner_env"
  let ?n = "nat (rq_repetitions (ej_request submitted))"
  let ?I = "\<lambda>w :: 'w jobs_world. job_stored i w \<and> \<not> jw_flag w i"
  have env: "runner_ok ?I ?env" using report(2) by (rule constant_env_ok)
  have I: "job_invariant i ?I"
    using job_stored_invariant[of i] unfolding job_invariant_def by auto
  have unset: "attains ?I (is_set ?env i) (\<lambda>flag. \<not> flag)"
    unfolding attains_def is_set_def constant_env_def by (auto simp: pbind_def pgets_def intro!: exI[of Not False])
  have run: "attains ?I (run_attempt ?env i r k) (\<lambda>a. a = report)"
    if "rq_incident_source r = ''chaos_mesh''" for r k
    using that by (auto simp: attains_def run_attempt_def prepare_attempt_def constant_env_def pbind_def
        pgets_def preturn_def plift_def job_stored_def)
  have step: "lo_status (after_attempt report l) = lo_status l"
    "lo_attempts (after_attempt report l) = lo_attempts l @ [report]" for l
    using report(1) by (simp_all add: after_attempt_def attempt_status_default Let_def)
  have loop: "attains ?I (run_attempts ?env i r ns l)
      (\<lambda>l'. lo_status l' = COMPLETED \<and> lo_attempts l' = lo_attempts l @ replicate (length ns) report)"
    if "rq_incident_source r = ''chaos_mesh''" "lo_status l = COMPLETED" for r ns l
    using that(2)
  proof (induction ns arbitrary: l)
    case (Cons k ns)
    let ?Q = "\<lambda>l'. lo_status l' = COMPLETED \<and> lo_attempts l' = lo_attempts l @ replicate (length (k # ns)) report"
    have "attains ?I (run_attempts ?env i r ns (after_attempt report l)) ?Q"
      using Cons.IH[of "after_attempt report l"] Cons.prems step by simp
    moreover have "attains ?I (ptry (pbind (run_attempt ?env i r k) (\<lambda>a. preturn (Inr a)))
        (\<lambda>e. pbind (loop_caught ?env i l e) (\<lambda>l'. preturn (Inl l')))) (\<lambda>out. out = Inr report)"
      using run[OF that(1), of k] unfolding attains_def ptry_def pbind_def
      by (fastforce simp: preturn_def)
    ultimately show ?case
      unfolding run_attempts.simps using Cons.prems step
      by (auto intro!: attains_bind[OF unset] attains_bind[of ?I "ptry m h" "\<lambda>out. out = Inr report" for m h])
  qed simp
  have "attains ?I (run_attempts ?env i r [1..<Suc ?n] \<lparr>lo_attempts = [], lo_status = COMPLETED, lo_error = ''''\<rparr>)
      (\<lambda>l. lo_status l = COMPLETED \<and> lo_attempts l = replicate ?n report)"
    if "rq_incident_source r = rq_incident_source (ej_request submitted)" for r
    using loop[of r "\<lparr>lo_attempts = [], lo_status = COMPLETED, lo_error = ''''\<rparr>" "[1..<Suc ?n]"] that source
    by (simp del: upt_Suc)
  from run_job_prefix[OF env I _ job this] s obtain l s1 where
    run: "run_job ?env i s = conclude_job ?env i (ej_request submitted) l s1"
    and l: "lo_status l = COMPLETED" "lo_attempts l = replicate ?n report" "?I (sys_world s1)"
    by blast
  have "loop_ok ?n l" using l report by (simp add: loop_ok_def del: dumpable.simps)
  from conclude_job_records[OF env I l(3) unset this, of "ej_request submitted"] run l(1,2) report(1)
  show ?thesis by (fastforce simp: final_status_def)
qed

theorem interrupted_attempts_complete_witness:
  "\<exists>s' job. run_job (constant_env [(''status'', VStr ''interrupted'')]) ''exp-1'' demo_jobs_world = (Inr (), s') \<and>
     required_job ''exp-1'' (jw_db (sys_world s')) = Inr job \<and> ej_status job = COMPLETED"
proof -
  obtain job where job: "get_job ''exp-1'' (jw_db (sys_world demo_jobs_world)) = Inr (Some job)"
    "rq_incident_source (ej_request job) = ''chaos_mesh''"
    using demo_job_found by (auto simp: demo_jobs_world_def)
  have "attempt_status [(''status'', VStr ''interrupted'')] = INTERRUPTED" by code_simp
  from interrupted_attempts_complete[OF this _ demo_jobs_stored _ job(1,2)]
  show ?thesis by (auto simp: demo_jobs_world_def)
qed

end
