(* ===== verification/RuntimeGuarantees.thy ===== *)
theory RuntimeGuarantees
  imports RuntimeSafety JobRunner
begin

text \<open>
  What the experiment runtime guarantees with the Chaos Mesh adapter as its fault provider, and inside
  a job of the job runner.
\<close>

section \<open>Faults\<close>

text \<open>The runtime that the factory builds around the adapter.\<close>

definition with_chaos_mesh :: "'w chaos_env \<Rightarrow> chaos_adapter \<Rightarrow> 'w runtime_env \<Rightarrow> 'w runtime_env" where
  "with_chaos_mesh xe ad env = env\<lparr>xr_preflight := chaos_preflight xe ad,
     xr_preflight_scenario := Some (preflight_scenario xe ad),
     xr_inject := chaos_inject xe ad, xr_cleanup := chaos_mesh_cleanup xe ad\<rparr>"

text \<open>
  The promises of the surroundings: the sink and the clock, and programs that leave faults alone and the
  numbering of events to the bridge.
\<close>

definition well_behaved :: "'w runtime_env \<Rightarrow> 'w run_target \<Rightarrow> bool" where
  "well_behaved env tg \<longleftrightarrow> live_target env tg \<and> quiet_env env \<and>
     (\<forall>r. returns (coordinator_keeps (\<lambda>_. True)) (xr_factory env r))"

lemma call_keeps_True [simp]: "call_keeps (\<lambda>_. True) f"
  by (simp add: call_keeps_def)

lemma env_keeps_True: "(\<forall>r. returns (coordinator_keeps (\<lambda>_. True)) (xr_factory env r)) \<Longrightarrow> env_keeps (\<lambda>_. True) env"
  by (auto simp: env_keeps_def keeps_def store_keeps_def intro!: ensuresI)

lemma well_behaved_chaos_mesh:
  assumes "well_behaved env tg"
  shows "live_target (with_chaos_mesh xe ad env) tg" "quiet_env (with_chaos_mesh xe ad env)"
    "env_keeps (\<lambda>_. True) (with_chaos_mesh xe ad env)"
    "chaos_mesh.provides xe ad (with_chaos_mesh xe ad env)"
  using assms
  by (simp_all add: well_behaved_def with_chaos_mesh_def live_target_def quiet_env_def env_keeps_True
      chaos_mesh.provides_def)

text \<open>
  C14. In well-behaved surroundings a run leaves no fault behind: the event sink returns for every event
  and runs no \<open>kubectl apply\<close> or \<open>delete\<close>; the experiment id and the clock's texts are not blank; the
  coordinator, its factory, the admission check, the locks, the sample reader and the session writer run
  no \<open>kubectl apply\<close> or \<open>delete\<close>, release no lock beside the run's own exit, and leave the numbering of
  events to the bridge. Then, whatever the request, the outcomes of commands, the manifests, cancellation
  and what the coordinator otherwise does, in every run with the Chaos Mesh adapter at most one fault is
  active at a time, only an active fault is deleted, the target's lock is not left while one is active,
  and when the run returns or raises, every fault that was applied has been deleted (its
  \<open>kubectl delete\<close> was run). The sink's promise is needed: the source cleans up after it has sent an
  event, so a sink that raises there leaves the fault.
\<close>

theorem runtime_cleans_up:
  assumes "well_behaved env tg" and "runtime_run (with_chaos_mesh xe ad env) tg r s = (out, s')"
  shows "\<exists>new. sys_trace s' = new @ sys_trace s \<and> follow fault_step None (rev new) = Some None"
  using chaos_mesh.run_reaches[OF well_behaved_chaos_mesh(1,2,4,3)[OF assms(1)] assms(2)]
  by (auto simp: reaches_def)

text \<open>A coordinator that reports at once, in surroundings that always work.\<close>

definition still_coordinator :: "string \<Rightarrow> 'w coordinator_object" where
  "still_coordinator mode = \<lparr>cj_mode = Some mode, cj_backend = None, cj_event_store = None,
     cj_run = (\<lambda>check timeouts append ns dep metric threshold. preturn [(''final_status'', VStr ''recovered'')]),
     cj_transcripts = (\<lambda>w. ([], w))\<rparr>"

definition demo_runtime_configuration :: RuntimeConfiguration where
  "demo_runtime_configuration = \<lparr>rc_allowed_namespaces = [''shop''], rc_allowed_deployments = [''cart''],
     rc_scenarios = [(''pod-kill'', \<lparr>sg_scenario_id = ''pod-kill'', sg_namespace = Some ''shop'',
       sg_deployment = Some ''cart'', sg_metric = Some ''latency'', sg_threshold = Some (FFin 1),
       sg_manifest = ''k8s/pod-kill.yaml'', sg_incident_source = ''chaos_mesh'', sg_benchmark_id = ''''\<rparr>)],
     rc_metric_queries = [''latency''], rc_experiment_seconds = FFin 60\<rparr>"

definition demo_runtime_env :: "'w runtime_env" where
  "demo_runtime_env = \<lparr>xr_configuration = demo_runtime_configuration,
     xr_preflight = preturn (chaos_preflight_result True '''' ''''), xr_preflight_scenario = None,
     xr_inject = (\<lambda>i. pthrow (KeyError i)), xr_cleanup = (\<lambda>ap. preturn None),
     xr_factory = (\<lambda>r. preturn (still_coordinator (mode_value (rq_mode r)))),
     xr_admit = (\<lambda>c r. preturn (Some [])), xr_store = None, xr_cancelled = (\<lambda>w. (False, w)),
     xr_clock = (\<lambda>w. (FFin 0, w)), xr_now = (\<lambda>w. (''now'', w)),
     xr_lock_enter = (\<lambda>ns dep. preturn ()), xr_lock_exit = (\<lambda>ns dep. preturn ()), xr_put_session = None,
     xr_policy = demo_policy, xr_samples_path = '''', xr_read_samples = (\<lambda>path. preturn []),
     xr_loads = (\<lambda>line. Inl (ValueError line))\<rparr>"

definition demo_target :: "'w run_target" where
  "demo_target = \<lparr>rt_sink = (\<lambda>e. preturn ()), rt_id = ''exp-1''\<rparr>"

definition demo_chaos_env :: "'w chaos_env" where
  "demo_chaos_env = \<lparr>xe_read_text = (\<lambda>p w. (Inr ''kind: PodChaos'', w)), xe_is_file = (\<lambda>p w. (Inr True, w)),
     xe_run = (\<lambda>argv t w. (Finished 0 ''podchaos'' '''', w)), xe_now = (\<lambda>w. (''now'', w)),
     xe_sleep = (\<lambda>w. (Inr (), w))\<rparr>"

definition demo_adapter :: chaos_adapter where
  "demo_adapter = \<lparr>ad_scenarios = [(''pod-kill'', \<lparr>sc_scenario_id = ''pod-kill'',
       sc_manifest = [''repo'', ''k8s'', ''pod-kill.yaml''], sc_kind = ''''\<rparr>)],
     ad_manifest_root = [''repo'', ''k8s''], ad_wait_timeout = 30, ad_command_timeout = 10\<rparr>"

lemma demo_well_behaved: "well_behaved demo_runtime_env demo_target"
proof -
  have "strip ''exp-1'' = ''exp-1''" "strip ''now'' = ''now''" by code_simp+
  then show ?thesis
    by (auto simp: well_behaved_def live_target_def quiet_env_def demo_runtime_env_def demo_target_def
        still_coordinator_def quiet_coordinator_def coordinator_keeps_def delivers_def returns_def
        intro: prog_rules keep_rules)
qed

theorem runtime_cleans_up_witness:
  "\<exists>new. sys_trace (snd (runtime_run (with_chaos_mesh demo_chaos_env demo_adapter demo_runtime_env) demo_target
       (demo_request\<lparr>rq_mode := REAL\<rparr>) \<lparr>sys_world = (), sys_trace = []\<rparr>)) = new \<and>
     follow fault_step None (rev new) = Some None"
  using runtime_cleans_up[OF demo_well_behaved prod.collapse[symmetric], of demo_chaos_env demo_adapter
      "demo_request\<lparr>rq_mode := REAL\<rparr>" "\<lparr>sys_world = (), sys_trace = []\<rparr>"] by simp

lemma vget_dict_update_pair:
  "vget (dict_update d [(a, x), (b, y)]) k = (if k = b then y else if k = a then x else vget d k)"
  by (simp add: dict_update_def vget_def)

text \<open>
  C18. A successful cleanup is reported as failed. The runtime only accepts a mapping from the adapter's
  cleanup, and the Chaos Mesh adapter returns a data class: with a live sink, whenever a fault was
  injected and whatever \<open>kubectl delete\<close> answers, the cleanup phase ends with an invalid cleanup, a
  cleanup error in the report, and the experiment marked for human review.
\<close>

theorem cleanup_reported_failed:
  assumes "live_target env tg" "0 \<le> br_sequence (sys_world s)" "lv_application l = Some ap"
  shows "\<exists>cleanup report s'. cleanup_phase (with_chaos_mesh xe ad env) tg l s = (Inr (cleanup, report), s') \<and>
    vget cleanup ''valid'' = VBool False \<and> vget report ''human_review_required'' = VBool True \<and>
    (\<exists>m. vget report ''cleanup_error'' = VStr m)"
proof -
  have "live_target (with_chaos_mesh xe ad env) tg"
    using assms(1) by (simp add: live_target_def with_chaos_mesh_def)
  from emit_cleanup_returns[OF this assms(2)] obtain t where
    announce: "bridge_emit (with_chaos_mesh xe ad env) tg CLEANUP ''cleaning up registered fault'' [] s = (Inr (), t)"
    by blast
  obtain r u where clean: "chaos_cleanup xe ad ap \<lparr>sys_world = br_rest (sys_world t), sys_trace = sys_trace t\<rparr> = (r, u)"
    by fastforce
  show ?thesis
    using assms(3) announce clean
    by (cases r) (simp_all add: cleanup_phase_def pbind_def ptry_def outer_def with_chaos_mesh_def
        chaos_mesh_cleanup_def preturn_def Let_def invalid_cleanup_def cleanup_failed_def vget_dict_update_pair
        vget_Cons)
qed

theorem cleanup_reported_failed_witness:
  "\<exists>cleanup report s'. cleanup_phase (with_chaos_mesh demo_chaos_env demo_adapter demo_runtime_env) demo_target
       \<lparr>lv_report = [(''final_status'', VStr ''recovered'')], lv_application = Some \<lparr>ap_scenario =
          \<lparr>sc_scenario_id = ''pod-kill'', sc_manifest = [''repo'', ''k8s'', ''pod-kill.yaml''], sc_kind = ''PodChaos''\<rparr>,
          ap_applied_at = ''now'', ap_valid = True, ap_stdout = '''', ap_stderr = '''', ap_cleanup_required = True\<rparr>,
        lv_status = ''recovered'', lv_locked = True\<rparr>
       \<lparr>sys_world = \<lparr>br_sequence = 4, br_events = [], br_store = None, br_rest = ()\<rparr>, sys_trace = []\<rparr> =
       (Inr (cleanup, report), s') \<and> vget report ''human_review_required'' = VBool True"
proof -
  have "live_target (demo_runtime_env :: unit runtime_env) demo_target" using demo_well_behaved
    unfolding well_behaved_def by blast
  from cleanup_reported_failed[OF this, of "\<lparr>sys_world = \<lparr>br_sequence = 4, br_events = [], br_store = None,
      br_rest = ()\<rparr>, sys_trace = []\<rparr>" "\<lparr>lv_report = [(''final_status'', VStr ''recovered'')],
        lv_application = Some \<lparr>ap_scenario =
          \<lparr>sc_scenario_id = ''pod-kill'', sc_manifest = [''repo'', ''k8s'', ''pod-kill.yaml''], sc_kind = ''PodChaos''\<rparr>,
          ap_applied_at = ''now'', ap_valid = True, ap_stdout = '''', ap_stderr = '''', ap_cleanup_required = True\<rparr>,
        lv_status = ''recovered'', lv_locked = True\<rparr>" _ demo_chaos_env demo_adapter]
  show ?thesis by (fastforce simp del: dict_update_def)
qed

section \<open>Requests without a fault\<close>

lemma pbind_cong_returns:
  assumes "returns P m" and "\<And>x. P x \<Longrightarrow> f x = g x"
  shows "pbind m f = pbind m g"
  using assms by (auto simp: pbind_def returns_def fun_eq_iff split: prod.split sum.split)

lemma returns_try_step:
  assumes "\<And>e. Q (Some e, l)" and "\<And>x. returns Q (f x)"
  shows "returns Q (try_step m l f)"
  unfolding try_step_def
  by (rule returns_pbind_any) (auto intro: returns_preturn assms split: sum.splits)

text \<open>Another fault provider in the same runtime.\<close>

definition with_provider where
  "with_provider preflight scenario inject cleanup env = env\<lparr>xr_preflight := preflight,
     xr_preflight_scenario := scenario, xr_inject := inject, xr_cleanup := cleanup\<rparr>"

lemma with_provider_select [simp]:
  "xr_store (with_provider a b c d env) = xr_store env" "xr_clock (with_provider a b c d env) = xr_clock env"
  "xr_configuration (with_provider a b c d env) = xr_configuration env"
  "xr_now (with_provider a b c d env) = xr_now env"
  "xr_put_session (with_provider a b c d env) = xr_put_session env"
  "xr_cancelled (with_provider a b c d env) = xr_cancelled env"
  "xr_factory (with_provider a b c d env) = xr_factory env"
  "xr_admit (with_provider a b c d env) = xr_admit env"
  "xr_lock_enter (with_provider a b c d env) = xr_lock_enter env"
  "xr_lock_exit (with_provider a b c d env) = xr_lock_exit env"
  "xr_policy (with_provider a b c d env) = xr_policy env"
  "xr_samples_path (with_provider a b c d env) = xr_samples_path env"
  "xr_read_samples (with_provider a b c d env) = xr_read_samples env"
  "xr_loads (with_provider a b c d env) = xr_loads env"
  by (simp_all add: with_provider_def)

lemma bridge_provider [simp]: "bridge_emit (with_provider a b c d env) = bridge_emit env"
  by (simp add: bridge_emit_def fun_eq_iff)

lemma with_provider_simps [simp]:
  "bridge_append (with_provider a b c d env) = bridge_append env"
  "control_check (with_provider a b c d env) = control_check env"
  "attach_advice (with_provider a b c d env) = attach_advice env"
  "admit (with_provider a b c d env) = admit env"
  "lock_enter (with_provider a b c d env) = lock_enter env"
  "lock_exit (with_provider a b c d env) = lock_exit env"
  by (simp_all add: bridge_append_def control_check_def attach_advice_def admit_def lock_enter_def
      lock_exit_def fun_eq_iff Let_def cong: if_cong option.case_cong)

lemma emit_stages_provider [simp]:
  "emit_stages (with_provider a b c d env) tg report status stages = emit_stages env tg report status stages"
  by (induction env tg report status stages rule: emit_stages.induct) simp_all

lemma coordinate_phase_provider [simp]:
  "coordinate_phase (with_provider a b c d env) = coordinate_phase env"
  by (simp add: coordinate_phase_def coordinate_def fun_eq_iff Let_def cong: if_cong option.case_cong)

lemma finish_run_provider [simp]: "finish_run (with_provider a b c d env) = finish_run env"
  by (simp add: finish_run_def evaluate_report_def fun_eq_iff Let_def cong: if_cong option.case_cong)

lemma no_application:
  assumes "\<not> (rq_mode r = REAL \<and> rq_incident_source r = ''chaos_mesh'')" "lv_application l = None"
  shows "returns (\<lambda>(e, l'). lv_application l' = None) (run_body env tg check r l)"
proof -
  have "returns (\<lambda>(e, l'). lv_application l' = None) (coordinate_phase env tg check r c timeouts l)"
    if "lv_application l = None" for c timeouts l
    unfolding coordinate_phase_def Let_def
    by (intro returns_try_step returns_pbind_any returns_preturn) (simp_all add: that)
  then show ?thesis
    using assms unfolding run_body_def fault_phase_def Let_def
    by (auto intro!: returns_try_step)
qed

text \<open>
  Only a real Chaos Mesh experiment uses the fault provider. For a request in any other mode or from
  another incident source, a run does the same, effect for effect and value for value, whatever preflight,
  injection and cleanup the runtime holds.
\<close>

theorem other_runs_ignore_faults:
  assumes "rq_mode r \<noteq> REAL \<or> rq_incident_source r \<noteq> ''chaos_mesh''"
  shows "runtime_run (with_provider preflight scenario inject cleanup env) tg r = runtime_run env tg r"
proof -
  let ?env = "with_provider preflight scenario inject cleanup env"
  have body: "run_body ?env tg check r l = run_body env tg check r l" for check l
    using assms by (auto simp: run_body_def fault_phase_def)
  have exits: "pbind (run_body env tg check r l) (\<lambda>e. run_exits ?env tg r (after_body e)) =
      pbind (run_body env tg check r l) (\<lambda>e. run_exits env tg r (after_body e))"
    if "lv_application l = None" for check l
  proof (rule pbind_cong_returns)
    show "returns (\<lambda>(e, l'). lv_application l' = None) (run_body env tg check r l)"
      using assms that by (intro no_application) auto
    fix e :: body_end assume "case e of (e, l') \<Rightarrow> lv_application l' = None"
    then have "lv_application (after_body e) = None" by (cases e; cases "fst e") auto
    then show "run_exits ?env tg r (after_body e) = run_exits env tg r (after_body e)"
      by (simp add: run_exits_def cleanup_phase_def)
  qed
  show ?thesis by (simp add: runtime_run_def body exits Let_def)
qed

theorem other_runs_ignore_faults_witness:
  "runtime_run (with_provider (preturn (chaos_preflight_result False '''' '''')) None (\<lambda>i. pthrow (KeyError i))
      (\<lambda>ap. preturn None) demo_runtime_env) demo_target demo_request =
   runtime_run demo_runtime_env demo_target demo_request \<and> rq_mode demo_request = DRY_RUN"
  using other_runs_ignore_faults[of demo_request "preturn (chaos_preflight_result False '''' '''')" None
      "\<lambda>i. pthrow (KeyError i)" "\<lambda>ap. preturn None" demo_runtime_env demo_target]
  by (simp add: demo_request_def)

section \<open>Requests that are not registered\<close>

text \<open>What an operator registers: the target, and all that a scenario binds.\<close>

definition registered_request :: "RuntimeConfiguration \<Rightarrow> ExperimentRuntimeRequest \<Rightarrow> bool" where
  "registered_request conf r \<longleftrightarrow>
     rq_namespace r \<in> set (rc_allowed_namespaces conf) \<and> rq_deployment r \<in> set (rc_allowed_deployments conf) \<and>
     rq_metric r \<in> set (rc_metric_queries conf) \<and>
     (case dict_get (rc_scenarios conf) (rq_scenario_id r) of
        None \<Rightarrow> False
      | Some sg \<Rightarrow> rq_incident_source r = sg_incident_source sg \<and> rq_benchmark_id r = sg_benchmark_id sg \<and>
          sg_namespace sg = Some (rq_namespace r) \<and> sg_deployment sg = Some (rq_deployment r) \<and>
          sg_metric sg = Some (rq_metric r) \<and>
          (case sg_threshold sg of None \<Rightarrow> False | Some t \<Rightarrow> feq (rq_threshold r) t))"

lemma validate_binding_field_cases:
  "(validate_binding_field i name same expected actual = Inr ()) =
     (case expected of None \<Rightarrow> False | Some v \<Rightarrow> same actual v)"
  "validate_binding_field i name same expected actual = Inl e \<Longrightarrow> \<exists>m. e = BlockedRequest m"
  by (auto simp: validate_binding_field_def blocked_unless_def raise_if_def split: option.splits if_splits)

lemma blocked_unless_cases:
  "(blocked_unless c m = Inr ()) = c" "blocked_unless c m = Inl e \<Longrightarrow> e = BlockedRequest m"
  by (auto simp: blocked_unless_def raise_if_def split: if_splits)

lemma validate_request_registered: "validate_request conf r = Inr () \<longleftrightarrow> registered_request conf r"
  unfolding validate_request_def registered_request_def
  by (auto simp: blocked_unless_cases validate_binding_field_cases split: option.splits)

lemma validate_request_blocks:
  assumes "\<not> registered_request conf r"
  shows "\<exists>m. validate_request conf r = Inl (BlockedRequest m)"
proof (cases "validate_request conf r")
  case (Inl e)
  then show ?thesis
    by (fastforce simp: validate_request_def rbind_Inl_iff split: option.splits
        dest: blocked_unless_cases(2) validate_binding_field_cases(2))
qed (use assms validate_request_registered[of conf r] in auto)

lemma preturn_bind [simp]: "pbind (preturn x) f = f x"
  by (rule ext) (simp add: pbind_def preturn_def)

lemma returns_with_bridge: "returns Q m \<Longrightarrow> returns Q (with_bridge store m)"
  by (auto simp: returns_def with_bridge_run)

lemma advice_keeps_key:
  assumes "vget report k = v"
    "k \<notin> {''action_policy'', ''action_policy_samples'', ''action_policy_recommendation'', ''action_policy_error''}"
  shows "returns (\<lambda>report. vget report k = v) (attach_advice env r report)"
  using assms unfolding attach_advice_def Let_def
  by (auto intro!: returns_preturn returns_pbind_any simp: dict_update_def vget_def split: sum.split)

lemma initial_report_keys:
  "initial_report i r = Inr report \<Longrightarrow> vget report ''cleanup_error'' = VNone"
  by (auto simp: initial_report_def copy_context_def run_fields_def raise_if_def vget_def
      split: if_splits)

lemma finish_run_status: "returns (\<lambda>res. exr_status res = strip status) (finish_run env tg r report status cleanup)"
  unfolding finish_run_def Let_def case_prod_beta
  by (intro returns_pbind_any) (auto simp: returns_def make_result_def split: if_splits)

text \<open>
  C15. A request that is not registered stops at the admission. Unless the namespace, the deployment and
  the metric are allowlisted and the scenario is registered and binds exactly what the request asks for,
  a run only writes its report: the coordinator is not built, no lock is taken, no fault provider and no
  coordinator program runs; and the result has the status \<open>blocked\<close>.
\<close>

theorem unregistered_runs_stop:
  fixes env :: "'w runtime_env"
  assumes "\<not> registered_request (xr_configuration env) r"
  shows "(\<exists>m. runtime_run env tg r =
    pbind (plift (initial_report (rt_id tg) r)) (\<lambda>report.
    pbind (attach_advice env r report) (\<lambda>report.
    pbind (pgets (xr_clock env)) (\<lambda>_.
    with_bridge (xr_store env) (finish_run env tg r
      (dict_update report [(''error'', VStr m), (''final_status'', VStr ''blocked'')]) ''blocked'' []))))) \<and>
    returns (\<lambda>res. exr_status res = ''blocked'') (runtime_run env tg r)" (is "(\<exists>m. _ = ?stopped m) \<and> _")
proof -
  from validate_request_blocks[OF assms] obtain m where m: "validate_request (xr_configuration env) r = Inl (BlockedRequest m)"
    by blast
  have stop: "try_step (outer (admit env r)) l f = preturn (Some (BlockedRequest m), l)" for l and f :: "_ \<Rightarrow> ('w bridge, body_end) prog"
    by (simp add: admit_def m try_step_def outer_def pbind_def ptry_def preturn_def pthrow_def fun_eq_iff)
  have exits: "run_exits env tg r \<lparr>lv_report = dict_update report [(''error'', VStr m), (''final_status'', VStr ''blocked'')],
        lv_application = None, lv_status = ''blocked'', lv_locked = False\<rparr> =
      finish_run env tg r (dict_update report [(''error'', VStr m), (''final_status'', VStr ''blocked'')]) ''blocked'' []"
    if "vget report ''cleanup_error'' = VNone" for report
    using that by (simp add: run_exits_def cleanup_phase_def vget_dict_update_pair Let_def)
      (simp add: dict_update_def vget_default_def)
  have stopped: "runtime_run env tg r = ?stopped m"
  proof (cases "initial_report (rt_id tg) r")
    case (Inr report)
    show ?thesis
      unfolding runtime_run_def Inr plift_Inr_bind
      by (rule pbind_cong_returns[OF advice_keeps_key[OF initial_report_keys[OF Inr]]])
        (simp_all add: run_body_def stop exits Let_def)
  qed (simp add: runtime_run_def)
  have "strip ''blocked'' = ''blocked''" by code_simp
  then have "returns (\<lambda>res. exr_status res = ''blocked'') (?stopped m)"
    using finish_run_status[of "''blocked''"] by (intro returns_pbind_any returns_with_bridge) simp
  with stopped show ?thesis by metis
qed

theorem unregistered_runs_stop_witness:
  "returns (\<lambda>res. exr_status res = ''blocked'') (runtime_run (demo_runtime_env :: unit runtime_env) demo_target
     (demo_request\<lparr>rq_namespace := ''kube-system''\<rparr>))"
proof -
  have "\<not> registered_request (xr_configuration (demo_runtime_env :: unit runtime_env))
      (demo_request\<lparr>rq_namespace := ''kube-system''\<rparr>)"
    by (simp add: registered_request_def demo_runtime_env_def demo_runtime_configuration_def)
  from unregistered_runs_stop[OF this] show ?thesis by blast
qed

section \<open>Experiments inside jobs\<close>

text \<open>\<open>json_safe\<close> is what a value must pass to be stored.\<close>

lemma rmap_all: "rmap f xs = Inr ys \<Longrightarrow> (\<And>x y. x \<in> set xs \<Longrightarrow> f x = Inr y \<Longrightarrow> P y) \<Longrightarrow> list_all P ys"
  by (induction xs arbitrary: ys) (auto; blast)+

lemma json_safe_dumpable: "json_safe v = Inr w \<Longrightarrow> dumpable w"
proof (induction v arbitrary: w rule: json_safe.induct)
  case (3 kvs)
  then obtain ws where ws: "rmap (\<lambda>(k, v). rbind (json_safe v) (\<lambda>w. Inr (k, w))) kvs = Inr ws" "w = VDict ws"
    by auto
  from ws(1) have "list_all (\<lambda>(k, v). dumpable v) ws"
    by (rule rmap_all) (use 3 in auto)
  with ws show ?case by simp
qed (auto dest!: rmap_all[where P = dumpable] split: if_splits)

text \<open>The runtime that a job attempt builds and runs; a mapping is what its \<open>to_dict\<close> gives.\<close>

definition job_runtime ::
  "(ExperimentRuntimeRequest \<Rightarrow> 'w jobs_world runtime_env) \<Rightarrow> 'w jobs_world event_sink \<Rightarrow> string \<Rightarrow>
   ExperimentRuntimeRequest \<Rightarrow> ('w jobs_world, runtime_result) prog" where
  "job_runtime envs sink attempt_id r =
     pbind (runtime_run (envs r) \<lparr>rt_sink = sink, rt_id = attempt_id\<rparr> r) (\<lambda>res.
     preturn (ToDict (result_to_dict res)))"

lemma result_to_dict_dumpable:
  assumes "result_dict (ToDict (result_to_dict res)) = Inr kvs"
  shows "dumpable (VDict kvs)"
proof -
  from assms have "result_to_dict res = Inr (VDict kvs)"
    by (cases "ToDict (result_to_dict res)" rule: result_dict.cases) auto
  then show ?thesis by (auto simp: result_to_dict_def simp del: dumpable.simps json_safe.simps intro: json_safe_dumpable)
qed

lemma job_runtime_ok:
  assumes "\<And>r. env_keeps I (envs r)"
  shows "runtime_ok I (job_runtime envs)"
  unfolding runtime_ok_def job_runtime_def
  by (intro allI impI ensures_bind[OF ensures_any[OF runtime_run_keeps[OF assms]]] ensures_preturn)
    (auto simp: target_keeps_def simp del: dumpable.simps result_dict.simps intro: result_to_dict_dumpable)

text \<open>
  A job that runs experiments is settled. With the experiment runtime as the code of each attempt,
  in surroundings that reach the job's record only through the store, the worker of a stored job returns
  and the job has a final status, a finishing time and a result that aggregates at most the requested
  attempts, each the serialised result of an experiment; it is \<open>completed\<close> only if all were
  attempted.
\<close>

theorem experiment_job_settles:
  assumes runtime: "rn_runtime env = job_runtime envs" "\<And>r. env_keeps (job_stored i) (envs r)"
    and calls: "call_keeps (job_stored i) (rn_now env)" "call_keeps (job_stored i) (rn_others env)"
    and prepare: "\<And>prepare. rn_prepare env = Some prepare \<Longrightarrow> prepare_ok (job_stored i) prepare"
    and s: "job_stored i (sys_world s)"
    and job: "get_job i (jw_db (sys_world s)) = Inr (Some submitted)"
  shows "\<exists>s' job. run_job env i s = (Inr (), s') \<and> i \<notin> set (jw_registered (sys_world s')) \<and>
    required_job i (jw_db (sys_world s')) = Inr job \<and> settled i (ej_request submitted) job"
proof -
  have env: "runner_ok (job_stored i) env"
    unfolding runner_ok_def runtime(1) using calls prepare job_runtime_ok[of "job_stored i" envs] runtime(2) by blast
  let ?n = "nat (rq_repetitions (ej_request submitted))"
  have "attains (job_stored i) (run_attempts env i r [1..<Suc ?n]
      \<lparr>lo_attempts = [], lo_status = COMPLETED, lo_error = ''''\<rparr>) (loop_ok ?n)" for r
    using run_attempts_attains[OF env job_stored_invariant, of 0 _ r "[1..<Suc ?n]"]
    by (simp add: loop_ok_def del: upt_Suc)
  from run_job_prefix[OF env job_stored_invariant s job this] obtain l s1 where
    "run_job env i s = conclude_job env i (ej_request submitted) l s1" "loop_ok ?n l" "job_stored i (sys_world s1)"
    by blast
  with conclude_job_settles[OF env job_stored_invariant] show ?thesis by metis
qed

lemma still_coordinator_keeps: "coordinator_keeps J (still_coordinator mode)"
  by (simp add: coordinator_keeps_def still_coordinator_def call_keeps_def keeps_preturn)

definition demo_runner_env :: "unit runner_env" where
  "demo_runner_env = (constant_env [])\<lparr>rn_runtime := job_runtime (\<lambda>r. demo_runtime_env)\<rparr>"

theorem experiment_job_settles_witness:
  "\<exists>s' job. run_job demo_runner_env ''exp-1'' demo_jobs_world = (Inr (), s') \<and>
     required_job ''exp-1'' (jw_db (sys_world s')) = Inr job \<and> terminal (ej_status job)"
proof -
  obtain job where job: "get_job ''exp-1'' (jw_db (sys_world demo_jobs_world)) = Inr (Some job)"
    using demo_job_found by (auto simp: demo_jobs_world_def)
  have "env_keeps (job_stored ''exp-1'') demo_runtime_env"
    by (auto simp: env_keeps_def demo_runtime_env_def store_keeps_def call_keeps_def still_coordinator_keeps
        intro!: keep_rules)
  from experiment_job_settles[OF _ this _ _ _ demo_jobs_stored job, of demo_runner_env]
  show ?thesis
    by (auto simp: settled_def demo_runner_env_def constant_env_def call_keeps_def)
qed

end
