(* ===== verification/Agents.thy ===== *)
theory Agents
  imports ActionPolicy Executor
begin

text \<open>
  The deterministic agents: \<open>ha_agent.py\<close> (diagnosis), \<open>application_agent.py\<close> (proposals),
  \<open>infra_agent.py\<close> and \<open>cost_agent.py\<close> (reviews of replica counts), \<open>executor_agent.py\<close>, and the
  decision they share (\<open>agent_decision.py\<close>). The decision policy is that of \<open>ActionPolicy\<close>. Replica
  counts are taken to be in the range of binary64 where the scores multiply them.
\<close>

record AlertEvent =
  al_namespace :: string
  al_service :: string
  al_metric :: string
  al_value :: pyfloat
  al_threshold :: pyfloat
  al_message :: string

record AgentDecision =
  dn_agent :: string
  dn_action :: string
  dn_reward :: pyfloat
  dn_approved :: bool
  dn_reason :: string
  dn_parameters :: "(string \<times> string) list"

text \<open>\<open>EvidenceSnapshot.to_summary\<close>, which is \<open>asdict\<close>.\<close>

definition evidence_summary :: "EvidenceSnapshot \<Rightarrow> payload" where
  "evidence_summary e =
     [(''namespace'', VStr (ev_namespace e)), (''deployment'', VStr (ev_deployment e)),
      (''metric_values'', VDict (map (\<lambda>(k, x). (k, VFloat x)) (ev_metric_values e))),
      (''desired_replicas'', VInt (ev_desired_replicas e)),
      (''available_replicas'', VInt (ev_available_replicas e)),
      (''restart_count'', VInt (ev_restart_count e)),
      (''pod_statuses'', VTuple (map VStr (ev_pod_statuses e))),
      (''pod_identities'', VTuple (map VStr (ev_pod_identities e))),
      (''events'', VTuple (map VStr (ev_events e))),
      (''latency_ms'', opt_json VFloat (ev_latency_ms e)), (''error_rate'', opt_json VFloat (ev_error_rate e)),
      (''log_summary'', VStr (ev_log_summary e)), (''source'', VStr (ev_source e))]"

section \<open>The HA support agent\<close>

record AIServiceHASupportAgent =
  hg_name :: string
  hg_policy :: AgentDecisionPolicy

definition normalize_metric :: "string \<Rightarrow> string" where
  "normalize_metric metric = replace_char CHR ''-'' CHR ''_'' (lower (strip metric))"

definition normalized_name :: "MetricPolicy option \<Rightarrow> string \<Rightarrow> string" where
  "normalized_name p metric = (case p of Some mp \<Rightarrow> mp_canonical_name mp | None \<Rightarrow> normalize_metric metric)"

definition direction_of :: "MetricPolicy option \<Rightarrow> string" where
  "direction_of p = (case p of Some mp \<Rightarrow> mp_signal_direction mp | None \<Rightarrow> ''unknown'')"

definition comparison_text :: "pyfloat \<Rightarrow> pyfloat \<Rightarrow> MetricPolicy option \<Rightarrow> string" where
  "comparison_text v threshold p =
     fmt_fixed 3 v @ '' '' @
     (if direction_of p = ''low_is_bad'' then (if fle v threshold then ''<='' else ''>'')
      else (if fle threshold v then ''>='' else ''<'')) @ '' '' @ fmt_fixed 3 threshold"

definition exceeds :: "MetricPolicy option \<Rightarrow> pyfloat \<Rightarrow> pyfloat \<Rightarrow> bool" where
  "exceeds p v threshold = (case p of Some mp \<Rightarrow> threshold_exceeded mp v threshold | None \<Rightarrow> False)"

definition score_of :: "MetricPolicy option \<Rightarrow> pyfloat \<Rightarrow> pyfloat \<Rightarrow> pyfloat" where
  "score_of p v threshold = (case p of Some mp \<Rightarrow> severity_score mp v threshold | None \<Rightarrow> FFin 0)"

definition alert_evidence :: "AIServiceHASupportAgent \<Rightarrow> AlertEvent \<Rightarrow> payload" where
  "alert_evidence g alert =
     (let p = metric_policy_for (hg_policy g) (al_metric alert);
          v = al_value alert; threshold = al_threshold alert in
      [(''raw_metric'', VStr (al_metric alert)),
       (''normalized_metric'', VStr (normalized_name p (al_metric alert))),
       (''value'', VFloat v), (''threshold'', VFloat threshold),
       (''threshold_exceeded'', VBool (exceeds p v threshold)),
       (''signal_direction'', VStr (direction_of p)),
       (''comparison'', VStr (comparison_text v threshold p)),
       (''severity_score'', VFloat (score_of p v threshold))])"

definition ha_diagnose :: "AIServiceHASupportAgent \<Rightarrow> AlertEvent \<Rightarrow> Diagnosis \<times> AgentDecision" where
  "ha_diagnose g alert =
     (let pol = hg_policy g; p = metric_policy_for pol (al_metric alert);
          v = al_value alert; threshold = al_threshold alert;
          metric = normalized_name p (al_metric alert); evidence = alert_evidence g alert;
          calm = (\<lparr>dg_service = VStr (al_service alert), dg_cause = ''no_action_required'',
               dg_severity = ''info'', dg_confidence = VFloat (lit (8 / 10)), dg_evidence = evidence\<rparr>,
             \<lparr>dn_agent = hg_name g, dn_action = ''ha_no_action'',
              dn_reward = reward_for pol ''ha_no_action'' (lit (20 / 100)), dn_approved = False,
              dn_reason = al_service alert @ '' does not need an HA recovery action now.'',
              dn_parameters = []\<rparr>)
      in case p of
           None \<Rightarrow> calm
         | Some mp \<Rightarrow>
             if \<not> threshold_exceeded mp v threshold then calm
             else
               (let severity = severity_label mp v threshold; cause = mp_cause mp;
                    preferred = preferred_action_for pol cause in
                (\<lparr>dg_service = VStr (al_service alert), dg_cause = cause, dg_severity = severity,
                  dg_confidence = VFloat (lit (95 / 100)), dg_evidence = evidence\<rparr>,
                 \<lparr>dn_agent = hg_name g,
                  dn_action = (if preferred = ''scale_out'' then ''ha_scale_out_required''
                    else ''ha_recovery_required''),
                  dn_reward = reward_for pol ''ha_recovery_required'' (lit (90 / 100)), dn_approved = True,
                  dn_reason = al_service alert @ '' '' @ metric @ '' value='' @ fmt_fixed 1 v @
                    '' threshold='' @ fmt_fixed 1 threshold @ ''; cause='' @ cause @ '' severity='' @
                    severity @ ''; preferred_action='' @ preferred @ ''.'',
                  dn_parameters =
                    [(''metric'', metric), (''cause'', cause), (''severity'', severity),
                     (''severity_score'', fmt_fixed 3 (score_of p v threshold)),
                     (''signal_direction'', mp_signal_direction mp), (''preferred_action'', preferred)]\<rparr>)))"

definition evidence_metric_value :: "EvidenceSnapshot \<Rightarrow> string \<Rightarrow> MetricPolicy option \<Rightarrow> pyfloat option" where
  "evidence_metric_value e metric p =
     (case List.map_filter (primary_metric_value e)
         (metric # (case p of Some mp \<Rightarrow> mp_aliases mp | None \<Rightarrow> [])) of
        [] \<Rightarrow> None | v # _ \<Rightarrow> Some v)"

text \<open>The variables that \<open>diagnose_evidence\<close> updates in three steps.\<close>

record ha_finding =
  hf_cause :: string
  hf_severity :: string
  hf_confidence :: pyfloat
  hf_root_causes :: "string list"
  hf_preferred :: string

definition metric_finding ::
  "AgentDecisionPolicy \<Rightarrow> MetricPolicy option \<Rightarrow> pyfloat option \<Rightarrow> pyfloat \<Rightarrow> ha_finding" where
  "metric_finding pol p v threshold =
     (let calm = \<lparr>hf_cause = ''no_action_required'', hf_severity = ''info'', hf_confidence = lit (60 / 100),
            hf_root_causes = [], hf_preferred = ''observe_only''\<rparr> in
      case p of
        None \<Rightarrow> calm\<lparr>hf_cause := ''unknown_metric'', hf_confidence := lit (50 / 100),
          hf_preferred := preferred_action_for pol ''unknown_metric'', hf_root_causes := [''unknown_metric'']\<rparr>
      | Some mp \<Rightarrow>
          (case v of
             None \<Rightarrow> calm
           | Some x \<Rightarrow>
               if threshold_exceeded mp x threshold then
                 \<lparr>hf_cause = mp_cause mp, hf_severity = severity_label mp x threshold,
                  hf_confidence = lit (88 / 100), hf_root_causes = [mp_cause mp],
                  hf_preferred = preferred_action_for pol (mp_cause mp)\<rparr>
               else calm))"

definition restart_finding :: "AgentDecisionPolicy \<Rightarrow> EvidenceSnapshot \<Rightarrow> string \<Rightarrow> ha_finding \<Rightarrow> ha_finding" where
  "restart_finding pol e metric f =
     (if 0 < ev_restart_count e then
        (let f = f\<lparr>hf_root_causes := hf_root_causes f @ [''pod_instability'']\<rparr> in
         if metric = ''restart_count'' \<or> hf_cause f = ''no_action_required'' then
           f\<lparr>hf_cause := ''pod_restarts'',
             hf_severity := (if ev_restart_count e \<le> 2 then ''warning'' else ''critical''),
             hf_confidence := fmax (hf_confidence f) (lit (86 / 100)),
             hf_preferred := preferred_action_for pol ''pod_restarts''\<rparr>
         else f)
      else f)"

definition replica_finding :: "AgentDecisionPolicy \<Rightarrow> EvidenceSnapshot \<Rightarrow> ha_finding \<Rightarrow> ha_finding" where
  "replica_finding pol e f =
     (if ev_available_replicas e < ev_desired_replicas e then
        \<lparr>hf_cause = ''low_availability'', hf_severity = ''critical'',
         hf_confidence = fmax (hf_confidence f) (lit (90 / 100)),
         hf_root_causes = hf_root_causes f @ [''low_availability''],
         hf_preferred = preferred_action_for pol ''low_availability''\<rparr>
      else f)"

definition ha_finding_of ::
  "AgentDecisionPolicy \<Rightarrow> EvidenceSnapshot \<Rightarrow> string \<Rightarrow> pyfloat \<Rightarrow> ha_finding" where
  "ha_finding_of pol e metric threshold =
     (let p = metric_policy_for pol metric; name = normalized_name p metric in
      replica_finding pol e (restart_finding pol e name
        (metric_finding pol p (evidence_metric_value e name p) threshold)))"

definition calls_for_recovery :: "string \<Rightarrow> bool" where
  "calls_for_recovery cause = (cause \<noteq> ''no_action_required'' \<and> cause \<noteq> ''unknown_metric'')"

definition diagnosis_reason :: "ha_finding \<Rightarrow> string" where
  "diagnosis_reason f = ''cause='' @ hf_cause f @ ''; severity='' @ hf_severity f @
     ''; preferred_action='' @ hf_preferred f"

definition diagnosis_evidence ::
  "AgentDecisionPolicy \<Rightarrow> EvidenceSnapshot \<Rightarrow> string \<Rightarrow> pyfloat \<Rightarrow> payload" where
  "diagnosis_evidence pol e metric threshold =
     (let p = metric_policy_for pol metric; name = normalized_name p metric;
          v = evidence_metric_value e name p; f = ha_finding_of pol e metric threshold in
      [(''supporting_evidence'', VDict (evidence_summary e)),
       (''missing_evidence'', VList (if v = None then [VStr name] else [])),
       (''possible_root_causes'', VList (map VStr (sort (remdups (hf_root_causes f))))),
       (''normalized_metric_name'', VStr name),
       (''threshold_comparison'', VStr (case v of None \<Rightarrow> ''missing''
          | Some x \<Rightarrow> comparison_text x threshold p)),
       (''threshold_exceeded'', VBool (case v of None \<Rightarrow> False | Some x \<Rightarrow> exceeds p x threshold)),
       (''signal_direction'', VStr (direction_of p)),
       (''severity_score'', VFloat (case v of None \<Rightarrow> FFin 0 | Some x \<Rightarrow> score_of p x threshold)),
       (''diagnosis_reason'', VStr (diagnosis_reason f)),
       (''recommended_next_observation'', VStr (if v = None then ''collect_missing_metric''
          else ''monitor_after_recovery_action'')),
       (''preferred_action'', VStr (hf_preferred f))])"

definition diagnose_evidence ::
  "AIServiceHASupportAgent \<Rightarrow> EvidenceSnapshot \<Rightarrow> string \<Rightarrow> pyfloat \<Rightarrow> Diagnosis \<times> AgentDecision" where
  "diagnose_evidence g e metric threshold =
     (let pol = hg_policy g; f = ha_finding_of pol e metric threshold;
          approved = calls_for_recovery (hf_cause f);
          action = (if approved then ''ha_recovery_required'' else ''ha_no_action'') in
      (\<lparr>dg_service = VStr (ev_deployment e), dg_cause = hf_cause f, dg_severity = hf_severity f,
        dg_confidence = VFloat (hf_confidence f),
        dg_evidence = diagnosis_evidence pol e metric threshold\<rparr>,
       \<lparr>dn_agent = hg_name g, dn_action = action,
        dn_reward = reward_for pol action (if approved then lit (90 / 100) else lit (20 / 100)),
        dn_approved = approved, dn_reason = diagnosis_reason f,
        dn_parameters = [(''cause'', hf_cause f), (''severity'', hf_severity f),
          (''confidence'', fmt_fixed 2 (hf_confidence f)), (''preferred_action'', hf_preferred f)]\<rparr>))"

section \<open>The application agent\<close>

record AIApplicationManagementAgent =
  pg_name :: string
  pg_default_cpu_replicas :: int
  pg_policy :: AgentDecisionPolicy

definition supported_causes :: "string list" where
  "supported_causes = [''cpu_saturation'', ''memory_saturation'', ''latency_saturation'',
     ''network_degradation'', ''pod_restarts'', ''low_availability'']"

definition to_recovery_action_kind :: "string \<Rightarrow> (exn, RecoveryActionKind) result" where
  "to_recovery_action_kind action = (case kind_of_value action of
       None \<Rightarrow> Inl (ValueError (''unsupported policy action candidate: '' @ action)) | Some k \<Rightarrow> Inr k)"

fun application_decision_action :: "RecoveryActionKind \<Rightarrow> string" where
  "application_decision_action OBSERVE_ONLY = ''app_observe_only''"
| "application_decision_action ROLLOUT_RESTART = ''app_rollout_restart''"
| "application_decision_action SCALE_OUT = ''app_scale_deployment''"

text \<open>\<open>f"{value:.2f}"\<close> of a confidence, which is a number.\<close>

fun fmt_value :: "nat \<Rightarrow> pyval \<Rightarrow> string" where
  "fmt_value n (VFloat x) = fmt_fixed n x"
| "fmt_value n (VInt i) = fmt_fixed n (round64 (of_int i))"
| "fmt_value n _ = ''''"

definition propose_action ::
  "AIApplicationManagementAgent \<Rightarrow> AlertEvent \<Rightarrow> Diagnosis \<Rightarrow> (exn, RecoveryAction \<times> AgentDecision) result" where
  "propose_action g alert d =
     rbind (raise_if (dg_cause d \<notin> set supported_causes)
       (ValueError (''unsupported diagnosis for application action: '' @ dg_cause d))) (\<lambda>_.
     rbind (to_recovery_action_kind (preferred_action_for (pg_policy g) (dg_cause d))) (\<lambda>kind.
     let replicas = (if kind = SCALE_OUT
           then Some (recommended_replicas (pg_policy g) (dg_severity d) None) else None);
         action = \<lparr>ra_namespace = al_namespace alert, ra_deployment = al_service alert, ra_kind = kind,
           ra_replicas = replicas,
           ra_reason = json_str (dg_service d) @ '' '' @ dg_cause d @ '' severity='' @ dg_severity d @
             '' confidence='' @ fmt_value 2 (dg_confidence d)\<rparr>;
         name = application_decision_action kind
     in Inr (action,
       \<lparr>dn_agent = pg_name g, dn_action = name, dn_reward = reward_for (pg_policy g) name (lit (85 / 100)),
        dn_approved = True,
        dn_reason = ''Select '' @ kind_value kind @ '' for '' @ al_service alert @
          '' from policy because cause='' @ dg_cause d @ '', severity='' @ dg_severity d @ ''.'',
        dn_parameters = [(''namespace'', al_namespace alert), (''deployment'', al_service alert),
           (''action_kind'', kind_value kind), (''cause'', dg_cause d), (''severity'', dg_severity d)] @
          (case replicas of None \<Rightarrow> [] | Some n \<Rightarrow> [(''replicas'', int_str n)])\<rparr>)))"

text \<open>\<open>diagnosis.confidence >= 0.8\<close>.\<close>

definition confident :: "pyval \<Rightarrow> bool" where
  "confident v = (case number_of v of None \<Rightarrow> False | Some x \<Rightarrow> fle (lit (8 / 10)) x)"

definition observe_candidate ::
  "string \<Rightarrow> string \<Rightarrow> Diagnosis \<Rightarrow> string \<Rightarrow> RecoveryActionCandidate" where
  "observe_candidate ns dep d preferred =
     \<lparr>rc_action = \<lparr>ra_namespace = ns, ra_deployment = dep, ra_kind = OBSERVE_ONLY, ra_replicas = None,
        ra_reason = ''Collect more evidence before changing Kubernetes state.''\<rparr>,
      rc_reason = ''Evidence is insufficient or risk is low enough to observe first.'',
      rc_expected_effect = ''No resource change; confirms whether Kubernetes self-recovers.'',
      rc_risk_level = ''low'', rc_estimated_cost = FFin 0,
      rc_confidence = VFloat (if confident (dg_confidence d) then lit (55 / 100) else lit (75 / 100)),
      rc_priority = (if preferred = ''observe_only'' then lit (95 / 100) else lit (40 / 100))\<rparr>"

definition restart_candidate ::
  "string \<Rightarrow> string \<Rightarrow> Diagnosis \<Rightarrow> string \<Rightarrow> RecoveryActionCandidate" where
  "restart_candidate ns dep d preferred =
     \<lparr>rc_action = \<lparr>ra_namespace = ns, ra_deployment = dep, ra_kind = ROLLOUT_RESTART, ra_replicas = None,
        ra_reason = ''Restart pods when restart or unhealthy evidence is present.''\<rparr>,
      rc_reason = ''Pod instability or memory symptoms can be cleared by restart.'',
      rc_expected_effect = ''Refreshes pods without increasing replica cost.'',
      rc_risk_level = ''medium'', rc_estimated_cost = lit (10 / 100),
      rc_confidence = VFloat (if dg_cause d \<in> {''pod_restarts'', ''memory_saturation''}
        then lit (80 / 100) else lit (50 / 100)),
      rc_priority = (if preferred = ''rollout_restart'' then lit (95 / 100) else lit (55 / 100))\<rparr>"

definition scale_candidate ::
  "string \<Rightarrow> string \<Rightarrow> Diagnosis \<Rightarrow> string \<Rightarrow> int \<Rightarrow> int \<Rightarrow> RecoveryActionCandidate" where
  "scale_candidate ns dep d preferred baseline target =
     \<lparr>rc_action = \<lparr>ra_namespace = ns, ra_deployment = dep, ra_kind = SCALE_OUT, ra_replicas = Some target,
        ra_reason = ''Scale out when workload saturation is likely.''\<rparr>,
      rc_reason = ''CPU, latency, or availability pressure can be mitigated by replicas.'',
      rc_expected_effect = ''Adds serving capacity and improves availability headroom.'',
      rc_risk_level = ''medium'', rc_estimated_cost = round64 (of_int (max (target - baseline) 0)),
      rc_confidence = VFloat (if dg_cause d \<in> {''cpu_saturation'', ''latency_saturation'', ''low_availability''}
        then lit (88 / 100) else lit (45 / 100)),
      rc_priority = (if preferred = ''scale_out'' then lit (95 / 100) else lit (50 / 100))\<rparr>"

definition target_replicas :: "AgentDecisionPolicy \<Rightarrow> Diagnosis \<Rightarrow> EvidenceSnapshot \<Rightarrow> int" where
  "target_replicas pol d e =
     min (max (max (ev_desired_replicas e) 1 + 1) (recommended_replicas pol (dg_severity d) None)) 5"

text \<open>
  The order of \<open>sorted(..., reverse=True)\<close>, which keeps the order of equal keys; the keys are finite.
\<close>

definition candidate_key :: "RecoveryActionCandidate \<Rightarrow> rat \<times> rat" where
  "candidate_key c = (- finite_value (rc_priority c),
     - (case number_of (rc_confidence c) of None \<Rightarrow> 0 | Some x \<Rightarrow> finite_value x))"

definition generate_recovery_candidates ::
  "AIApplicationManagementAgent \<Rightarrow> string \<Rightarrow> string \<Rightarrow> Diagnosis \<Rightarrow> EvidenceSnapshot \<Rightarrow>
   RecoveryActionCandidate list" where
  "generate_recovery_candidates g ns dep d e =
     (let preferred = preferred_action_for (pg_policy g) (dg_cause d) in
      sort_key candidate_key
        [observe_candidate ns dep d preferred, restart_candidate ns dep d preferred,
         scale_candidate ns dep d preferred (max (ev_desired_replicas e) 1) (target_replicas (pg_policy g) d e)])"

section \<open>The reviewers of replica counts\<close>

record CandidateEvaluation =
  cn_agent :: string
  cn_action_kind :: RecoveryActionKind
  cn_approved :: bool
  cn_score :: pyfloat
  cn_reward :: pyfloat
  cn_reason :: string
  cn_risk :: string
  cn_blocking_reason :: string

record AISemiconductorInfraOpsAgent =
  ig_name :: string
  ig_max_recommended_replicas :: int

record CostOptimizationAgent =
  cg_name :: string
  cg_max_cost_safe_replicas :: int

definition plain_decision :: "string \<Rightarrow> string \<Rightarrow> pyfloat \<Rightarrow> bool \<Rightarrow> string \<Rightarrow> AgentDecision" where
  "plain_decision agent action reward approved reason =
     \<lparr>dn_agent = agent, dn_action = action, dn_reward = reward, dn_approved = approved, dn_reason = reason,
      dn_parameters = []\<rparr>"

text \<open>A \<open>ScaleAction\<close> on the left, a \<open>RecoveryAction\<close> on the right; the replica count they name.\<close>

fun asks_replicas :: "ScaleAction + RecoveryAction \<Rightarrow> int option" where
  "asks_replicas (Inl a) = Some (sa_replicas a)"
| "asks_replicas (Inr a) = ra_replicas a"

fun other_kind :: "ScaleAction + RecoveryAction \<Rightarrow> RecoveryActionKind option" where
  "other_kind (Inl a) = None"
| "other_kind (Inr a) = (if ra_kind a \<noteq> SCALE_OUT then Some (ra_kind a) else None)"

definition infra_review ::
  "AISemiconductorInfraOpsAgent \<Rightarrow> ScaleAction + RecoveryAction \<Rightarrow> AgentDecision" where
  "infra_review g action =
     (case other_kind action of
        Some kind \<Rightarrow>
          (plain_decision (ig_name g) ''infra_action_approved'' (lit (70 / 100)) True
             (kind_value kind @ '' does not increase replica capacity and is within the current '' @
              ''Kubernetes deployment safety policy.''))
            \<lparr>dn_parameters := [(''action_kind'', kind_value kind)]\<rparr>
      | None \<Rightarrow>
          (case asks_replicas action of
             None \<Rightarrow> plain_decision (ig_name g) ''infra_capacity_rejected'' (lit (- 60 / 100)) False
               ''scale_out requires an explicit replica target.''
           | Some n \<Rightarrow>
               if ig_max_recommended_replicas g < n then
                 plain_decision (ig_name g) ''infra_capacity_rejected'' (lit (- 60 / 100)) False
                   ''Requested replicas exceed the first-stage infrastructure policy.''
               else plain_decision (ig_name g) ''infra_capacity_approved'' (lit (70 / 100)) True
                 ''Requested replicas are within the current Kubernetes replica safety policy.''))"

definition cost_review ::
  "CostOptimizationAgent \<Rightarrow> ScaleAction + RecoveryAction \<Rightarrow> AgentDecision" where
  "cost_review g action =
     (case other_kind action of
        Some kind \<Rightarrow>
          (plain_decision (cg_name g) ''cost_budget_approved'' (lit (60 / 100)) True
             (kind_value kind @ '' does not increase replica count and is within the first-stage cost policy.''))
            \<lparr>dn_parameters := [(''action_kind'', kind_value kind)]\<rparr>
      | None \<Rightarrow>
          (case asks_replicas action of
             None \<Rightarrow> plain_decision (cg_name g) ''cost_budget_rejected'' (lit (- 70 / 100)) False
               ''scale_out requires an explicit replica target for cost review.''
           | Some n \<Rightarrow>
               if cg_max_cost_safe_replicas g < n then
                 plain_decision (cg_name g) ''cost_budget_rejected'' (lit (- 70 / 100)) False
                   ''Requested replicas exceed the first-stage cost policy.''
               else plain_decision (cg_name g) ''cost_budget_approved'' (lit (60 / 100)) True
                 ''Requested replicas are within the first-stage cost policy.''))"

definition evaluation_of :: "RecoveryActionCandidate \<Rightarrow> AgentDecision \<Rightarrow> pyfloat \<Rightarrow> CandidateEvaluation" where
  "evaluation_of c review score =
     \<lparr>cn_agent = dn_agent review, cn_action_kind = ra_kind (rc_action c), cn_approved = dn_approved review,
      cn_score = (if dn_approved review then score else FFin 0), cn_reward = dn_reward review,
      cn_reason = dn_reason review, cn_risk = rc_risk_level c,
      cn_blocking_reason = (if dn_approved review then '''' else dn_reason review)\<rparr>"

definition infra_score :: "AISemiconductorInfraOpsAgent \<Rightarrow> RecoveryActionCandidate \<Rightarrow> pyfloat" where
  "infra_score g c =
     (let a = rc_action c in
      if ra_kind a = SCALE_OUT \<and> ra_replicas a \<noteq> None \<and> ra_replicas a \<noteq> Some 0 then
        fmin (FFin 1) (fadd (lit (55 / 100))
          (fmul (round64 (of_int (max (ig_max_recommended_replicas g - the (ra_replicas a)) 0))) (lit (8 / 100))))
      else if ra_kind a = ROLLOUT_RESTART then lit (82 / 100)
      else if ra_kind a = OBSERVE_ONLY then lit (90 / 100)
      else rc_priority c)"

definition cost_score :: "RecoveryActionCandidate \<Rightarrow> pyfloat" where
  "cost_score c =
     (let a = rc_action c in
      if ra_kind a = OBSERVE_ONLY then lit (98 / 100)
      else if ra_kind a = ROLLOUT_RESTART then lit (86 / 100)
      else (let n = (case ra_replicas a of None \<Rightarrow> 0 | Some n \<Rightarrow> n) in
        fmax (FFin 0) (fsub (lit (95 / 100)) (fmul (round64 (of_int (max (n - 1) 0))) (lit (14 / 100))))))"

definition infra_evaluate_candidates ::
  "AISemiconductorInfraOpsAgent \<Rightarrow> RecoveryActionCandidate list \<Rightarrow> CandidateEvaluation list" where
  "infra_evaluate_candidates g =
     map (\<lambda>c. evaluation_of c (infra_review g (Inr (rc_action c))) (infra_score g c))"

definition cost_evaluate_candidates ::
  "CostOptimizationAgent \<Rightarrow> RecoveryActionCandidate list \<Rightarrow> CandidateEvaluation list" where
  "cost_evaluate_candidates g =
     map (\<lambda>c. evaluation_of c (cost_review g (Inr (rc_action c))) (cost_score c))"

section \<open>The executor agent\<close>

fun executor_execute ::
  "'w executor_env \<Rightarrow> KubernetesExecutor \<Rightarrow> ScaleAction + RecoveryAction \<Rightarrow> ('w, CommandResult) prog" where
  "executor_execute env k (Inr action) = execute_recovery env k action"
| "executor_execute env k (Inl action) = execute_scale env k action"

end
