(* ===== verification/SimpleCoordinators.thy ===== *)
theory SimpleCoordinators
  imports Agents RecoveryMonitor Report TraceLogic
begin

text \<open>
  The two coordinators without mutual supervision: the four-agent pipeline of \<open>coordinator.py\<close>, which
  turns one alert into one reviewed command, and the closed loop of \<open>autonomous.py\<close>, which tries ranked
  candidates until one recovers. Reports are the dictionaries of the code.
\<close>

section \<open>The four-agent pipeline\<close>

record AIMCMPCoordinator =
  mk_validator :: CommandValidator
  mk_mode :: ExecutionMode
  mk_backend :: ExecutionBackend
  mk_ha_agent :: AIServiceHASupportAgent
  mk_app_agent :: AIApplicationManagementAgent
  mk_infra_agent :: AISemiconductorInfraOpsAgent
  mk_cost_agent :: CostOptimizationAgent

definition tagged :: "(AgentDecision \<Rightarrow> string) \<Rightarrow> AgentDecision list \<Rightarrow> string" where
  "tagged f ds = join ''|'' (map (\<lambda>d. dn_agent d @ '':'' @ f d) ds)"

definition pipeline_metadata ::
  "AIMCMPCoordinator \<Rightarrow> string \<Rightarrow> AgentDecision list \<Rightarrow> (string \<times> string) list" where
  "pipeline_metadata c consensus ds =
     [(''coordinator'', ''AI-MCMP''), (''consensus'', consensus),
      (''agents'', join '','' [hg_name (mk_ha_agent c), pg_name (mk_app_agent c), ig_name (mk_infra_agent c),
         cg_name (mk_cost_agent c)]),
      (''decisions'', tagged (\<lambda>d. if dn_approved d then ''approved'' else ''rejected'') ds),
      (''actions'', tagged dn_action ds), (''rewards'', tagged (\<lambda>d. fmt_fixed 2 (dn_reward d)) ds),
      (''reward_total'', fmt_fixed 2 (case fsum (map dn_reward ds) of None \<Rightarrow> FFin 0 | Some x \<Rightarrow> x))]"

definition rejected_result :: "AIMCMPCoordinator \<Rightarrow> AgentDecision list \<Rightarrow> CommandResult" where
  "rejected_result c ds =
     \<lparr>cr_command = '''', cr_mode = mode_value (mk_mode c), cr_valid = False, cr_stdout = '''',
      cr_stderr = join ''; '' (map dn_reason (filter (\<lambda>d. \<not> dn_approved d) ds)),
      cr_metadata = pipeline_metadata c ''rejected'' ds\<rparr>"

definition pipeline_executor :: "AIMCMPCoordinator \<Rightarrow> KubernetesExecutor" where
  "pipeline_executor c =
     \<lparr>ke_validator = mk_validator c, ke_mode = mk_mode c, ke_backend = mk_backend c\<rparr>"

definition pipeline_run ::
  "'w executor_env \<Rightarrow> AIMCMPCoordinator \<Rightarrow> AlertEvent \<Rightarrow> ('w, CommandResult) prog" where
  "pipeline_run env c alert =
     (case ha_diagnose (mk_ha_agent c) alert of (diagnosis, ha) \<Rightarrow>
        if \<not> dn_approved ha then preturn (rejected_result c [ha])
        else
          pbind (plift (propose_action (mk_app_agent c) alert diagnosis)) (\<lambda>(action, app).
          let ds = [ha, app, infra_review (mk_infra_agent c) (Inr action),
                cost_review (mk_cost_agent c) (Inr action)]
          in if \<not> list_all dn_approved ds then preturn (rejected_result c ds)
             else
               pbind (executor_execute env (pipeline_executor c) (Inr action)) (\<lambda>result.
               preturn (result\<lparr>cr_metadata := pipeline_metadata c ''approved'' ds\<rparr>))))"

section \<open>The autonomous loop: reports\<close>

record AutonomousAIOpsCoordinator =
  uo_validator :: CommandValidator
  uo_mode :: ExecutionMode
  uo_backend :: ExecutionBackend
  uo_max_replan_attempts :: int
  uo_ha_agent :: AIServiceHASupportAgent
  uo_app_agent :: AIApplicationManagementAgent
  uo_infra_agent :: AISemiconductorInfraOpsAgent
  uo_cost_agent :: CostOptimizationAgent

record 'w autonomous_env =
  ut_executor :: "'w executor_env"
  ut_collect :: "string \<Rightarrow> string \<Rightarrow> 'w \<Rightarrow> (exn, EvidenceSnapshot) result \<times> 'w"
  ut_assess :: "RecoveryAction \<Rightarrow> EvidenceSnapshot \<Rightarrow> EvidenceSnapshot \<Rightarrow> CommandResult \<Rightarrow>
    'w \<Rightarrow> (exn, RecoveryAssessment) result \<times> 'w"

definition action_dict :: "RecoveryAction \<Rightarrow> payload" where
  "action_dict a =
     (let changed = (ra_kind a \<noteq> OBSERVE_ONLY) in
      [(''namespace'', VStr (ra_namespace a)), (''deployment'', VStr (ra_deployment a)),
       (''kind'', VStr (kind_value (ra_kind a))), (''replicas'', opt_json VInt (ra_replicas a)),
       (''reason'', VStr (ra_reason a)), (''state_changed'', VBool changed),
       (''action_effect_type'', VStr (if changed then ''kubernetes_state_change'' else ''read_only_observation''))])"

definition candidate_dict_of :: "RecoveryActionCandidate \<Rightarrow> payload" where
  "candidate_dict_of c =
     [(''action'', VDict (action_dict (rc_action c))), (''reason'', VStr (rc_reason c)),
      (''expected_effect'', VStr (rc_expected_effect c)), (''risk_level'', VStr (rc_risk_level c)),
      (''estimated_cost'', VFloat (rc_estimated_cost c)),
      (''required_validation'', VList [VStr ''python_validator'', VStr ''go_guard'']),
      (''confidence'', rc_confidence c), (''priority'', VFloat (rc_priority c))]"

definition candidate_evaluation_dict :: "CandidateEvaluation \<Rightarrow> payload" where
  "candidate_evaluation_dict e =
     [(''agent'', VStr (cn_agent e)), (''action_kind'', VStr (kind_value (cn_action_kind e))),
      (''approved'', VBool (cn_approved e)), (''score'', VFloat (cn_score e)),
      (''reward'', VFloat (cn_reward e)), (''reason'', VStr (cn_reason e)), (''risk'', VStr (cn_risk e)),
      (''blocking_reason'', VStr (cn_blocking_reason e))]"

definition diagnosis_dict :: "Diagnosis \<Rightarrow> payload" where
  "diagnosis_dict d =
     [(''service'', dg_service d), (''cause'', VStr (dg_cause d)), (''severity'', VStr (dg_severity d)),
      (''confidence'', dg_confidence d), (''evidence'', VDict (dg_evidence d))]"

definition decision_dict :: "AgentDecision \<Rightarrow> payload" where
  "decision_dict d =
     [(''agent'', VStr (dn_agent d)), (''action'', VStr (dn_action d)), (''reward'', VFloat (dn_reward d)),
      (''approved'', VBool (dn_approved d)), (''reason'', VStr (dn_reason d)),
      (''parameters'', VDict (map (\<lambda>(k, v). (k, VStr v)) (dn_parameters d)))]"

definition command_result_dict :: "CommandResult \<Rightarrow> payload" where
  "command_result_dict r =
     [(''command'', VStr (cr_command r)), (''mode'', VStr (cr_mode r)), (''valid'', VBool (cr_valid r)),
      (''stdout'', VStr (cr_stdout r)), (''stderr'', VStr (cr_stderr r)),
      (''metadata'', VDict (map (\<lambda>(k, v). (k, VStr v)) (cr_metadata r)))]"

definition assessment_dict :: "RecoveryAssessment \<Rightarrow> payload" where
  "assessment_dict a =
     [(''recovery_success'', VBool (as_recovery_success a)),
      (''metric_improvement'', VFloat (as_metric_improvement a)),
      (''remaining_problem'', VStr (as_remaining_problem a)),
      (''recovery_confidence'', VFloat (as_recovery_confidence a)),
      (''replanning_required'', VBool (as_replanning_required a))]"

definition policy_recommendation :: "RecoveryAction \<Rightarrow> string \<Rightarrow> EvidenceSnapshot \<Rightarrow> pyval" where
  "policy_recommendation a reason e = VDict
     [(''recommended_policy_change'',
        VStr (''Review priority and validation policy for '' @ kind_value (ra_kind a) @ ''.'')),
      (''reason'', VStr reason), (''evidence'', VDict (evidence_summary e)),
      (''risk'', VStr ''human review required before changing active policy''),
      (''requires_human_review'', VBool True)]"

definition replan_note :: "RecoveryAction \<Rightarrow> string \<Rightarrow> pyval" where
  "replan_note a reason = VDict [(''failed_action'', VStr (kind_value (ra_kind a))), (''reason'', VStr reason),
     (''next_step'', VStr ''try_next_candidate'')]"

section \<open>The autonomous loop: ranking and attempts\<close>

text \<open>
  \<open>infra_by_kind[kind]\<close>: the last evaluation of the kind. The evaluations come from the candidates, so
  every kind has one. The sum is rounded from left to right, in the order of the code.
\<close>

definition evaluation_for :: "CandidateEvaluation list \<Rightarrow> RecoveryActionKind \<Rightarrow> CandidateEvaluation" where
  "evaluation_for es k = last (filter (\<lambda>e. cn_action_kind e = k) es)"

definition candidate_score ::
  "CandidateEvaluation list \<Rightarrow> CandidateEvaluation list \<Rightarrow> RecoveryActionCandidate \<Rightarrow> pyfloat" where
  "candidate_score infra cost c =
     (let i = evaluation_for infra (ra_kind (rc_action c)); k = evaluation_for cost (ra_kind (rc_action c)) in
      if \<not> cn_approved i \<or> \<not> cn_approved k then FFin (- 1)
      else fadd (fadd (fadd (fmul (rc_priority c) (lit (35 / 100)))
             (fmul (case number_of (rc_confidence c) of None \<Rightarrow> FNaN | Some x \<Rightarrow> x) (lit (25 / 100))))
             (fmul (cn_score i) (lit (25 / 100)))) (fmul (cn_score k) (lit (15 / 100))))"

definition rank_candidates ::
  "RecoveryActionCandidate list \<Rightarrow> CandidateEvaluation list \<Rightarrow> CandidateEvaluation list \<Rightarrow>
   RecoveryActionCandidate list" where
  "rank_candidates cs infra cost =
     filter (\<lambda>c. fle (FFin 0) (candidate_score infra cost c))
       (sort_key (\<lambda>c. - finite_value (candidate_score infra cost c)) cs)"

definition autonomous_validate :: "CommandValidator \<Rightarrow> RecoveryAction \<Rightarrow> (exn, SafetyValidation) result" where
  "autonomous_validate v action =
     (case rbind (validate_recovery_action v action) render_recovery_command of
        Inr command \<Rightarrow> Inr \<lparr>sv_valid = True, sv_command = command, sv_stderr = ''''\<rparr>
      | Inl (CommandValidationError m) \<Rightarrow> Inr \<lparr>sv_valid = False, sv_command = '''', sv_stderr = m\<rparr>
      | Inl (ValueError m) \<Rightarrow> Inr \<lparr>sv_valid = False, sv_command = '''', sv_stderr = m\<rparr>
      | Inl e \<Rightarrow> Inl e)"

definition validation_dict :: "SafetyValidation \<Rightarrow> payload" where
  "validation_dict v = [(''valid'', VBool (sv_valid v)), (''command'', VStr (sv_command v)),
     (''stderr'', VStr (sv_stderr v))]"

text \<open>What a run has established before the loop, and what the loop updates.\<close>

record autonomous_context =
  uc_namespace :: string
  uc_deployment :: string
  uc_evidence :: EvidenceSnapshot
  uc_diagnosis :: Diagnosis
  uc_ha :: AgentDecision
  uc_candidates :: "RecoveryActionCandidate list"
  uc_infra :: "CandidateEvaluation list"
  uc_cost :: "CandidateEvaluation list"

record autonomous_state =
  us_executed :: "RecoveryAction list"
  us_replans :: "pyval list"
  us_recommendations :: "pyval list"
  us_validation :: payload
  us_execution :: CommandResult
  us_assessment :: payload

definition autonomous_report ::
  "AutonomousAIOpsCoordinator \<Rightarrow> autonomous_context \<Rightarrow> autonomous_state \<Rightarrow> bool \<Rightarrow> string \<Rightarrow> payload \<Rightarrow> payload" where
  "autonomous_report c k st valid status selected =
     [(''command'', VStr ''autonomous-run''), (''valid'', VBool valid), (''mode'', VStr (mode_value (uo_mode c))),
      (''final_status'', VStr status),
      (''collected_evidence_summary'', VDict (evidence_summary (uc_evidence k))),
      (''diagnosis'', VDict (diagnosis_dict (uc_diagnosis k))), (''ha_decision'', VDict (decision_dict (uc_ha k))),
      (''generated_candidates'', VList (map (VDict \<circ> candidate_dict_of) (uc_candidates k))),
      (''infra_evaluations'', VList (map (VDict \<circ> candidate_evaluation_dict) (uc_infra k))),
      (''cost_evaluations'', VList (map (VDict \<circ> candidate_evaluation_dict) (uc_cost k))),
      (''selected_action'', VDict selected), (''validation_result'', VDict (us_validation st)),
      (''execution_result'', VDict (command_result_dict (us_execution st))),
      (''recovery_monitoring'', VDict (us_assessment st)),
      (''executed_actions'', VList (map (VDict \<circ> action_dict) (us_executed st))),
      (''replanning_attempts'', VList (us_replans st)),
      (''policy_update_recommendations'', VList (us_recommendations st)),
      (''metadata'', VDict [(''coordinator'', VStr ''AI-MCMP''), (''autonomous'', VStr ''closed_loop''),
         (''safety'', VStr ''python_validator_and_guard_backend''),
         (''guard_backend'', VStr (backend_value (uo_backend c)))])]"

definition give_up :: "autonomous_context \<Rightarrow> RecoveryAction \<Rightarrow> string \<Rightarrow> autonomous_state \<Rightarrow> autonomous_state" where
  "give_up k a reason st = st\<lparr>us_replans := us_replans st @ [replan_note a reason],
     us_recommendations := us_recommendations st @ [policy_recommendation a reason (uc_evidence k)]\<rparr>"

text \<open>The loop over the candidates that may be tried: a report when one recovers, or the last state.\<close>

fun try_candidates ::
  "'w autonomous_env \<Rightarrow> AutonomousAIOpsCoordinator \<Rightarrow> autonomous_context \<Rightarrow> RecoveryActionCandidate list \<Rightarrow>
   autonomous_state \<Rightarrow> ('w, payload + autonomous_state) prog" where
  "try_candidates env c k [] st = preturn (Inr st)"
| "try_candidates env c k (candidate # rest) st =
     (let action = rc_action candidate in
      pbind (plift (autonomous_validate (uo_validator c) action)) (\<lambda>validation.
      let st = st\<lparr>us_validation := validation_dict validation\<rparr> in
      if \<not> sv_valid validation then
        try_candidates env c k rest (give_up k action (sv_stderr validation) st)
      else
        pbind (execute_recovery (ut_executor env)
          \<lparr>ke_validator = uo_validator c, ke_mode = uo_mode c, ke_backend = uo_backend c\<rparr> action) (\<lambda>execution.
        pbind (pcall (ut_collect env (uc_namespace k) (uc_deployment k))) (\<lambda>after.
        pbind (pcall (ut_assess env action (uc_evidence k) after execution)) (\<lambda>assessment.
        let st = st\<lparr>us_execution := execution, us_executed := us_executed st @ [action],
              us_assessment := assessment_dict assessment\<rparr> in
        if as_recovery_success assessment then
          preturn (Inl (autonomous_report c k st True
            (if us_replans st = [] then ''recovered'' else ''recovered_after_replan'') (action_dict action)))
        else try_candidates env c k rest (give_up k action (as_remaining_problem assessment) st))))))"

definition fresh_state :: "payload \<Rightarrow> CommandResult \<Rightarrow> autonomous_state" where
  "fresh_state validation execution = \<lparr>us_executed = [], us_replans = [], us_recommendations = [],
     us_validation = validation, us_execution = execution, us_assessment = []\<rparr>"

text \<open>The run once a recovery is called for: the candidates, their reviews, and the loop.\<close>

definition autonomous_recover ::
  "'w autonomous_env \<Rightarrow> AutonomousAIOpsCoordinator \<Rightarrow> autonomous_context \<Rightarrow> ('w, payload) prog" where
  "autonomous_recover env c k =
     (let candidates = generate_recovery_candidates (uo_app_agent c) (uc_namespace k) (uc_deployment k)
            (uc_diagnosis k) (uc_evidence k);
          infra = infra_evaluate_candidates (uo_infra_agent c) candidates;
          cost = cost_evaluate_candidates (uo_cost_agent c) candidates;
          k = k\<lparr>uc_candidates := candidates, uc_infra := infra, uc_cost := cost\<rparr>;
          tried = take (nat (uo_max_replan_attempts c + 1)) (rank_candidates candidates infra cost) in
      pbind (try_candidates env c k tried
        (fresh_state [(''valid'', VBool False), (''stderr'', VStr ''no candidate'')]
           (empty_result (mode_value (uo_mode c)) ''no candidate executed''))) (\<lambda>out.
      case out of
        Inl report \<Rightarrow> preturn report
      | Inr st \<Rightarrow> preturn (autonomous_report c k st False ''safe_failure'' [])))"

definition autonomous_run ::
  "'w autonomous_env \<Rightarrow> AutonomousAIOpsCoordinator \<Rightarrow> string \<Rightarrow> string \<Rightarrow> string \<Rightarrow> pyfloat \<Rightarrow>
   ('w, payload) prog" where
  "autonomous_run env c namespace deployment metric threshold =
     pbind (pcall (ut_collect env namespace deployment)) (\<lambda>evidence.
     case diagnose_evidence (uo_ha_agent c) evidence metric threshold of (diagnosis, ha) \<Rightarrow>
     let k = \<lparr>uc_namespace = namespace, uc_deployment = deployment, uc_evidence = evidence,
           uc_diagnosis = diagnosis, uc_ha = ha, uc_candidates = [], uc_infra = [], uc_cost = []\<rparr> in
     if \<not> dn_approved ha then
       preturn (autonomous_report c k
         (fresh_state [(''valid'', VBool False), (''stderr'', VStr (dn_reason ha))]
            (empty_result (mode_value (uo_mode c)) (dn_reason ha))) False ''no_action_required'' [])
     else autonomous_recover env c k)"

definition new_autonomous :: "AutonomousAIOpsCoordinator \<Rightarrow> (exn, AutonomousAIOpsCoordinator) result" where
  "new_autonomous c = rbind (raise_if (uo_max_replan_attempts c < 0)
     (ValueError ''max_replan_attempts must be >= 0'')) (\<lambda>_. Inr c)"

section \<open>Commands\<close>

text \<open>
  A budget of commands: each is one that the executor \<open>k\<close> issues for an action that satisfies \<open>P\<close>.
\<close>

definition command_step :: "(RecoveryAction \<Rightarrow> bool) \<Rightarrow> KubernetesExecutor \<Rightarrow> nat monitor_step" where
  "command_step P k n e = (if 0 < n \<and> (\<exists>a. P a \<and> executor_effect_ok k a e) then Some (n - 1) else None)"

lemma follow_command_step:
  "follow (command_step P k) n es = Some q \<Longrightarrow>
     length es + q = n \<and> list_all (\<lambda>e. \<exists>a. P a \<and> executor_effect_ok k a e) es"
  by (induction es arbitrary: n) (auto simp: command_step_def split: option.splits if_splits)

lemma guided_budget:
  assumes "guided (command_step P k) n m (\<lambda>_ _. True)"
  shows "\<exists>new. sys_trace (snd (m s)) = new @ sys_trace s \<and> length new \<le> n \<and>
    list_all (\<lambda>e. \<exists>a. P a \<and> executor_effect_ok k a e) new"
proof -
  obtain r s' where "m s = (r, s')" by (cases "m s")
  from guidedD[OF assms this] obtain new q where new: "sys_trace s' = new @ sys_trace s"
    "follow (command_step P k) n (rev new) = Some q" by (auto simp: reaches_def)
  from follow_command_step[OF new(2)] new(1) \<open>m s = (r, s')\<close> show ?thesis
    by (intro exI[of _ new]) (auto simp: list_all_iff)
qed

text \<open>One call of the executor spends at most one command.\<close>

lemma one_emit:
  assumes "\<And>x. silent (f x)" "P a" "executor_effect_ok k a e"
  shows "guided (command_step P k) (Suc n) (pbind (emit e) f) (\<lambda>r q. n \<le> q)"
  by (rule guided_pbind[OF guided_emit[where Q = "\<lambda>_ q. q = n"]])
    (use assms in \<open>auto simp: command_step_def intro: guided_silent\<close>)

lemma guided_execute_once:
  assumes "P a"
  shows "guided (command_step P k) (Suc n) (execute_recovery x k a) (\<lambda>r q. n \<le> q)"
proof (cases "safe_action (ke_validator k) a")
  case False
  then have "\<exists>e. validate_recovery_action (ke_validator k) a = Inl e" by (rule guard.rejected_raises)
  then show ?thesis by (auto simp: execute_recovery_def intro!: guided_pthrow)
next
  case True
  then have v: "validate_recovery_action (ke_validator k) a = Inr a" "recovery_argv a = Inr (recovery_words a)"
    by (simp_all add: validates_iff recovery_argv_words)
  show ?thesis
    unfolding execute_recovery_def v plift_Inr_bind
    by (intro guided_plift_bind guided_if guided_preturn)
      (use True assms in \<open>cases "ke_backend k"; auto simp: execute_with_go_guard_def run_command_def Let_def
         executor_effect_ok_def mutating_def case_prod_beta intro!: one_emit\<close>)+
qed

lemma guided_spent: "guided delta q m (\<lambda>r q'. n \<le> q') \<Longrightarrow> guided delta q m (\<lambda>_ _. True)"
  by (erule guided_mono) simp

section \<open>The pipeline\<close>

text \<open>What both reviewers accept.\<close>

definition reviewed :: "AISemiconductorInfraOpsAgent \<Rightarrow> CostOptimizationAgent \<Rightarrow> RecoveryAction \<Rightarrow> bool" where
  "reviewed i k a \<longleftrightarrow> (ra_kind a = SCALE_OUT \<longrightarrow>
     (\<exists>n. ra_replicas a = Some n \<and> n \<le> ig_max_recommended_replicas i \<and> n \<le> cg_max_cost_safe_replicas k))"

lemma review_approves:
  "dn_approved (infra_review i (Inr a)) \<longleftrightarrow>
     (ra_kind a = SCALE_OUT \<longrightarrow> (\<exists>n. ra_replicas a = Some n \<and> n \<le> ig_max_recommended_replicas i))"
  "dn_approved (cost_review k (Inr a)) \<longleftrightarrow>
     (ra_kind a = SCALE_OUT \<longrightarrow> (\<exists>n. ra_replicas a = Some n \<and> n \<le> cg_max_cost_safe_replicas k))"
  by (auto simp: infra_review_def cost_review_def plain_decision_def split: option.split)

lemma propose_action_target:
  "propose_action g alert d = Inr (a, n) \<Longrightarrow> ra_namespace a = al_namespace alert \<and> ra_deployment a = al_service alert"
  by (auto simp: propose_action_def Let_def raise_if_def split: if_splits)

text \<open>
  One alert, one reviewed command. A run of the pipeline issues at most one command; it is a command
  of the executor for an action on the namespace and the service of the alert, whose replica count, if it
  scales out, both reviewers accept; and without an alert beyond the threshold of a configured metric it
  issues none and reports the rejection.
\<close>

theorem pipeline_run_reviewed:
  "(\<exists>new. sys_trace (snd (pipeline_run env c alert s)) = new @ sys_trace s \<and> length new \<le> 1 \<and>
     list_all (\<lambda>e. \<exists>a. (ra_namespace a = al_namespace alert \<and> ra_deployment a = al_service alert \<and>
       reviewed (mk_infra_agent c) (mk_cost_agent c) a) \<and> executor_effect_ok (pipeline_executor c) a e) new) \<and>
   (\<not> exceeds (metric_policy_for (hg_policy (mk_ha_agent c)) (al_metric alert)) (al_value alert) (al_threshold alert)
     \<longrightarrow> pipeline_run env c alert s = (Inr (rejected_result c [snd (ha_diagnose (mk_ha_agent c) alert)]), s))"
proof (intro conjI impI)
  let ?P = "\<lambda>a. ra_namespace a = al_namespace alert \<and> ra_deployment a = al_service alert \<and>
       reviewed (mk_infra_agent c) (mk_cost_agent c) a"
  have "guided (command_step ?P (pipeline_executor c)) 1 (pipeline_run env c alert) (\<lambda>_ _. True)"
    unfolding pipeline_run_def Let_def
    by (auto intro!: guided_preturn guided_plift_bind guided_pbind[OF guided_execute_once[where n = 0, simplified]]
        simp: review_approves reviewed_def dest!: propose_action_target split: prod.splits)
  from guided_budget[OF this, of s] show "\<exists>new. sys_trace (snd (pipeline_run env c alert s)) = new @ sys_trace s \<and>
      length new \<le> 1 \<and> list_all (\<lambda>e. \<exists>a. ?P a \<and> executor_effect_ok (pipeline_executor c) a e) new" .
next
  assume "\<not> exceeds (metric_policy_for (hg_policy (mk_ha_agent c)) (al_metric alert)) (al_value alert) (al_threshold alert)"
  then show "pipeline_run env c alert s = (Inr (rejected_result c [snd (ha_diagnose (mk_ha_agent c) alert)]), s)"
    by (auto simp: pipeline_run_def ha_diagnose_def Let_def exceeds_def preturn_def split: option.splits)
qed

definition cpu_policy :: AgentDecisionPolicy where
  "cpu_policy = demo_policy\<lparr>dp_metric_policies := [(''cpu'',
     \<lparr>mp_canonical_name = ''cpu'', mp_aliases = [''cpu_usage''], mp_cause = ''cpu_saturation'',
      mp_signal_direction = ''high_is_bad'', mp_warning_ratio = FFin 1, mp_critical_ratio = FFin 2\<rparr>)]\<rparr>"

definition demo_pipeline :: AIMCMPCoordinator where
  "demo_pipeline = \<lparr>mk_validator = demo_validator, mk_mode = DRY_RUN, mk_backend = PYTHON,
     mk_ha_agent = \<lparr>hg_name = ''ha'', hg_policy = cpu_policy\<rparr>,
     mk_app_agent = \<lparr>pg_name = ''app'', pg_default_cpu_replicas = 3, pg_policy = demo_policy\<rparr>,
     mk_infra_agent = \<lparr>ig_name = ''infra'', ig_max_recommended_replicas = 5\<rparr>,
     mk_cost_agent = \<lparr>cg_name = ''cost'', cg_max_cost_safe_replicas = 3\<rparr>\<rparr>"

definition quiet_alert :: AlertEvent where
  "quiet_alert = \<lparr>al_namespace = ''research'', al_service = ''api'', al_metric = ''cpu'', al_value = FFin 1,
     al_threshold = FFin 2, al_message = ''''\<rparr>"

theorem pipeline_run_reviewed_witness:
  "\<forall>env s. fst (pipeline_run env demo_pipeline quiet_alert s) =
     Inr (rejected_result demo_pipeline [snd (ha_diagnose (mk_ha_agent demo_pipeline) quiet_alert)])"
proof (intro allI)
  fix env :: "'w executor_env" and s
  have "\<not> exceeds (metric_policy_for (hg_policy (mk_ha_agent demo_pipeline)) (al_metric quiet_alert))
      (al_value quiet_alert) (al_threshold quiet_alert)" by code_simp
  with pipeline_run_reviewed[of env demo_pipeline quiet_alert s]
  show "fst (pipeline_run env demo_pipeline quiet_alert s) =
     Inr (rejected_result demo_pipeline [snd (ha_diagnose (mk_ha_agent demo_pipeline) quiet_alert)])"
    by (auto dest: mp)
qed

section \<open>The autonomous loop\<close>

lemma filter_map_key:
  assumes "distinct (map key xs)" "x \<in> set xs" "\<And>y. key' (f y) = key y"
  shows "filter (\<lambda>e. key' e = key x) (map f xs) = [f x]"
  using assms by (induction xs) (auto simp: filter_map comp_def filter_empty_conv rev_image_eqI)

lemma evaluation_for_map:
  assumes "distinct (map (\<lambda>c. ra_kind (rc_action c)) cs)" "c \<in> set cs" "\<And>c. cn_action_kind (f c) = ra_kind (rc_action c)"
  shows "evaluation_for (map f cs) (ra_kind (rc_action c)) = f c"
  using filter_map_key[where key = "\<lambda>c. ra_kind (rc_action c)" and key' = cn_action_kind, OF assms]
  by (simp add: evaluation_for_def)

lemma ranked_reviewed:
  assumes "distinct (map (\<lambda>c. ra_kind (rc_action c)) cs)"
    and "c \<in> set (rank_candidates cs (infra_evaluate_candidates i cs) (cost_evaluate_candidates k cs))"
  shows "c \<in> set cs \<and> reviewed i k (rc_action c)"
proof -
  from assms(2) have c: "c \<in> set cs" by (auto simp: rank_candidates_def)
  have "evaluation_for (infra_evaluate_candidates i cs) (ra_kind (rc_action c)) =
      evaluation_of c (infra_review i (Inr (rc_action c))) (infra_score i c)"
    "evaluation_for (cost_evaluate_candidates k cs) (ra_kind (rc_action c)) =
      evaluation_of c (cost_review k (Inr (rc_action c))) (cost_score c)"
    using evaluation_for_map[OF assms(1) c] unfolding infra_evaluate_candidates_def cost_evaluate_candidates_def
    by (simp_all add: evaluation_of_def)
  then have "dn_approved (infra_review i (Inr (rc_action c)))" "dn_approved (cost_review k (Inr (rc_action c)))"
    using assms(2) by (auto simp: rank_candidates_def candidate_score_def Let_def evaluation_of_def split: if_splits)
  with c show ?thesis by (auto simp: reviewed_def review_approves)
qed

lemma sorted_distinct: "distinct (map f (sort_key key xs)) \<longleftrightarrow> distinct (map f xs)"
  by (simp add: distinct_map)

lemma generated_kinds:
  "distinct (map (\<lambda>c. ra_kind (rc_action c)) (generate_recovery_candidates g ns dep d e))"
  by (simp only: generate_recovery_candidates_def Let_def sorted_distinct)
     (simp add: observe_candidate_def restart_candidate_def scale_candidate_def)

lemma generated_target:
  "c \<in> set (generate_recovery_candidates g ns dep d e) \<Longrightarrow>
     ra_namespace (rc_action c) = ns \<and> ra_deployment (rc_action c) = dep"
  by (auto simp only: generate_recovery_candidates_def Let_def set_sort)
     (auto simp: observe_candidate_def restart_candidate_def scale_candidate_def)

lemma guided_try_candidates:
  "list_all (\<lambda>c. P (rc_action c)) cs \<Longrightarrow> length cs \<le> n \<Longrightarrow>
   guided (command_step P \<lparr>ke_validator = uo_validator c, ke_mode = uo_mode c, ke_backend = uo_backend c\<rparr>) n
     (try_candidates env c k cs st) (\<lambda>_ _. True)"
proof (induction cs arbitrary: n st)
  case Nil
  then show ?case by (simp add: guided_preturn)
next
  case (Cons a cs)
  then obtain m where m: "n = Suc m" "length cs \<le> m" by (cases n) auto
  with Cons show ?case
    unfolding try_candidates.simps Let_def m
    by (intro guided_plift_bind guided_if guided_pbind[OF guided_execute_once] guided_pcall_bind guided_preturn)
       auto
qed

text \<open>
  C29. The budget of the autonomous loop. A run issues at most \<open>max_replan_attempts + 1\<close> commands; each is a
  command of the executor, so within its validator, for an action on the namespace and the deployment of
  the call, and none scales out beyond the limits of the two reviewers.
\<close>

theorem autonomous_run_bounded:
  "\<exists>new. sys_trace (snd (autonomous_run env c ns dep metric threshold s)) = new @ sys_trace s \<and>
     length new \<le> nat (uo_max_replan_attempts c + 1) \<and>
     list_all (\<lambda>e. \<exists>a. (ra_namespace a = ns \<and> ra_deployment a = dep \<and> reviewed (uo_infra_agent c) (uo_cost_agent c) a) \<and>
       executor_effect_ok \<lparr>ke_validator = uo_validator c, ke_mode = uo_mode c, ke_backend = uo_backend c\<rparr> a e) new"
proof (rule guided_budget)
  let ?P = "\<lambda>a. ra_namespace a = ns \<and> ra_deployment a = dep \<and> reviewed (uo_infra_agent c) (uo_cost_agent c) a"
  let ?k = "\<lparr>ke_validator = uo_validator c, ke_mode = uo_mode c, ke_backend = uo_backend c\<rparr>"
  have "list_all (\<lambda>c. ?P (rc_action c)) (take n (rank_candidates cs (infra_evaluate_candidates (uo_infra_agent c) cs)
      (cost_evaluate_candidates (uo_cost_agent c) cs)))"
    if "cs = generate_recovery_candidates (uo_app_agent c) ns dep d e" for n cs d e
    using ranked_reviewed[OF generated_kinds] generated_target unfolding that
    by (fastforce simp: list_all_iff dest!: in_set_takeD)
  then show "guided (command_step ?P ?k) (nat (uo_max_replan_attempts c + 1))
      (autonomous_run env c ns dep metric threshold) (\<lambda>_ _. True)"
    unfolding autonomous_run_def autonomous_recover_def Let_def case_prod_beta
    by (intro guided_pcall_bind guided_if guided_preturn guided_pbind[OF guided_try_candidates])
       (auto intro: guided_preturn split: sum.splits)
qed

lemma autonomous_validate_safe:
  "autonomous_validate v a = Inr w \<Longrightarrow> sv_valid w \<Longrightarrow> safe_action v a"
  by (auto simp: autonomous_validate_def validates_iff split: sum.splits exn.splits)

text \<open>What the loop keeps: every candidate so far has left a note, and what was executed was validated.\<close>

definition loop_state :: "CommandValidator \<Rightarrow> nat \<Rightarrow> autonomous_state \<Rightarrow> bool" where
  "loop_state v n st \<longleftrightarrow> length (us_replans st) = n \<and> length (us_recommendations st) = n \<and>
     length (us_executed st) \<le> n \<and> list_all (safe_action v) (us_executed st)"

definition recovered_report ::
  "AutonomousAIOpsCoordinator \<Rightarrow> autonomous_context \<Rightarrow> nat \<Rightarrow> payload \<Rightarrow> bool" where
  "recovered_report c k n report \<longleftrightarrow> (\<exists>m < n. \<exists>st action assessment result.
     loop_state (uo_validator c) m st \<and> safe_action (uo_validator c) action \<and> as_recovery_success assessment \<and>
     report = autonomous_report c k (st\<lparr>us_execution := result, us_executed := us_executed st @ [action],
         us_assessment := assessment_dict assessment\<rparr>) True
       (if m = 0 then ''recovered'' else ''recovered_after_replan'') (action_dict action))"

lemma loop_state_update [simp]:
  "loop_state v n (st\<lparr>us_validation := w\<rparr>) = loop_state v n st"
  "loop_state v n st \<Longrightarrow> loop_state v (Suc n) (give_up k a r st)"
  "loop_state v n st \<Longrightarrow> safe_action v a \<Longrightarrow>
     loop_state v (Suc n) (give_up k a r (st\<lparr>us_execution := x, us_executed := us_executed st @ [a], us_assessment := y\<rparr>))"
  by (auto simp: loop_state_def give_up_def)

lemma try_candidates_outcome:
  "loop_state (uo_validator c) i st \<Longrightarrow>
   returns (\<lambda>out. case out of Inr st' \<Rightarrow> loop_state (uo_validator c) (i + length cs) st'
      | Inl report \<Rightarrow> recovered_report c k (i + length cs) report) (try_candidates env c k cs st)"
proof (induction cs arbitrary: i st)
  case Nil
  then show ?case by (simp add: returns_preturn)
next
  case (Cons x cs)
  note IH = Cons.IH[of "Suc i"]
  have n: "i + length (x # cs) = Suc i + length cs" by simp
  show ?case
  proof (cases "autonomous_validate (uo_validator c) (rc_action x)")
    case (Inl e)
    then show ?thesis by (simp add: returns_pthrow)
  next
    case (Inr w)
    show ?thesis
    proof (cases "sv_valid w")
      case True
      note safe = autonomous_validate_safe[OF Inr this]
      let ?st = "st\<lparr>us_validation := validation_dict w\<rparr>"
      have st: "loop_state (uo_validator c) i ?st" using Cons.prems by simp
      then have no_notes: "us_replans st = [] \<longleftrightarrow> i = 0" by (auto simp: loop_state_def)
      have "recovered_report c k (Suc i + length cs) (autonomous_report c k (?st\<lparr>us_execution := r,
          us_executed := us_executed ?st @ [rc_action x], us_assessment := assessment_dict a\<rparr>) True
          (if us_replans st = [] then ''recovered'' else ''recovered_after_replan'') (action_dict (rc_action x)))"
        if "as_recovery_success a" for r a
        unfolding recovered_report_def
        by (intro exI[of _ i] conjI exI[of _ ?st] exI[of _ "rc_action x"] exI[of _ a] exI[of _ r])
           (use st safe that no_notes in simp_all)
      then show ?thesis using True IH[OF loop_state_update(3)[OF st safe]] unfolding n
        by (auto simp: Inr Let_def intro!: returns_pbind_any returns_if returns_preturn)
    next
      case False
      with Cons.prems IH[OF loop_state_update(2)] show ?thesis unfolding n by (simp add: Inr Let_def)
    qed
  qed
qed

text \<open>
  A report either finds nothing to recover and has executed nothing, or names a recovery that the monitor
  confirmed, or says \<open>safe_failure\<close> after every candidate that may be tried has left a note. The plan that
  was tried is the ranking the report itself shows, cut at the limit on replanning.
\<close>

definition sound_report :: "AutonomousAIOpsCoordinator \<Rightarrow> payload \<Rightarrow> bool" where
  "sound_report c report \<longleftrightarrow> (\<exists>k.
     let tried = min (nat (uo_max_replan_attempts c + 1))
           (length (rank_candidates (uc_candidates k) (uc_infra k) (uc_cost k))) in
     if calls_for_recovery (dg_cause (uc_diagnosis k)) then
       recovered_report c k tried report \<or>
       (\<exists>st. loop_state (uo_validator c) tried st \<and> report = autonomous_report c k st False ''safe_failure'' [])
     else (\<exists>st. us_executed st = [] \<and> report = autonomous_report c k st False ''no_action_required'' []))"

lemma diagnose_evidence_approved:
  "dn_approved (snd (diagnose_evidence g e metric threshold)) =
     calls_for_recovery (dg_cause (fst (diagnose_evidence g e metric threshold)))"
  by (simp add: diagnose_evidence_def Let_def)

lemma autonomous_recover_sound:
  assumes "calls_for_recovery (dg_cause (uc_diagnosis k))"
  shows "returns (sound_report c) (autonomous_recover env c k)"
proof -
  have fresh: "loop_state v 0 (fresh_state a b)" for v a b by (simp add: loop_state_def fresh_state_def)
  have found: "sound_report c report" if "calls_for_recovery (dg_cause (uc_diagnosis k))"
    "recovered_report c k (min (nat (uo_max_replan_attempts c + 1))
       (length (rank_candidates (uc_candidates k) (uc_infra k) (uc_cost k)))) report" for k report
    using that unfolding sound_report_def Let_def by auto
  have failed: "sound_report c (autonomous_report c k st False ''safe_failure'' [])"
    if "calls_for_recovery (dg_cause (uc_diagnosis k))"
    "loop_state (uo_validator c) (min (nat (uo_max_replan_attempts c + 1))
       (length (rank_candidates (uc_candidates k) (uc_infra k) (uc_cost k)))) st" for k st
    using that unfolding sound_report_def Let_def by auto
  define cs where "cs = generate_recovery_candidates (uo_app_agent c) (uc_namespace k) (uc_deployment k)
    (uc_diagnosis k) (uc_evidence k)"
  define k' where "k' = k\<lparr>uc_candidates := cs, uc_infra := infra_evaluate_candidates (uo_infra_agent c) cs,
    uc_cost := cost_evaluate_candidates (uo_cost_agent c) cs\<rparr>"
  have k': "uc_candidates k' = cs" "uc_infra k' = infra_evaluate_candidates (uo_infra_agent c) cs"
    "uc_cost k' = cost_evaluate_candidates (uo_cost_agent c) cs" "uc_diagnosis k' = uc_diagnosis k"
    by (simp_all add: k'_def)
  show ?thesis
    unfolding autonomous_recover_def Let_def cs_def[symmetric] k'_def[symmetric]
    by (intro returns_pbind[OF try_candidates_outcome[OF fresh]])
       (use assms found[of k'] failed[of k'] in \<open>auto intro!: returns_preturn simp: k' min.commute split: sum.splits\<close>)
qed

text \<open>
  C30. The report of the autonomous loop is sound. Whatever the collector, the monitor and the process
  runners answer, a report that is returned says \<open>no_action_required\<close> exactly when the diagnosis does not
  call for recovery; \<open>recovered\<close> or \<open>recovered_after_replan\<close> (with a note for every earlier candidate) only
  with the assessment of a recovery, whose validated action is the last one executed; and \<open>safe_failure\<close>
  only when every ranked candidate within the limit has failed. Every executed action passed the validator.
\<close>

theorem autonomous_report_sound:
  "returns (sound_report c) (autonomous_run env c ns dep metric threshold)"
proof -
  have calm: "sound_report c (autonomous_report c k (fresh_state a b) False ''no_action_required'' [])"
    if "\<not> calls_for_recovery (dg_cause (uc_diagnosis k))" for k a b
    unfolding sound_report_def Let_def
    by (rule exI[of _ k], simp add: that, rule exI[of _ "fresh_state a b"]) (simp add: fresh_state_def)
  show ?thesis
    unfolding autonomous_run_def Let_def case_prod_beta diagnose_evidence_approved
    by (intro returns_pbind_any returns_if returns_preturn calm autonomous_recover_sound) simp_all
qed

end
