(* ===== verification/AgentAdapters.thy ===== *)
theory AgentAdapters
  imports Agents Negotiation
begin

text \<open>
  \<open>agent_adapters.py\<close>: the adapters that put the deterministic agents behind the interface of the
  coordinator, the registry that builds the adapters of a protocol profile, and the adapter table that
  \<open>MutualSupervisionCoordinator.__post_init__\<close> fills. What an adapter returns is a Python value, which
  the coordinator checks like that of any other adapter.
\<close>

section \<open>The adapters\<close>

datatype adapter_object =
    HAAdapter ProtocolAgentBinding AIServiceHASupportAgent
  | ApplicationAdapter ProtocolAgentBinding AIApplicationManagementAgent
  | InfrastructureAdapter ProtocolAgentBinding AISemiconductorInfraOpsAgent
  | CostAdapter ProtocolAgentBinding CostOptimizationAgent

fun binding_of :: "adapter_object \<Rightarrow> ProtocolAgentBinding" where
  "binding_of (HAAdapter b g) = b"
| "binding_of (ApplicationAdapter b g) = b"
| "binding_of (InfrastructureAdapter b g) = b"
| "binding_of (CostAdapter b g) = b"

fun adapter_name :: "adapter_object \<Rightarrow> string" where
  "adapter_name (HAAdapter b g) = hg_name g"
| "adapter_name (ApplicationAdapter b g) = pg_name g"
| "adapter_name (InfrastructureAdapter b g) = ig_name g"
| "adapter_name (CostAdapter b g) = cg_name g"

definition adapter_runtime :: "adapter_object \<Rightarrow> string" where
  "adapter_runtime a = pb_runtime (binding_of a)"

fun adapter_capabilities :: "adapter_object \<Rightarrow> string list" where
  "adapter_capabilities (HAAdapter b g) = [''diagnose'', ''review'', ''post_review'']"
| "adapter_capabilities (ApplicationAdapter b g) = [''propose'', ''review'', ''post_review'']"
| "adapter_capabilities (InfrastructureAdapter b g) = [''review'', ''post_review'']"
| "adapter_capabilities (CostAdapter b g) = [''review'', ''post_review'']"

section \<open>Diagnosis and proposals\<close>

definition requested_metric_is_present ::
  "AIServiceHASupportAgent \<Rightarrow> EvidenceSnapshot \<Rightarrow> string \<Rightarrow> bool" where
  "requested_metric_is_present g e metric =
     (let p = metric_policy_for (hg_policy g) metric; normalized = normalize_metric metric;
          candidates = normalized # (case p of Some mp \<Rightarrow> mp_canonical_name mp # mp_aliases mp | None \<Rightarrow> []) in
      list_ex (\<lambda>m. primary_metric_value e m \<noteq> None) candidates \<or>
      (case p of Some mp \<Rightarrow> mp_canonical_name mp | None \<Rightarrow> normalized) \<in> {''availability'', ''restart_count''})"

definition diagnosis_value :: "Diagnosis \<Rightarrow> pyval" where
  "diagnosis_value d = VDiagnosis (dg_service d) (VStr (dg_cause d)) (VStr (dg_severity d)) (dg_confidence d)
     (VDict (dg_evidence d))"

text \<open>The decision that goes with a diagnosis.\<close>

definition diagnosis_decision ::
  "AIServiceHASupportAgent \<Rightarrow> ProtocolAgentBinding \<Rightarrow> bool \<Rightarrow> string \<Rightarrow> pyval \<Rightarrow> string list \<Rightarrow> pyfloat \<Rightarrow> pyval" where
  "diagnosis_decision g b approved reason confidence refs reward =
     VSupervisionDecision (VStr (hg_name g @ '':diagnosis'')) (VStr (hg_name g @ '':runtime'')) (VInt 0)
       (VStr (hg_name g)) (VStr ''ha_diagnosis'') VNone (VBool approved) (VStr reason) confidence
       (VTuple (map VStr refs)) (VFloat reward) (VStr (pb_runtime b))"

definition missing_metric_diagnosis ::
  "AIServiceHASupportAgent \<Rightarrow> ProtocolAgentBinding \<Rightarrow> EvidenceSnapshot \<Rightarrow> string \<Rightarrow> pyval" where
  "missing_metric_diagnosis g b e metric =
     (let normalized = normalize_metric metric;
          reason = ''requested metric '' @ str_repr normalized @ '' is absent from evidence'';
          d = \<lparr>dg_service = VStr (ev_deployment e), dg_cause = ''unknown_metric'', dg_severity = ''info'',
            dg_confidence = VFloat (FFin 0),
            dg_evidence = [(''requested_metric'', VStr normalized), (''missing_evidence'', VList [VStr normalized]),
              (''supporting_evidence'', VDict (evidence_summary e)), (''diagnosis_reason'', VStr reason)]\<rparr>
      in VTuple [diagnosis_value d,
           diagnosis_decision g b False reason (dg_confidence d)
             [''evidence_source:'' @ ev_source e, ''signal:'' @ normalized, ''metric_status:missing'']
             (reward_for (hg_policy g) ''ha_no_action'' (lit (20 / 100)))])"

definition ha_adapter_diagnose ::
  "ProtocolAgentBinding \<Rightarrow> AIServiceHASupportAgent \<Rightarrow> EvidenceSnapshot \<Rightarrow> string \<Rightarrow> pyfloat \<Rightarrow> pyval" where
  "ha_adapter_diagnose b g e metric threshold =
     (if \<not> requested_metric_is_present g e metric then missing_metric_diagnosis g b e metric
      else case diagnose_evidence g e metric threshold of (d, n) \<Rightarrow>
        VTuple [diagnosis_value d,
          diagnosis_decision g b (dn_approved n) (dn_reason n) (dg_confidence d)
            [''evidence_source:'' @ ev_source e, ''signal:'' @ metric] (dn_reward n)])"

fun adapter_diagnose :: "adapter_object \<Rightarrow> EvidenceSnapshot \<Rightarrow> string \<Rightarrow> pyfloat \<Rightarrow> pyval" where
  "adapter_diagnose (HAAdapter b g) e metric threshold = ha_adapter_diagnose b g e metric threshold"
| "adapter_diagnose _ e metric threshold = VNone"

definition action_value :: "RecoveryAction \<Rightarrow> pyval" where
  "action_value a = VRecoveryAction (VStr (ra_namespace a)) (VStr (ra_deployment a)) (VKind (ra_kind a))
     (opt_json VInt (ra_replicas a)) (VStr (ra_reason a))"

definition application_adapter_propose ::
  "AIApplicationManagementAgent \<Rightarrow> Diagnosis \<Rightarrow> EvidenceSnapshot \<Rightarrow> pyval" where
  "application_adapter_propose g d e =
     VTuple (map (action_value \<circ> rc_action)
       (generate_recovery_candidates g (ev_namespace e) (ev_deployment e) d e))"

fun adapter_propose :: "adapter_object \<Rightarrow> Diagnosis \<Rightarrow> EvidenceSnapshot \<Rightarrow> pyval" where
  "adapter_propose (ApplicationAdapter b g) d e = application_adapter_propose g d e"
| "adapter_propose _ d e = VNone"

section \<open>Reviews\<close>

text \<open>The fields every review takes from the decision and the context.\<close>

definition review_value ::
  "string \<Rightarrow> SupervisionDecision \<Rightarrow> ReviewContext \<Rightarrow> ReviewVerdict \<Rightarrow> string \<Rightarrow> RecoveryAction option \<Rightarrow>
   pyval \<Rightarrow> string list \<Rightarrow> pyval" where
  "review_value name decision context verdict reason suggested confidence refs =
     VPeerReview (VStr (sd_decision_id decision @ '':'' @ name)) (VStr (rx_run_id context))
       (VInt (rx_round_index context)) (VStr name) (VStr (sd_agent decision)) (VStr (sd_decision_id decision))
       (VVerdict verdict) (VStr reason) (opt_json action_value suggested) confidence
       (VTuple (map VStr refs)) (VStr (rx_policy_version context))"

text \<open>\<open>CostOptimizationAgent\<close>: a scale-out beyond the limit is revised down to it where that still scales out.\<close>

definition cost_revision :: "CostOptimizationAgent \<Rightarrow> EvidenceSnapshot \<Rightarrow> RecoveryAction \<Rightarrow> RecoveryAction option" where
  "cost_revision g e action =
     (let limit = cg_max_cost_safe_replicas g in
      if ra_kind action = SCALE_OUT \<and> (case ra_replicas action of None \<Rightarrow> False | Some n \<Rightarrow> limit < n) \<and>
         1 \<le> limit \<and> ev_desired_replicas e < limit
      then Some (action\<lparr>ra_replicas := Some limit,
        ra_reason := ra_reason action @ ''; revised to satisfy cost replica policy''\<rparr>)
      else None)"

definition replica_refs :: "EvidenceSnapshot \<Rightarrow> string \<Rightarrow> int \<Rightarrow> string list" where
  "replica_refs e label limit =
     [''desired_replicas:'' @ int_str (ev_desired_replicas e), label @ int_str limit]"

definition ha_review ::
  "AIServiceHASupportAgent \<Rightarrow> SupervisionDecision \<Rightarrow> EvidenceSnapshot \<Rightarrow> ReviewContext \<Rightarrow> RecoveryAction \<Rightarrow>
   pyval" where
  "ha_review g decision e context action =
     (let d = rx_diagnosis context; justified = (sd_approved decision \<and> calls_for_recovery (dg_cause d)) in
      review_value (hg_name g) decision context (if justified then APPROVE else ABSTAIN)
        (if justified then ''Recovery action is justified by the HA diagnosis.''
         else ''HA evidence does not justify a recovery action.'') None (dg_confidence d)
        [''evidence_source:'' @ ev_source e, ''available_replicas:'' @ int_str (ev_available_replicas e)])"

definition application_review ::
  "AIApplicationManagementAgent \<Rightarrow> SupervisionDecision \<Rightarrow> EvidenceSnapshot \<Rightarrow> ReviewContext \<Rightarrow> RecoveryAction \<Rightarrow>
   pyval" where
  "application_review g decision e context action =
     (let matches = (ra_namespace action = ev_namespace e \<and> ra_deployment action = ev_deployment e) in
      review_value (pg_name g) decision context (if matches then APPROVE else VETO)
        (if matches then ''Action target matches the observed application.''
         else ''Action target does not match the observed application.'') None (VFloat (lit (95 / 100)))
        [''namespace:'' @ ev_namespace e, ''deployment:'' @ ev_deployment e])"

definition infrastructure_review ::
  "AISemiconductorInfraOpsAgent \<Rightarrow> SupervisionDecision \<Rightarrow> EvidenceSnapshot \<Rightarrow> ReviewContext \<Rightarrow> RecoveryAction \<Rightarrow>
   pyval" where
  "infrastructure_review g decision e context action =
     (let n = infra_review g (Inr action) in
      review_value (ig_name g) decision context (if dn_approved n then APPROVE else VETO) (dn_reason n) None
        (VFloat (if dn_approved n then lit (92 / 100) else lit (98 / 100)))
        (replica_refs e ''infra_max_replicas:'' (ig_max_recommended_replicas g)))"

definition cost_adapter_review ::
  "CostOptimizationAgent \<Rightarrow> SupervisionDecision \<Rightarrow> EvidenceSnapshot \<Rightarrow> ReviewContext \<Rightarrow> RecoveryAction \<Rightarrow>
   pyval" where
  "cost_adapter_review g decision e context action =
     (let n = cost_review g (Inr action);
          suggested = (if dn_approved n then None else cost_revision g e action);
          verdict = (if dn_approved n then APPROVE else if suggested \<noteq> None then REVISE else VETO) in
      review_value (cg_name g) decision context verdict (dn_reason n) suggested (VFloat (lit (91 / 100)))
        (replica_refs e ''cost_max_replicas:'' (cg_max_cost_safe_replicas g)))"

fun review_action ::
  "adapter_object \<Rightarrow> SupervisionDecision \<Rightarrow> EvidenceSnapshot \<Rightarrow> ReviewContext \<Rightarrow> RecoveryAction \<Rightarrow> pyval" where
  "review_action (HAAdapter b g) decision e context action = ha_review g decision e context action"
| "review_action (ApplicationAdapter b g) decision e context action = application_review g decision e context action"
| "review_action (InfrastructureAdapter b g) decision e context action = infrastructure_review g decision e context action"
| "review_action (CostAdapter b g) decision e context action = cost_adapter_review g decision e context action"

definition adapter_review ::
  "adapter_object \<Rightarrow> SupervisionDecision \<Rightarrow> EvidenceSnapshot \<Rightarrow> ReviewContext \<Rightarrow> pyval" where
  "adapter_review a decision e context =
     (case sd_proposed_action decision of None \<Rightarrow> VNone | Some action \<Rightarrow> review_action a decision e context action)"

definition post_review_value ::
  "string \<Rightarrow> bool \<Rightarrow> string \<Rightarrow> pyfloat \<Rightarrow> string list \<Rightarrow> string \<Rightarrow> pyval" where
  "post_review_value agent approved reason confidence refs policy_version =
     VPostExecutionReview (VStr (agent @ '':post-review'')) (VStr (agent @ '':runtime'')) (VStr agent)
       (VStr (agent @ '':action'')) (VBool approved) (VStr reason) (VFloat confidence)
       (VTuple (map VStr refs)) (VStr policy_version)"

definition ha_post_review ::
  "ProtocolAgentBinding \<Rightarrow> AIServiceHASupportAgent \<Rightarrow> RecoveryAction \<Rightarrow> RecoveryAssessment \<Rightarrow> EvidenceSnapshot \<Rightarrow>
   pyval" where
  "ha_post_review b g action assessment e =
     post_review_value (hg_name g) (as_recovery_success assessment)
       (if as_recovery_success assessment then ''Recovery monitor confirms service recovery.''
        else as_remaining_problem assessment) (as_recovery_confidence assessment)
       [''recovery_monitor'', ''available_replicas:'' @ int_str (ev_available_replicas e)] (pb_runtime b)"

definition application_post_review ::
  "ProtocolAgentBinding \<Rightarrow> AIApplicationManagementAgent \<Rightarrow> RecoveryAction \<Rightarrow> RecoveryAssessment \<Rightarrow> EvidenceSnapshot \<Rightarrow>
   pyval" where
  "application_post_review b g action assessment e =
     (let ready = (as_recovery_success assessment \<and> ev_desired_replicas e \<le> ev_available_replicas e \<and>
            ra_namespace action = ev_namespace e \<and> ra_deployment action = ev_deployment e) in
      post_review_value (pg_name g) ready
        (if ready then ''Application target is ready after the recovery action.''
         else ''Application target is not ready after the recovery action.'') (as_recovery_confidence assessment)
        [''desired_replicas:'' @ int_str (ev_desired_replicas e),
         ''available_replicas:'' @ int_str (ev_available_replicas e)] (pb_runtime b))"

definition infrastructure_post_review ::
  "ProtocolAgentBinding \<Rightarrow> AISemiconductorInfraOpsAgent \<Rightarrow> RecoveryAction \<Rightarrow> RecoveryAssessment \<Rightarrow> EvidenceSnapshot \<Rightarrow>
   pyval" where
  "infrastructure_post_review b g action assessment e =
     (let safe = (ev_desired_replicas e \<le> ig_max_recommended_replicas g) in
      post_review_value (ig_name g) safe
        (if safe then ''Post-execution replica state remains within infrastructure policy.''
         else ''Post-execution replica state exceeds infrastructure policy.'') (lit (90 / 100))
        (replica_refs e ''infra_max_replicas:'' (ig_max_recommended_replicas g)) (pb_runtime b))"

definition cost_post_review ::
  "ProtocolAgentBinding \<Rightarrow> CostOptimizationAgent \<Rightarrow> RecoveryAction \<Rightarrow> RecoveryAssessment \<Rightarrow> EvidenceSnapshot \<Rightarrow>
   pyval" where
  "cost_post_review b g action assessment e =
     (let safe = (ra_kind action \<noteq> SCALE_OUT \<or>
            (case ra_replicas action of None \<Rightarrow> 0 | Some n \<Rightarrow> n) \<le> cg_max_cost_safe_replicas g) in
      post_review_value (cg_name g) safe
        (if safe then ''Post-execution action remains within cost policy.''
         else ''Post-execution action exceeds cost policy.'') (lit (88 / 100))
        [''action_replicas:'' @ (case ra_replicas action of None \<Rightarrow> ''None'' | Some n \<Rightarrow> int_str n),
         ''cost_max_replicas:'' @ int_str (cg_max_cost_safe_replicas g)] (pb_runtime b))"

fun adapter_post_review ::
  "adapter_object \<Rightarrow> RecoveryAction \<Rightarrow> RecoveryAssessment \<Rightarrow> EvidenceSnapshot \<Rightarrow> pyval" where
  "adapter_post_review (HAAdapter b g) action assessment e = ha_post_review b g action assessment e"
| "adapter_post_review (ApplicationAdapter b g) action assessment e = application_post_review b g action assessment e"
| "adapter_post_review (InfrastructureAdapter b g) action assessment e = infrastructure_post_review b g action assessment e"
| "adapter_post_review (CostAdapter b g) action assessment e = cost_post_review b g action assessment e"

lemmas adapter_methods [simp] = ha_adapter_diagnose_def application_adapter_propose_def ha_review_def application_review_def
  infrastructure_review_def cost_adapter_review_def ha_post_review_def application_post_review_def
  infrastructure_post_review_def cost_post_review_def

section \<open>The registry\<close>

record AgentAdapterMetadata =
  md_supported_runtimes :: "string list"
  md_capabilities :: "string list"

type_synonym adapter_factory = "ProtocolAgentBinding \<Rightarrow> (exn, adapter_object) result"

record AgentAdapterRegistry =
  ar_factories :: "(string, adapter_factory) dict"
  ar_metadata :: "(string, AgentAdapterMetadata) dict"
  ar_validated_bindings :: "ProtocolAgentBinding list"

text \<open>\<open>AgentRegistryError\<close> is a \<open>ValueError\<close>.\<close>

definition register_adapter ::
  "string \<Rightarrow> adapter_factory \<Rightarrow> string list \<Rightarrow> string list \<Rightarrow> AgentAdapterRegistry \<Rightarrow>
   (exn, AgentAdapterRegistry) result" where
  "register_adapter i factory runtimes capabilities reg =
     rbind (raise_if (dict_get (ar_factories reg) i \<noteq> None) (ValueError (''duplicate implementation: '' @ i))) (\<lambda>_.
     Inr (reg\<lparr>ar_factories := dict_set i factory (ar_factories reg),
              ar_metadata := dict_set i \<lparr>md_supported_runtimes = runtimes, md_capabilities = capabilities\<rparr>
                (ar_metadata reg)\<rparr>))"

definition validate_binding :: "AgentAdapterRegistry \<Rightarrow> ProtocolAgentBinding \<Rightarrow> (exn, unit) result" where
  "validate_binding reg b =
     (case dict_get (ar_metadata reg) (pb_implementation_id b) of
        None \<Rightarrow> Inl (ValueError (''unregistered implementation: '' @ pb_implementation_id b))
      | Some m \<Rightarrow>
          rbind (raise_if (pb_runtime b \<notin> set (md_supported_runtimes m))
            (ValueError (''unsupported runtime: '' @ pb_runtime b @ '' for '' @ pb_implementation_id b))) (\<lambda>_.
          raise_if (binding_enabled b \<and> pb_capabilities b \<noteq> md_capabilities m)
            (ValueError (''capabilities do not match implementation metadata: '' @ pb_implementation_id b))))"

definition validate_profile ::
  "(string \<Rightarrow> string) \<Rightarrow> ResearchProtocolProfile \<Rightarrow> AgentAdapterRegistry \<Rightarrow> (exn, AgentAdapterRegistry) result" where
  "validate_profile sha256 p reg =
     rbind (validate_integrity sha256 p) (\<lambda>_.
     rbind (rcheck (validate_binding reg) (pf_agents p)) (\<lambda>_.
     Inr (reg\<lparr>ar_validated_bindings := ar_validated_bindings reg @ pf_agents p\<rparr>)))"

text \<open>The methods of an adapter of these classes are callable; the tests of that never fail.\<close>

definition validate_adapter :: "ProtocolAgentBinding \<Rightarrow> adapter_object \<Rightarrow> (exn, unit) result" where
  "validate_adapter b a =
     rbind (raise_if (adapter_name a \<noteq> pb_name b)
       (ValueError (''adapter name does not match binding: '' @ pb_name b))) (\<lambda>_.
     rbind (raise_if (adapter_runtime a \<noteq> pb_runtime b)
       (ValueError (''adapter runtime does not match binding: '' @ pb_name b))) (\<lambda>_.
     raise_if (adapter_capabilities a \<noteq> pb_capabilities b)
       (ValueError (''adapter capabilities do not match binding: '' @ pb_name b))))"

definition create_adapter :: "AgentAdapterRegistry \<Rightarrow> ProtocolAgentBinding \<Rightarrow> (exn, adapter_object) result" where
  "create_adapter reg b =
     rbind (raise_if (b \<notin> set (ar_validated_bindings reg))
       (ValueError ''binding must be validated as part of a profile before creation'')) (\<lambda>_.
     case dict_get (ar_factories reg) (pb_implementation_id b) of
       None \<Rightarrow> Inl (ValueError (''unregistered implementation: '' @ pb_implementation_id b))
     | Some factory \<Rightarrow>
         rbind (factory b) (\<lambda>a. rbind (validate_adapter b a) (\<lambda>_. Inr a)))"

definition create_profile ::
  "(string \<Rightarrow> string) \<Rightarrow> ResearchProtocolProfile \<Rightarrow> AgentAdapterRegistry \<Rightarrow>
   (exn, adapter_object list \<times> AgentAdapterRegistry) result" where
  "create_profile sha256 p reg =
     rbind (validate_profile sha256 p reg) (\<lambda>reg.
     rbind (rmap (create_adapter reg) (enabled_agents p)) (\<lambda>adapters. Inr (adapters, reg)))"

definition require_deterministic_runtime :: "ProtocolAgentBinding \<Rightarrow> (exn, unit) result" where
  "require_deterministic_runtime b = raise_if (pb_runtime b \<noteq> ''deterministic'')
     (ValueError (''unsupported runtime: '' @ pb_runtime b))"

text \<open>The agents of the default factories; the configured decision policy is an argument.\<close>

definition default_ha_agent :: "AgentDecisionPolicy \<Rightarrow> AIServiceHASupportAgent" where
  "default_ha_agent pol = \<lparr>hg_name = ''AIServiceHASupportAgent'', hg_policy = pol\<rparr>"

definition default_app_agent :: "AgentDecisionPolicy \<Rightarrow> AIApplicationManagementAgent" where
  "default_app_agent pol = \<lparr>pg_name = ''AIApplicationManagementAgent'', pg_default_cpu_replicas = 3,
     pg_policy = pol\<rparr>"

definition default_infra_agent :: AISemiconductorInfraOpsAgent where
  "default_infra_agent = \<lparr>ig_name = ''AISemiconductorInfraOpsAgent'', ig_max_recommended_replicas = 5\<rparr>"

definition default_cost_agent :: CostOptimizationAgent where
  "default_cost_agent = \<lparr>cg_name = ''CostOptimizationAgent'', cg_max_cost_safe_replicas = 3\<rparr>"

definition build_adapter :: "(ProtocolAgentBinding \<Rightarrow> adapter_object) \<Rightarrow> adapter_factory" where
  "build_adapter mk b = rbind (require_deterministic_runtime b) (\<lambda>_. Inr (mk b))"

definition default_adapter_registry :: "AgentDecisionPolicy \<Rightarrow> (exn, AgentAdapterRegistry) result" where
  "default_adapter_registry pol =
     rbind (register_adapter ''deterministic-ha'' (build_adapter (\<lambda>b. HAAdapter b (default_ha_agent pol)))
       [''deterministic''] [''diagnose'', ''review'', ''post_review'']
       \<lparr>ar_factories = [], ar_metadata = [], ar_validated_bindings = []\<rparr>) (\<lambda>reg.
     rbind (register_adapter ''deterministic-application''
       (build_adapter (\<lambda>b. ApplicationAdapter b (default_app_agent pol)))
       [''deterministic''] [''propose'', ''review'', ''post_review''] reg) (\<lambda>reg.
     rbind (register_adapter ''deterministic-infrastructure''
       (build_adapter (\<lambda>b. InfrastructureAdapter b default_infra_agent))
       [''deterministic''] [''review'', ''post_review''] reg) (\<lambda>reg.
     register_adapter ''deterministic-cost'' (build_adapter (\<lambda>b. CostAdapter b default_cost_agent))
       [''deterministic''] [''review'', ''post_review''] reg)))"

section \<open>The adapter table of the coordinator\<close>

text \<open>The agents a caller may pass to the coordinator in place of the adapters' own.\<close>

record compatibility_agents =
  xg_ha :: "AIServiceHASupportAgent option"
  xg_app :: "AIApplicationManagementAgent option"
  xg_infra :: "AISemiconductorInfraOpsAgent option"
  xg_cost :: "CostOptimizationAgent option"

fun with_compatibility_agent :: "compatibility_agents \<Rightarrow> adapter_object \<Rightarrow> adapter_object" where
  "with_compatibility_agent c (HAAdapter b g) = HAAdapter b (case xg_ha c of None \<Rightarrow> g | Some h \<Rightarrow> h)"
| "with_compatibility_agent c (ApplicationAdapter b g) =
     ApplicationAdapter b (case xg_app c of None \<Rightarrow> g | Some h \<Rightarrow> h)"
| "with_compatibility_agent c (InfrastructureAdapter b g) =
     InfrastructureAdapter b (case xg_infra c of None \<Rightarrow> g | Some h \<Rightarrow> h)"
| "with_compatibility_agent c (CostAdapter b g) = CostAdapter b (case xg_cost c of None \<Rightarrow> g | Some h \<Rightarrow> h)"

text \<open>\<open>__post_init__\<close> from the profile on.\<close>

definition adapter_table ::
  "(string \<Rightarrow> string) \<Rightarrow> AgentAdapterRegistry \<Rightarrow> compatibility_agents \<Rightarrow> ResearchProtocolProfile \<Rightarrow>
   (exn, (string, adapter_object) dict) result" where
  "adapter_table sha256 reg c p =
     rbind (validate_integrity sha256 p) (\<lambda>_.
     rbind (create_profile sha256 p reg) (\<lambda>(adapters, _).
     rbind (rmap (\<lambda>(b, a). let a = with_compatibility_agent c a in
         rbind (validate_adapter b a) (\<lambda>_. Inr (pb_name b, a))) (zip (enabled_agents p) adapters)) (\<lambda>kvs.
     Inr (dict_of kvs))))"

definition coordinator_adapter :: "adapter_object \<Rightarrow> AgentAdapter" where
  "coordinator_adapter a = \<lparr>ad_name = adapter_name a, ad_runtime = adapter_runtime a,
     ad_capabilities = adapter_capabilities a\<rparr>"

text \<open>The coordinator's environment when its adapters are these objects.\<close>

definition ask_adapter :: "(string, adapter_object) dict \<Rightarrow> (adapter_object \<Rightarrow> pyval) \<Rightarrow> string \<Rightarrow> (exn, pyval) result" where
  "ask_adapter table f name = (case dict_get table name of None \<Rightarrow> Inl (KeyError name) | Some a \<Rightarrow> Inr (f a))"

definition deterministic_env :: "(string, adapter_object) dict \<Rightarrow> 'w coordinator_env \<Rightarrow> 'w coordinator_env" where
  "deterministic_env table env = env
     \<lparr>ce_diagnose := (\<lambda>name e metric threshold w. (ask_adapter table (\<lambda>a. adapter_diagnose a e metric threshold) name, w)),
      ce_propose := (\<lambda>name d e w. (ask_adapter table (\<lambda>a. adapter_propose a d e) name, w)),
      ce_review := (\<lambda>name decision e context w. (ask_adapter table (\<lambda>a. adapter_review a decision e context) name, w)),
      ce_post_review := (\<lambda>name action assessment e w.
        (ask_adapter table (\<lambda>a. adapter_post_review a action assessment e) name, w))\<rparr>"

end
