(* ===== verification/AdapterContracts.thy ===== *)
theory AdapterContracts
  imports AgentAdapters
begin

text \<open>
  What the deterministic adapters guarantee: the coordinator accepts everything they return, the registry
  builds exactly the table of a profile, and a negotiation among them ends after at most two rounds. The
  reviewers meet the interface \<open>capping_reviewers\<close>, which is all that the negotiation relies on.
\<close>

section \<open>The default registry\<close>

text \<open>The adapter the default factories build for a binding, and the bindings the registry accepts.\<close>

definition default_adapter :: "AgentDecisionPolicy \<Rightarrow> ProtocolAgentBinding \<Rightarrow> adapter_object option" where
  "default_adapter pol b = map_of
     [(''deterministic-ha'', HAAdapter b (default_ha_agent pol)),
      (''deterministic-application'', ApplicationAdapter b (default_app_agent pol)),
      (''deterministic-infrastructure'', InfrastructureAdapter b default_infra_agent),
      (''deterministic-cost'', CostAdapter b default_cost_agent)] (pb_implementation_id b)"

definition default_accepts :: "AgentDecisionPolicy \<Rightarrow> ProtocolAgentBinding \<Rightarrow> bool" where
  "default_accepts pol b \<longleftrightarrow> (case default_adapter pol b of
     None \<Rightarrow> False
   | Some a \<Rightarrow> pb_runtime b = ''deterministic'' \<and>
       (binding_enabled b \<longrightarrow> pb_capabilities b = adapter_capabilities a \<and> pb_name b = adapter_name a))"

definition no_agents :: compatibility_agents where
  "no_agents = \<lparr>xg_ha = None, xg_app = None, xg_infra = None, xg_cost = None\<rparr>"

lemma no_agents_same [simp]: "with_compatibility_agent no_agents a = a"
  by (cases a) (simp_all add: no_agents_def)

definition default_registry :: "AgentDecisionPolicy \<Rightarrow> AgentAdapterRegistry" where
  "default_registry pol = \<lparr>
     ar_factories = [(''deterministic-ha'', build_adapter (\<lambda>b. HAAdapter b (default_ha_agent pol))),
       (''deterministic-application'', build_adapter (\<lambda>b. ApplicationAdapter b (default_app_agent pol))),
       (''deterministic-infrastructure'', build_adapter (\<lambda>b. InfrastructureAdapter b default_infra_agent)),
       (''deterministic-cost'', build_adapter (\<lambda>b. CostAdapter b default_cost_agent))],
     ar_metadata = map (\<lambda>(i, cs). (i, \<lparr>md_supported_runtimes = [''deterministic''], md_capabilities = cs\<rparr>))
       [(''deterministic-ha'', [''diagnose'', ''review'', ''post_review'']),
        (''deterministic-application'', [''propose'', ''review'', ''post_review'']),
        (''deterministic-infrastructure'', [''review'', ''post_review'']),
        (''deterministic-cost'', [''review'', ''post_review''])],
     ar_validated_bindings = []\<rparr>"

lemma default_registry_built: "default_adapter_registry pol = Inr (default_registry pol)"
  by (simp add: default_adapter_registry_def register_adapter_def default_registry_def)

lemma binding_accepted:
  "validate_binding (default_registry pol) b = Inr () \<longleftrightarrow>
     (\<exists>a. default_adapter pol b = Some a \<and> pb_runtime b = ''deterministic'' \<and>
       (binding_enabled b \<longrightarrow> pb_capabilities b = adapter_capabilities a))"
  by (simp add: validate_binding_def default_registry_def default_adapter_def)

lemma adapter_created:
  assumes "validate_binding (default_registry pol) b = Inr ()" "binding_enabled b" "b \<in> set bs"
  shows "create_adapter (default_registry pol\<lparr>ar_validated_bindings := bs\<rparr>) b = Inr a \<longleftrightarrow>
     default_adapter pol b = Some a \<and> pb_name b = adapter_name a"
  using assms(2,3) assms(1)[unfolded binding_accepted]
  by (auto simp: create_adapter_def validate_adapter_def default_registry_def default_adapter_def build_adapter_def
      require_deterministic_runtime_def adapter_runtime_def split: if_splits)

lemma rmap_Inr_iff: "rmap f xs = Inr ys \<longleftrightarrow> list_all2 (\<lambda>x y. f x = Inr y) xs ys"
  by (induction xs arbitrary: ys) (auto simp: list_all2_Cons1)

lemma adapter_valid:
  assumes "validate_binding (default_registry pol) b = Inr ()" "binding_enabled b" "default_adapter pol b = Some a"
    "pb_name b = adapter_name a"
  shows "validate_adapter b a = Inr ()"
  using assms(2-) assms(1)[unfolded binding_accepted]
  by (auto simp: validate_adapter_def default_adapter_def adapter_runtime_def split: if_splits)

lemma adapter_table_default:
  assumes ok: "validate_integrity sha256 p = Inr ()" "\<forall>b \<in> set (pf_agents p). validate_binding (default_registry pol) b = Inr ()"
    and all: "\<forall>b \<in> set (enabled_agents p). \<exists>a. default_adapter pol b = Some a \<and> pb_name b = adapter_name a"
    and names: "distinct (map pb_name (pf_agents p))"
  shows "adapter_table sha256 (default_registry pol) no_agents p =
    Inr (map (\<lambda>b. (pb_name b, the (default_adapter pol b))) (enabled_agents p))"
proof -
  let ?bs = "enabled_agents p" and ?f = "\<lambda>b. the (default_adapter pol b)"
  have sub: "set ?bs \<subseteq> set (pf_agents p)" "\<forall>b \<in> set ?bs. binding_enabled b" by (auto simp: enabled_agents_def)
  have each: "create_adapter (default_registry pol\<lparr>ar_validated_bindings := pf_agents p\<rparr>) b = Inr (?f b) \<and>
      validate_adapter b (?f b) = Inr ()" if b: "b \<in> set ?bs" for b
  proof -
    obtain a where a: "default_adapter pol b = Some a" "pb_name b = adapter_name a" using all b by blast
    have v: "b \<in> set (pf_agents p)" "binding_enabled b" "validate_binding (default_registry pol) b = Inr ()"
      using sub b ok(2) by auto
    from adapter_created[OF v(3,2,1), of a] adapter_valid[OF v(3,2) a] a show ?thesis by simp
  qed
  have "rmap (create_adapter (default_registry pol\<lparr>ar_validated_bindings := pf_agents p\<rparr>)) ?bs = Inr (map ?f ?bs)"
    by (intro rmap_Inr_map) (simp add: each)
  moreover have "validate_profile sha256 p (default_registry pol) =
      Inr (default_registry pol\<lparr>ar_validated_bindings := pf_agents p\<rparr>)"
    using ok by (simp add: validate_profile_def default_registry_def)
  moreover have "rmap (\<lambda>(b, a). rbind (validate_adapter b a) (\<lambda>_. Inr (pb_name b, a))) (zip ?bs (map ?f ?bs)) =
      Inr (map (\<lambda>b. (pb_name b, ?f b)) ?bs)"
    unfolding zip_map2 zip_same_conv_map rmap_map map_map
    by (intro rmap_Inr_map) (simp add: each)
  moreover have "dict_of (map (\<lambda>b. (pb_name b, ?f b)) ?bs) = map (\<lambda>b. (pb_name b, ?f b)) ?bs"
    using names by (intro dict_of_distinct) (simp add: comp_def enabled_agents_def distinct_map_filter)
  ultimately show ?thesis using ok(1)
    by (simp add: adapter_table_def create_profile_def)
qed

text \<open>
  C32. The default registry decides which profiles run on the deterministic agents. Building the adapter
  table of a coordinator succeeds exactly if the profile is intact and every binding names one of the four
  implementations with the deterministic runtime and, if it is enabled, with the capabilities of that
  implementation and the name of its agent; the table then holds one adapter for each enabled binding, in
  the order of the profile.
\<close>

theorem default_adapter_table:
  "rbind (default_adapter_registry pol) (\<lambda>reg. adapter_table sha256 reg no_agents p) = Inr table \<longleftrightarrow>
     validate_integrity sha256 p = Inr () \<and> list_all (default_accepts pol) (pf_agents p) \<and>
     table = map (\<lambda>b. (pb_name b, the (default_adapter pol b))) (enabled_agents p)"
proof -
  let ?reg = "default_registry pol"
  have accepts: "default_accepts pol b \<longleftrightarrow> validate_binding ?reg b = Inr () \<and>
      (binding_enabled b \<longrightarrow> (\<exists>a. default_adapter pol b = Some a \<and> pb_name b = adapter_name a))" for b
    unfolding binding_accepted default_accepts_def by (auto split: option.split)
  have forward: "\<forall>b \<in> set (pf_agents p). default_accepts pol b" "validate_integrity sha256 p = Inr ()"
    if "adapter_table sha256 ?reg no_agents p = Inr t" for t
  proof -
    from that obtain as where ok: "validate_integrity sha256 p = Inr ()"
      "\<forall>b \<in> set (pf_agents p). validate_binding ?reg b = Inr ()"
      and as: "rmap (create_adapter (?reg\<lparr>ar_validated_bindings := pf_agents p\<rparr>)) (enabled_agents p) = Inr as"
      by (auto simp: adapter_table_def create_profile_def validate_profile_def default_registry_def)
    have "\<exists>a. default_adapter pol b = Some a \<and> pb_name b = adapter_name a"
      if "b \<in> set (pf_agents p)" "binding_enabled b" for b
    proof -
      from that have "b \<in> set (enabled_agents p)" by (simp add: enabled_agents_def)
      with as obtain a where "create_adapter (?reg\<lparr>ar_validated_bindings := pf_agents p\<rparr>) b = Inr a"
        unfolding rmap_Inr_iff list_all2_conv_all_nth by (metis in_set_conv_nth)
      with that ok(2) show ?thesis by (auto simp: adapter_created)
    qed
    with ok show "\<forall>b \<in> set (pf_agents p). default_accepts pol b" "validate_integrity sha256 p = Inr ()"
      by (auto simp: accepts)
  qed
  have backward: "adapter_table sha256 ?reg no_agents p =
      Inr (map (\<lambda>b. (pb_name b, the (default_adapter pol b))) (enabled_agents p))"
    if "\<forall>b \<in> set (pf_agents p). default_accepts pol b" "validate_integrity sha256 p = Inr ()"
    using that by (intro adapter_table_default)
      (auto simp: accepts enabled_agents_def integrity_iff profile_valid_def)
  show ?thesis unfolding default_registry_built list_all_iff using forward backward by auto
qed

section \<open>Negotiation among reviewers that cap\<close>

text \<open>A revision that caps a scale-out at \<open>limit\<close> and still scales out.\<close>

definition capped :: "int \<Rightarrow> EvidenceSnapshot \<Rightarrow> RecoveryAction \<Rightarrow> RecoveryAction \<Rightarrow> bool" where
  "capped limit e action b \<longleftrightarrow> ra_kind action = SCALE_OUT \<and> (\<exists>n. ra_replicas action = Some n \<and> limit < n) \<and>
     ev_desired_replicas e < limit \<and> (\<exists>why. b = action\<lparr>ra_replicas := Some limit, ra_reason := why\<rparr>)"

definition revises_to :: "int \<Rightarrow> EvidenceSnapshot \<Rightarrow> RecoveryAction \<Rightarrow> PeerReview \<Rightarrow> bool" where
  "revises_to limit e action r \<longleftrightarrow> (pr_verdict r = REVISE \<longrightarrow> pr_suggested_action r \<noteq> None) \<and>
     (\<forall>b. pr_suggested_action r = Some b \<longrightarrow> capped limit e action b)"

lemma capped_settles: "capped limit e action b \<Longrightarrow> \<not> capped limit e b b'"
  by (auto simp: capped_def)

lemma in_map_filter: "y \<in> set (List.map_filter f xs) \<longleftrightarrow> (\<exists>x \<in> set xs. f x = Some y)"
  by (induction xs) (auto simp: List.map_filter_simps split: option.splits)

lemma apply_capped:
  assumes "revs \<noteq> []" "\<forall>r \<in> set revs. pr_verdict r = REVISE \<and> revises_to limit e action r"
    and "apply_revisions action revs = Inr (b, ns)"
  shows "capped limit e action b"
proof -
  define ss where "ss = List.map_filter pr_suggested_action revs"
  have all: "\<forall>s \<in> set ss. capped limit e action s"
    using assms(2) by (auto simp: ss_def in_map_filter revises_to_def)
  obtain r s where "r \<in> set revs" "pr_suggested_action r = Some s"
    using assms(1,2) by (cases revs) (auto simp: revises_to_def)
  then have some: "s \<in> set ss" by (auto simp: ss_def in_map_filter)
  then have head: "capped limit e action (hd ss)" using all by (cases ss) auto
  have none: "filter (\<lambda>s. ra_kind s \<noteq> ra_kind action) ss = []"
    using all by (auto simp: filter_empty_conv capped_def)
  have "ra_replicas x = Some limit" if "x \<in> set ss" for x using all that by (auto simp: capped_def)
  then have "set (List.map_filter ra_replicas ss) = {limit}"
    using some by (auto simp: in_map_filter)
  with assms(3) some none head show ?thesis
    by (auto simp: apply_revisions_def Let_def ss_def[symmetric] capped_def split: if_splits) (rule exI, erule sym)
qed

text \<open>The revision always passes the checks of the coordinator.\<close>

lemma capped_admissible:
  "capped limit e action b \<Longrightarrow> action_semantic_error action p e ns dep = '''' \<Longrightarrow>
     action_semantic_error b p e ns dep = ''''"
  by (auto simp: capped_def action_semantic_error_def target_alignment_error_def split: if_splits)

lemma returns_collect:
  assumes "\<And>adapter. returns (\<lambda>x. \<forall>r. x = Some r \<longrightarrow> P r) (ask_reviewer env c run_id i d diagnosis e adapter)"
  shows "list_all P reviews \<Longrightarrow> returns (list_all P) (collect_reviews env c run_id i d diagnosis e rs reviews)"
proof (induction rs arbitrary: reviews)
  case (Cons a rs)
  note asked = returns_pbind[OF returns_ptry[OF assms returns_pthrow]]
  have "returns (list_all P) (case x of None \<Rightarrow> collect_reviews env c run_id i d diagnosis e rs reviews
      | Some r \<Rightarrow> pbind (record_event env c ''peer_reviews'' (EvPeerReview r)) (\<lambda>_.
          collect_reviews env c run_id i d diagnosis e rs (reviews @ [r])))" if "\<forall>r. x = Some r \<longrightarrow> P r" for x
    using Cons that by (cases x) (auto intro: returns_pbind_any)
  with Cons show ?case
    by (auto intro!: asked simp del: fun_upd_apply split: option.split)
qed (simp add: returns_preturn)

lemma consensus_revisions:
  "consensus_resolve sha reviews p scope = Inr outcome \<Longrightarrow>
     set (co_revisions outcome) \<subseteq> {r \<in> set reviews. pr_verdict r = REVISE}"
  by (auto simp: consensus_resolve_def Let_def resolve_role_based_veto_def resolve_unanimous_veto_def
      resolve_weighted_majority_def order_reviews_def split: ConsensusStrategy.splits scope_argument.splits)


lemma returns_push: "returns (\<lambda>g'. ng_rounds g' = ng_rounds g @ [r]) (push_round env c g r)"
  by (auto simp: returns_def dest: push_round_Inr)

lemma returns_round:
  assumes "\<And>d adapter. sd_proposed_action d = Some action \<Longrightarrow>
    returns (\<lambda>x. \<forall>r. x = Some r \<longrightarrow> revises_to limit e action r)
      (ask_reviewer env c run_id i d diagnosis e adapter)"
  shows "returns (\<lambda>(result, g'). \<exists>r. ng_rounds g' = ng_rounds g @ [r] \<and> (case result of
       Rejected \<Rightarrow> nr_consensus_status r = ''rejected'' | Revised b \<Rightarrow> capped limit e action b | Approved \<Rightarrow> True))
    (negotiate_round env c run_id diagnosis e cs agent i action g)"
proof -
  have reviews: "returns (list_all (revises_to limit e action))
      (ptry (review_application_action env c run_id i d diagnosis e) (\<lambda>x. pthrow (h x)))"
    if "sd_proposed_action d = Some action" for d h
    unfolding review_application_action_def
    by (intro returns_ptry returns_if returns_pthrow returns_preturn returns_collect assms that) simp_all
  have conclude: "returns (\<lambda>(result, g'). \<exists>r. ng_rounds g' = ng_rounds g @ [r] \<and> (case result of
       Rejected \<Rightarrow> nr_consensus_status r = ''rejected'' | Revised b \<Rightarrow> capped limit e action b | Approved \<Rightarrow> True))
    (conclude_round env c run_id i e action d rs outcome g')"
    if "list_all (revises_to limit e action) rs" "ng_rounds g' = ng_rounds g"
      "consensus_resolve (ce_sha256 env) rs (mc_protocol c) (Scopes (decision_scopes action)) = Inr outcome"
    for d rs outcome g'
  proof -
    have "capped limit e action b" if "revise_action c e action (co_revisions outcome) = Inr (b, ns)"
      "co_revisions outcome \<noteq> []" for b ns
    proof (rule apply_capped[OF that(2)])
      show "apply_revisions action (co_revisions outcome) = Inr (b, ns)"
        using that(1) by (auto simp: revise_action_def Let_def split: if_splits)
    qed (use consensus_revisions[OF \<open>consensus_resolve _ _ _ _ = _\<close>] \<open>list_all _ rs\<close> in \<open>auto simp: list_all_iff\<close>)
    then show ?thesis using that(2) unfolding conclude_round_def Let_def
      by (intro returns_if returns_pbind_any[where m = "new_trace_id env ''action''"])
         (auto simp: make_round_def split: sum.split
          intro!: returns_pbind[OF returns_push] returns_preturn returns_pthrow)
  qed
  show ?thesis
    unfolding negotiate_round_def Let_def
    by (intro returns_pbind_any returns_pbind[OF reviews] returns_plift_bind conclude)
       (simp_all add: proposal_decision_def)
qed

text \<open>Where a negotiation stands: at most \<open>n\<close> rounds more than before, and no agreement only after a rejection.\<close>

definition within_rounds ::
  "nat \<Rightarrow> nat \<Rightarrow> (RecoveryAction \<Rightarrow> bool) \<Rightarrow> negotiation \<Rightarrow> RecoveryAction option \<times> negotiation \<Rightarrow> bool" where
  "within_rounds left n P g out \<longleftrightarrow> length (ng_rounds (snd out)) \<le> length (ng_rounds g) + n \<and>
     (case fst out of Some a \<Rightarrow> P a
      | None \<Rightarrow> left < n \<or> nr_consensus_status (last (ng_rounds (snd out))) = ''rejected'')"

text \<open>
  An interface of reviewers: what such an adapter answers revises a scale-out to the cap of the adapter,
  if it has one, or revises nothing.
\<close>

locale capping_reviewers =
  fixes review :: "'a \<Rightarrow> SupervisionDecision \<Rightarrow> EvidenceSnapshot \<Rightarrow> ReviewContext \<Rightarrow> pyval"
    and cap :: "'a \<Rightarrow> int option"
  assumes revises: "sd_proposed_action d = Some action \<Longrightarrow>
    check_peer_review name d run_id i version (review a d e ctx) = Inr r \<Longrightarrow>
    (pr_verdict r = REVISE \<longrightarrow> pr_suggested_action r \<noteq> None) \<and>
    (\<forall>b. pr_suggested_action r = Some b \<longrightarrow> (\<exists>limit. cap a = Some limit \<and> capped limit e action b))"
begin

definition answered_by :: "'a set \<Rightarrow> 'w coordinator_env \<Rightarrow> bool" where
  "answered_by A env \<longleftrightarrow> (\<forall>name d e ctx w v w'.
     ce_review env name d e ctx w = (Inr v, w') \<longrightarrow> (\<exists>a \<in> A. v = review a d e ctx))"

definition one_cap :: "int \<Rightarrow> 'a set \<Rightarrow> bool" where
  "one_cap limit A \<longleftrightarrow> (\<forall>a \<in> A. cap a = None \<or> cap a = Some limit)"

lemma asked:
  assumes "answered_by A env" "one_cap limit A" "sd_proposed_action d = Some action"
  shows "returns (\<lambda>x. \<forall>r. x = Some r \<longrightarrow> revises_to limit e action r)
    (ask_reviewer env c run_id i d diagnosis e adapter)"
  unfolding returns_def
proof (intro allI impI)
  fix s x s' r
  assume "ask_reviewer env c run_id i d diagnosis e adapter s = (Inr x, s')" "x = Some r"
  then obtain w v w' r' ctx where v: "ce_review env (ad_name adapter) d e ctx w = (Inr v, w')"
    "check_peer_review (ad_name adapter) d run_id i (pf_version (mc_protocol c)) v = Inr r'"
    "pr_verdict r = pr_verdict r'" "pr_suggested_action r = pr_suggested_action r'"
    by (auto simp: ask_reviewer_def Let_def pbind_Inr pcall_def split: if_splits prod.splits)
  from v(1) assms(1) obtain a where a: "a \<in> A" "v = review a d e ctx" unfolding answered_by_def by blast
  from revises[OF assms(3) v(2)[unfolded a(2)]] a(1) assms(2) show "revises_to limit e action r"
    unfolding revises_to_def v(3,4) one_cap_def by fastforce
qed

lemma settled_rounds:
  assumes "answered_by A env" "one_cap limit A" "\<And>b. \<not> capped limit e action b"
  shows "returns (within_rounds m 1 (\<lambda>a. a = action) g)
    (negotiate_rounds env c run_id diagnosis e cs agent m i action g)"
proof (cases m)
  case (Suc n)
  show ?thesis unfolding Suc negotiate_rounds.simps
    by (rule returns_pbind[OF returns_round[where limit = limit, OF asked[OF assms(1,2)]]])
       (auto simp: assms(3) within_rounds_def intro!: returns_preturn split: round_result.splits)
qed (auto simp: within_rounds_def intro: returns_preturn)

lemma capped_rounds:
  assumes "answered_by A env" "one_cap limit A"
  shows "returns (within_rounds m 2 (\<lambda>a. a = action \<or> capped limit e action a) g)
    (negotiate_rounds env c run_id diagnosis e cs agent m i action g)"
proof (cases m)
  case (Suc n)
  have again: "returns (within_rounds m 2 (\<lambda>a. a = action \<or> capped limit e action a) g)
      (negotiate_rounds env c run_id diagnosis e cs agent n (i + 1) b g')"
    if "capped limit e action b" "ng_rounds g' = ng_rounds g @ [r]" for b g' r
    by (rule returns_mono[OF settled_rounds[OF assms capped_settles[OF that(1)]]])
       (use that Suc in \<open>auto simp: within_rounds_def split: option.splits\<close>)
  show ?thesis unfolding Suc negotiate_rounds.simps unfolding Suc[symmetric]
    by (rule returns_pbind[OF returns_round[where limit = limit, OF asked[OF assms]]])
       (auto simp: within_rounds_def intro!: returns_preturn again split: round_result.splits)
qed (auto simp: within_rounds_def intro: returns_preturn)

lemma capped_negotiation:
  assumes "answered_by A env" "one_cap limit A"
  shows "returns (within_rounds (nat (pf_max_negotiation_rounds (mc_protocol c))) 2
      (\<lambda>a. a = rc_action candidate \<or> capped limit e (rc_action candidate) a) empty_negotiation)
    (negotiate env c run_id diagnosis e (candidate # cs) offset)"
  unfolding negotiate_def list.case by (rule returns_pbind_any) (rule capped_rounds[OF assms])

end

section \<open>The deterministic adapters\<close>

fun adapter_cap :: "adapter_object \<Rightarrow> int option" where
  "adapter_cap (CostAdapter b g) = Some (cg_max_cost_safe_replicas g)"
| "adapter_cap _ = None"

lemma opt_json_VInt [simp]: "opt_json VInt x = VNone \<longleftrightarrow> x = None" "output_int (opt_json VInt x) = x"
  by (cases x; simp add: opt_json_def)+

lemma action_value_some [simp]: "action_value a \<noteq> VNone" "is_recovery_action (action_value a)"
  by (simp_all add: action_value_def)

lemma validated_action_value:
  "validate_recovery_action_output n (action_value a) = Inr b \<Longrightarrow> b = a"
  by (cases a) (auto simp: action_value_def require_output_text_def split: if_splits)

lemma check_review_value:
  "check_peer_review n d run_id i version (review_value name d ctx v why suggested confidence refs) = Inr r \<Longrightarrow>
     pr_verdict r = v \<and> pr_suggested_action r = suggested"
  by (cases suggested)
     (auto simp: review_value_def opt_json_def dest: validated_action_value split: if_splits)

lemma cost_revision_capped:
  "cost_revision g e action = Some b \<Longrightarrow> capped (cg_max_cost_safe_replicas g) e action b"
  by (auto simp: cost_revision_def capped_def Let_def split: if_splits option.splits)

interpretation deterministic: capping_reviewers adapter_review adapter_cap
proof unfold_locales
  fix d action name run_id i version a e ctx r
  assume d: "sd_proposed_action d = Some action"
    and r: "check_peer_review name d run_id i version (adapter_review a d e ctx) = Inr r"
  show "(pr_verdict r = REVISE \<longrightarrow> pr_suggested_action r \<noteq> None) \<and>
    (\<forall>b. pr_suggested_action r = Some b \<longrightarrow> (\<exists>limit. adapter_cap a = Some limit \<and> capped limit e action b))"
    using r d by (cases a)
      (auto simp: adapter_review_def Let_def dest!: check_review_value cost_revision_capped split: if_splits)
qed

lemma answered_by_table:
  "deterministic.answered_by (snd ` set table) (deterministic_env table env)"
  by (auto simp: deterministic.answered_by_def deterministic_env_def ask_adapter_def
      dest!: map_of_SomeD split: option.splits) force

definition unit_confidence :: "pyval \<Rightarrow> bool" where
  "unit_confidence v = (require_output_confidence v '''' = Inr ())"

lemma require_unit_confidence [simp]: "require_output_confidence v label = Inr u \<longleftrightarrow> unit_confidence v"
  by (cases v) (auto simp: unit_confidence_def)

lemma unit_confidence_VFloat [simp]: "unit_confidence (VFloat x) = in_unit x"
  by (auto simp: unit_confidence_def)

definition named_action :: "RecoveryAction \<Rightarrow> bool" where
  "named_action a \<longleftrightarrow> \<not> is_blank (ra_namespace a) \<and> \<not> is_blank (ra_deployment a)"

lemma action_value_validated:
  "named_action a \<Longrightarrow> validate_recovery_action_output n (action_value a) = Inr a"
  by (cases a) (auto simp: action_value_def named_action_def require_output_text_def required_def)

text \<open>A text that starts with a printable ASCII character is not blank.\<close>

lemma printable_not_space: "33 \<le> code_point c \<Longrightarrow> code_point c < 127 \<Longrightarrow> \<not> is_space c"
  by (simp add: is_space_def Let_def)

lemma nonblank_Cons [simp]: "33 \<le> code_point c \<Longrightarrow> code_point c < 127 \<Longrightarrow> \<not> is_blank (c # s)"
  using printable_not_space[of c] by (auto simp: is_blank_iff)

lemma is_blank_append [simp]: "is_blank (s @ t) \<longleftrightarrow> is_blank s \<and> is_blank t"
  by (auto simp: is_blank_iff)

lemma review_value_checked:
  assumes "\<not> is_blank why" "unit_confidence confidence" "\<forall>b. suggested = Some b \<longrightarrow> named_action b"
  shows "\<exists>r. check_peer_review name d run_id i version (review_value name d ctx v why suggested confidence refs) = Inr r"
  using assms
  by (cases suggested)
     (auto simp: review_value_def opt_json_def require_output_text_def required_def action_value_validated)

lemma kind_value_nonblank [simp]: "\<not> is_blank (kind_value k)"
  by (cases k) (simp_all add: code_point_def)

lemma reviewer_reason [simp]:
  "\<not> is_blank (dn_reason (infra_review i a))" "\<not> is_blank (dn_reason (cost_review k a))"
  by (auto simp: infra_review_def cost_review_def plain_decision_def code_point_def split: option.split)

lemma in_unit_lit [simp]: "0 \<le> x \<Longrightarrow> x \<le> 1 \<Longrightarrow> in_unit (lit x)"
  using round64_unit[of x] by (auto simp: in_unit_def)

lemma adapter_review_checked:
  assumes "sd_proposed_action d = Some action" "named_action action" "unit_confidence (dg_confidence (rx_diagnosis ctx))"
  shows "\<exists>r. check_peer_review (adapter_name a) d run_id i version (adapter_review a d e ctx) = Inr r"
proof (cases a)
  case (CostAdapter b g)
  have "named_action c" if "cost_revision g e action = Some c" for c
    using cost_revision_capped[OF that] assms(2) by (auto simp: capped_def named_action_def)
  with assms show ?thesis unfolding CostAdapter
    by (auto simp: adapter_review_def Let_def simp del: check_peer_review.simps intro!: review_value_checked)
qed (use assms in \<open>auto simp: adapter_review_def Let_def code_point_def simp del: check_peer_review.simps intro!: review_value_checked\<close>)

text \<open>A policy whose causes are texts and whose rewards are finite, as the parser of the policy reads the causes.\<close>

definition usable_policy :: "AgentDecisionPolicy \<Rightarrow> bool" where
  "usable_policy pol \<longleftrightarrow> list_all (\<lambda>mp. \<not> is_blank (mp_cause mp)) (map snd (dp_metric_policies pol)) \<and>
     list_all is_finite (map snd (dp_action_rewards pol))"

lemma find_Some_set: "List.find P xs = Some x \<Longrightarrow> x \<in> set xs"
  by (auto simp: find_Some_iff)

lemma usable_cause: "usable_policy pol \<Longrightarrow> metric_policy_for pol m = Some mp \<Longrightarrow> \<not> is_blank (mp_cause mp)"
  by (auto simp only: usable_policy_def metric_policy_for_def Let_def list_all_iff dest!: find_Some_set)

lemma usable_reward: "usable_policy pol \<Longrightarrow> is_finite x \<Longrightarrow> is_finite (reward_for pol a x)"
  by (auto simp: usable_policy_def reward_for_def list_all_iff dest!: map_of_SomeD split: option.splits)

definition sound_finding :: "ha_finding \<Rightarrow> bool" where
  "sound_finding f \<longleftrightarrow> \<not> is_blank (hf_cause f) \<and> \<not> is_blank (hf_severity f) \<and> in_unit (hf_confidence f)"

lemma in_unit_fmax [simp]: "in_unit x \<Longrightarrow> in_unit y \<Longrightarrow> in_unit (fmax x y)"
  by (simp add: fmax_def)

lemma severity_label_nonblank [simp]: "\<not> is_blank (severity_label p v t)"
  by (simp add: severity_label_def code_point_def)

lemma sound_finding_of: "usable_policy pol \<Longrightarrow> sound_finding (ha_finding_of pol e metric threshold)"
proof -
  assume pol: "usable_policy pol"
  let ?p = "metric_policy_for pol metric"
  have "sound_finding (metric_finding pol ?p v threshold)" for v
    using usable_cause[OF pol, of metric]
    by (auto simp: metric_finding_def sound_finding_def Let_def code_point_def split: option.splits)
  then have "sound_finding (restart_finding pol e m (metric_finding pol ?p v threshold))" for m v
    by (auto simp: restart_finding_def sound_finding_def Let_def code_point_def)
  then show ?thesis
    by (auto simp: ha_finding_of_def replica_finding_def sound_finding_def Let_def code_point_def)
qed

lemma diagnosis_checked:
  assumes "\<not> is_blank cause" "\<not> is_blank severity" "unit_confidence confidence" "\<not> is_blank reason" "is_finite reward"
  shows "check_diagnosis_output (hg_name g) run_id i version refs (ev_deployment e)
     (VTuple [diagnosis_value \<lparr>dg_service = VStr (ev_deployment e), dg_cause = cause, dg_severity = severity,
          dg_confidence = confidence, dg_evidence = ev\<rparr>,
        diagnosis_decision g b approved reason confidence old reward]) =
     Inr (\<lparr>dg_service = VStr (ev_deployment e), dg_cause = cause, dg_severity = severity,
          dg_confidence = confidence, dg_evidence = ev\<rparr>,
       \<lparr>sd_decision_id = '''', sd_run_id = run_id, sd_round_index = i, sd_agent = hg_name g,
          sd_decision_type = ''ha_diagnosis'', sd_proposed_action = None, sd_approved = approved, sd_reason = reason,
          sd_confidence = confidence, sd_evidence_refs = refs, sd_reward = VFloat reward,
          sd_policy_version = version\<rparr>)"
  using assms
  by (simp add: check_diagnosis_output_def diagnosis_value_def diagnosis_decision_def check_diagnosis_def
      require_output_text_def required_def code_point_def)

lemma in_unit_0 [simp]: "in_unit (FFin 0)"
  by (simp add: in_unit_def)

lemma in_unit_finite: "in_unit x \<Longrightarrow> is_finite x"
  by (simp add: in_unit_def)

lemma adapter_diagnose_checked:
  assumes "usable_policy (hg_policy g)"
  shows "\<exists>d sd. check_diagnosis_output (hg_name g) run_id i version refs (ev_deployment e)
      (adapter_diagnose (HAAdapter b g) e metric threshold) = Inr (d, sd) \<and>
    (sd_approved sd \<longleftrightarrow> calls_for_recovery (dg_cause d))"
proof -
  have rewards: "is_finite (reward_for (hg_policy g) k (lit (90 / 100)))" "is_finite (reward_for (hg_policy g) k (lit (20 / 100)))" for k
    by (intro usable_reward assms in_unit_finite in_unit_lit; simp)+
  have f: "sound_finding (ha_finding_of (hg_policy g) e metric threshold)" by (rule sound_finding_of[OF assms])
  show ?thesis
  proof (cases "requested_metric_is_present g e metric")
    case True
    have "\<not> is_blank (diagnosis_reason h)" for h by (simp add: diagnosis_reason_def code_point_def)
    with True f rewards show ?thesis
      by (auto simp: diagnose_evidence_def Let_def diagnosis_checked sound_finding_def)
  next
    case False
    with rewards show ?thesis
      by (auto simp: missing_metric_diagnosis_def Let_def diagnosis_checked calls_for_recovery_def code_point_def)
  qed
qed

lemma generated_named:
  assumes "\<not> is_blank (ev_namespace e)" "\<not> is_blank (ev_deployment e)"
  shows "\<forall>c \<in> set (generate_recovery_candidates g (ev_namespace e) (ev_deployment e) d e). named_action (rc_action c)"
  using assms by (auto simp only: generate_recovery_candidates_def Let_def set_sort)
    (auto simp: observe_candidate_def restart_candidate_def scale_candidate_def named_action_def)

lemma generated_kinds_mset:
  "mset (map ra_kind (map rc_action (generate_recovery_candidates g ns dep d e))) =
     {#OBSERVE_ONLY, ROLLOUT_RESTART, SCALE_OUT#}"
  by (simp only: generate_recovery_candidates_def Let_def mset_map mset_sort)
     (simp add: observe_candidate_def restart_candidate_def scale_candidate_def)

lemma check_diagnosis_confidence:
  assumes "check_diagnosis n service d = Inr x"
  shows "unit_confidence (dg_confidence x)"
proof (cases d)
  case (VDiagnosis s c sev conf ev)
  then show ?thesis using assms by (cases ev) (auto simp: check_diagnosis_def)
qed (use assms in \<open>simp_all add: check_diagnosis_def\<close>)

lemma checked_confidence:
  "check_diagnosis_output n run_id i version refs service v = Inr (d, sd) \<Longrightarrow> unit_confidence (dg_confidence d)"
  by (auto simp: check_diagnosis_output_def dest: check_diagnosis_confidence split: pyval.splits list.splits)

lemma adapter_propose_checked:
  assumes "\<not> is_blank (ev_namespace e)" "\<not> is_blank (ev_deployment e)"
  shows "normalize_proposal_output n (adapter_propose (ApplicationAdapter b g) d e) =
    Inr (map rc_action (generate_recovery_candidates g (ev_namespace e) (ev_deployment e) d e))"
proof -
  have "rmap (validate_recovery_action_output n) (map (action_value \<circ> rc_action) cs) = Inr (map rc_action cs)"
    if "\<forall>c \<in> set cs. named_action (rc_action c)" for cs
    using that by (induction cs) (simp_all add: action_value_validated)
  from this[OF generated_named[OF assms]] show ?thesis
    by (simp add: normalize_proposal_output_def list_ex_iff del: map_map)
qed

definition reported_assessment :: "RecoveryAssessment \<Rightarrow> bool" where
  "reported_assessment x \<longleftrightarrow> in_unit (as_recovery_confidence x) \<and>
     (as_recovery_success x \<or> \<not> is_blank (as_remaining_problem x))"

lemma post_review_value_checked:
  assumes "\<not> is_blank reason" "in_unit confidence"
  shows "\<exists>r. check_post_review n run_id action_id version (post_review_value n approved reason confidence refs v) = Inr r"
  using assms by (auto simp: post_review_value_def require_output_text_def required_def)

lemma adapter_post_review_checked:
  assumes "reported_assessment x"
  shows "\<exists>r. check_post_review (adapter_name a) run_id action_id version (adapter_post_review a action x e) = Inr r"
  using assms
  by (cases a) (auto simp: reported_assessment_def Let_def code_point_def simp del: check_post_review.simps
      intro!: post_review_value_checked)

text \<open>
  C28. Negotiation among the deterministic agents ends after two rounds. If the adapters of the table are
  the deterministic ones and its cost agents share one limit, a negotiation that returns has had at most two
  rounds; what it agrees on is the candidate itself or, where the candidate scales out beyond the limit, the
  same action with that limit, which still scales out; and with at least two rounds allowed it ends without
  an agreement only after a rejection, never because the rounds ran out.
\<close>

theorem deterministic_negotiation:
  assumes "\<forall>a \<in> snd ` set table. adapter_cap a = None \<or> adapter_cap a = Some limit"
  shows "returns (within_rounds (nat (pf_max_negotiation_rounds (mc_protocol c))) 2
      (\<lambda>a. a = rc_action candidate \<or> capped limit e (rc_action candidate) a) empty_negotiation)
    (negotiate (deterministic_env table env) c run_id diagnosis e (candidate # cs) offset)"
  by (rule deterministic.capped_negotiation[OF answered_by_table])
     (use assms in \<open>auto simp: deterministic.one_cap_def\<close>)

text \<open>
  C31. The coordinator accepts every output of the deterministic adapters. With a policy of named causes and
  finite rewards, a target with a name, a diagnosis with a confidence in the unit interval and an assessment
  that names the remaining problem of a failure: the diagnosis passes, with a decision that approves exactly
  the causes that call for recovery; the proposals pass, one for each kind of action; and every review and
  every review after the execution of every adapter passes.
\<close>

theorem adapter_outputs_accepted:
  assumes "usable_policy (hg_policy g)" "\<not> is_blank (ev_namespace e)" "\<not> is_blank (ev_deployment e)"
  shows "(\<exists>d sd. check_diagnosis_output (hg_name g) run_id i version refs (ev_deployment e)
        (adapter_diagnose (HAAdapter b g) e metric threshold) = Inr (d, sd) \<and>
        (sd_approved sd \<longleftrightarrow> calls_for_recovery (dg_cause d)) \<and> unit_confidence (dg_confidence d)) \<and>
    (\<exists>actions. normalize_proposal_output (pg_name h) (adapter_propose (ApplicationAdapter b' h) diagnosis e) = Inr actions \<and>
        mset (map ra_kind actions) = {#OBSERVE_ONLY, ROLLOUT_RESTART, SCALE_OUT#} \<and>
        (\<forall>action \<in> set actions. named_action action)) \<and>
    (\<forall>a action d ctx. sd_proposed_action d = Some action \<longrightarrow> named_action action \<longrightarrow>
        unit_confidence (dg_confidence (rx_diagnosis ctx)) \<longrightarrow>
        (\<exists>r. check_peer_review (adapter_name a) d run_id i version (adapter_review a d e ctx) = Inr r)) \<and>
    (\<forall>a action x. reported_assessment x \<longrightarrow>
        (\<exists>r. check_post_review (adapter_name a) run_id action_id version (adapter_post_review a action x e) = Inr r))"
proof (intro conjI allI impI)
  obtain d sd where "check_diagnosis_output (hg_name g) run_id i version refs (ev_deployment e)
        (adapter_diagnose (HAAdapter b g) e metric threshold) = Inr (d, sd)"
    "sd_approved sd \<longleftrightarrow> calls_for_recovery (dg_cause d)"
    using adapter_diagnose_checked[OF assms(1)] by metis
  with checked_confidence show "\<exists>d sd. check_diagnosis_output (hg_name g) run_id i version refs (ev_deployment e)
        (adapter_diagnose (HAAdapter b g) e metric threshold) = Inr (d, sd) \<and>
        (sd_approved sd \<longleftrightarrow> calls_for_recovery (dg_cause d)) \<and> unit_confidence (dg_confidence d)" by blast
next
  show "\<exists>actions. normalize_proposal_output (pg_name h) (adapter_propose (ApplicationAdapter b' h) diagnosis e) = Inr actions \<and>
        mset (map ra_kind actions) = {#OBSERVE_ONLY, ROLLOUT_RESTART, SCALE_OUT#} \<and>
        (\<forall>action \<in> set actions. named_action action)"
    unfolding adapter_propose_checked[OF assms(2,3)]
    using generated_kinds_mset generated_named[OF assms(2,3)] by (auto simp del: mset_map)
qed (auto intro: adapter_review_checked adapter_post_review_checked)

definition demo_agent_binding :: ProtocolAgentBinding where
  "demo_agent_binding = (demo_binding ''CostOptimizationAgent'' ''budget'' 1)
     \<lparr>pb_implementation_id := ''deterministic-cost'', pb_runtime := ''deterministic''\<rparr>"

theorem deterministic_negotiation_witness:
  "\<forall>env. returns (within_rounds 2 2 (\<lambda>a. a = demo_scale \<or> capped 3 (demo_snapshot 1 1) demo_scale a) empty_negotiation)
     (negotiate (deterministic_env [(''CostOptimizationAgent'', CostAdapter demo_agent_binding default_cost_agent)]
          (env :: unit coordinator_env)) demo_coordinator ''run'' demo_diagnosis (demo_snapshot 1 1)
        [demo_candidate\<lparr>rc_action := demo_scale\<rparr>] 0)"
proof
  fix env :: "unit coordinator_env"
  have "nat (pf_max_negotiation_rounds (mc_protocol demo_coordinator)) = 2"
    by (simp add: demo_coordinator_def demo_profile_def)
  with deterministic_negotiation[of "[(''CostOptimizationAgent'', CostAdapter demo_agent_binding default_cost_agent)]" 3
      demo_coordinator "demo_candidate\<lparr>rc_action := demo_scale\<rparr>" "demo_snapshot 1 1" env "''run''" demo_diagnosis "[]" 0]
  show "returns (within_rounds 2 2 (\<lambda>a. a = demo_scale \<or> capped 3 (demo_snapshot 1 1) demo_scale a) empty_negotiation)
     (negotiate (deterministic_env [(''CostOptimizationAgent'', CostAdapter demo_agent_binding default_cost_agent)] env)
        demo_coordinator ''run'' demo_diagnosis (demo_snapshot 1 1) [demo_candidate\<lparr>rc_action := demo_scale\<rparr>] 0)"
    by (simp add: default_cost_agent_def)
qed

theorem adapter_outputs_accepted_witness:
  "(\<exists>actions. normalize_proposal_output ''app'' (adapter_propose (ApplicationAdapter demo_agent_binding
        \<lparr>pg_name = ''app'', pg_default_cpu_replicas = 3, pg_policy = demo_policy\<rparr>) demo_diagnosis (demo_snapshot 1 0)) = Inr actions \<and>
      mset (map ra_kind actions) = {#OBSERVE_ONLY, ROLLOUT_RESTART, SCALE_OUT#}) \<and>
   (\<exists>r. check_post_review ''CostOptimizationAgent'' ''run'' ''action'' ''1'' (adapter_post_review
      (CostAdapter demo_agent_binding default_cost_agent) demo_scale
      \<lparr>as_recovery_success = True, as_metric_improvement = FFin 0, as_remaining_problem = '''',
       as_recovery_confidence = FFin 1, as_replanning_required = False\<rparr> (demo_snapshot 1 0)) = Inr r)"
proof -
  have usable: "usable_policy (hg_policy \<lparr>hg_name = ''ha'', hg_policy = demo_policy\<rparr>)"
    by (simp add: usable_policy_def demo_policy_def)
  have named: "\<not> is_blank (ev_namespace (demo_snapshot 1 0))" "\<not> is_blank (ev_deployment (demo_snapshot 1 0))"
    by (simp_all add: demo_snapshot_def code_point_def)
  have cost: "adapter_name (CostAdapter demo_agent_binding default_cost_agent) = ''CostOptimizationAgent''"
    by (simp add: default_cost_agent_def)
  have fine: "reported_assessment \<lparr>as_recovery_success = True, as_metric_improvement = FFin 0, as_remaining_problem = '''',
       as_recovery_confidence = FFin 1, as_replanning_required = False\<rparr>"
    by (simp add: reported_assessment_def in_unit_def)
  note all = adapter_outputs_accepted[OF usable named, where run_id = "''run''" and version = "''1''" and
    action_id = "''action''" and i = 0 and refs = "[]" and b = demo_agent_binding and metric = "''cpu''" and
    threshold = "FFin 1" and diagnosis = demo_diagnosis and b' = demo_agent_binding and
    h = "\<lparr>pg_name = ''app'', pg_default_cpu_replicas = 3, pg_policy = demo_policy\<rparr>"]
  show ?thesis
    by (rule conjI[OF _ all[THEN conjunct2, THEN conjunct2, THEN conjunct2, rule_format, OF fine,
        of "CostAdapter demo_agent_binding default_cost_agent" demo_scale, unfolded cost]])
       (use all[THEN conjunct2, THEN conjunct1] in auto)
qed

end
