(* ===== verification/PartitionContext.thy ===== *)
theory PartitionContext
  imports PartitionModels Protocol
begin

text \<open>
  \<open>partition_context.py\<close> and \<open>partition_coordination.py\<close>: the snapshot of the system a plan is made
  for, the approved coordination plan, and the planning request that joins them; and the adapter that
  lifts a round plan of the first version to such a request. As in \<open>PartitionModels\<close>, every record is
  read from an untrusted object. The hash function is an argument.
\<close>

section \<open>Canonical text\<close>

text \<open>\<open>json.dumps\<close> with sorted keys and \<open>ensure_ascii=False\<close>, which writes infinities and NaN by name.\<close>

fun json_float :: "pyfloat \<Rightarrow> string" where
  "json_float FNaN = ''NaN''"
| "json_float FPInf = ''Infinity''"
| "json_float FNInf = ''-Infinity''"
| "json_float x = float_repr x"

fun compact_json :: "pyval \<Rightarrow> string option" where
  "compact_json VNone = Some ''null''"
| "compact_json (VBool b) = Some (if b then ''true'' else ''false'')"
| "compact_json (VInt i) = Some (int_str i)"
| "compact_json (VFloat x) = Some (json_float x)"
| "compact_json (VStr s) = Some (json_string s)"
| "compact_json (VList vs) =
     map_option (\<lambda>ts. ''['' @ join '','' ts @ '']'') (opt_all (map compact_json vs))"
| "compact_json (VTuple vs) =
     map_option (\<lambda>ts. ''['' @ join '','' ts @ '']'') (opt_all (map compact_json vs))"
| "compact_json (VDict kvs) =
     map_option (\<lambda>ts. ''{'' @ join '','' ts @ ''}'')
       (opt_all (map snd (sort_key fst
         (map (\<lambda>(k, v). (k, map_option (\<lambda>t. json_string k @ '':'' @ t) (compact_json v))) kvs))))"
| "compact_json _ = None"

definition json_digest :: "(string \<Rightarrow> string) \<Rightarrow> payload \<Rightarrow> (exn, string) result" where
  "json_digest sha256 d = (case compact_json (VDict d) of
       None \<Rightarrow> Inl (TypeError ''Object is not JSON serializable'')
     | Some text \<Rightarrow> Inr (sha256 text))"

section \<open>Readers of the snapshot\<close>

definition snapshot_error :: "string \<Rightarrow> exn" where
  "snapshot_error m = PartitionContractError ''invalid_system_snapshot'' m"

definition snapshot_mapping :: "pyval \<Rightarrow> string \<Rightarrow> (exn, payload) result" where
  "snapshot_mapping v f = (case v of VDict d \<Rightarrow> Inr d | _ \<Rightarrow> Inl (snapshot_error (f @ '' must be an object'')))"

definition snapshot_sequence :: "pyval \<Rightarrow> string \<Rightarrow> (exn, pyval list) result" where
  "snapshot_sequence v f = (case v of VList vs \<Rightarrow> Inr vs | VTuple vs \<Rightarrow> Inr vs
     | _ \<Rightarrow> Inl (snapshot_error (f @ '' must be an array'')))"

definition snapshot_text :: "pyval \<Rightarrow> string \<Rightarrow> (exn, string) result" where
  "snapshot_text v f =
     (if stripped v = '''' then Inl (snapshot_error (f @ '' is required'')) else Inr (stripped v))"

definition snapshot_int :: "pyval \<Rightarrow> string \<Rightarrow> int \<Rightarrow> (exn, int) result" where
  "snapshot_int v f minimum =
     (let bad = Inl (snapshot_error (f @ '' must be an integer of at least '' @ int_str minimum)) in
      case v of VInt i \<Rightarrow> if i < minimum then bad else Inr i | _ \<Rightarrow> bad)"

definition snapshot_float :: "pyval \<Rightarrow> string \<Rightarrow> (exn, pyfloat) result" where
  "snapshot_float v f =
     (let not_numeric = Inl (snapshot_error (f @ '' must be numeric'')) in
      case v of
        VBool b \<Rightarrow> not_numeric
      | _ \<Rightarrow>
          (case py_float v of
             Inl (TypeError m) \<Rightarrow> not_numeric
           | Inl (ValueError m) \<Rightarrow> not_numeric
           | Inl e \<Rightarrow> Inl e
           | Inr x \<Rightarrow>
               (if \<not> is_finite x \<or> flt x zero_float then Inl (snapshot_error (f @ '' must be at least 0.0''))
                else Inr x)))"

definition snapshot_unique :: "string list \<Rightarrow> string \<Rightarrow> (exn, unit) result" where
  "snapshot_unique xs f = raise_if (\<not> distinct xs) (snapshot_error (f @ '' must be unique''))"

section \<open>Model structure, registry and forecast\<close>

record ModelBlock =
  bk_block_id :: string
  bk_layer_names :: "string list"
  bk_parameter_bytes :: int
  bk_activation_bytes :: int
  bk_working_memory_bytes :: int

definition block_of :: "pyval \<Rightarrow> (exn, ModelBlock) result" where
  "block_of v =
     rbind (snapshot_mapping v ''model_structure_profile.blocks[]'') (\<lambda>d.
     rbind (snapshot_sequence (vget d ''layer_names'') ''model_structure_profile.blocks[].layer_names'') (\<lambda>items.
     rbind (rmap (\<lambda>i. snapshot_text i ''model_structure_profile.blocks[].layer_names[]'') items) (\<lambda>names.
     rbind (raise_if (names = [])
       (snapshot_error ''model_structure_profile.blocks[].layer_names is required'')) (\<lambda>_.
     rbind (snapshot_unique names ''model_structure_profile.blocks[].layer_names'') (\<lambda>_.
     rbind (snapshot_text (vget d ''block_id'') ''model_structure_profile.blocks[].block_id'') (\<lambda>i.
     rbind (snapshot_int (vget d ''parameter_bytes'') ''model_structure_profile.blocks[].parameter_bytes'' 0)
       (\<lambda>parameters.
     rbind (snapshot_int (vget d ''activation_bytes'') ''model_structure_profile.blocks[].activation_bytes'' 0)
       (\<lambda>activation.
     rbind (snapshot_int (vget d ''working_memory_bytes'')
       ''model_structure_profile.blocks[].working_memory_bytes'' 0) (\<lambda>working.
     Inr \<lparr>bk_block_id = i, bk_layer_names = names, bk_parameter_bytes = parameters,
       bk_activation_bytes = activation, bk_working_memory_bytes = working\<rparr>)))))))))"

definition block_dict :: "ModelBlock \<Rightarrow> payload" where
  "block_dict b =
     [(''block_id'', VStr (bk_block_id b)), (''layer_names'', VList (map VStr (bk_layer_names b))),
      (''parameter_bytes'', VInt (bk_parameter_bytes b)), (''activation_bytes'', VInt (bk_activation_bytes b)),
      (''working_memory_bytes'', VInt (bk_working_memory_bytes b))]"

record ModelStructureProfile =
  sp_profile_id :: string
  sp_model_id :: string
  sp_model_version :: string
  sp_blocks :: "ModelBlock list"

definition structure_of :: "pyval \<Rightarrow> (exn, ModelStructureProfile) result" where
  "structure_of v =
     rbind (snapshot_mapping v ''model_structure_profile'') (\<lambda>d.
     rbind (snapshot_sequence (vget d ''blocks'') ''model_structure_profile.blocks'') (\<lambda>items.
     rbind (rmap block_of items) (\<lambda>blocks.
     rbind (raise_if (blocks = []) (snapshot_error ''model_structure_profile.blocks is required'')) (\<lambda>_.
     rbind (snapshot_unique (map bk_block_id blocks) ''model_structure_profile.blocks.block_id'') (\<lambda>_.
     rbind (snapshot_unique (concat (map bk_layer_names blocks)) ''model_structure_profile.blocks.layer_names'') (\<lambda>_.
     rbind (snapshot_text (vget d ''profile_id'') ''model_structure_profile.profile_id'') (\<lambda>i.
     rbind (snapshot_text (vget d ''model_id'') ''model_structure_profile.model_id'') (\<lambda>m.
     rbind (snapshot_text (vget d ''model_version'') ''model_structure_profile.model_version'') (\<lambda>version.
     Inr \<lparr>sp_profile_id = i, sp_model_id = m, sp_model_version = version, sp_blocks = blocks\<rparr>)))))))))"

definition structure_dict :: "ModelStructureProfile \<Rightarrow> payload" where
  "structure_dict p =
     [(''profile_id'', VStr (sp_profile_id p)), (''model_id'', VStr (sp_model_id p)),
      (''model_version'', VStr (sp_model_version p)), (''blocks'', VList (map (VDict \<circ> block_dict) (sp_blocks p)))]"

record ModelRegistryContext =
  mr_registry_id :: string
  mr_registry_version :: string
  mr_model_id :: string
  mr_approved_model_version :: string

definition model_registry_of :: "pyval \<Rightarrow> (exn, ModelRegistryContext) result" where
  "model_registry_of v =
     rbind (snapshot_mapping v ''model_registry_context'') (\<lambda>d.
     rbind (snapshot_text (vget d ''registry_id'') ''model_registry_context.registry_id'') (\<lambda>i.
     rbind (snapshot_text (vget d ''registry_version'') ''model_registry_context.registry_version'') (\<lambda>version.
     rbind (snapshot_text (vget d ''model_id'') ''model_registry_context.model_id'') (\<lambda>m.
     rbind (snapshot_text (vget d ''approved_model_version'') ''model_registry_context.approved_model_version'')
       (\<lambda>approved.
     Inr \<lparr>mr_registry_id = i, mr_registry_version = version, mr_model_id = m,
       mr_approved_model_version = approved\<rparr>)))))"

definition model_registry_dict :: "ModelRegistryContext \<Rightarrow> payload" where
  "model_registry_dict r =
     [(''registry_id'', VStr (mr_registry_id r)), (''registry_version'', VStr (mr_registry_version r)),
      (''model_id'', VStr (mr_model_id r)), (''approved_model_version'', VStr (mr_approved_model_version r))]"

record WorkloadForecast =
  wf_forecast_id :: string
  wf_horizon_seconds :: int
  wf_expected_request_rate :: pyfloat
  wf_expected_batch_size :: int
  wf_expected_sequence_length :: int
  wf_uncertainty :: pyfloat
  wf_source :: string

definition forecast_of :: "pyval \<Rightarrow> (exn, WorkloadForecast) result" where
  "forecast_of v =
     rbind (snapshot_mapping v ''workload_forecast'') (\<lambda>d.
     rbind (snapshot_float (vget d ''uncertainty'') ''workload_forecast.uncertainty'') (\<lambda>uncertainty.
     rbind (raise_if (flt (FFin 1) uncertainty)
       (snapshot_error ''workload_forecast.uncertainty must be at most 1.0'')) (\<lambda>_.
     rbind (snapshot_text (vget d ''forecast_id'') ''workload_forecast.forecast_id'') (\<lambda>i.
     rbind (snapshot_int (vget d ''horizon_seconds'') ''workload_forecast.horizon_seconds'' 1) (\<lambda>horizon.
     rbind (snapshot_float (vget d ''expected_request_rate'') ''workload_forecast.expected_request_rate'') (\<lambda>rate.
     rbind (snapshot_int (vget d ''expected_batch_size'') ''workload_forecast.expected_batch_size'' 1) (\<lambda>batch.
     rbind (snapshot_int (vget d ''expected_sequence_length'') ''workload_forecast.expected_sequence_length'' 1)
       (\<lambda>sequence.
     rbind (snapshot_text (vget d ''source'') ''workload_forecast.source'') (\<lambda>source.
     Inr \<lparr>wf_forecast_id = i, wf_horizon_seconds = horizon, wf_expected_request_rate = rate,
       wf_expected_batch_size = batch, wf_expected_sequence_length = sequence, wf_uncertainty = uncertainty,
       wf_source = source\<rparr>)))))))))"

definition forecast_dict :: "WorkloadForecast \<Rightarrow> payload" where
  "forecast_dict w =
     [(''forecast_id'', VStr (wf_forecast_id w)), (''horizon_seconds'', VInt (wf_horizon_seconds w)),
      (''expected_request_rate'', VFloat (wf_expected_request_rate w)),
      (''expected_batch_size'', VInt (wf_expected_batch_size w)),
      (''expected_sequence_length'', VInt (wf_expected_sequence_length w)),
      (''uncertainty'', VFloat (wf_uncertainty w)), (''source'', VStr (wf_source w))]"

section \<open>The system snapshot\<close>

record PartitionSystemContext =
  cx_snapshot_id :: string
  cx_snapshot_version :: string
  cx_collected_at :: string
  cx_model_structure_profile :: ModelStructureProfile
  cx_model_registry_context :: ModelRegistryContext
  cx_devices :: "ResourceDevice list"
  cx_network_links :: "NetworkLink list"
  cx_workload_forecast :: "WorkloadForecast option"

definition link_name :: "NetworkLink \<Rightarrow> string" where
  "link_name l = nl_source_device l @ ''->'' @ nl_target_device l"

definition context_of :: "pyval \<Rightarrow> (exn, PartitionSystemContext) result" where
  "context_of v =
     rbind (snapshot_mapping v ''system_context'') (\<lambda>d.
     rbind (snapshot_sequence (vget d ''devices'') ''system_context.devices'') (\<lambda>ds.
     rbind (rmap (\<lambda>i. rbind (snapshot_mapping i ''system_context.devices[]'') device_of) ds) (\<lambda>devices.
     rbind (raise_if (devices = []) (snapshot_error ''system_context.devices is required'')) (\<lambda>_.
     rbind (snapshot_unique (map rd_device_id devices) ''system_context.devices'') (\<lambda>_.
     rbind (snapshot_sequence (vget d ''network_links'') ''system_context.network_links'') (\<lambda>ls.
     rbind (rmap (\<lambda>i. rbind (snapshot_mapping i ''system_context.network_links[]'') link_of) ls) (\<lambda>links.
     rbind (snapshot_unique (map link_name links) ''system_context.network_links'') (\<lambda>_.
     rbind (rcheck (\<lambda>l. raise_if (nl_source_device l \<notin> set (map rd_device_id devices) \<or>
           nl_target_device l \<notin> set (map rd_device_id devices))
         (snapshot_error (''network link '' @ link_name l @ '' references an unknown device''))) links) (\<lambda>_.
     rbind (snapshot_mapping (vget d ''model_structure_profile'') ''model_structure_profile'') (\<lambda>p.
     rbind (structure_of (VDict p)) (\<lambda>profile.
     rbind (snapshot_mapping (vget d ''model_registry_context'') ''model_registry_context'') (\<lambda>r.
     rbind (model_registry_of (VDict r)) (\<lambda>registry.
     rbind (raise_if (sp_model_id profile \<noteq> mr_model_id registry \<or>
           sp_model_version profile \<noteq> mr_approved_model_version registry)
         (PartitionContractError ''model_version_mismatch''
            ''model structure profile and model registry context must match'')) (\<lambda>_.
     rbind (snapshot_text (vget d ''snapshot_id'') ''system_context.snapshot_id'') (\<lambda>i.
     rbind (snapshot_text (vget d ''snapshot_version'') ''system_context.snapshot_version'') (\<lambda>version.
     rbind (snapshot_text (vget d ''collected_at'') ''system_context.collected_at'') (\<lambda>collected.
     rbind (optional_field forecast_of (vget d ''workload_forecast'')) (\<lambda>forecast.
     Inr \<lparr>cx_snapshot_id = i, cx_snapshot_version = version, cx_collected_at = collected,
       cx_model_structure_profile = profile, cx_model_registry_context = registry, cx_devices = devices,
       cx_network_links = links, cx_workload_forecast = forecast\<rparr>))))))))))))))))))"

definition context_dict :: "PartitionSystemContext \<Rightarrow> payload" where
  "context_dict c =
     [(''snapshot_id'', VStr (cx_snapshot_id c)), (''snapshot_version'', VStr (cx_snapshot_version c)),
      (''collected_at'', VStr (cx_collected_at c)),
      (''model_structure_profile'', VDict (structure_dict (cx_model_structure_profile c))),
      (''model_registry_context'', VDict (model_registry_dict (cx_model_registry_context c))),
      (''devices'', VList (map (VDict \<circ> device_dict) (cx_devices c))),
      (''network_links'', VList (map (VDict \<circ> link_dict) (cx_network_links c))),
      (''workload_forecast'', opt_json (VDict \<circ> forecast_dict) (cx_workload_forecast c))]"

definition deterministic_hash :: "(string \<Rightarrow> string) \<Rightarrow> PartitionSystemContext \<Rightarrow> (exn, string) result" where
  "deterministic_hash sha256 c = json_digest sha256 (context_dict c)"

section \<open>Coordination plans\<close>

text \<open>\<open>_text\<close>, \<open>_mapping\<close>, \<open>_sequence\<close> and \<open>_float\<close> of the module are those of \<open>PartitionModels\<close>.\<close>

definition participants_of :: "payload \<Rightarrow> (exn, string list) result" where
  "participants_of d =
     rbind (sequence_field (vget d ''participants'') ''coordination_plan.payload.participants'') (\<lambda>items.
     rbind (rmap (\<lambda>i. text_field i ''coordination_plan.payload.participants[]'') items) (\<lambda>ps.
     rbind (raise_if (ps = []) (invalid_contract ''coordination_plan.payload.participants is required'')) (\<lambda>_.
     Inr ps)))"

record CoordinationPlanEnvelope =
  en_plan_type :: string
  en_plan_id :: string
  en_job_id :: string
  en_approved_by :: string
  en_approval_ref :: string
  en_approved_at :: string
  en_schema_version :: string

definition plan_types :: "string list" where
  "plan_types = [''training'', ''inference'']"

definition envelope_of :: "payload \<Rightarrow> (exn, CoordinationPlanEnvelope) result" where
  "envelope_of d =
     rbind (raise_if (vget d ''approved'' \<noteq> VBool True)
       (PartitionContractError ''approved_plan_required'' ''coordination plan must be approved'')) (\<lambda>_.
     rbind (text_field (vget d ''plan_type'') ''coordination_plan.plan_type'') (\<lambda>kind.
     rbind (raise_if (kind \<notin> set plan_types)
       (PartitionContractError ''unsupported_plan_type'' (''unsupported plan type: '' @ kind))) (\<lambda>_.
     let by_whom = stripped (vget d ''approved_by''); ref = stripped (vget d ''approval_ref'') in
     rbind (raise_if (by_whom = '''' \<or> ref = '''')
       (PartitionContractError ''approval_provenance_required''
          ''approved_by and approval_ref are required'')) (\<lambda>_.
     rbind (text_field (vget d ''plan_id'') ''coordination_plan.plan_id'') (\<lambda>i.
     rbind (text_field (vget d ''job_id'') ''coordination_plan.job_id'') (\<lambda>job.
     rbind (text_field (vget d ''approved_at'') ''coordination_plan.approved_at'') (\<lambda>stamp.
     rbind (text_field (vget d ''schema_version'') ''coordination_plan.schema_version'') (\<lambda>schema.
     Inr \<lparr>en_plan_type = kind, en_plan_id = i, en_job_id = job, en_approved_by = by_whom,
       en_approval_ref = ref, en_approved_at = stamp, en_schema_version = schema\<rparr>))))))))"

record TrainingCoordinationPlan =
  tp_model_id :: string
  tp_approved_model_version :: string
  tp_coordination_mode :: string
  tp_participants :: "string list"
  tp_round_policy :: payload
  tp_aggregation_policy :: payload
  tp_synchronization_policy :: payload
  tp_training_objective :: string
  tp_resource_budget :: payload
  tp_constraints :: PartitionConstraints

definition training_plan_of :: "payload \<Rightarrow> (exn, TrainingCoordinationPlan) result" where
  "training_plan_of d =
     rbind (text_field (vget d ''model_id'') ''coordination_plan.payload.model_id'') (\<lambda>m.
     rbind (text_field (vget d ''approved_model_version'') ''coordination_plan.payload.approved_model_version'')
       (\<lambda>version.
     rbind (text_field (vget d ''coordination_mode'') ''coordination_plan.payload.coordination_mode'') (\<lambda>mode.
     rbind (participants_of d) (\<lambda>ps.
     rbind (mapping_field (vget d ''round_policy'') ''coordination_plan.payload.round_policy'') (\<lambda>rounds.
     rbind (mapping_field (vget d ''aggregation_policy'') ''coordination_plan.payload.aggregation_policy'')
       (\<lambda>aggregation.
     rbind (mapping_field (vget d ''synchronization_policy'')
       ''coordination_plan.payload.synchronization_policy'') (\<lambda>synchronization.
     rbind (text_field (vget d ''training_objective'') ''coordination_plan.payload.training_objective'') (\<lambda>objective.
     rbind (mapping_field (vget d ''resource_budget'') ''coordination_plan.payload.resource_budget'') (\<lambda>budget.
     rbind (mapping_field (vget d ''constraints'') ''coordination_plan.payload.constraints'') (\<lambda>k.
     rbind (constraints_of k) (\<lambda>constraints.
     Inr \<lparr>tp_model_id = m, tp_approved_model_version = version, tp_coordination_mode = mode,
       tp_participants = ps, tp_round_policy = rounds, tp_aggregation_policy = aggregation,
       tp_synchronization_policy = synchronization, tp_training_objective = objective,
       tp_resource_budget = budget, tp_constraints = constraints\<rparr>)))))))))))"

record InferenceCoordinationPlan =
  ip_model_id :: string
  ip_approved_model_version :: string
  ip_service_objective :: string
  ip_latency_slo_ms :: pyfloat
  ip_minimum_throughput_rps :: pyfloat
  ip_availability_target :: pyfloat
  ip_traffic_policy :: payload
  ip_concurrency_policy :: payload
  ip_participants :: "string list"
  ip_resource_budget :: payload
  ip_constraints :: PartitionConstraints

definition inference_plan_of :: "payload \<Rightarrow> (exn, InferenceCoordinationPlan) result" where
  "inference_plan_of d =
     rbind (float_field (vget d ''availability_target'') ''coordination_plan.payload.availability_target'' zero_float)
       (\<lambda>availability.
     rbind (raise_if (flt (FFin 1) availability)
       (invalid_contract ''coordination_plan.payload.availability_target must be at most 1.0'')) (\<lambda>_.
     rbind (text_field (vget d ''model_id'') ''coordination_plan.payload.model_id'') (\<lambda>m.
     rbind (text_field (vget d ''approved_model_version'') ''coordination_plan.payload.approved_model_version'')
       (\<lambda>version.
     rbind (text_field (vget d ''service_objective'') ''coordination_plan.payload.service_objective'') (\<lambda>objective.
     rbind (float_field (vget d ''latency_slo_ms'') ''coordination_plan.payload.latency_slo_ms'' micro) (\<lambda>slo.
     rbind (float_field (vget d ''minimum_throughput_rps'')
       ''coordination_plan.payload.minimum_throughput_rps'' micro) (\<lambda>throughput.
     rbind (mapping_field (vget d ''traffic_policy'') ''coordination_plan.payload.traffic_policy'') (\<lambda>traffic.
     rbind (mapping_field (vget d ''concurrency_policy'') ''coordination_plan.payload.concurrency_policy'')
       (\<lambda>concurrency.
     rbind (participants_of d) (\<lambda>ps.
     rbind (mapping_field (vget d ''resource_budget'') ''coordination_plan.payload.resource_budget'') (\<lambda>budget.
     rbind (mapping_field (vget d ''constraints'') ''coordination_plan.payload.constraints'') (\<lambda>k.
     rbind (constraints_of k) (\<lambda>constraints.
     Inr \<lparr>ip_model_id = m, ip_approved_model_version = version, ip_service_objective = objective,
       ip_latency_slo_ms = slo, ip_minimum_throughput_rps = throughput, ip_availability_target = availability,
       ip_traffic_policy = traffic, ip_concurrency_policy = concurrency, ip_participants = ps,
       ip_resource_budget = budget, ip_constraints = constraints\<rparr>)))))))))))))"

datatype coordination_plan = TrainingPlan TrainingCoordinationPlan | InferencePlan InferenceCoordinationPlan

fun cp_model_id :: "coordination_plan \<Rightarrow> string" where
  "cp_model_id (TrainingPlan p) = tp_model_id p"
| "cp_model_id (InferencePlan p) = ip_model_id p"

fun cp_approved_model_version :: "coordination_plan \<Rightarrow> string" where
  "cp_approved_model_version (TrainingPlan p) = tp_approved_model_version p"
| "cp_approved_model_version (InferencePlan p) = ip_approved_model_version p"

fun cp_participants :: "coordination_plan \<Rightarrow> string list" where
  "cp_participants (TrainingPlan p) = tp_participants p"
| "cp_participants (InferencePlan p) = ip_participants p"

fun cp_constraints :: "coordination_plan \<Rightarrow> PartitionConstraints" where
  "cp_constraints (TrainingPlan p) = tp_constraints p"
| "cp_constraints (InferencePlan p) = ip_constraints p"

section \<open>Planning requests\<close>

record PartitionPlanningRequest =
  prq_envelope :: CoordinationPlanEnvelope
  prq_plan :: coordination_plan
  prq_context :: PartitionSystemContext
  prq_legacy_input :: bool
  prq_approved_execution_mode :: "ApprovedExecutionMode option"
  prq_legacy_layers :: "ModelLayer list option"

definition planning_request_of :: "pyval \<Rightarrow> (exn, PartitionPlanningRequest) result" where
  "planning_request_of v =
     rbind (mapping_field v ''partition_planning_request'') (\<lambda>d.
     rbind (mapping_field (vget d ''coordination_plan'') ''coordination_plan'') (\<lambda>coordination.
     rbind (envelope_of coordination) (\<lambda>envelope.
     rbind (mapping_field (vget coordination ''payload'') ''coordination_plan.payload'') (\<lambda>body.
     rbind (if en_plan_type envelope = ''training''
            then rbind (training_plan_of body) (\<lambda>p. Inr (TrainingPlan p))
            else rbind (inference_plan_of body) (\<lambda>p. Inr (InferencePlan p))) (\<lambda>plan.
     rbind (mapping_field (vget d ''system_context'') ''system_context'') (\<lambda>c.
     rbind (context_of (VDict c)) (\<lambda>ctx.
     rbind (raise_if (vget d ''approved_execution_mode'' = VNone)
       (PartitionContractError ''approved_mode_required''
          ''approved_execution_mode is required from the upstream coordinator'')) (\<lambda>_.
     rbind (mapping_field (vget d ''approved_execution_mode'') ''approved_execution_mode'') (\<lambda>m.
     rbind (approved_mode_of m) (\<lambda>mode.
     rbind (raise_if (cp_model_id plan \<noteq> mr_model_id (cx_model_registry_context ctx) \<or>
           cp_approved_model_version plan \<noteq> mr_approved_model_version (cx_model_registry_context ctx))
         (PartitionContractError ''model_version_mismatch''
            ''coordination plan and model registry context must match'')) (\<lambda>_.
     Inr \<lparr>prq_envelope = envelope, prq_plan = plan, prq_context = ctx, prq_legacy_input = False,
       prq_approved_execution_mode = Some mode, prq_legacy_layers = None\<rparr>)))))))))))"

text \<open>\<open>LegacyFederatedRoundPlanAdapter\<close>: a round plan of the first version as an inference request.\<close>

definition legacy_schema_version :: string where
  "legacy_schema_version = ''legacy-1.0''"

definition legacy_model_version :: "(string \<Rightarrow> string) \<Rightarrow> string \<Rightarrow> string" where
  "legacy_model_version sha256 model_id = ''legacy-'' @ take 16 (sha256 model_id)"

definition legacy_block :: "ModelLayer \<Rightarrow> ModelBlock" where
  "legacy_block l = \<lparr>bk_block_id = ml_name l, bk_layer_names = [ml_name l],
     bk_parameter_bytes = ml_parameter_bytes l, bk_activation_bytes = ml_activation_bytes l,
     bk_working_memory_bytes = ml_working_memory_bytes l\<rparr>"

definition legacy_adapt :: "(string \<Rightarrow> string) \<Rightarrow> FederatedRoundPlan \<Rightarrow> PartitionPlanningRequest" where
  "legacy_adapt sha256 rp =
     (let version = legacy_model_version sha256 (fr_model_id rp); mode = fr_execution_mode rp in
      \<lparr>prq_envelope = \<lparr>en_plan_type = ''inference'', en_plan_id = ''legacy-plan-'' @ fr_job_id rp,
         en_job_id = fr_job_id rp, en_approved_by = am_approved_by mode, en_approval_ref = am_approval_ref mode,
         en_approved_at = ''legacy-input'', en_schema_version = legacy_schema_version\<rparr>,
       prq_plan = InferencePlan
         \<lparr>ip_model_id = fr_model_id rp, ip_approved_model_version = version,
          ip_service_objective = ''legacy federated round partitioning'',
          ip_latency_slo_ms = (case pc_max_end_to_end_latency_ms (fr_constraints rp) of
             None \<Rightarrow> FFin 1 | Some x \<Rightarrow> if x = FFin 0 then FFin 1 else x),
          ip_minimum_throughput_rps = FFin 1, ip_availability_target = FFin 0, ip_traffic_policy = [],
          ip_concurrency_policy = [], ip_participants = fr_participants rp, ip_resource_budget = [],
          ip_constraints = fr_constraints rp\<rparr>,
       prq_context =
         \<lparr>cx_snapshot_id = ''legacy-snapshot-'' @ fr_job_id rp, cx_snapshot_version = legacy_schema_version,
          cx_collected_at = ''legacy-input'',
          cx_model_structure_profile = \<lparr>sp_profile_id = ''legacy-profile-'' @ version,
            sp_model_id = fr_model_id rp, sp_model_version = version,
            sp_blocks = map legacy_block (fr_layers rp)\<rparr>,
          cx_model_registry_context = \<lparr>mr_registry_id = ''legacy-registry-'' @ fr_model_id rp,
            mr_registry_version = legacy_schema_version, mr_model_id = fr_model_id rp,
            mr_approved_model_version = version\<rparr>,
          cx_devices = fr_devices rp, cx_network_links = fr_network_links rp, cx_workload_forecast = None\<rparr>,
       prq_legacy_input = True, prq_approved_execution_mode = Some mode, prq_legacy_layers = Some (fr_layers rp)\<rparr>)"

end
