(* ===== verification/PartitionStrategy.thy ===== *)
theory PartitionStrategy
  imports PartitionContext
begin

text \<open>
  \<open>partition_common.py\<close> and \<open>partition_strategies.py\<close>: a planning request is checked and normalised,
  and the strategy registered for its plan type and mode states the intent of the plan. The policy
  file is given as its decoded object.
\<close>

section \<open>Normalised requests\<close>

record NormalizedPartitionRequest =
  nr_plan_type :: string
  nr_job_id :: string
  nr_model_id :: string
  nr_approved_model_version :: string
  nr_approved_execution_mode :: ApprovedExecutionMode
  nr_participants :: "string list"
  nr_layers :: "ModelLayer list"
  nr_devices :: "ResourceDevice list"
  nr_network_links :: "NetworkLink list"
  nr_constraints :: PartitionConstraints
  nr_context_snapshot_id :: string
  nr_context_snapshot_hash :: string
  nr_input_signature :: string
  nr_legacy_input :: bool
  nr_workload_forecast_available :: bool
  nr_workload_forecast :: "WorkloadForecast option"

definition approved_mode :: "PartitionPlanningRequest \<Rightarrow> (exn, ApprovedExecutionMode) result" where
  "approved_mode r =
     (let missing = Inl (PartitionContractError ''approved_mode_required''
        ''execution mode must be approved upstream'') in
      case prq_approved_execution_mode r of
        None \<Rightarrow> missing
      | Some mode \<Rightarrow>
          (if strip (am_name mode) = '''' \<or> \<not> am_approved mode \<or> am_approved_by mode = '''' \<or>
              am_approval_ref mode = '''' then missing else Inr mode))"

definition block_layer :: "ModelBlock \<Rightarrow> string \<Rightarrow> ModelLayer" where
  "block_layer b n =
     (let k = int (length (bk_layer_names b)) in
      \<lparr>ml_name = n, ml_compute_units = FFin 1, ml_parameter_bytes = bk_parameter_bytes b div k,
       ml_activation_bytes = bk_activation_bytes b, ml_working_memory_bytes = bk_working_memory_bytes b div k\<rparr>)"

definition layers_from_profile :: "PartitionPlanningRequest \<Rightarrow> ModelLayer list" where
  "layers_from_profile r =
     concat (map (\<lambda>b. map (block_layer b) (bk_layer_names b))
       (sp_blocks (cx_model_structure_profile (prq_context r))))"

definition infeasible :: "string \<Rightarrow> exn" where
  "infeasible m = PartitionContractError ''early_feasibility_failed'' m"

text \<open>The links a plan needs: to the aggregator in federated learning, else along the chain.\<close>

definition required_pairs :: "bool \<Rightarrow> string list \<Rightarrow> (string \<times> string) list" where
  "required_pairs federated ps =
     (if federated then map (\<lambda>p. (p, hd ps)) (tl ps) else zip ps (tl ps))"

definition validate_feasibility :: "PartitionPlanningRequest \<Rightarrow> ModelLayer list \<Rightarrow> (exn, unit) result" where
  "validate_feasibility r layers =
     (let ps = cp_participants (prq_plan r);
          federated = (case prq_approved_execution_mode r of None \<Rightarrow> False
            | Some mode \<Rightarrow> am_name mode = ''federated_learning'') in
      rbind (raise_if (length ps < 2 \<or> layers = [] \<or> (\<not> federated \<and> length layers < length ps))
        (infeasible (if federated
           then ''federated learning requires a full model and at least two participants''
           else ''each participant requires a non-empty model partition''))) (\<lambda>_.
      rbind (raise_if (list_ex (\<lambda>p. p \<notin> set (map rd_device_id (cx_devices (prq_context r)))) ps)
        (infeasible ''each participant requires a device snapshot'')) (\<lambda>_.
      raise_if (list_ex (\<lambda>pair. pair \<notin> set (map link_pair (cx_network_links (prq_context r))))
          (required_pairs federated ps))
        (infeasible ''required participant network evidence is unavailable''))))"

text \<open>\<open>asdict\<close> of the envelope and of the plan.\<close>

definition envelope_dict :: "CoordinationPlanEnvelope \<Rightarrow> payload" where
  "envelope_dict e =
     [(''plan_type'', VStr (en_plan_type e)), (''plan_id'', VStr (en_plan_id e)),
      (''job_id'', VStr (en_job_id e)), (''approved_by'', VStr (en_approved_by e)),
      (''approval_ref'', VStr (en_approval_ref e)), (''approved_at'', VStr (en_approved_at e)),
      (''schema_version'', VStr (en_schema_version e))]"

fun plan_dict :: "coordination_plan \<Rightarrow> payload" where
  "plan_dict (TrainingPlan p) =
     [(''model_id'', VStr (tp_model_id p)), (''approved_model_version'', VStr (tp_approved_model_version p)),
      (''coordination_mode'', VStr (tp_coordination_mode p)),
      (''participants'', VTuple (map VStr (tp_participants p))), (''round_policy'', VDict (tp_round_policy p)),
      (''aggregation_policy'', VDict (tp_aggregation_policy p)),
      (''synchronization_policy'', VDict (tp_synchronization_policy p)),
      (''training_objective'', VStr (tp_training_objective p)),
      (''resource_budget'', VDict (tp_resource_budget p)),
      (''constraints'', VDict (constraints_dict (tp_constraints p)))]"
| "plan_dict (InferencePlan p) =
     [(''model_id'', VStr (ip_model_id p)), (''approved_model_version'', VStr (ip_approved_model_version p)),
      (''service_objective'', VStr (ip_service_objective p)), (''latency_slo_ms'', VFloat (ip_latency_slo_ms p)),
      (''minimum_throughput_rps'', VFloat (ip_minimum_throughput_rps p)),
      (''availability_target'', VFloat (ip_availability_target p)),
      (''traffic_policy'', VDict (ip_traffic_policy p)),
      (''concurrency_policy'', VDict (ip_concurrency_policy p)),
      (''participants'', VTuple (map VStr (ip_participants p))),
      (''resource_budget'', VDict (ip_resource_budget p)),
      (''constraints'', VDict (constraints_dict (ip_constraints p)))]"

definition request_signature ::
  "(string \<Rightarrow> string) \<Rightarrow> PartitionPlanningRequest \<Rightarrow> ApprovedExecutionMode \<Rightarrow> ModelLayer list \<Rightarrow> string \<Rightarrow>
   (exn, string) result" where
  "request_signature sha256 r mode layers context_hash =
     (let ctx = prq_context r in
      json_digest sha256
        [(''envelope'', VDict (envelope_dict (prq_envelope r))), (''plan'', VDict (plan_dict (prq_plan r))),
         (''approved_execution_mode'', VDict (approved_mode_dict mode)),
         (''layers'', VList (map (VDict \<circ> layer_dict) layers)),
         (''devices'', VList (map (VDict \<circ> device_dict) (cx_devices ctx))),
         (''network_links'', VList (map (VDict \<circ> link_dict) (cx_network_links ctx))),
         (''context_snapshot_id'', VStr (cx_snapshot_id ctx)), (''context_snapshot_hash'', VStr context_hash),
         (''legacy_input'', VBool (prq_legacy_input r)),
         (''workload_forecast_available'', VBool (cx_workload_forecast ctx \<noteq> None))])"

definition request_layers :: "PartitionPlanningRequest \<Rightarrow> ModelLayer list" where
  "request_layers r = (case prq_legacy_layers r of None \<Rightarrow> layers_from_profile r
     | Some ls \<Rightarrow> if ls = [] then layers_from_profile r else ls)"

definition version_mismatch :: "string \<Rightarrow> exn" where
  "version_mismatch m = PartitionContractError ''model_version_mismatch'' m"

text \<open>\<open>PartitionCommonProcessor.process\<close>. A snapshot of the model always has a structure profile.\<close>

definition process_request ::
  "(string \<Rightarrow> string) \<Rightarrow> PartitionPlanningRequest \<Rightarrow> (exn, NormalizedPartitionRequest) result" where
  "process_request sha256 r =
     (let envelope = prq_envelope r; ctx = prq_context r; plan = prq_plan r;
          profile = cx_model_structure_profile ctx; registry = cx_model_registry_context ctx in
      rbind (raise_if (en_plan_type envelope \<notin> set plan_types)
        (PartitionContractError ''unsupported_plan_type''
           (''unsupported plan type: '' @ en_plan_type envelope))) (\<lambda>_.
      rbind (raise_if (en_approved_by envelope = '''' \<or> en_approval_ref envelope = '''')
        (PartitionContractError ''approval_provenance_required''
           ''approved_by and approval_ref are required'')) (\<lambda>_.
      rbind (approved_mode r) (\<lambda>mode.
      rbind (raise_if (list_ex (\<lambda>version. strip version = '''')
          [cp_approved_model_version plan, mr_approved_model_version registry, sp_model_version profile])
        (version_mismatch ''approved model version must be non-empty text'')) (\<lambda>_.
      rbind (raise_if (cp_model_id plan \<noteq> mr_model_id registry \<or>
          cp_approved_model_version plan \<noteq> mr_approved_model_version registry \<or>
          sp_model_id profile \<noteq> cp_model_id plan \<or>
          sp_model_version profile \<noteq> cp_approved_model_version plan)
        (version_mismatch ''planning request and model context must match'')) (\<lambda>_.
      let layers = request_layers r in
      rbind (validate_feasibility r layers) (\<lambda>_.
      rbind (deterministic_hash sha256 ctx) (\<lambda>context_hash.
      rbind (request_signature sha256 r mode layers context_hash) (\<lambda>signature.
      Inr \<lparr>nr_plan_type = en_plan_type envelope, nr_job_id = en_job_id envelope,
        nr_model_id = cp_model_id plan, nr_approved_model_version = cp_approved_model_version plan,
        nr_approved_execution_mode = mode, nr_participants = cp_participants plan, nr_layers = layers,
        nr_devices = cx_devices ctx, nr_network_links = cx_network_links ctx,
        nr_constraints = cp_constraints plan, nr_context_snapshot_id = cx_snapshot_id ctx,
        nr_context_snapshot_hash = context_hash, nr_input_signature = signature,
        nr_legacy_input = prq_legacy_input r,
        nr_workload_forecast_available = (cx_workload_forecast ctx \<noteq> None),
        nr_workload_forecast = cx_workload_forecast ctx\<rparr>)))))))))"

section \<open>Intents\<close>

record PartitionIntent =
  pi_strategy_id :: string
  pi_strategy_version :: string
  pi_allowed_partition_methods :: "string list"
  pi_allowed_split_boundaries :: "int list"
  pi_forbidden_split_boundaries :: "int list"
  pi_graph_requirements :: "string list"
  pi_memory_rules :: "string list"
  pi_communication_rules :: "string list"
  pi_optimization_objectives :: "string list"
  pi_assumptions :: "string list"
  pi_warnings :: "string list"
  pi_objective_weights :: "(string \<times> pyfloat) list"

text \<open>\<open>f"{x:g}"\<close>: six significant digits without trailing zeros.\<close>

definition g_digits :: "string \<Rightarrow> int \<Rightarrow> string" where
  "g_digits ds e =
     (if - 4 \<le> e \<and> e < 6 then
        (if e < 0 then ''0.'' @ replicate (nat (- e - 1)) CHR ''0'' @ ds
         else (let fraction = drop (nat e + 1) ds in
           take (nat e + 1) ds @ replicate (nat e + 1 - length ds) CHR ''0'' @
           (if fraction = '''' then '''' else ''.'' @ fraction)))
      else take 1 ds @ (if tl ds = '''' then '''' else ''.'' @ tl ds) @ ''e'' @
           (if e < 0 then ''-'' else ''+'') @ pad_left 2 (nat_str (nat \<bar>e\<bar>)))"

fun fmt_g :: "pyfloat \<Rightarrow> string" where
  "fmt_g (FFin x) =
     (if x = 0 then ''0''
      else (let e = decimal_exponent \<bar>x\<bar>;
                m = round_half_even (\<bar>x\<bar> / pow10 (e - 5));
                (m', e') = (if m = 1000000 then (100000, e + 1) else (m, e))
            in (if x < 0 then ''-'' else '''') @ g_digits (strip_zeros (nat_str (nat m'))) e'))"
| "fmt_g FPInf = ''inf''"
| "fmt_g FNInf = ''-inf''"
| "fmt_g FNaN = ''nan''"

record PartitionStrategyInfo =
  st_strategy_id :: string
  st_strategy_version :: string
  st_policy_version :: string
  st_objective_weights :: "(string \<times> pyfloat) list"
  st_base_confidence :: pyfloat
  st_missing_forecast_penalty :: pyfloat

record InferencePartitionStrategy = PartitionStrategyInfo +
  is_supported_modes :: "string list"
  is_legacy_input_penalty :: pyfloat

record TrainingPartitionStrategy = PartitionStrategyInfo +
  ts_supported_modes :: "string list"
  ts_forbidden_split_boundaries :: "int list"
  ts_legacy_input_penalty :: pyfloat

type_synonym FederatedFullModelStrategy = PartitionStrategyInfo

datatype partition_strategy =
    InferenceStrategy InferencePartitionStrategy
  | TrainingStrategy TrainingPartitionStrategy
  | FederatedStrategy FederatedFullModelStrategy

definition objective_texts :: "(string \<times> pyfloat) list \<Rightarrow> string list" where
  "objective_texts ws = map (\<lambda>(name, weight). ''predicted_'' @ name @ '':'' @ fmt_g weight) ws"

definition not_supported :: "string \<Rightarrow> NormalizedPartitionRequest \<Rightarrow> exn" where
  "not_supported i r = PartitionContractError ''strategy_not_supported''
     (''strategy '' @ i @ '' does not support '' @ nr_plan_type r @ ''/'' @ am_name (nr_approved_execution_mode r))"

text \<open>The confidence of a plan and the warnings that explain it; \<open>None\<close> is a strategy without a legacy penalty.\<close>

definition planning_confidence ::
  "pyfloat \<Rightarrow> pyfloat \<Rightarrow> pyfloat option \<Rightarrow> NormalizedPartitionRequest \<Rightarrow> pyfloat \<times> string list" where
  "planning_confidence base missing legacy r =
     (let (c, ws) = (if nr_workload_forecast_available r then (base, [])
            else (fsub base missing, [''workload_forecast_missing: confidence reduced''])) in
      case legacy of
        None \<Rightarrow> (c, ws)
      | Some penalty \<Rightarrow> (if nr_legacy_input r then (fsub c penalty, ws @ [''legacy_input: confidence reduced''])
          else (c, ws)))"

definition intent_assumptions :: "NormalizedPartitionRequest \<Rightarrow> string \<Rightarrow> pyfloat \<Rightarrow> string list" where
  "intent_assumptions r policy_version confidence =
     [''approved_execution_mode:'' @ am_name (nr_approved_execution_mode r),
      ''approved_model_version:'' @ nr_approved_model_version r,
      ''context_snapshot_id:'' @ nr_context_snapshot_id r,
      ''context_snapshot_hash:'' @ nr_context_snapshot_hash r,
      ''input_signature:'' @ nr_input_signature r, ''policy_version:'' @ policy_version,
      ''planning_confidence:'' @ fmt_g (fmax confidence zero_float)]"

definition inference_rules :: "string list \<times> string list \<times> string list" where
  "inference_rules =
     ([''forward_only_dag'', ''adjacent_partition_edges_only''],
      [''per_partition_parameter_bytes'', ''per_partition_working_memory_bytes'',
       ''per_partition_peak_activation_bytes''],
      [''forward_activation_transfer_only'', ''adjacent_partition_transfer_only''])"

definition training_rules :: "string list \<times> string list \<times> string list" where
  "training_rules =
     ([''phase_distinct_training_dag'', ''forward_backward_gradient_aggregation_edges'',
       ''adjacent_partition_edges_only''],
      [''per_partition_parameter_bytes'', ''per_partition_working_memory_bytes'',
       ''per_partition_peak_activation_bytes'', ''checkpoint_boundary_memory''],
      [''forward_activation_transfer'', ''backward_gradient_transfer'', ''aggregation_transfer''])"

definition federated_rules :: "string list \<times> string list \<times> string list" where
  "federated_rules =
     ([''full_model_replica_per_participant'', ''participant_to_aggregator_edges''],
      [''full_model_parameter_bytes_per_participant'', ''full_model_working_memory_per_participant'',
       ''full_model_peak_activation_per_participant''],
      [''remote_model_update_transfer'', ''aggregation_transfer''])"

definition catalog_dict ::
  "(string \<times> pyfloat) list \<Rightarrow> string \<Rightarrow> pyval list \<Rightarrow> string list \<times> string list \<times> string list \<Rightarrow> payload" where
  "catalog_dict ws rule forbidden rules =
     (case rules of (graph, memory, communication) \<Rightarrow>
       [(''objective_weights'', VDict (map (\<lambda>(n, w). (n, VFloat w)) ws)),
        (''optimization_objectives'', VList (map VStr (objective_texts ws))),
        (''allowed_split_boundary_rule'', VStr rule), (''forbidden_split_boundaries'', VList forbidden),
        (''graph_requirements'', VList (map VStr graph)), (''memory_rules'', VList (map VStr memory)),
        (''communication_rules'', VList (map VStr communication))])"

definition inference_catalog :: "InferencePartitionStrategy \<Rightarrow> payload" where
  "inference_catalog s = catalog_dict (st_objective_weights s) ''interior_layer_boundaries''
     [VStr ''first_boundary'', VStr ''last_boundary''] inference_rules"

definition training_catalog :: "TrainingPartitionStrategy \<Rightarrow> payload" where
  "training_catalog s = catalog_dict (st_objective_weights s) ''interior_layer_boundaries''
     ([VStr ''first_boundary''] @ map VInt (ts_forbidden_split_boundaries s) @ [VStr ''last_boundary''])
     training_rules"

definition federated_catalog :: "FederatedFullModelStrategy \<Rightarrow> payload" where
  "federated_catalog s = catalog_dict (st_objective_weights s) ''full_model_replica_per_participant''
     [VStr ''all_layer_split_boundaries''] federated_rules"

definition intent ::
  "'a PartitionStrategyInfo_scheme \<Rightarrow> NormalizedPartitionRequest \<Rightarrow> int list \<Rightarrow> int list \<Rightarrow>
   string list \<times> string list \<times> string list \<Rightarrow> pyfloat \<times> string list \<Rightarrow> PartitionIntent" where
  "intent s r allowed forbidden rules confidence =
     \<lparr>pi_strategy_id = st_strategy_id s, pi_strategy_version = st_strategy_version s,
      pi_allowed_partition_methods = [am_name (nr_approved_execution_mode r)],
      pi_allowed_split_boundaries = allowed, pi_forbidden_split_boundaries = forbidden,
      pi_graph_requirements = fst rules, pi_memory_rules = fst (snd rules),
      pi_communication_rules = snd (snd rules),
      pi_optimization_objectives = objective_texts (st_objective_weights s),
      pi_assumptions = intent_assumptions r (st_policy_version s) (fst confidence),
      pi_warnings = snd confidence, pi_objective_weights = st_objective_weights s\<rparr>"

definition inference_intent ::
  "InferencePartitionStrategy \<Rightarrow> NormalizedPartitionRequest \<Rightarrow> (exn, PartitionIntent) result" where
  "inference_intent s r =
     (if nr_plan_type r \<noteq> ''inference'' \<or> am_name (nr_approved_execution_mode r) \<notin> set (is_supported_modes s)
      then Inl (not_supported (st_strategy_id s) r)
      else (let n = length (nr_layers r) in
        Inr (intent s r (map int [1..<n]) [0, int n] inference_rules
          (planning_confidence (st_base_confidence s) (st_missing_forecast_penalty s)
             (Some (is_legacy_input_penalty s)) r))))"

definition training_intent ::
  "TrainingPartitionStrategy \<Rightarrow> NormalizedPartitionRequest \<Rightarrow> (exn, PartitionIntent) result" where
  "training_intent s r =
     (if nr_plan_type r \<noteq> ''training'' \<or> am_name (nr_approved_execution_mode r) \<notin> set (ts_supported_modes s)
      then Inl (not_supported (st_strategy_id s) r)
      else (let n = length (nr_layers r);
                forbidden = filter (\<lambda>b. 0 < b \<and> b < int n) (ts_forbidden_split_boundaries s) in
        Inr (intent s r (filter (\<lambda>b. b \<notin> set forbidden) (map int [1..<n])) ([0] @ forbidden @ [int n])
          training_rules
          (planning_confidence (st_base_confidence s) (st_missing_forecast_penalty s)
             (Some (ts_legacy_input_penalty s)) r))))"

definition federated_intent ::
  "FederatedFullModelStrategy \<Rightarrow> NormalizedPartitionRequest \<Rightarrow> (exn, PartitionIntent) result" where
  "federated_intent s r =
     (if nr_plan_type r \<noteq> ''training'' \<or> am_name (nr_approved_execution_mode r) \<noteq> ''federated_learning''
      then Inl (not_supported (st_strategy_id s) r)
      else Inr (intent s r [] (map int [0..<Suc (length (nr_layers r))]) federated_rules
        (planning_confidence (st_base_confidence s) (st_missing_forecast_penalty s) None r)))"

fun build_partition_intent ::
  "partition_strategy \<Rightarrow> NormalizedPartitionRequest \<Rightarrow> (exn, PartitionIntent) result" where
  "build_partition_intent (InferenceStrategy s) r = inference_intent s r"
| "build_partition_intent (TrainingStrategy s) r = training_intent s r"
| "build_partition_intent (FederatedStrategy s) r = federated_intent s r"

fun catalog_contract :: "partition_strategy \<Rightarrow> payload" where
  "catalog_contract (InferenceStrategy s) = inference_catalog s"
| "catalog_contract (TrainingStrategy s) = training_catalog s"
| "catalog_contract (FederatedStrategy s) = federated_catalog s"

section \<open>The policy file\<close>

definition policy_error :: "string \<Rightarrow> exn" where
  "policy_error m = PartitionContractError ''invalid_partition_policy'' m"

definition policy_mapping :: "pyval \<Rightarrow> string \<Rightarrow> (exn, payload) result" where
  "policy_mapping v f = (case v of VDict d \<Rightarrow> Inr d | _ \<Rightarrow> Inl (policy_error (f @ '' must be an object'')))"

definition policy_text :: "pyval \<Rightarrow> string \<Rightarrow> (exn, string) result" where
  "policy_text v f = (if stripped v = '''' then Inl (policy_error (f @ '' is required'')) else Inr (stripped v))"

definition policy_text_tuple :: "pyval \<Rightarrow> string \<Rightarrow> (exn, string list) result" where
  "policy_text_tuple v f =
     (case v of
        VList vs \<Rightarrow> rbind (rmap (\<lambda>i. policy_text i (f @ ''[]'')) vs) (\<lambda>items.
          if items = [] \<or> \<not> distinct items then Inl (policy_error (f @ '' must contain unique values''))
          else Inr items)
      | _ \<Rightarrow> Inl (policy_error (f @ '' must be an array'')))"

definition policy_fraction :: "pyval \<Rightarrow> string \<Rightarrow> (exn, pyfloat) result" where
  "policy_fraction v f =
     (let not_numeric = Inl (policy_error (f @ '' must be numeric'')) in
      case v of
        VBool b \<Rightarrow> not_numeric
      | _ \<Rightarrow>
          (case py_float v of
             Inl (TypeError m) \<Rightarrow> not_numeric
           | Inl (ValueError m) \<Rightarrow> not_numeric
           | Inl e \<Rightarrow> Inl e
           | Inr x \<Rightarrow>
               (if \<not> is_finite x \<or> flt x zero_float \<or> flt (FFin 1) x
                then Inl (policy_error (f @ '' must be between 0.0 and 1.0'')) else Inr x)))"

text \<open>The literal \<open>1e-9\<close>, and \<open>sum\<close> of floats, which starts from the integer 0.\<close>

definition nano :: pyfloat where
  "nano = round64 (1 / 1000000000)"

definition float_total :: "pyfloat list \<Rightarrow> pyfloat" where
  "float_total xs = (case fsum xs of None \<Rightarrow> FFin 0 | Some x \<Rightarrow> x)"

definition policy_objective_weights :: "pyval \<Rightarrow> string list \<Rightarrow> string \<Rightarrow> (exn, (string \<times> pyfloat) list) result" where
  "policy_objective_weights v required f =
     rbind (policy_mapping v f) (\<lambda>objectives.
     rbind (rmap (\<lambda>name. rbind (policy_fraction (vget objectives name) (f @ ''.'' @ name)) (\<lambda>w.
       Inr (name, w))) required) (\<lambda>weights.
     if flt nano (fabs (fsub (float_total (map snd weights)) (FFin 1)))
     then Inl (policy_error ''strategy objective weights must sum to 1.0'') else Inr weights))"

fun positive_ints :: "string \<Rightarrow> pyval list \<Rightarrow> (exn, int list) result" where
  "positive_ints f [] = Inr []"
| "positive_ints f (VInt i # vs) =
     (if i < 1 then Inl (policy_error (f @ '' must contain positive integers''))
      else rbind (positive_ints f vs) (\<lambda>is. Inr (i # is)))"
| "positive_ints f (v # vs) = Inl (policy_error (f @ '' must contain positive integers''))"

definition policy_boundary_tuple :: "pyval \<Rightarrow> string \<Rightarrow> (exn, int list) result" where
  "policy_boundary_tuple v f =
     (case v of
        VList vs \<Rightarrow> rbind (positive_ints f vs) (\<lambda>is.
          if \<not> distinct is then Inl (policy_error (f @ '' must contain unique values'')) else Inr (sort is))
      | _ \<Rightarrow> Inl (policy_error (f @ '' must be an array'')))"

definition training_objectives :: "string list" where
  "training_objectives = [''step_time'', ''load_balance'', ''memory_pressure'', ''communication'', ''resilience'']"

definition training_strategy_of ::
  "payload \<Rightarrow> string \<Rightarrow> payload \<Rightarrow> (exn, TrainingPartitionStrategy) result" where
  "training_strategy_of d version confidence =
     rbind (policy_text_tuple (vget d ''supported_modes'')
       ''strategy_policies.training-partition-v1.supported_modes'') (\<lambda>modes.
     rbind (policy_objective_weights (vget d ''objectives'') training_objectives
       ''strategy_policies.training-partition-v1.objectives'') (\<lambda>weights.
     rbind (policy_boundary_tuple (vget_default d ''forbidden_split_boundaries'' (VList []))
       ''strategy_policies.training-partition-v1.forbidden_split_boundaries'') (\<lambda>boundaries.
     rbind (policy_fraction (vget confidence ''base'') ''confidence.base'') (\<lambda>base.
     rbind (policy_fraction (vget confidence ''missing_forecast_penalty'')
       ''confidence.missing_forecast_penalty'') (\<lambda>missing.
     rbind (policy_fraction (vget confidence ''legacy_input_penalty'')
       ''confidence.legacy_input_penalty'') (\<lambda>legacy.
     Inr \<lparr>st_strategy_id = ''training-partition-v1'',
       st_strategy_version = ''training-partition-v1:'' @ version, st_policy_version = version,
       st_objective_weights = weights, st_base_confidence = base, st_missing_forecast_penalty = missing,
       ts_supported_modes = modes, ts_forbidden_split_boundaries = boundaries,
       ts_legacy_input_penalty = legacy\<rparr>))))))"

definition federated_strategy_of ::
  "payload \<Rightarrow> string \<Rightarrow> payload \<Rightarrow> (exn, FederatedFullModelStrategy) result" where
  "federated_strategy_of d version confidence =
     rbind (policy_objective_weights (vget d ''objectives'') training_objectives
       ''strategy_policies.federated-full-model-v1.objectives'') (\<lambda>weights.
     rbind (policy_fraction (vget confidence ''base'') ''confidence.base'') (\<lambda>base.
     rbind (policy_fraction (vget confidence ''missing_forecast_penalty'')
       ''confidence.missing_forecast_penalty'') (\<lambda>missing.
     Inr \<lparr>st_strategy_id = ''federated-full-model-v1'',
       st_strategy_version = ''federated-full-model-v1:'' @ version, st_policy_version = version,
       st_objective_weights = weights, st_base_confidence = base, st_missing_forecast_penalty = missing\<rparr>)))"

type_synonym PartitionStrategyRegistry = "(string \<times> string \<times> partition_strategy) list"

definition inference_strategy_of :: "payload \<Rightarrow> string \<Rightarrow> payload \<Rightarrow> (exn, InferencePartitionStrategy) result" where
  "inference_strategy_of d version confidence =
     rbind (policy_text_tuple (vget d ''supported_modes'')
       ''strategy_policies.inference-partition-v1.supported_modes'') (\<lambda>modes.
     rbind (policy_objective_weights (vget d ''objectives'') [''latency'', ''memory_pressure'', ''communication'']
       ''strategy_policies.inference-partition-v1.objectives'') (\<lambda>weights.
     rbind (policy_fraction (vget confidence ''base'') ''confidence.base'') (\<lambda>base.
     rbind (policy_fraction (vget confidence ''missing_forecast_penalty'')
       ''confidence.missing_forecast_penalty'') (\<lambda>missing.
     rbind (policy_fraction (vget confidence ''legacy_input_penalty'')
       ''confidence.legacy_input_penalty'') (\<lambda>legacy.
     Inr \<lparr>st_strategy_id = ''inference-partition-v1'',
       st_strategy_version = ''inference-partition-v1:'' @ version, st_policy_version = version,
       st_objective_weights = weights, st_base_confidence = base, st_missing_forecast_penalty = missing,
       is_supported_modes = modes, is_legacy_input_penalty = legacy\<rparr>)))))"

definition strategy_registry_of :: "pyval \<Rightarrow> (exn, PartitionStrategyRegistry) result" where
  "strategy_registry_of v =
     rbind (policy_mapping v ''policy'') (\<lambda>d.
     rbind (policy_text (vget d ''version'') ''version'') (\<lambda>version.
     rbind (policy_mapping (vget d ''strategy_policies'') ''strategy_policies'') (\<lambda>policies.
     rbind (policy_mapping (vget policies ''inference-partition-v1'')
       ''strategy_policies.inference-partition-v1'') (\<lambda>inference_policy.
     rbind (policy_mapping (vget d ''confidence'') ''confidence'') (\<lambda>confidence.
     rbind (inference_strategy_of inference_policy version confidence) (\<lambda>inference.
     rbind (optional_field (\<lambda>p. rbind (policy_mapping p ''strategy_policies.training-partition-v1'') (\<lambda>t.
         training_strategy_of t version confidence)) (vget policies ''training-partition-v1'')) (\<lambda>training.
     rbind (optional_field (\<lambda>p. rbind (policy_mapping p ''strategy_policies.federated-full-model-v1'') (\<lambda>t.
         federated_strategy_of t version confidence)) (vget policies ''federated-full-model-v1'')) (\<lambda>federated.
     Inr (map (\<lambda>mode. (''inference'', mode, InferenceStrategy inference)) (is_supported_modes inference) @
       (case training of None \<Rightarrow> [] | Some s \<Rightarrow>
          map (\<lambda>mode. (''training'', mode, TrainingStrategy s)) (ts_supported_modes s)) @
       (case federated of None \<Rightarrow> [] | Some s \<Rightarrow>
          [(''training'', ''federated_learning'', FederatedStrategy s)]))))))))))"

fun resolve_strategy :: "PartitionStrategyRegistry \<Rightarrow> string \<Rightarrow> string \<Rightarrow> (exn, partition_strategy) result" where
  "resolve_strategy [] kind mode = Inl (PartitionContractError ''strategy_not_supported''
     (''no partition strategy supports '' @ kind @ ''/'' @ mode))"
| "resolve_strategy ((k, m, s) # es) kind mode =
     (if k = kind \<and> m = mode then Inr s else resolve_strategy es kind mode)"

end
