(* ===== verification/PartitionFeatures.thy ===== *)
theory PartitionFeatures
  imports PartitionStrategy
begin

text \<open>
  \<open>partition_features.py\<close>: the identity of a candidate that every ranker uses, and the fixed feature
  vector the learned ranker reads.
\<close>

section \<open>Candidate identity\<close>

definition feature_error :: "string \<Rightarrow> exn" where
  "feature_error m = PartitionContractError ''invalid_partition_features'' m"

definition feature_text :: "string \<Rightarrow> string \<Rightarrow> (exn, string) result" where
  "feature_text s f = (if strip s = '''' then Inl (feature_error (f @ '' is required'')) else Inr (strip s))"

definition partition_candidate_key ::
  "(string \<Rightarrow> string) \<Rightarrow> PartitionCandidate \<Rightarrow> string \<Rightarrow> (exn, string) result" where
  "partition_candidate_key sha256 c version =
     rbind (feature_text version ''strategy_version'') (\<lambda>v.
     json_digest sha256
       [(''split_points'', VList (map VInt (ca_split_points c))),
        (''assignments'', VList (map (\<lambda>p. VDict [(''partition_id'', VStr (lp_partition_id p)),
           (''device_id'', VStr (lp_device_id p))]) (ca_partitions c))),
        (''strategy_version'', VStr v)])"

section \<open>The ranking context\<close>

record RankingContext =
  rx_request :: NormalizedPartitionRequest
  rx_intent :: PartitionIntent
  rx_strategy_version :: string
  rx_workload_forecast :: "WorkloadForecast option"

definition ranking_context ::
  "NormalizedPartitionRequest \<Rightarrow> PartitionIntent \<Rightarrow> string \<Rightarrow> WorkloadForecast option \<Rightarrow>
   (exn, RankingContext) result" where
  "ranking_context r i version forecast =
     (if forecast \<noteq> nr_workload_forecast r
      then Inl (feature_error ''RankingContext workload_forecast must match the normalized request'')
      else Inr \<lparr>rx_request = r, rx_intent = i, rx_strategy_version = version, rx_workload_forecast = forecast\<rparr>)"

section \<open>Features\<close>

definition feature_number :: "pyval \<Rightarrow> string \<Rightarrow> (exn, pyfloat) result" where
  "feature_number v f =
     (let not_numeric = Inl (feature_error (f @ '' must be numeric'')) in
      case v of
        VBool b \<Rightarrow> not_numeric
      | _ \<Rightarrow>
          (case py_float v of
             Inl (TypeError m) \<Rightarrow> not_numeric
           | Inl (ValueError m) \<Rightarrow> not_numeric
           | Inl e \<Rightarrow> Inl e
           | Inr x \<Rightarrow>
               (if \<not> is_finite x then Inl (feature_error (f @ '' must be finite''))
                else if flt x zero_float then Inl (feature_error (f @ '' byte sizes must not be negative''))
                else Inr x)))"

abbreviation feature_float :: "pyfloat \<Rightarrow> string \<Rightarrow> (exn, pyfloat) result" where
  "feature_float x f \<equiv> feature_number (VFloat x) f"

abbreviation feature_int :: "int \<Rightarrow> string \<Rightarrow> (exn, pyfloat) result" where
  "feature_int i f \<equiv> feature_number (VInt i) f"

text \<open>\<open>min\<close>, \<open>max\<close> and \<open>sum(xs) / len(xs)\<close> of a non-empty tuple.\<close>

definition floats_min :: "pyfloat list \<Rightarrow> pyfloat" where
  "floats_min xs = foldl fmin (hd xs) (tl xs)"

definition floats_max :: "pyfloat list \<Rightarrow> pyfloat" where
  "floats_max xs = foldl fmax (hd xs) (tl xs)"

definition division_by_zero :: exn where
  "division_by_zero = OtherError ''division by zero''"

definition checked_div :: "pyfloat \<Rightarrow> pyfloat \<Rightarrow> (exn, pyfloat) result" where
  "checked_div x y = (case fdiv x y of None \<Rightarrow> Inl division_by_zero | Some q \<Rightarrow> Inr q)"

definition floats_mean :: "pyfloat list \<Rightarrow> (exn, pyfloat) result" where
  "floats_mean xs = checked_div (float_total xs) (FFin (of_nat (length xs)))"

definition forecast_value ::
  "WorkloadForecast option \<Rightarrow> (WorkloadForecast \<Rightarrow> pyval) \<Rightarrow> string \<Rightarrow> (exn, pyfloat \<times> pyfloat) result" where
  "forecast_value forecast field name =
     (case forecast of
        None \<Rightarrow> Inr (FFin 0, FFin 1)
      | Some w \<Rightarrow> rbind (feature_number (field w) (''workload_forecast.'' @ name)) (\<lambda>x. Inr (x, FFin 0)))"

definition optional_feature :: "('a \<Rightarrow> pyval) \<Rightarrow> 'a option \<Rightarrow> string \<Rightarrow> (exn, pyfloat) result" where
  "optional_feature field x f = (case x of None \<Rightarrow> Inr (FFin 0) | Some y \<Rightarrow> feature_number (field y) f)"

definition feature_order :: "string list" where
  "feature_order =
     [''plan_type_training'', ''plan_type_inference'', ''layer_count'', ''participant_count'',
      ''total_compute_units'', ''total_parameter_bytes'', ''total_activation_bytes'',
      ''total_working_memory_bytes'', ''device_compute_min'', ''device_compute_mean'',
      ''device_compute_max'', ''device_memory_min'', ''device_memory_mean'', ''device_memory_max'',
      ''network_bandwidth_min'', ''network_bandwidth_mean'', ''network_bandwidth_max'',
      ''network_latency_min'', ''network_latency_mean'', ''network_latency_max'', ''max_latency_ms'',
      ''max_transfer_bytes'', ''minimum_memory_headroom_ratio'', ''forecast_request_rate'',
      ''forecast_batch_size'', ''forecast_sequence_length'', ''forecast_uncertainty'',
      ''forecast_request_rate_missing'', ''forecast_batch_size_missing'',
      ''forecast_sequence_length_missing'', ''candidate_partition_count'',
      ''candidate_compute_share_min'', ''candidate_compute_share_mean'', ''candidate_compute_share_max'',
      ''estimated_compute_ms'', ''estimated_transfer_ms'', ''estimated_total_latency_ms'',
      ''estimated_step_time_ms'', ''total_transfer_bytes'', ''gradient_transfer_bytes'',
      ''maximum_memory_pressure'', ''maximum_load_imbalance'', ''predicted_resilience_risk'',
      ''baseline_score'', ''split_position_min'', ''split_position_mean'', ''split_position_max'']"

definition feature_schema_version :: string where
  "feature_schema_version = ''partition-feature-v1''"

text \<open>The smallest, mean and largest of a tuple, under three names.\<close>

definition spread :: "string \<Rightarrow> pyfloat list \<Rightarrow> (exn, (string \<times> pyfloat) list) result" where
  "spread name xs = rbind (floats_mean xs) (\<lambda>mean.
     Inr [(name @ ''_min'', floats_min xs), (name @ ''_mean'', mean), (name @ ''_max'', floats_max xs)])"

definition total_feature :: "('a \<Rightarrow> pyval) \<Rightarrow> 'a list \<Rightarrow> string \<Rightarrow> (exn, pyfloat) result" where
  "total_feature field xs f = rbind (rmap (\<lambda>x. feature_number (field x) f) xs) (\<lambda>ys. Inr (float_total ys))"

definition request_features ::
  "NormalizedPartitionRequest \<Rightarrow> (exn, (string \<times> pyfloat) list \<times> pyfloat) result" where
  "request_features r =
     (let layers = nr_layers r; devices = nr_devices r; links = nr_network_links r in
      rbind (feature_text (nr_plan_type r) ''plan_type'') (\<lambda>kind.
      rbind (raise_if (kind \<notin> set plan_types) (feature_error ''plan_type is unsupported'')) (\<lambda>_.
      rbind (raise_if (layers = [] \<or> devices = [] \<or> links = [])
        (feature_error ''layers, devices, and network links are required'')) (\<lambda>_.
      rbind (total_feature (\<lambda>l. VFloat (ml_compute_units l)) layers ''layers.compute_units'') (\<lambda>units.
      rbind (raise_if (fle units zero_float) (feature_error ''total_compute_units must be positive'')) (\<lambda>_.
      rbind (total_feature (\<lambda>l. VInt (ml_parameter_bytes l)) layers ''layers.parameter_bytes'') (\<lambda>parameters.
      rbind (total_feature (\<lambda>l. VInt (ml_activation_bytes l)) layers ''layers.activation_bytes'') (\<lambda>activation.
      rbind (total_feature (\<lambda>l. VInt (ml_working_memory_bytes l)) layers ''layers.working_memory_bytes'')
        (\<lambda>working.
      rbind (rmap (\<lambda>d. feature_float (rd_compute_units_per_second d) ''devices.compute_units_per_second'')
        devices) (\<lambda>speeds.
      rbind (rmap (\<lambda>d. feature_int (rd_memory_available_bytes d) ''devices.memory_available_bytes'') devices)
        (\<lambda>memories.
      rbind (rmap (\<lambda>l. feature_float (nl_bandwidth_bytes_per_second l)
        ''network_links.bandwidth_bytes_per_second'') links) (\<lambda>bandwidths.
      rbind (rmap (\<lambda>l. feature_float (nl_latency_ms l) ''network_links.latency_ms'') links) (\<lambda>latencies.
      rbind (spread ''device_compute'' speeds) (\<lambda>speed_features.
      rbind (spread ''device_memory'' memories) (\<lambda>memory_features.
      rbind (spread ''network_bandwidth'' bandwidths) (\<lambda>bandwidth_features.
      rbind (spread ''network_latency'' latencies) (\<lambda>latency_features.
      rbind (feature_int (int (length layers)) ''layer_count'') (\<lambda>layer_count.
      rbind (feature_int (int (length (nr_participants r))) ''participant_count'') (\<lambda>participant_count.
      Inr ([(''plan_type_training'', FFin (if kind = ''training'' then 1 else 0)),
            (''plan_type_inference'', FFin (if kind = ''inference'' then 1 else 0)),
            (''layer_count'', layer_count), (''participant_count'', participant_count),
            (''total_compute_units'', units), (''total_parameter_bytes'', parameters),
            (''total_activation_bytes'', activation), (''total_working_memory_bytes'', working)] @
           speed_features @ memory_features @ bandwidth_features @ latency_features, units))))))))))))))))))))"

definition constraint_features :: "PartitionConstraints \<Rightarrow> (exn, (string \<times> pyfloat) list) result" where
  "constraint_features k =
     rbind (optional_feature VFloat (pc_max_end_to_end_latency_ms k) ''constraints.max_end_to_end_latency_ms'')
       (\<lambda>latency.
     rbind (optional_feature VInt (pc_max_transfer_bytes k) ''constraints.max_transfer_bytes'') (\<lambda>transfer.
     rbind (feature_float (pc_minimum_memory_headroom_ratio k) ''constraints.minimum_memory_headroom_ratio'')
       (\<lambda>headroom.
     Inr [(''max_latency_ms'', latency), (''max_transfer_bytes'', transfer),
          (''minimum_memory_headroom_ratio'', headroom)])))"

definition forecast_features :: "WorkloadForecast option \<Rightarrow> (exn, (string \<times> pyfloat) list) result" where
  "forecast_features w =
     rbind (forecast_value w (\<lambda>w. VFloat (wf_expected_request_rate w)) ''expected_request_rate'')
       (\<lambda>(rate, rate_missing).
     rbind (forecast_value w (\<lambda>w. VInt (wf_expected_batch_size w)) ''expected_batch_size'')
       (\<lambda>(batch, batch_missing).
     rbind (forecast_value w (\<lambda>w. VInt (wf_expected_sequence_length w)) ''expected_sequence_length'')
       (\<lambda>(sequence, sequence_missing).
     rbind (optional_feature (\<lambda>w. VFloat (wf_uncertainty w)) w ''workload_forecast.uncertainty'')
       (\<lambda>uncertainty.
     Inr [(''forecast_request_rate'', rate), (''forecast_batch_size'', batch),
          (''forecast_sequence_length'', sequence), (''forecast_uncertainty'', uncertainty),
          (''forecast_request_rate_missing'', rate_missing), (''forecast_batch_size_missing'', batch_missing),
          (''forecast_sequence_length_missing'', sequence_missing)]))))"

definition candidate_estimates :: "PartitionCandidate \<Rightarrow> (string \<times> pyval) list" where
  "candidate_estimates c =
     [(''estimated_compute_ms'', VFloat (ca_estimated_compute_ms c)),
      (''estimated_transfer_ms'', VFloat (ca_estimated_transfer_ms c)),
      (''estimated_total_latency_ms'', VFloat (ca_estimated_total_latency_ms c)),
      (''estimated_step_time_ms'', VFloat (ca_estimated_step_time_ms c)),
      (''total_transfer_bytes'', VInt (ca_total_transfer_bytes c)),
      (''gradient_transfer_bytes'', VInt (ca_gradient_transfer_bytes c)),
      (''maximum_memory_pressure'', VFloat (ca_maximum_memory_pressure c)),
      (''maximum_load_imbalance'', VFloat (ca_maximum_load_imbalance c)),
      (''predicted_resilience_risk'', VFloat (ca_predicted_resilience_risk c)),
      (''baseline_score'', VFloat (ca_score c))]"

definition named_features :: "(string \<times> pyval) list \<Rightarrow> (exn, (string \<times> pyfloat) list) result" where
  "named_features fs = rmap (\<lambda>(name, v). rbind (feature_number v name) (\<lambda>x. Inr (name, x))) fs"

definition candidate_inputs :: "PartitionCandidate \<Rightarrow> (exn, pyfloat list \<times> pyfloat list) result" where
  "candidate_inputs c =
     rbind (rmap (\<lambda>p. feature_float (lp_compute_units p) ''partitions.compute_units'') (ca_partitions c))
       (\<lambda>compute.
     rbind (rmap (\<lambda>p. feature_int (lp_memory_demand_bytes p) ''partitions.memory_demand_bytes'')
       (ca_partitions c)) (\<lambda>memory.
     rbind (raise_if (compute = []) (feature_error ''candidate must contain partitions'')) (\<lambda>_.
     rbind (raise_if (ca_split_points c = []) (feature_error ''candidate must contain split points'')) (\<lambda>_.
     rbind (rmap (\<lambda>s. feature_int s ''split_points'') (ca_split_points c)) (\<lambda>positions.
     Inr (compute, positions))))))"

definition candidate_features ::
  "pyfloat \<Rightarrow> pyfloat list \<Rightarrow> pyfloat list \<Rightarrow> PartitionCandidate \<Rightarrow> (exn, (string \<times> pyfloat) list) result" where
  "candidate_features units compute positions c =
     rbind (feature_int (int (length (ca_partitions c))) ''candidate_partition_count'') (\<lambda>partition_count.
     rbind (checked_div (floats_min compute) units) (\<lambda>share_min.
     rbind (rbind (floats_mean compute) (\<lambda>mean. checked_div mean units)) (\<lambda>share_mean.
     rbind (checked_div (floats_max compute) units) (\<lambda>share_max.
     rbind (named_features (candidate_estimates c)) (\<lambda>estimates.
     rbind (spread ''split_position'' positions) (\<lambda>position_features.
     Inr ([(''candidate_partition_count'', partition_count), (''candidate_compute_share_min'', share_min),
           (''candidate_compute_share_mean'', share_mean), (''candidate_compute_share_max'', share_max)] @
          estimates @ position_features)))))))"

definition extract_partition_features ::
  "RankingContext \<Rightarrow> PartitionCandidate \<Rightarrow> (exn, (string \<times> pyfloat) list) result" where
  "extract_partition_features x c =
     (let r = rx_request x in
      rbind (request_features r) (\<lambda>(of_request, units).
      rbind (forecast_features (nr_workload_forecast r)) (\<lambda>of_forecast.
      rbind (candidate_inputs c) (\<lambda>(compute, positions).
      rbind (constraint_features (nr_constraints r)) (\<lambda>of_constraints.
      rbind (candidate_features units compute positions c) (\<lambda>of_candidate.
      let vector = of_request @ of_constraints @ of_forecast @ of_candidate in
      rbind (raise_if (map fst vector \<noteq> feature_order)
        (feature_error ''feature order does not match partition-feature-v1'')) (\<lambda>_.
      named_features (map (\<lambda>(name, x). (name, VFloat x)) vector))))))))"

end
