(* ===== verification/PartitionArtifact.thy ===== *)
theory PartitionArtifact
  imports PartitionFeatures
begin

text \<open>
  \<open>partition_ranker_repository.py\<close>: the model artifact of the learned ranker, read from a decoded
  document, checked field by field and sealed with the hash of its canonical text. The directory the
  artifacts are kept in is not modelled.
\<close>

section \<open>Readers\<close>

definition artifact_error :: "string \<Rightarrow> exn" where
  "artifact_error m = PartitionContractError ''invalid_model_artifact'' m"

definition artifact_text :: "pyval \<Rightarrow> string \<Rightarrow> (exn, string) result" where
  "artifact_text v f =
     (let missing = Inl (artifact_error (f @ '' is required'')) in
      case v of
        VStr s \<Rightarrow>
          (if s = '''' then missing
           else if s \<noteq> strip s
           then Inl (artifact_error (f @ '' must not contain leading or trailing whitespace''))
           else Inr s)
      | _ \<Rightarrow> missing)"

definition artifact_number :: "pyval \<Rightarrow> string \<Rightarrow> (exn, pyfloat) result" where
  "artifact_number v f =
     (case v of
        VInt i \<Rightarrow> float_of_int i
      | VFloat x \<Rightarrow> if is_finite x then Inr x else Inl (artifact_error (f @ '' must be finite''))
      | _ \<Rightarrow> Inl (artifact_error (f @ '' must be numeric'')))"

definition artifact_integer :: "pyval \<Rightarrow> string \<Rightarrow> int \<Rightarrow> (exn, int) result" where
  "artifact_integer v f minimum =
     (let bad = Inl (artifact_error (f @ '' must be an integer of at least '' @ int_str minimum)) in
      case v of VInt i \<Rightarrow> if i < minimum then bad else Inr i | _ \<Rightarrow> bad)"

definition artifact_bounded :: "pyval \<Rightarrow> string \<Rightarrow> pyfloat \<Rightarrow> pyfloat \<Rightarrow> (exn, pyfloat) result" where
  "artifact_bounded v f minimum maximum =
     rbind (artifact_number v f) (\<lambda>x.
       if fle minimum x \<and> fle x maximum then Inr x
       else Inl (artifact_error (f @ '' must be between '' @ float_repr minimum @ '' and '' @ float_repr maximum)))"

definition artifact_sequence :: "pyval \<Rightarrow> string \<Rightarrow> (exn, pyval list) result" where
  "artifact_sequence v f = (case v of VList vs \<Rightarrow> Inr vs | VTuple vs \<Rightarrow> Inr vs
     | _ \<Rightarrow> Inl (artifact_error (f @ '' must be an array'')))"

definition artifact_mapping :: "pyval \<Rightarrow> string \<Rightarrow> (exn, payload) result" where
  "artifact_mapping v f = (case v of VDict d \<Rightarrow> Inr d | _ \<Rightarrow> Inl (artifact_error (f @ '' must be an object'')))"

definition text_tuple :: "pyval \<Rightarrow> string \<Rightarrow> (exn, string list) result" where
  "text_tuple v f = rbind (artifact_sequence v f) (rmap (\<lambda>i. artifact_text i (f @ ''[]'')))"

definition number_tuple :: "pyval \<Rightarrow> string \<Rightarrow> (exn, pyfloat list) result" where
  "number_tuple v f = rbind (artifact_sequence v f) (rmap (\<lambda>i. artifact_number i (f @ ''[]'')))"

definition numeric_mapping :: "pyval \<Rightarrow> string \<Rightarrow> (exn, (string \<times> pyfloat) list) result" where
  "numeric_mapping v f =
     rbind (artifact_mapping v f) (rmap (\<lambda>(name, item).
       rbind (artifact_text (VStr name) (f @ '' key'')) (\<lambda>key.
       rbind (artifact_number item (f @ ''.'' @ name)) (\<lambda>x. Inr (key, x)))))"

definition validation_metric_keys :: "string list" where
  "validation_metric_keys =
     [''holdout_mae'', ''mae'', ''rmse'', ''spearman_correlation'', ''candidate_selection_agreement'',
      ''candidate_selection_agreement_available'', ''learned_regret'', ''learned_regret_available'',
      ''baseline_regret'', ''baseline_regret_available'', ''ranking_group_count'', ''quality_eligible'',
      ''deployment_eligible'']"

definition validation_metrics_of :: "pyval \<Rightarrow> string \<Rightarrow> (exn, (string \<times> pyfloat) list) result" where
  "validation_metrics_of v f =
     rbind (numeric_mapping v f) (\<lambda>metrics.
     if set (map fst metrics) \<noteq> set validation_metric_keys
     then Inl (artifact_error (f @ '' keys must exactly match the validation_metrics keys''))
     else Inr metrics)"

text \<open>A single path segment: no separator, drive, dot entry, trailing blank or dot.\<close>

definition rstrip_dots :: "string \<Rightarrow> string" where
  "rstrip_dots s = rev (dropWhile (\<lambda>c. c = CHR '' '' \<or> c = CHR ''.'') (rev s))"

definition validate_model_version :: "pyval \<Rightarrow> (exn, string) result" where
  "validate_model_version v =
     rbind (artifact_text v ''model_version'') (\<lambda>version.
     if CHR ''/'' \<in> set version \<or> CHR 0x5C \<in> set version \<or> take 1 (drop 1 version) = '':'' \<or>
        version \<in> {''.'', ''..''} \<or> version \<noteq> rstrip_dots version
     then Inl (artifact_error ''model_version must be a single safe registry segment'')
     else Inr version)"

definition hex_digits :: string where
  "hex_digits = ''0123456789abcdef''"

definition validate_sha256 :: "pyval \<Rightarrow> string \<Rightarrow> (exn, unit) result" where
  "validate_sha256 v f =
     rbind (artifact_text v f) (\<lambda>text.
     raise_if (length text \<noteq> 64 \<or> list_ex (\<lambda>c. c \<notin> set hex_digits) text)
       (artifact_error (f @ '' must be a lowercase SHA-256 hex digest'')))"

definition feature_ranges_of :: "pyval \<Rightarrow> (exn, (string \<times> pyfloat \<times> pyfloat) list) result" where
  "feature_ranges_of v =
     rbind (artifact_mapping v ''training_feature_ranges'') (\<lambda>d.
     rbind (raise_if (set (map fst d) \<noteq> set feature_order)
       (artifact_error ''training feature ranges must match the fixed feature order'')) (\<lambda>_.
     rmap (\<lambda>name.
       let f = ''training_feature_ranges.'' @ name;
           bad = Inl (artifact_error (f @ '' must contain two values'')) in
       case vget d name of
         VList [low, high] \<Rightarrow> rbind (artifact_number low (f @ ''[0]'')) (\<lambda>a.
           rbind (artifact_number high (f @ ''[1]'')) (\<lambda>b. Inr (name, a, b)))
       | VTuple [low, high] \<Rightarrow> rbind (artifact_number low (f @ ''[0]'')) (\<lambda>a.
           rbind (artifact_number high (f @ ''[1]'')) (\<lambda>b. Inr (name, a, b)))
       | _ \<Rightarrow> bad) feature_order))"

section \<open>Provenance of the training\<close>

definition provenance_fields :: "string list" where
  "provenance_fields =
     [''seed'', ''ridge_alpha'', ''holdout_test_fraction'', ''eligibility_thresholds'',
      ''training_lineage_group_hashes'']"

definition threshold_fields :: "string list" where
  "threshold_fields =
     [''minimum_observed_samples'', ''minimum_independent_groups'', ''maximum_holdout_mae'',
      ''minimum_spearman_correlation'', ''minimum_selection_confidence'', ''maximum_ood_feature_ratio'']"

definition eligibility_thresholds_of :: "pyval \<Rightarrow> (exn, payload) result" where
  "eligibility_thresholds_of v =
     (let bad = Inl (artifact_error ''training_provenance.eligibility_thresholds are unsupported'');
          field = (\<lambda>name. ''training_provenance.eligibility_thresholds.'' @ name) in
      case v of
        VDict d \<Rightarrow>
          (if set (map fst d) \<noteq> set threshold_fields then bad
           else
             rbind (artifact_integer (vget d ''minimum_observed_samples'') (field ''minimum_observed_samples'') 1)
               (\<lambda>samples.
             rbind (artifact_integer (vget d ''minimum_independent_groups'')
               (field ''minimum_independent_groups'') 1) (\<lambda>groups.
             rbind (artifact_bounded (vget d ''maximum_holdout_mae'') (field ''maximum_holdout_mae'')
               (FFin 0) (FFin 2)) (\<lambda>mae.
             rbind (artifact_bounded (vget d ''minimum_spearman_correlation'')
               (field ''minimum_spearman_correlation'') (FFin 0) (FFin 1)) (\<lambda>spearman.
             rbind (artifact_bounded (vget d ''minimum_selection_confidence'')
               (field ''minimum_selection_confidence'') (FFin 0) (FFin 1)) (\<lambda>confidence.
             rbind (artifact_bounded (vget d ''maximum_ood_feature_ratio'')
               (field ''maximum_ood_feature_ratio'') (FFin 0) (FFin 1)) (\<lambda>ratio.
             Inr [(''minimum_observed_samples'', VInt samples), (''minimum_independent_groups'', VInt groups),
                  (''maximum_holdout_mae'', VFloat mae), (''minimum_spearman_correlation'', VFloat spearman),
                  (''minimum_selection_confidence'', VFloat confidence),
                  (''maximum_ood_feature_ratio'', VFloat ratio)])))))))
      | _ \<Rightarrow> bad)"

definition lineage_field :: string where
  "lineage_field = ''training_provenance.training_lineage_group_hashes''"

definition validated_lineage_hash :: "pyval \<Rightarrow> (exn, string) result" where
  "validated_lineage_hash v =
     rbind (artifact_text v (lineage_field @ ''[]'')) (\<lambda>text.
     rbind (validate_sha256 (VStr text) (lineage_field @ ''[]'')) (\<lambda>_. Inr text))"

record TrainingProvenance =
  tv_seed :: int
  tv_ridge_alpha :: pyfloat
  tv_holdout_test_fraction :: pyfloat
  tv_eligibility_thresholds :: payload
  tv_training_lineage_group_hashes :: "string list"

definition training_provenance_of :: "pyval \<Rightarrow> (exn, TrainingProvenance) result" where
  "training_provenance_of v =
     rbind (artifact_mapping v ''training_provenance'') (\<lambda>d.
     rbind (raise_if (set (map fst d) \<noteq> set provenance_fields)
       (artifact_error ''training_provenance fields are unsupported'')) (\<lambda>_.
     rbind (case vget d ''seed'' of VInt i \<Rightarrow> Inr i
       | _ \<Rightarrow> Inl (artifact_error ''training_provenance.seed must be an integer'')) (\<lambda>seed.
     rbind (artifact_number (vget d ''ridge_alpha'') ''training_provenance.ridge_alpha'') (\<lambda>alpha.
     rbind (raise_if (fle alpha (FFin 0))
       (artifact_error ''training_provenance.ridge_alpha must be positive'')) (\<lambda>_.
     rbind (artifact_number (vget d ''holdout_test_fraction'') ''training_provenance.holdout_test_fraction'')
       (\<lambda>fraction.
     rbind (raise_if (\<not> (flt (FFin 0) fraction \<and> flt fraction (FFin 1)))
       (artifact_error ''training_provenance.holdout_test_fraction must be between 0 and 1'')) (\<lambda>_.
     rbind (eligibility_thresholds_of (vget d ''eligibility_thresholds'')) (\<lambda>thresholds.
     rbind (artifact_sequence (vget d ''training_lineage_group_hashes'') lineage_field) (\<lambda>groups.
     rbind (rmap validated_lineage_hash groups) (\<lambda>hashes.
     rbind (raise_if (sort hashes \<noteq> hashes \<or> \<not> distinct hashes)
       (artifact_error ''training provenance lineage hashes must be sorted and unique'')) (\<lambda>_.
     Inr \<lparr>tv_seed = seed, tv_ridge_alpha = alpha, tv_holdout_test_fraction = fraction,
       tv_eligibility_thresholds = thresholds, tv_training_lineage_group_hashes = hashes\<rparr>)))))))))))"

definition training_provenance_dict :: "TrainingProvenance \<Rightarrow> payload" where
  "training_provenance_dict p =
     [(''seed'', VInt (tv_seed p)), (''ridge_alpha'', VFloat (tv_ridge_alpha p)),
      (''holdout_test_fraction'', VFloat (tv_holdout_test_fraction p)),
      (''eligibility_thresholds'', VDict (tv_eligibility_thresholds p)),
      (''training_lineage_group_hashes'', VList (map VStr (tv_training_lineage_group_hashes p)))]"

section \<open>Artifacts\<close>

record PartitionRankerModelArtifact =
  at_schema_version :: string
  at_model_type :: string
  at_model_version :: string
  at_feature_schema_version :: string
  at_trained_at :: string
  at_training_dataset_hash :: string
  at_training_scope :: string
  at_sample_count :: int
  at_group_count :: int
  at_feature_order :: "string list"
  at_feature_mean :: "pyfloat list"
  at_feature_scale :: "pyfloat list"
  at_coefficients :: "pyfloat list"
  at_intercept :: pyfloat
  at_training_feature_ranges :: "(string \<times> pyfloat \<times> pyfloat) list"
  at_validation_metrics :: "(string \<times> pyfloat) list"
  at_confidence_policy :: "(string \<times> pyfloat) list"
  at_training_provenance :: payload
  at_artifact_hash :: string

definition model_artifact_schema_version :: string where
  "model_artifact_schema_version = ''partition-ranker-model-v2''"

definition validate_vector :: "pyfloat list \<Rightarrow> string \<Rightarrow> bool \<Rightarrow> (exn, unit) result" where
  "validate_vector xs f positive =
     rbind (raise_if (length xs \<noteq> length feature_order)
       (artifact_error (f @ '' must match the fixed feature order''))) (\<lambda>_.
     rcheck (\<lambda>x. rbind (artifact_number (VFloat x) f) (\<lambda>n.
       raise_if (positive \<and> fle n (FFin 0)) (artifact_error (f @ '' values must be positive'')))) xs)"

definition validate_feature_ranges :: "(string \<times> pyfloat \<times> pyfloat) list \<Rightarrow> (exn, unit) result" where
  "validate_feature_ranges ranges =
     rbind (raise_if (set (map fst ranges) \<noteq> set feature_order)
       (artifact_error ''training feature ranges must match the fixed feature order'')) (\<lambda>_.
     rcheck (\<lambda>name. let (low, high) = the (map_of ranges name); f = ''training_feature_ranges.'' @ name in
       rbind (artifact_number (VFloat low) (f @ ''[0]'')) (\<lambda>a.
       rbind (artifact_number (VFloat high) (f @ ''[1]'')) (\<lambda>b.
       raise_if (flt b a) (artifact_error ''training feature range minimum exceeds maximum'')))) feature_order)"

definition float_items :: "(string \<times> pyfloat) list \<Rightarrow> pyval" where
  "float_items xs = VDict (map (\<lambda>(k, x). (k, VFloat x)) xs)"

definition validate_artifact :: "bool \<Rightarrow> PartitionRankerModelArtifact \<Rightarrow> (exn, unit) result" where
  "validate_artifact require_hash a =
     rbind (raise_if (at_schema_version a \<noteq> model_artifact_schema_version)
       (artifact_error ''unsupported artifact schema version'')) (\<lambda>_.
     rbind (artifact_text (VStr (at_model_type a)) ''model_type'') (\<lambda>_.
     rbind (validate_model_version (VStr (at_model_version a))) (\<lambda>_.
     rbind (artifact_text (VStr (at_trained_at a)) ''trained_at'') (\<lambda>_.
     rbind (artifact_text (VStr (at_training_scope a)) ''training_scope'') (\<lambda>_.
     rbind (raise_if (at_feature_schema_version a \<noteq> feature_schema_version)
       (artifact_error ''feature schema version does not match partition-feature-v1'')) (\<lambda>_.
     rbind (raise_if (at_feature_order a \<noteq> feature_order)
       (artifact_error ''feature order does not match partition-feature-v1'')) (\<lambda>_.
     rbind (validate_sha256 (VStr (at_training_dataset_hash a)) ''training_dataset_hash'') (\<lambda>_.
     rbind (artifact_integer (VInt (at_sample_count a)) ''sample_count'' 0) (\<lambda>_.
     rbind (artifact_integer (VInt (at_group_count a)) ''group_count'' 0) (\<lambda>_.
     rbind (validate_vector (at_feature_mean a) ''feature_mean'' False) (\<lambda>_.
     rbind (validate_vector (at_feature_scale a) ''feature_scale'' True) (\<lambda>_.
     rbind (validate_vector (at_coefficients a) ''coefficients'' False) (\<lambda>_.
     rbind (artifact_number (VFloat (at_intercept a)) ''intercept'') (\<lambda>_.
     rbind (validate_feature_ranges (at_training_feature_ranges a)) (\<lambda>_.
     rbind (validation_metrics_of (float_items (at_validation_metrics a)) ''validation_metrics'') (\<lambda>_.
     rbind (numeric_mapping (float_items (at_confidence_policy a)) ''confidence_policy'') (\<lambda>_.
     rbind (training_provenance_of (VDict (at_training_provenance a))) (\<lambda>provenance.
     rbind (raise_if (at_group_count a \<noteq> int (length (tv_training_lineage_group_hashes provenance)))
       (artifact_error ''group_count must equal the unique training lineage group hashes'')) (\<lambda>_.
     if require_hash then validate_sha256 (VStr (at_artifact_hash a)) ''artifact_hash''
     else Inr ())))))))))))))))))))"

definition range_item :: "(string \<times> pyfloat \<times> pyfloat) list \<Rightarrow> string \<Rightarrow> string \<times> pyval" where
  "range_item ranges name =
     (let (low, high) = the (map_of ranges name) in (name, VList [VFloat low, VFloat high]))"

definition artifact_dict :: "PartitionRankerModelArtifact \<Rightarrow> (exn, payload) result" where
  "artifact_dict a =
     rbind (validate_artifact False a) (\<lambda>_.
     rbind (training_provenance_of (VDict (at_training_provenance a))) (\<lambda>provenance.
     Inr [(''schema_version'', VStr (at_schema_version a)), (''model_type'', VStr (at_model_type a)),
          (''model_version'', VStr (at_model_version a)),
          (''feature_schema_version'', VStr (at_feature_schema_version a)),
          (''trained_at'', VStr (at_trained_at a)),
          (''training_dataset_hash'', VStr (at_training_dataset_hash a)),
          (''training_scope'', VStr (at_training_scope a)), (''sample_count'', VInt (at_sample_count a)),
          (''group_count'', VInt (at_group_count a)),
          (''feature_order'', VList (map VStr (at_feature_order a))),
          (''feature_mean'', VList (map VFloat (at_feature_mean a))),
          (''feature_scale'', VList (map VFloat (at_feature_scale a))),
          (''coefficients'', VList (map VFloat (at_coefficients a))), (''intercept'', VFloat (at_intercept a)),
          (''training_feature_ranges'', VDict (map (range_item (at_training_feature_ranges a)) feature_order)),
          (''validation_metrics'', float_items (at_validation_metrics a)),
          (''confidence_policy'', float_items (at_confidence_policy a)),
          (''training_provenance'', VDict (training_provenance_dict provenance)),
          (''artifact_hash'', VStr (at_artifact_hash a))]))"

definition computed_hash :: "(string \<Rightarrow> string) \<Rightarrow> PartitionRankerModelArtifact \<Rightarrow> (exn, string) result" where
  "computed_hash sha256 a =
     rbind (artifact_dict a) (\<lambda>d. json_digest sha256 (filter (\<lambda>(k, v). k \<noteq> ''artifact_hash'') d))"

definition with_computed_hash ::
  "(string \<Rightarrow> string) \<Rightarrow> PartitionRankerModelArtifact \<Rightarrow> (exn, PartitionRankerModelArtifact) result" where
  "with_computed_hash sha256 a =
     rbind (validate_artifact False a) (\<lambda>_.
     rbind (computed_hash sha256 a) (\<lambda>h. Inr (a\<lparr>at_artifact_hash := h\<rparr>)))"

definition verify_hash :: "(string \<Rightarrow> string) \<Rightarrow> PartitionRankerModelArtifact \<Rightarrow> (exn, unit) result" where
  "verify_hash sha256 a =
     rbind (validate_artifact True a) (\<lambda>_.
     rbind (computed_hash sha256 a) (\<lambda>h.
     raise_if (at_artifact_hash a \<noteq> h)
       (artifact_error ''artifact hash does not match its canonical payload'')))"

definition artifact_fields :: "string list" where
  "artifact_fields =
     [''schema_version'', ''model_type'', ''model_version'', ''feature_schema_version'', ''trained_at'',
      ''training_dataset_hash'', ''training_scope'', ''sample_count'', ''group_count'', ''feature_order'',
      ''feature_mean'', ''feature_scale'', ''coefficients'', ''intercept'', ''training_feature_ranges'',
      ''validation_metrics'', ''confidence_policy'', ''training_provenance'', ''artifact_hash'']"

definition artifact_of :: "payload \<Rightarrow> (exn, PartitionRankerModelArtifact) result" where
  "artifact_of d =
     rbind (raise_if (\<not> set (map fst d) \<subseteq> set artifact_fields)
       (artifact_error ''unknown artifact fields are not allowed'')) (\<lambda>_.
     rbind (raise_if (\<not> set artifact_fields \<subseteq> set (map fst d))
       (artifact_error ''required artifact fields are missing'')) (\<lambda>_.
     let text = (\<lambda>f. artifact_text (vget d f) f) in
     rbind (text ''schema_version'') (\<lambda>schema.
     rbind (text ''model_type'') (\<lambda>kind.
     rbind (text ''model_version'') (\<lambda>version.
     rbind (text ''feature_schema_version'') (\<lambda>feature_schema.
     rbind (text ''trained_at'') (\<lambda>trained.
     rbind (text ''training_dataset_hash'') (\<lambda>dataset.
     rbind (text ''training_scope'') (\<lambda>scope.
     rbind (artifact_integer (vget d ''sample_count'') ''sample_count'' 0) (\<lambda>samples.
     rbind (artifact_integer (vget d ''group_count'') ''group_count'' 0) (\<lambda>groups.
     rbind (text_tuple (vget d ''feature_order'') ''feature_order'') (\<lambda>order.
     rbind (number_tuple (vget d ''feature_mean'') ''feature_mean'') (\<lambda>mean.
     rbind (number_tuple (vget d ''feature_scale'') ''feature_scale'') (\<lambda>scale.
     rbind (number_tuple (vget d ''coefficients'') ''coefficients'') (\<lambda>coefficients.
     rbind (artifact_number (vget d ''intercept'') ''intercept'') (\<lambda>intercept.
     rbind (feature_ranges_of (vget d ''training_feature_ranges'')) (\<lambda>ranges.
     rbind (validation_metrics_of (vget d ''validation_metrics'') ''validation_metrics'') (\<lambda>metrics.
     rbind (numeric_mapping (vget d ''confidence_policy'') ''confidence_policy'') (\<lambda>confidence.
     rbind (training_provenance_of (vget d ''training_provenance'')) (\<lambda>provenance.
     rbind (text ''artifact_hash'') (\<lambda>digest.
     let a = \<lparr>at_schema_version = schema, at_model_type = kind, at_model_version = version,
       at_feature_schema_version = feature_schema, at_trained_at = trained,
       at_training_dataset_hash = dataset, at_training_scope = scope, at_sample_count = samples,
       at_group_count = groups, at_feature_order = order, at_feature_mean = mean, at_feature_scale = scale,
       at_coefficients = coefficients, at_intercept = intercept, at_training_feature_ranges = ranges,
       at_validation_metrics = metrics, at_confidence_policy = confidence,
       at_training_provenance = training_provenance_dict provenance, at_artifact_hash = digest\<rparr> in
     rbind (validate_artifact True a) (\<lambda>_. Inr a))))))))))))))))))))))"

end
