(* ===== verification/PartitionSelection.thy ===== *)
theory PartitionSelection
  imports PartitionArtifact "HOL-Library.Multiset"
begin

text \<open>
  \<open>partition_ranking.py\<close>: the deterministic ranker, the learned ranker over a verified artifact, and
  the selector that lets the learned order decide only when every guard holds. The deterministic ranker
  of a selector is an argument, as in the code.
\<close>

section \<open>Sorting\<close>

text \<open>The stable order of \<open>sorted(xs, key=...)\<close>, from the strict comparison of the keys.\<close>

fun insert_by :: "('a \<Rightarrow> 'a \<Rightarrow> bool) \<Rightarrow> 'a \<Rightarrow> 'a list \<Rightarrow> 'a list" where
  "insert_by precedes x [] = [x]"
| "insert_by precedes x (y # ys) = (if precedes y x then y # insert_by precedes x ys else x # y # ys)"

definition sort_by :: "('a \<Rightarrow> 'a \<Rightarrow> bool) \<Rightarrow> 'a list \<Rightarrow> 'a list" where
  "sort_by precedes xs = foldr (insert_by precedes) xs []"

lemma sort_by_simps [simp]:
  "sort_by precedes [] = []" "sort_by precedes (x # xs) = insert_by precedes x (sort_by precedes xs)"
  by (simp_all add: sort_by_def)

lemma mset_insert_by [simp]: "mset (insert_by precedes x xs) = add_mset x (mset xs)"
  by (induction xs) auto

lemma mset_sort_by [simp]: "mset (sort_by precedes xs) = mset xs"
  by (induction xs) auto

lemma set_sort_by [simp]: "set (sort_by precedes xs) = set xs"
  by (metis mset_sort_by set_mset_mset)

lemma length_sort_by [simp]: "length (sort_by precedes xs) = length xs"
  by (metis mset_sort_by size_mset)

lemma set_insert_by [simp]: "set (insert_by precedes x xs) = insert x (set xs)"
  by (metis mset_insert_by set_mset_add_mset_insert set_mset_mset)

lemma insert_by_sorted:
  assumes "\<And>a b. precedes a b \<Longrightarrow> \<not> precedes b a"
    and "\<And>a b c. {a, b, c} \<subseteq> insert x (set xs) \<Longrightarrow> \<not> precedes b a \<Longrightarrow> \<not> precedes c b \<Longrightarrow> \<not> precedes c a"
    and "sorted_wrt (\<lambda>a b. \<not> precedes b a) xs"
  shows "sorted_wrt (\<lambda>a b. \<not> precedes b a) (insert_by precedes x xs)"
  using assms(2,3)
proof (induction xs)
  case (Cons y ys)
  have step: "\<not> precedes c a"
    if "{a, b, c} \<subseteq> insert x (set ys)" "\<not> precedes b a" "\<not> precedes c b" for a b c
    using that by (intro Cons.prems(1)[of a b c]) auto
  show ?case
  proof (cases "precedes y x")
    case True
    have "sorted_wrt (\<lambda>a b. \<not> precedes b a) (insert_by precedes x ys)"
      by (rule Cons.IH) (erule (2) step, use Cons.prems(2) in simp)
    with True Cons.prems(2) assms(1) show ?thesis by auto
  next
    case False
    have "\<not> precedes z x" if "z \<in> set ys" for z
      using that False Cons.prems by (intro Cons.prems(1)[of x y z]) auto
    with False Cons.prems(2) show ?thesis by auto
  qed
qed simp

lemma sort_by_sorted:
  assumes "\<And>a b. precedes a b \<Longrightarrow> \<not> precedes b a"
    and "\<And>a b c. {a, b, c} \<subseteq> set xs \<Longrightarrow> \<not> precedes b a \<Longrightarrow> \<not> precedes c b \<Longrightarrow> \<not> precedes c a"
  shows "sorted_wrt (\<lambda>a b. \<not> precedes b a) (sort_by precedes xs)"
  using assms(2)
proof (induction xs)
  case (Cons x xs)
  have "sorted_wrt (\<lambda>a b. \<not> precedes b a) (sort_by precedes xs)"
    by (rule Cons.IH) (rule Cons.prems, auto)
  moreover have "\<not> precedes c a"
    if "{a, b, c} \<subseteq> insert x (set (sort_by precedes xs))" "\<not> precedes b a" "\<not> precedes c b" for a b c
    using that by (intro Cons.prems[of a b c]) simp_all
  ultimately have "sorted_wrt (\<lambda>a b. \<not> precedes b a) (insert_by precedes x (sort_by precedes xs))"
    using assms(1) by (intro insert_by_sorted)
  then show ?case by simp
qed simp

section \<open>The deterministic ranker\<close>

definition candidate_before :: "PartitionCandidate \<Rightarrow> PartitionCandidate \<Rightarrow> bool" where
  "candidate_before a b =
     (if ca_valid a \<noteq> ca_valid b then ca_valid a
      else if \<not> feq (ca_score a) (ca_score b) then flt (ca_score a) (ca_score b)
      else ca_split_points a < ca_split_points b)"

definition deterministic_ranker_id :: string where
  "deterministic_ranker_id = ''deterministic-policy-ranker''"

definition ranked :: "'a list \<Rightarrow> (int \<times> 'a) list" where
  "ranked xs = zip (map int [1..<Suc (length xs)]) xs"

definition deterministic_entry ::
  "(string \<Rightarrow> string) \<Rightarrow> string \<Rightarrow> int \<times> PartitionCandidate \<Rightarrow> (exn, CandidateRankingEntry) result" where
  "deterministic_entry sha256 version = (\<lambda>(i, c).
     rbind (partition_candidate_key sha256 c version) (\<lambda>key.
     Inr \<lparr>re_candidate_key = key, re_baseline_score = ca_score c, re_predicted_reward = None,
       re_prediction_confidence = None, re_rank = i, re_eligible = ca_valid c,
       re_warnings = ca_rejection_reasons c, re_feature_contributions = []\<rparr>))"

definition selection_from_deterministic_order ::
  "(string \<Rightarrow> string) \<Rightarrow> RankingContext \<Rightarrow> PartitionCandidate list \<Rightarrow> PartitionCandidate option \<Rightarrow>
   (exn, CandidateSelection) result" where
  "selection_from_deterministic_order sha256 x ordered selected =
     rbind (case selected of None \<Rightarrow> Inr None
       | Some c \<Rightarrow> rbind (partition_candidate_key sha256 c (rx_strategy_version x)) (\<lambda>k. Inr (Some k))) (\<lambda>key.
     rbind (rmap (deterministic_entry sha256 (rx_strategy_version x)) (ranked ordered)) (\<lambda>entries.
     Inr \<lparr>cs_mode = DETERMINISTIC, cs_active_ranker_id = deterministic_ranker_id,
       cs_active_ranker_version = ''1.0'', cs_baseline_key = key, cs_learned_key = None, cs_final_key = key,
       cs_model_version = None, cs_model_artifact_hash = None,
       cs_feature_schema_version = feature_schema_version, cs_entries = entries, cs_confidence = FFin 1,
       cs_fallback_used = False, cs_fallback_reason = None,
       cs_rationale = [''Deterministic policy orders valid candidates by score and split points.'']\<rparr>))"

definition deterministic_rank ::
  "(string \<Rightarrow> string) \<Rightarrow> RankingContext \<Rightarrow> PartitionCandidate list \<Rightarrow> (exn, CandidateSelection) result" where
  "deterministic_rank sha256 x cs =
     (let ordered = sort_by candidate_before cs in
      selection_from_deterministic_order sha256 x ordered (List.find ca_valid ordered))"

section \<open>The learned ranker\<close>

definition finite_feature :: "(string \<times> pyfloat) list \<Rightarrow> string \<Rightarrow> (exn, pyfloat) result" where
  "finite_feature fs name = (case map_of fs name of
       None \<Rightarrow> Inl (ValueError (''feature '' @ name @ '' is missing''))
     | Some v \<Rightarrow> if is_finite v then Inr v else Inl (ValueError (''feature '' @ name @ '' must be finite'')))"

definition normalized_features ::
  "PartitionRankerModelArtifact \<Rightarrow> (string \<times> pyfloat) list \<Rightarrow> (exn, pyfloat list) result" where
  "normalized_features a fs =
     (let n = length (at_feature_order a) in
      if length (at_feature_mean a) \<noteq> n \<or> length (at_feature_scale a) \<noteq> n
      then Inl (ValueError ''zip() arguments differ in length'')
      else rmap (\<lambda>(name, mean, scale).
          rbind (finite_feature fs name) (\<lambda>v. checked_div (fsub v mean) scale))
        (zip (at_feature_order a) (zip (at_feature_mean a) (at_feature_scale a))))"

definition outside_range :: "PartitionRankerModelArtifact \<Rightarrow> (string \<times> pyfloat) list \<Rightarrow> string \<Rightarrow> (exn, bool) result" where
  "outside_range a fs name =
     rbind (finite_feature fs name) (\<lambda>v.
     case map_of (at_training_feature_ranges a) name of
       None \<Rightarrow> Inl (KeyError name)
     | Some (low, high) \<Rightarrow> Inr (flt v low \<or> flt high v))"

definition ood_feature_ratio :: "PartitionRankerModelArtifact \<Rightarrow> (string \<times> pyfloat) list \<Rightarrow> (exn, pyfloat) result" where
  "ood_feature_ratio a fs =
     rbind (rmap (outside_range a fs) (at_feature_order a)) (\<lambda>flags.
     case int_div (int (length (filter (\<lambda>b. b) flags))) (int (length (at_feature_order a))) of
       None \<Rightarrow> Inl division_by_zero
     | Some q \<Rightarrow> Inr q)"

definition prediction_confidence ::
  "PartitionRankerModelArtifact \<Rightarrow> (string \<times> pyfloat) list \<Rightarrow> (exn, pyfloat \<times> string list) result" where
  "prediction_confidence a fs =
     rbind (ood_feature_ratio a fs) (\<lambda>ratio.
     let base = (case map_of (at_confidence_policy a) ''base_confidence'' of None \<Rightarrow> FFin 1 | Some x \<Rightarrow> x) in
     Inr (fmax (FFin 0) (fmin (FFin 1) (fmul base (fsub (FFin 1) ratio))),
          if feq ratio (FFin 0) then [] else [''feature_distribution_shift'']))"

definition predict_reward ::
  "PartitionRankerModelArtifact \<Rightarrow> (string \<times> pyfloat) list \<Rightarrow> (exn, pyfloat \<times> pyfloat \<times> string list) result" where
  "predict_reward a fs =
     rbind (normalized_features a fs) (\<lambda>xs.
     rbind (raise_if (length (at_coefficients a) \<noteq> length xs)
       (ValueError ''zip() arguments differ in length'')) (\<lambda>_.
     let reward = fadd (at_intercept a) (float_total (map2 fmul (at_coefficients a) xs)) in
     rbind (raise_if (\<not> is_finite reward) (ValueError ''learned reward must be finite'')) (\<lambda>_.
     rbind (prediction_confidence a fs) (\<lambda>(confidence, warnings).
     Inr (fmax (FFin (- 1)) (fmin (FFin 1) reward), confidence, warnings)))))"

definition contribution_before :: "string \<times> pyfloat \<Rightarrow> string \<times> pyfloat \<Rightarrow> bool" where
  "contribution_before p q =
     (let a = fneg (fabs (snd p)); b = fneg (fabs (snd q)) in if \<not> feq a b then flt a b else fst p < fst q)"

definition feature_contributions ::
  "PartitionRankerModelArtifact \<Rightarrow> (string \<times> pyfloat) list \<Rightarrow> (exn, (string \<times> pyfloat) list) result" where
  "feature_contributions a fs =
     rbind (normalized_features a fs) (\<lambda>xs.
     rbind (raise_if (length (at_coefficients a) \<noteq> length xs)
       (ValueError ''zip() arguments differ in length'')) (\<lambda>_.
     Inr (take 5 (sort_by contribution_before (zip (at_feature_order a) (map2 fmul (at_coefficients a) xs))))))"

section \<open>The guard policy\<close>

text \<open>A bound may be written as an integer; its value is kept exactly.\<close>

record LearnedRankerGuardPolicy =
  gp_minimum_observed_samples :: int
  gp_minimum_independent_groups :: int
  gp_maximum_holdout_mae :: pyfloat
  gp_minimum_spearman_correlation :: pyfloat
  gp_minimum_selection_confidence :: pyfloat
  gp_maximum_ood_feature_ratio :: pyfloat

definition guard_positive :: "pyval \<Rightarrow> string \<Rightarrow> (exn, int) result" where
  "guard_positive v f =
     (let bad = Inl (policy_error (f @ '' must be positive'')) in
      case v of VInt i \<Rightarrow> if i < 1 then bad else Inr i | _ \<Rightarrow> bad)"

definition guard_non_negative :: "pyval \<Rightarrow> string \<Rightarrow> (exn, pyfloat) result" where
  "guard_non_negative v f =
     (let negative = Inl (policy_error (f @ '' must be non-negative'')) in
      case v of
        VInt i \<Rightarrow> rbind (float_of_int i) (\<lambda>_. if i < 0 then negative else Inr (FFin (of_int i)))
      | VFloat x \<Rightarrow> if \<not> is_finite x \<or> flt x zero_float then negative else Inr x
      | _ \<Rightarrow> Inl (policy_error (f @ '' must be numeric'')))"

definition guard_fraction :: "pyval \<Rightarrow> string \<Rightarrow> (exn, pyfloat) result" where
  "guard_fraction v f = rbind (guard_non_negative v f) (\<lambda>x.
     if flt (FFin 1) x then Inl (policy_error (f @ '' must be between 0 and 1'')) else Inr x)"

definition guard_policy_of :: "payload \<Rightarrow> (exn, LearnedRankerGuardPolicy) result" where
  "guard_policy_of d =
     rbind (guard_positive (vget_default d ''minimum_observed_samples'' (VInt 30)) ''minimum_observed_samples'')
       (\<lambda>samples.
     rbind (guard_positive (vget_default d ''minimum_independent_groups'' (VInt 5))
       ''minimum_independent_groups'') (\<lambda>groups.
     rbind (guard_non_negative (vget_default d ''maximum_holdout_mae'' (VFloat (FFin (1 / 4))))
       ''maximum_holdout_mae'') (\<lambda>mae.
     rbind (guard_fraction (vget_default d ''minimum_spearman_correlation'' (VFloat (round64 (3 / 10))))
       ''minimum_spearman_correlation'') (\<lambda>correlation.
     rbind (guard_fraction (vget_default d ''minimum_selection_confidence'' (VFloat (round64 (7 / 10))))
       ''minimum_selection_confidence'') (\<lambda>confidence.
     rbind (guard_fraction (vget_default d ''maximum_ood_feature_ratio'' (VFloat (round64 (2 / 10))))
       ''maximum_ood_feature_ratio'') (\<lambda>ratio.
     Inr \<lparr>gp_minimum_observed_samples = samples, gp_minimum_independent_groups = groups,
       gp_maximum_holdout_mae = mae, gp_minimum_spearman_correlation = correlation,
       gp_minimum_selection_confidence = confidence, gp_maximum_ood_feature_ratio = ratio\<rparr>))))))"

section \<open>The guarded selector\<close>

definition with_valid_final :: "string list \<Rightarrow> CandidateSelection \<Rightarrow> CandidateSelection" where
  "with_valid_final keys sel =
     (if cs_final_key sel \<in> Some ` set keys \<or> keys = [] then sel
      else sel\<lparr>cs_final_key :=
          (if cs_baseline_key sel \<in> Some ` set keys then cs_baseline_key sel else Some (hd keys)),
        cs_fallback_used := True, cs_fallback_reason := Some ''final_selection_not_rank_eligible''\<rparr>)"

definition ensure_valid_final ::
  "(string \<Rightarrow> string) \<Rightarrow> CandidateSelection \<Rightarrow> RankingContext \<Rightarrow> PartitionCandidate list \<Rightarrow>
   (exn, CandidateSelection) result" where
  "ensure_valid_final sha256 sel x cs =
     rbind (rmap (\<lambda>c. partition_candidate_key sha256 c (rx_strategy_version x)) (filter ca_valid cs)) (\<lambda>keys.
     Inr (with_valid_final keys sel))"

definition unavailable_learned_selection ::
  "(string \<Rightarrow> string) \<Rightarrow> CandidateSelection \<Rightarrow> RankingContext \<Rightarrow> PartitionCandidate list \<Rightarrow> SelectionMode \<Rightarrow>
   string \<Rightarrow> (exn, CandidateSelection) result" where
  "unavailable_learned_selection sha256 baseline x cs mode reason =
     ensure_valid_final sha256
       (baseline\<lparr>cs_mode := mode, cs_learned_key := None, cs_final_key := cs_baseline_key baseline,
          cs_fallback_used := (mode = LEARNED_GUARDED),
          cs_fallback_reason := (if mode = LEARNED_GUARDED then Some reason else None),
          cs_rationale := [''Deterministic selection is retained because learned ranking is unavailable.'']\<rparr>)
       x cs"

definition learned_availability ::
  "(string \<Rightarrow> string) \<Rightarrow> PartitionRankerModelArtifact option \<Rightarrow> string option \<Rightarrow> (exn, string option) result" where
  "learned_availability sha256 learned version =
     (case learned of
        None \<Rightarrow> Inr (Some ''model_unavailable'')
      | Some a \<Rightarrow>
          (if version \<noteq> None \<and> version \<noteq> Some (at_model_version a) then Inr (Some ''model_unavailable'')
           else if at_model_type a \<noteq> ''ridge_reward_regressor'' \<or> at_training_scope a \<noteq> ''observed''
           then Inr (Some ''model_unavailable'')
           else if at_feature_schema_version a \<noteq> feature_schema_version \<or> at_feature_order a \<noteq> feature_order
           then Inr (Some ''feature_schema_mismatch'')
           else case verify_hash sha256 a of
               Inr _ \<Rightarrow> Inr None
             | Inl (PartitionContractError code m) \<Rightarrow> Inr (Some ''artifact_hash_invalid'')
             | Inl e \<Rightarrow> Inl e))"

text \<open>An invalid candidate keeps its entry of the baseline, on the right; the others are scored anew.\<close>

definition learned_entry ::
  "(string \<Rightarrow> string) \<Rightarrow> PartitionRankerModelArtifact \<Rightarrow> CandidateSelection \<Rightarrow> RankingContext \<Rightarrow>
   PartitionCandidate \<Rightarrow> (exn, CandidateRankingEntry) result" where
  "learned_entry sha256 a baseline x c =
     rbind (partition_candidate_key sha256 c (rx_strategy_version x)) (\<lambda>key.
     case map_of (rev (map (\<lambda>e. (re_candidate_key e, e)) (cs_entries baseline))) key of
       None \<Rightarrow> Inl (KeyError key)
     | Some entry \<Rightarrow>
         (if \<not> ca_valid c then Inr entry
          else
            rbind (extract_partition_features x c) (\<lambda>fs.
            rbind (predict_reward a fs) (\<lambda>(reward, confidence, warnings).
            rbind (feature_contributions a fs) (\<lambda>contributions.
            Inr \<lparr>re_candidate_key = key, re_baseline_score = ca_score c, re_predicted_reward = Some reward,
              re_prediction_confidence = Some confidence, re_rank = 0, re_eligible = True,
              re_warnings = ca_rejection_reasons c @ warnings,
              re_feature_contributions = contributions\<rparr>)))))"

definition entry_before :: "CandidateRankingEntry \<Rightarrow> CandidateRankingEntry \<Rightarrow> bool" where
  "entry_before p q =
     (let a = fneg (the (re_predicted_reward p)); b = fneg (the (re_predicted_reward q));
          u = fneg (the (re_prediction_confidence p)); v = fneg (the (re_prediction_confidence q)) in
      if \<not> feq a b then flt a b else if \<not> feq u v then flt u v
      else if \<not> feq (re_baseline_score p) (re_baseline_score q) then flt (re_baseline_score p) (re_baseline_score q)
      else re_candidate_key p < re_candidate_key q)"

definition learned_selection ::
  "(string \<Rightarrow> string) \<Rightarrow> PartitionRankerModelArtifact \<Rightarrow> CandidateSelection \<Rightarrow> RankingContext \<Rightarrow>
   PartitionCandidate list \<Rightarrow> (exn, CandidateSelection) result" where
  "learned_selection sha256 a baseline x cs =
     rbind (rmap (learned_entry sha256 a baseline x) cs) (\<lambda>es.
     let scored = zip cs es;
         ordered = sort_by entry_before (map snd (filter (\<lambda>(c, e). ca_valid c) scored));
         invalid = map snd (filter (\<lambda>(c, e). \<not> ca_valid c) scored);
         selected = (case ordered of [] \<Rightarrow> None | e # _ \<Rightarrow> Some e) in
     Inr \<lparr>cs_mode = LEARNED_GUARDED, cs_active_ranker_id = ''learned-reward-ranker'',
       cs_active_ranker_version = ''1.0'', cs_baseline_key = cs_baseline_key baseline,
       cs_learned_key = map_option re_candidate_key selected,
       cs_final_key = map_option re_candidate_key selected,
       cs_model_version = Some (at_model_version a), cs_model_artifact_hash = Some (at_artifact_hash a),
       cs_feature_schema_version = at_feature_schema_version a,
       cs_entries = map (\<lambda>(i, e). e\<lparr>re_rank := i\<rparr>) (ranked (ordered @ invalid)),
       cs_confidence = (case selected of None \<Rightarrow> FFin 1 | Some e \<Rightarrow> the (re_prediction_confidence e)),
       cs_fallback_used = False, cs_fallback_reason = None,
       cs_rationale = [''Learned reward ranker ordered feasible candidates.'']\<rparr>)"

fun metric :: "(string \<times> pyfloat) list \<Rightarrow> string list \<Rightarrow> pyfloat option" where
  "metric ms [] = None"
| "metric ms (name # names) = (case map_of ms name of
      Some x \<Rightarrow> if is_finite x then Some x else metric ms names
    | None \<Rightarrow> metric ms names)"

text \<open>The first candidate whose key is \<open>key\<close>.\<close>

fun candidate_with_key ::
  "(string \<Rightarrow> string) \<Rightarrow> string \<Rightarrow> string \<Rightarrow> PartitionCandidate list \<Rightarrow> (exn, PartitionCandidate option) result" where
  "candidate_with_key sha256 version key [] = Inr None"
| "candidate_with_key sha256 version key (c # cs) =
     rbind (partition_candidate_key sha256 c version) (\<lambda>k.
     if k = key then Inr (Some c) else candidate_with_key sha256 version key cs)"

definition guard_candidate ::
  "(string \<Rightarrow> string) \<Rightarrow> PartitionRankerModelArtifact \<Rightarrow> LearnedRankerGuardPolicy \<Rightarrow> CandidateSelection \<Rightarrow>
   RankingContext \<Rightarrow> PartitionCandidate list \<Rightarrow> (exn, string option) result" where
  "guard_candidate sha256 a pol sel x cs =
     (case List.find (\<lambda>e. Some (re_candidate_key e) = cs_learned_key sel) (cs_entries sel) of
        None \<Rightarrow> Inr (Some ''learned_inference_error'')
      | Some e \<Rightarrow>
          (if \<not> re_eligible e then Inr (Some ''learned_inference_error'')
           else
             rbind (candidate_with_key sha256 (rx_strategy_version x) (re_candidate_key e) cs) (\<lambda>found.
             case found of
               None \<Rightarrow> Inr (Some ''learned_inference_error'')
             | Some c \<Rightarrow>
                 (if \<not> ca_valid c then Inr (Some ''learned_inference_error'')
                  else
                    rbind (rbind (extract_partition_features x c) (ood_feature_ratio a)) (\<lambda>ratio.
                    if fle (gp_maximum_ood_feature_ratio pol) ratio
                    then Inr (Some ''feature_distribution_shift'')
                    else if (case re_prediction_confidence e of None \<Rightarrow> True
                      | Some confidence \<Rightarrow> flt confidence (gp_minimum_selection_confidence pol))
                    then Inr (Some ''selection_confidence_below_threshold'')
                    else Inr None)))))"

definition guard_failure ::
  "(string \<Rightarrow> string) \<Rightarrow> PartitionRankerModelArtifact \<Rightarrow> LearnedRankerGuardPolicy \<Rightarrow> CandidateSelection \<Rightarrow>
   RankingContext \<Rightarrow> PartitionCandidate list \<Rightarrow> (exn, string option) result" where
  "guard_failure sha256 a pol sel x cs =
     (let mae = metric (at_validation_metrics a) [''holdout_mae'', ''mae''];
          correlation = metric (at_validation_metrics a) [''spearman_correlation'', ''spearman_rank_correlation''] in
      if at_sample_count a < gp_minimum_observed_samples pol then Inr (Some ''insufficient_observed_samples'')
      else if at_group_count a < gp_minimum_independent_groups pol
      then Inr (Some ''insufficient_independent_groups'')
      else if (case mae of None \<Rightarrow> True | Some m \<Rightarrow> flt (gp_maximum_holdout_mae pol) m)
      then Inr (Some ''holdout_mae_exceeded'')
      else if (case correlation of None \<Rightarrow> True | Some r \<Rightarrow> flt r (gp_minimum_spearman_correlation pol))
      then Inr (Some ''rank_correlation_below_threshold'')
      else guard_candidate sha256 a pol sel x cs)"

text \<open>\<open>except (ArithmeticError, KeyError, TypeError, ValueError, PartitionContractError)\<close>.\<close>

definition inference_error :: "exn \<Rightarrow> bool" where
  "inference_error e = (case e of ValueError m \<Rightarrow> True | PartitionContractError k m \<Rightarrow> True
     | TypeError m \<Rightarrow> True | KeyError k \<Rightarrow> True | _ \<Rightarrow> e = too_large \<or> e = division_by_zero)"

definition select_learned ::
  "(string \<Rightarrow> string) \<Rightarrow> PartitionRankerModelArtifact \<Rightarrow> LearnedRankerGuardPolicy \<Rightarrow> CandidateSelection \<Rightarrow>
   RankingContext \<Rightarrow> PartitionCandidate list \<Rightarrow> SelectionMode \<Rightarrow> (exn, CandidateSelection) result" where
  "select_learned sha256 a pol baseline x cs mode =
     (let unavailable = unavailable_learned_selection sha256 baseline x cs mode ''learned_inference_error'' in
      case learned_selection sha256 a baseline x cs of
        Inl e \<Rightarrow> if inference_error e then unavailable else Inl e
      | Inr learned \<Rightarrow>
          (if mode = SHADOW
           then ensure_valid_final sha256
             (learned\<lparr>cs_mode := SHADOW, cs_final_key := cs_baseline_key baseline, cs_fallback_used := False,
               cs_fallback_reason := None,
               cs_rationale := [''Shadow mode recorded learned ranking without changing the deterministic selection.'']\<rparr>)
             x cs
           else case guard_failure sha256 a pol learned x cs of
               Inl e \<Rightarrow> unavailable
             | Inr None \<Rightarrow> ensure_valid_final sha256 learned x cs
             | Inr (Some reason) \<Rightarrow> ensure_valid_final sha256
                 (learned\<lparr>cs_final_key := cs_baseline_key baseline, cs_fallback_used := True,
                   cs_fallback_reason := Some reason,
                   cs_rationale := [''Learned guarded selection fell back to the deterministic baseline.'']\<rparr>)
                 x cs))"

type_synonym candidate_ranker = "RankingContext \<Rightarrow> PartitionCandidate list \<Rightarrow> (exn, CandidateSelection) result"

record GuardedCandidateSelector =
  gs_deterministic :: candidate_ranker
  gs_learned :: "PartitionRankerModelArtifact option"
  gs_guard_policy :: LearnedRankerGuardPolicy

definition select_candidate ::
  "(string \<Rightarrow> string) \<Rightarrow> GuardedCandidateSelector \<Rightarrow> RankingContext \<Rightarrow> PartitionCandidate list \<Rightarrow>
   SelectionMode \<Rightarrow> string option \<Rightarrow> (exn, CandidateSelection) result" where
  "select_candidate sha256 s x cs mode version =
     rbind (gs_deterministic s x cs) (\<lambda>baseline.
     if mode = DETERMINISTIC then ensure_valid_final sha256 baseline x cs
     else
       rbind (learned_availability sha256 (gs_learned s) version) (\<lambda>availability.
       case availability of
         Some reason \<Rightarrow> unavailable_learned_selection sha256 baseline x cs mode reason
       | None \<Rightarrow> select_learned sha256 (the (gs_learned s)) (gs_guard_policy s) baseline x cs mode))"

section \<open>What the selector guarantees\<close>


text \<open>Keys of candidates always have a canonical text.\<close>

fun plain_json :: "pyval \<Rightarrow> bool" where
  "plain_json (VDict kvs) = list_all (\<lambda>(k, v). plain_json v) kvs"
| "plain_json (VList vs) = list_all plain_json vs"
| "plain_json (VTuple vs) = list_all plain_json vs"
| "plain_json VNone = True"
| "plain_json (VBool b) = True"
| "plain_json (VInt i) = True"
| "plain_json (VFloat x) = True"
| "plain_json (VStr s) = True"
| "plain_json v = False"

lemma opt_all_total: "None \<notin> set xs \<Longrightarrow> \<exists>ys. opt_all xs = Some ys"
  by (induction xs rule: opt_all.induct) auto

lemma compact_json_plain: "plain_json v \<Longrightarrow> \<exists>t. compact_json v = Some t"
proof (induction v rule: compact_json.induct)
  case (6 vs)
  then have "None \<notin> set (map compact_json vs)" by (fastforce simp: list_all_iff)
  from opt_all_total[OF this] show ?case by auto
next
  case (7 vs)
  then have "None \<notin> set (map compact_json vs)" by (fastforce simp: list_all_iff)
  from opt_all_total[OF this] show ?case by auto
next
  case (8 kvs)
  then have "None \<notin> set (map snd (sort_key fst
      (map (\<lambda>(k, v). (k, map_option (\<lambda>t. json_string k @ '':'' @ t) (compact_json v))) kvs)))"
    by (fastforce simp: list_all_iff)
  from opt_all_total[OF this] show ?case by auto
qed auto

lemma json_digest_plain: "plain_json (VDict d) \<Longrightarrow> \<exists>h. json_digest sha256 d = Inr h"
  using compact_json_plain[of "VDict d"] by (auto simp: json_digest_def)

lemma partition_candidate_key_Inr:
  "strip version \<noteq> '''' \<Longrightarrow> \<exists>k. partition_candidate_key sha256 c version = Inr k"
  unfolding partition_candidate_key_def feature_text_def
  by (simp add: list_all_iff json_digest_plain)

lemma with_valid_final_key:
  "cs_final_key (with_valid_final keys sel) =
     (if cs_final_key sel \<in> Some ` set keys \<or> keys = [] then cs_final_key sel
      else if cs_baseline_key sel \<in> Some ` set keys then cs_baseline_key sel else Some (hd keys))"
  by (simp add: with_valid_final_def)

lemma with_valid_final_eligible: "keys \<noteq> [] \<Longrightarrow> cs_final_key (with_valid_final keys sel) \<in> Some ` set keys"
  by (cases keys) (auto simp: with_valid_final_key)

lemma valid_keys:
  assumes "rmap (\<lambda>c. partition_candidate_key sha256 c version) (filter ca_valid cs) = Inr keys"
  shows "k \<in> set keys \<longleftrightarrow> (\<exists>c \<in> set cs. ca_valid c \<and> partition_candidate_key sha256 c version = Inr k)"
proof -
  from assms have "list_all2 (\<lambda>c k. partition_candidate_key sha256 c version = Inr k) (filter ca_valid cs) keys"
    by (rule rmap_Inr_all2)
  then have "\<exists>k. k \<in> set keys \<and> partition_candidate_key sha256 c version = Inr k"
    if "c \<in> set (filter ca_valid cs)" for c
    using that by (auto simp: list_all2_conv_all_nth in_set_conv_nth simp del: set_filter)
  moreover from \<open>list_all2 _ _ _\<close> have "\<exists>c \<in> set (filter ca_valid cs). partition_candidate_key sha256 c version = Inr k"
    if "k \<in> set keys" for k
    using that by (auto simp: list_all2_conv_all_nth in_set_conv_nth simp del: set_filter) (metis nth_mem)
  ultimately show ?thesis by fastforce
qed

lemma ensure_valid_final_valid:
  assumes "ensure_valid_final sha256 sel0 x cs = Inr sel" and "list_ex ca_valid cs"
  shows "\<exists>c. c \<in> set cs \<and> ca_valid c \<and>
    Some (partition_candidate_key sha256 c (rx_strategy_version x)) = map_option Inr (cs_final_key sel)"
proof -
  from assms(1) obtain keys where keys:
      "rmap (\<lambda>c. partition_candidate_key sha256 c (rx_strategy_version x)) (filter ca_valid cs) = Inr keys"
    and sel: "sel = with_valid_final keys sel0"
    by (auto simp: ensure_valid_final_def)
  from assms(2) have "filter ca_valid cs \<noteq> []" by (auto simp: list_ex_iff filter_empty_conv)
  with keys rmap_Inr_length[OF keys] have "keys \<noteq> []" by auto
  with sel with_valid_final_eligible obtain k where "k \<in> set keys" "cs_final_key sel = Some k" by blast
  with valid_keys[OF keys] show ?thesis by auto
qed

lemma select_learned_ensured:
  "select_learned sha256 a pol baseline x cs mode = Inr sel \<Longrightarrow>
   \<exists>sel0. ensure_valid_final sha256 sel0 x cs = Inr sel"
  by (auto simp: select_learned_def unavailable_learned_selection_def Let_def
      split: sum.splits if_splits option.splits)

lemma select_ensured:
  "select_candidate sha256 s x cs mode version = Inr sel \<Longrightarrow>
   \<exists>sel0. ensure_valid_final sha256 sel0 x cs = Inr sel"
  by (auto simp: select_candidate_def unavailable_learned_selection_def dest: select_learned_ensured
      split: if_splits option.splits)

theorem selection_always_eligible:
  assumes "select_candidate sha256 s x cs mode version = Inr sel" and "list_ex ca_valid cs"
  shows "\<exists>c. c \<in> set cs \<and> ca_valid c \<and>
    Some (partition_candidate_key sha256 c (rx_strategy_version x)) = map_option Inr (cs_final_key sel)"
  using select_ensured[OF assms(1)] ensure_valid_final_valid[OF _ assms(2)] by blast

lemma candidate_before_asym: "candidate_before a b \<Longrightarrow> \<not> candidate_before b a"
  by (cases "ca_score a"; cases "ca_score b") (auto simp: candidate_before_def feq_def split: if_splits)

lemma candidate_not_before_trans:
  assumes "ca_score a \<noteq> FNaN" "ca_score b \<noteq> FNaN" "ca_score c \<noteq> FNaN"
    and "\<not> candidate_before b a" "\<not> candidate_before c b"
  shows "\<not> candidate_before c a"
  using assms
  by (cases "ca_score a"; cases "ca_score b"; cases "ca_score c")
    (auto simp: candidate_before_def feq_def split: if_splits)

lemma candidates_sorted:
  assumes "list_all (\<lambda>c. ca_score c \<noteq> FNaN) cs"
  shows "sorted_wrt (\<lambda>a b. \<not> candidate_before b a) (sort_by candidate_before cs)"
proof (rule sort_by_sorted)
  fix a b c assume "{a, b, c} \<subseteq> set cs" "\<not> candidate_before b a" "\<not> candidate_before c b"
  with assms show "\<not> candidate_before c a"
    by (intro candidate_not_before_trans[of a b c]) (auto simp: list_all_iff)
qed (rule candidate_before_asym)

lemma find_first:
  "List.find P xs = Some y \<Longrightarrow> sorted_wrt R xs \<Longrightarrow> y \<in> set xs \<and> P y \<and> (\<forall>z \<in> set xs. P z \<longrightarrow> z = y \<or> R y z)"
  by (induction xs) (auto split: if_splits)

text \<open>The best valid candidate: no valid one has a smaller score, or the same score and smaller cuts.\<close>

definition best_candidate :: "PartitionCandidate list \<Rightarrow> PartitionCandidate \<Rightarrow> bool" where
  "best_candidate cs c \<longleftrightarrow> c \<in> set cs \<and> ca_valid c \<and>
     list_all (\<lambda>b. ca_valid b \<longrightarrow> flt (ca_score c) (ca_score b) \<or>
       (ca_score b = ca_score c \<and> ca_split_points c \<le> ca_split_points b)) cs"

lemma find_best:
  assumes "list_all (\<lambda>c. ca_score c \<noteq> FNaN) cs" and "List.find ca_valid (sort_by candidate_before cs) = Some c"
  shows "best_candidate cs c"
proof -
  note first = find_first[OF assms(2) candidates_sorted[OF assms(1)]]
  have "flt (ca_score c) (ca_score b) \<or> (ca_score b = ca_score c \<and> ca_split_points c \<le> ca_split_points b)"
    if b: "b \<in> set cs" "ca_valid b" for b
  proof (cases "b = c")
    case False
    with b first have "\<not> candidate_before b c" by auto
    moreover from b assms(1) first have "ca_score b \<noteq> FNaN" "ca_score c \<noteq> FNaN" by (auto simp: list_all_iff)
    ultimately show ?thesis using b(2) first
      by (cases "ca_score b"; cases "ca_score c") (auto simp: candidate_before_def feq_def split: if_splits)
  qed simp
  with first show ?thesis by (auto simp: best_candidate_def list_all_iff)
qed

theorem deterministic_rank_best:
  assumes "list_all (\<lambda>c. ca_score c \<noteq> FNaN) cs" and "deterministic_rank sha256 x cs = Inr sel"
  shows "if list_ex ca_valid cs
    then \<exists>c. best_candidate cs c \<and>
      Some (partition_candidate_key sha256 c (rx_strategy_version x)) = map_option Inr (cs_final_key sel)
    else cs_final_key sel = None"
proof (cases "List.find ca_valid (sort_by candidate_before cs)")
  case None
  then have "\<not> list_ex ca_valid cs" by (auto simp: find_None_iff list_ex_iff)
  with None assms(2) show ?thesis
    by (auto simp: deterministic_rank_def selection_from_deterministic_order_def)
next
  case (Some c)
  with find_best[OF assms(1)] have best: "best_candidate cs c" by blast
  then have "list_ex ca_valid cs" by (auto simp: best_candidate_def list_ex_iff)
  with best Some assms(2) show ?thesis
    by (auto simp: deterministic_rank_def selection_from_deterministic_order_def)
qed

lemma find_mem: "List.find P xs = Some y \<Longrightarrow> y \<in> set xs \<and> P y"
  by (induction xs) (auto split: if_splits)

lemma deterministic_baseline:
  assumes "deterministic_rank sha256 x cs = Inr b"
    and "rmap (\<lambda>c. partition_candidate_key sha256 c (rx_strategy_version x)) (filter ca_valid cs) = Inr keys"
  shows "cs_baseline_key b \<in> Some ` set keys \<or> keys = []"
proof (cases "List.find ca_valid (sort_by candidate_before cs)")
  case None
  then have "filter ca_valid cs = []" by (auto simp: find_None_iff filter_empty_conv)
  with assms(2) show ?thesis by simp
next
  case (Some c)
  from find_mem[OF this] have "c \<in> set cs" "ca_valid c" by simp_all
  moreover from assms(1) Some obtain k where "partition_candidate_key sha256 c (rx_strategy_version x) = Inr k"
    "cs_baseline_key b = Some k"
    by (auto simp: deterministic_rank_def selection_from_deterministic_order_def)
  ultimately show ?thesis using valid_keys[OF assms(2)] by auto
qed

lemma with_valid_final_baseline [simp]: "cs_baseline_key (with_valid_final keys sel) = cs_baseline_key sel"
  by (simp add: with_valid_final_def)

lemma ensured_baseline:
  assumes "deterministic_rank sha256 x cs = Inr b" and "ensure_valid_final sha256 sel0 x cs = Inr sel"
    and "cs_final_key sel0 = cs_baseline_key b" "cs_baseline_key sel0 = cs_baseline_key b"
  shows "cs_final_key sel = cs_baseline_key sel"
proof -
  from assms(2) obtain keys where keys:
      "rmap (\<lambda>c. partition_candidate_key sha256 c (rx_strategy_version x)) (filter ca_valid cs) = Inr keys"
    and sel: "sel = with_valid_final keys sel0"
    by (auto simp: ensure_valid_final_def)
  from deterministic_baseline[OF assms(1) keys] show ?thesis
    by (auto simp: sel with_valid_final_key assms(3,4))
qed

lemma unavailable_baseline:
  assumes "deterministic_rank sha256 x cs = Inr b"
    and "unavailable_learned_selection sha256 b x cs mode reason = Inr sel"
  shows "cs_final_key sel = cs_baseline_key sel"
  using assms(2) unfolding unavailable_learned_selection_def
  by (rule ensured_baseline[OF assms(1)]) simp_all

lemma deterministic_final:
  "deterministic_rank sha256 x cs = Inr b \<Longrightarrow> cs_final_key b = cs_baseline_key b"
  by (auto simp: deterministic_rank_def selection_from_deterministic_order_def Let_def)

lemma learned_selection_keys:
  "learned_selection sha256 a b x cs = Inr l \<Longrightarrow>
     cs_baseline_key l = cs_baseline_key b \<and> cs_final_key l = cs_learned_key l"
  by (auto simp: learned_selection_def Let_def)

lemma candidate_with_key_Some:
  "candidate_with_key sha256 version key cs = Inr (Some c) \<Longrightarrow>
     c \<in> set cs \<and> partition_candidate_key sha256 c version = Inr key"
  by (induction cs) (auto split: if_splits)

text \<open>All the guards of the learned order, for the candidate \<open>c\<close> it chose with the entry \<open>e\<close>.\<close>

definition guards_hold ::
  "(string \<Rightarrow> string) \<Rightarrow> PartitionRankerModelArtifact \<Rightarrow> LearnedRankerGuardPolicy \<Rightarrow> RankingContext \<Rightarrow>
   CandidateRankingEntry \<Rightarrow> PartitionCandidate \<Rightarrow> bool" where
  "guards_hold sha256 a pol x e c \<longleftrightarrow>
     verify_hash sha256 a = Inr () \<and> at_model_type a = ''ridge_reward_regressor'' \<and>
     at_training_scope a = ''observed'' \<and>
     gp_minimum_observed_samples pol \<le> at_sample_count a \<and>
     gp_minimum_independent_groups pol \<le> at_group_count a \<and>
     (\<exists>mae. metric (at_validation_metrics a) [''holdout_mae'', ''mae''] = Some mae \<and>
        \<not> flt (gp_maximum_holdout_mae pol) mae) \<and>
     (\<exists>r. metric (at_validation_metrics a) [''spearman_correlation'', ''spearman_rank_correlation''] = Some r \<and>
        \<not> flt r (gp_minimum_spearman_correlation pol)) \<and>
     ca_valid c \<and> re_eligible e \<and>
     (\<exists>ratio. rbind (extract_partition_features x c) (ood_feature_ratio a) = Inr ratio \<and>
        \<not> fle (gp_maximum_ood_feature_ratio pol) ratio) \<and>
     (\<exists>confidence. re_prediction_confidence e = Some confidence \<and>
        \<not> flt confidence (gp_minimum_selection_confidence pol))"

lemma guard_candidate_None:
  assumes "guard_candidate sha256 a pol sel x cs = Inr None"
  shows "\<exists>e \<in> set (cs_entries sel). \<exists>c \<in> set cs. cs_learned_key sel = Some (re_candidate_key e) \<and>
     partition_candidate_key sha256 c (rx_strategy_version x) = Inr (re_candidate_key e) \<and>
     ca_valid c \<and> re_eligible e \<and>
     (\<exists>ratio. rbind (extract_partition_features x c) (ood_feature_ratio a) = Inr ratio \<and>
        \<not> fle (gp_maximum_ood_feature_ratio pol) ratio) \<and>
     (\<exists>confidence. re_prediction_confidence e = Some confidence \<and>
        \<not> flt confidence (gp_minimum_selection_confidence pol))"
proof -
  from assms obtain e where find: "List.find (\<lambda>e. Some (re_candidate_key e) = cs_learned_key sel) (cs_entries sel) = Some e"
    and e: "re_eligible e"
    by (auto simp: guard_candidate_def split: option.splits if_splits)
  from find have key: "e \<in> set (cs_entries sel)" "Some (re_candidate_key e) = cs_learned_key sel"
    by (auto simp: find_Some_iff)
  from assms find e obtain c ratio confidence where
    "candidate_with_key sha256 (rx_strategy_version x) (re_candidate_key e) cs = Inr (Some c)" "ca_valid c"
    "rbind (extract_partition_features x c) (ood_feature_ratio a) = Inr ratio"
    "\<not> fle (gp_maximum_ood_feature_ratio pol) ratio" "re_prediction_confidence e = Some confidence"
    "\<not> flt confidence (gp_minimum_selection_confidence pol)"
    unfolding guard_candidate_def
    by (auto simp del: rbind.simps split: option.splits if_splits)
  with key e candidate_with_key_Some show ?thesis by metis
qed

lemma guard_failure_None:
  assumes "guard_failure sha256 a pol sel x cs = Inr None" and "learned_availability sha256 (Some a) version = Inr None"
  shows "\<exists>e \<in> set (cs_entries sel). \<exists>c \<in> set cs. cs_learned_key sel = Some (re_candidate_key e) \<and>
     partition_candidate_key sha256 c (rx_strategy_version x) = Inr (re_candidate_key e) \<and>
     guards_hold sha256 a pol x e c"
proof -
  from assms(1) have "guard_candidate sha256 a pol sel x cs = Inr None"
    and "gp_minimum_observed_samples pol \<le> at_sample_count a" "gp_minimum_independent_groups pol \<le> at_group_count a"
    and "\<exists>mae. metric (at_validation_metrics a) [''holdout_mae'', ''mae''] = Some mae \<and>
        \<not> flt (gp_maximum_holdout_mae pol) mae"
    and "\<exists>r. metric (at_validation_metrics a) [''spearman_correlation'', ''spearman_rank_correlation''] = Some r \<and>
        \<not> flt r (gp_minimum_spearman_correlation pol)"
    unfolding guard_failure_def Let_def
    by (auto simp del: metric.simps split: option.splits if_splits)
  moreover from assms(2) have "verify_hash sha256 a = Inr ()" "at_model_type a = ''ridge_reward_regressor''"
    "at_training_scope a = ''observed''"
    by (auto simp: learned_availability_def split: if_splits sum.splits exn.splits)
  ultimately show ?thesis
    using guard_candidate_None[of sha256 a pol sel x cs] unfolding guards_hold_def by metis
qed

lemma ensured_own:
  assumes "ensure_valid_final sha256 l x cs = Inr sel" "c \<in> set cs" "ca_valid c"
    and "Some (partition_candidate_key sha256 c (rx_strategy_version x)) = map_option Inr (cs_final_key l)"
  shows "sel = l"
proof -
  from assms(1) obtain keys where keys:
      "rmap (\<lambda>c. partition_candidate_key sha256 c (rx_strategy_version x)) (filter ca_valid cs) = Inr keys"
    and sel: "sel = with_valid_final keys l"
    by (auto simp: ensure_valid_final_def)
  from assms(4) obtain k where k: "partition_candidate_key sha256 c (rx_strategy_version x) = Inr k"
    "cs_final_key l = Some k" by (cases "cs_final_key l") auto
  with assms(2,3) valid_keys[OF keys] have "k \<in> set keys" by blast
  with k sel show ?thesis by (simp add: with_valid_final_def)
qed

lemma select_learned_guarded:
  assumes b: "deterministic_rank sha256 x cs = Inr b" and "learned_availability sha256 (Some a) version = Inr None"
    and run: "select_learned sha256 a pol b x cs mode = Inr sel" and "cs_final_key sel \<noteq> cs_baseline_key sel"
  shows "mode \<noteq> SHADOW \<and> (\<exists>e \<in> set (cs_entries sel). \<exists>c \<in> set cs. cs_final_key sel = Some (re_candidate_key e) \<and>
     partition_candidate_key sha256 c (rx_strategy_version x) = Inr (re_candidate_key e) \<and>
     guards_hold sha256 a pol x e c)"
proof (cases "learned_selection sha256 a b x cs")
  case (Inl e)
  with run unavailable_baseline[OF b] assms(4) show ?thesis
    by (auto simp: select_learned_def Let_def split: if_splits)
next
  case (Inr l)
  note keys = learned_selection_keys[OF this]
  have no_shadow: "mode \<noteq> SHADOW"
    using run ensured_baseline[OF b] assms(4) Inr keys by (auto simp: select_learned_def Let_def)
  have no_error: "guard_failure sha256 a pol l x cs \<noteq> Inl e" for e
    using run unavailable_baseline[OF b] assms(4) Inr no_shadow by (auto simp: select_learned_def Let_def)
  have no_reason: "guard_failure sha256 a pol l x cs \<noteq> Inr (Some reason)" for reason
    using run ensured_baseline[OF b] assms(4) Inr no_shadow keys
    by (auto simp: select_learned_def Let_def)
  from no_error no_reason have guard: "guard_failure sha256 a pol l x cs = Inr None"
    by (cases "guard_failure sha256 a pol l x cs") auto
  with run Inr no_shadow have ensured: "ensure_valid_final sha256 l x cs = Inr sel"
    by (simp add: select_learned_def Let_def)
  from guard_failure_None[OF guard assms(2)] obtain e c where ec: "e \<in> set (cs_entries l)" "c \<in> set cs"
    "cs_learned_key l = Some (re_candidate_key e)"
    "partition_candidate_key sha256 c (rx_strategy_version x) = Inr (re_candidate_key e)"
    "guards_hold sha256 a pol x e c" by blast
  then have "ca_valid c" by (simp add: guards_hold_def)
  with ensured_own[OF ensured] ec keys have "sel = l" by simp
  with ec keys no_shadow show ?thesis by auto
qed

theorem learned_choice_guarded:
  assumes "gs_deterministic s = deterministic_rank sha256"
    and "select_candidate sha256 s x cs mode version = Inr sel" and "cs_final_key sel \<noteq> cs_baseline_key sel"
  shows "mode = LEARNED_GUARDED \<and>
    (\<exists>a e c. gs_learned s = Some a \<and> e \<in> set (cs_entries sel) \<and> c \<in> set cs \<and>
       cs_final_key sel = Some (re_candidate_key e) \<and>
       partition_candidate_key sha256 c (rx_strategy_version x) = Inr (re_candidate_key e) \<and>
       guards_hold sha256 a (gs_guard_policy s) x e c)"
proof -
  from assms(1,2) obtain b where b: "deterministic_rank sha256 x cs = Inr b"
    and run: "(if mode = DETERMINISTIC then ensure_valid_final sha256 b x cs
       else rbind (learned_availability sha256 (gs_learned s) version) (\<lambda>availability.
         case availability of
           Some reason \<Rightarrow> unavailable_learned_selection sha256 b x cs mode reason
         | None \<Rightarrow> select_learned sha256 (the (gs_learned s)) (gs_guard_policy s) b x cs mode)) = Inr sel"
    unfolding select_candidate_def by auto
  have "mode \<noteq> DETERMINISTIC"
    using run assms(3) ensured_baseline[OF b] deterministic_final[OF b] by auto
  with run obtain availability where
      av: "learned_availability sha256 (gs_learned s) version = Inr availability"
    and sel: "(case availability of
           Some reason \<Rightarrow> unavailable_learned_selection sha256 b x cs mode reason
         | None \<Rightarrow> select_learned sha256 (the (gs_learned s)) (gs_guard_policy s) b x cs mode) = Inr sel"
    by auto
  have "availability = None"
    using sel assms(3) unavailable_baseline[OF b] by (cases availability) auto
  moreover from this av obtain a where "gs_learned s = Some a"
    by (cases "gs_learned s") (auto simp: learned_availability_def)
  ultimately show ?thesis
    using select_learned_guarded[OF b, of a version "gs_guard_policy s" mode sel] av sel assms(3)
      \<open>mode \<noteq> DETERMINISTIC\<close>
    by (cases mode) auto
qed

end
