(* ===== verification/PartitionFeedback.thy ===== *)
theory PartitionFeedback
  imports PartitionModels "HOL-Library.Product_Lexorder"
begin

text \<open>
  The directives of \<open>partition_feedback.py\<close>: what a new plan has to avoid after a failure, how a
  reported failure becomes a directive, and how directives accumulate.
\<close>

record RepartitionDirective =
  dv_exclusion_type :: string
  dv_excluded_devices :: "string list"
  dv_excluded_links :: "(string \<times> string) list"
  dv_excluded_splits :: "int list list"
  dv_excluded_candidate_splits :: "int list list"
  dv_memory_limits :: "(string \<times> int) list"
  dv_errors :: "string list"

definition directive :: "string \<Rightarrow> RepartitionDirective" where
  "directive kind = \<lparr>dv_exclusion_type = kind, dv_excluded_devices = [], dv_excluded_links = [],
     dv_excluded_splits = [], dv_excluded_candidate_splits = [], dv_memory_limits = [], dv_errors = []\<rparr>"

section \<open>Reading a directive\<close>

text \<open>\<open>v[i]\<close> for a literal index, and \<open>a, b = v\<close>.\<close>

definition index_error :: exn where
  "index_error = OtherError ''list index out of range''"

definition py_index :: "pyval \<Rightarrow> nat \<Rightarrow> (exn, pyval) result" where
  "py_index v i = (case v of
       VList vs \<Rightarrow> if i < length vs then Inr (vs ! i) else Inl index_error
     | VTuple vs \<Rightarrow> if i < length vs then Inr (vs ! i) else Inl index_error
     | VStr s \<Rightarrow> if i < length s then Inr (VStr [s ! i]) else Inl index_error
     | VDict d \<Rightarrow> Inl (KeyError (nat_str i))
     | _ \<Rightarrow> Inl (TypeError ''object is not subscriptable''))"

definition unpack_pair :: "pyval \<Rightarrow> (exn, pyval \<times> pyval) result" where
  "unpack_pair v = rbind (py_iter v) (\<lambda>vs. case vs of
       [a, b] \<Rightarrow> Inr (a, b)
     | _ \<Rightarrow> Inl (ValueError ''expected 2 values to unpack''))"

definition directive_splits :: "payload \<Rightarrow> string \<Rightarrow> (exn, int list list) result" where
  "directive_splits d name =
     (case vget_default d name (VList []) of
        VList vs \<Rightarrow> rmap (\<lambda>split. rbind (py_iter split) (rmap py_int)) vs
      | _ \<Rightarrow> Inl (PartitionContractError ''invalid_feedback_directive'' (name @ '' must be a list'')))"

definition directive_of :: "payload \<Rightarrow> (exn, RepartitionDirective) result" where
  "directive_of d =
     (let items = (\<lambda>name. py_iter (vget_default d name (VList [])));
          kind = stripped (vget d ''exclusion_type'') in
      rbind (items ''excluded_devices'') (\<lambda>devices.
      rbind (rbind (items ''excluded_links'') (rmap (\<lambda>link. rbind (py_index link 0) (\<lambda>source.
        rbind (py_index link 1) (\<lambda>target. Inr (json_str source, json_str target)))))) (\<lambda>links.
      rbind (directive_splits d ''excluded_splits'') (\<lambda>splits.
      rbind (directive_splits d ''excluded_candidate_splits'') (\<lambda>candidate_splits.
      rbind (rbind (items ''memory_limits'') (rmap (\<lambda>item. rbind (unpack_pair item) (\<lambda>(device, limit).
        rbind (py_int limit) (\<lambda>i. Inr (json_str device, i)))))) (\<lambda>limits.
      rbind (items ''errors'') (\<lambda>errors.
      Inr \<lparr>dv_exclusion_type = (if kind = '''' then ''none'' else kind),
        dv_excluded_devices = map json_str devices, dv_excluded_links = links, dv_excluded_splits = splits,
        dv_excluded_candidate_splits = candidate_splits, dv_memory_limits = limits,
        dv_errors = map json_str errors\<rparr>)))))))"

definition directive_dict :: "RepartitionDirective \<Rightarrow> payload" where
  "directive_dict v =
     (let splits = (\<lambda>ss. VList (map (\<lambda>s. VList (map VInt s)) ss)) in
     [(''exclusion_type'', VStr (dv_exclusion_type v)),
      (''excluded_devices'', VList (map VStr (dv_excluded_devices v))),
      (''excluded_links'', VList (map (\<lambda>(a, b). VList [VStr a, VStr b]) (dv_excluded_links v))),
      (''excluded_splits'', splits (dv_excluded_splits v)),
      (''excluded_candidate_splits'', splits (dv_excluded_candidate_splits v)),
      (''memory_limits'', VList (map (\<lambda>(n, i). VList [VStr n, VInt i]) (dv_memory_limits v))),
      (''errors'', VList (map VStr (dv_errors v)))])"

section \<open>From failures to directives\<close>

definition directive_of_failure :: "PartitionFailure \<Rightarrow> PartitionExecutionPlan \<Rightarrow> RepartitionDirective" where
  "directive_of_failure f plan =
     (if pf_signal f = ''device_unavailable''
      then (directive ''device'')\<lparr>dv_excluded_devices := [pf_device_id f]\<rparr>
      else if pf_signal f = ''transfer_failure''
      then (directive ''link'')\<lparr>dv_excluded_links := [(pf_source_device f, pf_target_device f)]\<rparr>
      else case pp_selected_candidate plan of
        None \<Rightarrow> directive ''none''
      | Some c \<Rightarrow>
          (if pf_signal f = ''latency_slo_violation''
           then (directive ''split'')\<lparr>dv_excluded_splits := [ca_split_points c]\<rparr>
           else if pf_signal f = ''memory_exceeded''
           then (case List.find (\<lambda>p. lp_device_id p = pf_device_id f) (ca_partitions c) of
               Some p \<Rightarrow> (directive ''memory'')\<lparr>dv_memory_limits := [(pf_device_id f, lp_memory_demand_bytes p - 1)]\<rparr>
             | None \<Rightarrow> (directive ''memory'')\<lparr>dv_errors := [''failed_device_not_in_previous_plan'']\<rparr>)
           else directive ''none''))"

text \<open>\<open>sorted(set(xs) | set(ys))\<close>.\<close>

definition sorted_union :: "('a::linorder) list \<Rightarrow> 'a list \<Rightarrow> 'a list" where
  "sorted_union xs ys = sort (remdups (xs @ ys))"

definition merge_directive :: "RepartitionDirective \<Rightarrow> RepartitionDirective \<Rightarrow> RepartitionDirective" where
  "merge_directive old newer =
     \<lparr>dv_exclusion_type = dv_exclusion_type newer,
      dv_excluded_devices = sorted_union (dv_excluded_devices old) (dv_excluded_devices newer),
      dv_excluded_links = sorted_union (dv_excluded_links old) (dv_excluded_links newer),
      dv_excluded_splits = sorted_union (dv_excluded_splits old) (dv_excluded_splits newer),
      dv_excluded_candidate_splits =
        sorted_union (dv_excluded_candidate_splits old) (dv_excluded_candidate_splits newer),
      dv_memory_limits = sort (dict_of (dv_memory_limits old @ dv_memory_limits newer)),
      dv_errors = sorted_union (dv_errors old) (dv_errors newer)\<rparr>"

end
