(* ===== verification/PartitionPlanner.thy ===== *)
theory PartitionPlanner
  imports PartitionSelection PartitionValidator PartitionFeedback
begin

text \<open>
  \<open>model_partition_agent.py\<close>: the planner builds one candidate for every way to cut the layers among
  the participants, lets the selector choose, and describes the choice as an execution plan; after a
  failure it plans again within the limits of a directive. The identifier of the new plan is an argument.
\<close>

section \<open>The policy of the planner\<close>

record ModelPartitionPolicy =
  mp_version :: string
  mp_latency_weight :: pyfloat
  mp_memory_pressure_weight :: pyfloat
  mp_communication_weight :: pyfloat
  mp_latency_reference_ms :: pyfloat
  mp_transfer_reference_bytes :: int
  mp_max_replan_attempts :: int
  mp_learned_ranker_guard :: LearnedRankerGuardPolicy

definition object_get :: "pyval \<Rightarrow> string \<Rightarrow> pyval \<Rightarrow> (exn, pyval) result" where
  "object_get v k d = (case v of VDict kvs \<Rightarrow> Inr (vget_default kvs k d)
     | _ \<Rightarrow> Inl (OtherError ''object has no attribute get''))"

definition planner_policy_of :: "payload \<Rightarrow> (exn, ModelPartitionPolicy) result" where
  "planner_policy_of d =
     (let weights = vget_default d ''weights'' (VDict []);
          normalization = vget_default d ''normalization'' (VDict []) in
      rbind (case vget_default d ''learned_ranker_guard'' (VDict []) of VDict g \<Rightarrow> Inr g
        | _ \<Rightarrow> Inl (policy_error ''learned_ranker_guard must be an object'')) (\<lambda>guard.
      rbind (rbind (object_get weights ''latency'' (VInt (- 1))) py_float) (\<lambda>latency.
      rbind (rbind (object_get weights ''memory_pressure'' (VInt (- 1))) py_float) (\<lambda>memory.
      rbind (rbind (object_get weights ''communication'' (VInt (- 1))) py_float) (\<lambda>communication.
      rbind (rbind (object_get normalization ''latency_reference_ms'' (VInt 0)) py_float) (\<lambda>latency_reference.
      rbind (rbind (object_get normalization ''transfer_reference_bytes'' (VInt 0)) py_int)
        (\<lambda>transfer_reference.
      rbind (py_int (vget_default d ''max_replan_attempts'' (VInt 0))) (\<lambda>attempts.
      rbind (guard_policy_of guard) (\<lambda>guard_policy.
      let version = stripped (vget d ''version''); ws = [latency, memory, communication] in
      rbind (raise_if (version = '''') (policy_error ''version is required'')) (\<lambda>_.
      rbind (raise_if (list_ex (\<lambda>w. flt w zero_float) ws \<or> flt nano (fabs (fsub (float_total ws) (FFin 1))))
        (policy_error ''score weights must be non-negative and sum to 1.0'')) (\<lambda>_.
      rbind (raise_if (fle latency_reference zero_float \<or> transfer_reference \<le> 0)
        (policy_error ''normalization references must be positive'')) (\<lambda>_.
      rbind (raise_if (attempts < 1) (policy_error ''max_replan_attempts must be at least 1'')) (\<lambda>_.
      Inr \<lparr>mp_version = version, mp_latency_weight = latency, mp_memory_pressure_weight = memory,
        mp_communication_weight = communication, mp_latency_reference_ms = latency_reference,
        mp_transfer_reference_bytes = transfer_reference, mp_max_replan_attempts = attempts,
        mp_learned_ranker_guard = guard_policy\<rparr>)))))))))))))"

section \<open>Scores\<close>

text \<open>\<open>a / b\<close> of two integers; the code divides by positive ones only.\<close>

definition int_ratio :: "int \<Rightarrow> int \<Rightarrow> (exn, pyfloat) result" where
  "int_ratio a b = (case int_div a b of None \<Rightarrow> Inl (if b = 0 then division_by_zero else too_large) | Some q \<Rightarrow> Inr q)"

text \<open>\<open>max(xs, default=0.0)\<close> and \<open>min(xs, default=0.0)\<close>.\<close>

definition floats_max_or :: "pyfloat list \<Rightarrow> pyfloat" where
  "floats_max_or xs = (if xs = [] then zero_float else floats_max xs)"

definition floats_min_or :: "pyfloat list \<Rightarrow> pyfloat" where
  "floats_min_or xs = (if xs = [] then zero_float else floats_min xs)"

definition score_inference :: "ModelPartitionPolicy \<Rightarrow> pyfloat \<Rightarrow> pyfloat \<Rightarrow> int \<Rightarrow> (exn, pyfloat) result" where
  "score_inference pol total_latency pressure bytes =
     rbind (checked_div total_latency (mp_latency_reference_ms pol)) (\<lambda>l.
     rbind (int_ratio bytes (mp_transfer_reference_bytes pol)) (\<lambda>t.
     Inr (fround 6 (fadd (fadd (fmul (mp_latency_weight pol) (fmin l (FFin 1)))
       (fmul (mp_memory_pressure_weight pol) (fmin pressure (FFin 1))))
       (fmul (mp_communication_weight pol) (fmin t (FFin 1)))))))"

definition intent_weight :: "PartitionIntent \<Rightarrow> string \<Rightarrow> (exn, pyfloat) result" where
  "intent_weight i name = (case map_of (rev (pi_objective_weights i)) name of
     None \<Rightarrow> Inl (KeyError name) | Some w \<Rightarrow> Inr w)"

definition score_training ::
  "ModelPartitionPolicy \<Rightarrow> pyfloat \<Rightarrow> pyfloat \<Rightarrow> pyfloat \<Rightarrow> int \<Rightarrow> pyfloat \<Rightarrow> PartitionIntent \<Rightarrow>
   (exn, pyfloat) result" where
  "score_training pol step_time imbalance pressure bytes risk i =
     rbind (checked_div step_time (mp_latency_reference_ms pol)) (\<lambda>s.
     rbind (int_ratio bytes (mp_transfer_reference_bytes pol)) (\<lambda>t.
     rbind (intent_weight i ''step_time'') (\<lambda>w_step.
     rbind (intent_weight i ''load_balance'') (\<lambda>w_load.
     rbind (intent_weight i ''memory_pressure'') (\<lambda>w_memory.
     rbind (intent_weight i ''communication'') (\<lambda>w_communication.
     rbind (intent_weight i ''resilience'') (\<lambda>w_resilience.
     Inr (fround 6 (fadd (fadd (fadd (fadd (fmul w_step (fmin s (FFin 1))) (fmul w_load imbalance))
       (fmul w_memory (fmin pressure (FFin 1)))) (fmul w_communication (fmin t (FFin 1))))
       (fmul w_resilience risk))))))))))"

definition predicted_resilience_risk :: "pyfloat list \<Rightarrow> nat \<Rightarrow> (exn, pyfloat) result" where
  "predicted_resilience_risk compute eligible =
     (if compute = [] \<or> eligible = 0 then Inr zero_float
      else
        rbind (if fle (float_total compute) zero_float then Inr zero_float
               else checked_div (floats_max compute) (float_total compute)) (\<lambda>workload.
        rbind (int_ratio (int (min (length compute) eligible)) (int eligible)) (\<lambda>used.
        let device = fsub (FFin 1) used in
        Inr (fmin (fmax (fmax workload device) zero_float) (FFin 1)))))"

definition load_imbalance :: "pyfloat list \<Rightarrow> (exn, pyfloat) result" where
  "load_imbalance compute =
     (let high = floats_max_or compute; low = floats_min_or compute in
      if feq high zero_float then Inr zero_float else checked_div (fsub high low) high)"

section \<open>One partition\<close>

record built_partition =
  bp_partition :: LogicalPartition
  bp_compute_ms :: pyfloat
  bp_pressure :: pyfloat
  bp_rejections :: "string list"

definition partition_name :: "nat \<Rightarrow> string" where
  "partition_name i = ''partition-'' @ nat_str (Suc i)"

definition memory_rejections :: "string \<Rightarrow> int \<Rightarrow> int \<Rightarrow> (string \<times> int) list \<Rightarrow> string list" where
  "memory_rejections device demand allowed limits =
     err_if (allowed < demand) (''memory_capacity_exceeded:'' @ device) @
     (case map_of (rev limits) device of None \<Rightarrow> []
      | Some limit \<Rightarrow> err_if (limit < demand) (''memory_replan_not_improved:'' @ device))"

definition build_partition ::
  "FederatedRoundPlan \<Rightarrow> (string \<times> int) list \<Rightarrow> nat \<times> string \<times> ModelLayer list \<Rightarrow> (exn, built_partition) result" where
  "build_partition rp limits = (\<lambda>(i, device_id, layers).
     rbind (case dict_get (devices_by_id rp) device_id of None \<Rightarrow> Inl (KeyError device_id)
       | Some device \<Rightarrow> Inr device) (\<lambda>device.
     rbind (expected_memory layers) (\<lambda>demand.
     let units = float_total (map ml_compute_units layers) in
     rbind (checked_div units (rd_compute_units_per_second device)) (\<lambda>seconds.
     rbind (int_ratio demand (max 1 (rd_memory_available_bytes device))) (\<lambda>pressure.
     rbind (allowed_memory device (fr_constraints rp)) (\<lambda>allowed.
     Inr \<lparr>bp_partition = \<lparr>lp_partition_id = partition_name i, lp_device_id = device_id,
         lp_layer_names = map ml_name layers, lp_compute_units = units, lp_memory_demand_bytes = demand\<rparr>,
       bp_compute_ms = fmul seconds (FFin 1000), bp_pressure = pressure,
       bp_rejections = memory_rejections device_id demand allowed limits\<rparr>))))))"

definition indexed :: "'a list \<Rightarrow> (nat \<times> 'a) list" where
  "indexed xs = zip [0..<length xs] xs"

text \<open>The layers between consecutive boundaries.\<close>

definition layer_groups :: "ModelLayer list \<Rightarrow> int list \<Rightarrow> ModelLayer list list" where
  "layer_groups layers splits =
     map (\<lambda>(a, b). take (nat b - nat a) (drop (nat a) layers))
       (consecutive ([0] @ splits @ [int (length layers)]))"

definition build_partitions ::
  "FederatedRoundPlan \<Rightarrow> (string \<times> int) list \<Rightarrow> string list \<Rightarrow> int list \<Rightarrow> (exn, built_partition list) result" where
  "build_partitions rp limits ps splits =
     rmap (build_partition rp limits) (indexed (zip ps (layer_groups (fr_layers rp) splits)))"

section \<open>The chain of transfers\<close>

definition links_by_pair :: "FederatedRoundPlan \<Rightarrow> (string \<times> string, NetworkLink) dict" where
  "links_by_pair rp = dict_of (map (\<lambda>l. (link_pair l, l)) (fr_network_links rp))"

text \<open>
  The link of a pair, or why it cannot be used; and the time and the edge of a transfer over it.
\<close>

definition usable_link ::
  "FederatedRoundPlan \<Rightarrow> (string \<times> string) list \<Rightarrow> string \<times> string \<Rightarrow> (string, NetworkLink) result" where
  "usable_link rp excluded pair =
     (let name = fst pair @ ''->'' @ snd pair in
      if pair \<in> set excluded then Inl (''failed_network_link:'' @ name)
      else case dict_get (links_by_pair rp) pair of
          None \<Rightarrow> Inl (''missing_network_link:'' @ name)
        | Some link \<Rightarrow> Inr link)"

definition transfer_ms :: "NetworkLink \<Rightarrow> int \<Rightarrow> (exn, pyfloat) result" where
  "transfer_ms link bytes =
     rbind (float_of_int bytes) (\<lambda>b.
     rbind (checked_div b (nl_bandwidth_bytes_per_second link)) (\<lambda>seconds.
     Inr (fadd (nl_latency_ms link) (fmul seconds (FFin 1000)))))"

datatype hop = Rejected string | Hop ExecutionGraphEdge pyfloat

definition build_hop ::
  "FederatedRoundPlan \<Rightarrow> (string \<times> string) list \<Rightarrow> int list \<Rightarrow> nat \<times> string \<times> string \<Rightarrow> (exn, hop) result" where
  "build_hop rp excluded splits = (\<lambda>(i, pair).
     case usable_link rp excluded pair of
       Inl reason \<Rightarrow> Inr (Rejected reason)
     | Inr link \<Rightarrow>
         (let bytes = ml_activation_bytes (fr_layers rp ! (nat (splits ! i) - 1)) in
          rbind (transfer_ms link bytes) (\<lambda>ms.
          Inr (Hop \<lparr>ge_source_partition = partition_name i, ge_target_partition = partition_name (Suc i),
            ge_transfer_bytes = bytes, ge_estimated_transfer_ms = fround 6 ms, ge_edge_type = ''forward''\<rparr> ms))))"

fun hop_rejections :: "hop list \<Rightarrow> string list" where
  "hop_rejections [] = []"
| "hop_rejections (Rejected r # hs) = r # hop_rejections hs"
| "hop_rejections (Hop e ms # hs) = hop_rejections hs"

fun hop_edges :: "hop list \<Rightarrow> (ExecutionGraphEdge \<times> pyfloat) list" where
  "hop_edges [] = []"
| "hop_edges (Rejected r # hs) = hop_edges hs"
| "hop_edges (Hop e ms # hs) = (e, ms) # hop_edges hs"

definition build_hops ::
  "FederatedRoundPlan \<Rightarrow> (string \<times> string) list \<Rightarrow> string list \<Rightarrow> int list \<Rightarrow> (exn, hop list) result" where
  "build_hops rp excluded ps splits = rmap (build_hop rp excluded splits) (indexed (consecutive ps))"

section \<open>The graph of a training plan\<close>

record training_graph =
  tg_nodes :: "ExecutionGraphNode list"
  tg_edges :: "ExecutionGraphEdge list"
  tg_transfer_ms :: pyfloat
  tg_total_transfer_bytes :: int
  tg_step_time_ms :: pyfloat
  tg_gradient_bytes :: int
  tg_load_imbalance :: pyfloat

definition phase_node :: "string \<Rightarrow> LogicalPartition \<Rightarrow> ExecutionGraphNode" where
  "phase_node phase p = \<lparr>gn_partition_id = lp_partition_id p @ phase, gn_device_id = lp_device_id p\<rparr>"

definition plain_edge :: "string \<Rightarrow> string \<Rightarrow> int \<Rightarrow> pyfloat \<Rightarrow> string \<Rightarrow> ExecutionGraphEdge" where
  "plain_edge s t bytes ms kind = \<lparr>ge_source_partition = s, ge_target_partition = t, ge_transfer_bytes = bytes,
     ge_estimated_transfer_ms = ms, ge_edge_type = kind\<rparr>"

definition build_training_graph ::
  "LogicalPartition list \<Rightarrow> ExecutionGraphEdge list \<Rightarrow> pyfloat list \<Rightarrow> pyfloat \<Rightarrow> int \<Rightarrow> (exn, training_graph) result" where
  "build_training_graph ps forward compute forward_ms forward_bytes =
     rbind (load_imbalance compute) (\<lambda>imbalance.
     let transfer = fmul forward_ms (FFin 2) in
     Inr \<lparr>tg_nodes = map (phase_node '':forward'') ps @ map (phase_node '':backward'') (rev ps) @
         [\<lparr>gn_partition_id = ''aggregation'', gn_device_id = lp_device_id (hd ps)\<rparr>],
       tg_edges =
         map (\<lambda>e. plain_edge (ge_source_partition e @ '':forward'') (ge_target_partition e @ '':forward'')
           (ge_transfer_bytes e) (ge_estimated_transfer_ms e) ''forward'') forward @
         [plain_edge (lp_partition_id (last ps) @ '':forward'') (lp_partition_id (last ps) @ '':backward'')
           forward_bytes zero_float ''gradient''] @
         map (\<lambda>e. plain_edge (ge_target_partition e @ '':backward'') (ge_source_partition e @ '':backward'')
           (ge_transfer_bytes e) (ge_estimated_transfer_ms e) ''backward'') (rev forward) @
         [plain_edge (lp_partition_id (hd ps) @ '':backward'') ''aggregation'' forward_bytes zero_float
           ''aggregation''],
       tg_transfer_ms = transfer, tg_total_transfer_bytes = forward_bytes * 2 + forward_bytes,
       tg_step_time_ms = fadd (fmul (float_total compute) (FFin 2)) transfer,
       tg_gradient_bytes = forward_bytes, tg_load_imbalance = imbalance\<rparr>)"

section \<open>Candidates\<close>

definition limit_rejections :: "PartitionConstraints \<Rightarrow> pyfloat \<Rightarrow> int \<Rightarrow> string list" where
  "limit_rejections k total_latency bytes =
     err_if (case pc_max_transfer_bytes k of None \<Rightarrow> False | Some limit \<Rightarrow> limit < bytes)
       ''max_transfer_bytes_exceeded'' @
     err_if (case pc_max_end_to_end_latency_ms k of None \<Rightarrow> False | Some limit \<Rightarrow> flt limit total_latency)
       ''latency_slo_exceeded''"

text \<open>The estimates that depend on the kind of the plan: \<open>None\<close> is an inference plan.\<close>

definition plan_graph ::
  "ModelPartitionPolicy \<Rightarrow> PartitionIntent option \<Rightarrow> nat \<Rightarrow> built_partition list \<Rightarrow> hop list \<Rightarrow>
   (exn, training_graph \<times> pyfloat) result" where
  "plan_graph pol int_opt eligible bs hs =
     (let ps = map bp_partition bs; compute = map bp_compute_ms bs; es = hop_edges hs;
          ms = foldl fadd zero_float (map snd es); bytes = sum_list (map (ge_transfer_bytes \<circ> fst) es) in
      case int_opt of
        None \<Rightarrow> Inr (\<lparr>tg_nodes = map (phase_node '''') ps, tg_edges = map fst es, tg_transfer_ms = ms,
          tg_total_transfer_bytes = bytes, tg_step_time_ms = zero_float, tg_gradient_bytes = 0,
          tg_load_imbalance = zero_float\<rparr>, zero_float)
      | Some i \<Rightarrow>
          rbind (build_training_graph ps (map fst es) compute ms bytes) (\<lambda>g.
          rbind (predicted_resilience_risk compute eligible) (\<lambda>risk. Inr (g, risk))))"

definition build_candidate ::
  "ModelPartitionPolicy \<Rightarrow> FederatedRoundPlan \<Rightarrow> string list \<Rightarrow> (string \<times> string) list \<Rightarrow> (string \<times> int) list \<Rightarrow>
   PartitionIntent option \<Rightarrow> int list \<Rightarrow> (exn, PartitionCandidate) result" where
  "build_candidate pol rp ps excluded limits int_opt splits =
     rbind (build_partitions rp limits ps splits) (\<lambda>bs.
     rbind (build_hops rp excluded ps splits) (\<lambda>hs.
     rbind (plan_graph pol int_opt (length ps) bs hs) (\<lambda>(g, risk).
     let compute = foldl fadd zero_float (map bp_compute_ms bs);
         total_latency = (if int_opt = None then fadd compute (tg_transfer_ms g) else tg_step_time_ms g);
         pressure = floats_max_or (map bp_pressure bs);
         rejections = concat (map bp_rejections bs) @ hop_rejections hs @
           limit_rejections (fr_constraints rp) total_latency (tg_total_transfer_bytes g) in
     rbind (case int_opt of
         None \<Rightarrow> score_inference pol total_latency pressure (tg_total_transfer_bytes g)
       | Some i \<Rightarrow> score_training pol (tg_step_time_ms g) (tg_load_imbalance g) pressure
           (tg_total_transfer_bytes g) risk i) (\<lambda>score.
     Inr \<lparr>ca_split_points = splits, ca_partitions = map bp_partition bs, ca_graph_nodes = tg_nodes g,
       ca_graph_edges = tg_edges g, ca_estimated_compute_ms = fround 6 compute,
       ca_estimated_transfer_ms = fround 6 (tg_transfer_ms g),
       ca_estimated_total_latency_ms = fround 6 total_latency,
       ca_total_transfer_bytes = tg_total_transfer_bytes g, ca_maximum_memory_pressure = fround 6 pressure,
       ca_valid = (rejections = []), ca_rejection_reasons = rejections, ca_score = score,
       ca_estimated_step_time_ms = fround 6 (tg_step_time_ms g),
       ca_gradient_transfer_bytes = tg_gradient_bytes g,
       ca_maximum_load_imbalance = fround 6 (tg_load_imbalance g),
       ca_predicted_resilience_risk = fround 6 risk\<rparr>))))"

text \<open>Federated learning: the whole model on every participant, updates sent to the first one.\<close>

definition build_update ::
  "FederatedRoundPlan \<Rightarrow> (string \<times> string) list \<Rightarrow> string \<Rightarrow> int \<Rightarrow> LogicalPartition \<Rightarrow> (exn, hop) result" where
  "build_update rp excluded aggregator bytes p =
     (case usable_link rp excluded (lp_device_id p, aggregator) of
        Inl reason \<Rightarrow> Inr (Rejected reason)
      | Inr link \<Rightarrow> rbind (transfer_ms link bytes) (\<lambda>ms.
          Inr (Hop (plain_edge (lp_partition_id p) ''aggregation'' bytes (fround 6 ms) ''aggregation'') ms)))"

definition build_federated_full_model_candidate ::
  "ModelPartitionPolicy \<Rightarrow> FederatedRoundPlan \<Rightarrow> string list \<Rightarrow> (string \<times> string) list \<Rightarrow> (string \<times> int) list \<Rightarrow>
   PartitionIntent \<Rightarrow> (exn, PartitionCandidate) result" where
  "build_federated_full_model_candidate pol rp ps excluded limits i =
     (let parameters = sum_list (map ml_parameter_bytes (fr_layers rp)) in
      rbind (rmap (build_partition rp limits) (indexed (map (\<lambda>p. (p, fr_layers rp)) ps))) (\<lambda>bs.
      let parts = map bp_partition bs; compute = map bp_compute_ms bs; aggregator = lp_device_id (hd parts) in
      rbind (rmap (build_update rp excluded aggregator parameters) (tl parts)) (\<lambda>hs.
      rbind (load_imbalance compute) (\<lambda>imbalance.
      rbind (predicted_resilience_risk compute (length ps)) (\<lambda>risk.
      let transfer = floats_max_or (map snd (hop_edges hs));
          bytes = sum_list (map (ge_transfer_bytes \<circ> fst) (hop_edges hs));
          step_time = fadd (floats_max_or compute) transfer; pressure = floats_max_or (map bp_pressure bs);
          rejections = concat (map bp_rejections bs) @ hop_rejections hs @
            limit_rejections (fr_constraints rp) step_time bytes in
      rbind (score_training pol step_time imbalance pressure bytes risk i) (\<lambda>score.
      Inr \<lparr>ca_split_points = [], ca_partitions = parts,
        ca_graph_nodes = map (phase_node '''') parts @
          [\<lparr>gn_partition_id = ''aggregation'', gn_device_id = aggregator\<rparr>],
        ca_graph_edges = map fst (hop_edges hs), ca_estimated_compute_ms = fround 6 (floats_max_or compute),
        ca_estimated_transfer_ms = fround 6 transfer, ca_estimated_total_latency_ms = fround 6 step_time,
        ca_total_transfer_bytes = bytes, ca_maximum_memory_pressure = fround 6 pressure,
        ca_valid = (rejections = []), ca_rejection_reasons = rejections, ca_score = score,
        ca_estimated_step_time_ms = fround 6 step_time, ca_gradient_transfer_bytes = bytes,
        ca_maximum_load_imbalance = fround 6 imbalance, ca_predicted_resilience_risk = fround 6 risk\<rparr>))))))"

section \<open>Planning\<close>

text \<open>\<open>itertools.combinations\<close>, in its order.\<close>

fun combinations :: "'a list \<Rightarrow> nat \<Rightarrow> 'a list list" where
  "combinations xs 0 = [[]]"
| "combinations [] (Suc k) = []"
| "combinations (x # xs) (Suc k) = map ((#) x) (combinations xs k) @ combinations xs (Suc k)"

record PartitionPlanner =
  pl_policy :: ModelPartitionPolicy
  pl_strategy_registry :: PartitionStrategyRegistry
  pl_selector :: GuardedCandidateSelector
  pl_selection_mode :: SelectionMode
  pl_ranker_model_version :: "string option"

text \<open>The agent with the selector it makes by default, and no learned ranker.\<close>

definition new_planner ::
  "(string \<Rightarrow> string) \<Rightarrow> ModelPartitionPolicy \<Rightarrow> PartitionStrategyRegistry \<Rightarrow> SelectionMode \<Rightarrow> string option \<Rightarrow>
   PartitionPlanner" where
  "new_planner sha256 pol reg mode version =
     \<lparr>pl_policy = pol, pl_strategy_registry = reg,
      pl_selector = \<lparr>gs_deterministic = deterministic_rank sha256, gs_learned = None,
        gs_guard_policy = mp_learned_ranker_guard pol\<rparr>,
      pl_selection_mode = mode, pl_ranker_model_version = version\<rparr>"

record plan_limits =
  lim_devices :: "string list"
  lim_links :: "(string \<times> string) list"
  lim_splits :: "int list list"
  lim_memory :: "(string \<times> int) list"

definition no_limits :: plan_limits where
  "no_limits = \<lparr>lim_devices = [], lim_links = [], lim_splits = [], lim_memory = []\<rparr>"

definition failed_plan ::
  "PartitionPlanner \<Rightarrow> string \<Rightarrow> FederatedRoundPlan \<Rightarrow> string list \<Rightarrow> PartitionCandidate list \<Rightarrow>
   CandidateSelection option \<Rightarrow> PartitionExecutionPlan" where
  "failed_plan pl plan_id rp errors alternatives selection =
     safe_failure plan_id (fr_job_id rp) (fr_model_id rp) (am_name (fr_execution_mode rp))
       (mp_version (pl_policy pl)) errors alternatives selection"

text \<open>The fields that \<open>PartitionExecutionPlan(...)\<close> leaves to their defaults are those of \<open>safe_failure\<close>.\<close>

definition selected_plan ::
  "PartitionPlanner \<Rightarrow> string \<Rightarrow> FederatedRoundPlan \<Rightarrow> PartitionCandidate \<Rightarrow> PartitionCandidate list \<Rightarrow> string \<Rightarrow>
   CandidateSelection \<Rightarrow> PartitionExecutionPlan" where
  "selected_plan pl plan_id rp c alternatives rationale selection =
     (failed_plan pl plan_id rp [] alternatives (Some selection))
       \<lparr>pp_selected_candidate := Some c, pp_rationale := rationale, pp_valid := True,
        pp_human_review_required := False\<rparr>"

definition candidate_splits ::
  "FederatedRoundPlan \<Rightarrow> nat \<Rightarrow> int list list \<Rightarrow> PartitionIntent option \<Rightarrow> int list list" where
  "candidate_splits rp k excluded int_opt =
     filter (\<lambda>splits. splits \<notin> set excluded \<and>
         (case int_opt of None \<Rightarrow> True
          | Some i \<Rightarrow> \<not> list_ex (\<lambda>b. b \<in> set (pi_forbidden_split_boundaries i)) splits))
       (combinations (map int [1..<length (fr_layers rp)]) k)"

definition plan_context ::
  "NormalizedPartitionRequest \<Rightarrow> PartitionIntent \<Rightarrow> (exn, RankingContext) result" where
  "plan_context r i = ranking_context r i (pi_strategy_version i) (nr_workload_forecast r)"

definition run_selector ::
  "(string \<Rightarrow> string) \<Rightarrow> PartitionPlanner \<Rightarrow> RankingContext \<Rightarrow> PartitionCandidate list \<Rightarrow>
   (exn, CandidateSelection) result" where
  "run_selector sha256 pl x cs =
     select_candidate sha256 (pl_selector pl) x cs (pl_selection_mode pl) (pl_ranker_model_version pl)"

definition plan_federated_full_model ::
  "(string \<Rightarrow> string) \<Rightarrow> PartitionPlanner \<Rightarrow> string \<Rightarrow> FederatedRoundPlan \<Rightarrow> string list \<Rightarrow> plan_limits \<Rightarrow>
   NormalizedPartitionRequest \<Rightarrow> PartitionIntent \<Rightarrow> (exn, PartitionExecutionPlan) result" where
  "plan_federated_full_model sha256 pl plan_id rp ps limits r i =
     (if length ps < 2 \<or> fr_layers rp = []
      then Inr (failed_plan pl plan_id rp [''insufficient_participants_after_failure''] [] None)
      else
        rbind (build_federated_full_model_candidate (pl_policy pl) rp ps (lim_links limits) (lim_memory limits) i) (\<lambda>c.
        rbind (plan_context r i) (\<lambda>x.
        rbind (run_selector sha256 pl x [c]) (\<lambda>sel.
        Inr (if cs_final_key sel = None
          then failed_plan pl plan_id rp [''no_feasible_partition''] [c] (Some sel)
          else selected_plan pl plan_id rp c []
            (''Selected one approved full-model replica per participant with '' @
             ''remote updates directed to the coordination aggregator.'') sel)))))"

text \<open>The candidates by key, those the selection lists, and the one it names.\<close>

definition plan_of_selection ::
  "PartitionPlanner \<Rightarrow> string \<Rightarrow> FederatedRoundPlan \<Rightarrow> (string \<times> PartitionCandidate) list \<Rightarrow>
   CandidateSelection \<Rightarrow> PartitionExecutionPlan" where
  "plan_of_selection pl plan_id rp keyed sel =
     (let by_key = dict_of keyed;
          ordered = List.map_filter (\<lambda>e. dict_get by_key (re_candidate_key e)) (cs_entries sel);
          selected = Option.bind (cs_final_key sel) (dict_get by_key) in
      case selected of
        None \<Rightarrow> failed_plan pl plan_id rp [''no_feasible_partition''] ordered (Some sel)
      | Some c \<Rightarrow> selected_plan pl plan_id rp c (filter (\<lambda>a. a \<noteq> c) ordered)
          (''Selected the feasible candidate with the lowest versioned '' @
           ''latency, memory-pressure, and communication score.'') sel)"

definition plan_split ::
  "(string \<Rightarrow> string) \<Rightarrow> PartitionPlanner \<Rightarrow> string \<Rightarrow> FederatedRoundPlan \<Rightarrow> string list \<Rightarrow> plan_limits \<Rightarrow>
   NormalizedPartitionRequest \<Rightarrow> PartitionIntent \<Rightarrow> (exn, PartitionExecutionPlan) result" where
  "plan_split sha256 pl plan_id rp ps limits r i =
     (let int_opt = (if nr_plan_type r = ''training'' then Some i else None) in
      rbind (rmap (build_candidate (pl_policy pl) rp ps (lim_links limits) (lim_memory limits) int_opt)
        (candidate_splits rp (length ps - 1) (lim_splits limits) int_opt)) (\<lambda>cs.
      rbind (plan_context r i) (\<lambda>x.
      rbind (run_selector sha256 pl x cs) (\<lambda>sel.
      rbind (rmap (\<lambda>c. rbind (partition_candidate_key sha256 c (rx_strategy_version x)) (\<lambda>k. Inr (k, c))) cs)
        (\<lambda>keyed.
      Inr (plan_of_selection pl plan_id rp keyed sel))))))"

definition run_plan ::
  "(string \<Rightarrow> string) \<Rightarrow> PartitionPlanner \<Rightarrow> string \<Rightarrow> FederatedRoundPlan \<Rightarrow> plan_limits \<Rightarrow>
   NormalizedPartitionRequest \<Rightarrow> PartitionIntent \<Rightarrow> (exn, PartitionExecutionPlan) result" where
  "run_plan sha256 pl plan_id rp limits r i =
     (let ps = filter (\<lambda>p. p \<notin> set (lim_devices limits)) (fr_participants rp) in
      if pi_strategy_id i = ''federated-full-model-v1''
      then plan_federated_full_model sha256 pl plan_id rp ps limits r i
      else if length ps < 2 \<or> length (fr_layers rp) < length ps
      then Inr (failed_plan pl plan_id rp [''insufficient_participants_after_failure''] [] None)
      else plan_split sha256 pl plan_id rp ps limits r i)"

definition round_plan_from_normalized :: "NormalizedPartitionRequest \<Rightarrow> FederatedRoundPlan" where
  "round_plan_from_normalized r =
     \<lparr>fr_job_id = nr_job_id r, fr_model_id = nr_model_id r, fr_execution_mode = nr_approved_execution_mode r,
      fr_layers = nr_layers r, fr_participants = nr_participants r, fr_devices = nr_devices r,
      fr_network_links = nr_network_links r, fr_constraints = nr_constraints r\<rparr>"

section \<open>Provenance of a plan\<close>

definition plan_signature ::
  "(string \<Rightarrow> string) \<Rightarrow> string \<Rightarrow> string \<Rightarrow> string \<Rightarrow> string \<Rightarrow> PartitionExecutionPlan \<Rightarrow> (exn, string) result" where
  "plan_signature sha256 input strategy_id strategy_version policy_version plan =
     json_digest sha256
       [(''input_signature'', VStr input), (''strategy_id'', VStr strategy_id),
        (''strategy_version'', VStr strategy_version), (''policy_version'', VStr policy_version),
        (''signature_version'', VStr ''partition-selection-v2''),
        (''selection'', opt_json (VDict \<circ> signature_provenance) (pp_selection plan)),
        (''selected_candidate'', opt_json (VDict \<circ> candidate_dict) (pp_selected_candidate plan))]"

definition confidence_prefix :: string where
  "confidence_prefix = ''planning_confidence:''"

fun intent_confidence_of :: "string list \<Rightarrow> (exn, pyfloat) result" where
  "intent_confidence_of [] = Inl (PartitionContractError ''invalid_partition_intent''
     ''strategy intent must include valid confidence'')"
| "intent_confidence_of (a # as) =
     (if startswith a confidence_prefix
      then rbind (py_float (VStr (drop (length confidence_prefix) a))) (\<lambda>c.
        if fle zero_float c \<and> fle c (FFin 1) then Inr c else intent_confidence_of as)
      else intent_confidence_of as)"

definition with_v2_metadata ::
  "(string \<Rightarrow> string) \<Rightarrow> PartitionPlanner \<Rightarrow> PartitionExecutionPlan \<Rightarrow> NormalizedPartitionRequest \<Rightarrow>
   PartitionIntent \<Rightarrow> (exn, PartitionExecutionPlan) result" where
  "with_v2_metadata sha256 pl plan r i =
     rbind (intent_confidence_of (pi_assumptions i)) (\<lambda>confidence.
     rbind (plan_signature sha256 (nr_input_signature r) (pi_strategy_id i) (pi_strategy_version i)
       (mp_version (pl_policy pl)) plan) (\<lambda>signature.
     Inr (plan\<lparr>pp_plan_version := 1, pp_parent_plan_id := None, pp_plan_type := nr_plan_type r,
       pp_approved_model_version := nr_approved_model_version r, pp_strategy_id := pi_strategy_id i,
       pp_strategy_version := pi_strategy_version i, pp_input_snapshot_id := nr_context_snapshot_id r,
       pp_input_snapshot_hash := nr_context_snapshot_hash r, pp_assumptions := pi_assumptions i,
       pp_warnings := pi_warnings i, pp_confidence := confidence, pp_deterministic_signature := signature,
       pp_handoff_status := (if pp_valid plan \<and> \<not> nr_legacy_input r then ''ready'' else ''not_ready'')\<rparr>)))"

definition with_replan_metadata ::
  "(string \<Rightarrow> string) \<Rightarrow> PartitionPlanner \<Rightarrow> PartitionExecutionPlan \<Rightarrow> PartitionExecutionPlan \<Rightarrow>
   NormalizedPartitionRequest \<Rightarrow> (exn, PartitionExecutionPlan) result" where
  "with_replan_metadata sha256 pl plan previous r =
     rbind (plan_signature sha256 (nr_input_signature r) (pp_strategy_id previous) (pp_strategy_version previous)
       (mp_version (pl_policy pl)) plan) (\<lambda>signature.
     Inr (plan\<lparr>pp_plan_version := pp_plan_version previous + 1, pp_parent_plan_id := Some (pp_plan_id previous),
       pp_plan_type := pp_plan_type previous, pp_approved_model_version := pp_approved_model_version previous,
       pp_strategy_id := pp_strategy_id previous, pp_strategy_version := pp_strategy_version previous,
       pp_input_snapshot_id := pp_input_snapshot_id previous,
       pp_input_snapshot_hash := pp_input_snapshot_hash previous, pp_assumptions := pp_assumptions previous,
       pp_warnings := pp_warnings previous, pp_confidence := pp_confidence previous,
       pp_deterministic_signature := signature,
       pp_handoff_status :=
         (if pp_valid plan \<and> pp_handoff_status previous = ''ready'' then ''ready'' else ''not_ready'')\<rparr>))"

section \<open>The methods of the agent\<close>

definition normalize_and_intend ::
  "(string \<Rightarrow> string) \<Rightarrow> PartitionPlanner \<Rightarrow> PartitionPlanningRequest \<Rightarrow>
   (exn, NormalizedPartitionRequest \<times> PartitionIntent) result" where
  "normalize_and_intend sha256 pl request =
     rbind (process_request sha256 request) (\<lambda>r.
     rbind (resolve_strategy (pl_strategy_registry pl) (nr_plan_type r)
       (am_name (nr_approved_execution_mode r))) (\<lambda>strategy.
     rbind (build_partition_intent strategy r) (\<lambda>i. Inr (r, i))))"

definition plan_request ::
  "(string \<Rightarrow> string) \<Rightarrow> PartitionPlanner \<Rightarrow> string \<Rightarrow> PartitionPlanningRequest \<Rightarrow>
   (exn, PartitionExecutionPlan) result" where
  "plan_request sha256 pl plan_id request =
     rbind (normalize_and_intend sha256 pl request) (\<lambda>(r, i).
     rbind (run_plan sha256 pl plan_id (round_plan_from_normalized r) no_limits r i) (\<lambda>plan.
     with_v2_metadata sha256 pl plan r i))"

definition plan_round ::
  "(string \<Rightarrow> string) \<Rightarrow> PartitionPlanner \<Rightarrow> string \<Rightarrow> FederatedRoundPlan \<Rightarrow> (exn, PartitionExecutionPlan) result" where
  "plan_round sha256 pl plan_id rp = plan_request sha256 pl plan_id (legacy_adapt sha256 rp)"

definition directive_limits :: "RepartitionDirective \<Rightarrow> plan_limits" where
  "directive_limits v = \<lparr>lim_devices = dv_excluded_devices v, lim_links = dv_excluded_links v,
     lim_splits = dv_excluded_splits v @ dv_excluded_candidate_splits v, lim_memory = dv_memory_limits v\<rparr>"

definition replan_within ::
  "(string \<Rightarrow> string) \<Rightarrow> PartitionPlanner \<Rightarrow> string \<Rightarrow> FederatedRoundPlan \<Rightarrow> PartitionExecutionPlan \<Rightarrow>
   RepartitionDirective \<Rightarrow> int \<Rightarrow> NormalizedPartitionRequest \<Rightarrow> PartitionIntent \<Rightarrow>
   (exn, PartitionExecutionPlan) result" where
  "replan_within sha256 pl plan_id rp previous v attempt r i =
     rbind (if mp_max_replan_attempts (pl_policy pl) < attempt
            then Inr (failed_plan pl plan_id rp [''replan_attempts_exhausted''] [] None)
            else if dv_errors v \<noteq> [] then Inr (failed_plan pl plan_id rp (dv_errors v) [] None)
            else if pp_selected_candidate previous = None
            then Inr (failed_plan pl plan_id rp [''previous_plan_has_no_candidate''] [] None)
            else run_plan sha256 pl plan_id rp (directive_limits v) r i) (\<lambda>plan.
     with_replan_metadata sha256 pl plan previous r)"

definition replan_with_directive ::
  "(string \<Rightarrow> string) \<Rightarrow> PartitionPlanner \<Rightarrow> string \<Rightarrow> FederatedRoundPlan \<Rightarrow> PartitionExecutionPlan \<Rightarrow>
   RepartitionDirective \<Rightarrow> int \<Rightarrow> (exn, PartitionExecutionPlan) result" where
  "replan_with_directive sha256 pl plan_id rp previous v attempt =
     rbind (normalize_and_intend sha256 pl (legacy_adapt sha256 rp)) (\<lambda>(r, i).
     replan_within sha256 pl plan_id rp previous v attempt r i)"

definition replan_request ::
  "(string \<Rightarrow> string) \<Rightarrow> PartitionPlanner \<Rightarrow> string \<Rightarrow> PartitionPlanningRequest \<Rightarrow> PartitionExecutionPlan \<Rightarrow>
   RepartitionDirective \<Rightarrow> int \<Rightarrow> (exn, PartitionExecutionPlan) result" where
  "replan_request sha256 pl plan_id request previous v attempt =
     rbind (normalize_and_intend sha256 pl request) (\<lambda>(r, i).
     replan_within sha256 pl plan_id (round_plan_from_normalized r) previous v attempt r i)"

definition replan ::
  "(string \<Rightarrow> string) \<Rightarrow> PartitionPlanner \<Rightarrow> string \<Rightarrow> FederatedRoundPlan \<Rightarrow> PartitionExecutionPlan \<Rightarrow>
   PartitionFailure \<Rightarrow> int \<Rightarrow> (exn, PartitionExecutionPlan) result" where
  "replan sha256 pl plan_id rp previous f attempt =
     rbind (replan_with_directive sha256 pl plan_id rp previous (directive_of_failure f previous) attempt) (\<lambda>plan.
     Inr (plan\<lparr>pp_plan_version := 1, pp_parent_plan_id := None, pp_plan_type := ''inference'',
       pp_approved_model_version := ''legacy'', pp_strategy_id := ''legacy-partition-v1'',
       pp_strategy_version := ''1.0'', pp_input_snapshot_id := ''legacy-snapshot'', pp_input_snapshot_hash := '''',
       pp_assumptions := [], pp_warnings := [], pp_confidence := zero_float, pp_deterministic_signature := '''',
       pp_handoff_status := ''not_ready''\<rparr>))"

end
