(* ===== verification/PlannerGraph.thy ===== *)
theory PlannerGraph
  imports PartitionPlanner
begin

text \<open>
  The candidate that the planner builds for a cut: the cuts it tries, the partitions, links and memory
  of a feasible candidate, and the graphs of inference, training and full replicas, which the
  validator's graph checks accept.
\<close>

section \<open>Cuts of the layers\<close>

lemma combinations_length: "s \<in> set (combinations xs k) \<Longrightarrow> length s = k"
  by (induction xs k arbitrary: s rule: combinations.induct) auto

lemma combinations_subset: "s \<in> set (combinations xs k) \<Longrightarrow> set s \<subseteq> set xs"
proof (induction xs k arbitrary: s rule: combinations.induct)
  case (3 x xs k)
  then show ?case by fastforce
qed auto

lemma combinations_sorted:
  "sorted_wrt (<) (xs :: int list) \<Longrightarrow> s \<in> set (combinations xs k) \<Longrightarrow> sorted_wrt (<) s"
proof (induction xs k arbitrary: s rule: combinations.induct)
  case (3 x xs k)
  consider t where "s = x # t" "t \<in> set (combinations xs k)" | "s \<in> set (combinations xs (Suc k))"
    using 3(4) by auto
  then show ?case
  proof cases
    case 1
    with 3(1)[of t] 3(3) combinations_subset[of t xs k] show ?thesis by auto
  next
    case 2
    with 3(2)[of s] 3(3) show ?thesis by simp
  qed
qed auto

lemma combinations_complete:
  "sorted_wrt (<) (xs :: int list) \<Longrightarrow> sorted_wrt (<) s \<Longrightarrow> set s \<subseteq> set xs \<Longrightarrow>
   s \<in> set (combinations xs (length s))"
proof (induction xs arbitrary: s)
  case (Cons x xs)
  show ?case
  proof (cases s)
    case (Cons y ys)
    show ?thesis
    proof (cases "y = x")
      case True
      with Cons Cons.prems have "set ys \<subseteq> set xs" by fastforce
      with Cons Cons.prems Cons.IH[of ys] True show ?thesis by simp
    next
      case False
      with Cons Cons.prems have "y \<in> set xs" by auto
      with Cons.prems(1) have "x < y" by simp
      moreover have "y \<le> z" if "z \<in> set s" for z using that Cons Cons.prems(2) by auto
      ultimately have "x \<notin> set s" by fastforce
      with Cons.prems(3) have "set s \<subseteq> set xs" by auto
      with Cons.IH[of s] Cons.prems Cons show ?thesis by simp
    qed
  qed simp
qed simp

text \<open>The boundaries cut \<open>n\<close> layers into non-empty consecutive groups.\<close>

definition cuts :: "int list \<Rightarrow> nat \<Rightarrow> bool" where
  "cuts splits n \<longleftrightarrow> sorted_wrt (<) splits \<and> set splits \<subseteq> {0<..<int n}"

lemma boundary_set: "set (map int [1..<n]) = {0<..<int n}"
proof -
  have "x \<in> int ` {1..<n}" if "0 < x" "x < int n" for x
    using that by (intro image_eqI[of _ _ "nat x"]) auto
  then show ?thesis by auto
qed

lemma candidate_splits_iff:
  "splits \<in> set (candidate_splits rp k excluded int_opt) \<longleftrightarrow>
     cuts splits (length (fr_layers rp)) \<and> length splits = k \<and> splits \<notin> set excluded \<and>
     (\<forall>i. int_opt = Some i \<longrightarrow> set splits \<inter> set (pi_forbidden_split_boundaries i) = {})"
proof -
  let ?xs = "map int [1..<length (fr_layers rp)]"
  have sorted: "sorted_wrt (<) ?xs" by (simp add: sorted_wrt_map)
  have "splits \<in> set (combinations ?xs k) \<longleftrightarrow> cuts splits (length (fr_layers rp)) \<and> length splits = k"
    using combinations_length combinations_sorted[OF sorted] combinations_subset combinations_complete[OF sorted]
    unfolding cuts_def boundary_set[symmetric] by metis
  then show ?thesis
    by (auto simp: candidate_splits_def list_ex_iff split: option.splits)
qed

definition layer_group :: "'a list \<Rightarrow> int \<times> int \<Rightarrow> 'a list" where
  "layer_group xs = (\<lambda>(a, b). take (nat b - nat a) (drop (nat a) xs))"

lemma consecutive_Cons: "consecutive (a # b # cs) = (a, b) # consecutive (b # cs)"
  by (simp add: consecutive_def)

lemma length_consecutive [simp]: "length (consecutive xs) = length xs - 1"
  by (simp add: consecutive_def)

lemma take_split: "i \<le> j \<Longrightarrow> j \<le> k \<Longrightarrow>
  take (j - i) (drop i xs) @ take (k - j) (drop j xs) = take (k - i) (drop i xs)"
proof -
  assume "i \<le> j" "j \<le> k"
  then obtain n m where "j = i + n" "k = i + n + m" by (metis le_Suc_ex)
  moreover from this have "k - i = n + m" "j - i = n" "k - j = m" by simp_all
  ultimately show ?thesis by (simp only: take_add) (simp add: add.commute)
qed

lemma hd_le_last: "sorted_wrt (<) (b # bs) \<Longrightarrow> b \<le> last (b # bs :: int list)"
  by (induction bs rule: rev_induct) auto

lemma groups_concat:
  "sorted_wrt (<) (a # bs) \<Longrightarrow> 0 \<le> a \<Longrightarrow>
   concat (map (layer_group xs) (consecutive (a # bs))) = take (nat (last (a # bs)) - nat a) (drop (nat a) xs)"
proof (induction bs arbitrary: a)
  case (Cons b bs)
  then have "b \<le> last (b # bs)" by (intro hd_le_last) simp
  then have "nat b \<le> nat (last (b # bs))" by (rule nat_mono)
  moreover have "nat a \<le> nat b" using Cons.prems by (intro nat_mono) simp
  ultimately have "nat a \<le> nat b" "nat b \<le> nat (last (b # bs))" by auto
  from take_split[OF this, of xs] Cons show ?case by (simp add: consecutive_Cons layer_group_def)
qed (simp add: consecutive_def)

lemma groups_nonempty:
  "sorted_wrt (<) (a # bs) \<Longrightarrow> 0 \<le> a \<Longrightarrow> last (a # bs) \<le> int (length xs) \<Longrightarrow>
   [] \<notin> layer_group xs ` set (consecutive (a # bs))"
proof (induction bs arbitrary: a)
  case (Cons b bs)
  then have "b \<le> last (b # bs)" by (intro hd_le_last) simp
  with Cons show ?case by (auto simp: consecutive_Cons layer_group_def)
qed (simp add: consecutive_def)

lemma cuts_sorted: "cuts splits n \<Longrightarrow> 0 < n \<Longrightarrow> sorted_wrt (<) (0 # splits @ [int n])"
  by (auto simp: cuts_def sorted_wrt_append)

lemma layer_groups_partition:
  assumes "cuts splits (length layers)" and "layers \<noteq> []"
  shows "concat (layer_groups layers splits) = layers" "[] \<notin> set (layer_groups layers splits)"
    "length (layer_groups layers splits) = Suc (length splits)"
proof -
  note sorted = cuts_sorted[OF assms(1), unfolded length_greater_0_conv, OF assms(2)]
  have groups: "layer_groups layers splits = map (layer_group layers) (consecutive (0 # splits @ [int (length layers)]))"
    by (simp add: layer_groups_def layer_group_def)
  show "concat (layer_groups layers splits) = layers" "[] \<notin> set (layer_groups layers splits)"
    "length (layer_groups layers splits) = Suc (length splits)"
    using groups_concat[OF sorted, of layers] groups_nonempty[OF sorted, of layers]
    unfolding groups by simp_all
qed

section \<open>The candidate of a cut\<close>

lemma concat_parts_subset: "k < length xss \<Longrightarrow> set (xss ! k) \<subseteq> set (concat xss)"
  by (metis UN_upper nth_mem set_concat)

lemma nth_indexed: "k < length xs \<Longrightarrow> indexed xs ! k = (k, xs ! k)"
  by (simp add: indexed_def)

lemma length_indexed [simp]: "length (indexed xs) = length xs"
  by (simp add: indexed_def)

lemma set_indexed: "set (indexed xs) = {(k, xs ! k) | k. k < length xs}"
  by (auto simp: in_set_conv_nth nth_indexed) (metis nth_indexed)

lemma rmap_nth: "rmap f xs = Inr ys \<Longrightarrow> length ys = length xs \<and> (\<forall>k < length xs. f (xs ! k) = Inr (ys ! k))"
  using rmap_Inr_all2[of f xs ys] by (simp add: list_all2_conv_all_nth)

text \<open>What \<open>build_partition\<close> makes of the layers \<open>ls\<close> on the device \<open>i\<close>.\<close>

definition partition_built ::
  "FederatedRoundPlan \<Rightarrow> (string \<times> int) list \<Rightarrow> nat \<Rightarrow> string \<Rightarrow> ModelLayer list \<Rightarrow> built_partition \<Rightarrow> bool" where
  "partition_built rp limits k i ls b \<longleftrightarrow>
     ls \<noteq> [] \<and> lp_partition_id (bp_partition b) = partition_name k \<and> lp_device_id (bp_partition b) = i \<and>
     lp_layer_names (bp_partition b) = map ml_name ls \<and>
     lp_memory_demand_bytes (bp_partition b) = required_memory ls \<and>
     (\<exists>device allowed. dict_get (devices_by_id rp) i = Some device \<and>
        allowed_memory device (fr_constraints rp) = Inr allowed \<and>
        bp_rejections b = memory_rejections i (required_memory ls) allowed limits)"

lemma build_partition_built:
  "build_partition rp limits (k, i, ls) = Inr b \<Longrightarrow> partition_built rp limits k i ls b"
  by (auto simp: build_partition_def partition_built_def Let_def split: option.splits)

lemma nat_str_inj [simp]: "nat_str m = nat_str n \<longleftrightarrow> m = n"
  by (metis decimal_value_nat_str)

lemma partition_name_inj [simp]: "partition_name i = partition_name j \<longleftrightarrow> i = j"
  by (simp add: partition_name_def)

lemma memory_rejections_Nil:
  "memory_rejections i demand allowed limits = [] \<longleftrightarrow> demand \<le> allowed \<and>
     (\<forall>limit. map_of (rev limits) i = Some limit \<longrightarrow> demand \<le> limit)"
  by (auto simp: memory_rejections_def not_less split: option.splits)

lemma partition_built_placed:
  assumes "partition_built rp limits k i ls b" and "bp_rejections b = []" and "round_plan_ok rp"
    and "i \<in> set (fr_participants rp)" and "set ls \<subseteq> set (fr_layers rp)"
  shows "placed rp (bp_partition b)"
  using assms device_lookup[OF assms(3)]
  unfolding partition_built_def placed_def memory_rejections_Nil
  by (metis memory_rejections_Nil)

lemma build_partitions_nth:
  assumes "build_partitions rp limits ps splits = Inr bs" and "length (layer_groups (fr_layers rp) splits) = length ps"
  shows "length bs = length ps \<and> (\<forall>k < length ps.
    partition_built rp limits k (ps ! k) (layer_groups (fr_layers rp) splits ! k) (bs ! k))"
  using rmap_nth[OF assms(1)[unfolded build_partitions_def]] assms(2)
  by (auto simp: nth_indexed intro!: build_partition_built)

lemma hop_rejections_Nil: "hop_rejections hs = [] \<longleftrightarrow> hs = map (\<lambda>(e, ms). Hop e ms) (hop_edges hs)"
  by (induction hs rule: hop_rejections.induct) auto

lemma hop_edges_all: "hop_rejections hs = [] \<Longrightarrow> length (hop_edges hs) = length hs \<and>
   (\<forall>k < length hs. hs ! k = Hop (fst (hop_edges hs ! k)) (snd (hop_edges hs ! k)))"
  using hop_rejections_Nil[of hs] by (metis (no_types, lifting) case_prod_beta length_map nth_map)

lemma link_lookup:
  "round_plan_ok rp \<Longrightarrow>
   dict_get (links_by_pair rp) pair = Some l \<longleftrightarrow> l \<in> set (fr_network_links rp) \<and> link_pair l = pair"
  by (auto simp: round_plan_ok_def topology_ok_def links_by_pair_def dict_of_distinct comp_def
      map_of_eq_Some_iff)

lemma links_by_pair_known: "dict_get (links_by_pair rp) pair = Some l \<Longrightarrow> pair \<in> link_pair ` set (fr_network_links rp)"
  using dom_foldl_dict[of "[]" "map (\<lambda>l. (link_pair l, l)) (fr_network_links rp)"]
  by (force simp: links_by_pair_def dict_of_def dom_def)

lemma usable_link_Inr:
  "usable_link rp excluded pair = Inr l \<longleftrightarrow> pair \<notin> set excluded \<and> dict_get (links_by_pair rp) pair = Some l"
  by (auto simp: usable_link_def Let_def split: option.splits)

lemma build_hop_Hop:
  "build_hop rp excluded splits (k, pair) = Inr (Hop e ms) \<Longrightarrow>
     pair \<notin> set excluded \<and> pair \<in> link_pair ` set (fr_network_links rp) \<and>
     ge_source_partition e = partition_name k \<and> ge_target_partition e = partition_name (Suc k) \<and>
     ge_edge_type e = ''forward''"
  by (auto simp: build_hop_def Let_def usable_link_Inr split: sum.splits dest: links_by_pair_known)

lemma build_hops_nth:
  assumes "build_hops rp excluded ps splits = Inr hs" and "hop_rejections hs = []"
  shows "length (hop_edges hs) = length ps - 1"
    "k < length ps - 1 \<Longrightarrow>
      (ps ! k, ps ! Suc k) \<notin> set excluded \<and> (ps ! k, ps ! Suc k) \<in> link_pair ` set (fr_network_links rp) \<and>
      edge_key (fst (hop_edges hs ! k)) = (partition_name k, partition_name (Suc k), ''forward'')"
proof -
  note run = rmap_nth[OF assms(1)[unfolded build_hops_def]]
  note edges = hop_edges_all[OF assms(2)]
  from run edges show "length (hop_edges hs) = length ps - 1" by simp
  assume k: "k < length ps - 1"
  then have "consecutive ps ! k = (ps ! k, ps ! Suc k)" by (simp add: consecutive_def nth_tl)
  with run edges k have "build_hop rp excluded splits (k, ps ! k, ps ! Suc k) =
      Inr (Hop (fst (hop_edges hs ! k)) (snd (hop_edges hs ! k)))"
    by (auto simp: nth_indexed)
  from build_hop_Hop[OF this] show "(ps ! k, ps ! Suc k) \<notin> set excluded \<and>
      (ps ! k, ps ! Suc k) \<in> link_pair ` set (fr_network_links rp) \<and>
      edge_key (fst (hop_edges hs ! k)) = (partition_name k, partition_name (Suc k), ''forward'')"
    by (simp add: edge_key_def)
qed

text \<open>The parts of a candidate that was built for a cut and found feasible.\<close>

definition feasible_parts ::
  "FederatedRoundPlan \<Rightarrow> string list \<Rightarrow> (string \<times> string) list \<Rightarrow> (string \<times> int) list \<Rightarrow> ModelLayer list list \<Rightarrow>
   LogicalPartition list \<Rightarrow> bool" where
  "feasible_parts rp ps excluded limits groups parts \<longleftrightarrow>
     map lp_partition_id parts = map partition_name [0..<length ps] \<and> map lp_device_id parts = ps \<and>
     map lp_layer_names parts = map (map ml_name) groups \<and>
     map lp_memory_demand_bytes parts = map required_memory groups \<and>
     list_all (\<lambda>p. \<forall>limit. map_of (rev limits) (lp_device_id p) = Some limit \<longrightarrow>
       lp_memory_demand_bytes p \<le> limit) parts"

lemma built_feasible:
  assumes "length bs = length ps" "length groups = length ps"
    and "\<forall>k < length ps. partition_built rp limits k (ps ! k) (groups ! k) (bs ! k)"
    and "concat (map bp_rejections bs) = []"
  shows "feasible_parts rp ps excluded limits groups (map bp_partition bs)"
proof -
  have b: "lp_partition_id (bp_partition (bs ! k)) = partition_name k"
    "lp_device_id (bp_partition (bs ! k)) = ps ! k"
    "lp_layer_names (bp_partition (bs ! k)) = map ml_name (groups ! k)"
    "lp_memory_demand_bytes (bp_partition (bs ! k)) = required_memory (groups ! k)"
    "\<exists>allowed. bp_rejections (bs ! k) = memory_rejections (ps ! k) (required_memory (groups ! k)) allowed limits"
    if "k < length ps" for k
    using assms(3) that unfolding partition_built_def by blast+
  have "bp_rejections (bs ! k) = []" if "k < length ps" for k using assms(1,4) that by simp
  with b(5) have "\<forall>limit. map_of (rev limits) (ps ! k) = Some limit \<longrightarrow> required_memory (groups ! k) \<le> limit"
    if "k < length ps" for k
    using that memory_rejections_Nil by metis
  then show ?thesis
    using assms(1,2) b(1-4) unfolding feasible_parts_def list_all_length
    by (intro conjI nth_equalityI) simp_all
qed

lemma built_placed:
  assumes "round_plan_ok rp" "length bs = length ps" "set ps \<subseteq> set (fr_participants rp)"
    and "\<forall>k < length ps. partition_built rp limits k (ps ! k) (groups ! k) (bs ! k)"
    and "\<forall>k < length ps. set (groups ! k) \<subseteq> set (fr_layers rp)" "concat (map bp_rejections bs) = []"
  shows "list_all (placed rp) (map bp_partition bs)"
proof -
  have "placed rp (bp_partition (bs ! k))" if k: "k < length ps" for k
  proof (rule partition_built_placed)
    show "partition_built rp limits k (ps ! k) (groups ! k) (bs ! k)" using assms(4) k by blast
    show "bp_rejections (bs ! k) = []" using assms(2,6) k by auto
    show "ps ! k \<in> set (fr_participants rp)" using assms(3) k by auto
  qed (use assms k in auto)
  with assms(2) show ?thesis by (simp add: list_all_length)
qed

text \<open>The forward edges between consecutive partitions, each over a link that may be used.\<close>

definition forward_chain ::
  "FederatedRoundPlan \<Rightarrow> string list \<Rightarrow> (string \<times> string) list \<Rightarrow> ExecutionGraphEdge list \<Rightarrow> bool" where
  "forward_chain rp ps excluded es \<longleftrightarrow>
     map edge_key es = map (\<lambda>k. (partition_name k, partition_name (Suc k), ''forward'')) [0..<length ps - 1] \<and>
     list_all (\<lambda>pair. pair \<notin> set excluded \<and> pair \<in> link_pair ` set (fr_network_links rp)) (consecutive ps)"

lemma nth_consecutive: "k < length ps - 1 \<Longrightarrow> consecutive ps ! k = (ps ! k, ps ! Suc k)"
  by (simp add: consecutive_def nth_tl)

lemma hops_chain:
  assumes "build_hops rp excluded ps splits = Inr hs" and "hop_rejections hs = []"
  shows "forward_chain rp ps excluded (map fst (hop_edges hs))"
proof -
  note hop = build_hops_nth[OF assms]
  have "map edge_key (map fst (hop_edges hs)) =
      map (\<lambda>k. (partition_name k, partition_name (Suc k), ''forward'')) [0..<length ps - 1]"
    using hop by (intro nth_equalityI) simp_all
  moreover have "(\<lambda>pair. pair \<notin> set excluded \<and> pair \<in> link_pair ` set (fr_network_links rp)) (consecutive ps ! k)"
    if "k < length ps - 1" for k
    using hop(2)[OF that] nth_consecutive[OF that] by metis
  ultimately show ?thesis by (simp add: forward_chain_def list_all_length)
qed

text \<open>The graph of a plan: the forward chain itself, or the training graph around it.\<close>

definition graph_of_parts ::
  "PartitionIntent option \<Rightarrow> LogicalPartition list \<Rightarrow> ExecutionGraphEdge list \<Rightarrow> PartitionCandidate \<Rightarrow> bool" where
  "graph_of_parts int_opt parts forward c \<longleftrightarrow>
     (case int_opt of
        None \<Rightarrow> ca_graph_nodes c = map (phase_node '''') parts \<and> ca_graph_edges c = forward
      | Some i \<Rightarrow> (\<exists>compute ms bytes g. build_training_graph parts forward compute ms bytes = Inr g \<and>
          ca_graph_nodes c = tg_nodes g \<and> ca_graph_edges c = tg_edges g))"

lemma limit_rejections_Nil:
  "limit_rejections k latency bytes = [] \<longleftrightarrow>
     pred_option (\<lambda>limit. \<not> flt limit latency) (pc_max_end_to_end_latency_ms k) \<and>
     pred_option (\<lambda>limit. bytes \<le> limit) (pc_max_transfer_bytes k)"
  by (auto simp: limit_rejections_def not_less split: option.split)

lemma build_candidate_parts:
  "build_candidate pol rp ps excluded limits int_opt splits = Inr c \<Longrightarrow>
   \<exists>bs hs g risk. build_partitions rp limits ps splits = Inr bs \<and> build_hops rp excluded ps splits = Inr hs \<and>
     plan_graph pol int_opt (length ps) bs hs = Inr (g, risk) \<and>
     ca_split_points c = splits \<and> ca_partitions c = map bp_partition bs \<and> ca_graph_nodes c = tg_nodes g \<and>
     ca_graph_edges c = tg_edges g \<and> ca_total_transfer_bytes c = tg_total_transfer_bytes g \<and>
     ca_rejection_reasons c = concat (map bp_rejections bs) @ hop_rejections hs @
       limit_rejections (fr_constraints rp)
         (if int_opt = None then fadd (foldl fadd zero_float (map bp_compute_ms bs)) (tg_transfer_ms g)
          else tg_step_time_ms g) (tg_total_transfer_bytes g) \<and>
     ca_valid c = (ca_rejection_reasons c = [])"
  by (auto simp: build_candidate_def Let_def)

lemma build_candidate_feasible:
  assumes run: "build_candidate pol rp ps excluded limits int_opt splits = Inr c" and valid: "ca_valid c"
    and cut: "cuts splits (length (fr_layers rp))" "length splits = length ps - 1" "ps \<noteq> []" "fr_layers rp \<noteq> []"
  shows "ca_split_points c = splits \<and>
    feasible_parts rp ps excluded limits (layer_groups (fr_layers rp) splits) (ca_partitions c) \<and>
    (round_plan_ok rp \<and> set ps \<subseteq> set (fr_participants rp) \<longrightarrow> list_all (placed rp) (ca_partitions c)) \<and>
    (\<exists>forward. forward_chain rp ps excluded forward \<and> graph_of_parts int_opt (ca_partitions c) forward c) \<and>
    pred_option (\<lambda>limit. ca_total_transfer_bytes c \<le> limit) (pc_max_transfer_bytes (fr_constraints rp))"
proof -
  from build_candidate_parts[OF run] obtain bs hs g risk latency where
      bs: "build_partitions rp limits ps splits = Inr bs" and hs: "build_hops rp excluded ps splits = Inr hs"
    and g: "plan_graph pol int_opt (length ps) bs hs = Inr (g, risk)"
    and c: "ca_split_points c = splits" "ca_partitions c = map bp_partition bs" "ca_graph_nodes c = tg_nodes g"
      "ca_graph_edges c = tg_edges g" "ca_total_transfer_bytes c = tg_total_transfer_bytes g"
    and reasons: "ca_rejection_reasons c = concat (map bp_rejections bs) @ hop_rejections hs @
        limit_rejections (fr_constraints rp) latency (tg_total_transfer_bytes g)"
      "ca_valid c = (ca_rejection_reasons c = [])" by blast
  let ?groups = "layer_groups (fr_layers rp) splits"
  note groups = layer_groups_partition[OF cut(1,4)]
  have len: "length ?groups = length ps" using groups(3) cut(2,3) by (cases ps) auto
  note built = build_partitions_nth[OF bs len]
  from valid reasons have ok: "concat (map bp_rejections bs) = []" "hop_rejections hs = []"
      "limit_rejections (fr_constraints rp) latency (tg_total_transfer_bytes g) = []"
    by (metis append_is_Nil_conv)+
  have "set (?groups ! k) \<subseteq> set (fr_layers rp)" if "k < length ps" for k
    using that len groups(1) by (metis concat_parts_subset)
  then have placed: "round_plan_ok rp \<Longrightarrow> set ps \<subseteq> set (fr_participants rp) \<Longrightarrow> list_all (placed rp) (ca_partitions c)"
    unfolding c by (intro built_placed[of rp bs ps limits ?groups]) (use built ok in auto)
  have graph: "graph_of_parts int_opt (ca_partitions c) (map fst (hop_edges hs)) c"
    using g c by (auto simp: graph_of_parts_def plan_graph_def Let_def split: option.splits)
  have parts: "feasible_parts rp ps excluded limits ?groups (ca_partitions c)"
    unfolding c by (rule built_feasible) (use built ok len in auto)
  from ok(3) c have "pred_option (\<lambda>limit. ca_total_transfer_bytes c \<le> limit)
      (pc_max_transfer_bytes (fr_constraints rp))"
    by (simp add: limit_rejections_Nil)
  with c parts placed graph hops_chain[OF hs ok(2)] show ?thesis by blast
qed

section \<open>The graph of a feasible candidate\<close>

definition linked_key ::
  "FederatedRoundPlan \<Rightarrow> (string, LogicalPartition) dict \<Rightarrow> bool \<Rightarrow> string \<times> string \<times> string \<Rightarrow> bool" where
  "linked_key rp parts training = (\<lambda>(s, t, kind). \<exists>p q. dict_get parts s = Some p \<and> dict_get parts t = Some q \<and>
     has_required_network_link (lp_device_id p) (lp_device_id q) kind (map link_pair (fr_network_links rp)) training)"

lemma linked_by_key:
  assumes "set (map (\<lambda>n. (gn_partition_id n, gn_device_id n)) (ca_graph_nodes c)) =
      set (map (\<lambda>(i, p). (i, lp_device_id p)) parts)"
    and "parts = graph_node_partitions (ca_partitions c) (pp_plan_type plan = ''training'')
      (pp_approved_execution_mode plan)"
  shows "linked rp plan c e \<longleftrightarrow> linked_key rp parts (pp_plan_type plan = ''training'') (edge_key e)"
proof -
  have "gn_partition_id ` set (ca_graph_nodes c) = fst ` set parts"
    using arg_cong[OF assms(1), of "image fst"] by (simp add: image_image case_prod_beta)
  then have "known_edge (map gn_partition_id (ca_graph_nodes c)) e"
    if "dict_get parts (ge_source_partition e) = Some p" "dict_get parts (ge_target_partition e) = Some q" for p q
    using map_of_SomeD[OF that(1)] map_of_SomeD[OF that(2)] by (simp add: known_edge_def rev_image_eqI)
  then show ?thesis
    unfolding linked_def linked_key_def edge_key_def Let_def assms(2)[symmetric] prod.case by metis
qed

lemma linked_all:
  assumes "set (map (\<lambda>n. (gn_partition_id n, gn_device_id n)) (ca_graph_nodes c)) =
      set (map (\<lambda>(i, p). (i, lp_device_id p)) parts)"
    and "graph_node_partitions (ca_partitions c) (pp_plan_type plan = ''training'')
      (pp_approved_execution_mode plan) = parts"
    and "set (map edge_key (ca_graph_edges c)) \<subseteq> K"
    and "\<forall>key \<in> K. linked_key rp parts (pp_plan_type plan = ''training'') key"
  shows "list_all (linked rp plan c) (ca_graph_edges c)"
  using assms(3,4) unfolding linked_by_key[OF assms(1) assms(2)[symmetric]] list_all_iff set_map by blast

lemma ranked_acyclic:
  assumes "\<And>a b. (a, b) \<in> r \<Longrightarrow> \<exists>i j. map_of ranks a = Some i \<and> map_of ranks b = Some j \<and> i < (j :: nat)"
  shows "acyclic r"
proof (rule wf_acyclic, rule wf_subset)
  show "r \<subseteq> inv_image less_than (\<lambda>x. the (map_of ranks x))" using assms by fastforce
qed simp

lemma graph_edge_rel_keys:
  "graph_edge_rel c \<subseteq> (\<lambda>(s, t, kind). (s, t)) ` set (map edge_key (ca_graph_edges c))"
  by (force simp: graph_edge_rel_def edge_key_def)

lemma acyclic_keys:
  assumes "set (map edge_key (ca_graph_edges c)) \<subseteq> K"
    and "\<And>s t kind. (s, t, kind) \<in> K \<Longrightarrow>
      \<exists>i j. map_of ranks s = Some i \<and> map_of ranks t = Some j \<and> i < (j :: nat)"
  shows "acyclic (graph_edge_rel c)"
proof (rule ranked_acyclic)
  fix a b assume "(a, b) \<in> graph_edge_rel c"
  with graph_edge_rel_keys[of c] assms(1) obtain kind where "(a, b, kind) \<in> K" by fast
  then show "\<exists>i j. map_of ranks a = Some i \<and> map_of ranks b = Some j \<and> i < j" by (rule assms(2))
qed

lemma consecutive_map: "consecutive (map f xs) = map (map_prod f f) (consecutive xs)"
  unfolding consecutive_def map_tl[symmetric] zip_map_map map_prod_def ..

lemma consecutive_upt: "consecutive [0..<n] = map (\<lambda>k. (k, Suc k)) [0..<n - 1]"
  by (intro nth_equalityI) (simp_all add: nth_consecutive)

lemma consecutive_parts:
  assumes "map lp_partition_id parts = map partition_name [0..<n]"
  shows "map (\<lambda>(s, t). (f (lp_partition_id s), g (lp_partition_id t))) (consecutive parts) =
    map (\<lambda>k. (f (partition_name k), g (partition_name (Suc k)))) [0..<n - 1]"
proof -
  have "map (\<lambda>(s, t). (f (lp_partition_id s), g (lp_partition_id t))) (consecutive parts) =
      map (map_prod f g) (consecutive (map lp_partition_id parts))"
    by (auto simp: consecutive_map)
  then show ?thesis unfolding assms by (simp add: consecutive_map consecutive_upt comp_def)
qed

lemma part_nth:
  assumes "map lp_partition_id parts = map partition_name [0..<n]" "map lp_device_id parts = ps" "k < n"
  shows "length parts = n \<and> lp_partition_id (parts ! k) = partition_name k \<and> lp_device_id (parts ! k) = ps ! k"
proof -
  from assms(1) have "length parts = n" using map_eq_imp_length_eq by fastforce
  with assms show ?thesis by (metis diff_zero length_upt nth_map nth_upt add_0)
qed

lemma parts_distinct: "map lp_partition_id parts = map partition_name [0..<n] \<Longrightarrow> distinct (map lp_partition_id parts)"
  by (simp add: distinct_map inj_on_def)

lemma inference_graph:
  assumes parts: "map lp_partition_id (ca_partitions c) = map partition_name [0..<length ps]"
      "map lp_device_id (ca_partitions c) = ps"
    and chain: "forward_chain rp ps excluded (ca_graph_edges c)"
    and nodes: "ca_graph_nodes c = map (phase_node '''') (ca_partitions c)"
    and plan: "pp_plan_type plan \<noteq> ''training''"
  shows "graph_errors rp plan c = [] \<and> acyclic (graph_edge_rel c)"
proof -
  let ?D = "partitions_by_id (ca_partitions c)"
  let ?K = "(\<lambda>k. (partition_name k, partition_name (Suc k), ''forward'')) ` {0..<length ps - 1}"
  have D: "graph_node_partitions (ca_partitions c) (pp_plan_type plan = ''training'')
      (pp_approved_execution_mode plan) = ?D" using plan by (simp add: graph_node_partitions_def)
  have "?D = map (\<lambda>p. (lp_partition_id p, p)) (ca_partitions c)"
    using parts_distinct[OF parts(1)] by (simp add: partitions_by_id_def dict_of_distinct comp_def)
  then have same: "set (map (\<lambda>n. (gn_partition_id n, gn_device_id n)) (ca_graph_nodes c)) =
      set (map (\<lambda>(i, p). (i, lp_device_id p)) ?D)"
    by (simp add: nodes phase_node_def image_image)
  have look: "dict_get ?D (partition_name k) = Some (ca_partitions c ! k)" if "k < length ps" for k
    using part_nth[OF parts that] that partition_lookup[OF parts_distinct[OF parts(1)]] by simp
  have keys: "set (map edge_key (ca_graph_edges c)) = ?K"
    using chain unfolding forward_chain_def by (simp only: set_map set_upt)
  have link: "(ps ! k, ps ! Suc k) \<in> link_pair ` set (fr_network_links rp)" if "k < length ps - 1" for k
    using chain nth_consecutive[OF that] that unfolding forward_chain_def list_all_length length_consecutive by metis
  have "linked_key rp ?D (pp_plan_type plan = ''training'') key" if "key \<in> ?K" for key
    using that look link part_nth[OF parts]
    by (auto simp: linked_key_def has_required_network_link_def less_diff_conv)
  with keys have "list_all (linked rp plan c) (ca_graph_edges c)"
    by (intro linked_all[OF same D, of ?K]) simp_all
  moreover have "acyclic (graph_edge_rel c)"
  proof (rule acyclic_keys)
    show "set (map edge_key (ca_graph_edges c)) \<subseteq> ?K" using keys by simp
    have rank: "map_of (map (\<lambda>k. (partition_name k, k)) [0..<length ps]) (partition_name k) = Some k"
      if "k < length ps" for k
      using that by (intro map_of_is_SomeI) (auto simp: comp_def distinct_map inj_on_def)
    show "\<exists>i j. map_of (map (\<lambda>k. (partition_name k, k)) [0..<length ps]) s = Some i \<and>
        map_of (map (\<lambda>k. (partition_name k, k)) [0..<length ps]) t = Some j \<and> i < j"
      if "(s, t, kind) \<in> ?K" for s t kind
      using that rank by auto
  qed
  ultimately show ?thesis
    using plan same unfolding graph_errors_Nil D by blast
qed

definition fwd :: "nat \<Rightarrow> string" where "fwd k = partition_name k @ '':forward''"
definition bwd :: "nat \<Rightarrow> string" where "bwd k = partition_name k @ '':backward''"

lemma phase_names [simp]: "fwd i = fwd j \<longleftrightarrow> i = j" "bwd i = bwd j \<longleftrightarrow> i = j"
  "fwd k \<noteq> ''aggregation''" "bwd k \<noteq> ''aggregation''" "''aggregation'' \<noteq> fwd k" "''aggregation'' \<noteq> bwd k"
  by (simp_all add: fwd_def bwd_def partition_name_def)

lemma fwd_bwd [simp]: "fwd i \<noteq> bwd j" "bwd j \<noteq> fwd i"
proof -
  have "rev (fwd i) \<noteq> rev (bwd j)" by (simp add: fwd_def bwd_def)
  then show "fwd i \<noteq> bwd j" "bwd j \<noteq> fwd i" by auto
qed

lemma distinct_pairs:
  "distinct xs \<Longrightarrow> inj f \<Longrightarrow> inj g \<Longrightarrow> (\<And>i j. f i \<noteq> g j) \<Longrightarrow> distinct (concat (map (\<lambda>k. [f k, g k]) xs))"
  by (induction xs) (auto simp: inj_eq dest: not_sym)

definition phase_parts :: "LogicalPartition list \<Rightarrow> (string \<times> LogicalPartition) list" where
  "phase_parts ps = concat (map (\<lambda>p. [(lp_partition_id p @ '':forward'', p),
     (lp_partition_id p @ '':backward'', p)]) ps)"

lemma phase_parts_keys:
  assumes "map lp_partition_id parts = map partition_name [0..<n]"
  shows "map fst (phase_parts parts) = concat (map (\<lambda>k. [fwd k, bwd k]) [0..<n])"
proof -
  have "map fst (phase_parts parts) =
      concat (map (\<lambda>i. [i @ '':forward'', i @ '':backward'']) (map lp_partition_id parts))"
    by (induction parts) (simp_all add: phase_parts_def)
  then show ?thesis unfolding assms by (simp add: fwd_def bwd_def comp_def)
qed

lemma phase_parts_distinct:
  "map lp_partition_id parts = map partition_name [0..<n] \<Longrightarrow> distinct (map fst (phase_parts parts))"
  unfolding phase_parts_keys by (intro distinct_pairs) (simp_all add: inj_on_def)

text \<open>The edges of the training graph around the chain of \<open>n\<close> partitions, by their ends and kinds.\<close>

definition training_keys :: "nat \<Rightarrow> (string \<times> string \<times> string) set" where
  "training_keys n =
     (\<lambda>k. (fwd k, fwd (Suc k), ''forward'')) ` {0..<n - 1} \<union>
     (\<lambda>k. (bwd (Suc k), bwd k, ''backward'')) ` {0..<n - 1} \<union>
     {(fwd (n - 1), bwd (n - 1), ''gradient''), (bwd 0, ''aggregation'', ''aggregation'')}"

lemma end_names:
  assumes "map lp_partition_id parts = map partition_name [0..<n]" "0 < n"
  shows "parts \<noteq> []" "lp_partition_id (last parts) @ '':forward'' = fwd (n - 1)"
    "lp_partition_id (last parts) @ '':backward'' = bwd (n - 1)" "lp_partition_id (hd parts) @ '':backward'' = bwd 0"
proof -
  show "parts \<noteq> []" using assms by auto
  moreover have "hd (map lp_partition_id parts) = partition_name 0"
    "last (map lp_partition_id parts) = partition_name (n - 1)"
    unfolding assms(1) using assms(2) by (simp_all add: hd_map last_map)
  ultimately show "lp_partition_id (last parts) @ '':forward'' = fwd (n - 1)"
    "lp_partition_id (last parts) @ '':backward'' = bwd (n - 1)" "lp_partition_id (hd parts) @ '':backward'' = bwd 0"
    by (simp_all add: hd_map last_map fwd_def bwd_def)
qed

lemma phase_edges_keys:
  assumes "map lp_partition_id parts = map partition_name [0..<n]" "0 < n"
  shows "set (phase_edges parts) = training_keys n"
proof -
  have "map (\<lambda>(s, t). (lp_partition_id s @ '':forward'', lp_partition_id t @ '':forward'', ''forward''))
      (consecutive parts) = map (\<lambda>k. (fwd k, fwd (Suc k), ''forward'')) [0..<n - 1]"
    using consecutive_parts[OF assms(1), of "\<lambda>i. i @ '':forward''" "\<lambda>i. (i @ '':forward'', ''forward'')"]
    by (simp add: fwd_def)
  moreover have "set (map (\<lambda>(s, t). (lp_partition_id t @ '':backward'', lp_partition_id s @ '':backward'', ''backward''))
      (consecutive parts)) = (\<lambda>k. (bwd (Suc k), bwd k, ''backward'')) ` {0..<n - 1}"
    using arg_cong[OF consecutive_parts[OF assms(1), of "\<lambda>i. i @ '':backward''" "\<lambda>i. i @ '':backward''"],
        of "\<lambda>xs. (\<lambda>(a, b). (b, a, ''backward'')) ` set xs"]
    by (simp add: bwd_def image_image case_prod_beta)
  ultimately show ?thesis
    unfolding phase_edges_def set_append training_keys_def end_names[OF assms]
    using end_names(1)[OF assms] by (auto simp del: phase_names)
qed

lemma edge_key_plain [simp]: "edge_key (plain_edge s t bytes ms kind) = (s, t, kind)"
  by (simp add: edge_key_def plain_edge_def)

lemma training_graph_keys:
  assumes "build_training_graph parts forward compute ms bytes = Inr g"
    and "map lp_partition_id parts = map partition_name [0..<n]" "0 < n"
    and "map edge_key forward = map (\<lambda>k. (partition_name k, partition_name (Suc k), ''forward'')) [0..<n - 1]"
  shows "set (map edge_key (tg_edges g)) = training_keys n"
proof -
  have f: "set (map edge_key (map (\<lambda>e. plain_edge (ge_source_partition e @ '':forward'') (ge_target_partition e @ '':forward'')
      (ge_transfer_bytes e) (ge_estimated_transfer_ms e) ''forward'') forward)) =
      (\<lambda>(s, t, k). (s @ '':forward'', t @ '':forward'', ''forward'')) ` set (map edge_key forward)"
    by (force simp: edge_key_def plain_edge_def)
  have b: "set (map edge_key (map (\<lambda>e. plain_edge (ge_target_partition e @ '':backward'') (ge_source_partition e @ '':backward'')
      (ge_transfer_bytes e) (ge_estimated_transfer_ms e) ''backward'') (rev forward))) =
      (\<lambda>(s, t, k). (t @ '':backward'', s @ '':backward'', ''backward'')) ` set (map edge_key forward)"
    by (force simp: edge_key_def plain_edge_def)
  from assms(1) have "tg_edges g =
      map (\<lambda>e. plain_edge (ge_source_partition e @ '':forward'') (ge_target_partition e @ '':forward'')
        (ge_transfer_bytes e) (ge_estimated_transfer_ms e) ''forward'') forward @
      [plain_edge (lp_partition_id (last parts) @ '':forward'') (lp_partition_id (last parts) @ '':backward'')
        bytes zero_float ''gradient''] @
      map (\<lambda>e. plain_edge (ge_target_partition e @ '':backward'') (ge_source_partition e @ '':backward'')
        (ge_transfer_bytes e) (ge_estimated_transfer_ms e) ''backward'') (rev forward) @
      [plain_edge (lp_partition_id (hd parts) @ '':backward'') ''aggregation'' bytes zero_float ''aggregation'']"
    by (auto simp: build_training_graph_def Let_def)
  then have "set (map edge_key (tg_edges g)) =
      (\<lambda>(s, t, k). (s @ '':forward'', t @ '':forward'', ''forward'')) ` set (map edge_key forward) \<union>
      (\<lambda>(s, t, k). (t @ '':backward'', s @ '':backward'', ''backward'')) ` set (map edge_key forward) \<union>
      {(fwd (n - 1), bwd (n - 1), ''gradient''), (bwd 0, ''aggregation'', ''aggregation'')}"
    unfolding f[symmetric] b[symmetric] end_names[OF assms(2,3)]
    by auto
  then show ?thesis unfolding assms(4) set_map set_upt image_image prod.case training_keys_def fwd_def bwd_def .
qed

lemma set_phase_parts: "set (phase_parts parts) =
  (\<lambda>p. (lp_partition_id p @ '':forward'', p)) ` set parts \<union> (\<lambda>p. (lp_partition_id p @ '':backward'', p)) ` set parts"
  by (auto simp: phase_parts_def)

lemma training_dict:
  assumes ids: "map lp_partition_id parts = map partition_name [0..<n]" and "0 < n" "mode \<noteq> ''federated_learning''"
  shows "graph_node_partitions parts True mode = phase_parts parts @ [(''aggregation'', hd parts)]"
    "dict_get (phase_parts parts @ [(''aggregation'', hd parts)]) ''aggregation'' = Some (hd parts)"
    "k < n \<Longrightarrow> dict_get (phase_parts parts @ [(''aggregation'', hd parts)]) (fwd k) = Some (parts ! k)"
    "k < n \<Longrightarrow> dict_get (phase_parts parts @ [(''aggregation'', hd parts)]) (bwd k) = Some (parts ! k)"
proof -
  have "''aggregation'' \<notin> set (map fst (phase_parts parts))"
    unfolding phase_parts_keys[OF ids] by auto
  then have notin: "''aggregation'' \<notin> fst ` set (phase_parts parts)" by simp
  have "graph_node_partitions parts True mode = dict_set ''aggregation'' (hd parts) (dict_of (phase_parts parts))"
    using end_names(1)[OF ids assms(2)] assms(3)
    by (cases parts) (simp_all add: graph_node_partitions_def phase_parts_def)
  then show "graph_node_partitions parts True mode = phase_parts parts @ [(''aggregation'', hd parts)]"
    unfolding dict_of_distinct[OF phase_parts_distinct[OF ids]] update_notin[OF notin] .
  have distinct: "distinct (map fst (phase_parts parts @ [(''aggregation'', hd parts)]))"
    using phase_parts_distinct[OF ids] notin by simp
  show "dict_get (phase_parts parts @ [(''aggregation'', hd parts)]) ''aggregation'' = Some (hd parts)"
    by (rule map_of_is_SomeI[OF distinct]) simp
  assume k: "k < n"
  then have "parts ! k \<in> set parts" "lp_partition_id (parts ! k) = partition_name k"
    using part_nth[OF ids refl k] by auto
  then have "fwd k = lp_partition_id (parts ! k) @ '':forward''" "bwd k = lp_partition_id (parts ! k) @ '':backward''"
    by (simp_all add: fwd_def bwd_def)
  with \<open>parts ! k \<in> set parts\<close> have mem: "(fwd k, parts ! k) \<in> set (phase_parts parts @ [(''aggregation'', hd parts)])"
    "(bwd k, parts ! k) \<in> set (phase_parts parts @ [(''aggregation'', hd parts)])"
    by (simp_all add: set_phase_parts)
  show "dict_get (phase_parts parts @ [(''aggregation'', hd parts)]) (fwd k) = Some (parts ! k)"
    "dict_get (phase_parts parts @ [(''aggregation'', hd parts)]) (bwd k) = Some (parts ! k)"
    by (rule map_of_is_SomeI[OF distinct mem(1)], rule map_of_is_SomeI[OF distinct mem(2)])
qed

text \<open>The ranks of the nodes: forward along the chain, back, and the aggregation last.\<close>

definition training_ranks :: "nat \<Rightarrow> (string \<times> nat) list" where
  "training_ranks n = map (\<lambda>k. (fwd k, k)) [0..<n] @ map (\<lambda>k. (bwd k, 2 * n - k)) [0..<n] @
     [(''aggregation'', 2 * n + 1)]"

lemma training_ranks:
  "k < n \<Longrightarrow> map_of (training_ranks n) (fwd k) = Some k"
  "k < n \<Longrightarrow> map_of (training_ranks n) (bwd k) = Some (2 * n - k)"
  "map_of (training_ranks n) ''aggregation'' = Some (2 * n + 1)"
proof -
  have distinct: "distinct (map fst (training_ranks n))"
    by (auto simp: training_ranks_def comp_def distinct_map inj_on_def)
  show "k < n \<Longrightarrow> map_of (training_ranks n) (fwd k) = Some k"
    "k < n \<Longrightarrow> map_of (training_ranks n) (bwd k) = Some (2 * n - k)"
    "map_of (training_ranks n) ''aggregation'' = Some (2 * n + 1)"
    by (intro map_of_is_SomeI[OF distinct]; auto simp: training_ranks_def)+
qed

lemma training_keys_acyclic:
  assumes "set (map edge_key (ca_graph_edges c)) = training_keys n" "0 < n"
  shows "acyclic (graph_edge_rel c)"
proof (rule acyclic_keys[of c "training_keys n" "training_ranks n"])
  fix s t kind assume "(s, t, kind) \<in> training_keys n"
  with assms(2) show "\<exists>i j. map_of (training_ranks n) s = Some i \<and> map_of (training_ranks n) t = Some j \<and> i < j"
    by (auto simp: training_keys_def training_ranks)
qed (use assms(1) in simp)

lemma training_links:
  assumes "dict_get D ''aggregation'' = Some (parts ! 0)"
    and "\<And>k. k < n \<Longrightarrow> dict_get D (fwd k) = Some (parts ! k)"
    and "\<And>k. k < n \<Longrightarrow> dict_get D (bwd k) = Some (parts ! k)"
    and "\<And>k. k < n - 1 \<Longrightarrow>
      (lp_device_id (parts ! k), lp_device_id (parts ! Suc k)) \<in> link_pair ` set (fr_network_links rp)"
    and "0 < n" "key \<in> training_keys n"
  shows "linked_key rp D True key"
  using assms(6) assms(1-3,5) assms(4)
  by (auto simp: linked_key_def has_required_network_link_def training_keys_def less_diff_conv)

lemma training_graph:
  assumes parts: "map lp_partition_id (ca_partitions c) = map partition_name [0..<length ps]"
      "map lp_device_id (ca_partitions c) = ps" and "ps \<noteq> []"
    and chain: "forward_chain rp ps excluded forward"
    and g: "build_training_graph (ca_partitions c) forward compute ms bytes = Inr g"
      "ca_graph_nodes c = tg_nodes g" "ca_graph_edges c = tg_edges g"
    and plan: "pp_plan_type plan = ''training''" "pp_approved_execution_mode plan \<in> set training_graph_modes"
      "pp_approved_execution_mode plan \<noteq> ''federated_learning''"
  shows "graph_errors rp plan c = [] \<and> acyclic (graph_edge_rel c)"
proof -
  let ?D = "phase_parts (ca_partitions c) @ [(''aggregation'', hd (ca_partitions c))]"
  let ?n = "length ps"
  from \<open>ps \<noteq> []\<close> have n: "0 < ?n" by simp
  note dict = training_dict[OF parts(1) n plan(3)]
  have D: "graph_node_partitions (ca_partitions c) (pp_plan_type plan = ''training'')
      (pp_approved_execution_mode plan) = ?D" using dict(1) plan by simp
  have nodes: "ca_graph_nodes c = map (phase_node '':forward'') (ca_partitions c) @
      map (phase_node '':backward'') (rev (ca_partitions c)) @
      [\<lparr>gn_partition_id = ''aggregation'', gn_device_id = lp_device_id (hd (ca_partitions c))\<rparr>]"
    using g(1,2) by (auto simp: build_training_graph_def Let_def)
  have same: "set (map (\<lambda>n. (gn_partition_id n, gn_device_id n)) (ca_graph_nodes c)) =
      set (map (\<lambda>(i, p). (i, lp_device_id p)) ?D)"
    by (simp add: nodes phase_node_def set_phase_parts image_Un image_image)
  have keys: "set (map edge_key (ca_graph_edges c)) = training_keys ?n"
    using training_graph_keys[OF g(1) parts(1) n] chain unfolding g(3) forward_chain_def by blast
  have link: "(ps ! k, ps ! Suc k) \<in> link_pair ` set (fr_network_links rp)" if "k < ?n - 1" for k
    using chain nth_consecutive[OF that] that unfolding forward_chain_def list_all_length length_consecutive by metis
  have first: "hd (ca_partitions c) = ca_partitions c ! 0"
    using end_names(1)[OF parts(1) n] by (simp add: hd_conv_nth)
  have "linked_key rp ?D True key" if "key \<in> training_keys ?n" for key
    by (rule training_links[of ?D "ca_partitions c"])
      (use dict(2-4) link part_nth[OF parts] n that first in \<open>simp_all del: map_of_append\<close>)
  with keys plan have "list_all (linked rp plan c) (ca_graph_edges c)"
    by (intro linked_all[OF same D, of "training_keys ?n"]) simp_all
  moreover have "training_graph_errors (pp_approved_execution_mode plan) (ca_partitions c) (ca_graph_edges c) = []"
    using plan keys phase_edges_keys[OF parts(1) n] by (simp add: training_graph_errors_def)
  ultimately show ?thesis
    using same training_keys_acyclic[OF keys n] unfolding graph_errors_Nil D by blast
qed

section \<open>Full-model replicas\<close>

lemma build_federated_parts:
  "build_federated_full_model_candidate pol rp ps excluded limits i = Inr c \<Longrightarrow>
   \<exists>bs hs. rmap (build_partition rp limits) (indexed (map (\<lambda>p. (p, fr_layers rp)) ps)) = Inr bs \<and>
     rmap (build_update rp excluded (lp_device_id (hd (map bp_partition bs)))
       (sum_list (map ml_parameter_bytes (fr_layers rp)))) (tl (map bp_partition bs)) = Inr hs \<and>
     ca_split_points c = [] \<and> ca_partitions c = map bp_partition bs \<and>
     ca_graph_nodes c = map (phase_node '''') (map bp_partition bs) @
       [\<lparr>gn_partition_id = ''aggregation'', gn_device_id = lp_device_id (hd (map bp_partition bs))\<rparr>] \<and>
     ca_graph_edges c = map fst (hop_edges hs) \<and>
     (\<exists>latency. ca_rejection_reasons c = concat (map bp_rejections bs) @ hop_rejections hs @
       limit_rejections (fr_constraints rp) latency (ca_total_transfer_bytes c)) \<and>
     ca_valid c = (ca_rejection_reasons c = [])"
  by (auto simp: build_federated_full_model_candidate_def Let_def)

lemma build_update_Hop:
  "build_update rp excluded aggregator bytes p = Inr (Hop e ms) \<Longrightarrow>
     (lp_device_id p, aggregator) \<notin> set excluded \<and>
     (lp_device_id p, aggregator) \<in> link_pair ` set (fr_network_links rp) \<and>
     edge_key e = (lp_partition_id p, ''aggregation'', ''aggregation'')"
  by (auto simp: build_update_def usable_link_Inr split: sum.splits dest: links_by_pair_known)

lemma updates_linked:
  assumes "rmap (build_update rp excluded aggregator bytes) parts = Inr hs" and "hop_rejections hs = []"
  shows "map edge_key (map fst (hop_edges hs)) = map (\<lambda>p. (lp_partition_id p, ''aggregation'', ''aggregation'')) parts"
    "p \<in> set parts \<Longrightarrow> (lp_device_id p, aggregator) \<notin> set excluded \<and>
      (lp_device_id p, aggregator) \<in> link_pair ` set (fr_network_links rp)"
proof -
  note run = rmap_nth[OF assms(1)] and edges = hop_edges_all[OF assms(2)]
  have hop: "(lp_device_id (parts ! k), aggregator) \<notin> set excluded \<and>
      (lp_device_id (parts ! k), aggregator) \<in> link_pair ` set (fr_network_links rp) \<and>
      edge_key (fst (hop_edges hs ! k)) = (lp_partition_id (parts ! k), ''aggregation'', ''aggregation'')"
    if "k < length parts" for k
    by (rule build_update_Hop) (use run edges that in auto)
  show "map edge_key (map fst (hop_edges hs)) = map (\<lambda>p. (lp_partition_id p, ''aggregation'', ''aggregation'')) parts"
    using run edges hop by (intro nth_equalityI) simp_all
  assume "p \<in> set parts"
  then obtain k where "k < length parts" "p = parts ! k" by (metis in_set_conv_nth)
  with hop show "(lp_device_id p, aggregator) \<notin> set excluded \<and>
      (lp_device_id p, aggregator) \<in> link_pair ` set (fr_network_links rp)" by blast
qed

text \<open>The graph of full replicas: every other participant sends its update to the first.\<close>

definition replica_graph ::
  "FederatedRoundPlan \<Rightarrow> string list \<Rightarrow> (string \<times> string) list \<Rightarrow> PartitionCandidate \<Rightarrow> bool" where
  "replica_graph rp ps excluded c \<longleftrightarrow>
     ca_graph_nodes c = map (phase_node '''') (ca_partitions c) @
       [\<lparr>gn_partition_id = ''aggregation'', gn_device_id = lp_device_id (hd (ca_partitions c))\<rparr>] \<and>
     map edge_key (ca_graph_edges c) =
       map (\<lambda>p. (lp_partition_id p, ''aggregation'', ''aggregation'')) (tl (ca_partitions c)) \<and>
     list_all (\<lambda>p. (p, hd ps) \<notin> set excluded \<and> (p, hd ps) \<in> link_pair ` set (fr_network_links rp)) (tl ps)"

lemma build_federated_feasible:
  assumes run: "build_federated_full_model_candidate pol rp ps excluded limits i = Inr c" and valid: "ca_valid c"
    and "ps \<noteq> []"
  shows "ca_split_points c = [] \<and>
    feasible_parts rp ps excluded limits (replicate (length ps) (fr_layers rp)) (ca_partitions c) \<and>
    (round_plan_ok rp \<and> set ps \<subseteq> set (fr_participants rp) \<longrightarrow> list_all (placed rp) (ca_partitions c)) \<and>
    replica_graph rp ps excluded c \<and>
    pred_option (\<lambda>limit. ca_total_transfer_bytes c \<le> limit) (pc_max_transfer_bytes (fr_constraints rp))"
proof -
  from build_federated_parts[OF run] obtain bs hs latency where
      bs: "rmap (build_partition rp limits) (indexed (map (\<lambda>p. (p, fr_layers rp)) ps)) = Inr bs"
    and hs: "rmap (build_update rp excluded (lp_device_id (hd (map bp_partition bs)))
       (sum_list (map ml_parameter_bytes (fr_layers rp)))) (tl (map bp_partition bs)) = Inr hs"
    and c: "ca_split_points c = []" "ca_partitions c = map bp_partition bs"
      "ca_graph_nodes c = map (phase_node '''') (map bp_partition bs) @
       [\<lparr>gn_partition_id = ''aggregation'', gn_device_id = lp_device_id (hd (map bp_partition bs))\<rparr>]"
      "ca_graph_edges c = map fst (hop_edges hs)"
    and reasons: "ca_rejection_reasons c = concat (map bp_rejections bs) @ hop_rejections hs @
       limit_rejections (fr_constraints rp) latency (ca_total_transfer_bytes c)"
      "ca_valid c = (ca_rejection_reasons c = [])" by blast
  let ?groups = "replicate (length ps) (fr_layers rp)"
  from valid reasons have ok: "concat (map bp_rejections bs) = []" "hop_rejections hs = []"
      "limit_rejections (fr_constraints rp) latency (ca_total_transfer_bytes c) = []"
    by (metis append_is_Nil_conv)+
  have len: "length bs = length ps" using rmap_nth[OF bs] by simp
  have built: "\<forall>k < length ps. partition_built rp limits k (ps ! k) (?groups ! k) (bs ! k)"
    using rmap_nth[OF bs] by (auto simp: nth_indexed intro!: build_partition_built)
  have parts: "feasible_parts rp ps excluded limits ?groups (ca_partitions c)"
    unfolding c by (rule built_feasible) (use built ok len in auto)
  then have devices: "map lp_device_id (ca_partitions c) = ps" unfolding feasible_parts_def by blast
  with \<open>ps \<noteq> []\<close> have first: "lp_device_id (hd (ca_partitions c)) = hd ps" by (metis hd_map list.map_disc_iff)
  have "tl ps = map lp_device_id (tl (ca_partitions c))" using devices by (simp add: map_tl)
  then have graph: "replica_graph rp ps excluded c"
    using updates_linked[OF hs ok(2)] first unfolding replica_graph_def list_all_iff c by auto
  have placed: "round_plan_ok rp \<Longrightarrow> set ps \<subseteq> set (fr_participants rp) \<Longrightarrow> list_all (placed rp) (ca_partitions c)"
    unfolding c by (rule built_placed[of rp bs ps limits ?groups]) (use built ok len in auto)
  show ?thesis using c(1) parts graph placed ok(3) unfolding limit_rejections_Nil by blast
qed

lemma replica_dict:
  assumes ids: "map lp_partition_id parts = map partition_name [0..<n]" and "0 < n"
  shows "graph_node_partitions parts True ''federated_learning'' =
      map (\<lambda>p. (lp_partition_id p, p)) parts @ [(''aggregation'', hd parts)]"
    "dict_get (map (\<lambda>p. (lp_partition_id p, p)) parts @ [(''aggregation'', hd parts)]) ''aggregation'' = Some (hd parts)"
    "k < n \<Longrightarrow> dict_get (map (\<lambda>p. (lp_partition_id p, p)) parts @ [(''aggregation'', hd parts)]) (partition_name k)
      = Some (parts ! k)"
proof -
  let ?D = "map (\<lambda>p. (lp_partition_id p, p)) parts"
  have "map fst ?D = map partition_name [0..<n]" using ids by (simp add: comp_def)
  then have "''aggregation'' \<notin> set (map fst ?D)" by (auto simp: partition_name_def)
  then have notin: "''aggregation'' \<notin> fst ` set ?D" by (simp only: set_map simp_thms)
  have dict: "partitions_by_id parts = ?D"
    using parts_distinct[OF ids] by (simp add: partitions_by_id_def dict_of_distinct comp_def)
  have "graph_node_partitions parts True ''federated_learning'' = dict_set ''aggregation'' (hd parts) (partitions_by_id parts)"
    using end_names(1)[OF assms] by (cases parts) (simp_all add: graph_node_partitions_def)
  then show "graph_node_partitions parts True ''federated_learning'' = ?D @ [(''aggregation'', hd parts)]"
    unfolding dict update_notin[OF notin] .
  have distinct: "distinct (map fst (?D @ [(''aggregation'', hd parts)]))"
    using parts_distinct[OF ids] notin by (simp add: comp_def image_image)
  show "dict_get (?D @ [(''aggregation'', hd parts)]) ''aggregation'' = Some (hd parts)"
    by (rule map_of_is_SomeI[OF distinct]) simp
  assume k: "k < n"
  have "(partition_name k, parts ! k) \<in> set (?D @ [(''aggregation'', hd parts)])"
    using part_nth[OF ids refl k] k by force
  then show "dict_get (?D @ [(''aggregation'', hd parts)]) (partition_name k) = Some (parts ! k)"
    by (rule map_of_is_SomeI[OF distinct])
qed

lemma replica_links:
  assumes "dict_get D ''aggregation'' = Some (parts ! 0)"
    and "\<And>k. k < length parts \<Longrightarrow> dict_get D (lp_partition_id (parts ! k)) = Some (parts ! k)"
    and "\<And>p. p \<in> set (tl parts) \<Longrightarrow>
      (lp_device_id p, lp_device_id (parts ! 0)) \<in> link_pair ` set (fr_network_links rp)"
    and "key \<in> (\<lambda>p. (lp_partition_id p, ''aggregation'', ''aggregation'')) ` set (tl parts)"
  shows "linked_key rp D True key"
proof -
  from assms(4) obtain p where p: "p \<in> set (tl parts)"
    "key = (lp_partition_id p, ''aggregation'', ''aggregation'')" by auto
  then have "p \<in> set parts" by (metis list.set_sel(2) list.sel(2))
  then obtain k where "k < length parts" "p = parts ! k" by (metis in_set_conv_nth)
  with p assms(1,3) assms(2)[of k] show ?thesis
    by (simp add: linked_key_def has_required_network_link_def)
qed

lemma replica_graph_sound:
  assumes parts: "map lp_partition_id (ca_partitions c) = map partition_name [0..<length ps]"
      "map lp_device_id (ca_partitions c) = ps" and "ps \<noteq> []"
    and graph: "replica_graph rp ps excluded c"
    and plan: "pp_plan_type plan = ''training''" "pp_approved_execution_mode plan = ''federated_learning''"
  shows "graph_errors rp plan c = [] \<and> acyclic (graph_edge_rel c)"
proof -
  let ?P = "ca_partitions c" and ?n = "length ps"
  let ?D = "map (\<lambda>p. (lp_partition_id p, p)) ?P @ [(''aggregation'', hd ?P)]"
  let ?K = "(\<lambda>p. (lp_partition_id p, ''aggregation'', ''aggregation'')) ` set (tl ?P)"
  from \<open>ps \<noteq> []\<close> have n: "0 < ?n" by simp
  note dict = replica_dict[OF parts(1) n]
  have D: "graph_node_partitions ?P (pp_plan_type plan = ''training'') (pp_approved_execution_mode plan) = ?D"
    using dict(1) plan by simp
  have first: "hd ?P = ?P ! 0" "lp_device_id (?P ! 0) = hd ps"
    using end_names(1)[OF parts(1) n] part_nth[OF parts n] n by (simp_all add: hd_conv_nth)
  have same: "set (map (\<lambda>n. (gn_partition_id n, gn_device_id n)) (ca_graph_nodes c)) =
      set (map (\<lambda>(i, p). (i, lp_device_id p)) ?D)"
    using graph by (simp add: replica_graph_def phase_node_def image_image)
  have keys: "set (map edge_key (ca_graph_edges c)) = ?K"
    using graph unfolding replica_graph_def by simp
  have link: "(lp_device_id p, lp_device_id (?P ! 0)) \<in> link_pair ` set (fr_network_links rp)"
    if "p \<in> set (tl ?P)" for p
  proof -
    have "tl ps = map lp_device_id (tl ?P)" unfolding map_tl parts(2) ..
    with that have "lp_device_id p \<in> set (tl ps)" by simp
    moreover from graph have "\<forall>q \<in> set (tl ps). (q, hd ps) \<in> link_pair ` set (fr_network_links rp)"
      unfolding replica_graph_def list_all_iff by blast
    ultimately show ?thesis unfolding first(2) by blast
  qed
  have look: "dict_get ?D (lp_partition_id (?P ! k)) = Some (?P ! k)" if "k < length ?P" for k
  proof -
    from that have k: "k < ?n" using arg_cong[OF parts(2), of length] by simp
    with dict(3)[OF k] part_nth[OF parts k] show ?thesis by simp
  qed
  have "linked_key rp ?D True key" if "key \<in> ?K" for key
    by (rule replica_links[OF _ look link that]) (use dict(2) first in \<open>simp_all del: map_of_append\<close>)
  with keys plan have links: "list_all (linked rp plan c) (ca_graph_edges c)"
    by (intro linked_all[OF same D, of ?K]) simp_all
  have training: "training_graph_errors (pp_approved_execution_mode plan) ?P (ca_graph_edges c) = []"
    using plan keys by (simp add: training_graph_errors_def training_graph_modes_def)
  have "acyclic (graph_edge_rel c)"
  proof (rule acyclic_keys[of c ?K "map (\<lambda>k. (partition_name k, k)) [0..<?n] @ [(''aggregation'', ?n)]"])
    let ?R = "map (\<lambda>k. (partition_name k, k)) [0..<?n] @ [(''aggregation'', ?n)]"
    have distinct: "distinct (map fst ?R)"
      by (auto simp: comp_def distinct_map inj_on_def) (simp add: partition_name_def)
    fix s t kind assume "(s, t, kind) \<in> ?K"
    then obtain p where p: "p \<in> set (tl ?P)" "s = lp_partition_id p" "t = ''aggregation''" by auto
    then have "p \<in> set ?P" by (metis list.set_sel(2) list.sel(2))
    then obtain k where k: "k < length ?P" "p = ?P ! k" by (metis in_set_conv_nth)
    then have "k < ?n" using parts(2) by (metis length_map)
    with p k part_nth[OF parts this] have "(s, k) \<in> set ?R" by auto
    moreover have "(t, ?n) \<in> set ?R" using p by simp
    ultimately show "\<exists>i j. map_of ?R s = Some i \<and> map_of ?R t = Some j \<and> i < j"
      using \<open>k < ?n\<close> map_of_is_SomeI[OF distinct] by blast
  qed (use keys in simp)
  with links training same show ?thesis unfolding graph_errors_Nil D by blast
qed

end
