(* ===== verification/PlannerSafety.thy ===== *)
theory PlannerSafety
  imports PlannerGraph
begin

text \<open>
  The planner and the validator agree: a feasible candidate that the planner selects passes every check
  of the validator but, at most, the one of the rounded latency.
\<close>

section \<open>The plan that is chosen\<close>

text \<open>A candidate that the planner built: for an allowed cut, or of full replicas.\<close>

definition built_candidate ::
  "PartitionPlanner \<Rightarrow> FederatedRoundPlan \<Rightarrow> plan_limits \<Rightarrow> NormalizedPartitionRequest \<Rightarrow> PartitionIntent \<Rightarrow>
   PartitionCandidate \<Rightarrow> bool" where
  "built_candidate pl rp limits r i c \<longleftrightarrow>
     (let ps = filter (\<lambda>p. p \<notin> set (lim_devices limits)) (fr_participants rp);
          int_opt = (if nr_plan_type r = ''training'' then Some i else None) in
      2 \<le> length ps \<and> fr_layers rp \<noteq> [] \<and>
      (if pi_strategy_id i = ''federated-full-model-v1''
       then build_federated_full_model_candidate (pl_policy pl) rp ps (lim_links limits) (lim_memory limits) i = Inr c
       else ca_split_points c \<in> set (candidate_splits rp (length ps - 1) (lim_splits limits) int_opt) \<and>
         build_candidate (pl_policy pl) rp ps (lim_links limits) (lim_memory limits) int_opt (ca_split_points c) = Inr c))"

lemma build_candidate_splits: "build_candidate pol rp ps excluded limits int_opt splits = Inr c \<Longrightarrow> ca_split_points c = splits"
  using build_candidate_parts by blast

lemma keyed_candidates:
  assumes "rmap (\<lambda>c. rbind (key c) (\<lambda>k. Inr (k, c))) cs = Inr keyed"
  shows "map snd keyed = cs"
  using assms by (induction cs arbitrary: keyed) auto

lemma failed_plan_fields [simp]:
  "pp_selected_candidate (failed_plan pl plan_id rp es cs sel) = None"
  "\<not> pp_valid (failed_plan pl plan_id rp es cs sel)"
  by (simp_all add: failed_plan_def safe_failure_def)

lemma selected_plan_fields [simp]:
  "pp_selected_candidate (selected_plan pl plan_id rp c cs s sel) = Some c"
  "pp_valid (selected_plan pl plan_id rp c cs s sel)" "pp_job_id (selected_plan pl plan_id rp c cs s sel) = fr_job_id rp"
  "pp_model_id (selected_plan pl plan_id rp c cs s sel) = fr_model_id rp"
  "pp_approved_execution_mode (selected_plan pl plan_id rp c cs s sel) = am_name (fr_execution_mode rp)"
  by (simp_all add: selected_plan_def failed_plan_def safe_failure_def)

definition plan_matches :: "FederatedRoundPlan \<Rightarrow> PartitionExecutionPlan \<Rightarrow> bool" where
  "plan_matches rp plan \<longleftrightarrow> pp_valid plan \<and> pp_job_id plan = fr_job_id rp \<and> pp_model_id plan = fr_model_id rp \<and>
     pp_approved_execution_mode plan = am_name (fr_execution_mode rp)"

lemma plan_of_selection_Some:
  "pp_selected_candidate (plan_of_selection pl plan_id rp keyed sel) = Some c \<Longrightarrow>
     c \<in> set (map snd keyed) \<and> plan_matches rp (plan_of_selection pl plan_id rp keyed sel)"
  by (auto simp: plan_of_selection_def Let_def plan_matches_def split: option.splits Option.bind_splits
      dest!: map_of_SomeD subsetD[OF set_dict_of] intro: rev_image_eqI)

lemma plan_split_steps:
  assumes "plan_split sha256 pl plan_id rp ps limits r i = Inr plan"
    and "int_opt = (if nr_plan_type r = ''training'' then Some i else None)"
  shows "\<exists>cs x sel keyed. rmap (build_candidate (pl_policy pl) rp ps (lim_links limits) (lim_memory limits) int_opt)
      (candidate_splits rp (length ps - 1) (lim_splits limits) int_opt) = Inr cs \<and> plan_context r i = Inr x \<and>
    run_selector sha256 pl x cs = Inr sel \<and>
    rmap (\<lambda>c. rbind (partition_candidate_key sha256 c (rx_strategy_version x)) (\<lambda>k. Inr (k, c))) cs = Inr keyed \<and>
    plan = plan_of_selection pl plan_id rp keyed sel"
  using assms(1) unfolding plan_split_def Let_def assms(2)[symmetric] by auto

lemma plan_split_selected:
  assumes "plan_split sha256 pl plan_id rp ps limits r i = Inr plan" and "pp_selected_candidate plan = Some c"
  shows "plan_matches rp plan \<and>
    (let int_opt = (if nr_plan_type r = ''training'' then Some i else None) in
     ca_split_points c \<in> set (candidate_splits rp (length ps - 1) (lim_splits limits) int_opt) \<and>
     build_candidate (pl_policy pl) rp ps (lim_links limits) (lim_memory limits) int_opt (ca_split_points c) = Inr c)"
proof -
  let ?int = "if nr_plan_type r = ''training'' then Some i else None"
  from plan_split_steps[OF assms(1) refl] obtain cs and x :: RankingContext and sel keyed where
      cs: "rmap (build_candidate (pl_policy pl) rp ps (lim_links limits) (lim_memory limits) ?int)
        (candidate_splits rp (length ps - 1) (lim_splits limits) ?int) = Inr cs"
    and keyed: "rmap (\<lambda>c. rbind (partition_candidate_key sha256 c (rx_strategy_version x)) (\<lambda>k. Inr (k, c))) cs = Inr keyed"
    and plan: "plan = plan_of_selection pl plan_id rp keyed sel" by blast
  note selected = plan_of_selection_Some[of pl plan_id rp keyed sel c, folded plan, OF assms(2)]
  then have "c \<in> set cs" unfolding keyed_candidates[OF keyed] by blast
  then obtain splits where splits: "splits \<in> set (candidate_splits rp (length ps - 1) (lim_splits limits) ?int)"
    "build_candidate (pl_policy pl) rp ps (lim_links limits) (lim_memory limits) ?int splits = Inr c"
    using rmap_nth[OF cs] by (metis in_set_conv_nth)
  with build_candidate_splits[OF splits(2)] selected show ?thesis by (simp add: Let_def)
qed

lemma run_plan_selected:
  assumes "run_plan sha256 pl plan_id rp limits r i = Inr plan" and "pp_selected_candidate plan = Some c"
  shows "plan_matches rp plan \<and> built_candidate pl rp limits r i c"
proof -
  let ?ps = "filter (\<lambda>p. p \<notin> set (lim_devices limits)) (fr_participants rp)"
  show ?thesis
  proof (cases "pi_strategy_id i = ''federated-full-model-v1''")
    case True
    with assms have run: "plan_federated_full_model sha256 pl plan_id rp ?ps limits r i = Inr plan"
      by (simp add: run_plan_def)
    then have enough: "2 \<le> length ?ps" "fr_layers rp \<noteq> []"
      using assms(2) by (auto simp: plan_federated_full_model_def not_less split: if_splits)
    with run assms(2) obtain c' where "build_federated_full_model_candidate (pl_policy pl) rp ?ps
        (lim_links limits) (lim_memory limits) i = Inr c'" "c' = c" "plan_matches rp plan"
      by (auto simp: plan_federated_full_model_def plan_matches_def split: if_splits)
    with enough True show ?thesis by (simp add: built_candidate_def Let_def)
  next
    case False
    with assms have run: "plan_split sha256 pl plan_id rp ?ps limits r i = Inr plan"
      and enough: "2 \<le> length ?ps" "length ?ps \<le> length (fr_layers rp)"
      by (auto simp: run_plan_def Let_def not_less split: if_splits)
    from enough have "fr_layers rp \<noteq> []" by auto
    with plan_split_selected[OF run assms(2)] enough False show ?thesis
      unfolding built_candidate_def by (simp add: Let_def)
  qed
qed

section \<open>Agreement with the validator\<close>

text \<open>
  The strategies of a registry have the identifiers of the policy file, and the training strategy is
  registered for modes whose graph it draws.
\<close>

fun known_strategy :: "partition_strategy \<Rightarrow> bool" where
  "known_strategy (InferenceStrategy t) \<longleftrightarrow> st_strategy_id t = ''inference-partition-v1''"
| "known_strategy (TrainingStrategy t) \<longleftrightarrow> st_strategy_id t = ''training-partition-v1'' \<and>
     list_all (\<lambda>m. m \<in> set training_graph_modes \<and> m \<noteq> ''federated_learning'') (ts_supported_modes t)"
| "known_strategy (FederatedStrategy t) \<longleftrightarrow> st_strategy_id t = ''federated-full-model-v1''"

definition registry_fits :: "PartitionStrategyRegistry \<Rightarrow> bool" where
  "registry_fits reg = list_all known_strategy (map (snd \<circ> snd) reg)"

definition strategy_fits :: "NormalizedPartitionRequest \<Rightarrow> PartitionIntent \<Rightarrow> bool" where
  "strategy_fits r i \<longleftrightarrow>
     (let mode = am_name (nr_approved_execution_mode r) in
      if pi_strategy_id i = ''federated-full-model-v1''
      then nr_plan_type r = ''training'' \<and> mode = ''federated_learning''
      else nr_plan_type r = ''training'' \<longrightarrow> mode \<in> set training_graph_modes \<and> mode \<noteq> ''federated_learning'')"

lemma resolve_member: "resolve_strategy reg kind mode = Inr s \<Longrightarrow> (kind, mode, s) \<in> set reg"
  by (induction reg kind mode rule: resolve_strategy.induct) (auto split: if_splits)

lemma intend_fits:
  assumes "registry_fits (pl_strategy_registry pl)" and "normalize_and_intend sha256 pl request = Inr (r, i)"
  shows "strategy_fits r i"
proof -
  from assms(2) obtain s where s: "resolve_strategy (pl_strategy_registry pl) (nr_plan_type r)
      (am_name (nr_approved_execution_mode r)) = Inr s" "build_partition_intent s r = Inr i"
    by (auto simp: normalize_and_intend_def)
  from assms(1) resolve_member[OF s(1)] have "known_strategy s"
    by (force simp: registry_fits_def list_all_iff)
  with s(2) show ?thesis
    by (cases s) (auto simp: list_all_iff strategy_fits_def inference_intent_def
        training_intent_def federated_intent_def intent_def Let_def split: if_splits)
qed

lemma feasible_parts_names:
  "feasible_parts rp ps excluded limits groups parts \<Longrightarrow>
     map lp_partition_id parts = map partition_name [0..<length ps] \<and> map lp_device_id parts = ps \<and>
     map lp_layer_names parts = map (map ml_name) groups"
  unfolding feasible_parts_def by blast

lemma federated_covers:
  assumes "feasible_parts rp ps excluded limits (replicate (length ps) (fr_layers rp)) (ca_partitions c)"
    and "length ps = length (fr_participants rp)" "pp_plan_type plan = ''training''"
    and "pp_approved_execution_mode plan = ''federated_learning''"
  shows "full_model_replicas rp plan c"
proof -
  from assms(1) have devices: "map lp_device_id (ca_partitions c) = ps"
    and names: "map lp_layer_names (ca_partitions c) = replicate (length ps) (map ml_name (fr_layers rp))"
    by (simp_all add: feasible_parts_def)
  from devices assms(2) have "length (ca_partitions c) = length (fr_participants rp)" by (metis length_map)
  moreover have "lp_layer_names p = map ml_name (fr_layers rp)" if "p \<in> set (ca_partitions c)" for p
  proof -
    from that have "lp_layer_names p \<in> set (map lp_layer_names (ca_partitions c))" by simp
    then show ?thesis unfolding names by simp
  qed
  ultimately show ?thesis using assms(3,4) by (simp add: full_model_replicas_def list_all_iff)
qed

lemma split_covers:
  assumes "feasible_parts rp ps excluded limits (layer_groups (fr_layers rp) splits) parts"
    and "cuts splits (length (fr_layers rp))" "fr_layers rp \<noteq> []"
  shows "concat (map lp_layer_names parts) = map ml_name (fr_layers rp)"
proof -
  from assms(1) have "map lp_layer_names parts = map (map ml_name) (layer_groups (fr_layers rp) splits)"
    by (simp add: feasible_parts_def)
  then have "concat (map lp_layer_names parts) = map ml_name (concat (layer_groups (fr_layers rp) splits))"
    by (simp only: map_concat)
  then show ?thesis unfolding layer_groups_partition(1)[OF assms(2,3)] .
qed

lemma training_nodes_length:
  "build_training_graph parts forward compute ms bytes = Inr g \<Longrightarrow> length (tg_nodes g) = 2 * length parts + 1"
  by (auto simp: build_training_graph_def Let_def)

text \<open>Everything the validator checks but the latency, for a feasible candidate.\<close>

definition checks_but_latency :: "FederatedRoundPlan \<Rightarrow> PartitionExecutionPlan \<Rightarrow> PartitionCandidate \<Rightarrow> bool" where
  "checks_but_latency rp plan c \<longleftrightarrow>
     (full_model_replicas rp plan c \<or>
      concat (map lp_layer_names (ca_partitions c)) = map ml_name (fr_layers rp)) \<and>
     distinct (map lp_partition_id (ca_partitions c)) \<and> list_all (placed rp) (ca_partitions c) \<and>
     graph_errors rp plan c = [] \<and> acyclic (graph_edge_rel c) \<and>
     length (ca_graph_nodes c) \<le> 2 * length (fr_participants rp) + 1 \<and>
     pred_option (\<lambda>limit. ca_total_transfer_bytes c \<le> limit) (pc_max_transfer_bytes (fr_constraints rp))"

lemma split_checks:
  assumes rp: "round_plan_ok rp" and fits: "strategy_fits r i"
    and mode: "fr_execution_mode rp = nr_approved_execution_mode r"
    and built: "built_candidate pl rp limits r i c" and valid: "ca_valid c"
    and split: "pi_strategy_id i \<noteq> ''federated-full-model-v1''"
    and plan: "pp_plan_type plan = nr_plan_type r" "pp_approved_execution_mode plan = am_name (fr_execution_mode rp)"
  shows "checks_but_latency rp plan c"
proof -
  define ps where "ps = filter (\<lambda>p. p \<notin> set (lim_devices limits)) (fr_participants rp)"
  define int_opt where "int_opt = (if nr_plan_type r = ''training'' then Some i else None)"
  have ps: "set ps \<subseteq> set (fr_participants rp)" "length ps \<le> length (fr_participants rp)" by (auto simp: ps_def)
  from built split have enough: "2 \<le> length ps" "fr_layers rp \<noteq> []"
    and cut: "ca_split_points c \<in> set (candidate_splits rp (length ps - 1) (lim_splits limits) int_opt)"
    and run: "build_candidate (pl_policy pl) rp ps (lim_links limits) (lim_memory limits) int_opt (ca_split_points c) = Inr c"
    unfolding built_candidate_def Let_def ps_def int_opt_def by simp_all
  from cut have cut: "cuts (ca_split_points c) (length (fr_layers rp))" "length (ca_split_points c) = length ps - 1"
    by (simp_all add: candidate_splits_iff)
  from enough have "ps \<noteq> []" by auto
  note feasible = build_candidate_feasible[OF run valid cut this enough(2)]
  then obtain forward where parts: "feasible_parts rp ps (lim_links limits) (lim_memory limits)
      (layer_groups (fr_layers rp) (ca_split_points c)) (ca_partitions c)"
    and placed: "list_all (placed rp) (ca_partitions c)"
    and chain: "forward_chain rp ps (lim_links limits) forward"
    and graph: "graph_of_parts int_opt (ca_partitions c) forward c"
    and bytes: "pred_option (\<lambda>limit. ca_total_transfer_bytes c \<le> limit) (pc_max_transfer_bytes (fr_constraints rp))"
    using rp ps(1) by blast
  note names = feasible_parts_names[OF parts]
  then have ids: "map lp_partition_id (ca_partitions c) = map partition_name [0..<length ps]"
    "map lp_device_id (ca_partitions c) = ps" by simp_all
  have len: "length (ca_partitions c) = length ps" using arg_cong[OF ids(2), of length] by simp
  have "graph_errors rp plan c = [] \<and> acyclic (graph_edge_rel c) \<and>
      length (ca_graph_nodes c) \<le> 2 * length (fr_participants rp) + 1"
  proof (cases "nr_plan_type r = ''training''")
    case False
    then have "int_opt = None" by (simp add: int_opt_def)
    with graph have nodes: "ca_graph_nodes c = map (phase_node '''') (ca_partitions c)"
      and edges: "ca_graph_edges c = forward" by (simp_all add: graph_of_parts_def)
    from False plan have "pp_plan_type plan \<noteq> ''training''" by simp
    from inference_graph[OF ids chain[folded edges] nodes this] nodes len ps(2) show ?thesis by simp
  next
    case True
    then have "int_opt = Some i" by (simp add: int_opt_def)
    with graph obtain compute ms bytes g where g:
      "build_training_graph (ca_partitions c) forward compute ms bytes = Inr g"
      "ca_graph_nodes c = tg_nodes g" "ca_graph_edges c = tg_edges g" by (auto simp: graph_of_parts_def)
    from fits split True plan mode have "pp_plan_type plan = ''training''"
      "pp_approved_execution_mode plan \<in> set training_graph_modes" "pp_approved_execution_mode plan \<noteq> ''federated_learning''"
      by (simp_all add: strategy_fits_def Let_def)
    from training_graph[OF ids \<open>ps \<noteq> []\<close> chain g this] training_nodes_length[OF g(1)] g(2) len ps(2)
    show ?thesis by simp
  qed
  with split_covers[OF parts cut(1) enough(2)] placed bytes parts_distinct[OF ids(1)] show ?thesis
    unfolding checks_but_latency_def by blast
qed

lemma federated_checks:
  assumes rp: "round_plan_ok rp" and fits: "strategy_fits r i"
    and mode: "fr_execution_mode rp = nr_approved_execution_mode r"
    and built: "built_candidate pl rp limits r i c" and valid: "ca_valid c" and "lim_devices limits = []"
    and federated: "pi_strategy_id i = ''federated-full-model-v1''"
    and plan: "pp_plan_type plan = nr_plan_type r" "pp_approved_execution_mode plan = am_name (fr_execution_mode rp)"
  shows "checks_but_latency rp plan c"
proof -
  let ?ps = "fr_participants rp"
  from built federated assms(6) have enough: "2 \<le> length ?ps"
    and run: "build_federated_full_model_candidate (pl_policy pl) rp ?ps (lim_links limits) (lim_memory limits) i = Inr c"
    by (simp_all add: built_candidate_def Let_def)
  from enough have "?ps \<noteq> []" by auto
  from build_federated_feasible[OF run valid this] rp
  have parts: "feasible_parts rp ?ps (lim_links limits) (lim_memory limits)
      (replicate (length ?ps) (fr_layers rp)) (ca_partitions c)"
    and placed: "list_all (placed rp) (ca_partitions c)" and graph: "replica_graph rp ?ps (lim_links limits) c"
    and bytes: "pred_option (\<lambda>limit. ca_total_transfer_bytes c \<le> limit) (pc_max_transfer_bytes (fr_constraints rp))"
    by blast+
  note names = feasible_parts_names[OF parts]
  then have ids: "map lp_partition_id (ca_partitions c) = map partition_name [0..<length ?ps]"
    "map lp_device_id (ca_partitions c) = ?ps" by simp_all
  have len: "length (ca_partitions c) = length ?ps" using arg_cong[OF ids(2), of length] by simp
  from fits federated plan mode have kinds: "pp_plan_type plan = ''training''"
    "pp_approved_execution_mode plan = ''federated_learning''" by (simp_all add: strategy_fits_def Let_def)
  have "length (ca_graph_nodes c) = length ?ps + 1" using graph len by (simp add: replica_graph_def)
  with replica_graph_sound[OF ids \<open>?ps \<noteq> []\<close> graph kinds] federated_covers[OF parts refl kinds] placed bytes
    parts_distinct[OF ids(1)] show ?thesis
    unfolding checks_but_latency_def by simp
qed

lemma run_plan_checks:
  assumes "round_plan_ok rp" "strategy_fits r i" "fr_execution_mode rp = nr_approved_execution_mode r"
    and run: "run_plan sha256 pl plan_id rp limits r i = Inr plan'" and "pp_selected_candidate plan' = Some c"
    and "ca_valid c" and devices: "lim_devices limits = [] \<or> pi_strategy_id i \<noteq> ''federated-full-model-v1''"
    and plan: "pp_plan_type plan = nr_plan_type r" "pp_approved_execution_mode plan = am_name (fr_execution_mode rp)"
  shows "plan_matches rp plan' \<and> checks_but_latency rp plan c"
  using run_plan_selected[OF run assms(5)] split_checks[OF assms(1-3) _ assms(6) _ plan]
    federated_checks[OF assms(1-3) _ assms(6) _ _ plan] devices by blast

lemma checks_validate:
  assumes rp: "round_plan_ok rp" and plan: "plan_matches rp plan" "pp_selected_candidate plan = Some c" "ca_valid c"
    and checks: "checks_but_latency rp plan c" and room: "2 * length (fr_participants rp) + 1 < room"
  shows "validate_legacy room rp plan = Inr (validation_result
    (err_if (\<not> pred_option (\<lambda>limit. \<not> flt limit (ca_estimated_total_latency_ms c))
      (pc_max_end_to_end_latency_ms (fr_constraints rp))) ''latency_slo_exceeded''))"
proof -
  from checks have c: "partitions_errors rp (ca_partitions c) = Inr []" "coverage_errors rp plan c = []"
    "graph_errors rp plan c = []" "acyclic (graph_edge_rel c)" "length (ca_graph_nodes c) < room"
    and bytes: "pred_option (\<lambda>limit. ca_total_transfer_bytes c \<le> limit) (pc_max_transfer_bytes (fr_constraints rp))"
    using plan room by (simp_all add: checks_but_latency_def partitions_errors_placed[OF rp] coverage_errors_Nil plan_matches_def)
  have "identity_errors rp plan = []" using plan(1) by (simp add: identity_errors_Nil[OF rp] plan_matches_def)
  moreover have "constraint_errors (fr_constraints rp) c =
      err_if (\<not> pred_option (\<lambda>limit. \<not> flt limit (ca_estimated_total_latency_ms c))
        (pc_max_end_to_end_latency_ms (fr_constraints rp))) ''latency_slo_exceeded''"
    using bytes by (auto simp: constraint_errors_def err_if_def split: option.splits)
  moreover have "cycle_errors room c = Inr []" using c(4) cycle_errors_decides[OF c(5)] by (simp add: err_if_def)
  ultimately show ?thesis using plan(2) c(1-3) by (simp add: validate_legacy_def)
qed

lemma v2_metadata_fields:
  "with_v2_metadata sha256 pl plan' r i = Inr plan \<Longrightarrow>
     pp_plan_type plan = nr_plan_type r \<and> pp_selected_candidate plan = pp_selected_candidate plan' \<and>
     pp_valid plan = pp_valid plan' \<and> pp_job_id plan = pp_job_id plan' \<and> pp_model_id plan = pp_model_id plan' \<and>
     pp_approved_execution_mode plan = pp_approved_execution_mode plan'"
  by (auto simp: with_v2_metadata_def)

end
