(* ===== verification/PlannerTotal.thy ===== *)
theory PlannerTotal
  imports PlannerSafety
begin

text \<open>
  Planning returns: with sizes up to \<open>2 ^ 53\<close> bytes every candidate of a well-formed round plan is built.
\<close>

section \<open>Planning returns\<close>

text \<open>
  Memory and transfer sizes small enough for their quotients to be binary64 values: up to \<open>2 ^ 53\<close>
  bytes for the whole model and for every device.
\<close>

definition layer_bytes :: "ModelLayer \<Rightarrow> int" where
  "layer_bytes l = ml_parameter_bytes l + ml_working_memory_bytes l + ml_activation_bytes l"

definition sizes_ok :: "FederatedRoundPlan \<Rightarrow> bool" where
  "sizes_ok rp \<longleftrightarrow> sum_list (map layer_bytes (fr_layers rp)) \<le> 2 ^ 53 \<and>
     list_all (\<lambda>d. rd_memory_available_bytes d \<le> 2 ^ 53) (fr_devices rp)"

definition references_ok :: "ModelPartitionPolicy \<Rightarrow> bool" where
  "references_ok pol \<longleftrightarrow> mp_latency_reference_ms pol \<noteq> zero_float \<and> 0 < mp_transfer_reference_bytes pol"

lemma rmap_total: "(\<And>x. x \<in> set xs \<Longrightarrow> \<exists>y. f x = Inr y) \<Longrightarrow> \<exists>ys. rmap f xs = Inr ys"
  by (induction xs) force+

lemma checked_div_total: "y \<noteq> zero_float \<Longrightarrow> \<exists>q. checked_div x y = Inr q"
  by (cases y) (auto simp: checked_div_def)

lemma micro_nonzero: "round64 (1 / 1000000) \<noteq> FFin 0"
  by code_simp

lemma number_ok_nonzero: "number_ok micro x \<Longrightarrow> x \<noteq> zero_float"
  using micro_nonzero round64_unit[of "1 / 1000000"] by (auto simp: number_ok_def micro_def)

lemma int_ratio_total:
  assumes "0 \<le> a" "a \<le> 2 ^ 53" "0 < b"
  shows "\<exists>q. int_ratio a b = Inr q"
proof -
  have "(of_int a :: rat) / of_int b \<le> of_int a" using assms by (simp add: divide_le_eq mult_le_cancel_left1)
  with round64_at_most[of "of_int a / of_int b" a] assms obtain z where
    "round64 (of_int a / of_int b) = FFin z" by auto
  with assms(3) show ?thesis by (simp add: int_ratio_def int_div_def)
qed

lemma float_of_int_total: "0 \<le> i \<Longrightarrow> i \<le> 2 ^ 53 \<Longrightarrow> float_of_int i = Inr (FFin (of_int i))"
  using round64_int[of i] by (simp add: float_of_int_def)

lemma allowed_memory_total:
  assumes d: "device_ok d" and k: "constraints_ok k" and small: "rd_memory_available_bytes d \<le> 2 ^ 53"
  shows "\<exists>m. allowed_memory d k = Inr m"
proof -
  let ?n = "rd_memory_available_bytes d"
  from d have n: "0 \<le> ?n" by (simp add: device_ok_def)
  from k obtain h where h: "pc_minimum_memory_headroom_ratio k = FFin h" "0 \<le> h" "h < 1"
    by (cases "pc_minimum_memory_headroom_ratio k") (auto simp: constraints_ok_def number_ok_def)
  from round64_unit[of "1 - h"] h obtain r where
    r: "fsub (FFin 1) (FFin h) = FFin r" "0 \<le> r" "r \<le> 1" by (auto simp: fsub_def)
  have "of_int ?n * r \<le> of_int ?n * 1" using n r by (intro mult_left_mono) simp_all
  with round64_at_most[of "of_int ?n * r" ?n] n r small obtain z where "round64 (of_int ?n * r) = FFin z" by auto
  with h r float_of_int_total[OF n small] show ?thesis by (simp add: allowed_memory_def)
qed

lemma layer_bytes_nonneg: "layer_ok l \<Longrightarrow> 0 \<le> layer_bytes l"
  by (simp add: layer_ok_def layer_bytes_def)

lemma sum_list_mono_subset:
  assumes "list_all (\<lambda>x. 0 \<le> f x) (concat xss)" "k < length xss"
  shows "sum_list (map f (xss ! k)) \<le> (sum_list (map f (concat xss)) :: int)"
  using assms
proof (induction xss arbitrary: k)
  case (Cons xs xss)
  have pos: "0 \<le> sum_list (map f ys)" if "list_all (\<lambda>x. 0 \<le> f x) ys" for ys
    using that by (induction ys) auto
  show ?case
  proof (cases k)
    case 0
    with Cons.prems pos[of "concat xss"] show ?thesis by simp
  next
    case (Suc j)
    with Cons.prems Cons.IH[of j] pos[of xs] show ?thesis by simp
  qed
qed simp

lemma max_le_sum: "ls \<noteq> [] \<Longrightarrow> list_all (\<lambda>x. 0 \<le> f x) ls \<Longrightarrow> Max (set (map f ls)) \<le> (sum_list (map f ls) :: int)"
proof (induction ls)
  case (Cons l ls)
  have pos: "0 \<le> sum_list (map f ys)" if "list_all (\<lambda>x. 0 \<le> f x) ys" for ys
    using that by (induction ys) auto
  show ?case
  proof (cases "ls = []")
    case False
    with Cons pos[of ls] show ?thesis by (fastforce intro: order_trans)
  qed simp
qed simp

lemma required_memory_small:
  assumes "ls \<noteq> []" "list_all layer_ok ls"
  shows "0 \<le> required_memory ls \<and> required_memory ls \<le> sum_list (map layer_bytes ls)"
proof -
  have "sum_list (map layer_bytes ls) = sum_list (map ml_parameter_bytes ls) +
      sum_list (map ml_working_memory_bytes ls) + sum_list (map ml_activation_bytes ls)"
    by (induction ls) (simp_all add: layer_bytes_def)
  moreover have "Max (set (map ml_activation_bytes ls)) \<le> sum_list (map ml_activation_bytes ls)"
    using assms by (intro max_le_sum) (auto simp: list_all_iff layer_ok_def)
  moreover have "0 \<le> Max (set (map ml_activation_bytes ls))"
    using assms by (auto simp: Max_ge_iff list_all_iff layer_ok_def neq_Nil_conv)
  moreover have "0 \<le> sum_list (map ml_parameter_bytes ls)" "0 \<le> sum_list (map ml_working_memory_bytes ls)"
    using assms(2) by (auto simp: list_all_iff layer_ok_def intro!: sum_list_nonneg)
  ultimately show ?thesis unfolding required_memory_def by linarith
qed

lemma build_partition_total:
  assumes rp: "round_plan_ok rp" "sizes_ok rp" and i: "i \<in> set (fr_participants rp)"
    and ls: "ls \<noteq> []" "set ls \<subseteq> set (fr_layers rp)" "sum_list (map layer_bytes ls) \<le> 2 ^ 53"
  shows "\<exists>b. build_partition rp limits (k, i, ls) = Inr b"
proof -
  from rp(1) i obtain d where d: "d \<in> set (fr_devices rp)" "rd_device_id d = i"
    by (auto simp: round_plan_ok_def topology_ok_def)
  then have look: "dict_get (devices_by_id rp) i = Some d" using device_lookup[OF rp(1)] by blast
  from rp d have ok: "device_ok d" "constraints_ok (fr_constraints rp)" "rd_memory_available_bytes d \<le> 2 ^ 53"
    by (auto simp: round_plan_ok_def sizes_ok_def list_all_iff)
  from ls rp(1) have "list_all layer_ok ls" by (auto simp: round_plan_ok_def list_all_iff)
  with required_memory_small ls have small: "0 \<le> required_memory ls" "required_memory ls \<le> 2 ^ 53" by fastforce+
  from ok have "rd_compute_units_per_second d \<noteq> zero_float" by (simp add: device_ok_def number_ok_nonzero)
  from checked_div_total[OF this, of "float_total (map ml_compute_units ls)"] obtain q where
    q: "checked_div (float_total (map ml_compute_units ls)) (rd_compute_units_per_second d) = Inr q" by blast
  have "0 < max 1 (rd_memory_available_bytes d)" by simp
  from int_ratio_total[OF small this] obtain p where
    p: "int_ratio (required_memory ls) (max 1 (rd_memory_available_bytes d)) = Inr p" by blast
  from allowed_memory_total[OF ok] obtain m where m: "allowed_memory d (fr_constraints rp) = Inr m" by blast
  have e: "expected_memory ls = Inr (required_memory ls)" using ls(1) by simp
  show ?thesis unfolding build_partition_def prod.case look option.case rbind.simps e q p m Let_def by blast
qed

lemma transfer_ms_total:
  assumes "link_ok l" "0 \<le> b" "b \<le> 2 ^ 53"
  shows "\<exists>ms. transfer_ms l b = Inr ms"
proof -
  from assms(1) have "nl_bandwidth_bytes_per_second l \<noteq> zero_float" by (simp add: link_ok_def number_ok_nonzero)
  from checked_div_total[OF this, of "FFin (of_int b)"] float_of_int_total[OF assms(2,3)] show ?thesis
    by (auto simp: transfer_ms_def)
qed

text \<open>The bytes of the transfers are activations of different layers.\<close>

lemma hop_bytes:
  "rmap (build_hop rp excluded splits) js = Inr hs \<Longrightarrow> list_all layer_ok (fr_layers rp) \<Longrightarrow>
   distinct (map (\<lambda>(k, pair). nat (splits ! k) - 1) js) \<Longrightarrow>
   (\<forall>(k, pair) \<in> set js. nat (splits ! k) - 1 < length (fr_layers rp)) \<Longrightarrow>
   0 \<le> sum_list (map (ge_transfer_bytes \<circ> fst) (hop_edges hs)) \<and>
   sum_list (map (ge_transfer_bytes \<circ> fst) (hop_edges hs)) \<le>
     (\<Sum>j \<in> set (map (\<lambda>(k, pair). nat (splits ! k) - 1) js). ml_activation_bytes (fr_layers rp ! j))"
proof (induction js arbitrary: hs)
  case (Cons j js)
  obtain k and pair :: "string \<times> string" where j: "j = (k, pair)" by (cases j)
  let ?i = "nat (splits ! k) - 1" and ?bytes = "\<lambda>hs. sum_list (map (ge_transfer_bytes \<circ> fst) (hop_edges hs))"
  let ?b = "ml_activation_bytes (fr_layers rp ! ?i)"
  let ?J = "set (map (\<lambda>(k, pair). nat (splits ! k) - 1) js)"
  from Cons.prems(1) j obtain h hs' where h: "build_hop rp excluded splits (k, pair) = Inr h"
    and hs': "rmap (build_hop rp excluded splits) js = Inr hs'" and hs: "hs = h # hs'" by auto
  from Cons.prems j have "0 \<le> ?b" by (auto simp: list_all_length layer_ok_def)
  moreover have "?bytes hs = ?bytes hs' \<or> ?bytes hs = ?b + ?bytes hs'"
    using h hs by (auto simp: build_hop_def Let_def split: sum.splits)
  moreover have "0 \<le> ?bytes hs' \<and> ?bytes hs' \<le> (\<Sum>j \<in> ?J. ml_activation_bytes (fr_layers rp ! j))"
    using Cons.prems by (intro Cons.IH[OF hs']) simp_all
  moreover have "(\<Sum>j \<in> set (map (\<lambda>(k, pair). nat (splits ! k) - 1) (j # js)). ml_activation_bytes (fr_layers rp ! j)) =
      ?b + (\<Sum>j \<in> ?J. ml_activation_bytes (fr_layers rp ! j))"
    using Cons.prems(3) j by (simp add: image_iff)
  ultimately show ?case by linarith
qed simp

lemma hop_bytes_small:
  assumes "build_hops rp excluded ps splits = Inr hs" "list_all layer_ok (fr_layers rp)"
    and cut: "cuts splits (length (fr_layers rp))" "length splits = length ps - 1"
  shows "0 \<le> sum_list (map (ge_transfer_bytes \<circ> fst) (hop_edges hs)) \<and>
    sum_list (map (ge_transfer_bytes \<circ> fst) (hop_edges hs)) \<le> sum_list (map layer_bytes (fr_layers rp))"
proof -
  let ?js = "indexed (consecutive ps)" and ?n = "length (fr_layers rp)"
  have js: "map (\<lambda>(k, pair). nat (splits ! k) - 1) ?js = map (\<lambda>x. nat x - 1) splits"
    using cut(2) by (intro nth_equalityI) (simp_all add: nth_indexed)
  have range: "0 < x \<and> x < int ?n" if "x \<in> set splits" for x using cut(1) that by (auto simp: cuts_def)
  have "distinct splits" using cut(1) by (auto simp: cuts_def strict_sorted_iff)
  moreover have "inj_on (\<lambda>x. nat x - 1) (set splits)" proof (rule inj_onI)
    fix x y assume "x \<in> set splits" "y \<in> set splits" "nat x - 1 = nat y - 1"
    with range[of x] range[of y] show "x = y" by linarith
  qed
  ultimately have distinct: "distinct (map (\<lambda>(k, pair). nat (splits ! k) - 1) ?js)"
    unfolding js by (simp add: distinct_map)
  have bounds: "\<forall>(k, pair) \<in> set ?js. nat (splits ! k) - 1 < ?n"
  proof clarify
    fix k a b assume "(k, a, b) \<in> set ?js"
    then have "k < length splits" using cut(2) by (auto simp: set_indexed)
    with range[OF nth_mem] show "nat (splits ! k) - 1 < ?n" by fastforce
  qed
  have sub: "set (map (\<lambda>(k, pair). nat (splits ! k) - 1) ?js) \<subseteq> {0..<?n}" unfolding js using range by force
  have pos: "0 \<le> ml_activation_bytes (fr_layers rp ! j)" if "j < ?n" for j
    using assms(2) that by (simp add: list_all_length layer_ok_def)
  have "(\<Sum>j \<in> set (map (\<lambda>(k, pair). nat (splits ! k) - 1) ?js). ml_activation_bytes (fr_layers rp ! j)) \<le>
      (\<Sum>j \<in> {0..<?n}. ml_activation_bytes (fr_layers rp ! j))"
    by (rule sum_mono2) (use sub pos in auto)
  also have "\<dots> \<le> (\<Sum>j \<in> {0..<?n}. layer_bytes (fr_layers rp ! j))"
    using assms(2) by (intro sum_mono) (simp add: list_all_length layer_ok_def layer_bytes_def)
  also have "\<dots> = sum_list (map layer_bytes (fr_layers rp))" by (simp add: sum_list_sum_nth)
  finally show ?thesis
    using hop_bytes[OF assms(1)[unfolded build_hops_def] assms(2) distinct bounds] by linarith
qed

lemma activation_small:
  assumes "list_all layer_ok ls" "sum_list (map layer_bytes ls) \<le> 2 ^ 53" "j < length ls"
  shows "0 \<le> ml_activation_bytes (ls ! j) \<and> ml_activation_bytes (ls ! j) \<le> 2 ^ 53"
proof -
  have "layer_bytes (ls ! j) \<le> sum_list (map layer_bytes ls)"
    using assms(1,3) by (intro member_le_sum_list) (auto simp: list_all_iff layer_bytes_nonneg)
  with assms show ?thesis by (auto simp: list_all_length layer_ok_def layer_bytes_def)
qed

lemma build_hops_total:
  assumes rp: "round_plan_ok rp" "sizes_ok rp"
    and cut: "cuts splits (length (fr_layers rp))" "length splits = length ps - 1"
  shows "\<exists>hs. build_hops rp excluded ps splits = Inr hs"
  unfolding build_hops_def
proof (rule rmap_total)
  fix j assume "j \<in> set (indexed (consecutive ps))"
  moreover obtain k and pair :: "string \<times> string" where "j = (k, pair)" by (cases j)
  ultimately have j: "j = (k, pair)" "k < length splits" using cut(2) by (auto simp: set_indexed)
  then have "0 < splits ! k \<and> splits ! k < int (length (fr_layers rp))"
    using cut(1) nth_mem by (fastforce simp: cuts_def)
  then have "nat (splits ! k) - 1 < length (fr_layers rp)" by linarith
  with rp have small: "0 \<le> ml_activation_bytes (fr_layers rp ! (nat (splits ! k) - 1)) \<and>
      ml_activation_bytes (fr_layers rp ! (nat (splits ! k) - 1)) \<le> 2 ^ 53"
    by (intro activation_small) (simp_all add: round_plan_ok_def sizes_ok_def)
  show "\<exists>h. build_hop rp excluded splits j = Inr h"
  proof (cases "usable_link rp excluded pair")
    case (Inr l)
    then have "link_ok l" using link_lookup[OF rp(1)] rp(1)
      by (auto simp: usable_link_Inr round_plan_ok_def list_all_iff)
    from transfer_ms_total[OF this] small obtain ms where
      "transfer_ms l (ml_activation_bytes (fr_layers rp ! (nat (splits ! k) - 1))) = Inr ms" by blast
    with Inr j show ?thesis by (simp add: build_hop_def)
  qed (simp add: j build_hop_def)
qed

lemma build_partitions_total:
  assumes rp: "round_plan_ok rp" "sizes_ok rp" and ps: "set ps \<subseteq> set (fr_participants rp)"
    and cut: "cuts splits (length (fr_layers rp))" "fr_layers rp \<noteq> []"
  shows "\<exists>bs. build_partitions rp limits ps splits = Inr bs"
  unfolding build_partitions_def
proof (rule rmap_total)
  let ?groups = "layer_groups (fr_layers rp) splits"
  note groups = layer_groups_partition[OF cut]
  fix j assume "j \<in> set (indexed (zip ps ?groups))"
  then obtain k where k: "j = (k, ps ! k, ?groups ! k)" "k < length ps" "k < length ?groups"
    by (auto simp: set_indexed)
  have ok: "list_all (\<lambda>l. 0 \<le> layer_bytes l) (concat ?groups)"
    using rp(1) unfolding groups(1) by (auto simp: round_plan_ok_def list_all_iff layer_bytes_nonneg)
  have "sum_list (map layer_bytes (?groups ! k)) \<le> 2 ^ 53"
    using sum_list_mono_subset[OF ok k(3)] rp(2) unfolding groups(1) sizes_ok_def by linarith
  moreover have "?groups ! k \<noteq> []" using groups(2) k(3) by (metis nth_mem)
  moreover have "set (?groups ! k) \<subseteq> set (fr_layers rp)" using concat_parts_subset[OF k(3)] unfolding groups(1) .
  moreover have "ps ! k \<in> set (fr_participants rp)" using ps k(2) by auto
  ultimately show "\<exists>b. build_partition rp limits j = Inr b"
    unfolding k(1) by (intro build_partition_total[OF rp])
qed

lemma build_candidate_total:
  assumes rp: "round_plan_ok rp" "sizes_ok rp" and ps: "set ps \<subseteq> set (fr_participants rp)"
    and pol: "references_ok pol"
    and cut: "cuts splits (length (fr_layers rp))" "length splits = length ps - 1" "fr_layers rp \<noteq> []"
  shows "\<exists>c. build_candidate pol rp ps excluded limits None splits = Inr c"
proof -
  from build_partitions_total[OF rp ps cut(1,3)] obtain bs where bs: "build_partitions rp limits ps splits = Inr bs"
    by blast
  from build_hops_total[OF rp cut(1,2)] obtain hs where hs: "build_hops rp excluded ps splits = Inr hs" by blast
  let ?bytes = "sum_list (map (ge_transfer_bytes \<circ> fst) (hop_edges hs))"
  from hop_bytes_small[OF hs _ cut(1,2)] rp have bytes: "0 \<le> ?bytes" "?bytes \<le> 2 ^ 53"
    by (simp_all add: round_plan_ok_def sizes_ok_def)
  have score: "\<exists>s. score_inference pol latency pressure ?bytes = Inr s" for latency pressure
    using checked_div_total[of "mp_latency_reference_ms pol" latency] pol
      int_ratio_total[OF bytes, of "mp_transfer_reference_bytes pol"]
    by (auto simp: score_inference_def references_ok_def)
  then show ?thesis by (auto simp: build_candidate_def bs hs plan_graph_def Let_def)
qed

end
