(* ===== verification/PlannerOptimum.thy ===== *)
theory PlannerOptimum
  imports PlannerTotal
begin

text \<open>
  The deterministic planner returns the best feasible cut of an inference plan, within the limits it is
  given, and what a planner selects the validator accepts.
\<close>

section \<open>The choice of the deterministic selector\<close>

lemma deterministic_rank_total:
  assumes "strip (rx_strategy_version x) \<noteq> ''''"
  shows "\<exists>sel. deterministic_rank sha256 x cs = Inr sel"
proof -
  note key = partition_candidate_key_Inr[OF assms, of sha256]
  have "\<exists>es. rmap (deterministic_entry sha256 (rx_strategy_version x)) cs' = Inr es" for cs'
  proof (rule rmap_total)
    fix e assume "e \<in> set cs'"
    show "\<exists>y. deterministic_entry sha256 (rx_strategy_version x) e = Inr y"
      using key[of "snd e"] by (auto simp: deterministic_entry_def split: prod.splits)
  qed
  then obtain es where "rmap (deterministic_entry sha256 (rx_strategy_version x)) (ranked (sort_by candidate_before cs)) = Inr es"
    by blast
  with key show ?thesis
    by (cases "List.find ca_valid (sort_by candidate_before cs)")
      (auto simp: deterministic_rank_def selection_from_deterministic_order_def Let_def)
qed

text \<open>The first feasible candidate of the deterministic order, as the selector names it.\<close>

definition first_feasible :: "PartitionCandidate list \<Rightarrow> PartitionCandidate option" where
  "first_feasible cs = List.find ca_valid (sort_by candidate_before cs)"

lemma deterministic_select:
  assumes version: "strip (rx_strategy_version x) \<noteq> ''''"
  shows "\<exists>sel. select_candidate sha256 \<lparr>gs_deterministic = deterministic_rank sha256, gs_learned = l, gs_guard_policy = g\<rparr>
      x cs DETERMINISTIC v = Inr sel \<and>
    map_option Inr (cs_final_key sel) =
      map_option (\<lambda>c. partition_candidate_key sha256 c (rx_strategy_version x)) (first_feasible cs)"
proof -
  from deterministic_rank_total[OF version] obtain b where b: "deterministic_rank sha256 x cs = Inr b" by blast
  note key = partition_candidate_key_Inr[OF version, of sha256]
  from rmap_total[of "filter ca_valid cs" "\<lambda>c. partition_candidate_key sha256 c (rx_strategy_version x)"] key
  obtain keys where keys: "rmap (\<lambda>c. partition_candidate_key sha256 c (rx_strategy_version x)) (filter ca_valid cs) = Inr keys"
    by blast
  have final: "map_option Inr (cs_final_key b) =
      map_option (\<lambda>c. partition_candidate_key sha256 c (rx_strategy_version x)) (first_feasible cs)"
    using b by (auto simp: deterministic_rank_def selection_from_deterministic_order_def Let_def first_feasible_def
        split: option.splits)
  have "cs_final_key (with_valid_final keys b) = cs_final_key b"
    using deterministic_baseline[OF b keys] deterministic_final[OF b] by (auto simp: with_valid_final_key)
  with final b keys show ?thesis by (simp add: select_candidate_def ensure_valid_final_def)
qed

lemma first_feasible_best:
  "list_all (\<lambda>c. ca_score c \<noteq> FNaN) cs \<Longrightarrow> first_feasible cs = Some c \<Longrightarrow> best_candidate cs c"
  unfolding first_feasible_def by (rule find_best)

lemma first_feasible_None: "first_feasible cs = None \<longleftrightarrow> list_all (\<lambda>c. \<not> ca_valid c) cs"
  by (auto simp: first_feasible_def find_None_iff list_all_iff)

lemma keyed_lookup:
  assumes "rmap (\<lambda>c. rbind (key c) (\<lambda>k. Inr (k, c))) cs = Inr keyed"
    and "inj_on key (set cs)" "c \<in> set cs" "key c = Inr k"
  shows "dict_get (dict_of keyed) k = Some c"
proof -
  from assms(1) have all2: "list_all2 (\<lambda>c kc. rbind (key c) (\<lambda>k. Inr (k, c)) = Inr kc) cs keyed"
    by (rule rmap_Inr_all2)
  from assms(3) obtain j where "j < length cs" "c = cs ! j" by (auto simp: in_set_conv_nth)
  with all2 have "rbind (key c) (\<lambda>k. Inr (k, c)) = Inr (keyed ! j)" "j < length keyed"
    by (simp_all add: list_all2_conv_all_nth)
  then have "\<exists>kc \<in> set keyed. rbind (key c) (\<lambda>k. Inr (k, c)) = Inr kc" by auto
  with assms(4) have "k \<in> fst ` set (dict_of keyed)" by force
  then obtain c' where c': "dict_get (dict_of keyed) k = Some c'" by (metis map_of_eq_None_iff not_Some_eq)
  then have "(k, c') \<in> set keyed" using set_dict_of map_of_SomeD by fast
  then obtain m where "m < length keyed" "keyed ! m = (k, c')" by (auto simp: in_set_conv_nth)
  with all2 have "rbind (key (cs ! m)) (\<lambda>k. Inr (k, cs ! m)) = Inr (k, c')" "m < length cs"
    using list_all2_nthD2[OF all2] list_all2_lengthD[OF all2] by (metis, simp)
  then have "c' \<in> set cs" "key c' = Inr k" by auto
  with assms(2-4) c' show ?thesis by (simp add: inj_on_def)
qed

section \<open>The best cut\<close>

text \<open>
  The cuts that an inference plan may use for the participants \<open>ps\<close>, and the best feasible one: none has
  a smaller score, or the same score and smaller cut points.
\<close>

definition allowed_cut :: "FederatedRoundPlan \<Rightarrow> plan_limits \<Rightarrow> string list \<Rightarrow> int list \<Rightarrow> bool" where
  "allowed_cut rp limits ps splits \<longleftrightarrow>
     cuts splits (length (fr_layers rp)) \<and> length splits = length ps - 1 \<and> splits \<notin> set (lim_splits limits)"

definition cut_candidate ::
  "ModelPartitionPolicy \<Rightarrow> FederatedRoundPlan \<Rightarrow> plan_limits \<Rightarrow> string list \<Rightarrow> PartitionCandidate \<Rightarrow> bool" where
  "cut_candidate pol rp limits ps c \<longleftrightarrow> allowed_cut rp limits ps (ca_split_points c) \<and>
     build_candidate pol rp ps (lim_links limits) (lim_memory limits) None (ca_split_points c) = Inr c"

definition best_cut ::
  "ModelPartitionPolicy \<Rightarrow> FederatedRoundPlan \<Rightarrow> plan_limits \<Rightarrow> string list \<Rightarrow> PartitionCandidate \<Rightarrow> bool" where
  "best_cut pol rp limits ps c \<longleftrightarrow> cut_candidate pol rp limits ps c \<and> ca_valid c \<and>
     (\<forall>b. cut_candidate pol rp limits ps b \<and> ca_valid b \<longrightarrow>
        flt (ca_score c) (ca_score b) \<or> (ca_score b = ca_score c \<and> ca_split_points c \<le> ca_split_points b))"

lemma built_cuts:
  assumes "rmap (build_candidate pol rp ps (lim_links limits) (lim_memory limits) None)
    (candidate_splits rp (length ps - 1) (lim_splits limits) None) = Inr cs"
  shows "c \<in> set cs \<longleftrightarrow> cut_candidate pol rp limits ps c"
proof -
  let ?build = "build_candidate pol rp ps (lim_links limits) (lim_memory limits) None"
  from assms have "list_all2 (\<lambda>splits c. ?build splits = Inr c)
      (candidate_splits rp (length ps - 1) (lim_splits limits) None) cs" by (rule rmap_Inr_all2)
  then have "c \<in> set cs \<longleftrightarrow> (\<exists>splits \<in> set (candidate_splits rp (length ps - 1) (lim_splits limits) None).
      ?build splits = Inr c)"
    by (fastforce simp: list_all2_conv_all_nth in_set_conv_nth)
  also have "\<dots> \<longleftrightarrow> (\<exists>splits. allowed_cut rp limits ps splits \<and> ?build splits = Inr c)"
    by (auto simp: candidate_splits_iff allowed_cut_def)
  also have "\<dots> \<longleftrightarrow> cut_candidate pol rp limits ps c"
    using build_candidate_splits by (auto simp: cut_candidate_def)
  finally show ?thesis .
qed

text \<open>
  What the planner of an inference plan relies on beside a well-formed round plan: no NaN among the scores
  of the cuts and no hash shared by two of them.
\<close>

definition comparable ::
  "(string \<Rightarrow> string) \<Rightarrow> ModelPartitionPolicy \<Rightarrow> FederatedRoundPlan \<Rightarrow> plan_limits \<Rightarrow> string list \<Rightarrow> string \<Rightarrow> bool" where
  "comparable sha256 pol rp limits ps version \<longleftrightarrow>
     (\<forall>c. cut_candidate pol rp limits ps c \<longrightarrow> ca_score c \<noteq> FNaN) \<and>
     inj_on (\<lambda>c. partition_candidate_key sha256 c version) (Collect (cut_candidate pol rp limits ps))"

lemma best_of_built:
  assumes "\<And>c. c \<in> set cs \<longleftrightarrow> cut_candidate pol rp limits ps c"
    and "comparable sha256 pol rp limits ps version" and "first_feasible cs = Some c"
  shows "best_cut pol rp limits ps c"
proof -
  from assms(1,2) have "list_all (\<lambda>c. ca_score c \<noteq> FNaN) cs" by (simp add: comparable_def list_all_iff)
  from first_feasible_best[OF this assms(3)] show ?thesis
    using assms(1) by (simp add: best_candidate_def best_cut_def list_all_iff)
qed

lemma selection_result:
  assumes keyed: "rmap (\<lambda>c. rbind (key c) (\<lambda>k. Inr (k, c))) cs = Inr keyed" and inj: "inj_on key (set cs)"
    and final: "map_option Inr (cs_final_key sel) = map_option key (first_feasible cs)"
  shows "pp_selected_candidate (plan_of_selection pl plan_id rp keyed sel) = first_feasible cs \<and>
    pp_valid (plan_of_selection pl plan_id rp keyed sel) = (first_feasible cs \<noteq> None)"
proof (cases "first_feasible cs")
  case None
  with final show ?thesis by (simp add: plan_of_selection_def Let_def)
next
  case (Some c)
  with final obtain k where k: "cs_final_key sel = Some k" "key c = Inr k" by auto
  from Some have "c \<in> set cs" using find_mem[of ca_valid] by (fastforce simp: first_feasible_def)
  from keyed_lookup[OF keyed inj this k(2)] k(1) Some show ?thesis
    by (simp add: plan_of_selection_def Let_def)
qed

lemma plan_split_best:
  assumes rp: "round_plan_ok rp" "sizes_ok rp" and ps: "set ps \<subseteq> set (fr_participants rp)"
    and n: "length ps \<le> length (fr_layers rp)" "2 \<le> length ps"
    and pl: "pl = new_planner sha256 pol reg DETERMINISTIC ranker" "references_ok pol"
    and kind: "nr_plan_type r \<noteq> ''training''" and version: "strip (pi_strategy_version i) \<noteq> ''''"
    and comparable: "comparable sha256 pol rp limits ps (pi_strategy_version i)"
  shows "\<exists>plan cs. plan_split sha256 pl plan_id rp ps limits r i = Inr plan \<and>
    (\<forall>c. c \<in> set cs \<longleftrightarrow> cut_candidate pol rp limits ps c) \<and>
    pp_selected_candidate plan = first_feasible cs \<and> pp_valid plan = (first_feasible cs \<noteq> None)"
proof -
  let ?build = "build_candidate pol rp ps (lim_links limits) (lim_memory limits) None"
  let ?splits = "candidate_splits rp (length ps - 1) (lim_splits limits) None"
  let ?key = "\<lambda>c. partition_candidate_key sha256 c (pi_strategy_version i)"
  from n have layers: "fr_layers rp \<noteq> []" by auto
  have "\<exists>cs. rmap ?build ?splits = Inr cs"
    by (rule rmap_total) (rule build_candidate_total[OF rp ps pl(2) _ _ layers], auto simp: candidate_splits_iff)
  then obtain cs where cs: "rmap ?build ?splits = Inr cs" by blast
  note member = built_cuts[OF cs]
  with comparable have inj: "inj_on ?key (set cs)" by (auto simp: comparable_def inj_on_def)
  obtain x :: RankingContext where x: "plan_context r i = Inr x" "rx_strategy_version x = pi_strategy_version i"
    by (auto simp: plan_context_def ranking_context_def)
  with version have "strip (rx_strategy_version x) \<noteq> ''''" by simp
  from deterministic_select[OF this, of sha256 None "mp_learned_ranker_guard pol" cs ranker] obtain sel where
    sel: "run_selector sha256 pl x cs = Inr sel"
      "map_option Inr (cs_final_key sel) = map_option ?key (first_feasible cs)"
    by (auto simp: run_selector_def pl(1) new_planner_def x(2))
  have "\<exists>keyed. rmap (\<lambda>c. rbind (?key c) (\<lambda>k. Inr (k, c))) cs = Inr keyed"
    by (rule rmap_total) (use partition_candidate_key_Inr[OF version, of sha256] in fastforce)
  then obtain keyed where keyed: "rmap (\<lambda>c. rbind (?key c) (\<lambda>k. Inr (k, c))) cs = Inr keyed" by blast
  from pl(1) have "pl_policy pl = pol" by (simp add: new_planner_def)
  with kind cs x sel(1) keyed
  have "plan_split sha256 pl plan_id rp ps limits r i = Inr (plan_of_selection pl plan_id rp keyed sel)"
    by (simp add: plan_split_def Let_def)
  with member selection_result[OF keyed inj sel(2), of pl plan_id rp] show ?thesis by blast
qed

text \<open>
  A plan within its limits: the participants left over hold the layers of the cut in order, in the memory
  they have and that the directive leaves them, and consecutive ones share a link that is not excluded.
\<close>

definition within_limits :: "FederatedRoundPlan \<Rightarrow> plan_limits \<Rightarrow> string list \<Rightarrow> PartitionCandidate \<Rightarrow> bool" where
  "within_limits rp limits ps c \<longleftrightarrow>
     feasible_parts rp ps (lim_links limits) (lim_memory limits)
       (layer_groups (fr_layers rp) (ca_split_points c)) (ca_partitions c) \<and>
     list_all (placed rp) (ca_partitions c) \<and>
     list_all (\<lambda>pair. pair \<notin> set (lim_links limits) \<and> pair \<in> link_pair ` set (fr_network_links rp)) (consecutive ps)"

lemma best_cut_within:
  assumes "round_plan_ok rp" "set ps \<subseteq> set (fr_participants rp)" "2 \<le> length ps" "length ps \<le> length (fr_layers rp)"
    and "best_cut pol rp limits ps c"
  shows "within_limits rp limits ps c"
proof -
  from assms(5) have run: "build_candidate pol rp ps (lim_links limits) (lim_memory limits) None (ca_split_points c) = Inr c"
    and valid: "ca_valid c" and cut: "cuts (ca_split_points c) (length (fr_layers rp))"
      "length (ca_split_points c) = length ps - 1"
    by (simp_all add: best_cut_def cut_candidate_def allowed_cut_def)
  from assms(3,4) have "ps \<noteq> []" "fr_layers rp \<noteq> []" by auto
  from build_candidate_feasible[OF run valid cut this] assms(1,2) show ?thesis
    unfolding within_limits_def forward_chain_def by blast
qed

lemma cuts_are_built:
  assumes "round_plan_ok rp" "sizes_ok rp" "set ps \<subseteq> set (fr_participants rp)" "references_ok pol" "fr_layers rp \<noteq> []"
    and "allowed_cut rp limits ps splits"
  shows "\<exists>c. cut_candidate pol rp limits ps c \<and> ca_split_points c = splits"
proof -
  from build_candidate_total[OF assms(1-4) _ _ assms(5)] assms(6) obtain c where
    "build_candidate pol rp ps (lim_links limits) (lim_memory limits) None splits = Inr c"
    by (fastforce simp: allowed_cut_def)
  with build_candidate_splits[OF this] assms(6) show ?thesis by (auto simp: cut_candidate_def)
qed

section \<open>Claims\<close>

text \<open>
  C17. The planner finds the best cut. Deterministic mode, an inference plan, a well-formed round plan with
  at most \<open>2 ^ 53\<close> bytes in the model and on a device, positive references, a strategy version that is not
  blank, at least two participants after the exclusions and no more than layers, no NaN score and no hash
  shared by two candidates: then every cut that is not excluded is evaluated, planning returns, and the
  plan selects a feasible cut of lowest score, with the smallest cut points among equals; it puts
  consecutive groups of layers on exactly the remaining participants, within their memory and the
  directive's memory limits, over existing links that are not excluded. With no feasible cut the plan is
  not valid and selects nothing.
\<close>

theorem planner_finds_best_cut:
  assumes rp: "round_plan_ok rp" "sizes_ok rp"
    and ps: "ps = filter (\<lambda>p. p \<notin> set (lim_devices limits)) (fr_participants rp)"
      "2 \<le> length ps" "length ps \<le> length (fr_layers rp)"
    and pl: "pl = new_planner sha256 pol reg DETERMINISTIC ranker" "references_ok pol"
    and kind: "nr_plan_type r \<noteq> ''training''" "pi_strategy_id i \<noteq> ''federated-full-model-v1''"
      "strip (pi_strategy_version i) \<noteq> ''''"
    and comparable: "comparable sha256 pol rp limits ps (pi_strategy_version i)"
  shows "(\<forall>splits. allowed_cut rp limits ps splits \<longrightarrow>
      (\<exists>c. cut_candidate pol rp limits ps c \<and> ca_split_points c = splits)) \<and>
    (\<exists>plan. run_plan sha256 pl plan_id rp limits r i = Inr plan \<and>
      (case pp_selected_candidate plan of
         None \<Rightarrow> \<not> pp_valid plan \<and> (\<forall>c. cut_candidate pol rp limits ps c \<longrightarrow> \<not> ca_valid c)
       | Some c \<Rightarrow> pp_valid plan \<and> best_cut pol rp limits ps c \<and> within_limits rp limits ps c))"
proof -
  have members: "set ps \<subseteq> set (fr_participants rp)" unfolding ps(1) by auto
  from ps(2,3) have layers: "fr_layers rp \<noteq> []" by auto
  from plan_split_best[OF rp members ps(3,2) pl kind(1,3) comparable] obtain plan cs where
    plan: "plan_split sha256 pl plan_id rp ps limits r i = Inr plan"
      "pp_selected_candidate plan = first_feasible cs" "pp_valid plan = (first_feasible cs \<noteq> None)"
    and cs: "\<And>c. c \<in> set cs \<longleftrightarrow> cut_candidate pol rp limits ps c" by blast
  from plan(1) ps kind(2) have "run_plan sha256 pl plan_id rp limits r i = Inr plan"
    by (simp add: run_plan_def Let_def not_less)
  moreover have "case pp_selected_candidate plan of
       None \<Rightarrow> \<not> pp_valid plan \<and> (\<forall>c. cut_candidate pol rp limits ps c \<longrightarrow> \<not> ca_valid c)
     | Some c \<Rightarrow> pp_valid plan \<and> best_cut pol rp limits ps c \<and> within_limits rp limits ps c"
    using plan(2,3) cs first_feasible_None[of cs] best_of_built[OF cs comparable]
      best_cut_within[OF rp(1) members ps(2,3)]
    by (cases "first_feasible cs") (simp_all add: list_all_iff)
  ultimately show ?thesis using cuts_are_built[OF rp members pl(2) layers] by blast
qed

text \<open>
  C24. Planner and validator agree. Whatever the selection mode and the learned model: if planning a
  request returns a plan that selects a feasible candidate, its round plan is well formed, the registry
  holds the strategies of the policy file and the stack has room for the graph, then the independent
  validator returns and finds no error of identity, coverage, placement, memory, graph, links, cycles or
  transfer bytes; it reports at most \<open>latency_slo_exceeded\<close>, exactly when the rounded latency in the
  candidate exceeds the limit (the planner compares the latency before rounding it).
\<close>

theorem planner_agrees_with_validator:
  assumes "registry_fits (pl_strategy_registry pl)" and "normalize_and_intend sha256 pl request = Inr (r, i)"
    and "round_plan_ok (round_plan_from_normalized r)" and "plan_request sha256 pl plan_id request = Inr plan"
    and "pp_selected_candidate plan = Some c" "ca_valid c" and "2 * length (nr_participants r) + 1 < room"
  shows "validate_legacy room (round_plan_from_normalized r) plan = Inr (validation_result
    (err_if (\<not> pred_option (\<lambda>limit. \<not> flt limit (ca_estimated_total_latency_ms c))
      (pc_max_end_to_end_latency_ms (nr_constraints r))) ''latency_slo_exceeded''))"
proof -
  let ?rp = "round_plan_from_normalized r"
  from assms(2,4) obtain plan' where run: "run_plan sha256 pl plan_id ?rp no_limits r i = Inr plan'"
    and meta: "with_v2_metadata sha256 pl plan' r i = Inr plan" by (auto simp: plan_request_def)
  note fields = v2_metadata_fields[OF meta]
  have rp: "fr_execution_mode ?rp = nr_approved_execution_mode r" "fr_constraints ?rp = nr_constraints r"
    "fr_participants ?rp = nr_participants r" by (simp_all add: round_plan_from_normalized_def)
  from fields assms(5) have "pp_selected_candidate plan' = Some c" by simp
  with run_plan_selected[OF run this] fields have matches: "plan_matches ?rp plan"
    by (simp add: plan_matches_def)
  then have mode: "pp_approved_execution_mode plan = am_name (fr_execution_mode ?rp)" by (simp add: plan_matches_def)
  have "checks_but_latency ?rp plan c"
    using run_plan_checks[OF assms(3) intend_fits[OF assms(1,2)] rp(1) run _ assms(6) _ _ mode] fields assms(5)
    by (simp add: no_limits_def)
  from checks_validate[OF assms(3) matches assms(5,6) this] assms(7) show ?thesis unfolding rp by simp
qed

section \<open>Demonstration data\<close>

definition demo_half :: "string \<Rightarrow> ModelLayer" where
  "demo_half name = \<lparr>ml_name = name, ml_compute_units = FFin 1, ml_parameter_bytes = 100,
     ml_activation_bytes = 10, ml_working_memory_bytes = 5\<rparr>"

definition demo_halves :: FederatedRoundPlan where
  "demo_halves = demo_round_plan
     \<lparr>fr_layers := [demo_half ''conv'', demo_half ''head''],
      fr_devices := [(demo_device ''edge-a'')\<lparr>rd_memory_available_bytes := 115\<rparr>,
        (demo_device ''edge-b'')\<lparr>rd_memory_available_bytes := 115\<rparr>]\<rparr>"

definition demo_planner_policy :: ModelPartitionPolicy where
  "demo_planner_policy = \<lparr>mp_version = ''1'', mp_latency_weight = FFin 1, mp_memory_pressure_weight = FFin 0,
     mp_communication_weight = FFin 0, mp_latency_reference_ms = FFin 1000, mp_transfer_reference_bytes = 10,
     mp_max_replan_attempts = 1,
     mp_learned_ranker_guard = \<lparr>gp_minimum_observed_samples = 1, gp_minimum_independent_groups = 1,
       gp_maximum_holdout_mae = FFin 1, gp_minimum_spearman_correlation = FFin 0,
       gp_minimum_selection_confidence = FFin 0, gp_maximum_ood_feature_ratio = FFin 1\<rparr>\<rparr>"

definition demo_part :: "nat \<Rightarrow> string \<Rightarrow> string \<Rightarrow> LogicalPartition" where
  "demo_part i device name = \<lparr>lp_partition_id = partition_name i, lp_device_id = device, lp_layer_names = [name],
     lp_compute_units = FFin 1, lp_memory_demand_bytes = 115\<rparr>"

lemma round64_numeral: "numeral n \<le> (2 :: int) ^ 53 \<Longrightarrow> round64 (numeral n) = FFin (numeral n)"
  using round64_int[of "numeral n"] by simp

lemma demo_halves_ok: "round_plan_ok demo_halves"
  by (simp add: demo_halves_def demo_half_def demo_round_plan_def demo_device_def round_plan_ok_def text_ok_def approved_mode_ok_def layer_ok_def device_ok_def
      link_ok_def constraints_ok_def topology_ok_def micro_small link_pair_def)
    (simp add: number_ok_def)

lemma demo_partition:
  assumes "i = ''edge-a'' \<or> i = ''edge-b''"
  shows "build_partition demo_halves [] (k, i, [demo_half name]) =
    Inr \<lparr>bp_partition = demo_part k i name, bp_compute_ms = FFin 1000, bp_pressure = FFin 1, bp_rejections = []\<rparr>"
proof -
  let ?d = "(demo_device i)\<lparr>rd_memory_available_bytes := 115\<rparr>"
  have look: "dict_get (devices_by_id demo_halves) i = Some ?d"
    using assms by (auto simp: device_lookup[OF demo_halves_ok]) (auto simp: demo_halves_def demo_device_def)
  have "allowed_memory ?d (fr_constraints demo_halves) = Inr 115"
    using round64_numeral[of "Num.Bit1 (Num.Bit1 (Num.Bit0 (Num.Bit0 (Num.Bit1 (Num.Bit1 Num.One)))))"]
    by (simp add: allowed_memory_def demo_halves_def demo_round_plan_def demo_device_def float_of_int_def fsub_def truncate_rat_def)
  then show ?thesis
    by (simp add: build_partition_def look demo_half_def expected_memory_def checked_div_def int_ratio_def int_div_def
        demo_device_def float_total_def fsum_def Let_def memory_rejections_def err_if_def demo_part_def round64_numeral)
qed

lemma demo_hop:
  "build_hop demo_halves [] [1] (0, ''edge-a'', ''edge-b'') =
     Inr (Hop \<lparr>ge_source_partition = partition_name 0, ge_target_partition = partition_name (Suc 0),
       ge_transfer_bytes = 10, ge_estimated_transfer_ms = FFin 10000, ge_edge_type = ''forward''\<rparr> (FFin 10000))"
proof -
  have "usable_link demo_halves [] (''edge-a'', ''edge-b'') = Inr (hd (fr_network_links demo_halves))"
    by (simp add: usable_link_def links_by_pair_def demo_halves_def demo_round_plan_def link_pair_def dict_of_def)
  then show ?thesis
    by (simp add: build_hop_def transfer_ms_def float_of_int_def checked_div_def Let_def demo_halves_def demo_half_def
        demo_round_plan_def round64_numeral)
qed

definition demo_planned :: PartitionCandidate where
  "demo_planned = \<lparr>ca_split_points = [1],
     ca_partitions = [demo_part 0 ''edge-a'' ''conv'', demo_part 1 ''edge-b'' ''head''],
     ca_graph_nodes = map (phase_node '''') [demo_part 0 ''edge-a'' ''conv'', demo_part 1 ''edge-b'' ''head''],
     ca_graph_edges = [\<lparr>ge_source_partition = partition_name 0, ge_target_partition = partition_name (Suc 0),
       ge_transfer_bytes = 10, ge_estimated_transfer_ms = FFin 10000, ge_edge_type = ''forward''\<rparr>],
     ca_estimated_compute_ms = FFin 2000, ca_estimated_transfer_ms = FFin 10000,
     ca_estimated_total_latency_ms = FFin 12000, ca_total_transfer_bytes = 10,
     ca_maximum_memory_pressure = FFin 1, ca_valid = True, ca_rejection_reasons = [], ca_score = FFin 1,
     ca_estimated_step_time_ms = FFin 0, ca_gradient_transfer_bytes = 0, ca_maximum_load_imbalance = FFin 0,
     ca_predicted_resilience_risk = FFin 0\<rparr>"

lemma demo_build:
  "build_candidate demo_planner_policy demo_halves [''edge-a'', ''edge-b''] [] [] None [1] = Inr demo_planned"
proof -
  have "build_partitions demo_halves [] [''edge-a'', ''edge-b''] [1] =
      Inr (map (\<lambda>p. \<lparr>bp_partition = p, bp_compute_ms = FFin 1000, bp_pressure = FFin 1, bp_rejections = []\<rparr>)
        [demo_part 0 ''edge-a'' ''conv'', demo_part 1 ''edge-b'' ''head''])"
    using demo_partition[of "''edge-a''" 0 "''conv''"] demo_partition[of "''edge-b''" 1 "''head''"]
    by (simp add: build_partitions_def layer_groups_def consecutive_def indexed_def demo_halves_def)
  moreover have "build_hops demo_halves [] [''edge-a'', ''edge-b''] [1] =
      Inr [Hop (hd (ca_graph_edges demo_planned)) (FFin 10000)]"
    using demo_hop by (simp add: build_hops_def consecutive_def indexed_def demo_planned_def)
  ultimately show ?thesis
    by (simp add: build_candidate_def plan_graph_def Let_def demo_planned_def round64_numeral score_inference_def
        checked_div_def int_ratio_def int_div_def demo_planner_policy_def floats_max_or_def floats_max_def
        limit_rejections_def demo_halves_def demo_round_plan_def err_if_def fmin_def fmax_def)
qed

text \<open>A hash that maps every text to the same one, and the request that is made of the round plan.\<close>

definition demo_hash :: "string \<Rightarrow> string" where
  "demo_hash s = ''h''"

lemma demo_digest: "plain_json (VDict d) \<Longrightarrow> json_digest demo_hash d = Inr ''h''"
  using json_digest_plain[of d demo_hash] by (auto simp: json_digest_def demo_hash_def split: option.splits)

lemmas wire_dicts = candidate_dict_def signature_provenance_def layer_dict_def device_dict_def link_dict_def
  constraints_dict_def approved_mode_dict_def partition_dict_def graph_node_dict_def graph_edge_dict_def
  block_dict_def envelope_dict_def context_dict_def structure_dict_def model_registry_dict_def opt_json_def list_all_iff

definition demo_request :: PartitionPlanningRequest where
  "demo_request = legacy_adapt demo_hash demo_halves"

definition demo_normalized :: NormalizedPartitionRequest where
  "demo_normalized = \<lparr>nr_plan_type = ''inference'', nr_job_id = ''job-1'', nr_model_id = ''m1'',
     nr_approved_model_version = ''legacy-h'', nr_approved_execution_mode = fr_execution_mode demo_halves,
     nr_participants = [''edge-a'', ''edge-b''], nr_layers = fr_layers demo_halves,
     nr_devices = fr_devices demo_halves, nr_network_links = fr_network_links demo_halves,
     nr_constraints = fr_constraints demo_halves, nr_context_snapshot_id = ''legacy-snapshot-job-1'',
     nr_context_snapshot_hash = ''h'', nr_input_signature = ''h'', nr_legacy_input = True,
     nr_workload_forecast_available = False, nr_workload_forecast = None\<rparr>"

lemma demo_process: "process_request demo_hash demo_request = Inr demo_normalized"
proof -
  have texts: "strip ''edge'' = ''edge''" "strip ''legacy-h'' = ''legacy-h''" by code_simp+
  have fields: "fr_job_id demo_halves = ''job-1''" "fr_model_id demo_halves = ''m1''"
    "fr_participants demo_halves = [''edge-a'', ''edge-b'']"
    "am_name (fr_execution_mode demo_halves) = ''edge''" "am_approved (fr_execution_mode demo_halves)"
    "am_approved_by (fr_execution_mode demo_halves) = ''ops''" "am_approval_ref (fr_execution_mode demo_halves) = ''r1''"
    "length (fr_layers demo_halves) = 2" "map rd_device_id (fr_devices demo_halves) = [''edge-a'', ''edge-b'']"
    "map link_pair (fr_network_links demo_halves) = [(''edge-a'', ''edge-b'')]"
    by (simp_all add: demo_halves_def demo_round_plan_def demo_device_def link_pair_def)
  have version: "legacy_model_version demo_hash m = ''legacy-h''" for m
    by (simp add: legacy_model_version_def demo_hash_def)
  have layers: "request_layers demo_request = fr_layers demo_halves"
    using fields(8) by (auto simp: request_layers_def demo_request_def legacy_adapt_def Let_def)
  have "validate_feasibility demo_request (fr_layers demo_halves) = Inr ()"
    using fields by (auto simp: validate_feasibility_def demo_request_def legacy_adapt_def Let_def required_pairs_def)
  moreover have "deterministic_hash demo_hash (prq_context demo_request) = Inr ''h''"
    by (auto simp: deterministic_hash_def demo_request_def legacy_adapt_def Let_def wire_dicts
        split: option.split intro!: demo_digest)
  moreover have "request_signature demo_hash demo_request mode layers hash = Inr ''h''" for mode layers hash
    by (auto simp: request_signature_def demo_request_def legacy_adapt_def Let_def wire_dicts
        split: option.split intro!: demo_digest)
  moreover have "approved_mode demo_request = Inr (fr_execution_mode demo_halves)"
    using fields texts by (simp add: approved_mode_def demo_request_def legacy_adapt_def Let_def)
  ultimately show ?thesis using layers fields
    by (simp add: process_request_def Let_def demo_normalized_def plan_types_def)
      (simp add: demo_request_def legacy_adapt_def Let_def version texts)
qed

definition demo_strategy :: InferencePartitionStrategy where
  "demo_strategy = \<lparr>st_strategy_id = ''inference-partition-v1'', st_strategy_version = ''1.0'',
     st_policy_version = ''1'', st_objective_weights = [], st_base_confidence = FFin 0,
     st_missing_forecast_penalty = FFin 0, is_supported_modes = [''edge''], is_legacy_input_penalty = FFin 0\<rparr>"

definition demo_planner :: PartitionPlanner where
  "demo_planner = new_planner demo_hash demo_planner_policy
     [(''inference'', ''edge'', InferenceStrategy demo_strategy)] DETERMINISTIC None"

definition demo_intent :: PartitionIntent where
  "demo_intent = intent demo_strategy demo_normalized [1] [0, 2] inference_rules
     (FFin 0, [''workload_forecast_missing: confidence reduced'', ''legacy_input: confidence reduced''])"

lemma demo_intent_fields [simp]:
  "pi_strategy_id demo_intent = ''inference-partition-v1''" "pi_strategy_version demo_intent = ''1.0''"
  by (simp_all add: demo_intent_def intent_def demo_strategy_def)

lemma demo_intend: "normalize_and_intend demo_hash demo_planner demo_request = Inr (demo_normalized, demo_intent)"
proof -
  have mode: "am_name (nr_approved_execution_mode demo_normalized) = ''edge''"
    "length (nr_layers demo_normalized) = 2" "nr_plan_type demo_normalized = ''inference''"
    "\<not> nr_workload_forecast_available demo_normalized" "nr_legacy_input demo_normalized"
    by (simp_all add: demo_normalized_def demo_halves_def demo_round_plan_def)
  have "build_partition_intent (InferenceStrategy demo_strategy) demo_normalized = Inr demo_intent"
    using mode by (simp add: inference_intent_def Let_def planning_confidence_def demo_intent_def numeral_2_eq_2)
      (simp add: demo_strategy_def fsub_def)
  with mode show ?thesis
    by (simp add: normalize_and_intend_def demo_process demo_planner_def new_planner_def)
qed

lemma demo_confidence: "intent_confidence_of (pi_assumptions demo_intent) = Inr (FFin 0)"
  by code_simp

lemma demo_round_plan_of: "round_plan_from_normalized demo_normalized = demo_halves"
  by (simp add: round_plan_from_normalized_def demo_normalized_def demo_halves_def demo_round_plan_def)

lemma demo_cut: "cut_candidate demo_planner_policy demo_halves no_limits [''edge-a'', ''edge-b''] c \<longleftrightarrow> c = demo_planned"
proof -
  have cut: "cuts splits 2 \<and> length splits = 1 \<longleftrightarrow> splits = [1]" for splits
    by (cases splits) (auto simp: cuts_def)
  have "length (fr_layers demo_halves) = 2" by (simp add: demo_halves_def)
  with cut have "allowed_cut demo_halves no_limits [''edge-a'', ''edge-b''] splits \<longleftrightarrow> splits = [1]" for splits
    by (simp add: allowed_cut_def no_limits_def)
  moreover have "ca_split_points demo_planned = [1]" by (simp add: demo_planned_def)
  ultimately show ?thesis using demo_build
    unfolding cut_candidate_def no_limits_def plan_limits.simps by (metis sum.inject(2) build_candidate_splits)
qed

lemma demo_planner_relies:
  "sizes_ok demo_halves" "references_ok demo_planner_policy"
  "comparable demo_hash demo_planner_policy demo_halves no_limits [''edge-a'', ''edge-b''] version"
  "strip ''1.0'' \<noteq> ''''" "length (fr_layers demo_halves) = 2" "nr_plan_type demo_normalized = ''inference''"
  "[''edge-a'', ''edge-b''] = filter (\<lambda>p. p \<notin> set (lim_devices no_limits)) (fr_participants demo_halves)"
proof -
  show "sizes_ok demo_halves" by (simp add: sizes_ok_def layer_bytes_def demo_halves_def demo_half_def)
  show "references_ok demo_planner_policy" by (simp add: references_ok_def demo_planner_policy_def)
  show "comparable demo_hash demo_planner_policy demo_halves no_limits [''edge-a'', ''edge-b''] version"
    unfolding comparable_def demo_cut by (simp add: demo_planned_def)
  show "strip ''1.0'' \<noteq> ''''" by code_simp
qed (simp_all add: demo_halves_def demo_round_plan_def demo_normalized_def no_limits_def)

theorem planner_finds_best_cut_witness:
  "\<exists>plan. run_plan demo_hash demo_planner ''p1'' demo_halves no_limits demo_normalized demo_intent = Inr plan \<and>
     pp_selected_candidate plan = Some demo_planned \<and> pp_valid plan"
proof -
  note best = planner_finds_best_cut[OF demo_halves_ok demo_planner_relies(1,7) _ _ demo_planner_def
      demo_planner_relies(2) _ _ _ demo_planner_relies(3), of demo_normalized demo_intent "''p1''"]
  then have "\<exists>plan. run_plan demo_hash demo_planner ''p1'' demo_halves no_limits demo_normalized demo_intent = Inr plan \<and>
      (case pp_selected_candidate plan of None \<Rightarrow> \<not> ca_valid demo_planned | Some c \<Rightarrow> pp_valid plan \<and> c = demo_planned)"
    unfolding best_cut_def demo_cut by (fastforce simp: demo_planner_relies(4-6) split: option.splits)
  then show ?thesis by (auto simp: demo_planned_def split: option.splits)
qed

lemma demo_first: "(\<And>c. c \<in> set cs \<longleftrightarrow> c = demo_planned) \<Longrightarrow> first_feasible cs = Some demo_planned"
  using first_feasible_None[of cs] find_mem[of ca_valid "sort_by candidate_before cs"]
  by (cases "first_feasible cs") (auto simp: first_feasible_def list_all_iff demo_planned_def)

lemma demo_planner_run:
  "\<exists>plan. run_plan demo_hash demo_planner ''p1'' demo_halves no_limits demo_normalized demo_intent = Inr plan \<and>
     pp_selected_candidate plan = Some demo_planned"
proof -
  have members: "set [''edge-a'', ''edge-b''] \<subseteq> set (fr_participants demo_halves)"
    by (simp add: demo_halves_def demo_round_plan_def)
  have "\<exists>plan cs. plan_split demo_hash demo_planner ''p1'' demo_halves [''edge-a'', ''edge-b''] no_limits demo_normalized
        demo_intent = Inr plan \<and> (\<forall>c. c \<in> set cs \<longleftrightarrow> c = demo_planned) \<and>
      pp_selected_candidate plan = first_feasible cs \<and> pp_valid plan = (first_feasible cs \<noteq> None)"
    using plan_split_best[OF demo_halves_ok demo_planner_relies(1) members _ _ demo_planner_def demo_planner_relies(2)
        _ _ demo_planner_relies(3), of demo_normalized demo_intent]
    by (simp add: demo_cut demo_planner_relies(4-6))
  then obtain plan cs where "plan_split demo_hash demo_planner ''p1'' demo_halves [''edge-a'', ''edge-b''] no_limits
      demo_normalized demo_intent = Inr plan" "pp_selected_candidate plan = first_feasible cs"
    and "\<And>c. c \<in> set cs \<longleftrightarrow> c = demo_planned" by blast
  with demo_first[of cs] show ?thesis
    unfolding run_plan_def Let_def demo_planner_relies(7)[symmetric] by (simp add: demo_planner_relies(5))
qed

theorem planner_agrees_with_validator_witness:
  "\<exists>plan. plan_request demo_hash demo_planner ''p1'' demo_request = Inr plan \<and>
     pp_selected_candidate plan = Some demo_planned \<and> validate_legacy 6 demo_halves plan = Inr (validation_result [])"
proof -
  from demo_planner_run obtain plan' where run:
    "run_plan demo_hash demo_planner ''p1'' demo_halves no_limits demo_normalized demo_intent = Inr plan'"
    "pp_selected_candidate plan' = Some demo_planned" by blast
  have "plan_signature demo_hash a b c d plan' = Inr ''h''" for a b c d
    unfolding plan_signature_def
    by (rule demo_digest) (auto simp: run(2) wire_dicts split: option.split)
  with run demo_intend demo_confidence obtain plan where
    plan: "plan_request demo_hash demo_planner ''p1'' demo_request = Inr plan" "pp_selected_candidate plan = Some demo_planned"
    by (auto simp: plan_request_def with_v2_metadata_def demo_round_plan_of)
  have "registry_fits (pl_strategy_registry demo_planner)"
    by (simp add: registry_fits_def demo_planner_def new_planner_def demo_strategy_def)
  moreover have "ca_valid demo_planned" by (simp add: demo_planned_def)
  moreover have "2 * length (nr_participants demo_normalized) + 1 < 6" by (simp add: demo_normalized_def)
  moreover have "pc_max_end_to_end_latency_ms (nr_constraints demo_normalized) = None"
    by (simp add: demo_normalized_def demo_halves_def demo_round_plan_def)
  ultimately have "validate_legacy 6 demo_halves plan = Inr (validation_result [])"
    using planner_agrees_with_validator[of demo_planner demo_hash demo_request demo_normalized demo_intent "''p1''" plan
        demo_planned 6] demo_halves_ok demo_intend plan
    by (simp add: demo_round_plan_of err_if_def)
  with plan show ?thesis by blast
qed

end
