(* ===== verification/Spec2Isabelle.thy ===== *)
theory Spec2Isabelle
  imports RunReport LockedRun PartitionValidator RuntimeGuarantees SimpleCoordinators AdapterContracts
    PlannerOptimum
begin

text \<open>
  Verification of the supervised Kubernetes recovery program under
  \<open>src/src/aiops_k8s_agents\<close>. Agents observe a deployment, diagnose it, propose
  recovery actions, review each other's proposals, and a coordinator lets at most a bounded number
  of validated actions reach the cluster and reports what happened.

  \<^bold>\<open>Runtime of the language.\<close>
  \<open>Prelude\<close> holds results with exceptions (an exception on the left), insertion-ordered
  dictionaries and list lemmas; \<open>PyText\<close> the string methods the code uses and the shell
  lexer \<open>shlex.split\<close>; \<open>PyFloat\<close> binary64 arithmetic as exact rationals with
  explicit rounding, infinities and NaN; \<open>PyRepr\<close> \<open>repr\<close>, \<open>str\<close> and
  truth values; \<open>Effects\<close> the program state, a world the environment owns and a trace of
  effects, with the sequencing operations of the code (bind, \<open>try\<close>, \<open>with\<close>,
  calls into the environment); \<open>TraceLogic\<close> an audit monitor over traces and its rules.

  \<^bold>\<open>The program.\<close>
  \<open>Models\<close>: models.py, mutual\_supervision\_models.py, and the values adapters return.
  \<open>Validator\<close>: validator.py. \<open>Executor\<close>: executor.py. \<open>Protocol\<close>:
  research\_protocol.py. \<open>Consensus\<close>: consensus.py. \<open>RecoveryMonitor\<close>:
  recovery\_monitor.py. \<open>AdapterOutput\<close>, \<open>Report\<close>, \<open>Negotiation\<close>
  and \<open>Coordinator\<close>: mutual\_supervision.py, in the order of its functions; \<open>run\<close>
  is cut into one definition per \<open>try\<close> block and loop body. \<open>RunSafety\<close> and
  \<open>RunReport\<close> hold the properties of a whole run.
  \<open>OperationLock\<close>: operation\_lock.py as a step machine of file system calls that contenders
  interleave, and its methods run alone; \<open>LockedRun\<close>: a run of the coordinator with this lock.
  \<open>RuntimeModels\<close>: experiment\_runtime\_models.py. \<open>JobStore\<close>: experiment\_jobs.py, and
  \<open>JobLedger\<close> its invariant under every interleaving of writes. \<open>JobRunner\<close>:
  experiment\_job\_runner.py, the worker that runs a stored experiment.
  \<open>ExperimentSession\<close>: experiment\_session.py. \<open>ChaosAdapter\<close>: chaos\_adapter.py, the faults
  of an experiment. \<open>ExperimentRuntime\<close>: experiment\_runtime.py, one experiment from admission to
  its report; \<open>RuntimeContract\<close>, \<open>RuntimeSafety\<close> and \<open>RuntimeGuarantees\<close> its
  properties, down to the job that runs it. \<open>RecoveryEvaluator\<close>: recovery\_evaluator.py, the
  reward of an experiment; \<open>ActionPolicy\<close>: action\_policy.py, the policy learned from rewards.
  \<open>Agents\<close>: the diagnosing, proposing and reviewing agents; \<open>AgentAdapters\<close>:
  agent\_adapters.py, which connects them to the coordinator, with \<open>AdapterContracts\<close> for what
  the coordinator may rely on; \<open>SimpleCoordinators\<close>: coordinator.py and autonomous.py.
  \<open>PyNumber\<close> reads numbers from text. \<open>PartitionRanking\<close> and \<open>PartitionModels\<close>:
  partition\_ranking\_models.py and partition\_models.py, the documents of model partitioning;
  \<open>PartitionGraph\<close> and \<open>PartitionValidator\<close>: partition\_validator.py.
  \<open>PartitionContext\<close>: partition\_context.py and partition\_coordination.py, the planning request;
  \<open>PartitionStrategy\<close>: partition\_common.py and partition\_strategies.py, its normal form and the
  intent of the strategy; \<open>PartitionFeatures\<close>: partition\_features.py; \<open>PartitionArtifact\<close>:
  the model artifacts of partition\_ranker\_repository.py; \<open>PartitionSelection\<close>:
  partition\_ranking.py, the rankers and the guarded selector; \<open>PartitionFeedback\<close>: the directives
  of partition\_feedback.py; \<open>PartitionPlanner\<close>: model\_partition\_agent.py, which builds a candidate
  for every cut of the layers, selects one and plans again after failures. \<open>PlannerGraph\<close> describes
  the candidate that is built for a cut, \<open>PlannerSafety\<close> connects it with the validator,
  \<open>PlannerTotal\<close> shows that planning returns, and \<open>PlannerOptimum\<close> that it selects the best
  feasible cut.

  \<^bold>\<open>Parameters.\<close>
  What is not code of the repository is an argument: SHA-256, \<open>uuid4\<close>, the JSON decoder, the
  process runners, the adapters (which may answer with any value or exception), the evidence
  provider, the recovery monitor of the coordinator, the event store and the runtime control. No
  hypothesis restricts them where the coordinator is concerned; the theorems hold for every
  environment. The lock is an argument of the coordinator and is closed by \<open>OperationLock\<close> in
  \<open>LockedRun\<close>. The worker of a job takes the runtime and the AIOpsLab adapter as arguments; they
  are assumed to reach the job's record only through the event sink and to return JSON values
  (\<open>runner_ok\<close>), and other threads to keep the job in the store. \<open>RuntimeGuarantees\<close>
  closes this argument with the modelled runtime. The runtime takes kubectl, the clock, the event
  sink and the admission check of the coordinator class (\<open>xr_admit\<close>) as arguments.

  \<^bold>\<open>Conventions.\<close>
  Strings are sequences of 8-bit code points. Enumeration members that the code compares with
  strings are strings of the model where adapters may return them. There is one float zero.
  \<open>sum\<close> of floats is the compensated sum of Python 3.12 and later. \<open>int(text)\<close> knows
  the interpreter's limit of 4300 digits. Dynamic type tests on fields whose type the model fixes
  are not repeated. The loops of the code are bounded by lists or by the protocol's round counts, so
  every definition is total and needs no fuel; only the cycle search counts the room on its stack. A JSON column holds the value its text denotes; rows
  are listed in the order of their \<open>rowid\<close>. One lock object serves one run; processes are probed
  with signal 0 as on POSIX.

  \<^bold>\<open>Not modelled.\<close>
  The providers of evidence (HTTP and kubectl around the snapshot record), the admission check that
  compares Python classes, the directories and signatures in which plans, artifacts and events are
  kept, the training of the ranker and the evaluation of plans against observations, the feedback of
  a running plan with its ISO dates, the second version of the plan validation, recovery statistics, the AIOpsLab
  benchmark, and the web, command line and group chat front ends: file and network I/O, class
  reflection or external frameworks around the modelled core.
\<close>

end
